(* ===== verification/Prelude.thy ===== *)
theory Prelude
  imports Complex_Main "HOL-Library.Word" "HOL-Library.AList" "HOL-Library.Multiset"
begin

text \<open>
  The shared layer of the development: Go values and effects as the other theories use them.

  \<^item> Results: \<open>'a outcome\<close> is what a Go function returning \<open>(value, error)\<close> can do: a
    value, an error, or a panic (a nil dereference). An error keeps what the program can observe
    of it: its DSS code (\<open>stacktrace.GetCode\<close>) and the message of its root cause
    (\<open>stacktrace.RootCause\<close>); \<open>stacktrace.Propagate\<close>, which only adds log lines, is the
    identity.
  \<^item> Stateful code: \<open>('s, 'a) op\<close> maps a state to an outcome and the state left behind. The
    state survives an error: Go code that fails half way has already changed its store, and the
    rollback is done elsewhere (theory \<open>Raft_Store\<close>).
  \<^item> Go maps: association lists with distinct keys. The order of the list is the iteration order
    of \<open>range\<close>, which Go leaves open, so theorems hold for every list with the given content.
  \<^item> Times: nanoseconds since the Unix epoch as \<open>int\<close>; \<open>Sub\<close> saturates to the 64-bit
    range of \<open>time.Duration\<close>.
\<close>

section \<open>Collections of rules\<close>

named_theorems monad_simps \<open>success and failure of composed operations\<close>
named_theorems pres_intros \<open>an operation keeps an invariant\<close>
named_theorems gomap_simps \<open>Go maps as association lists\<close>

section \<open>Errors and outcomes\<close>

text \<open>The DSS error codes, in the order of the source's \<open>iota\<close> block.\<close>

datatype error_code =
    AreaTooLarge | AlreadyExists | BadRequest | VersionMismatch | NotFound
  | PermissionDenied | Exhausted | Unauthenticated | NotImplemented | Unavailable
  | PreconditionFailed

datatype dss_error = DssError (GetCode: "error_code option") (RootCause: string)

abbreviation NewError :: "string \<Rightarrow> dss_error" where
  "NewError m \<equiv> DssError None m"

abbreviation NewErrorWithCode :: "error_code \<Rightarrow> string \<Rightarrow> dss_error" where
  "NewErrorWithCode c m \<equiv> DssError (Some c) m"

definition PropagateWithCode :: "error_code option \<Rightarrow> dss_error \<Rightarrow> dss_error" where
  "PropagateWithCode c e = DssError c (RootCause e)"

lemma PropagateWithCode_sel [simp]:
  "GetCode (PropagateWithCode c e) = c" "RootCause (PropagateWithCode c e) = RootCause e"
  by (simp_all add: PropagateWithCode_def)

lemma PropagateWithCode_GetCode [simp]: "PropagateWithCode (GetCode e) e = e"
  by (cases e) (simp add: PropagateWithCode_def)

datatype 'a outcome = Ok 'a | Err dss_error | Panic

fun obind :: "'a outcome \<Rightarrow> ('a \<Rightarrow> 'b outcome) \<Rightarrow> 'b outcome" where
  "obind (Ok x) f = f x"
| "obind (Err e) f = Err e"
| "obind Panic f = Panic"

fun omap_err :: "(dss_error \<Rightarrow> dss_error) \<Rightarrow> 'a outcome \<Rightarrow> 'a outcome" where
  "omap_err g (Ok x) = Ok x"
| "omap_err g (Err e) = Err (g e)"
| "omap_err g Panic = Panic"

definition is_Ok :: "'a outcome \<Rightarrow> bool" where
  "is_Ok r = (case r of Ok _ \<Rightarrow> True | _ \<Rightarrow> False)"

definition outcome_code :: "'a outcome \<Rightarrow> error_code option" where
  "outcome_code r = (case r of Err e \<Rightarrow> GetCode e | _ \<Rightarrow> None)"

lemma is_Ok_simps [simp]: "is_Ok (Ok x)" "\<not> is_Ok (Err e)" "\<not> is_Ok Panic"
  by (simp_all add: is_Ok_def)

lemma outcome_code_simps [simp]:
  "outcome_code (Ok x) = None" "outcome_code (Err e) = GetCode e" "outcome_code Panic = None"
  by (simp_all add: outcome_code_def)

lemma obind_Ok_iff [monad_simps]: "obind m f = Ok y \<longleftrightarrow> (\<exists>x. m = Ok x \<and> f x = Ok y)"
  by (cases m) auto

lemma obind_Err_iff [monad_simps]:
  "obind m f = Err e \<longleftrightarrow> m = Err e \<or> (\<exists>x. m = Ok x \<and> f x = Err e)"
  by (cases m) auto

lemma obind_Panic_iff [monad_simps]:
  "obind m f = Panic \<longleftrightarrow> m = Panic \<or> (\<exists>x. m = Ok x \<and> f x = Panic)"
  by (cases m) auto

lemma omap_err_iffs [monad_simps]:
  "omap_err g m = Ok x \<longleftrightarrow> m = Ok x"
  "omap_err g m = Panic \<longleftrightarrow> m = Panic"
  "omap_err g m = Err e \<longleftrightarrow> (\<exists>e'. m = Err e' \<and> e = g e')"
  by (cases m; auto)+

text \<open>\<open>*p\<close> for a pointer \<open>p\<close>: a nil dereference panics.\<close>

definition deref :: "'a option \<Rightarrow> 'a outcome" where
  "deref p = (case p of None \<Rightarrow> Panic | Some x \<Rightarrow> Ok x)"

lemma deref_simps [simp]: "deref None = Panic" "deref (Some x) = Ok x"
  by (simp_all add: deref_def)

section \<open>State passing with errors\<close>

type_synonym ('s, 'a) op = "'s \<Rightarrow> 'a outcome \<times> 's"

definition ret :: "'a \<Rightarrow> ('s, 'a) op" where
  "ret x s = (Ok x, s)"

definition fail :: "dss_error \<Rightarrow> ('s, 'a) op" where
  "fail e s = (Err e, s)"

definition liftO :: "'a outcome \<Rightarrow> ('s, 'a) op" where
  "liftO r s = (r, s)"

definition reads :: "('s \<Rightarrow> 'a outcome) \<Rightarrow> ('s, 'a) op" where
  "reads f s = (f s, s)"

definition bindE :: "('s, 'a) op \<Rightarrow> ('a \<Rightarrow> ('s, 'b) op) \<Rightarrow> ('s, 'b) op" where
  "bindE m f s = (case m s of
      (Ok x, t) \<Rightarrow> f x t
    | (Err e, t) \<Rightarrow> (Err e, t)
    | (Panic, t) \<Rightarrow> (Panic, t))"

definition modifies :: "('s \<Rightarrow> 's) \<Rightarrow> ('s, unit) op" where
  "modifies f s = (Ok (), f s)"

lemma op_simps [simp]:
  "ret x s = (Ok x, s)" "fail e s = (Err e, s)" "liftO r s = (r, s)" "reads f s = (f s, s)"
  "modifies g s = (Ok (), g s)"
  by (simp_all add: ret_def fail_def liftO_def reads_def modifies_def)

lemma bindE_ret [simp]: "bindE (ret x) f = f x"
  by (rule ext) (simp add: bindE_def)

lemma bindE_fail [simp]: "bindE (fail e) f = fail e"
  by (rule ext) (simp add: bindE_def)

lemma bindE_Ok [monad_simps]:
  "bindE m f s = (Ok y, t) \<longleftrightarrow> (\<exists>x u. m s = (Ok x, u) \<and> f x u = (Ok y, t))"
  by (auto simp: bindE_def split: prod.splits outcome.splits)

lemma bindE_Err [monad_simps]:
  "bindE m f s = (Err e, t) \<longleftrightarrow>
     m s = (Err e, t) \<or> (\<exists>x u. m s = (Ok x, u) \<and> f x u = (Err e, t))"
  by (auto simp: bindE_def split: prod.splits outcome.splits)

lemma bindE_Panic [monad_simps]:
  "bindE m f s = (Panic, t) \<longleftrightarrow>
     m s = (Panic, t) \<or> (\<exists>x u. m s = (Ok x, u) \<and> f x u = (Panic, t))"
  by (auto simp: bindE_def split: prod.splits outcome.splits)

lemma bindE_step [simp]:
  "m s = (Ok x, t) \<Longrightarrow> bindE m f s = f x t"
  "m s = (Err e, t) \<Longrightarrow> bindE m f s = (Err e, t)"
  "m s = (Panic, t) \<Longrightarrow> bindE m f s = (Panic, t)"
  by (simp_all add: bindE_def)

subsection \<open>Invariants of operations\<close>

text \<open>\<open>preserves I m\<close>: whatever \<open>m\<close> returns, it leaves a state with \<open>I\<close> behind when it
  started in one. This is about the state after errors and panics too.\<close>

definition preserves :: "('s \<Rightarrow> bool) \<Rightarrow> ('s, 'a) op \<Rightarrow> bool" where
  "preserves I m \<longleftrightarrow> (\<forall>s. I s \<longrightarrow> I (snd (m s)))"

lemma preservesD: "preserves I m \<Longrightarrow> I s \<Longrightarrow> m s = (r, t) \<Longrightarrow> I t"
  by (fastforce simp: preserves_def)

lemma preservesI: "(\<And>s r t. I s \<Longrightarrow> m s = (r, t) \<Longrightarrow> I t) \<Longrightarrow> preserves I m"
  by (metis preserves_def prod.collapse)

lemma preserves_basic [pres_intros]:
  "preserves I (ret x)" "preserves I (fail e)" "preserves I (liftO r)" "preserves I (reads f)"
  by (simp_all add: preserves_def)

lemma preserves_modifies [pres_intros]: "(\<And>s. I s \<Longrightarrow> I (f s)) \<Longrightarrow> preserves I (modifies f)"
  by (simp add: preserves_def)

lemma preserves_bindE [pres_intros]:
  "preserves I m \<Longrightarrow> (\<And>x. preserves I (f x)) \<Longrightarrow> preserves I (bindE m f)"
  by (auto simp: preserves_def bindE_def split: prod.splits outcome.splits; fastforce)

lemma preserves_if [pres_intros]:
  "preserves I a \<Longrightarrow> preserves I b \<Longrightarrow> preserves I (if c then a else b)"
  by simp

lemma preserves_option [pres_intros]:
  "preserves I a \<Longrightarrow> (\<And>x. preserves I (b x)) \<Longrightarrow>
     preserves I (case z of None \<Rightarrow> a | Some x \<Rightarrow> b x)"
  by (cases z) simp_all

lemma preserves_prod [pres_intros]:
  "(\<And>x y. preserves I (f x y)) \<Longrightarrow> preserves I (case p of (x, y) \<Rightarrow> f x y)"
  by (cases p) simp

lemma preserves_let [pres_intros]: "preserves I (f x) \<Longrightarrow> preserves I (let y = x in f y)"
  by simp

text \<open>\<open>readonly m\<close>: the operation leaves every state as it is.\<close>

definition readonly :: "('s, 'a) op \<Rightarrow> bool" where
  "readonly m \<longleftrightarrow> (\<forall>s. snd (m s) = s)"

lemma readonlyD: "readonly m \<Longrightarrow> m s = (r, t) \<Longrightarrow> t = s"
  by (metis readonly_def snd_conv)

lemma readonly_basic [pres_intros]:
  "readonly (ret x)" "readonly (fail e)" "readonly (liftO r)" "readonly (reads f)" "readonly (Pair r)"
  by (simp_all add: readonly_def)

lemma readonly_bindE [pres_intros]:
  "readonly m \<Longrightarrow> (\<And>x. readonly (f x)) \<Longrightarrow> readonly (bindE m f)"
  by (auto simp: readonly_def bindE_def split: prod.splits outcome.splits; metis snd_conv)

lemma readonly_if [pres_intros]:
  "readonly a \<Longrightarrow> readonly b \<Longrightarrow> readonly (if c then a else b)"
  by simp

lemma readonly_option [pres_intros]:
  "readonly a \<Longrightarrow> (\<And>x. readonly (b x)) \<Longrightarrow> readonly (case z of None \<Rightarrow> a | Some x \<Rightarrow> b x)"
  by (cases z) simp_all

lemma readonly_prod [pres_intros]:
  "(\<And>x y. readonly (f x y)) \<Longrightarrow> readonly (case p of (x, y) \<Rightarrow> f x y)"
  by (cases p) simp

lemma readonly_let [pres_intros]: "readonly (f x) \<Longrightarrow> readonly (let y = x in f y)"
  by simp

lemma readonly_preserves: "readonly m \<Longrightarrow> preserves I m"
  by (simp add: readonly_def preserves_def)

section \<open>Go maps\<close>

type_synonym ('k, 'v) gomap = "('k \<times> 'v) list"

definition wf_gomap :: "('k, 'v) gomap \<Rightarrow> bool" where
  "wf_gomap m \<longleftrightarrow> distinct (map fst m)"

definition map_values :: "('v \<Rightarrow> 'w) \<Rightarrow> ('k, 'v) gomap \<Rightarrow> ('k, 'w) gomap" where
  "map_values f m = map (\<lambda>(k, v). (k, f v)) m"

lemma wf_gomap_Nil [simp, gomap_simps]: "wf_gomap []"
  by (simp add: wf_gomap_def)

lemma wf_gomap_update [simp, gomap_simps]: "wf_gomap m \<Longrightarrow> wf_gomap (AList.update k v m)"
  by (simp add: wf_gomap_def distinct_update)

lemma wf_gomap_delete [simp, gomap_simps]: "wf_gomap m \<Longrightarrow> wf_gomap (AList.delete k m)"
  by (simp add: wf_gomap_def distinct_delete)

lemma wf_gomap_map_values [simp, gomap_simps]: "wf_gomap (map_values f m) = wf_gomap m"
  by (simp add: wf_gomap_def map_values_def split_def comp_def)

lemma map_of_map_values [simp, gomap_simps]:
  "map_of (map_values f m) k = map_option f (map_of m k)"
  by (induction m) (auto simp: map_values_def)

lemma map_of_update [gomap_simps]: "map_of (AList.update k v m) = (map_of m)(k \<mapsto> v)"
  by (rule update_conv')

lemma map_of_delete [gomap_simps]: "map_of (AList.delete k m) = (map_of m)(k := None)"
  by (rule delete_conv')

lemma fst_map_values [simp]: "map fst (map_values f m) = map fst m"
  by (simp add: map_values_def split_def comp_def)

lemma snd_map_values [simp]: "map snd (map_values f m) = map f (map snd m)"
  by (simp add: map_values_def split_def comp_def)

lemma map_values_id [simp]: "map_values (\<lambda>x. x) m = m"
  by (simp add: map_values_def)

lemma map_values_same: "(\<And>v. v \<in> set (map snd m) \<Longrightarrow> f v = v) \<Longrightarrow> map_values f m = m"
  by (induction m) (auto simp: map_values_def)

lemma wf_gomap_map_of: "wf_gomap m \<Longrightarrow> (k, v) \<in> set m \<longleftrightarrow> map_of m k = Some v"
  by (simp add: wf_gomap_def)

lemma values_map_of: "wf_gomap m \<Longrightarrow> v \<in> set (map snd m) \<longleftrightarrow> (\<exists>k. map_of m k = Some v)"
  by (force simp: wf_gomap_map_of [symmetric])

lemma values_ran: "wf_gomap m \<Longrightarrow> snd ` set m = ran (map_of m)"
  by (simp add: wf_gomap_def ran_distinct)

lemma delete_absent: "map_of m k = None \<Longrightarrow> AList.delete k m = m"
  by (simp add: map_of_eq_None_iff)

lemma length_delete_wf:
  "wf_gomap m \<Longrightarrow> map_of m k = Some v \<Longrightarrow> length m = Suc (length (AList.delete k m))"
proof (induction m)
  case (Cons p m)
  show ?case
  proof (cases "fst p = k")
    case True
    with Cons.prems have "map_of m k = None"
      by (auto simp: wf_gomap_def map_of_eq_None_iff)
    with True show ?thesis by (cases p) (simp add: delete_absent)
  next
    case False
    with Cons show ?thesis by (cases p) (simp add: wf_gomap_def)
  qed
qed simp

text \<open>A map whose values carry their key, and a map all of whose values have a property.\<close>

definition keyed :: "('v \<Rightarrow> 'k) \<Rightarrow> ('k, 'v) gomap \<Rightarrow> bool" where
  "keyed f m \<longleftrightarrow> (\<forall>k v. map_of m k = Some v \<longrightarrow> f v = k)"

definition all_values :: "('v \<Rightarrow> bool) \<Rightarrow> ('k, 'v) gomap \<Rightarrow> bool" where
  "all_values P m \<longleftrightarrow> (\<forall>k v. map_of m k = Some v \<longrightarrow> P v)"

lemma keyed_simps [simp, gomap_simps]:
  "keyed f []"
  "f v = k \<Longrightarrow> keyed f m \<Longrightarrow> keyed f (AList.update k v m)"
  "keyed f m \<Longrightarrow> keyed f (AList.delete k m)"
  by (auto simp: keyed_def map_of_update map_of_delete)

lemma all_values_simps [simp, gomap_simps]:
  "all_values P []"
  "P v \<Longrightarrow> all_values P m \<Longrightarrow> all_values P (AList.update k v m)"
  "all_values P m \<Longrightarrow> all_values P (AList.delete k m)"
  by (auto simp: all_values_def map_of_update map_of_delete)

lemma keyed_map_values: "(\<And>v. f (g v) = f v) \<Longrightarrow> keyed f (map_values g m) = keyed f m"
  by (auto simp: keyed_def) metis

lemma keyedD: "keyed f m \<Longrightarrow> map_of m k = Some v \<Longrightarrow> f v = k"
  by (simp add: keyed_def)

lemma all_valuesD: "wf_gomap m \<Longrightarrow> all_values P m \<Longrightarrow> r \<in> set (map snd m) \<Longrightarrow> P r"
  using values_map_of [of m r] by (auto simp: all_values_def)

lemma length_update_wf:
  "length (AList.update k v m) = (if map_of m k = None then Suc (length m) else length m)"
  by (induction m) auto

subsection \<open>Loops over a Go map\<close>

text \<open>
  The search loops of the stores:
  \<^verbatim>\<open>
  for _, rec := range m {
      if !sel(rec) { continue }
      out = append(out, f(rec))
      if stop(len(out)) { break }
  }
  \<close>
\<close>

fun range_until :: "(nat \<Rightarrow> bool) \<Rightarrow> ('r \<Rightarrow> bool) \<Rightarrow> ('r \<Rightarrow> 'm) \<Rightarrow> 'm list \<Rightarrow> 'r list \<Rightarrow> 'm list" where
  "range_until stop sel f out [] = out"
| "range_until stop sel f out (r # rs) =
     (if \<not> sel r then range_until stop sel f out rs
      else let out' = out @ [f r]
           in if stop (length out') then out' else range_until stop sel f out' rs)"

lemma range_until_ge:
  "length out < k \<Longrightarrow>
   range_until (\<lambda>n. k \<le> n) sel f out rs = out @ take (k - length out) (map f (filter sel rs))"
proof (induction rs arbitrary: out)
  case (Cons r rs)
  have "k - length out = Suc (k - Suc (length out))" using Cons.prems by simp
  with Cons show ?case by (cases "Suc (length out) < k") (auto simp: Let_def)
qed simp

lemma range_until_gt:
  "length out \<le> k \<Longrightarrow>
   range_until (\<lambda>n. k < n) sel f out rs = out @ take (Suc k - length out) (map f (filter sel rs))"
  using range_until_ge [of out "Suc k" sel f rs] by (simp add: Suc_le_eq)

lemma range_until_never:
  "range_until (\<lambda>n. False) sel f out rs = out @ map f (filter sel rs)"
  by (induction rs arbitrary: out) (auto simp: Let_def)

text \<open>The same loop when the condition dereferences pointers of the record.\<close>

fun range_until_deref ::
    "(nat \<Rightarrow> bool) \<Rightarrow> ('r \<Rightarrow> bool outcome) \<Rightarrow> ('r \<Rightarrow> 'm) \<Rightarrow> 'm list \<Rightarrow> 'r list \<Rightarrow> 'm list outcome" where
  "range_until_deref stop sel f out [] = Ok out"
| "range_until_deref stop sel f out (r # rs) =
     obind (sel r) (\<lambda>b.
       if \<not> b then range_until_deref stop sel f out rs
       else let out' = out @ [f r]
            in if stop (length out') then Ok out' else range_until_deref stop sel f out' rs)"

lemma range_until_deref_conv:
  "(\<And>r. r \<in> set rs \<Longrightarrow> sel r = Ok (p r)) \<Longrightarrow>
   range_until_deref stop sel f out rs = Ok (range_until stop p f out rs)"
  by (induction rs arbitrary: out) (auto simp: Let_def)

lemma range_until_deref_Panic:
  assumes "r \<in> set rs" "sel r = Panic" "\<And>r e. sel r \<noteq> Err e" "length out + length rs \<le> k"
  shows "range_until_deref (\<lambda>n. k \<le> n) sel f out rs = Panic"
  using assms
proof (induction rs arbitrary: out)
  case (Cons x rs)
  show ?case
  proof (cases "sel x")
    case (Ok b)
    then have "r \<in> set rs" "rs \<noteq> []" using Cons.prems by auto
    with Ok Cons show ?thesis by (cases rs) (auto simp: Let_def)
  qed (use Cons.prems in auto)
qed simp

text \<open>
  The loops that change the selected records of a map through their pointers and collect them:
  \<^verbatim>\<open>
  for _, rec := range m {
      if !sel(rec) { continue }
      change(rec)
      out = append(out, f(rec))
  }
  \<close>
\<close>

fun range_modify :: "('r \<Rightarrow> bool) \<Rightarrow> ('r \<Rightarrow> 'r) \<Rightarrow> ('r \<Rightarrow> 'm) \<Rightarrow> 'm list \<Rightarrow> ('k, 'r) gomap \<Rightarrow> 'm list \<times> ('k, 'r) gomap" where
  "range_modify sel change f out [] = (out, [])"
| "range_modify sel change f out ((k, r) # m) =
     (if \<not> sel r
      then (case range_modify sel change f out m of (out', m') \<Rightarrow> (out', (k, r) # m'))
      else let r' = change r
           in case range_modify sel change f (out @ [f r']) m of (out', m') \<Rightarrow> (out', (k, r') # m'))"

lemma range_modify_conv:
  "range_modify sel change f out m =
     (out @ map (f \<circ> change) (filter sel (map snd m)), map_values (\<lambda>r. if sel r then change r else r) m)"
  by (induction sel change f out m rule: range_modify.induct) (auto simp: map_values_def Let_def split: prod.splits)

section \<open>Values encoded with gob\<close>

text \<open>
  Of the encoding \<open>encoding/gob\<close> the program can see the following. A map arrives as a map, also when
  it is empty; a map field that was not sent arrives as nil. Pointers to numbers and strings are
  flattened: a field that points to the zero value is not transmitted and arrives as nil. A pointer to a
  time is transmitted whenever it is not nil, because times have an encoding of their own. Everything
  else arrives as it was sent. \<open>gob_data\<close> is what the decoder makes of some bytes: an envelope, or an
  error.
\<close>

datatype 'e gob_data = Gob 'e | NotGob dss_error

definition gob_map :: "('v \<Rightarrow> 'v) \<Rightarrow> ('k, 'v) gomap \<Rightarrow> ('k, 'v) gomap option" where
  "gob_map f m = Some (map_values f m)"

definition gob_ptr :: "'a \<Rightarrow> 'a option \<Rightarrow> 'a option" where
  "gob_ptr zero p = (if p = Some zero then None else p)"

definition nil_map :: "('k, 'v) gomap option \<Rightarrow> ('k, 'v) gomap" where
  "nil_map m = (case m of None \<Rightarrow> [] | Some x \<Rightarrow> x)"

lemma nil_map_gob_map [simp]: "nil_map (gob_map f m) = map_values f m"
  by (simp add: nil_map_def gob_map_def map_values_def)

section \<open>Time and fixed-width integers\<close>

type_synonym time = int
type_synonym duration = int

abbreviation Second :: duration where "Second \<equiv> 1000000000"
abbreviation Minute :: duration where "Minute \<equiv> 60 * Second"
abbreviation Hour :: duration where "Hour \<equiv> 60 * Minute"

text \<open>\<open>time.Time{}\<close> is January 1, year 1, 00:00:00 UTC.\<close>

definition zero_time :: time where
  "zero_time = - 62135596800 * Second"

definition IsZero :: "time \<Rightarrow> bool" where
  "IsZero t = (t = zero_time)"

definition sat64 :: "int \<Rightarrow> int" where
  "sat64 i = max (- (2 ^ 63)) (min (2 ^ 63 - 1) i)"

text \<open>\<open>t.Sub(u)\<close>: the difference, saturated to the smallest or largest duration.\<close>

definition Sub :: "time \<Rightarrow> time \<Rightarrow> duration" where
  "Sub t u = sat64 (t - u)"

text \<open>\<open>d.Abs()\<close>: the smallest duration has no positive counterpart and gives the largest.\<close>

definition Duration_Abs :: "duration \<Rightarrow> duration" where
  "Duration_Abs d = (if d \<ge> 0 then d else if d = - (2 ^ 63) then 2 ^ 63 - 1 else - d)"

lemma Sub_neg_iff: "Sub t u < 0 \<longleftrightarrow> t < u"
  by (simp add: Sub_def sat64_def max_def min_def)

lemma Sub_gt_iff: "0 \<le> d \<Longrightarrow> d < 2 ^ 63 - 1 \<Longrightarrow> Sub t u > d \<longleftrightarrow> t - u > d"
  by (auto simp: Sub_def sat64_def max_def min_def)

lemma Duration_Abs_nonneg: "0 \<le> Duration_Abs d"
  by (simp add: Duration_Abs_def)

lemma abs_Sub_gt_iff:
  "0 \<le> d \<Longrightarrow> d < 2 ^ 63 - 1 \<Longrightarrow> Duration_Abs (Sub t u) > d \<longleftrightarrow> \<bar>t - u\<bar> > d"
  by (auto simp: Duration_Abs_def Sub_def sat64_def max_def min_def)

section \<open>Grouping into a Go map of slices\<close>

text \<open>\<open>m[url] = append(m[url], state)\<close>\<close>

definition append_at :: "'k \<Rightarrow> 'v \<Rightarrow> ('k, 'v list) gomap \<Rightarrow> ('k, 'v list) gomap" where
  "append_at k v m = AList.update k ((case map_of m k of None \<Rightarrow> [] | Some vs \<Rightarrow> vs) @ [v]) m"

lemma wf_append_at [simp]: "wf_gomap m \<Longrightarrow> wf_gomap (append_at k v m)"
  by (simp add: append_at_def)

lemma wf_fold_append_at:
  "wf_gomap m \<Longrightarrow> wf_gomap (fold (\<lambda>s m. append_at (f s) (g s) m) xs m)"
  by (induction xs arbitrary: m) simp_all

lemma map_of_fold_append_at:
  "map_of (fold (\<lambda>s m. append_at (f s) (g s) m) xs m) k =
     (if k \<in> f ` set xs \<or> map_of m k \<noteq> None
      then Some ((case map_of m k of None \<Rightarrow> [] | Some vs \<Rightarrow> vs) @ map g (filter (\<lambda>x. f x = k) xs))
      else None)"
  by (induction xs arbitrary: m) (auto simp: append_at_def map_of_update split: option.splits)

text \<open>Grouping values by a key: every key occurs once, with its values in order.\<close>

lemma grouped_append_at:
  fixes f :: "'x \<Rightarrow> 'k" and g :: "'x \<Rightarrow> 'v"
  shows "distinct (map fst (fold (\<lambda>s m. append_at (f s) (g s) m) xs []))"
    and "set (fold (\<lambda>s m. append_at (f s) (g s) m) xs []) = (\<lambda>k. (k, map g (filter (\<lambda>x. f x = k) xs))) ` f ` set xs"
proof -
  define m where "m = fold (\<lambda>s m. append_at (f s) (g s) m) xs []"
  have wf: "wf_gomap m" by (simp add: m_def wf_fold_append_at)
  then show "distinct (map fst (fold (\<lambda>s m. append_at (f s) (g s) m) xs []))" by (simp add: wf_gomap_def m_def)
  have "(k, vs) \<in> set m \<longleftrightarrow> k \<in> f ` set xs \<and> vs = map g (filter (\<lambda>x. f x = k) xs)" for k vs
    using wf_gomap_map_of [OF wf] map_of_fold_append_at [of f g xs "[]" k] by (auto simp: m_def)
  then show "set (fold (\<lambda>s m. append_at (f s) (g s) m) xs []) = (\<lambda>k. (k, map g (filter (\<lambda>x. f x = k) xs))) ` f ` set xs"
    by (auto simp: m_def)
qed

end
