(* ===== verification/Externals.thy ===== *)
theory Externals
  imports Prelude
begin

text \<open>
  The parameters of the model: what the source calls and does not define. A value of type
  \<open>externals\<close> bundles the functions of \<open>github.com/golang/geo/s2\<close> (cells and coverings),
  of \<open>github.com/google/uuid\<close>, of \<open>net/url\<close>, of \<open>crypto/sha256\<close>, of the RFC 3339
  formatting and parsing of \<open>time\<close>, of \<open>strconv.ParseFloat\<close>, and the search for a sentinel in a
  chain of errors (\<open>errors.Is\<close>, which depends on how \<open>github.com/interuss/stacktrace\<close> wraps
  errors); every definition that uses one of them takes the bundle as
  an argument. What a theorem needs of them is a named predicate on the bundle (below) and is a
  hypothesis of that theorem.

  Coordinates, altitudes, radii and areas are rational numbers: \<open>float64\<close> arithmetic is taken
  as exact (the texts of infinities and of \<open>NaN\<close>, which \<open>ParseFloat\<close> accepts, are not covered), and the rounding of \<open>float32(x)\<close> is the parameter \<open>f32\<close>. An S2 point is
  represented by the pair of degrees it was made from, a loop by its vertices.
\<close>

type_synonym cell_id = "64 word"
type_synonym cell_union = "cell_id list"
type_synonym s2_point = "rat \<times> rat"
type_synonym uuid = "128 word"

record externals =
  s2_Level :: "cell_id \<Rightarrow> int"
  s2_CellUnionFromUnion :: "cell_union list \<Rightarrow> cell_union"
  s2_Denormalize :: "cell_union \<Rightarrow> int \<Rightarrow> int \<Rightarrow> cell_union"
  s2_Contains :: "cell_union \<Rightarrow> cell_union \<Rightarrow> bool"
  s2_DoNotCross :: "s2_point \<Rightarrow> s2_point \<Rightarrow> s2_point \<Rightarrow> s2_point \<Rightarrow> bool"
  s2_NormalizedLoop :: "s2_point list \<Rightarrow> s2_point list"
  s2_LoopValidate :: "s2_point list \<Rightarrow> dss_error option"
  s2_LoopIsEmpty :: "s2_point list \<Rightarrow> bool"
  s2_LoopArea :: "s2_point list \<Rightarrow> rat"
  s2_CoveringLoop :: "s2_point list \<Rightarrow> cell_union"
  s2_CoveringPolyline :: "s2_point list \<Rightarrow> cell_union"
  s2_CoveringRegularLoop :: "s2_point \<Rightarrow> rat \<Rightarrow> nat \<Rightarrow> cell_union"
  uuid_Parse :: "string \<Rightarrow> uuid option"
  uuid_IsRFC4122 :: "uuid \<Rightarrow> bool"
  uuid_Version :: "uuid \<Rightarrow> nat"
  uuid_String :: "uuid \<Rightarrow> string"
  uuid_UnixTime :: "uuid \<Rightarrow> time"
  url_ParseScheme :: "string \<Rightarrow> string option"
  sha256_Sum256 :: "string \<Rightarrow> 8 word list"
  time_FormatRFC3339Nano :: "time \<Rightarrow> string"
  time_ParseRFC3339Nano :: "string \<Rightarrow> time option"
  f32 :: "rat \<Rightarrow> rat"
  strconv_ParseFloat :: "string \<Rightarrow> rat option"
  errors_Is_AreaTooLarge :: "dss_error \<Rightarrow> bool"

text \<open>\<open>uuid.Parse\<close> reads what \<open>UUID.String\<close> prints.\<close>

definition uuid_roundtrip :: "externals \<Rightarrow> bool" where
  "uuid_roundtrip L \<longleftrightarrow> (\<forall>u. uuid_Parse L (uuid_String L u) = Some u)"

text \<open>A SHA-256 sum has 32 bytes.\<close>

definition sha256_length :: "externals \<Rightarrow> bool" where
  "sha256_length L \<longleftrightarrow> (\<forall>m. length (sha256_Sum256 L m) = 32)"

text \<open>\<open>CellUnionFromUnion\<close> followed by \<open>Denormalize\<close> to one level is the union of cell sets
  that are already at that level: the union normalizes (merging siblings into parents), and
  \<open>Denormalize\<close> replaces every cell by its descendants at the level.\<close>

definition s2_union_at_level :: "externals \<Rightarrow> int \<Rightarrow> bool" where
  "s2_union_at_level L l \<longleftrightarrow>
     (\<forall>us. (\<forall>u \<in> set us. \<forall>c \<in> set u. s2_Level L c = l) \<longrightarrow>
       set (s2_Denormalize L (s2_CellUnionFromUnion L us) l 1) = (\<Union>u \<in> set us. set u))"

text \<open>A concrete bundle: cells are all at level 13, their union is the list of distinct cells,
  a loop covers the one cell given by the number of its vertices, and so on. It satisfies the
  predicates above and is what the witnesses evaluate with.\<close>

definition demo_externals :: externals where
  "demo_externals = \<lparr>
     s2_Level = (\<lambda>_. 13),
     s2_CellUnionFromUnion = (\<lambda>us. remdups (concat us)),
     s2_Denormalize = (\<lambda>u _ _. u),
     s2_Contains = (\<lambda>u v. list_all (\<lambda>c. c \<in> set u) v),
     s2_DoNotCross = (\<lambda>_ _ _ _. True),
     s2_NormalizedLoop = (\<lambda>ps. ps),
     s2_LoopValidate = (\<lambda>_. None),
     s2_LoopIsEmpty = (\<lambda>ps. ps = []),
     s2_LoopArea = (\<lambda>_. 0),
     s2_CoveringLoop = (\<lambda>ps. [of_nat (length ps)]),
     s2_CoveringPolyline = (\<lambda>ps. [of_nat (length ps)]),
     s2_CoveringRegularLoop = (\<lambda>_ _ n. [of_nat n]),
     uuid_Parse = (\<lambda>s. Some (of_nat (length s))),
     uuid_IsRFC4122 = (\<lambda>_. True),
     uuid_Version = (\<lambda>_. 4),
     uuid_String = (\<lambda>u. replicate (unat u) (CHR ''0'')),
     uuid_UnixTime = (\<lambda>_. 0),
     url_ParseScheme = (\<lambda>s. Some (takeWhile (\<lambda>c. c \<noteq> CHR '':'') s)),
     sha256_Sum256 = (\<lambda>m. replicate 32 (of_nat (length m))),
     time_FormatRFC3339Nano = (\<lambda>t. replicate (nat t) (CHR ''t'')),
     time_ParseRFC3339Nano = (\<lambda>s. Some (int (length s))),
     f32 = (\<lambda>x. x),
     strconv_ParseFloat = (\<lambda>s. if s = [] then None else Some (of_nat (length s))),
     errors_Is_AreaTooLarge = (\<lambda>e. GetCode e = Some AreaTooLarge)\<rparr>"

lemma demo_externals_sel [simp]:
  "s2_Level demo_externals = (\<lambda>_. 13)"
  "s2_CellUnionFromUnion demo_externals = (\<lambda>us. remdups (concat us))"
  "s2_Denormalize demo_externals = (\<lambda>u _ _. u)"
  "s2_Contains demo_externals = (\<lambda>u v. list_all (\<lambda>c. c \<in> set u) v)"
  "s2_DoNotCross demo_externals = (\<lambda>_ _ _ _. True)"
  "s2_NormalizedLoop demo_externals = (\<lambda>ps. ps)"
  "s2_LoopValidate demo_externals = (\<lambda>_. None)"
  "s2_LoopIsEmpty demo_externals = (\<lambda>ps. ps = [])"
  "s2_LoopArea demo_externals = (\<lambda>_. 0)"
  "s2_CoveringLoop demo_externals = (\<lambda>ps. [of_nat (length ps)])"
  "s2_CoveringPolyline demo_externals = (\<lambda>ps. [of_nat (length ps)])"
  "s2_CoveringRegularLoop demo_externals = (\<lambda>_ _ n. [of_nat n])"
  "uuid_Parse demo_externals = (\<lambda>s. Some (of_nat (length s)))"
  "uuid_IsRFC4122 demo_externals = (\<lambda>_. True)"
  "uuid_Version demo_externals = (\<lambda>_. 4)"
  "uuid_String demo_externals = (\<lambda>u. replicate (unat u) (CHR ''0''))"
  "uuid_UnixTime demo_externals = (\<lambda>_. 0)"
  "url_ParseScheme demo_externals = (\<lambda>s. Some (takeWhile (\<lambda>c. c \<noteq> CHR '':'') s))"
  "sha256_Sum256 demo_externals = (\<lambda>m. replicate 32 (of_nat (length m)))"
  "time_FormatRFC3339Nano demo_externals = (\<lambda>t. replicate (nat t) (CHR ''t''))"
  "time_ParseRFC3339Nano demo_externals = (\<lambda>s. Some (int (length s)))"
  "f32 demo_externals = (\<lambda>x. x)"
  "strconv_ParseFloat demo_externals = (\<lambda>s. if s = [] then None else Some (of_nat (length s)))"
  "errors_Is_AreaTooLarge demo_externals = (\<lambda>e. GetCode e = Some AreaTooLarge)"
  by (simp_all add: demo_externals_def)

lemma demo_uuid_roundtrip: "uuid_roundtrip demo_externals"
  by (simp add: uuid_roundtrip_def)

lemma demo_sha256_length: "sha256_length demo_externals"
  by (simp add: sha256_length_def)

lemma demo_s2_union_at_level: "s2_union_at_level demo_externals 13"
  by (simp add: s2_union_at_level_def)

end
