(* ===== verification/Geo.thy ===== *)
theory Geo
  imports Externals
begin

text \<open>
  Cells, coordinates and coverings: \<open>src/pkg/geo\<close> and the cell conversions of
  \<open>src/pkg/sql/utils.go\<close>.
\<close>

section \<open>Sentinel errors\<close>

definition ErrMissingSpatialVolume :: dss_error where
  "ErrMissingSpatialVolume = NewErrorWithCode BadRequest ''Missing spatial volume''"

definition ErrMissingFootprint :: dss_error where
  "ErrMissingFootprint = NewErrorWithCode BadRequest ''Missing footprint''"

definition ErrNotEnoughPointsInPolygon :: dss_error where
  "ErrNotEnoughPointsInPolygon = NewErrorWithCode BadRequest ''Not enough points in polygon''"

definition ErrBadCoordSet :: dss_error where
  "ErrBadCoordSet = NewErrorWithCode BadRequest ''Coordinates did not create a well-formed area''"

definition ErrRadiusMustBeLargerThan0 :: dss_error where
  "ErrRadiusMustBeLargerThan0 = NewErrorWithCode BadRequest ''Radius must be larger than 0''"

definition ErrAreaTooLarge :: dss_error where
  "ErrAreaTooLarge = NewErrorWithCode AreaTooLarge ''Area too large''"

definition ErrOddNumberOfCoordinatesInAreaString :: dss_error where
  "ErrOddNumberOfCoordinatesInAreaString =
     NewErrorWithCode BadRequest ''Odd number of coordinates in area string''"

lemmas geo_error_defs = ErrMissingSpatialVolume_def ErrMissingFootprint_def
  ErrNotEnoughPointsInPolygon_def ErrBadCoordSet_def ErrRadiusMustBeLargerThan0_def
  ErrAreaTooLarge_def ErrOddNumberOfCoordinatesInAreaString_def

section \<open>Cells\<close>

abbreviation DefaultMinimumCellLevel :: int where "DefaultMinimumCellLevel \<equiv> 13"
abbreviation DefaultMaximumCellLevel :: int where "DefaultMaximumCellLevel \<equiv> 13"

definition Levelify :: "externals \<Rightarrow> cell_union \<Rightarrow> cell_union" where
  "Levelify L cells = s2_Denormalize L cells DefaultMinimumCellLevel 1"

definition ValidateCell :: "externals \<Rightarrow> cell_id \<Rightarrow> unit outcome" where
  "ValidateCell L cell =
     (if s2_Level L cell < DefaultMinimumCellLevel \<or> s2_Level L cell > DefaultMaximumCellLevel
      then Err (NewError ''Cells must be at level 13 at current implementation'')
      else Ok ())"

definition ValidateLatLng :: "rat \<Rightarrow> rat \<Rightarrow> unit outcome" where
  "ValidateLatLng lat lng =
     (if lat > 90 \<or> lat < - 90 \<or> lng > 180 \<or> lng < - 180 then Err ErrBadCoordSet else Ok ())"

definition CellUnionFromInt64 :: "int list \<Rightarrow> cell_union" where
  "CellUnionFromInt64 cellIds = map word_of_int cellIds"

definition CellUnionToCellIds :: "cell_union \<Rightarrow> int list" where
  "CellUnionToCellIds cu = sort (map sint cu)"

fun validate_cells :: "externals \<Rightarrow> cell_union \<Rightarrow> unit outcome" where
  "validate_cells L [] = Ok ()"
| "validate_cells L (c # cs) = obind (ValidateCell L c) (\<lambda>_. validate_cells L cs)"

definition CellUnionToCellIdsWithValidation :: "externals \<Rightarrow> cell_union \<Rightarrow> int list outcome" where
  "CellUnionToCellIdsWithValidation L cu =
     obind (validate_cells L cu) (\<lambda>_. Ok (CellUnionToCellIds cu))"

lemma ValidateCell_Ok [simp]: "ValidateCell L c = Ok u \<longleftrightarrow> s2_Level L c = 13"
  by (auto simp: ValidateCell_def)

lemma validate_cells_Ok [simp]:
  "validate_cells L cs = Ok u \<longleftrightarrow> (\<forall>c \<in> set cs. s2_Level L c = 13)"
  by (induction cs) (auto simp: monad_simps)

lemma validate_cells_not_Panic [simp]: "validate_cells L cs \<noteq> Panic"
  by (induction cs) (auto simp: monad_simps ValidateCell_def)

lemma ValidateLatLng_Ok [simp]:
  "ValidateLatLng lat lng = Ok u \<longleftrightarrow> \<bar>lat\<bar> \<le> 90 \<and> \<bar>lng\<bar> \<le> 180"
  by (auto simp: ValidateLatLng_def)

lemma ValidateLatLng_not_Panic [simp]: "ValidateLatLng lat lng \<noteq> Panic"
  by (simp add: ValidateLatLng_def)

section \<open>Coverings\<close>

text \<open>The pairs of edges \<open>validateLoop\<close> compares, in the order of its two loops.\<close>

definition loop_pairs :: "nat \<Rightarrow> (nat \<times> nat) list" where
  "loop_pairs n = concat (map (\<lambda>i. map (\<lambda>j. (i, j))
       [i + 2 ..< (if i = 0 then n - 1 else n)]) [0 ..< n - 2])"

fun nat_to_string :: "nat \<Rightarrow> string" where
  "nat_to_string n = (if n < 10 then [char_of (48 + n)]
                      else nat_to_string (n div 10) @ [char_of (48 + n mod 10)])"

declare nat_to_string.simps [simp del]

definition validateLoop :: "externals \<Rightarrow> s2_point list \<Rightarrow> unit outcome" where
  "validateLoop L points =
     (let n = length points in
      case find (\<lambda>(i, j). \<not> s2_DoNotCross L (points ! i) (points ! (i + 1)) (points ! j)
                            (points ! ((j + 1) mod n))) (loop_pairs n) of
        None \<Rightarrow> Ok ()
      | Some (i, j) \<Rightarrow> Err (NewError (''Intersection found between polygon edge '' @
                          nat_to_string i @ '' and '' @ nat_to_string j)))"

abbreviation maxAllowedAreaKm2 :: rat where "maxAllowedAreaKm2 \<equiv> 2500"
abbreviation radiusEarthMeter :: rat where "radiusEarthMeter \<equiv> 6371010"
abbreviation earthAreaKm2 :: rat where "earthAreaKm2 \<equiv> 510072000"

text \<open>\<open>math.Pi\<close> as the \<open>float64\<close> constant.\<close>

definition math_Pi :: rat where
  "math_Pi = 884279719003555 / 281474976710656"

definition DistanceMetersToAngle :: "rat \<Rightarrow> rat" where
  "DistanceMetersToAngle distance = distance / radiusEarthMeter"

definition loopAreaKm2 :: "externals \<Rightarrow> s2_point list \<Rightarrow> rat" where
  "loopAreaKm2 L loop =
     (if s2_LoopIsEmpty L loop then 0 else (s2_LoopArea L loop * earthAreaKm2) / (4 * math_Pi))"

definition Covering :: "externals \<Rightarrow> s2_point list \<Rightarrow> cell_union outcome" where
  "Covering L points =
     obind (validateLoop L points) (\<lambda>_.
       let loop = s2_NormalizedLoop L points in
       case s2_LoopValidate L loop of
         Some e \<Rightarrow> Err e
       | None \<Rightarrow>
           let area = loopAreaKm2 L loop in
           if area > maxAllowedAreaKm2 then Err ErrAreaTooLarge
           else if area \<le> 0 then Ok (s2_CoveringPolyline L loop)
           else Ok (s2_CoveringLoop L loop))"

lemma validateLoop_not_Panic [simp]: "validateLoop L ps \<noteq> Panic"
  by (auto simp: validateLoop_def Let_def split: option.splits)

lemma validateLoop_Ok:
  "validateLoop L ps = Ok () \<longleftrightarrow>
     find (\<lambda>(i, j). \<not> s2_DoNotCross L (ps ! i) (ps ! (i + 1)) (ps ! j)
                     (ps ! ((j + 1) mod length ps))) (loop_pairs (length ps)) = None"
  by (auto simp: validateLoop_def Let_def split: option.splits)

lemma Covering_not_Panic [simp]: "Covering L ps \<noteq> Panic"
  by (auto simp: Covering_def Let_def monad_simps split: option.splits if_splits)

lemma set_loop_pairs:
  "(i, j) \<in> set (loop_pairs n) \<longleftrightarrow> i + 2 \<le> j \<and> j < n \<and> \<not> (i = 0 \<and> j = n - 1)"
proof -
  have "(i, j) \<in> set (loop_pairs n) \<longleftrightarrow>
      i < n - 2 \<and> i + 2 \<le> j \<and> j < (if i = 0 then n - 1 else n)"
    unfolding loop_pairs_def by (auto simp: image_iff)
  also have "\<dots> \<longleftrightarrow> i + 2 \<le> j \<and> j < n \<and> \<not> (i = 0 \<and> j = n - 1)"
    by auto
  finally show ?thesis .
qed

text \<open>Two edges of a polygon with \<open>n\<close> vertices share a vertex: they are consecutive, the last
  edge and the first one included.\<close>

definition adjacent_edges :: "nat \<Rightarrow> nat \<Rightarrow> nat \<Rightarrow> bool" where
  "adjacent_edges n i j \<longleftrightarrow> (i + 1) mod n = j \<or> (j + 1) mod n = i"

lemma loop_pairs_nonadjacent:
  assumes "i < j" "j < n"
  shows "(i, j) \<in> set (loop_pairs n) \<longleftrightarrow> \<not> adjacent_edges n i j"
proof -
  have i: "(i + 1) mod n = i + 1" using assms by simp
  show ?thesis
  proof (cases "j = n - 1")
    case True
    with assms have "(j + 1) mod n = 0" by simp
    with True i assms show ?thesis by (auto simp: set_loop_pairs adjacent_edges_def)
  next
    case False
    with assms have "(j + 1) mod n = j + 1" by simp
    with False i assms show ?thesis by (auto simp: set_loop_pairs adjacent_edges_def)
  qed
qed

text \<open>A polygon passes \<open>validateLoop\<close> exactly when no two of its edges that do not share a
  vertex cross, where edge \<open>k\<close> runs from vertex \<open>k\<close> to the next one and the last edge closes
  the loop: the two nested loops of the code, with their shortened bound for the first edge, compare
  every such pair once and never a pair of neighbours.\<close>

lemma validateLoop_no_crossing:
  "validateLoop L ps = Ok () \<longleftrightarrow>
     (\<forall>i j. i < j \<and> j < length ps \<and> \<not> adjacent_edges (length ps) i j \<longrightarrow>
        s2_DoNotCross L (ps ! i) (ps ! (i + 1)) (ps ! j) (ps ! ((j + 1) mod length ps)))"
proof -
  have "validateLoop L ps = Ok () \<longleftrightarrow>
      (\<forall>(i, j) \<in> set (loop_pairs (length ps)).
        s2_DoNotCross L (ps ! i) (ps ! (i + 1)) (ps ! j) (ps ! ((j + 1) mod length ps)))"
    by (auto simp: validateLoop_Ok find_None_iff)
  also have "\<dots> \<longleftrightarrow> (\<forall>i j. i < j \<and> j < length ps \<and> (i, j) \<in> set (loop_pairs (length ps)) \<longrightarrow>
        s2_DoNotCross L (ps ! i) (ps ! (i + 1)) (ps ! j) (ps ! ((j + 1) mod length ps)))"
    by (auto simp: set_loop_pairs)
  also have "\<dots> \<longleftrightarrow> (\<forall>i j. i < j \<and> j < length ps \<and> \<not> adjacent_edges (length ps) i j \<longrightarrow>
        s2_DoNotCross L (ps ! i) (ps ! (i + 1)) (ps ! j) (ps ! ((j + 1) mod length ps)))"
    by (metis loop_pairs_nonadjacent)
  finally show ?thesis .
qed

lemma validateLoop_no_crossing_witness:
  "validateLoop demo_externals [(0, 0), (0, 1), (1, 1), (1, 0)] = Ok () \<and>
   validateLoop (demo_externals\<lparr>s2_DoNotCross := \<lambda>_ _ _ _. False\<rparr>) [(0, 0), (1, 1), (0, 1), (1, 0)]
     \<noteq> Ok ()"
proof
  show "validateLoop demo_externals [(0, 0), (0, 1), (1, 1), (1, 0)] = Ok ()"
    unfolding validateLoop_no_crossing by simp
  show "validateLoop (demo_externals\<lparr>s2_DoNotCross := \<lambda>_ _ _ _. False\<rparr>)
      [(0, 0), (1, 1), (0, 1), (1, 0)] \<noteq> Ok ()"
    unfolding validateLoop_no_crossing
    by (intro notI, drule spec [of _ 0], drule spec [of _ 2]) (simp add: adjacent_edges_def)
qed

section \<open>Cell identifiers as database integers\<close>

lemma mset_CellUnionFromInt64_ToCellIds:
  "mset (CellUnionFromInt64 (CellUnionToCellIds cu)) = mset cu"
  by (simp add: CellUnionFromInt64_def CellUnionToCellIds_def multiset.map_comp comp_def)

lemma sorted_CellUnionToCellIds: "sorted (CellUnionToCellIds cu)"
  by (simp add: CellUnionToCellIds_def)

end
