(* ===== verification/Auth.thy ===== *)
theory Auth
  imports Geo
begin

text \<open>
  Authorization of requests: \<open>src/pkg/auth/auth.go\<close> and \<open>src/pkg/auth/claims/claims.go\<close>, with the
  authorization types of \<open>src/pkg/api/common.gen.go\<close>. The JWT library is a parameter: \<open>jwt_lib\<close>
  holds its parser (with the current time it validates against) and its audience check. Resolving
  and refreshing the keys is I/O and not modelled; the keys are an argument.
\<close>

section \<open>Claims\<close>

type_synonym ScopeSet = "string list"
type_synonym RequiredScope = string
type_synonym AuthorizationOption = "(string, RequiredScope list) gomap"

record Claims =
  cl_Subject :: string
  cl_Issuer :: string
  cl_Audience :: "string list"
  cl_ExpiresAt :: "time option"
  cl_Scopes :: ScopeSet

record 'key jwt_lib =
  jwt_ParseWithClaims :: "time \<Rightarrow> 'key \<Rightarrow> string \<Rightarrow> Claims outcome"
  jwt_RegisteredClaims_Valid :: "time \<Rightarrow> Claims \<Rightarrow> unit outcome"
  jwt_VerifyAudience :: "string list \<Rightarrow> string \<Rightarrow> bool \<Rightarrow> bool"

text \<open>The scopes of a token are the words of one string, as a set.\<close>

fun strings_Split :: "char \<Rightarrow> string \<Rightarrow> string list" where
  "strings_Split sep [] = [[]]"
| "strings_Split sep (c # s) =
     (if c = sep then [] # strings_Split sep s
      else case strings_Split sep s of [] \<Rightarrow> [[c]] | w # ws \<Rightarrow> (c # w) # ws)"

definition ScopeSet_UnmarshalJSON :: "string \<Rightarrow> ScopeSet" where
  "ScopeSet_UnmarshalJSON str = remdups (strings_Split (CHR '' '') str)"

definition ValidateRequiredScopes :: "ScopeSet \<Rightarrow> string list \<Rightarrow> bool \<times> string list" where
  "ValidateRequiredScopes s reqScopes =
     (let missing = filter (\<lambda>r. r \<notin> set s) reqScopes
      in if length missing > 0 then (False, missing) else (True, []))"

definition Claims_Valid :: "'key jwt_lib \<Rightarrow> time \<Rightarrow> Claims \<Rightarrow> unit outcome" where
  "Claims_Valid J now c =
     (if cl_Subject c = '''' then Err (NewError ''missing or empty subject'')
      else if (case cl_ExpiresAt c of None \<Rightarrow> True | Some t \<Rightarrow> t > now + Hour)
      then Err (NewError ''token expiration time is too far in the furture or not set, Max token duration is 1 Hour'')
      else if cl_Issuer c = '''' then Err (NewError ''missing Issuer URI'')
      else jwt_RegisteredClaims_Valid J now c)"

text \<open>What the context of a request carries after the middleware: claims or an error.\<close>

definition claims_FromContext :: "Claims outcome option \<Rightarrow> Claims outcome" where
  "claims_FromContext v =
     (case v of None \<Rightarrow> Err (NewError ''No claims or error in context'') | Some r \<Rightarrow> r)"

section \<open>Authorization\<close>

record AuthorizationResult =
  au_ClientID :: "string option"
  au_Scopes :: "string list"
  au_Error :: "dss_error option"

definition HasScope :: "string list \<Rightarrow> RequiredScope \<Rightarrow> bool" where
  "HasScope scopes requiredScope = list_ex (\<lambda>s. s = requiredScope) scopes"

definition lower_char :: "char \<Rightarrow> char" where
  "lower_char c = (let n = of_char c :: nat in if 65 \<le> n \<and> n \<le> 90 then char_of (n + 32) else c)"

definition getToken :: "string \<Rightarrow> string option" where
  "getToken authHeader =
     (if length authHeader < 7 \<or> map lower_char (take 6 authHeader) \<noteq> ''bearer'' then None
      else Some (drop 7 authHeader))"

text \<open>The keys are tried in order; the error of the last one is reported.\<close>

fun try_keys :: "'key jwt_lib \<Rightarrow> time \<Rightarrow> string \<Rightarrow> dss_error option \<Rightarrow> 'key list \<Rightarrow> Claims outcome" where
  "try_keys J now tkn err [] =
     Err (PropagateWithCode (Some Unauthenticated)
            (case err of None \<Rightarrow> NewErrorWithCode Unauthenticated ''No keys to validate against'' | Some e \<Rightarrow> e))"
| "try_keys J now tkn err (key # keys) =
     (case jwt_ParseWithClaims J now key tkn of
        Ok c \<Rightarrow> Ok c
      | Err e \<Rightarrow> try_keys J now tkn (Some e) keys
      | Panic \<Rightarrow> Panic)"

definition extractClaims :: "'key jwt_lib \<Rightarrow> time \<Rightarrow> 'key list \<Rightarrow> string \<Rightarrow> Claims outcome" where
  "extractClaims J now keys authHeader =
     (case getToken authHeader of
        None \<Rightarrow> Err (NewErrorWithCode Unauthenticated ''Missing access token'')
      | Some tkn \<Rightarrow> try_keys J now tkn None keys)"

fun validate_options :: "AuthorizationOption list \<Rightarrow> ScopeSet \<Rightarrow> bool" where
  "validate_options [] clientScopes = False"
| "validate_options (o1 # os) clientScopes =
     (if fst (ValidateRequiredScopes clientScopes (concat (map snd o1))) then True
      else validate_options os clientScopes)"

definition validateScopes :: "AuthorizationOption list \<Rightarrow> ScopeSet \<Rightarrow> bool" where
  "validateScopes authOptions clientScopes =
     (if authOptions = [] then True else validate_options authOptions clientScopes)"

definition Authorize ::
    "'key jwt_lib \<Rightarrow> string list \<Rightarrow> Claims outcome option \<Rightarrow> AuthorizationOption list \<Rightarrow> AuthorizationResult outcome" where
  "Authorize J acceptedAudiences ctx authOptions =
     (let failed = (\<lambda>e. Ok \<lparr>au_ClientID = None, au_Scopes = [], au_Error = Some e\<rparr>) in
      case claims_FromContext ctx of
        Panic \<Rightarrow> Panic
      | Err e \<Rightarrow> failed e
      | Ok c \<Rightarrow>
          if \<not> list_ex (\<lambda>a. jwt_VerifyAudience J (cl_Audience c) a True) acceptedAudiences
          then failed (NewErrorWithCode Unauthenticated ''Invalid access token audience'')
          else if \<not> validateScopes authOptions (cl_Scopes c)
          then failed (NewErrorWithCode PermissionDenied ''Access token missing scopes'')
          else Ok \<lparr>au_ClientID = Some (cl_Subject c), au_Scopes = cl_Scopes c, au_Error = None\<rparr>)"

text \<open>A request through the middleware and then the authorizer.\<close>

definition TokenMiddleware_Authorize ::
    "'key jwt_lib \<Rightarrow> time \<Rightarrow> 'key list \<Rightarrow> string list \<Rightarrow> string \<Rightarrow> AuthorizationOption list \<Rightarrow>
     AuthorizationResult outcome" where
  "TokenMiddleware_Authorize J now keys audiences authHeader authOptions =
     Authorize J audiences (Some (extractClaims J now keys authHeader)) authOptions"

section \<open>Who is let in\<close>

text \<open>\<open>jwt.ParseWithClaims\<close> returns claims only when their \<open>Valid\<close> method accepts them; it does not
  panic.\<close>

definition jwt_validates :: "'key jwt_lib \<Rightarrow> bool" where
  "jwt_validates J \<longleftrightarrow> (\<forall>now k t c. jwt_ParseWithClaims J now k t = Ok c \<longrightarrow> Claims_Valid J now c = Ok ())"

lemma HasScope_iff [simp]: "HasScope scopes s \<longleftrightarrow> s \<in> set scopes"
  by (auto simp: HasScope_def list_ex_iff)

lemma ValidateRequiredScopes_iff [simp]:
  "fst (ValidateRequiredScopes s rs) \<longleftrightarrow> set rs \<subseteq> set s"
  by (auto simp: ValidateRequiredScopes_def Let_def filter_empty_conv)

lemma validate_options_iff:
  "validate_options os s \<longleftrightarrow> (\<exists>o1 \<in> set os. \<forall>(scheme, scopes) \<in> set o1. set scopes \<subseteq> set s)"
  by (induction os) (auto simp: UN_subset_iff split_def)

lemma try_keys_Ok:
  "try_keys J now tkn err keys = Ok c \<Longrightarrow> \<exists>k \<in> set keys. jwt_ParseWithClaims J now k tkn = Ok c"
  by (induction J now tkn err keys rule: try_keys.induct) (auto split: outcome.splits)

lemma try_keys_Err:
  "try_keys J now tkn err keys = Err e \<Longrightarrow> GetCode e = Some Unauthenticated"
  by (induction J now tkn err keys rule: try_keys.induct) (auto split: outcome.splits)

lemma Authorize_grants:
  assumes "jwt_validates J"
    and "TokenMiddleware_Authorize J now keys audiences authHeader authOptions = Ok res"
    and "au_Error res = None"
  shows "\<exists>k \<in> set keys. \<exists>tkn c. getToken authHeader = Some tkn \<and>
           jwt_ParseWithClaims J now k tkn = Ok c \<and>
           au_ClientID res = Some (cl_Subject c) \<and> au_Scopes res = cl_Scopes c \<and>
           cl_Subject c \<noteq> '''' \<and> cl_Issuer c \<noteq> '''' \<and>
           (\<exists>t. cl_ExpiresAt c = Some t \<and> t \<le> now + Hour) \<and>
           (\<exists>a \<in> set audiences. jwt_VerifyAudience J (cl_Audience c) a True) \<and>
           (authOptions = [] \<or>
            (\<exists>o1 \<in> set authOptions. \<forall>(scheme, scopes) \<in> set o1. set scopes \<subseteq> set (cl_Scopes c)))"
proof -
  obtain c where c: "extractClaims J now keys authHeader = Ok c"
      "list_ex (\<lambda>a. jwt_VerifyAudience J (cl_Audience c) a True) audiences"
      "validateScopes authOptions (cl_Scopes c)"
      "au_ClientID res = Some (cl_Subject c)" "au_Scopes res = cl_Scopes c"
    using assms(2,3)
    by (auto simp: TokenMiddleware_Authorize_def Authorize_def claims_FromContext_def Let_def
        split: outcome.splits if_splits)
  then obtain tkn k where k: "getToken authHeader = Some tkn" "k \<in> set keys"
      "jwt_ParseWithClaims J now k tkn = Ok c"
    by (auto simp: extractClaims_def split: option.splits dest: try_keys_Ok)
  then have "Claims_Valid J now c = Ok ()" using assms(1) by (auto simp: jwt_validates_def)
  then have "cl_Subject c \<noteq> ''''" "cl_Issuer c \<noteq> ''''" "\<exists>t. cl_ExpiresAt c = Some t \<and> t \<le> now + Hour"
    by (auto simp: Claims_Valid_def split: if_splits option.splits)
  moreover have "authOptions = [] \<or>
      (\<exists>o1 \<in> set authOptions. \<forall>(scheme, scopes) \<in> set o1. set scopes \<subseteq> set (cl_Scopes c))"
    using c(3) by (auto simp: validateScopes_def validate_options_iff split: if_splits)
  ultimately show ?thesis using c k by (fastforce simp: list_ex_iff)
qed

text \<open>A request is authorized (no error, and then with a client ID) only when its header carries
  a bearer token that some configured key accepts, the token's claims name a subject and an issuer and
  expire within the hour, its audience is one of the accepted ones, and it holds every scope of at
  least one of the endpoint's authorization options (when the endpoint has any). The client ID and
  the scopes handed on are those of the token.\<close>

lemma Authorize_sound:
  assumes "jwt_validates J"
    and "TokenMiddleware_Authorize J now keys audiences authHeader authOptions = Ok res"
    and "au_Error res = None"
  shows "\<exists>k \<in> set keys. \<exists>tkn c. getToken authHeader = Some tkn \<and>
           jwt_ParseWithClaims J now k tkn = Ok c \<and>
           au_ClientID res = Some (cl_Subject c) \<and> au_Scopes res = cl_Scopes c \<and>
           cl_Subject c \<noteq> '''' \<and> cl_Issuer c \<noteq> '''' \<and>
           (\<exists>t. cl_ExpiresAt c = Some t \<and> t \<le> now + Hour) \<and>
           (\<exists>a \<in> set audiences. jwt_VerifyAudience J (cl_Audience c) a True) \<and>
           (authOptions = [] \<or>
            (\<exists>o1 \<in> set authOptions. \<forall>(scheme, scopes) \<in> set o1. set scopes \<subseteq> set (cl_Scopes c)))"
  using assms by (rule Authorize_grants)

text \<open>A library that accepts one token, for one key.\<close>

definition demo_claims :: Claims where
  "demo_claims = \<lparr>cl_Subject = ''uss1'', cl_Issuer = ''iss'', cl_Audience = [''dss''],
                  cl_ExpiresAt = Some Minute, cl_Scopes = [''utm.strategic_coordination'']\<rparr>"

definition demo_jwt :: "nat jwt_lib" where
  "demo_jwt = \<lparr>
     jwt_ParseWithClaims = (\<lambda>now k t. if k = 7 \<and> now = 0 then Ok demo_claims else Err (NewError ''signature is invalid'')),
     jwt_RegisteredClaims_Valid = (\<lambda>_ _. Ok ()),
     jwt_VerifyAudience = (\<lambda>auds a required. a \<in> set auds)\<rparr>"

lemma demo_jwt_validates: "jwt_validates demo_jwt"
  by (auto simp: jwt_validates_def demo_jwt_def demo_claims_def Claims_Valid_def)

lemma demo_getToken: "getToken ''Bearer abc'' = Some ''abc''"
  by code_simp

lemma Authorize_sound_witness:
  "\<exists>k \<in> set [3, 7 :: nat]. \<exists>tkn c. getToken ''Bearer abc'' = Some tkn \<and>
     jwt_ParseWithClaims demo_jwt 0 k tkn = Ok c \<and> cl_Subject c \<noteq> ''''"
proof -
  let ?opts = "[[(''Auth'', [''utm.strategic_coordination''])]]"
  have "TokenMiddleware_Authorize demo_jwt 0 [3, 7] [''dss''] ''Bearer abc'' ?opts =
      Ok \<lparr>au_ClientID = Some ''uss1'', au_Scopes = [''utm.strategic_coordination''], au_Error = None\<rparr>"
    by (simp add: TokenMiddleware_Authorize_def Authorize_def claims_FromContext_def extractClaims_def
        demo_getToken Let_def demo_jwt_def demo_claims_def validateScopes_def)
  from Authorize_sound [OF demo_jwt_validates this] show ?thesis by auto
qed

text \<open>Every request that is refused is refused with the code for a missing or invalid token or
  with the code for missing scopes, never with an uncoded error.\<close>

lemma Authorize_error_codes:
  assumes "TokenMiddleware_Authorize J now keys audiences authHeader authOptions = Ok res"
    and "au_Error res = Some e"
  shows "au_ClientID res = None \<and> GetCode e \<in> {Some Unauthenticated, Some PermissionDenied} \<and>
         (GetCode e = Some PermissionDenied \<longrightarrow>
            (\<exists>c. extractClaims J now keys authHeader = Ok c \<and> \<not> validateScopes authOptions (cl_Scopes c)))"
  using assms
  by (auto simp: TokenMiddleware_Authorize_def Authorize_def claims_FromContext_def extractClaims_def Let_def
      split: outcome.splits if_splits option.splits dest: try_keys_Err)

end
