(* ===== verification/Dss_Models.thy ===== *)
theory Dss_Models
  imports Geo
begin

text \<open>
  The models shared by the remote-identification (RID) and strategic-coordination (SCD) services:
  \<open>src/pkg/models\<close> (identifiers, versions, volumes) and \<open>src/pkg/timestamp\<close>.
\<close>

section \<open>Identifiers\<close>

type_synonym ID = string
type_synonym Owner = string
type_synonym Manager = string

abbreviation MaxResultLimit :: nat where "MaxResultLimit \<equiv> 10000"

definition ID_Empty :: "ID \<Rightarrow> bool" where
  "ID_Empty i = (i = '''')"

definition IDFromString :: "externals \<Rightarrow> string \<Rightarrow> ID outcome" where
  "IDFromString L s =
     (case uuid_Parse L s of
        None \<Rightarrow> Err (NewError ''invalid UUID'')
      | Some u \<Rightarrow>
          if \<not> uuid_IsRFC4122 L u \<or> uuid_Version L u \<noteq> 4
          then Err (NewError ''UUID must be V4 as per RFC4122'')
          else Ok (uuid_String L u))"

definition IDFromOptionalString :: "externals \<Rightarrow> string \<Rightarrow> ID outcome" where
  "IDFromOptionalString L s = (if s = '''' then Ok '''' else IDFromString L s)"

lemma IDFromString_not_Panic [simp]: "IDFromString L s \<noteq> Panic"
  by (auto simp: IDFromString_def split: option.splits)

lemma IDFromString_canonical:
  assumes "uuid_roundtrip L" and "IDFromString L s = Ok i"
  shows "IDFromString L i = Ok i"
  using assms by (auto simp: IDFromString_def uuid_roundtrip_def split: option.splits if_splits)

section \<open>Versions\<close>

text \<open>
  A RID version is a commit timestamp printed in base 32. \<open>FormatUint\<close> and \<open>ParseInt\<close> are the
  functions of \<open>strconv\<close> for base 32: lower-case digits on output; an optional sign, digits of
  either case, and a check of the 64-bit range on input.
\<close>

record version =
  ver_t :: time
  ver_s :: string

abbreviation versionBase :: nat where "versionBase \<equiv> 32"

definition digit_char :: "nat \<Rightarrow> char" where
  "digit_char d = char_of (if d < 10 then 48 + d else 87 + d)"

definition char_digit :: "char \<Rightarrow> nat option" where
  "char_digit c =
     (let n = of_char c :: nat;
          d = (if 48 \<le> n \<and> n \<le> 57 then Some (n - 48)
               else if 97 \<le> n \<and> n \<le> 122 then Some (n - 87)
               else if 65 \<le> n \<and> n \<le> 90 then Some (n - 55)
               else None)
      in case d of None \<Rightarrow> None | Some k \<Rightarrow> if k < versionBase then Some k else None)"

function FormatUint :: "nat \<Rightarrow> string" where
  "FormatUint n = (if n < versionBase then [digit_char n]
                   else FormatUint (n div versionBase) @ [digit_char (n mod versionBase)])"
  by pat_completeness auto
termination by (relation "measure id") auto

declare FormatUint.simps [simp del]

fun ParseDigits :: "nat \<Rightarrow> string \<Rightarrow> nat option" where
  "ParseDigits acc [] = Some acc"
| "ParseDigits acc (c # cs) =
     (case char_digit c of
        None \<Rightarrow> None
      | Some d \<Rightarrow> let n = acc * versionBase + d in
          if n < 2 ^ 64 then ParseDigits n cs else None)"

definition ParseInt :: "string \<Rightarrow> int option" where
  "ParseInt s =
     (case s of
        [] \<Rightarrow> None
      | c # cs \<Rightarrow>
          let neg = (c = CHR ''-'');
              digits = (if c = CHR ''+'' \<or> c = CHR ''-'' then cs else s)
          in if digits = [] then None
             else case ParseDigits 0 digits of
                    None \<Rightarrow> None
                  | Some n \<Rightarrow> if \<not> neg \<and> n \<ge> 2 ^ 63 then None
                             else if neg \<and> n > 2 ^ 63 then None
                             else Some (if neg then - int n else int n))"

definition VersionFromString :: "string \<Rightarrow> version outcome" where
  "VersionFromString s =
     (if s = '''' then Err (NewError ''Missing version string'')
      else case ParseInt s of
             None \<Rightarrow> Err (NewError ''Error parsing version to integer'')
           | Some nanos \<Rightarrow>
               if nanos < 0
               then Err (NewError ''Parsed negative value for nanosecond timestamp for version'')
               else Ok \<lparr>ver_t = nanos, ver_s = s\<rparr>)"

text \<open>\<open>UnixNano\<close> is an \<open>int64\<close>, converted to \<open>uint64\<close>: the time modulo \<open>2\<^sup>6\<^sup>4\<close>.\<close>

definition VersionFromTime :: "time \<Rightarrow> version" where
  "VersionFromTime t = \<lparr>ver_t = t, ver_s = FormatUint (unat (word_of_int t :: 64 word))\<rparr>"

definition Version_Empty :: "version option \<Rightarrow> bool" where
  "Version_Empty v = (case v of None \<Rightarrow> True | Some w \<Rightarrow> IsZero (ver_t w))"

definition Version_Matches :: "version option \<Rightarrow> version option \<Rightarrow> bool" where
  "Version_Matches v v2 =
     (case (v, v2) of (Some a, Some b) \<Rightarrow> ver_s a = ver_s b | _ \<Rightarrow> False)"

definition Version_String :: "version option \<Rightarrow> string" where
  "Version_String v = (case v of None \<Rightarrow> '''' | Some w \<Rightarrow> ver_s w)"

definition Version_ToTimestamp :: "version option \<Rightarrow> time" where
  "Version_ToTimestamp v = (case v of None \<Rightarrow> zero_time | Some w \<Rightarrow> ver_t w)"

text \<open>JSON: a version is its string; the empty string is read back as the zero version.\<close>

definition Version_UnmarshalJSON :: "string \<Rightarrow> version outcome" where
  "Version_UnmarshalJSON s =
     (if s = '''' then Ok \<lparr>ver_t = zero_time, ver_s = ''''\<rparr> else VersionFromString s)"

lemma char_digit_digit_char [simp]: "d < 32 \<Longrightarrow> char_digit (digit_char d) = Some d"
  by (auto simp: char_digit_def digit_char_def Let_def)

lemma digit_char_not_sign: "d < 32 \<Longrightarrow> digit_char d \<noteq> CHR ''+'' \<and> digit_char d \<noteq> CHR ''-''"
  using char_digit_digit_char [of d] by (auto simp: char_digit_def)

lemma FormatUint_not_Nil [simp]: "FormatUint n \<noteq> []"
  by (subst FormatUint.simps) simp

lemma FormatUint_hd: "\<exists>d < 32. hd (FormatUint n) = digit_char d"
proof (induction n rule: FormatUint.induct)
  case (1 n)
  show ?case
  proof (cases "n < 32")
    case True
    then show ?thesis by (subst FormatUint.simps) auto
  next
    case False
    with 1 show ?thesis by (subst FormatUint.simps) simp
  qed
qed

lemma ParseDigits_append:
  "ParseDigits acc (xs @ ys) = Option.bind (ParseDigits acc xs) (\<lambda>n. ParseDigits n ys)"
  by (induction acc xs rule: ParseDigits.induct) (auto simp: Let_def split: option.splits)

lemma ParseDigits_FormatUint: "n < 2 ^ 64 \<Longrightarrow> ParseDigits 0 (FormatUint n) = Some n"
proof (induction n rule: FormatUint.induct)
  case (1 n)
  show ?case
  proof (cases "n < 32")
    case True
    then show ?thesis by (simp add: FormatUint.simps [of n])
  next
    case False
    with 1 have IH: "ParseDigits 0 (FormatUint (n div 32)) = Some (n div 32)" by simp
    have "n div 32 * 32 + n mod 32 = n" by simp
    with 1(2) False IH show ?thesis
      by (subst FormatUint.simps) (simp add: ParseDigits_append Let_def)
  qed
qed

lemma FormatUint_inj: "m < 2 ^ 64 \<Longrightarrow> n < 2 ^ 64 \<Longrightarrow> FormatUint m = FormatUint n \<Longrightarrow> m = n"
  by (metis ParseDigits_FormatUint option.inject)

lemma ParseInt_FormatUint: "n < 2 ^ 63 \<Longrightarrow> ParseInt (FormatUint n) = Some (int n)"
proof -
  assume n: "n < 2 ^ 63"
  obtain c cs where f: "FormatUint n = c # cs" by (cases "FormatUint n") auto
  moreover obtain d where "d < 32" "c = digit_char d" using FormatUint_hd [of n] f by auto
  ultimately have "c \<noteq> CHR ''+''" "c \<noteq> CHR ''-''" by (simp_all add: digit_char_not_sign)
  moreover have "ParseDigits 0 (c # cs) = Some n" using ParseDigits_FormatUint [of n] n f by simp
  ultimately show ?thesis using n f by (simp add: ParseInt_def Let_def del: ParseDigits.simps)
qed

lemma unat_time: "0 \<le> t \<Longrightarrow> t < 2 ^ 63 \<Longrightarrow> unat (word_of_int t :: 64 word) = nat t"
  by (simp add: unat_eq_nat_uint uint_word_of_int take_bit_eq_mod)

text \<open>A version printed from a commit time after 1970 (and before the year 2262, where a
  nanosecond count leaves 63 bits) is parsed back by \<open>VersionFromString\<close> to the same time and the
  same string, so a client that returns the version it was given always matches.\<close>

lemma Version_roundtrip:
  assumes "0 \<le> t" and "t < 2 ^ 63"
  shows "VersionFromString (ver_s (VersionFromTime t)) = Ok (VersionFromTime t)"
proof -
  have "ParseInt (FormatUint (nat t)) = Some t" using assms by (simp add: ParseInt_FormatUint nat_less_iff)
  then show ?thesis using assms unat_time [OF assms]
    by (simp add: VersionFromString_def VersionFromTime_def)
qed

lemma Version_roundtrip_witness:
  "VersionFromString (ver_s (VersionFromTime 1700000000123456789)) =
     Ok (VersionFromTime 1700000000123456789)"
  by (rule Version_roundtrip) simp_all

text \<open>The versions of two commit times match exactly when the times agree modulo
  \<open>2\<^sup>6\<^sup>4\<close> nanoseconds; in particular two different 64-bit commit times never match, so an update
  with a stale version is always recognised.\<close>

lemma Version_Matches_times:
  "Version_Matches (Some (VersionFromTime t)) (Some (VersionFromTime u)) \<longleftrightarrow>
     t mod 2 ^ 64 = u mod 2 ^ 64"
proof -
  have b: "unat (w :: 64 word) < 2 ^ 64" for w using unsigned_less [of w, where ?'a = nat] by simp
  have "Version_Matches (Some (VersionFromTime t)) (Some (VersionFromTime u)) \<longleftrightarrow>
      unat (word_of_int t :: 64 word) = unat (word_of_int u :: 64 word)"
    using FormatUint_inj b by (auto simp: Version_Matches_def VersionFromTime_def)
  also have "\<dots> \<longleftrightarrow> t mod 2 ^ 64 = u mod 2 ^ 64"
    by (simp add: unat_eq_nat_uint uint_word_of_int take_bit_eq_mod eq_nat_nat_iff)
  finally show ?thesis .
qed

lemma Version_Matches_refl_time [simp]:
  "Version_Matches (Some (VersionFromTime t)) (Some (VersionFromTime t))"
  by (simp add: Version_Matches_def)

section \<open>Volumes\<close>

record cells_volume_4d =
  cv_Cells :: cell_union
  cv_StartTime :: "time option"
  cv_EndTime :: "time option"
  cv_AltitudeLo :: "rat option"
  cv_AltitudeHi :: "rat option"

definition empty_volume :: cells_volume_4d where
  "empty_volume = \<lparr>cv_Cells = [], cv_StartTime = None, cv_EndTime = None,
                   cv_AltitudeLo = None, cv_AltitudeHi = None\<rparr>"

definition timeP :: "time \<Rightarrow> time option" where
  "timeP t = (if IsZero t then None else Some t)"

text \<open>
  One dimension of the loop of \<open>UnionCellsVolumes4D\<close>: the flag says that some volume so far was
  unbounded, \<open>better\<close> is the comparison that moves the bound and \<open>mk\<close> makes the new pointer
  (\<open>timeP\<close> turns the zero time into nil).
\<close>

definition union_dim ::
    "('a \<Rightarrow> 'a \<Rightarrow> bool) \<Rightarrow> ('a \<Rightarrow> 'a option) \<Rightarrow> 'a option \<Rightarrow> bool \<times> 'a option \<Rightarrow> bool \<times> 'a option" where
  "union_dim better mk v acc =
     (case acc of (unbounded, res) \<Rightarrow>
        case v of
          None \<Rightarrow> (True, None)
        | Some x \<Rightarrow>
            if unbounded then (unbounded, res)
            else case res of
                   Some r \<Rightarrow> if better x r then (unbounded, mk x) else (unbounded, res)
                 | None \<Rightarrow> (unbounded, mk x))"

record union_state =
  un_Cells :: "cell_union list"
  un_EndTime :: "bool \<times> time option"
  un_StartTime :: "bool \<times> time option"
  un_AltitudeLo :: "bool \<times> rat option"
  un_AltitudeHi :: "bool \<times> rat option"

definition union_step :: "cells_volume_4d \<Rightarrow> union_state \<Rightarrow> union_state" where
  "union_step v st = \<lparr>
     un_Cells = un_Cells st @ [cv_Cells v],
     un_EndTime = union_dim (\<lambda>x r. x > r) timeP (cv_EndTime v) (un_EndTime st),
     un_StartTime = union_dim (\<lambda>x r. x < r) timeP (cv_StartTime v) (un_StartTime st),
     un_AltitudeLo = union_dim (\<lambda>x r. x < r) Some (cv_AltitudeLo v) (un_AltitudeLo st),
     un_AltitudeHi = union_dim (\<lambda>x r. x > r) Some (cv_AltitudeHi v) (un_AltitudeHi st)\<rparr>"

definition UnionCellsVolumes4D :: "externals \<Rightarrow> cells_volume_4d list \<Rightarrow> cells_volume_4d" where
  "UnionCellsVolumes4D L volumes =
     (let st = fold union_step volumes
                 \<lparr>un_Cells = [], un_EndTime = (False, None), un_StartTime = (False, None),
                  un_AltitudeLo = (False, None), un_AltitudeHi = (False, None)\<rparr>
      in \<lparr>cv_Cells = Levelify L (s2_CellUnionFromUnion L (un_Cells st)),
          cv_StartTime = snd (un_StartTime st), cv_EndTime = snd (un_EndTime st),
          cv_AltitudeLo = snd (un_AltitudeLo st), cv_AltitudeHi = snd (un_AltitudeHi st)\<rparr>)"

text \<open>\<open>Clone\<close> copies the cells and the pointed-to values. Values have no identity in the model, so
  a clone is equal to its source.\<close>

definition ClonePtr :: "'a option \<Rightarrow> 'a option" where
  "ClonePtr v = (case v of None \<Rightarrow> None | Some x \<Rightarrow> Some x)"

definition CellsVolume4D_Clone :: "cells_volume_4d \<Rightarrow> cells_volume_4d" where
  "CellsVolume4D_Clone v = \<lparr>cv_Cells = cv_Cells v,
     cv_StartTime = ClonePtr (cv_StartTime v), cv_EndTime = ClonePtr (cv_EndTime v),
     cv_AltitudeLo = ClonePtr (cv_AltitudeLo v), cv_AltitudeHi = ClonePtr (cv_AltitudeHi v)\<rparr>"

lemma ClonePtr_id [simp]: "ClonePtr v = v"
  by (cases v) (simp_all add: ClonePtr_def)

lemma CellsVolume4D_Clone_id [simp]: "CellsVolume4D_Clone v = v"
  by (simp add: CellsVolume4D_Clone_def)

subsection \<open>The union covers every volume\<close>

lemma fold_union_step:
  "fold union_step vs st = \<lparr>
     un_Cells = un_Cells st @ map cv_Cells vs,
     un_EndTime = fold (union_dim (\<lambda>x r. x > r) timeP) (map cv_EndTime vs) (un_EndTime st),
     un_StartTime = fold (union_dim (\<lambda>x r. x < r) timeP) (map cv_StartTime vs) (un_StartTime st),
     un_AltitudeLo = fold (union_dim (\<lambda>x r. x < r) Some) (map cv_AltitudeLo vs) (un_AltitudeLo st),
     un_AltitudeHi = fold (union_dim (\<lambda>x r. x > r) Some) (map cv_AltitudeHi vs) (un_AltitudeHi st)\<rparr>"
  by (induction vs arbitrary: st) (simp_all add: union_step_def)

lemma union_dim_None [simp]: "union_dim b mk None acc = (True, None)"
  by (cases acc) (simp add: union_dim_def)

lemma fold_union_dim_unbounded:
  "fold (union_dim b mk) vs (True, None) = (True, None)"
  by (induction vs) (auto simp: union_dim_def split: option.splits)

lemma fold_union_dim_None:
  "None \<in> set vs \<Longrightarrow> snd (fold (union_dim b mk) vs acc) = None"
proof (induction vs arbitrary: acc)
  case (Cons v vs)
  show ?case
  proof (cases v)
    case None
    then show ?thesis by (simp add: fold_union_dim_unbounded)
  next
    case (Some x)
    with Cons show ?thesis by simp
  qed
qed simp

text \<open>The bound of a dimension is the extremum, when the pointer constructor keeps every bound.\<close>

lemma fold_union_dim_Some:
  assumes "\<And>x. x \<in> set xs \<Longrightarrow> mk x = Some x"
  shows "fold (union_dim b mk) (map Some xs) (False, Some r) =
           (False, Some (fold (\<lambda>x r. if b x r then x else r) xs r))"
  using assms by (induction xs arbitrary: r) (auto simp: union_dim_def)

lemma fold_max_conv: "fold (\<lambda>x r. if x > r then x else r) xs (r :: 'a :: linorder) = Max (insert r (set xs))"
proof (induction xs arbitrary: r)
  case (Cons x xs)
  have "(if x > r then x else r) = max x r" by auto
  moreover have "Max (insert (max x r) (set xs)) = Max (insert r (insert x (set xs)))"
    by (cases "xs = []") (auto simp: max.commute max.left_commute)
  ultimately show ?case using Cons [of "max x r"] by simp
qed simp

lemma fold_min_conv: "fold (\<lambda>x r. if x < r then x else r) xs (r :: 'a :: linorder) = Min (insert r (set xs))"
proof (induction xs arbitrary: r)
  case (Cons x xs)
  have "(if x < r then x else r) = min x r" by auto
  moreover have "Min (insert (min x r) (set xs)) = Min (insert r (insert x (set xs)))"
    by (cases "xs = []") (auto simp: min.commute min.left_commute)
  ultimately show ?case using Cons [of "min x r"] by simp
qed simp

lemma fold_union_dim_max:
  fixes xs :: "'a :: linorder list"
  assumes "xs \<noteq> []" and "\<And>x. x \<in> set xs \<Longrightarrow> mk x = Some x"
  shows "snd (fold (union_dim (\<lambda>x r. x > r) mk) (map Some xs) (False, None)) = Some (Max (set xs))"
  using assms
proof (cases xs)
  case (Cons x ys)
  have "fold (union_dim (\<lambda>x r. x > r) mk) (map Some ys) (False, Some x) =
      (False, Some (fold (\<lambda>x r. if x > r then x else r) ys x))"
    using assms Cons by (intro fold_union_dim_Some) simp
  then show ?thesis using assms Cons by (simp add: union_dim_def fold_max_conv)
qed simp

lemma fold_union_dim_min:
  fixes xs :: "'a :: linorder list"
  assumes "xs \<noteq> []" and "\<And>x. x \<in> set xs \<Longrightarrow> mk x = Some x"
  shows "snd (fold (union_dim (\<lambda>x r. x < r) mk) (map Some xs) (False, None)) = Some (Min (set xs))"
  using assms
proof (cases xs)
  case (Cons x ys)
  have "fold (union_dim (\<lambda>x r. x < r) mk) (map Some ys) (False, Some x) =
      (False, Some (fold (\<lambda>x r. if x < r then x else r) ys x))"
    using assms Cons by (intro fold_union_dim_Some) simp
  then show ?thesis using assms Cons by (simp add: union_dim_def fold_min_conv)
qed simp

lemma UnionCellsVolumes4D_sel:
  "cv_Cells (UnionCellsVolumes4D L vs) = Levelify L (s2_CellUnionFromUnion L (map cv_Cells vs))"
  "cv_EndTime (UnionCellsVolumes4D L vs) =
     snd (fold (union_dim (\<lambda>x r. x > r) timeP) (map cv_EndTime vs) (False, None))"
  "cv_StartTime (UnionCellsVolumes4D L vs) =
     snd (fold (union_dim (\<lambda>x r. x < r) timeP) (map cv_StartTime vs) (False, None))"
  "cv_AltitudeLo (UnionCellsVolumes4D L vs) =
     snd (fold (union_dim (\<lambda>x r. x < r) Some) (map cv_AltitudeLo vs) (False, None))"
  "cv_AltitudeHi (UnionCellsVolumes4D L vs) =
     snd (fold (union_dim (\<lambda>x r. x > r) Some) (map cv_AltitudeHi vs) (False, None))"
  by (simp_all add: UnionCellsVolumes4D_def Let_def fold_union_step)

lemma union_bound_cases:
  assumes "vs \<noteq> []" and "\<And>v x. v \<in> set vs \<Longrightarrow> sel v = Some x \<Longrightarrow> mk x = Some x"
  shows "snd (fold (union_dim (\<lambda>x r. x > r) mk) (map sel vs) (False, None)) =
           (if None \<in> sel ` set vs then None else Some (Max ((the \<circ> sel) ` set vs)))"
    and "snd (fold (union_dim (\<lambda>x r. x < r) mk) (map sel vs) (False, None)) =
           (if None \<in> sel ` set vs then None else Some (Min ((the \<circ> sel) ` set vs)))"
proof -
  have split: "None \<notin> sel ` set vs \<Longrightarrow> map sel vs = map Some (map (the \<circ> sel) vs)"
    by (auto simp: image_iff)
  have keep: "x \<in> set (map (the \<circ> sel) vs) \<Longrightarrow> None \<notin> sel ` set vs \<Longrightarrow> mk x = Some x" for x
    using assms(2) by (fastforce simp: image_iff)
  show "snd (fold (union_dim (\<lambda>x r. x > r) mk) (map sel vs) (False, None)) =
           (if None \<in> sel ` set vs then None else Some (Max ((the \<circ> sel) ` set vs)))"
  proof (cases "None \<in> sel ` set vs")
    case False
    with fold_union_dim_max [of "map (the \<circ> sel) vs" mk] keep assms(1) show ?thesis
      by (simp add: split [OF False] del: map_map)
  qed (simp add: fold_union_dim_None image_iff)
  show "snd (fold (union_dim (\<lambda>x r. x < r) mk) (map sel vs) (False, None)) =
           (if None \<in> sel ` set vs then None else Some (Min ((the \<circ> sel) ` set vs)))"
  proof (cases "None \<in> sel ` set vs")
    case False
    with fold_union_dim_min [of "map (the \<circ> sel) vs" mk] keep assms(1) show ?thesis
      by (simp add: split [OF False] del: map_map)
  qed (simp add: fold_union_dim_None image_iff)
qed

text \<open>
  The contract of the union: \<open>covers_volume b v\<close> says that volume \<open>b\<close> contains \<open>v\<close>, an absent
  bound being unbounded.
\<close>

definition lower_covers :: "'a :: linorder option \<Rightarrow> 'a option \<Rightarrow> bool" where
  "lower_covers b v = (case b of None \<Rightarrow> True | Some x \<Rightarrow> (case v of None \<Rightarrow> False | Some y \<Rightarrow> x \<le> y))"

definition upper_covers :: "'a :: linorder option \<Rightarrow> 'a option \<Rightarrow> bool" where
  "upper_covers b v = (case b of None \<Rightarrow> True | Some x \<Rightarrow> (case v of None \<Rightarrow> False | Some y \<Rightarrow> y \<le> x))"

definition covers_volume :: "cells_volume_4d \<Rightarrow> cells_volume_4d \<Rightarrow> bool" where
  "covers_volume b v \<longleftrightarrow>
     set (cv_Cells v) \<subseteq> set (cv_Cells b) \<and>
     lower_covers (cv_StartTime b) (cv_StartTime v) \<and> upper_covers (cv_EndTime b) (cv_EndTime v) \<and>
     lower_covers (cv_AltitudeLo b) (cv_AltitudeLo v) \<and> upper_covers (cv_AltitudeHi b) (cv_AltitudeHi v)"

lemma upper_covers_hull:
  fixes S :: "'a :: linorder option set"
  assumes "finite S" "S \<noteq> {}" and h: "h = (if None \<in> S then None else Some (Max (the ` S)))"
  shows "(\<forall>x \<in> S. upper_covers h x) \<and> (\<forall>w. (\<forall>x \<in> S. upper_covers w x) \<longrightarrow> upper_covers w h)"
proof (cases "None \<in> S")
  case True
  with h show ?thesis by (fastforce simp: upper_covers_def split: option.splits)
next
  case False
  then obtain T where T: "S = Some ` T"
    by (metis not_None_eq subset_imageE subsetI rangeI)
  with assms have "finite T" "T \<noteq> {}" "h = Some (Max T)"
    by (auto simp: finite_image_iff image_comp)
  with T show ?thesis by (auto simp: upper_covers_def split: option.splits)
qed

lemma lower_covers_hull:
  fixes S :: "'a :: linorder option set"
  assumes "finite S" "S \<noteq> {}" and h: "h = (if None \<in> S then None else Some (Min (the ` S)))"
  shows "(\<forall>x \<in> S. lower_covers h x) \<and> (\<forall>w. (\<forall>x \<in> S. lower_covers w x) \<longrightarrow> lower_covers w h)"
proof (cases "None \<in> S")
  case True
  with h show ?thesis by (fastforce simp: lower_covers_def split: option.splits)
next
  case False
  then obtain T where T: "S = Some ` T"
    by (metis not_None_eq subset_imageE subsetI rangeI)
  with assms have "finite T" "T \<noteq> {}" "h = Some (Min T)"
    by (auto simp: finite_image_iff image_comp)
  with T show ?thesis by (auto simp: lower_covers_def split: option.splits)
qed

text \<open>The four dimensions and the cells of a union, from the loop's folds.\<close>

lemma union_hull_dims:
  assumes ne: "vs \<noteq> []"
    and nz: "\<And>v t. v \<in> set vs \<Longrightarrow> cv_StartTime v = Some t \<or> cv_EndTime v = Some t \<Longrightarrow> \<not> IsZero t"
  shows "cv_EndTime (UnionCellsVolumes4D L vs) =
           (let S = cv_EndTime ` set vs in if None \<in> S then None else Some (Max (the ` S)))"
    and "cv_StartTime (UnionCellsVolumes4D L vs) =
           (let S = cv_StartTime ` set vs in if None \<in> S then None else Some (Min (the ` S)))"
    and "cv_AltitudeLo (UnionCellsVolumes4D L vs) =
           (let S = cv_AltitudeLo ` set vs in if None \<in> S then None else Some (Min (the ` S)))"
    and "cv_AltitudeHi (UnionCellsVolumes4D L vs) =
           (let S = cv_AltitudeHi ` set vs in if None \<in> S then None else Some (Max (the ` S)))"
  unfolding UnionCellsVolumes4D_sel
  using union_bound_cases(1) [OF ne, of cv_EndTime timeP] union_bound_cases(2) [OF ne, of cv_StartTime timeP]
    union_bound_cases(2) [OF ne, of cv_AltitudeLo Some] union_bound_cases(1) [OF ne, of cv_AltitudeHi Some]
    nz
  by (simp_all add: timeP_def Let_def image_comp)

lemma covers_volume_hull:
  assumes ne: "vs \<noteq> []"
    and cells: "set (cv_Cells U) = (\<Union>v \<in> set vs. set (cv_Cells v))"
    and dims: "cv_EndTime U = (let S = cv_EndTime ` set vs in if None \<in> S then None else Some (Max (the ` S)))"
      "cv_StartTime U = (let S = cv_StartTime ` set vs in if None \<in> S then None else Some (Min (the ` S)))"
      "cv_AltitudeLo U = (let S = cv_AltitudeLo ` set vs in if None \<in> S then None else Some (Min (the ` S)))"
      "cv_AltitudeHi U = (let S = cv_AltitudeHi ` set vs in if None \<in> S then None else Some (Max (the ` S)))"
  shows "(\<forall>v \<in> set vs. covers_volume U v) \<and>
         (\<forall>w. (\<forall>v \<in> set vs. covers_volume w v) \<longrightarrow> covers_volume w U)"
proof -
  have fin: "finite (f ` set vs)" and nonempty: "f ` set vs \<noteq> {}" for f :: "cells_volume_4d \<Rightarrow> 'b"
    using ne by simp_all
  note e = upper_covers_hull [OF fin nonempty dims(1) [unfolded Let_def]]
   and s = lower_covers_hull [OF fin nonempty dims(2) [unfolded Let_def]]
   and lo = lower_covers_hull [OF fin nonempty dims(3) [unfolded Let_def]]
   and hi = upper_covers_hull [OF fin nonempty dims(4) [unfolded Let_def]]
  have "covers_volume U v" if "v \<in> set vs" for v
    using that cells e s lo hi unfolding covers_volume_def by blast
  moreover have "covers_volume w U" if "\<forall>v \<in> set vs. covers_volume w v" for w
    using that cells e s lo hi unfolding covers_volume_def by (simp add: UN_subset_iff)
  ultimately show ?thesis by blast
qed

text \<open>For volumes whose cells are at level 13 and whose times are not the zero time, the union
  that \<open>UnionCellsVolumes4D\<close> computes covers each of them, and every other volume that covers them
  all covers the union: it is their least common hull in cells, time and altitude, unbounded exactly
  in the directions where some volume is.\<close>

lemma UnionCellsVolumes4D_hull:
  assumes "vs \<noteq> []" and "s2_union_at_level L 13"
    and "\<And>v c. v \<in> set vs \<Longrightarrow> c \<in> set (cv_Cells v) \<Longrightarrow> s2_Level L c = 13"
    and "\<And>v t. v \<in> set vs \<Longrightarrow> cv_StartTime v = Some t \<or> cv_EndTime v = Some t \<Longrightarrow> \<not> IsZero t"
  shows "(\<forall>v \<in> set vs. covers_volume (UnionCellsVolumes4D L vs) v) \<and>
         (\<forall>w. (\<forall>v \<in> set vs. covers_volume w v) \<longrightarrow> covers_volume w (UnionCellsVolumes4D L vs))"
proof (rule covers_volume_hull [OF assms(1) _ union_hull_dims [OF assms(1,4)]])
  show "set (cv_Cells (UnionCellsVolumes4D L vs)) = (\<Union>v \<in> set vs. set (cv_Cells v))"
    using assms(2,3) by (simp add: UnionCellsVolumes4D_sel Levelify_def s2_union_at_level_def)
qed

lemma UnionCellsVolumes4D_hull_witness:
  "let v = \<lparr>cv_Cells = [1, 2], cv_StartTime = Some 10, cv_EndTime = Some 20,
            cv_AltitudeLo = Some 0, cv_AltitudeHi = None\<rparr>;
       w = \<lparr>cv_Cells = [2, 3], cv_StartTime = Some 5, cv_EndTime = Some 15,
            cv_AltitudeLo = Some 1, cv_AltitudeHi = Some 7\<rparr>
   in covers_volume (UnionCellsVolumes4D demo_externals [v, w]) v"
  unfolding Let_def
  by (rule bspec [OF conjunct1 [OF UnionCellsVolumes4D_hull]])
    (auto simp: demo_s2_union_at_level IsZero_def zero_time_def)

section \<open>Geometries\<close>

text \<open>
  \<open>Volume4D\<close>, the volume as a client describes it: a spatial volume with a footprint, and a time
  range. \<open>Geometry\<close> is an interface; its two implementations are pointers, which may be nil, and the
  vertices of a polygon are pointers too.
\<close>

record LatLngPoint =
  ll_Lat :: rat
  ll_Lng :: rat

record circle =
  gc_Center :: LatLngPoint
  gc_RadiusMeter :: rat

datatype Geometry = GeoCircle "circle option" | GeoPolygon "LatLngPoint option list option"

record Volume3D =
  v3_AltitudeHi :: "rat option"
  v3_AltitudeLo :: "rat option"
  v3_Footprint :: "Geometry option"

record Volume4D =
  v4_SpatialVolume :: "Volume3D option"
  v4_EndTime :: "time option"
  v4_StartTime :: "time option"

definition GeoCircle_CalculateCovering :: "externals \<Rightarrow> circle option \<Rightarrow> cell_union outcome" where
  "GeoCircle_CalculateCovering L gc =
     obind (deref gc) (\<lambda>c.
     obind (ValidateLatLng (ll_Lat (gc_Center c)) (ll_Lng (gc_Center c))) (\<lambda>_.
     if \<not> gc_RadiusMeter c > 0 then Err ErrRadiusMustBeLargerThan0
     else Ok (s2_CoveringRegularLoop L (ll_Lat (gc_Center c), ll_Lng (gc_Center c))
                (DistanceMetersToAngle (gc_RadiusMeter c)) 20)))"

fun vertex_points :: "LatLngPoint option list \<Rightarrow> s2_point list outcome" where
  "vertex_points [] = Ok []"
| "vertex_points (p # ps) =
     obind (deref p) (\<lambda>v.
     obind (ValidateLatLng (ll_Lat v) (ll_Lng v)) (\<lambda>_.
     obind (vertex_points ps) (\<lambda>points. Ok ((ll_Lat v, ll_Lng v) # points))))"

definition GeoPolygon_CalculateCovering :: "externals \<Rightarrow> LatLngPoint option list option \<Rightarrow> cell_union outcome" where
  "GeoPolygon_CalculateCovering L gp =
     (case gp of
        None \<Rightarrow> Err ErrBadCoordSet
      | Some vertices \<Rightarrow>
          obind (vertex_points vertices) (\<lambda>points.
          if length points < 3 then Err ErrNotEnoughPointsInPolygon else Covering L points))"

definition CalculateCovering :: "externals \<Rightarrow> Geometry \<Rightarrow> cell_union outcome" where
  "CalculateCovering L g =
     (case g of GeoCircle gc \<Rightarrow> GeoCircle_CalculateCovering L gc | GeoPolygon gp \<Rightarrow> GeoPolygon_CalculateCovering L gp)"

section \<open>Request timestamps\<close>

text \<open>What the program reads of a \<open>context.Context\<close>: the request timestamp, if there is one.\<close>

type_synonym ctx = "time option"

definition NotBeforeNow :: "time \<Rightarrow> time option \<Rightarrow> time" where
  "NotBeforeNow now val =
     (case val of None \<Rightarrow> now | Some t \<Rightarrow> if t < now then now else t)"

text \<open>\<open>MustFromContext\<close> panics when the context has no timestamp or the zero one.\<close>

definition MustFromContext :: "ctx \<Rightarrow> time outcome" where
  "MustFromContext ctx =
     (case ctx of None \<Rightarrow> Panic | Some t \<Rightarrow> if IsZero t then Panic else Ok t)"

lemma NotBeforeNow_max: "NotBeforeNow now val = (case val of None \<Rightarrow> now | Some t \<Rightarrow> max now t)"
  by (auto simp: NotBeforeNow_def split: option.splits)

lemma MustFromContext_Ok [simp]: "MustFromContext ctx = Ok t \<longleftrightarrow> ctx = Some t \<and> \<not> IsZero t"
  by (auto simp: MustFromContext_def split: option.splits)

lemma MustFromContext_Some [simp]: "\<not> IsZero t \<Longrightarrow> MustFromContext (Some t) = Ok t"
  by (simp add: MustFromContext_def)

lemma MustFromContext_not_Err [simp]: "MustFromContext ctx \<noteq> Err e"
  by (simp add: MustFromContext_def split: option.splits)

end
