(* ===== verification/Scd_Models.thy ===== *)
theory Scd_Models
  imports Dss_Models
begin

text \<open>
  The models of the strategic-coordination service: \<open>src/pkg/scd/models\<close>, with the REST types of
  \<open>src/pkg/api/scdv1/types.gen.go\<close> they are built from and converted to.
\<close>

section \<open>Opaque version numbers\<close>

type_synonym OVN = string
type_synonym VersionNumber = "32 word"

definition NoOvnPhrase :: OVN where
  "NoOvnPhrase = ''Available from USS''"

definition NullV4UUID :: string where
  "NullV4UUID = ''00000000-0000-4000-8000-000000000000''"

abbreviation maxClockSkew :: duration where "maxClockSkew \<equiv> 5 * Minute"
abbreviation maxSubscriptionDuration :: duration where "maxSubscriptionDuration \<equiv> 24 * Hour"

text \<open>\<open>base64.StdEncoding\<close>, with padding.\<close>

definition base64_char :: "nat \<Rightarrow> char" where
  "base64_char n = char_of (if n < 26 then 65 + n else if n < 52 then 71 + n
                            else if n < 62 then n - 4 else if n = 62 then 43 else 47)"

fun base64_EncodeToString :: "8 word list \<Rightarrow> string" where
  "base64_EncodeToString [] = []"
| "base64_EncodeToString [a] =
     (let n = unat a * 2 ^ 16
      in [base64_char (n div 2 ^ 18 mod 64), base64_char (n div 2 ^ 12 mod 64), CHR ''='', CHR ''=''])"
| "base64_EncodeToString [a, b] =
     (let n = unat a * 2 ^ 16 + unat b * 2 ^ 8
      in [base64_char (n div 2 ^ 18 mod 64), base64_char (n div 2 ^ 12 mod 64),
          base64_char (n div 2 ^ 6 mod 64), CHR ''=''])"
| "base64_EncodeToString (a # b # c # rest) =
     (let n = unat a * 2 ^ 16 + unat b * 2 ^ 8 + unat c
      in [base64_char (n div 2 ^ 18 mod 64), base64_char (n div 2 ^ 12 mod 64),
          base64_char (n div 2 ^ 6 mod 64), base64_char (n mod 64)] @ base64_EncodeToString rest)"

definition ReplaceChar :: "char \<Rightarrow> char \<Rightarrow> string \<Rightarrow> string" where
  "ReplaceChar a b s = map (\<lambda>c. if c = a then b else c) s"

definition NewOVNFromTime :: "externals \<Rightarrow> time \<Rightarrow> string \<Rightarrow> OVN" where
  "NewOVNFromTime L t salt =
     (let sum = sha256_Sum256 L (salt @ time_FormatRFC3339Nano L t)
      in ReplaceChar (CHR ''='') (CHR ''_'')
           (ReplaceChar (CHR ''/'') (CHR ''.'')
             (ReplaceChar (CHR ''+'') (CHR ''-'') (base64_EncodeToString sum))))"

definition NewOVNFromUUIDv7Suffix :: "externals \<Rightarrow> time \<Rightarrow> ID \<Rightarrow> string \<Rightarrow> OVN outcome" where
  "NewOVNFromUUIDv7Suffix L now oiID suffix =
     (case uuid_Parse L suffix of
        None \<Rightarrow> Err (NewError ''invalid UUID'')
      | Some u \<Rightarrow>
          if uuid_Version L u \<noteq> 7
          then Err (NewError (''Suffix '' @ suffix @ '' is not version 7''))
          else if Duration_Abs (Sub now (uuid_UnixTime L u)) > maxClockSkew
          then Err (NewError (''Suffix '' @ suffix @ '' is too far away from now''))
          else Ok (oiID @ ''_'' @ suffix))"

definition OVN_Empty :: "OVN \<Rightarrow> bool" where
  "OVN_Empty ovn = (length ovn = 0)"

definition OVN_Valid :: "OVN \<Rightarrow> bool" where
  "OVN_Valid ovn = (length ovn \<ge> 16 \<and> length ovn \<le> 128)"

definition VersionNumber_Empty :: "VersionNumber \<Rightarrow> bool" where
  "VersionNumber_Empty v = (sint v \<le> 0)"

definition VersionNumber_Matches :: "VersionNumber \<Rightarrow> VersionNumber \<Rightarrow> bool" where
  "VersionNumber_Matches v w = (v = w)"

definition ValidateUSSBaseURL :: "externals \<Rightarrow> string \<Rightarrow> unit outcome" where
  "ValidateUSSBaseURL L s =
     (case url_ParseScheme L s of
        None \<Rightarrow> Err (NewError ''Error parsing URL'')
      | Some scheme \<Rightarrow>
          if scheme = ''https'' then Ok ()
          else if scheme = ''http'' then Err (NewError ''uss_base_url must use TLS'')
          else Err (NewError ''uss_base_url must support https scheme''))"

lemma length_base64: "length (base64_EncodeToString bs) = 4 * ((length bs + 2) div 3)"
proof -
  have "(5 + n) div 3 = Suc (Suc (Suc n) div 3)" for n :: nat by presburger
  then show ?thesis
    by (induction bs rule: base64_EncodeToString.induct) (simp_all add: Let_def)
qed

definition base64_alphabet :: "char set" where
  "base64_alphabet = insert (CHR ''='') (base64_char ` {..<64})"

lemma base64_char_in: "n < 64 \<Longrightarrow> base64_char n \<in> base64_alphabet"
  by (simp add: base64_alphabet_def)

lemma set_base64: "set (base64_EncodeToString bs) \<subseteq> base64_alphabet"
  by (induction bs rule: base64_EncodeToString.induct)
    (auto simp: Let_def base64_char_in base64_alphabet_def)

definition url_safe :: "char \<Rightarrow> bool" where
  "url_safe c \<longleftrightarrow> (let n = of_char c :: nat in
     (48 \<le> n \<and> n \<le> 57) \<or> (65 \<le> n \<and> n \<le> 90) \<or> (97 \<le> n \<and> n \<le> 122)) \<or> c \<in> {CHR ''-'', CHR ''.'', CHR ''_''}"

lemma ovn_char_safe:
  assumes "c \<in> base64_alphabet"
  shows "url_safe (if c = CHR ''+'' then CHR ''-'' else if c = CHR ''/'' then CHR ''.''
                   else if c = CHR ''='' then CHR ''_'' else c)"
proof (cases "c = CHR ''='' \<or> c = CHR ''+'' \<or> c = CHR ''/''")
  case True
  then show ?thesis by (auto simp: url_safe_def)
next
  case False
  with assms obtain n where n: "n < 64" "c = base64_char n" by (auto simp: base64_alphabet_def)
  then have v: "(of_char c :: nat) = (if n < 26 then 65 + n else if n < 52 then 71 + n
                            else if n < 62 then n - 4 else if n = 62 then 43 else 47)"
    by (simp add: base64_char_def)
  have "n < 62"
  proof (rule ccontr)
    assume "\<not> n < 62"
    with n have "n = 62 \<or> n = 63" by linarith
    with n False show False by (auto simp: base64_char_def char_of_eq_iff)
  qed
  with v False show ?thesis by (auto simp: url_safe_def Let_def)
qed

lemma NewOVNFromTime_map:
  "NewOVNFromTime L t salt =
     map (\<lambda>c. if c = CHR ''+'' then CHR ''-'' else if c = CHR ''/'' then CHR ''.''
              else if c = CHR ''='' then CHR ''_'' else c)
       (base64_EncodeToString (sha256_Sum256 L (salt @ time_FormatRFC3339Nano L t)))"
  by (simp add: NewOVNFromTime_def ReplaceChar_def Let_def)

lemma length_NewOVNFromTime: "sha256_length L \<Longrightarrow> length (NewOVNFromTime L t salt) = 44"
  by (simp add: NewOVNFromTime_map length_base64 sha256_length_def)

lemma NewOVNFromTime_not_Nil: "sha256_length L \<Longrightarrow> NewOVNFromTime L t salt \<noteq> []"
  using length_NewOVNFromTime [of L t salt] by auto

text \<open>An OVN generated by the DSS from an update time is valid (its length, 44, is within the
  bounds of \<open>OVN.Valid\<close>), is not empty, consists of characters that need no escaping in a URL path,
  and is never the placeholder phrase shown to clients that may not see it.\<close>

lemma NewOVNFromTime_valid:
  assumes "sha256_length L"
  shows "length (NewOVNFromTime L t salt) = 44 \<and> OVN_Valid (NewOVNFromTime L t salt) \<and>
         \<not> OVN_Empty (NewOVNFromTime L t salt) \<and> list_all url_safe (NewOVNFromTime L t salt) \<and>
         NewOVNFromTime L t salt \<noteq> NoOvnPhrase"
proof -
  have len: "length (NewOVNFromTime L t salt) = 44"
    using assms by (rule length_NewOVNFromTime)
  have "list_all url_safe (NewOVNFromTime L t salt)"
    unfolding NewOVNFromTime_map list_all_iff set_map
    using set_base64 ovn_char_safe by blast
  with len show ?thesis
    by (auto simp: OVN_Valid_def OVN_Empty_def NoOvnPhrase_def)
qed

lemma NewOVNFromTime_valid_witness:
  "OVN_Valid (NewOVNFromTime demo_externals 1 ''id'')"
  using NewOVNFromTime_valid [OF demo_sha256_length, of 1 "''id''"] by simp

section \<open>USS availability\<close>

type_synonym UssAvailabilityState = string

abbreviation UssAvailabilityStateUnknown :: UssAvailabilityState where
  "UssAvailabilityStateUnknown \<equiv> ''Unknown''"
abbreviation UssAvailabilityStateNormal :: UssAvailabilityState where
  "UssAvailabilityStateNormal \<equiv> ''Normal''"
abbreviation UssAvailabilityStateDown :: UssAvailabilityState where
  "UssAvailabilityStateDown \<equiv> ''Down''"

record UssAvailabilityStatus =
  ua_Uss :: Manager
  ua_Availability :: UssAvailabilityState
  ua_Version :: OVN

record rest_UssAvailabilityStatus =
  rua_Uss :: string
  rua_Availability :: string

definition ToLower :: "string \<Rightarrow> string" where
  "ToLower s = map (\<lambda>c. let n = of_char c :: nat
                        in if 65 \<le> n \<and> n \<le> 90 then char_of (n + 32) else c) s"

definition UssAvailabilityStateFromString :: "string \<Rightarrow> UssAvailabilityState outcome" where
  "UssAvailabilityStateFromString s =
     (let l = ToLower s in
      if l = '''' \<or> l = ''unknown'' then Ok UssAvailabilityStateUnknown
      else if l = ''normal'' then Ok UssAvailabilityStateNormal
      else if l = ''down'' then Ok UssAvailabilityStateDown
      else Err (NewError ''Invalid USS availability state''))"

definition UssAvailabilityStatus_ToRest :: "UssAvailabilityStatus \<Rightarrow> rest_UssAvailabilityStatus" where
  "UssAvailabilityStatus_ToRest u = \<lparr>rua_Uss = ua_Uss u, rua_Availability = ua_Availability u\<rparr>"

section \<open>Operational intents\<close>

type_synonym OperationalIntentState = string

abbreviation (input) OperationalIntentStateUnknown :: OperationalIntentState where
  "OperationalIntentStateUnknown \<equiv> ''''"
abbreviation OperationalIntentStateAccepted :: OperationalIntentState where
  "OperationalIntentStateAccepted \<equiv> ''Accepted''"
abbreviation OperationalIntentStateActivated :: OperationalIntentState where
  "OperationalIntentStateActivated \<equiv> ''Activated''"
abbreviation OperationalIntentStateNonconforming :: OperationalIntentState where
  "OperationalIntentStateNonconforming \<equiv> ''Nonconforming''"
abbreviation OperationalIntentStateContingent :: OperationalIntentState where
  "OperationalIntentStateContingent \<equiv> ''Contingent''"

definition State_RequiresSubscription :: "OperationalIntentState \<Rightarrow> bool" where
  "State_RequiresSubscription s = (s \<noteq> OperationalIntentStateAccepted)"

definition State_RequiresKey :: "OperationalIntentState \<Rightarrow> bool" where
  "State_RequiresKey s =
     (if s = OperationalIntentStateNonconforming \<or> s = OperationalIntentStateContingent
      then False else True)"

definition State_IsValidInDSS :: "OperationalIntentState \<Rightarrow> bool" where
  "State_IsValidInDSS s =
     (s = OperationalIntentStateAccepted \<or> s = OperationalIntentStateActivated \<or>
      s = OperationalIntentStateNonconforming \<or> s = OperationalIntentStateContingent)"

definition State_RequiresCMSA :: "OperationalIntentState \<Rightarrow> bool" where
  "State_RequiresCMSA s =
     (s = OperationalIntentStateNonconforming \<or> s = OperationalIntentStateContingent)"

record OperationalIntent =
  oi_ID :: ID
  oi_Manager :: Manager
  oi_UssAvailability :: UssAvailabilityState
  oi_Version :: VersionNumber
  oi_State :: OperationalIntentState
  oi_OVN :: OVN
  oi_PastOVNs :: "OVN list"
  oi_USSBaseURL :: string
  oi_SubscriptionID :: "ID option"
  oi_Volume :: cells_volume_4d

record rest_Time =
  rt_Value :: string
  rt_Format :: string

definition zero_rest_Time :: rest_Time where
  "zero_rest_Time = \<lparr>rt_Value = '''', rt_Format = ''''\<rparr>"

definition RestTime :: "externals \<Rightarrow> time \<Rightarrow> rest_Time" where
  "RestTime L t = \<lparr>rt_Value = time_FormatRFC3339Nano L t, rt_Format = ''RFC3339''\<rparr>"

record rest_OIR =
  roi_Id :: string
  roi_Manager :: string
  roi_UssAvailability :: string
  roi_Version :: VersionNumber
  roi_State :: string
  roi_Ovn :: "string option"
  roi_TimeStart :: rest_Time
  roi_TimeEnd :: rest_Time
  roi_UssBaseUrl :: string
  roi_SubscriptionId :: string

definition OperationalIntent_ToRest :: "externals \<Rightarrow> OperationalIntent \<Rightarrow> rest_OIR" where
  "OperationalIntent_ToRest L o1 = \<lparr>
     roi_Id = oi_ID o1, roi_Manager = oi_Manager o1, roi_UssAvailability = oi_UssAvailability o1,
     roi_Version = oi_Version o1, roi_State = oi_State o1, roi_Ovn = Some (oi_OVN o1),
     roi_TimeStart = (case cv_StartTime (oi_Volume o1) of None \<Rightarrow> zero_rest_Time | Some t \<Rightarrow> RestTime L t),
     roi_TimeEnd = (case cv_EndTime (oi_Volume o1) of None \<Rightarrow> zero_rest_Time | Some t \<Rightarrow> RestTime L t),
     roi_UssBaseUrl = oi_USSBaseURL o1,
     roi_SubscriptionId = (case oi_SubscriptionID o1 of None \<Rightarrow> NullV4UUID | Some i \<Rightarrow> i)\<rparr>"

text \<open>Whether the intent's OVN must be in the key of a client that plans over it.\<close>

definition OperationalIntent_RequiresKey :: "OperationalIntent \<Rightarrow> bool" where
  "OperationalIntent_RequiresKey o1 =
     (oi_UssAvailability o1 \<noteq> UssAvailabilityStateDown \<or> oi_State o1 \<noteq> OperationalIntentStateAccepted)"

section \<open>Constraints\<close>

record Constraint =
  con_ID :: ID
  con_Manager :: Manager
  con_UssAvailability :: UssAvailabilityState
  con_Version :: VersionNumber
  con_OVN :: OVN
  con_USSBaseURL :: string
  con_Volume :: cells_volume_4d

record rest_Constraint =
  rco_Id :: string
  rco_Manager :: string
  rco_UssAvailability :: string
  rco_Version :: VersionNumber
  rco_Ovn :: "string option"
  rco_TimeStart :: rest_Time
  rco_TimeEnd :: rest_Time
  rco_UssBaseUrl :: string

definition Constraint_ToRest :: "externals \<Rightarrow> Constraint \<Rightarrow> rest_Constraint" where
  "Constraint_ToRest L c = \<lparr>
     rco_Id = con_ID c, rco_Manager = con_Manager c,
     rco_UssAvailability = UssAvailabilityStateUnknown, rco_Version = con_Version c,
     rco_Ovn = Some (con_OVN c),
     rco_TimeStart = (case cv_StartTime (con_Volume c) of None \<Rightarrow> zero_rest_Time | Some t \<Rightarrow> RestTime L t),
     rco_TimeEnd = (case cv_EndTime (con_Volume c) of None \<Rightarrow> zero_rest_Time | Some t \<Rightarrow> RestTime L t),
     rco_UssBaseUrl = con_USSBaseURL c\<rparr>"

section \<open>Subscriptions\<close>

record Subscription =
  sub_ID :: ID
  sub_Version :: OVN
  sub_NotificationIndex :: "64 word"
  sub_Manager :: Manager
  sub_USSBaseURL :: string
  sub_NotifyForOperationalIntents :: bool
  sub_NotifyForConstraints :: bool
  sub_ImplicitSubscription :: bool
  sub_Volume :: cells_volume_4d

record rest_Subscription =
  rsu_Id :: string
  rsu_Version :: string
  rsu_NotificationIndex :: "32 word"
  rsu_TimeStart :: "rest_Time option"
  rsu_TimeEnd :: "rest_Time option"
  rsu_UssBaseUrl :: string
  rsu_NotifyForOperationalIntents :: bool
  rsu_NotifyForConstraints :: bool
  rsu_ImplicitSubscription :: bool
  rsu_DependentOperationalIntents :: "string list"

definition Subscription_ToRest :: "externals \<Rightarrow> Subscription \<Rightarrow> ID list \<Rightarrow> rest_Subscription" where
  "Subscription_ToRest L s dependentOperationalIntents = \<lparr>
     rsu_Id = sub_ID s, rsu_Version = sub_Version s, rsu_NotificationIndex = ucast (sub_NotificationIndex s),
     rsu_TimeStart = map_option (RestTime L) (cv_StartTime (sub_Volume s)),
     rsu_TimeEnd = map_option (RestTime L) (cv_EndTime (sub_Volume s)),
     rsu_UssBaseUrl = sub_USSBaseURL s,
     rsu_NotifyForOperationalIntents = sub_NotifyForOperationalIntents s,
     rsu_NotifyForConstraints = sub_NotifyForConstraints s,
     rsu_ImplicitSubscription = sub_ImplicitSubscription s,
     rsu_DependentOperationalIntents = dependentOperationalIntents\<rparr>"

text \<open>
  The time range rules of a subscription. Both \<open>pkg/scd/models\<close> and \<open>pkg/rid/models\<close> hold the
  same code on their own \<open>Subscription\<close> type; the part that computes on the two times is written
  once, on the request's and the old subscription's times, and each service's \<open>AdjustTimeRange\<close>
  applies it to its own record.
\<close>

definition adjust_start :: "string \<Rightarrow> time \<Rightarrow> time option \<Rightarrow> time option option \<Rightarrow> time option outcome" where
  "adjust_start what now start old_start =
     (case start of
        None \<Rightarrow> Ok (case old_start of None \<Rightarrow> Some now | Some o1 \<Rightarrow> o1)
      | Some t \<Rightarrow> if Sub now t > maxClockSkew
                 then Err (NewErrorWithCode BadRequest (what @ '' time_start must not be in the past''))
                 else Ok (Some t))"

definition adjust_subscription_times ::
    "time \<Rightarrow> time option \<Rightarrow> time option \<Rightarrow> (time option \<times> time option) option \<Rightarrow>
     (time option \<times> time option) outcome" where
  "adjust_subscription_times now start end1 old =
     obind (adjust_start ''Subscription'' now start (map_option fst old)) (\<lambda>st.
     let e1 = (case end1 of None \<Rightarrow> (case old of None \<Rightarrow> None | Some (_, oe) \<Rightarrow> oe) | Some e \<Rightarrow> Some e) in
     obind (case e1 of Some e \<Rightarrow> Ok e
                     | None \<Rightarrow> obind (deref st) (\<lambda>s. Ok (s + maxSubscriptionDuration))) (\<lambda>e.
     obind (deref st) (\<lambda>s.
     if Sub e s < 0
     then Err (NewErrorWithCode BadRequest ''Subscription time_end must be after time_start'')
     else if Sub e s > maxSubscriptionDuration
     then Err (NewErrorWithCode BadRequest ''Subscription window exceeds 24 hours'')
     else Ok (Some s, Some e))))"

definition Subscription_AdjustTimeRange ::
    "time \<Rightarrow> Subscription \<Rightarrow> Subscription option \<Rightarrow> Subscription outcome" where
  "Subscription_AdjustTimeRange now s old =
     obind (adjust_subscription_times now (cv_StartTime (sub_Volume s)) (cv_EndTime (sub_Volume s))
              (map_option (\<lambda>o1. (cv_StartTime (sub_Volume o1), cv_EndTime (sub_Volume o1))) old))
       (\<lambda>(st, en). Ok (s\<lparr>sub_Volume := (sub_Volume s)\<lparr>cv_StartTime := st, cv_EndTime := en\<rparr>\<rparr>))"

lemma adjust_start_Ok:
  "adjust_start w now start old = Ok st \<longleftrightarrow>
     (case start of None \<Rightarrow> st = (case old of None \<Rightarrow> Some now | Some o1 \<Rightarrow> o1)
                  | Some t \<Rightarrow> now - t \<le> maxClockSkew \<and> st = Some t)"
  using Sub_gt_iff [of maxClockSkew now]
  by (auto simp: adjust_start_def not_less split: option.splits)

lemma adjust_subscription_times_Ok:
  assumes "adjust_subscription_times now start end1 old = Ok (st, en)"
  shows "\<exists>s e. st = Some s \<and> en = Some e \<and> s \<le> e \<and> e - s \<le> maxSubscriptionDuration \<and>
           (\<forall>t. start = Some t \<longrightarrow> s = t \<and> now - t \<le> maxClockSkew) \<and>
           (start = None \<and> old = None \<longrightarrow> s = now) \<and>
           (\<forall>t. end1 = Some t \<longrightarrow> e = t)"
  using assms Sub_gt_iff [of maxSubscriptionDuration] unfolding adjust_subscription_times_def
  by (auto simp: monad_simps adjust_start_Ok Let_def Sub_neg_iff not_less deref_def
      split: option.splits if_splits)

text \<open>\<open>ValidateDependentOp\<close> dereferences the altitudes of both sides and the times without a nil
  check; each dereference is a possible panic. \<open>||\<close> evaluates its second comparison only when the
  first is false.\<close>

definition ValidateDependentOp :: "externals \<Rightarrow> Subscription \<Rightarrow> OperationalIntent \<Rightarrow> unit outcome" where
  "ValidateDependentOp L s o1 =
     (let sv = sub_Volume s; ov = oi_Volume o1 in
      if \<not> s2_Contains L (cv_Cells sv) (cv_Cells ov)
      then Err (NewError (''Subscription does not cover dependent operation 2d area, '' @ oi_ID o1))
      else
        obind (deref (cv_AltitudeLo ov)) (\<lambda>olo. obind (deref (cv_AltitudeLo sv)) (\<lambda>slo.
        obind (if olo < slo then Ok True
               else obind (deref (cv_AltitudeHi ov)) (\<lambda>ohi. obind (deref (cv_AltitudeHi sv)) (\<lambda>shi.
                      Ok (ohi > shi)))) (\<lambda>alt.
        if alt
        then Err (NewError (''Subscription does not cover dependent operation altitude, '' @ oi_ID o1))
        else
          obind (deref (cv_StartTime sv)) (\<lambda>ss. obind (deref (cv_StartTime ov)) (\<lambda>os.
          if Sub ss os > 5 * Minute
          then Err (NewError (''Subscription start time does not cover dependent operation's start time, '' @ oi_ID o1))
          else
            obind (deref (cv_EndTime ov)) (\<lambda>oe. obind (deref (cv_EndTime sv)) (\<lambda>se.
            if oe > se
            then Err (NewError (''Subscription does not cover dependent operation's end time, '' @ oi_ID o1))
            else Ok ()))))))))"

fun ValidateDependentOps :: "externals \<Rightarrow> Subscription \<Rightarrow> OperationalIntent option list \<Rightarrow> unit outcome" where
  "ValidateDependentOps L s [] = Ok ()"
| "ValidateDependentOps L s (o1 # os) =
     obind (deref o1) (\<lambda>op.
       obind (omap_err (PropagateWithCode (Some BadRequest)) (ValidateDependentOp L s op)) (\<lambda>_.
         ValidateDependentOps L s os))"

end
