(* ===== verification/Interfaces.thy ===== *)
theory Interfaces
  imports Prelude
begin

text \<open>
  The contracts between the components, as locales, with what their clients derive from them.

  \<^item> \<open>entity_store\<close>: a repository of entities under keys, with an upsert, a lookup and a delete.
    Whatever sequence of upserts and deletes is run, the lookups behave as those of a partial map
    (\<open>run_refines_map\<close>).
  \<^item> \<open>versioned_store\<close>: a repository with inserts, and with updates and deletes that name the version
    they are based on. A run of them refines a partial map, and a stale update does nothing.
  \<^item> \<open>checkpointed_repo\<close>: the interface \<open>memstore.MemRepo\<close>, with its one checkpoint, and an
    application function that does not touch the checkpoint. An application that fails between a
    checkpoint and a restore leaves no trace (\<open>rollback\<close>).
  \<^item> \<open>guarded_delete\<close> and \<open>fenced_delete\<close>: deletes that are fenced by owner and version; at most one
    of several deletes of an entity succeeds (\<open>del_once\<close>).

  Each locale is interpreted in the theories of the stores that implement it.
\<close>

section \<open>Stores of entities\<close>

text \<open>Two commands on a store and the map a client has in mind.\<close>

datatype ('k, 'm) store_cmd = Put 'm | Del 'k

fun run_cmd :: "('m \<Rightarrow> ('s, 'm) op) \<Rightarrow> ('k \<Rightarrow> ('s, unit) op) \<Rightarrow> ('k, 'm) store_cmd \<Rightarrow> ('s, 'm option) op" where
  "run_cmd upsert remove (Put m) = bindE (upsert m) (\<lambda>m'. ret (Some m'))"
| "run_cmd upsert remove (Del k) = bindE (remove k) (\<lambda>_. ret None)"

text \<open>Every command is run, failed or not; the responses are collected.\<close>

fun run_cmds ::
    "('m \<Rightarrow> ('s, 'm) op) \<Rightarrow> ('k \<Rightarrow> ('s, unit) op) \<Rightarrow> ('k, 'm) store_cmd list \<Rightarrow> 's \<Rightarrow>
     'm option outcome list \<times> 's" where
  "run_cmds upsert remove [] s = ([], s)"
| "run_cmds upsert remove (c # cs) s =
     (case run_cmd upsert remove c s of (r, t) \<Rightarrow>
        case run_cmds upsert remove cs t of (rs, u) \<Rightarrow> (r # rs, u))"

fun map_cmd :: "('m \<Rightarrow> 'k) \<Rightarrow> ('k, 'm) store_cmd \<Rightarrow> 'm option outcome \<Rightarrow> ('k \<rightharpoonup> 'm) \<Rightarrow> ('k \<rightharpoonup> 'm)" where
  "map_cmd key (Put m) (Ok (Some m')) f = f(key m \<mapsto> m')"
| "map_cmd key (Del k) (Ok _) f = f(k := None)"
| "map_cmd key c r f = f"

fun map_cmds :: "('m \<Rightarrow> 'k) \<Rightarrow> ('k, 'm) store_cmd list \<Rightarrow> 'm option outcome list \<Rightarrow> ('k \<rightharpoonup> 'm) \<Rightarrow> ('k \<rightharpoonup> 'm)" where
  "map_cmds key (c # cs) (r # rs) f = map_cmds key cs rs (map_cmd key c r f)"
| "map_cmds key _ _ f = f"

locale entity_store =
  fixes upsert :: "'m \<Rightarrow> ('s, 'm) op"
    and lookup :: "'s \<Rightarrow> 'k \<Rightarrow> 'm option"
    and remove :: "'k \<Rightarrow> ('s, unit) op"
    and key :: "'m \<Rightarrow> 'k"
  assumes upsert_lookup: "upsert m s = (Ok m', t) \<Longrightarrow> lookup t = (lookup s)(key m \<mapsto> m')"
    and upsert_fails: "upsert m s = (r, t) \<Longrightarrow> \<not> is_Ok r \<Longrightarrow> t = s"
    and remove_absent: "lookup s k = None \<Longrightarrow> \<exists>e. remove k s = (Err e, s)"
    and remove_present: "lookup s k = Some m \<Longrightarrow> \<exists>t. remove k s = (Ok (), t) \<and> lookup t = (lookup s)(k := None)"
begin

lemma remove_Ok: "remove k s = (Ok u, t) \<Longrightarrow> lookup s k \<noteq> None \<and> lookup t = (lookup s)(k := None)"
  using remove_absent [of s k] remove_present [of s k] by (cases "lookup s k") auto

lemma remove_fails: "remove k s = (r, t) \<Longrightarrow> \<not> is_Ok r \<Longrightarrow> t = s \<and> lookup s k = None"
  using remove_absent [of s k] remove_present [of s k] by (cases "lookup s k") auto

lemma remove_twice: "remove k s = (Ok u, t) \<Longrightarrow> \<exists>e. remove k t = (Err e, t)"
  by (rule remove_absent) (simp add: remove_Ok)

lemma upsert_remove:
  assumes "upsert m s = (Ok m', t)"
  shows "\<exists>u. remove (key m) t = (Ok (), u) \<and> lookup u = (lookup s)(key m := None)"
  using remove_present [of t "key m" m'] upsert_lookup [OF assms] by auto

lemma run_cmd_refines:
  "run_cmd upsert remove c s = (r, t) \<Longrightarrow> lookup t = map_cmd key c r (lookup s)"
proof (cases c)
  case (Put m)
  moreover assume "run_cmd upsert remove c s = (r, t)"
  ultimately show ?thesis
    by (cases "upsert m s") (auto simp: bindE_def upsert_lookup dest: upsert_fails split: outcome.splits)
next
  case (Del k)
  moreover assume "run_cmd upsert remove c s = (r, t)"
  ultimately show ?thesis
    by (cases "remove k s") (auto simp: bindE_def remove_Ok dest: remove_fails split: outcome.splits)
qed

lemma run_refines_map:
  "run_cmds upsert remove cs s = (rs, t) \<Longrightarrow> lookup t = map_cmds key cs rs (lookup s)"
  by (induction cs arbitrary: s rs t) (auto simp: run_cmd_refines split: prod.splits)

end

section \<open>Stores with versions\<close>

text \<open>The stores of the remote-identification service: an insert refuses an entity that exists; an
  update and a delete act only on an entity whose version the given one matches and answer nil
  otherwise.\<close>

datatype 'm versioned_cmd = Insert 'm | Update 'm | Delete 'm

fun run_versioned ::
    "('m \<Rightarrow> ('s, 'm) op) \<Rightarrow> ('m \<Rightarrow> ('s, 'm option) op) \<Rightarrow> ('m \<Rightarrow> ('s, 'm option) op) \<Rightarrow>
     'm versioned_cmd list \<Rightarrow> 's \<Rightarrow> 'm option outcome list \<times> 's" where
  "run_versioned ins upd del [] s = ([], s)"
| "run_versioned ins upd del (c # cs) s =
     (case (case c of Insert m \<Rightarrow> bindE (ins m) (\<lambda>m'. ret (Some m')) | Update m \<Rightarrow> upd m | Delete m \<Rightarrow> del m) s of
        (r, t) \<Rightarrow> case run_versioned ins upd del cs t of (rs, u) \<Rightarrow> (r # rs, u))"

text \<open>The map a client has in mind: it changes where the store answers with an entity.\<close>

fun versioned_map :: "('m \<Rightarrow> 'k) \<Rightarrow> 'm versioned_cmd \<Rightarrow> 'm option outcome \<Rightarrow> ('k \<rightharpoonup> 'm) \<Rightarrow> ('k \<rightharpoonup> 'm)" where
  "versioned_map key (Insert m) (Ok (Some m')) f = f(key m \<mapsto> m')"
| "versioned_map key (Update m) (Ok (Some m')) f = f(key m \<mapsto> m')"
| "versioned_map key (Delete m) (Ok (Some m')) f = f(key m := None)"
| "versioned_map key c r f = f"

fun versioned_maps :: "('m \<Rightarrow> 'k) \<Rightarrow> 'm versioned_cmd list \<Rightarrow> 'm option outcome list \<Rightarrow> ('k \<rightharpoonup> 'm) \<Rightarrow> ('k \<rightharpoonup> 'm)" where
  "versioned_maps key (c # cs) (r # rs) f = versioned_maps key cs rs (versioned_map key c r f)"
| "versioned_maps key _ _ f = f"

locale versioned_store =
  fixes ins :: "'m \<Rightarrow> ('s, 'm) op"
    and upd :: "'m \<Rightarrow> ('s, 'm option) op"
    and del :: "'m \<Rightarrow> ('s, 'm option) op"
    and lookup :: "'s \<Rightarrow> 'k \<Rightarrow> 'm option"
    and key :: "'m \<Rightarrow> 'k"
    and matches :: "'m \<Rightarrow> 'm \<Rightarrow> bool"
  assumes ins_Ok: "ins m s = (Ok m', t) \<Longrightarrow> lookup s (key m) = None \<and> lookup t = (lookup s)(key m \<mapsto> m')"
    and ins_fails: "ins m s = (r, t) \<Longrightarrow> \<not> is_Ok r \<Longrightarrow> t = s"
    and upd_Some: "upd m s = (Ok (Some m'), t) \<Longrightarrow>
          (\<exists>old. lookup s (key m) = Some old \<and> matches old m) \<and> lookup t = (lookup s)(key m \<mapsto> m')"
    and upd_fails: "upd m s = (r', t) \<Longrightarrow> \<forall>m'. r' \<noteq> Ok (Some m') \<Longrightarrow> t = s"
    and del_Some: "del m s = (Ok (Some m'), t) \<Longrightarrow>
          lookup s (key m) = Some m' \<and> matches m' m \<and> lookup t = (lookup s)(key m := None)"
    and del_fails: "del m s = (r', t) \<Longrightarrow> \<forall>m'. r' \<noteq> Ok (Some m') \<Longrightarrow> t = s"
begin

text \<open>An update that was based on a version which another update has replaced does nothing.\<close>

lemma stale_update:
  assumes "upd m s = (Ok (Some m'), t)" and "key n = key m" and "\<not> matches m' n" and "upd n t = (r, u)"
  shows "u = t \<and> r \<noteq> Ok (Some x)"
proof -
  have l: "lookup t (key n) = Some m'" using upd_Some [OF assms(1)] assms(2) by simp
  have "r \<noteq> Ok (Some y)" for y
  proof
    assume "r = Ok (Some y)"
    with upd_Some [of n t y u] assms(3,4) l show False by auto
  qed
  with upd_fails [OF assms(4)] show ?thesis by blast
qed

lemma run_versioned_refines:
  "run_versioned ins upd del cs s = (rs, t) \<Longrightarrow> lookup t = versioned_maps key cs rs (lookup s)"
proof (induction cs arbitrary: s rs)
  case (Cons c cs)
  obtain r u where step: "(case c of Insert m \<Rightarrow> bindE (ins m) (\<lambda>m'. ret (Some m')) | Update m \<Rightarrow> upd m | Delete m \<Rightarrow> del m) s = (r, u)"
    by fastforce
  have "lookup u = versioned_map key c r (lookup s)"
  proof (cases c)
    case (Insert m)
    obtain x v where i: "ins m s = (x, v)" by fastforce
    show ?thesis
    proof (cases x)
      case (Ok m')
      with step Insert i ins_Ok [of m s m' v] show ?thesis by auto
    qed (use step Insert i ins_fails [OF i] in auto)
  next
    case (Update m)
    then have e: "upd m s = (r, u)" using step by simp
    show ?thesis
    proof (cases "\<exists>m'. r = Ok (Some m')")
      case True
      with e upd_Some [of m s _ u] Update show ?thesis by auto
    next
      case False
      then have "versioned_map key c r (lookup s) = lookup s"
        by (cases "(key, c, r, lookup s)" rule: versioned_map.cases) auto
      with upd_fails [OF e] False show ?thesis by simp
    qed
  next
    case (Delete m)
    then have e: "del m s = (r, u)" using step by simp
    show ?thesis
    proof (cases "\<exists>m'. r = Ok (Some m')")
      case True
      with e del_Some [of m s _ u] Delete show ?thesis by auto
    next
      case False
      then have "versioned_map key c r (lookup s) = lookup s"
        by (cases "(key, c, r, lookup s)" rule: versioned_map.cases) auto
      with del_fails [OF e] False show ?thesis by simp
    qed
  qed
  with Cons step show ?case by (auto split: prod.splits)
qed simp

end

section \<open>Repositories with a checkpoint\<close>

record 's mem_repo =
  mr_state :: 's
  mr_checkpoint :: 's

text \<open>An operation on the state of a repository, as an operation on the repository.\<close>

definition on_state :: "('s, 'a) op \<Rightarrow> ('s mem_repo, 'a) op" where
  "on_state m r = (case m (mr_state r) of (x, s) \<Rightarrow> (x, r\<lparr>mr_state := s\<rparr>))"

lemma on_state_sel [simp]:
  "fst (on_state m r) = fst (m (mr_state r))"
  "mr_state (snd (on_state m r)) = snd (m (mr_state r))"
  "mr_checkpoint (snd (on_state m r)) = mr_checkpoint r"
  by (simp_all add: on_state_def split: prod.splits)

locale checkpointed_repo =
  fixes Checkpoint :: "'r \<Rightarrow> 'r"
    and Restore :: "'r \<Rightarrow> 'r"
    and current :: "'r \<Rightarrow> 's"
    and saved :: "'r \<Rightarrow> 's"
    and app :: "'p \<Rightarrow> ('r, 'a) op"
  assumes checkpoint_current: "current (Checkpoint r) = current r"
    and checkpoint_saved: "saved (Checkpoint r) = current r"
    and restore_current: "current (Restore r) = saved r"
    and restore_saved: "saved (Restore r) = saved r"
    and app_saved: "saved (snd (app p r)) = saved r"
begin

lemma rollback: "current (Restore (snd (app p (Checkpoint r)))) = current r"
  by (simp add: restore_current app_saved checkpoint_saved)

lemma restore_idem: "current (Restore (Restore r)) = current (Restore r)"
  by (simp add: restore_current restore_saved)

end

section \<open>Deletes that are fenced by owner and version\<close>

text \<open>A delete names the entity, the client that asks and the version the client knows. It removes
  an entity only for its owner and only at its current version. The two services compare versions
  differently and check owner and version in different orders, so the first contract leaves open which
  of the two refusals a client sees that fails both checks.\<close>

locale guarded_delete =
  fixes inv :: "'s \<Rightarrow> bool"
    and lookup :: "'s \<Rightarrow> 'k \<Rightarrow> 'm option"
    and owner :: "'m \<Rightarrow> 'o"
    and fits :: "'v \<Rightarrow> 'm \<Rightarrow> bool"
    and del :: "'k \<Rightarrow> 'o \<Rightarrow> 'v \<Rightarrow> ('s, 'r) op"
  assumes absent: "lookup s k = None \<Longrightarrow> \<exists>e. del k own v s = (Err e, s) \<and> GetCode e = Some NotFound"
    and refused: "lookup s k = Some m \<Longrightarrow> owner m \<noteq> own \<or> \<not> fits v m \<Longrightarrow>
          \<exists>e. del k own v s = (Err e, s) \<and> GetCode e \<in> {Some PermissionDenied, Some VersionMismatch}"
    and removes: "inv s \<Longrightarrow> del k own v s = (Ok r, t) \<Longrightarrow> lookup t = (lookup s)(k := None)"
begin

lemma del_guard:
  assumes "del k own v s = (Ok r, t)"
  shows "\<exists>m. lookup s k = Some m \<and> owner m = own \<and> fits v m"
  using assms absent [of s k own v] refused [of s k _ own v] by (cases "lookup s k") fastforce+

lemma del_effect:
  "inv s \<Longrightarrow> del k own v s = (Ok r, t) \<Longrightarrow>
     (\<exists>m. lookup s k = Some m \<and> owner m = own \<and> fits v m) \<and> lookup t = (lookup s)(k := None)"
  using del_guard removes by blast

text \<open>Of two deletes of the same entity, in whatever order and by whomever, at most one succeeds.\<close>

lemma del_once:
  assumes "inv s" "del k own v s = (Ok r, t)"
  shows "\<exists>e. del k own' v' t = (Err e, t) \<and> GetCode e = Some NotFound"
  by (rule absent) (simp add: removes [OF assms])

end

text \<open>The stricter contract of the strategic-coordination service: the owner is checked first, and
  versions are compared by equality.\<close>

locale fenced_delete =
  fixes lookup :: "'s \<Rightarrow> 'k \<Rightarrow> 'm option"
    and owner :: "'m \<Rightarrow> 'o"
    and version_of :: "'m \<Rightarrow> 'v"
    and del :: "'k \<Rightarrow> 'o \<Rightarrow> 'v \<Rightarrow> ('s, 'r) op"
  assumes del_absent: "lookup s k = None \<Longrightarrow> \<exists>e. del k own v s = (Err e, s) \<and> GetCode e = Some NotFound"
    and not_owner: "lookup s k = Some m \<Longrightarrow> owner m \<noteq> own \<Longrightarrow>
          \<exists>e. del k own v s = (Err e, s) \<and> GetCode e = Some PermissionDenied"
    and stale: "lookup s k = Some m \<Longrightarrow> owner m = own \<Longrightarrow> version_of m \<noteq> v \<Longrightarrow>
          \<exists>e. del k own v s = (Err e, s) \<and> GetCode e = Some VersionMismatch"
    and del_removes: "del k own v s = (Ok r, t) \<Longrightarrow> lookup t = (lookup s)(k := None)"

sublocale fenced_delete \<subseteq> guarded_delete "\<lambda>_. True" lookup owner "\<lambda>v m. version_of m = v" del
proof (unfold_locales, goal_cases)
  case (2 s k m own v)
  then show ?case using not_owner [of s k m own v] stale [of s k m own v] by (cases "owner m = own") auto
qed (auto intro: del_absent del_removes)

section \<open>Stores that execute requests as transactions\<close>

text \<open>What the servers rely on when they hand a request to \<open>Store.Transact\<close>. An answer is the result of
  executing the request, whose effect is then on the store. An error with a code is the error of the
  execution and has no effect. An error without a code may be a failure of the store itself (a
  cancelled context, a lost leader), after which the request may or may not have taken effect.
  \<open>proper\<close> are the requests the store can encode.\<close>

locale transactional_store =
  fixes transact :: "'c \<Rightarrow> 'q \<Rightarrow> ('r, 'a) op"
    and current :: "'r \<Rightarrow> 's"
    and execute :: "'c \<Rightarrow> 'q \<Rightarrow> ('s, 'b) op"
    and answer :: "'b \<Rightarrow> 'a"
    and proper :: "'q \<Rightarrow> bool"
  assumes committed: "proper q \<Longrightarrow> transact c q r = (Ok y, r') \<Longrightarrow>
      \<exists>resp. y = answer resp \<and> execute c q (current r) = (Ok resp, current r')"
    and refused: "proper q \<Longrightarrow> transact c q r = (Err e, r') \<Longrightarrow> GetCode e \<noteq> None \<Longrightarrow>
      current r' = current r \<and> fst (execute c q (current r)) = Err e"
    and in_doubt: "proper q \<Longrightarrow> transact c q r = (Err e, r') \<Longrightarrow> GetCode e = None \<Longrightarrow>
      current r' = current r \<or> (\<exists>resp. execute c q (current r) = (Ok resp, current r'))"
begin

text \<open>Whatever is answered, the store holds the effect of a successful execution or is unchanged.\<close>

lemma all_or_nothing:
  assumes "proper q" "transact c q r = (x, r')" "x \<noteq> Panic"
  shows "current r' = current r \<or> (\<exists>resp. execute c q (current r) = (Ok resp, current r'))"
proof (cases x)
  case (Ok y)
  with committed [of q c r y r'] assms show ?thesis by blast
next
  case (Err e)
  with refused [of q c r e r'] in_doubt [of q c r e r'] assms show ?thesis by (cases "GetCode e = None") blast+
qed (use assms in simp)

end

end
