(* ===== verification/Scd_Memstore.thy ===== *)
theory Scd_Memstore
  imports Scd_Models Interfaces
begin

text \<open>
  The in-memory store of the strategic-coordination service, \<open>src/pkg/scd/store/memstore\<close>: its
  records, its state, the repository operations on it, and its checkpoint and snapshot. The context
  of an operation is reduced to the request timestamp it carries (\<open>time option\<close>). The operations
  act on the state of the repository; the checkpoint beside it is the record \<open>mem_repo\<close>.
\<close>

section \<open>Records and state\<close>

record constraintRecord =
  cr_ID :: ID
  cr_Manager :: Manager
  cr_Version :: VersionNumber
  cr_USSBaseURL :: string
  cr_Volume :: cells_volume_4d
  cr_UpdatedAt :: time

record subscriptionRecord =
  sr_ID :: ID
  sr_Manager :: Manager
  sr_NotificationIndex :: "64 word"
  sr_USSBaseURL :: string
  sr_NotifyForOperationalIntents :: bool
  sr_NotifyForConstraints :: bool
  sr_ImplicitSubscription :: bool
  sr_StartTime :: time
  sr_EndTime :: time
  sr_Cells :: cell_union
  sr_UpdatedAt :: time

record operationalIntentRecord =
  or_ID :: ID
  or_Manager :: Manager
  or_Version :: VersionNumber
  or_State :: OperationalIntentState
  or_USSBaseURL :: string
  or_SubscriptionID :: "ID option"
  or_USSRequestedOVN :: string
  or_PastOVNs :: "OVN list"
  or_UpdatedAt :: time
  or_Volume :: cells_volume_4d

record availabilityRecord =
  ar_Uss :: Manager
  ar_Availability :: UssAvailabilityState
  ar_UpdatedAt :: time

record scd_state =
  st_Constraints :: "(ID, constraintRecord) gomap"
  st_Subscriptions :: "(ID, subscriptionRecord) gomap"
  st_OperationalIntents :: "(ID, operationalIntentRecord) gomap"
  st_Availabilities :: "(Manager, availabilityRecord) gomap"

definition empty_scd_state :: scd_state where
  "empty_scd_state = \<lparr>st_Constraints = [], st_Subscriptions = [], st_OperationalIntents = [],
                      st_Availabilities = []\<rparr>"

text \<open>\<open>repos.ErrNotFound\<close>.\<close>

definition ErrNotFound :: dss_error where
  "ErrNotFound = NewError ''resource not found''"

section \<open>Shared conditions\<close>

definition cellSet :: "cell_union \<Rightarrow> cell_id set" where
  "cellSet cells = set cells"

definition overlaps :: "cell_union \<Rightarrow> cell_id set \<Rightarrow> bool" where
  "overlaps cells want = list_ex (\<lambda>c. c \<in> want) cells"

definition overlapsTime :: "time \<Rightarrow> time \<Rightarrow> cells_volume_4d \<Rightarrow> bool" where
  "overlapsTime start end1 v =
     (if (case cv_EndTime v of None \<Rightarrow> False | Some e \<Rightarrow> start > e) then False
      else if (case cv_StartTime v of None \<Rightarrow> False | Some s \<Rightarrow> end1 < s) then False
      else True)"

definition requireExtentTimes :: "time option \<Rightarrow> time option \<Rightarrow> unit outcome" where
  "requireExtentTimes start end1 =
     (if start = None then Err (NewError ''Start time must be provided'')
      else if end1 = None then Err (NewError ''End time must be provided'')
      else Ok ())"

text \<open>\<open>listExpired\<close>, over the two record types with an end time. The end time of an operational
  intent is behind a pointer.\<close>

definition listExpired ::
    "('r \<Rightarrow> time outcome) \<Rightarrow> (ID, 'r) gomap \<Rightarrow> time \<Rightarrow> nat \<Rightarrow> 'r list outcome" where
  "listExpired endTime store threshold limit =
     range_until_deref (\<lambda>n. limit > 0 \<and> n \<ge> limit)
       (\<lambda>r. obind (endTime r) (\<lambda>e. Ok (\<not> e > threshold))) (\<lambda>r. r) [] (map snd store)"

definition subscriptionRecord_endTime :: "subscriptionRecord \<Rightarrow> time outcome" where
  "subscriptionRecord_endTime r = Ok (sr_EndTime r)"

definition operationalIntentRecord_endTime :: "operationalIntentRecord \<Rightarrow> time outcome" where
  "operationalIntentRecord_endTime r = deref (cv_EndTime (or_Volume r))"

lemma overlaps_iff [simp]: "overlaps cells (cellSet want) \<longleftrightarrow> set cells \<inter> set want \<noteq> {}"
  by (auto simp: overlaps_def cellSet_def list_ex_iff)

lemma overlapsTime_iff:
  "overlapsTime s e v \<longleftrightarrow>
     (\<forall>ve. cv_EndTime v = Some ve \<longrightarrow> s \<le> ve) \<and> (\<forall>vs. cv_StartTime v = Some vs \<longrightarrow> vs \<le> e)"
  by (auto simp: overlapsTime_def split: option.splits)

lemma requireExtentTimes_Ok [simp]:
  "requireExtentTimes s e = Ok u \<longleftrightarrow> s \<noteq> None \<and> e \<noteq> None"
  by (auto simp: requireExtentTimes_def)

lemma requireExtentTimes_not_Panic [simp]: "requireExtentTimes s e \<noteq> Panic"
  by (simp add: requireExtentTimes_def)

section \<open>Constraints\<close>

definition constraintRecord_toModel :: "externals \<Rightarrow> constraintRecord \<Rightarrow> Constraint" where
  "constraintRecord_toModel L r = \<lparr>
     con_ID = cr_ID r, con_Manager = cr_Manager r, con_UssAvailability = '''',
     con_Version = cr_Version r, con_OVN = NewOVNFromTime L (cr_UpdatedAt r) (cr_ID r),
     con_USSBaseURL = cr_USSBaseURL r, con_Volume = CellsVolume4D_Clone (cr_Volume r)\<rparr>"

definition constraint_selected :: "cells_volume_4d \<Rightarrow> constraintRecord \<Rightarrow> bool outcome" where
  "constraint_selected v r =
     (if \<not> overlaps (cv_Cells (cr_Volume r)) (cellSet (cv_Cells v)) then Ok False
      else obind (deref (cv_StartTime (cr_Volume r))) (\<lambda>s.
           obind (deref (cv_EndTime (cr_Volume r))) (\<lambda>e. Ok (overlapsTime s e v))))"

definition SearchConstraints :: "externals \<Rightarrow> cells_volume_4d \<Rightarrow> (scd_state, Constraint list) op" where
  "SearchConstraints L v = reads (\<lambda>st.
     if cellSet (cv_Cells v) = {} then Ok []
     else range_until_deref (\<lambda>n. n \<ge> MaxResultLimit) (constraint_selected v)
            (constraintRecord_toModel L) [] (map snd (st_Constraints st)))"

definition GetConstraint :: "externals \<Rightarrow> ID \<Rightarrow> (scd_state, Constraint) op" where
  "GetConstraint L i = reads (\<lambda>st.
     case map_of (st_Constraints st) i of
       None \<Rightarrow> Err ErrNotFound
     | Some r \<Rightarrow> Ok (constraintRecord_toModel L r))"

definition UpsertConstraint :: "externals \<Rightarrow> ctx \<Rightarrow> Constraint \<Rightarrow> (scd_state, Constraint) op" where
  "UpsertConstraint L ctx s =
     bindE (liftO (CellUnionToCellIdsWithValidation L (cv_Cells (con_Volume s)))) (\<lambda>_.
     bindE (liftO (requireExtentTimes (cv_StartTime (con_Volume s)) (cv_EndTime (con_Volume s)))) (\<lambda>_.
     bindE (liftO (MustFromContext ctx)) (\<lambda>now.
     let r = \<lparr>cr_ID = con_ID s, cr_Manager = con_Manager s, cr_Version = con_Version s,
              cr_USSBaseURL = con_USSBaseURL s, cr_Volume = CellsVolume4D_Clone (con_Volume s),
              cr_UpdatedAt = now\<rparr>
     in bindE (modifies (\<lambda>st. st\<lparr>st_Constraints := AList.update (con_ID s) r (st_Constraints st)\<rparr>)) (\<lambda>_.
        ret (constraintRecord_toModel L r)))))"

definition DeleteConstraint :: "ID \<Rightarrow> (scd_state, unit) op" where
  "DeleteConstraint i st =
     (if map_of (st_Constraints st) i = None then (Err ErrNotFound, st)
      else (Ok (), st\<lparr>st_Constraints := AList.delete i (st_Constraints st)\<rparr>))"

definition CountConstraints :: "(scd_state, nat) op" where
  "CountConstraints = reads (\<lambda>st. Ok (length (st_Constraints st)))"

section \<open>Subscriptions\<close>

definition subscriptionRecord_toModel :: "externals \<Rightarrow> subscriptionRecord \<Rightarrow> Subscription" where
  "subscriptionRecord_toModel L r = \<lparr>
     sub_ID = sr_ID r, sub_Version = NewOVNFromTime L (sr_UpdatedAt r) (sr_ID r),
     sub_NotificationIndex = sr_NotificationIndex r, sub_Manager = sr_Manager r,
     sub_USSBaseURL = sr_USSBaseURL r,
     sub_NotifyForOperationalIntents = sr_NotifyForOperationalIntents r,
     sub_NotifyForConstraints = sr_NotifyForConstraints r,
     sub_ImplicitSubscription = sr_ImplicitSubscription r,
     sub_Volume = \<lparr>cv_Cells = sr_Cells r, cv_StartTime = Some (sr_StartTime r),
                   cv_EndTime = Some (sr_EndTime r), cv_AltitudeLo = None, cv_AltitudeHi = None\<rparr>\<rparr>"

text \<open>The condition under which \<open>subscriptionsInCellsVolume\<close> yields a record.\<close>

definition subscriptionsInCellsVolume :: "cells_volume_4d \<Rightarrow> subscriptionRecord \<Rightarrow> bool" where
  "subscriptionsInCellsVolume v r =
     (overlaps (sr_Cells r) (cellSet (cv_Cells v)) \<and> overlapsTime (sr_StartTime r) (sr_EndTime r) v)"

definition SearchSubscriptions :: "externals \<Rightarrow> cells_volume_4d \<Rightarrow> (scd_state, Subscription list) op" where
  "SearchSubscriptions L v = reads (\<lambda>st.
     Ok (range_until (\<lambda>n. n \<ge> MaxResultLimit) (subscriptionsInCellsVolume v)
           (subscriptionRecord_toModel L) [] (map snd (st_Subscriptions st))))"

definition GetSubscription :: "externals \<Rightarrow> ID \<Rightarrow> (scd_state, Subscription option) op" where
  "GetSubscription L i = reads (\<lambda>st.
     Ok (map_option (subscriptionRecord_toModel L) (map_of (st_Subscriptions st) i)))"

definition UpsertSubscription :: "externals \<Rightarrow> ctx \<Rightarrow> Subscription \<Rightarrow> (scd_state, Subscription) op" where
  "UpsertSubscription L ctx s =
     bindE (liftO (requireExtentTimes (cv_StartTime (sub_Volume s)) (cv_EndTime (sub_Volume s)))) (\<lambda>_.
     bindE (liftO (MustFromContext ctx)) (\<lambda>now.
     bindE (liftO (deref (cv_StartTime (sub_Volume s)))) (\<lambda>start.
     bindE (liftO (deref (cv_EndTime (sub_Volume s)))) (\<lambda>end1.
     let r = \<lparr>sr_ID = sub_ID s, sr_Manager = sub_Manager s,
              sr_NotificationIndex = sub_NotificationIndex s, sr_USSBaseURL = sub_USSBaseURL s,
              sr_NotifyForOperationalIntents = sub_NotifyForOperationalIntents s,
              sr_NotifyForConstraints = sub_NotifyForConstraints s,
              sr_ImplicitSubscription = sub_ImplicitSubscription s,
              sr_StartTime = start, sr_EndTime = end1, sr_Cells = cv_Cells (sub_Volume s),
              sr_UpdatedAt = now\<rparr>
     in bindE (modifies (\<lambda>st. st\<lparr>st_Subscriptions := AList.update (sub_ID s) r (st_Subscriptions st)\<rparr>)) (\<lambda>_.
        ret (subscriptionRecord_toModel L r))))))"

definition DeleteSubscription :: "ID \<Rightarrow> (scd_state, unit) op" where
  "DeleteSubscription i st =
     (if map_of (st_Subscriptions st) i = None
      then (Err (NewError ''Attempted to delete non-existent Subscription''), st)
      else (Ok (), st\<lparr>st_Subscriptions := AList.delete i (st_Subscriptions st)\<rparr>))"

text \<open>The loop of \<open>incrementNotificationIndices\<close> writes through the record pointers of the map; the
  index is a Go \<open>int\<close>, 64 bits wide, and wraps.\<close>

fun incrementNotificationIndices ::
    "externals \<Rightarrow> (subscriptionRecord \<Rightarrow> bool) \<Rightarrow> Subscription list \<Rightarrow> (ID, subscriptionRecord) gomap \<Rightarrow>
     Subscription list \<times> (ID, subscriptionRecord) gomap" where
  "incrementNotificationIndices L sel out [] = (out, [])"
| "incrementNotificationIndices L sel out ((k, r) # m) =
     (if \<not> sel r
      then (case incrementNotificationIndices L sel out m of (out', m') \<Rightarrow> (out', (k, r) # m'))
      else let r' = r\<lparr>sr_NotificationIndex := sr_NotificationIndex r + 1\<rparr>
           in (case incrementNotificationIndices L sel (out @ [subscriptionRecord_toModel L r']) m of
                 (out', m') \<Rightarrow> (out', (k, r') # m')))"

definition increment_where ::
    "externals \<Rightarrow> (subscriptionRecord \<Rightarrow> bool) \<Rightarrow> cells_volume_4d \<Rightarrow> (scd_state, Subscription list) op" where
  "increment_where L notified v st =
     (case incrementNotificationIndices L (\<lambda>r. subscriptionsInCellsVolume v r \<and> notified r) []
             (st_Subscriptions st) of
        (out, m) \<Rightarrow> (Ok out, st\<lparr>st_Subscriptions := m\<rparr>))"

definition IncrementNotificationIndicesForOperationalIntents ::
    "externals \<Rightarrow> cells_volume_4d \<Rightarrow> (scd_state, Subscription list) op" where
  "IncrementNotificationIndicesForOperationalIntents L v =
     increment_where L sr_NotifyForOperationalIntents v"

definition IncrementNotificationIndicesForConstraints ::
    "externals \<Rightarrow> cells_volume_4d \<Rightarrow> (scd_state, Subscription list) op" where
  "IncrementNotificationIndicesForConstraints L v = increment_where L sr_NotifyForConstraints v"

definition LockSubscriptionsOnCells ::
    "cell_union \<Rightarrow> ID list \<Rightarrow> time option \<Rightarrow> time option \<Rightarrow> (scd_state, unit) op" where
  "LockSubscriptionsOnCells cells ids start end1 = ret ()"

definition ListExpiredSubscriptions :: "time \<Rightarrow> (scd_state, ID list) op" where
  "ListExpiredSubscriptions threshold = reads (\<lambda>st.
     obind (listExpired subscriptionRecord_endTime (st_Subscriptions st) threshold MaxResultLimit)
       (\<lambda>rs. Ok (map sr_ID rs)))"

definition DeleteExpiredSubscriptions :: "time \<Rightarrow> int \<Rightarrow> (scd_state, ID list) op" where
  "DeleteExpiredSubscriptions threshold limit =
     fail (NewErrorWithCode NotImplemented ''DeleteExpiredSubscriptions not implemented for memstore'')"

definition CountSubscriptions :: "(scd_state, nat) op" where
  "CountSubscriptions = reads (\<lambda>st. Ok (length (st_Subscriptions st)))"

section \<open>USS availability\<close>

definition availabilityRecord_toModel :: "externals \<Rightarrow> availabilityRecord \<Rightarrow> UssAvailabilityStatus" where
  "availabilityRecord_toModel L r = \<lparr>
     ua_Uss = ar_Uss r, ua_Availability = ar_Availability r,
     ua_Version = NewOVNFromTime L (ar_UpdatedAt r) (ar_Uss r)\<rparr>"

definition GetUssAvailability :: "externals \<Rightarrow> Manager \<Rightarrow> (scd_state, UssAvailabilityStatus) op" where
  "GetUssAvailability L m = reads (\<lambda>st.
     case map_of (st_Availabilities st) m of
       None \<Rightarrow> Err ErrNotFound
     | Some r \<Rightarrow> Ok (availabilityRecord_toModel L r))"

definition UpsertUssAvailability ::
    "externals \<Rightarrow> ctx \<Rightarrow> UssAvailabilityStatus \<Rightarrow> (scd_state, UssAvailabilityStatus) op" where
  "UpsertUssAvailability L ctx s =
     bindE (liftO (MustFromContext ctx)) (\<lambda>now.
     let r = \<lparr>ar_Uss = ua_Uss s, ar_Availability = ua_Availability s, ar_UpdatedAt = now\<rparr>
     in bindE (modifies (\<lambda>st. st\<lparr>st_Availabilities := AList.update (ua_Uss s) r (st_Availabilities st)\<rparr>)) (\<lambda>_.
        ret (availabilityRecord_toModel L r)))"

section \<open>Operational intents\<close>

definition operationalIntentRecord_toModel :: "externals \<Rightarrow> operationalIntentRecord \<Rightarrow> OperationalIntent" where
  "operationalIntentRecord_toModel L r = \<lparr>
     oi_ID = or_ID r, oi_Manager = or_Manager r, oi_UssAvailability = '''',
     oi_Version = or_Version r, oi_State = or_State r,
     oi_OVN = (if or_USSRequestedOVN r \<noteq> '''' then or_USSRequestedOVN r
               else NewOVNFromTime L (or_UpdatedAt r) (or_ID r)),
     oi_PastOVNs = or_PastOVNs r, oi_USSBaseURL = or_USSBaseURL r,
     oi_SubscriptionID = ClonePtr (or_SubscriptionID r),
     oi_Volume = CellsVolume4D_Clone (or_Volume r)\<rparr>"

text \<open>The availability looked up for one manager: an absent one stays \<open>Unknown\<close>, another error is
  returned.\<close>

definition availability_of :: "externals \<Rightarrow> Manager \<Rightarrow> scd_state \<Rightarrow> UssAvailabilityState outcome" where
  "availability_of L m st =
     (case fst (GetUssAvailability L m st) of
        Ok u \<Rightarrow> Ok (ua_Availability u)
      | Err e \<Rightarrow> if e = ErrNotFound then Ok UssAvailabilityStateUnknown else Err e
      | Panic \<Rightarrow> Panic)"

fun lookup_availabilities ::
    "externals \<Rightarrow> scd_state \<Rightarrow> Manager list \<Rightarrow> (Manager, UssAvailabilityState) gomap outcome" where
  "lookup_availabilities L st [] = Ok []"
| "lookup_availabilities L st (m # ms) =
     obind (availability_of L m st) (\<lambda>a.
     obind (lookup_availabilities L st ms) (\<lambda>rest. Ok ((m, a) # rest)))"

definition buildOperationalIntents ::
    "externals \<Rightarrow> operationalIntentRecord list \<Rightarrow> (scd_state, OperationalIntent list) op" where
  "buildOperationalIntents L recs = reads (\<lambda>st.
     let payload = map (operationalIntentRecord_toModel L) recs in
     obind (lookup_availabilities L st (remdups (map oi_Manager payload))) (\<lambda>avail.
       Ok (map (\<lambda>o1. o1\<lparr>oi_UssAvailability :=
                        (case map_of avail (oi_Manager o1) of None \<Rightarrow> '''' | Some a \<Rightarrow> a)\<rparr>) payload)))"

text \<open>\<open>built[0]\<close>\<close>

definition first_of :: "'a list \<Rightarrow> 'a outcome" where
  "first_of xs = (case xs of [] \<Rightarrow> Panic | x # _ \<Rightarrow> Ok x)"

definition GetOperationalIntent :: "externals \<Rightarrow> ID \<Rightarrow> (scd_state, OperationalIntent option) op" where
  "GetOperationalIntent L i = bindE (reads (\<lambda>st. Ok (map_of (st_OperationalIntents st) i))) (\<lambda>rec.
     case rec of
       None \<Rightarrow> ret None
     | Some r \<Rightarrow> bindE (buildOperationalIntents L [r]) (\<lambda>built.
                 bindE (liftO (first_of built)) (\<lambda>o1. ret (Some o1))))"

definition DeleteOperationalIntent :: "ID \<Rightarrow> (scd_state, unit) op" where
  "DeleteOperationalIntent i st =
     (if map_of (st_OperationalIntents st) i = None
      then (Err (NewError ''Could not delete Operation that does not exist''), st)
      else (Ok (), st\<lparr>st_OperationalIntents := AList.delete i (st_OperationalIntents st)\<rparr>))"

definition UpsertOperationalIntent ::
    "externals \<Rightarrow> ctx \<Rightarrow> OperationalIntent \<Rightarrow> (scd_state, OperationalIntent) op" where
  "UpsertOperationalIntent L ctx o1 =
     bindE (liftO (requireExtentTimes (cv_StartTime (oi_Volume o1)) (cv_EndTime (oi_Volume o1)))) (\<lambda>_.
     if cv_AltitudeLo (oi_Volume o1) = None then fail (NewError ''Lower altitude must be provided'')
     else if cv_AltitudeHi (oi_Volume o1) = None then fail (NewError ''Upper altitude must be provided'')
     else bindE (liftO (MustFromContext ctx)) (\<lambda>now.
       let r = \<lparr>or_ID = oi_ID o1, or_Manager = oi_Manager o1, or_Version = oi_Version o1,
                or_State = oi_State o1, or_USSBaseURL = oi_USSBaseURL o1,
                or_SubscriptionID = ClonePtr (oi_SubscriptionID o1), or_USSRequestedOVN = oi_OVN o1,
                or_PastOVNs = oi_PastOVNs o1, or_UpdatedAt = now,
                or_Volume = CellsVolume4D_Clone (oi_Volume o1)\<rparr>
       in bindE (modifies (\<lambda>st. st\<lparr>st_OperationalIntents :=
                   AList.update (oi_ID o1) r (st_OperationalIntents st)\<rparr>)) (\<lambda>_.
          bindE (buildOperationalIntents L [r]) (\<lambda>built. liftO (first_of built)))))"

definition intent_selected :: "cells_volume_4d \<Rightarrow> operationalIntentRecord \<Rightarrow> bool outcome" where
  "intent_selected v r =
     (let rv = or_Volume r in
      if \<not> overlaps (cv_Cells rv) (cellSet (cv_Cells v)) then Ok False
      else obind (case cv_AltitudeLo v of None \<Rightarrow> Ok False
                  | Some lo \<Rightarrow> obind (deref (cv_AltitudeHi rv)) (\<lambda>hi. Ok (hi < lo))) (\<lambda>below.
           if below then Ok False
           else obind (case cv_AltitudeHi v of None \<Rightarrow> Ok False
                       | Some hi \<Rightarrow> obind (deref (cv_AltitudeLo rv)) (\<lambda>lo. Ok (lo > hi))) (\<lambda>above.
                if above then Ok False
                else obind (deref (cv_StartTime rv)) (\<lambda>s. obind (deref (cv_EndTime rv)) (\<lambda>e.
                       Ok (overlapsTime s e v))))))"

definition SearchOperationalIntents ::
    "externals \<Rightarrow> cells_volume_4d \<Rightarrow> (scd_state, OperationalIntent list) op" where
  "SearchOperationalIntents L v =
     (if cv_Cells v = [] then fail (NewErrorWithCode BadRequest ''Missing cell IDs for query'')
      else bindE (reads (\<lambda>st. range_until_deref (\<lambda>n. n \<ge> MaxResultLimit) (intent_selected v)
                               (\<lambda>r. r) [] (map snd (st_OperationalIntents st))))
             (buildOperationalIntents L))"

definition GetDependentOperationalIntents :: "ID \<Rightarrow> (scd_state, ID list) op" where
  "GetDependentOperationalIntents sid = reads (\<lambda>st.
     Ok (range_until (\<lambda>_. False) (\<lambda>r. or_SubscriptionID r \<noteq> None \<and> or_SubscriptionID r = Some sid)
           or_ID [] (map snd (st_OperationalIntents st))))"

definition ListExpiredOperationalIntents :: "time \<Rightarrow> (scd_state, ID list) op" where
  "ListExpiredOperationalIntents threshold = reads (\<lambda>st.
     obind (listExpired operationalIntentRecord_endTime (st_OperationalIntents st) threshold MaxResultLimit)
       (\<lambda>rs. Ok (map or_ID rs)))"

definition DeleteExpiredOperationalIntents :: "time \<Rightarrow> int \<Rightarrow> (scd_state, ID list) op" where
  "DeleteExpiredOperationalIntents threshold limit =
     fail (NewErrorWithCode NotImplemented ''DeleteExpiredOperationalIntents not implemented for memstore'')"

definition CountOperationalIntents :: "(scd_state, nat) op" where
  "CountOperationalIntents = reads (\<lambda>st. Ok (length (st_OperationalIntents st)))"

section \<open>Checkpoint and restore\<close>

definition constraintRecord_clone :: "constraintRecord \<Rightarrow> constraintRecord" where
  "constraintRecord_clone r = r\<lparr>cr_Volume := CellsVolume4D_Clone (cr_Volume r)\<rparr>"

definition subscriptionRecord_clone :: "subscriptionRecord \<Rightarrow> subscriptionRecord" where
  "subscriptionRecord_clone r = r\<lparr>sr_Cells := sr_Cells r\<rparr>"

definition operationalIntentRecord_clone :: "operationalIntentRecord \<Rightarrow> operationalIntentRecord" where
  "operationalIntentRecord_clone r = r\<lparr>or_PastOVNs := or_PastOVNs r,
     or_SubscriptionID := ClonePtr (or_SubscriptionID r), or_Volume := CellsVolume4D_Clone (or_Volume r)\<rparr>"

definition availabilityRecord_clone :: "availabilityRecord \<Rightarrow> availabilityRecord" where
  "availabilityRecord_clone r = r"

definition scd_state_clone :: "scd_state \<Rightarrow> scd_state" where
  "scd_state_clone s = \<lparr>
     st_Constraints = map_values constraintRecord_clone (st_Constraints s),
     st_Subscriptions = map_values subscriptionRecord_clone (st_Subscriptions s),
     st_OperationalIntents = map_values operationalIntentRecord_clone (st_OperationalIntents s),
     st_Availabilities = map_values availabilityRecord_clone (st_Availabilities s)\<rparr>"

type_synonym scd_repo = "scd_state mem_repo"

definition scd_Checkpoint :: "scd_repo \<Rightarrow> scd_repo" where
  "scd_Checkpoint r = r\<lparr>mr_checkpoint := scd_state_clone (mr_state r)\<rparr>"

definition scd_Restore :: "scd_repo \<Rightarrow> scd_repo" where
  "scd_Restore r = r\<lparr>mr_state := scd_state_clone (mr_checkpoint r)\<rparr>"

definition scd_newRepo :: scd_repo where
  "scd_newRepo = scd_Checkpoint \<lparr>mr_state = empty_scd_state, mr_checkpoint = empty_scd_state\<rparr>"

lemma record_clones_id [simp]:
  "constraintRecord_clone r1 = r1" "subscriptionRecord_clone r2 = r2"
  "operationalIntentRecord_clone r3 = r3" "availabilityRecord_clone r4 = r4"
  by (simp_all add: constraintRecord_clone_def subscriptionRecord_clone_def
      operationalIntentRecord_clone_def availabilityRecord_clone_def)

lemma scd_state_clone_id [simp]: "scd_state_clone s = s"
  by (simp add: scd_state_clone_def map_values_same)

section \<open>Snapshots\<close>

text \<open>A snapshot is a version and a state, encoded with \<open>encoding/gob\<close> (theory \<open>Prelude\<close>).\<close>

record scd_envelope =
  se_Version :: int
  se_Constraints :: "(ID, constraintRecord) gomap option"
  se_Subscriptions :: "(ID, subscriptionRecord) gomap option"
  se_OperationalIntents :: "(ID, operationalIntentRecord) gomap option"
  se_Availabilities :: "(Manager, availabilityRecord) gomap option"

definition gob_volume :: "cells_volume_4d \<Rightarrow> cells_volume_4d" where
  "gob_volume v = v\<lparr>cv_AltitudeLo := gob_ptr 0 (cv_AltitudeLo v), cv_AltitudeHi := gob_ptr 0 (cv_AltitudeHi v)\<rparr>"

definition gob_constraint :: "constraintRecord \<Rightarrow> constraintRecord" where
  "gob_constraint r = r\<lparr>cr_Volume := gob_volume (cr_Volume r)\<rparr>"

definition gob_intent :: "operationalIntentRecord \<Rightarrow> operationalIntentRecord" where
  "gob_intent r = r\<lparr>or_SubscriptionID := gob_ptr '''' (or_SubscriptionID r),
                    or_Volume := gob_volume (or_Volume r)\<rparr>"

abbreviation snapshotVersion :: int where "snapshotVersion \<equiv> 1"

definition scd_GetSnapshot :: "scd_repo \<Rightarrow> scd_envelope gob_data" where
  "scd_GetSnapshot r = (let s = mr_state r in Gob \<lparr>se_Version = snapshotVersion,
     se_Constraints = gob_map gob_constraint (st_Constraints s),
     se_Subscriptions = gob_map (\<lambda>r. r) (st_Subscriptions s),
     se_OperationalIntents = gob_map gob_intent (st_OperationalIntents s),
     se_Availabilities = gob_map (\<lambda>r. r) (st_Availabilities s)\<rparr>)"

definition scd_RestoreFromSnapshot :: "scd_envelope gob_data \<Rightarrow> (scd_repo, unit) op" where
  "scd_RestoreFromSnapshot data r =
     (case data of
        NotGob e \<Rightarrow> (Err e, r)
      | Gob env \<Rightarrow>
          if se_Version env \<noteq> snapshotVersion
          then (Err (NewError ''Unsupported memstore snapshot version''), r)
          else (Ok (), r\<lparr>mr_state := \<lparr>
                  st_Constraints = nil_map (se_Constraints env),
                  st_Subscriptions = nil_map (se_Subscriptions env),
                  st_OperationalIntents = nil_map (se_OperationalIntents env),
                  st_Availabilities = nil_map (se_Availabilities env)\<rparr>\<rparr>))"

section \<open>The invariant of the state\<close>

definition constraint_complete :: "constraintRecord \<Rightarrow> bool" where
  "constraint_complete r \<longleftrightarrow> cv_StartTime (cr_Volume r) \<noteq> None \<and> cv_EndTime (cr_Volume r) \<noteq> None"

definition intent_complete :: "operationalIntentRecord \<Rightarrow> bool" where
  "intent_complete r \<longleftrightarrow>
     cv_StartTime (or_Volume r) \<noteq> None \<and> cv_EndTime (or_Volume r) \<noteq> None \<and>
     cv_AltitudeLo (or_Volume r) \<noteq> None \<and> cv_AltitudeHi (or_Volume r) \<noteq> None"

definition scd_wf :: "scd_state \<Rightarrow> bool" where
  "scd_wf st \<longleftrightarrow>
     wf_gomap (st_Constraints st) \<and> keyed cr_ID (st_Constraints st) \<and>
     all_values constraint_complete (st_Constraints st) \<and>
     wf_gomap (st_Subscriptions st) \<and> keyed sr_ID (st_Subscriptions st) \<and>
     wf_gomap (st_OperationalIntents st) \<and> keyed or_ID (st_OperationalIntents st) \<and>
     all_values intent_complete (st_OperationalIntents st) \<and>
     wf_gomap (st_Availabilities st) \<and> keyed ar_Uss (st_Availabilities st)"

lemma scd_wf_empty [simp]: "scd_wf empty_scd_state"
  by (simp add: scd_wf_def empty_scd_state_def)

lemma scd_wf_updates:
  assumes "scd_wf st"
  shows "cr_ID c = i \<Longrightarrow> constraint_complete c \<Longrightarrow>
           scd_wf (st\<lparr>st_Constraints := AList.update i c (st_Constraints st)\<rparr>)"
    and "sr_ID s = i \<Longrightarrow> scd_wf (st\<lparr>st_Subscriptions := AList.update i s (st_Subscriptions st)\<rparr>)"
    and "or_ID r = i \<Longrightarrow> intent_complete r \<Longrightarrow>
           scd_wf (st\<lparr>st_OperationalIntents := AList.update i r (st_OperationalIntents st)\<rparr>)"
    and "ar_Uss a = m \<Longrightarrow> scd_wf (st\<lparr>st_Availabilities := AList.update m a (st_Availabilities st)\<rparr>)"
    and "scd_wf (st\<lparr>st_Constraints := AList.delete i (st_Constraints st)\<rparr>)"
    and "scd_wf (st\<lparr>st_Subscriptions := AList.delete i (st_Subscriptions st)\<rparr>)"
    and "scd_wf (st\<lparr>st_OperationalIntents := AList.delete i (st_OperationalIntents st)\<rparr>)"
  using assms by (simp_all add: scd_wf_def)

subsection \<open>The notification counters\<close>

text \<open>The loop is a map over the subscriptions and a filter of them.\<close>

definition bump :: "subscriptionRecord \<Rightarrow> subscriptionRecord" where
  "bump r = r\<lparr>sr_NotificationIndex := sr_NotificationIndex r + 1\<rparr>"

lemma bump_sel [simp]:
  "sr_ID (bump r) = sr_ID r" "sr_Manager (bump r) = sr_Manager r" "sr_Cells (bump r) = sr_Cells r"
  "sr_StartTime (bump r) = sr_StartTime r" "sr_EndTime (bump r) = sr_EndTime r"
  "sr_USSBaseURL (bump r) = sr_USSBaseURL r" "sr_ImplicitSubscription (bump r) = sr_ImplicitSubscription r"
  "sr_NotificationIndex (bump r) = sr_NotificationIndex r + 1" "sr_UpdatedAt (bump r) = sr_UpdatedAt r"
  by (simp_all add: bump_def)

lemma incrementNotificationIndices_conv:
  "incrementNotificationIndices L sel out m =
     (out @ map (subscriptionRecord_toModel L \<circ> bump) (filter sel (map snd m)),
      map_values (\<lambda>r. if sel r then bump r else r) m)"
  by (induction L sel out m rule: incrementNotificationIndices.induct)
    (auto simp: map_values_def bump_def Let_def split: prod.splits)

lemma increment_where_conv:
  "increment_where L notified v st =
     (Ok (map (subscriptionRecord_toModel L \<circ> bump)
            (filter (\<lambda>r. subscriptionsInCellsVolume v r \<and> notified r) (map snd (st_Subscriptions st)))),
      st\<lparr>st_Subscriptions := map_values (\<lambda>r. if subscriptionsInCellsVolume v r \<and> notified r
                                            then bump r else r) (st_Subscriptions st)\<rparr>)"
  by (simp add: increment_where_def incrementNotificationIndices_conv)

lemma increment_where_wf: "scd_wf st \<Longrightarrow> scd_wf (snd (increment_where L notified v st))"
  by (simp add: increment_where_conv scd_wf_def keyed_map_values)

subsection \<open>Every repository operation keeps it\<close>

lemma preserves_upserts [pres_intros]:
  "preserves scd_wf (UpsertConstraint L ctx c)"
  "preserves scd_wf (UpsertSubscription L ctx s)"
  "preserves scd_wf (UpsertUssAvailability L ctx a)"
  "preserves scd_wf (UpsertOperationalIntent L ctx o1)"
  by (rule preservesI;
      auto simp: UpsertConstraint_def UpsertSubscription_def UpsertUssAvailability_def
        UpsertOperationalIntent_def buildOperationalIntents_def bindE_def Let_def
        constraint_complete_def intent_complete_def
        intro!: scd_wf_updates split: outcome.splits if_splits)+

lemma preserves_deletes [pres_intros]:
  "preserves scd_wf (DeleteConstraint i)"
  "preserves scd_wf (DeleteSubscription i)"
  "preserves scd_wf (DeleteOperationalIntent i)"
  by (auto simp: preserves_def DeleteConstraint_def DeleteSubscription_def DeleteOperationalIntent_def
      scd_wf_updates)

lemma preserves_increments [pres_intros]:
  "preserves scd_wf (IncrementNotificationIndicesForOperationalIntents L v)"
  "preserves scd_wf (IncrementNotificationIndicesForConstraints L v)"
  by (simp_all add: preserves_def IncrementNotificationIndicesForOperationalIntents_def
      IncrementNotificationIndicesForConstraints_def increment_where_wf)

lemma readonly_repo [pres_intros]:
  "readonly (GetConstraint L i)" "readonly (SearchConstraints L v)" "readonly CountConstraints"
  "readonly (GetSubscription L i)" "readonly (SearchSubscriptions L v)" "readonly CountSubscriptions"
  "readonly (GetUssAvailability L m)" "readonly (buildOperationalIntents L rs)"
  "readonly (GetDependentOperationalIntents i)" "readonly CountOperationalIntents"
  "readonly (LockSubscriptionsOnCells cs ids a b)"
  "readonly (ListExpiredSubscriptions t)" "readonly (DeleteExpiredSubscriptions t n)"
  "readonly (ListExpiredOperationalIntents t)" "readonly (DeleteExpiredOperationalIntents t n)"
  by (simp_all add: readonly_def GetConstraint_def SearchConstraints_def CountConstraints_def
      GetSubscription_def SearchSubscriptions_def CountSubscriptions_def GetUssAvailability_def
      buildOperationalIntents_def GetDependentOperationalIntents_def CountOperationalIntents_def
      LockSubscriptionsOnCells_def ListExpiredSubscriptions_def DeleteExpiredSubscriptions_def
      ListExpiredOperationalIntents_def DeleteExpiredOperationalIntents_def)

lemma readonly_repo_intents [pres_intros]:
  "readonly (GetOperationalIntent L i)" "readonly (SearchOperationalIntents L v)"
  unfolding GetOperationalIntent_def SearchOperationalIntents_def by (intro pres_intros)+

section \<open>What the operations return\<close>

text \<open>The availability of a USS as the store answers it, and an operational intent with the
  availability of its manager attached.\<close>

definition uss_state :: "scd_state \<Rightarrow> Manager \<Rightarrow> UssAvailabilityState" where
  "uss_state st m = (case map_of (st_Availabilities st) m of
     None \<Rightarrow> UssAvailabilityStateUnknown | Some a \<Rightarrow> ar_Availability a)"

definition intent_model :: "externals \<Rightarrow> scd_state \<Rightarrow> operationalIntentRecord \<Rightarrow> OperationalIntent" where
  "intent_model L st r =
     (operationalIntentRecord_toModel L r)\<lparr>oi_UssAvailability := uss_state st (or_Manager r)\<rparr>"

lemma intent_model_sel [simp]:
  "oi_ID (intent_model L st r) = or_ID r" "oi_Manager (intent_model L st r) = or_Manager r"
  "oi_Version (intent_model L st r) = or_Version r" "oi_State (intent_model L st r) = or_State r"
  "oi_PastOVNs (intent_model L st r) = or_PastOVNs r"
  "oi_USSBaseURL (intent_model L st r) = or_USSBaseURL r"
  "oi_SubscriptionID (intent_model L st r) = or_SubscriptionID r"
  "oi_Volume (intent_model L st r) = or_Volume r"
  "oi_UssAvailability (intent_model L st r) = uss_state st (or_Manager r)"
  by (simp_all add: intent_model_def operationalIntentRecord_toModel_def)

lemma intent_model_OVN:
  "oi_OVN (intent_model L st r) = (if or_USSRequestedOVN r \<noteq> '''' then or_USSRequestedOVN r
     else NewOVNFromTime L (or_UpdatedAt r) (or_ID r))"
  by (simp add: intent_model_def operationalIntentRecord_toModel_def)

lemma availability_of_conv [simp]: "availability_of L m st = Ok (uss_state st m)"
  by (simp add: availability_of_def GetUssAvailability_def uss_state_def availabilityRecord_toModel_def
      split: option.splits)

lemma lookup_availabilities_conv [simp]:
  "lookup_availabilities L st ms = Ok (map (\<lambda>m. (m, uss_state st m)) ms)"
  by (induction ms) simp_all

lemma map_of_graph: "map_of (map (\<lambda>m. (m, f m)) ms) x = (if x \<in> set ms then Some (f x) else None)"
  by (induction ms) auto

lemma buildOperationalIntents_conv [simp]:
  "buildOperationalIntents L rs st = (Ok (map (intent_model L st) rs), st)"
proof -
  have "oi_Manager (operationalIntentRecord_toModel L r) = or_Manager r" for r
    by (simp add: operationalIntentRecord_toModel_def)
  then show ?thesis
    by (auto simp: buildOperationalIntents_def Let_def map_of_graph intent_model_def image_iff)
qed

lemma first_of_Cons [simp]: "first_of (x # xs) = Ok x"
  by (simp add: first_of_def)

definition find_constraint :: "externals \<Rightarrow> scd_state \<Rightarrow> ID \<Rightarrow> Constraint option" where
  "find_constraint L st i = map_option (constraintRecord_toModel L) (map_of (st_Constraints st) i)"

definition find_subscription :: "externals \<Rightarrow> scd_state \<Rightarrow> ID \<Rightarrow> Subscription option" where
  "find_subscription L st i = map_option (subscriptionRecord_toModel L) (map_of (st_Subscriptions st) i)"

definition find_intent :: "externals \<Rightarrow> scd_state \<Rightarrow> ID \<Rightarrow> OperationalIntent option" where
  "find_intent L st i = map_option (intent_model L st) (map_of (st_OperationalIntents st) i)"

lemma GetConstraint_conv [simp]:
  "GetConstraint L i st =
     ((case find_constraint L st i of None \<Rightarrow> Err ErrNotFound | Some c \<Rightarrow> Ok c), st)"
  by (simp add: GetConstraint_def find_constraint_def split: option.splits)

lemma GetSubscription_conv [simp]: "GetSubscription L i st = (Ok (find_subscription L st i), st)"
  by (simp add: GetSubscription_def find_subscription_def)

lemma GetOperationalIntent_conv [simp]: "GetOperationalIntent L i st = (Ok (find_intent L st i), st)"
  by (cases "map_of (st_OperationalIntents st) i")
    (simp_all add: GetOperationalIntent_def bindE_def find_intent_def)

subsection \<open>The three stores of entities\<close>

interpretation constraint_store: entity_store "UpsertConstraint L ctx" "find_constraint L"
  DeleteConstraint con_ID for L ctx
proof (unfold_locales, goal_cases)
  case (1 m s m' t)
  then show ?case
    by (auto simp: UpsertConstraint_def monad_simps Let_def find_constraint_def fun_eq_iff gomap_simps)
next
  case (2 m s r t)
  then show ?case
    by (auto simp: UpsertConstraint_def bindE_def Let_def split: outcome.splits)
qed (auto simp: DeleteConstraint_def find_constraint_def gomap_simps fun_eq_iff)

interpretation subscription_store: entity_store "UpsertSubscription L ctx" "find_subscription L"
  DeleteSubscription sub_ID for L ctx
proof (unfold_locales, goal_cases)
  case (1 m s m' t)
  then show ?case
    by (auto simp: UpsertSubscription_def monad_simps Let_def find_subscription_def fun_eq_iff gomap_simps)
next
  case (2 m s r t)
  then show ?case
    by (auto simp: UpsertSubscription_def bindE_def Let_def split: outcome.splits)
qed (auto simp: DeleteSubscription_def find_subscription_def gomap_simps fun_eq_iff)

lemma intent_model_frame [simp]:
  "intent_model L (st\<lparr>st_OperationalIntents := m\<rparr>) = intent_model L st"
  "intent_model L (st\<lparr>st_Subscriptions := m'\<rparr>) = intent_model L st"
  "intent_model L (st\<lparr>st_Constraints := m''\<rparr>) = intent_model L st"
  by (simp_all add: fun_eq_iff intent_model_def uss_state_def)

interpretation intent_store: entity_store "UpsertOperationalIntent L ctx" "find_intent L"
  DeleteOperationalIntent oi_ID for L ctx
proof (unfold_locales, goal_cases)
  case (1 m s m' t)
  then show ?case
    by (auto simp: UpsertOperationalIntent_def monad_simps Let_def find_intent_def fun_eq_iff gomap_simps
        split: if_splits)
next
  case (2 m s r t)
  then show ?case
    by (auto simp: UpsertOperationalIntent_def bindE_def Let_def split: outcome.splits if_splits)
qed (auto simp: DeleteOperationalIntent_def find_intent_def gomap_simps fun_eq_iff)

subsection \<open>Searches\<close>

text \<open>The specification of a search for operational intents: some cell in common, altitude and
  time ranges that meet, an absent bound of the query being no restriction.\<close>

definition ranges_meet :: "'a :: linorder \<Rightarrow> 'a \<Rightarrow> 'a option \<Rightarrow> 'a option \<Rightarrow> bool" where
  "ranges_meet lo hi qlo qhi \<longleftrightarrow> (\<forall>x. qlo = Some x \<longrightarrow> x \<le> hi) \<and> (\<forall>x. qhi = Some x \<longrightarrow> lo \<le> x)"

definition intent_matches :: "cells_volume_4d \<Rightarrow> operationalIntentRecord \<Rightarrow> bool" where
  "intent_matches v r \<longleftrightarrow> (let rv = or_Volume r in
     set (cv_Cells rv) \<inter> set (cv_Cells v) \<noteq> {} \<and>
     ranges_meet (the (cv_AltitudeLo rv)) (the (cv_AltitudeHi rv)) (cv_AltitudeLo v) (cv_AltitudeHi v) \<and>
     ranges_meet (the (cv_StartTime rv)) (the (cv_EndTime rv)) (cv_StartTime v) (cv_EndTime v))"

lemma intent_selected_conv:
  "intent_complete r \<Longrightarrow> intent_selected v r = Ok (intent_matches v r)"
  by (auto simp: intent_complete_def intent_selected_def intent_matches_def ranges_meet_def Let_def
      overlapsTime_iff not_less split: option.splits if_splits)

lemma intent_selected_not_Err: "intent_selected v r \<noteq> Err e"
  by (auto simp: intent_selected_def Let_def monad_simps deref_def split: option.splits)

lemma scd_wf_intents_complete:
  "scd_wf st \<Longrightarrow> r \<in> set (map snd (st_OperationalIntents st)) \<Longrightarrow> intent_complete r"
  using all_valuesD [of "st_OperationalIntents st" intent_complete r] by (simp add: scd_wf_def)

lemma SearchOperationalIntents_conv:
  assumes "scd_wf st" "cv_Cells v \<noteq> []"
  shows "SearchOperationalIntents L v st =
    (Ok (map (intent_model L st)
           (take MaxResultLimit (filter (intent_matches v) (map snd (st_OperationalIntents st))))), st)"
proof -
  have "range_until_deref (\<lambda>n. n \<ge> MaxResultLimit) (intent_selected v) (\<lambda>r. r) []
          (map snd (st_OperationalIntents st)) =
        Ok (range_until (\<lambda>n. n \<ge> MaxResultLimit) (intent_matches v) (\<lambda>r. r) []
          (map snd (st_OperationalIntents st)))"
    using scd_wf_intents_complete [OF assms(1)] intent_selected_conv by (intro range_until_deref_conv) blast
  also have "\<dots> = Ok (take MaxResultLimit (filter (intent_matches v) (map snd (st_OperationalIntents st))))"
    by (simp add: range_until_ge)
  finally show ?thesis using assms(2) by (simp add: SearchOperationalIntents_def bindE_def)
qed

text \<open>C27: a search of a well-formed store never panics, changes nothing, and, as long as no more
  intents match than the result limit, returns exactly the intents that share a cell with the query
  and whose altitude and time ranges meet the query's, each with the availability of its manager. A
  query without cells is refused as a bad request.\<close>

theorem SearchOperationalIntents_exact:
  assumes "scd_wf st"
  shows "(cv_Cells v = [] \<longrightarrow>
            SearchOperationalIntents L v st =
              (Err (NewErrorWithCode BadRequest ''Missing cell IDs for query''), st)) \<and>
         (cv_Cells v \<noteq> [] \<longrightarrow> (\<exists>os. SearchOperationalIntents L v st = (Ok os, st) \<and>
            length os \<le> MaxResultLimit \<and>
            (length (filter (intent_matches v) (map snd (st_OperationalIntents st))) \<le> MaxResultLimit \<longrightarrow>
               set os = {intent_model L st r | i r.
                           map_of (st_OperationalIntents st) i = Some r \<and> intent_matches v r})))"
proof -
  have wf: "wf_gomap (st_OperationalIntents st)" using assms by (simp add: scd_wf_def)
  have "set (map (intent_model L st) (filter (intent_matches v) (map snd (st_OperationalIntents st)))) =
        {intent_model L st r | i r. map_of (st_OperationalIntents st) i = Some r \<and> intent_matches v r}"
    using values_ran [OF wf] by (auto simp: ran_def)
  moreover have "SearchOperationalIntents L v st =
      (Err (NewErrorWithCode BadRequest ''Missing cell IDs for query''), st)" if "cv_Cells v = []"
    using that by (simp add: SearchOperationalIntents_def)
  ultimately show ?thesis using SearchOperationalIntents_conv [OF assms, of v L] by simp
qed

text \<open>A small state: one subscription, one intent that depends on it.\<close>

definition demo_volume :: cells_volume_4d where
  "demo_volume = \<lparr>cv_Cells = [1, 2], cv_StartTime = Some 100, cv_EndTime = Some 200,
                  cv_AltitudeLo = Some 10, cv_AltitudeHi = Some 50\<rparr>"

definition demo_intent_record :: operationalIntentRecord where
  "demo_intent_record = \<lparr>or_ID = ''oi'', or_Manager = ''uss1'', or_Version = 1,
     or_State = OperationalIntentStateAccepted, or_USSBaseURL = ''https://uss1'',
     or_SubscriptionID = Some ''sub'', or_USSRequestedOVN = '''', or_PastOVNs = [],
     or_UpdatedAt = 5, or_Volume = demo_volume\<rparr>"

definition demo_subscription_record :: subscriptionRecord where
  "demo_subscription_record = \<lparr>sr_ID = ''sub'', sr_Manager = ''uss1'', sr_NotificationIndex = 0,
     sr_USSBaseURL = ''https://uss1'', sr_NotifyForOperationalIntents = True,
     sr_NotifyForConstraints = False, sr_ImplicitSubscription = True,
     sr_StartTime = 100, sr_EndTime = 200, sr_Cells = [1, 2], sr_UpdatedAt = 5\<rparr>"

definition demo_scd_state :: scd_state where
  "demo_scd_state = \<lparr>st_Constraints = [],
     st_Subscriptions = [(''sub'', demo_subscription_record)],
     st_OperationalIntents = [(''oi'', demo_intent_record)], st_Availabilities = []\<rparr>"

lemmas demo_scd_defs = demo_volume_def demo_intent_record_def demo_subscription_record_def
  demo_scd_state_def

lemma demo_scd_wf: "scd_wf demo_scd_state"
  by (simp add: demo_scd_defs scd_wf_def wf_gomap_def keyed_def all_values_def intent_complete_def)

theorem SearchOperationalIntents_exact_witness:
  "\<exists>os. SearchOperationalIntents demo_externals demo_volume demo_scd_state = (Ok os, demo_scd_state) \<and>
        length os \<le> MaxResultLimit"
  using SearchOperationalIntents_exact [OF demo_scd_wf, of demo_volume demo_externals]
  by (auto simp: demo_volume_def)

text \<open>Whatever sequence of upserts and deletes of operational intents the store executes, what
  \<open>GetOperationalIntent\<close> answers afterwards is what a partial map from IDs to intents answers that
  is updated with the returned intents of the successful upserts and the successful deletes; failed
  commands have no effect.\<close>

lemma intent_store_refines_map:
  "case run_cmds (UpsertOperationalIntent L ctx) DeleteOperationalIntent cs st of (rs, st') \<Rightarrow>
     GetOperationalIntent L i st' =
       (Ok (map_cmds oi_ID cs rs (\<lambda>k. find_intent L st k) i), st')"
  by (simp add: intent_store.run_refines_map split: prod.splits)

text \<open>The notification counters. A write that touches a volume increments by one, modulo the 64
  bits of the counter, exactly the subscriptions that ask for notifications of that kind and meet the
  volume in cells and time; every other subscription, and the rest of the state, is unchanged. It
  returns those subscriptions with their new index.\<close>

lemma IncrementNotificationIndices_exact:
  assumes "scd_wf st" and "increment_where L notified v st = (res, st')"
  shows "st' = st\<lparr>st_Subscriptions := st_Subscriptions st'\<rparr> \<and>
         (\<forall>i r. map_of (st_Subscriptions st) i = Some r \<longrightarrow>
            map_of (st_Subscriptions st') i =
              Some (if subscriptionsInCellsVolume v r \<and> notified r
                    then r\<lparr>sr_NotificationIndex := sr_NotificationIndex r + 1\<rparr> else r)) \<and>
         dom (map_of (st_Subscriptions st')) = dom (map_of (st_Subscriptions st)) \<and>
         (\<exists>out. res = Ok out \<and>
            set out = {s. \<exists>i r. map_of (st_Subscriptions st) i = Some r \<and>
                          subscriptionsInCellsVolume v r \<and> notified r \<and> find_subscription L st' i = Some s})"
proof -
  have wf: "wf_gomap (st_Subscriptions st)" using assms(1) by (simp add: scd_wf_def)
  have r: "res = Ok (map (subscriptionRecord_toModel L \<circ> bump)
            (filter (\<lambda>r. subscriptionsInCellsVolume v r \<and> notified r) (map snd (st_Subscriptions st))))"
    and s: "st' = st\<lparr>st_Subscriptions := map_values (\<lambda>r. if subscriptionsInCellsVolume v r \<and> notified r
                                            then bump r else r) (st_Subscriptions st)\<rparr>"
    using assms(2) by (simp_all add: increment_where_conv)
  have "{s. \<exists>i r. map_of (st_Subscriptions st) i = Some r \<and>
          subscriptionsInCellsVolume v r \<and> notified r \<and> find_subscription L st' i = Some s} =
        (subscriptionRecord_toModel L \<circ> bump) `
           {r \<in> ran (map_of (st_Subscriptions st)). subscriptionsInCellsVolume v r \<and> notified r}"
    by (auto simp: s find_subscription_def ran_def)
  then show ?thesis
    using values_ran [OF wf] by (auto simp: s r bump_def dom_def)
qed

lemma IncrementNotificationIndices_exact_witness:
  "map_of (st_Subscriptions (snd (increment_where demo_externals sr_NotifyForOperationalIntents demo_volume
      demo_scd_state))) ''sub'' = Some (demo_subscription_record\<lparr>sr_NotificationIndex := 1\<rparr>)"
proof -
  obtain res st' where e: "increment_where demo_externals sr_NotifyForOperationalIntents demo_volume
      demo_scd_state = (res, st')" by fastforce
  have "map_of (st_Subscriptions demo_scd_state) ''sub'' = Some demo_subscription_record"
    by (simp add: demo_scd_state_def)
  with IncrementNotificationIndices_exact [OF demo_scd_wf e] e show ?thesis
    by (simp add: demo_scd_defs subscriptionsInCellsVolume_def overlapsTime_def)
qed

section \<open>Snapshots round trip, except for zero altitudes\<close>

definition gob_safe_volume :: "cells_volume_4d \<Rightarrow> bool" where
  "gob_safe_volume v \<longleftrightarrow> cv_AltitudeLo v \<noteq> Some 0 \<and> cv_AltitudeHi v \<noteq> Some 0"

definition gob_safe :: "scd_state \<Rightarrow> bool" where
  "gob_safe st \<longleftrightarrow> list_all (gob_safe_volume \<circ> cr_Volume \<circ> snd) (st_Constraints st) \<and>
     list_all (\<lambda>(i, r). gob_safe_volume (or_Volume r) \<and> or_SubscriptionID r \<noteq> Some '''')
       (st_OperationalIntents st)"

lemma gob_volume_safe: "gob_safe_volume v \<Longrightarrow> gob_volume v = v"
  by (simp add: gob_safe_volume_def gob_volume_def gob_ptr_def)

lemma scd_RestoreFromSnapshot_GetSnapshot:
  "scd_RestoreFromSnapshot (scd_GetSnapshot r) q = (Ok (), q\<lparr>mr_state := \<lparr>
     st_Constraints = map_values gob_constraint (st_Constraints (mr_state r)),
     st_Subscriptions = st_Subscriptions (mr_state r),
     st_OperationalIntents = map_values gob_intent (st_OperationalIntents (mr_state r)),
     st_Availabilities = st_Availabilities (mr_state r)\<rparr>\<rparr>)"
  by (simp add: scd_RestoreFromSnapshot_def scd_GetSnapshot_def Let_def)

text \<open>A repository restored from the snapshot of another one has the other's state, when no
  stored volume has an altitude of exactly zero (and no stored time or subscription ID is the zero
  value, which the operations never store).\<close>

lemma scd_snapshot_restores:
  assumes "gob_safe (mr_state r)"
  shows "\<exists>q'. scd_RestoreFromSnapshot (scd_GetSnapshot r) q = (Ok (), q') \<and> mr_state q' = mr_state r"
proof -
  have "map_values gob_constraint (st_Constraints (mr_state r)) = st_Constraints (mr_state r)"
    using assms by (intro map_values_same)
      (auto simp: gob_safe_def gob_constraint_def gob_volume_safe list_all_iff)
  moreover have "map_values gob_intent (st_OperationalIntents (mr_state r)) = st_OperationalIntents (mr_state r)"
    using assms by (intro map_values_same)
      (auto simp: gob_safe_def gob_intent_def gob_volume_safe gob_ptr_def list_all_iff)
  ultimately show ?thesis by (simp add: scd_RestoreFromSnapshot_GetSnapshot)
qed

text \<open>C31: an operational intent whose lower altitude is 0 does not survive a snapshot. In the
  restored state its lower altitude is nil, and a search with an upper altitude that reaches its
  cells and has no lower altitude above it dereferences that pointer and panics, although the same
  search of the original state succeeds.\<close>

theorem scd_snapshot_zero_altitude_panics:
  assumes "scd_wf (mr_state r)" and "length (st_OperationalIntents (mr_state r)) \<le> MaxResultLimit"
    and "map_of (st_OperationalIntents (mr_state r)) i = Some x" and "cv_AltitudeLo (or_Volume x) = Some 0"
    and "set (cv_Cells (or_Volume x)) \<inter> set (cv_Cells v) \<noteq> {}"
    and "cv_AltitudeHi v = Some h" and "cv_AltitudeLo v = None"
  shows "is_Ok (fst (SearchOperationalIntents L v (mr_state r))) \<and>
         (\<exists>q'. scd_RestoreFromSnapshot (scd_GetSnapshot r) q = (Ok (), q') \<and>
               fst (SearchOperationalIntents L v (mr_state q')) = Panic)"
proof -
  have ne: "cv_Cells v \<noteq> []" using assms(5) by auto
  have "intent_selected v (gob_intent x) = Panic"
    using assms(4-) by (simp add: intent_selected_def gob_intent_def gob_volume_def gob_ptr_def Let_def)
  moreover have "gob_intent x \<in> set (map snd (map_values gob_intent (st_OperationalIntents (mr_state r))))"
    using map_of_SomeD [OF assms(3)] by (force simp: map_values_def)
  ultimately have "range_until_deref (\<lambda>n. MaxResultLimit \<le> n) (intent_selected v) (\<lambda>r. r) []
      (map snd (map_values gob_intent (st_OperationalIntents (mr_state r)))) = Panic"
    using assms(2) by (intro range_until_deref_Panic [where r = "gob_intent x"]) (simp_all add: intent_selected_not_Err)
  then have "fst (SearchOperationalIntents L v q) = Panic"
    if "st_OperationalIntents q = map_values gob_intent (st_OperationalIntents (mr_state r))" for q
    using ne that by (simp add: SearchOperationalIntents_def bindE_def del: snd_map_values)
  moreover have "is_Ok (fst (SearchOperationalIntents L v (mr_state r)))"
    using SearchOperationalIntents_conv [OF assms(1) ne] by simp
  ultimately show ?thesis by (simp add: scd_RestoreFromSnapshot_GetSnapshot)
qed

theorem scd_snapshot_zero_altitude_panics_witness:
  "let x = demo_intent_record\<lparr>or_Volume := demo_volume\<lparr>cv_AltitudeLo := Some 0\<rparr>\<rparr>;
       r = \<lparr>mr_state = demo_scd_state\<lparr>st_OperationalIntents := [(''oi'', x)]\<rparr>,
            mr_checkpoint = empty_scd_state\<rparr>;
       v = demo_volume\<lparr>cv_AltitudeLo := None\<rparr>
   in \<exists>q'. scd_RestoreFromSnapshot (scd_GetSnapshot r) scd_newRepo = (Ok (), q') \<and>
           fst (SearchOperationalIntents demo_externals v (mr_state q')) = Panic"
  unfolding Let_def
  by (rule conjunct2 [OF scd_snapshot_zero_altitude_panics
        [where i = "''oi''" and h = 50 and
           x = "demo_intent_record\<lparr>or_Volume := demo_volume\<lparr>cv_AltitudeLo := Some 0\<rparr>\<rparr>"]])
    (simp_all add: demo_scd_defs scd_wf_def wf_gomap_def keyed_def all_values_def intent_complete_def)

end
