(* ===== verification/Scd_Conversions.thy ===== *)
theory Scd_Conversions
  imports Scd_Models
begin

text \<open>
  From the volumes of SCD requests to cells: \<open>src/pkg/scd/models/conversions.go\<close>. Nil pointers of
  the REST types are \<open>None\<close>; reading through one panics.
\<close>

record rest_Altitude =
  ral_Value :: rat
  ral_Reference :: string
  ral_Units :: string

record rest_LatLngPoint =
  rll_Lng :: rat
  rll_Lat :: rat

record rest_Radius =
  rra_Value :: rat
  rra_Units :: string

record rest_Circle =
  rci_Center :: "rest_LatLngPoint option"
  rci_Radius :: "rest_Radius option"

record rest_Polygon =
  rpo_Vertices :: "rest_LatLngPoint list"

record rest_Volume3D =
  rv3_OutlineCircle :: "rest_Circle option"
  rv3_OutlinePolygon :: "rest_Polygon option"
  rv3_AltitudeLower :: "rest_Altitude option"
  rv3_AltitudeUpper :: "rest_Altitude option"

record rest_Volume4D =
  rv4_Volume :: rest_Volume3D
  rv4_TimeStart :: "rest_Time option"
  rv4_TimeEnd :: "rest_Time option"

section \<open>Outlines\<close>

definition circleCellsFromSCDRest :: "externals \<Rightarrow> rest_Circle \<Rightarrow> cell_union outcome" where
  "circleCellsFromSCDRest L c =
     obind (deref (rci_Center c)) (\<lambda>center.
     let lat = rll_Lat center; lng = rll_Lng center in
     obind (ValidateLatLng lat lng) (\<lambda>_.
     obind (deref (rci_Radius c)) (\<lambda>radius.
     if \<not> rra_Value radius > 0 then Err ErrRadiusMustBeLargerThan0
     else Ok (s2_CoveringRegularLoop L (lat, lng) (DistanceMetersToAngle (rra_Value radius)) 20))))"

fun polygon_points :: "rest_LatLngPoint list \<Rightarrow> s2_point list outcome" where
  "polygon_points [] = Ok []"
| "polygon_points (v # vs) =
     obind (ValidateLatLng (rll_Lat v) (rll_Lng v)) (\<lambda>_.
     obind (polygon_points vs) (\<lambda>ps. Ok ((rll_Lat v, rll_Lng v) # ps)))"

definition polygonCellsFromSCDRest :: "externals \<Rightarrow> rest_Polygon \<Rightarrow> cell_union outcome" where
  "polygonCellsFromSCDRest L p =
     obind (polygon_points (rpo_Vertices p)) (\<lambda>points.
     if length points < 3 then Err ErrNotEnoughPointsInPolygon else Covering L points)"

definition cellsFromOutlineSCDRest :: "externals \<Rightarrow> rest_Volume3D \<Rightarrow> cell_union outcome" where
  "cellsFromOutlineSCDRest L vol3 =
     (case (rv3_OutlineCircle vol3, rv3_OutlinePolygon vol3) of
        (Some _, Some _) \<Rightarrow> Err (NewError ''Both circle and polygon specified in outline geometry'')
      | (None, Some p) \<Rightarrow> polygonCellsFromSCDRest L p
      | (Some c, None) \<Rightarrow> circleCellsFromSCDRest L c
      | (None, None) \<Rightarrow> Err ErrMissingFootprint)"

section \<open>Altitudes and times\<close>

definition altitude_bound :: "externals \<Rightarrow> string \<Rightarrow> rest_Altitude option \<Rightarrow> rat option outcome" where
  "altitude_bound L which alt =
     (case alt of
        None \<Rightarrow> Ok None
      | Some a \<Rightarrow>
          if ral_Units a \<noteq> ''M'' then Err (NewError (''Invalid '' @ which @ '' altitude unit''))
          else if ral_Reference a \<noteq> ''W84'' then Err (NewError (''Invalid '' @ which @ '' altitude reference''))
          else Ok (Some (f32 L (ral_Value a))))"

definition altitudeBoundsFromSCDRest :: "externals \<Rightarrow> rest_Volume3D \<Rightarrow> (rat option \<times> rat option) outcome" where
  "altitudeBoundsFromSCDRest L vol3 =
     obind (altitude_bound L ''lower'' (rv3_AltitudeLower vol3)) (\<lambda>altLo.
     obind (altitude_bound L ''upper'' (rv3_AltitudeUpper vol3)) (\<lambda>altHi.
     (case (altLo, altHi) of
        (Some lo, Some hi) \<Rightarrow>
          if lo > hi then Err (NewError ''Lower altitude cannot be greater than upper altitude'')
          else Ok (altLo, altHi)
      | _ \<Rightarrow> Ok (altLo, altHi))))"

definition time_bound :: "externals \<Rightarrow> rest_Time option \<Rightarrow> time option outcome" where
  "time_bound L t =
     (case t of
        None \<Rightarrow> Ok None
      | Some rt \<Rightarrow> (case time_ParseRFC3339Nano L (rt_Value rt) of
                     None \<Rightarrow> Err (NewError ''parsing time'')
                   | Some ts \<Rightarrow> Ok (Some ts)))"

text \<open>
  \<open>CellsVolume4DFromSCDRest\<close> returns a volume and an error. When only the outline is bad both are
  there: the volume then has no cells. The model's value is that pair; \<open>Panic\<close> is a nil dereference.
\<close>

definition parse_bounds :: "externals \<Rightarrow> rest_Volume4D \<Rightarrow> cells_volume_4d outcome" where
  "parse_bounds L vol4 =
     obind (time_bound L (rv4_TimeStart vol4)) (\<lambda>st.
     obind (time_bound L (rv4_TimeEnd vol4)) (\<lambda>en.
     obind (case (st, en) of
              (Some s, Some e) \<Rightarrow>
                if s > e then Err (NewError ''Start time cannot be after end time'') else Ok ()
            | _ \<Rightarrow> Ok ()) (\<lambda>_.
     obind (altitudeBoundsFromSCDRest L (rv4_Volume vol4)) (\<lambda>(lo, hi).
     Ok \<lparr>cv_Cells = [], cv_StartTime = st, cv_EndTime = en,
         cv_AltitudeLo = lo, cv_AltitudeHi = hi\<rparr>))))"

definition CellsVolume4DFromSCDRest ::
    "externals \<Rightarrow> rest_Volume4D \<Rightarrow> (cells_volume_4d option \<times> dss_error option) outcome" where
  "CellsVolume4DFromSCDRest L vol4 =
     (case parse_bounds L vol4 of
        Panic \<Rightarrow> Panic
      | Err e \<Rightarrow> Ok (None, Some e)
      | Ok filter1 \<Rightarrow>
          (case cellsFromOutlineSCDRest L (rv4_Volume vol4) of
             Panic \<Rightarrow> Panic
           | Err e \<Rightarrow> Ok (Some filter1, Some e)
           | Ok cells \<Rightarrow> Ok (Some (filter1\<lparr>cv_Cells := cells\<rparr>), None)))"

text \<open>Callers that give up on any error.\<close>

definition volume_or_error ::
    "(cells_volume_4d option \<times> dss_error option) outcome \<Rightarrow> cells_volume_4d outcome" where
  "volume_or_error r =
     obind r (\<lambda>(v, e). case e of Some err \<Rightarrow> Err err | None \<Rightarrow> deref v)"

section \<open>Unions of volumes with validators\<close>

type_synonym cells_validator = "cells_volume_4d \<Rightarrow> unit outcome"

definition WithRequireCellsTimeBounds :: cells_validator where
  "WithRequireCellsTimeBounds v =
     (if cv_StartTime v = None then Err (NewError ''Missing start time'')
      else if cv_EndTime v = None then Err (NewError ''Missing end time'')
      else Ok ())"

definition WithRequireCellsEndTimeAfter :: "time \<Rightarrow> cells_validator" where
  "WithRequireCellsEndTimeAfter now v =
     (case cv_EndTime v of
        None \<Rightarrow> Ok ()
      | Some e \<Rightarrow> if e < now then Err (NewError ''End time may not be in the past'') else Ok ())"

definition WithRequireCellsAltitudeBounds :: cells_validator where
  "WithRequireCellsAltitudeBounds v =
     (if cv_AltitudeLo v = None then Err (NewError ''Missing lower altitude'')
      else if cv_AltitudeHi v = None then Err (NewError ''Missing upper altitude'')
      else Ok ())"

fun parse_volumes :: "externals \<Rightarrow> rest_Volume4D list \<Rightarrow> cells_volume_4d list outcome" where
  "parse_volumes L [] = Ok []"
| "parse_volumes L (v # vs) =
     obind (volume_or_error (CellsVolume4DFromSCDRest L v)) (\<lambda>cv.
     obind (parse_volumes L vs) (\<lambda>cvs. Ok (cv # cvs)))"

fun run_validators :: "cells_validator list \<Rightarrow> cells_validator" where
  "run_validators [] v = Ok ()"
| "run_validators (f # fs) v = obind (f v) (\<lambda>_. run_validators fs v)"

definition UnionCellsVolume4DFromSCDRest ::
    "externals \<Rightarrow> rest_Volume4D list \<Rightarrow> cells_validator list \<Rightarrow> cells_volume_4d outcome" where
  "UnionCellsVolume4DFromSCDRest L vol4s validators =
     obind (parse_volumes L vol4s) (\<lambda>cellsVolumes.
     let union = UnionCellsVolumes4D L cellsVolumes in
     obind (run_validators validators union) (\<lambda>_. Ok union))"

section \<open>What a parsed volume is\<close>

lemma altitude_bound_not_Panic [simp]: "altitude_bound L w a \<noteq> Panic"
  by (auto simp: altitude_bound_def split: option.splits)

lemma altitudeBounds_not_Panic [simp]: "altitudeBoundsFromSCDRest L v \<noteq> Panic"
  by (auto simp: altitudeBoundsFromSCDRest_def monad_simps split: option.splits)

lemma time_bound_not_Panic [simp]: "time_bound L t \<noteq> Panic"
  by (auto simp: time_bound_def split: option.splits)

lemma polygon_points_not_Panic [simp]: "polygon_points vs \<noteq> Panic"
  by (induction vs) (auto simp: monad_simps ValidateLatLng_def)

lemma polygonCells_not_Panic [simp]: "polygonCellsFromSCDRest L p \<noteq> Panic"
  by (auto simp: polygonCellsFromSCDRest_def monad_simps)

text \<open>A volume whose bounds are in order: the well-formedness of what the parser returns.\<close>

definition ordered_volume :: "cells_volume_4d \<Rightarrow> bool" where
  "ordered_volume v \<longleftrightarrow>
     (\<forall>s e. cv_StartTime v = Some s \<and> cv_EndTime v = Some e \<longrightarrow> s \<le> e) \<and>
     (\<forall>lo hi. cv_AltitudeLo v = Some lo \<and> cv_AltitudeHi v = Some hi \<longrightarrow> lo \<le> hi)"

lemma altitudeBounds_Ok:
  "altitudeBoundsFromSCDRest L vol3 = Ok (Some l, Some h) \<Longrightarrow> l \<le> h"
  by (cases "altitude_bound L ''lower'' (rv3_AltitudeLower vol3)";
      cases "altitude_bound L ''upper'' (rv3_AltitudeUpper vol3)")
    (auto simp: altitudeBoundsFromSCDRest_def split: option.splits if_splits)

lemma parse_bounds_ordered: "parse_bounds L vol4 = Ok v \<Longrightarrow> ordered_volume v"
  by (cases "time_bound L (rv4_TimeStart vol4)"; cases "time_bound L (rv4_TimeEnd vol4)";
      cases "altitudeBoundsFromSCDRest L (rv4_Volume vol4)")
    (auto simp: parse_bounds_def ordered_volume_def monad_simps
      split: option.splits if_splits prod.splits dest: altitudeBounds_Ok)

lemma parse_bounds_not_Panic [simp]: "parse_bounds L vol4 \<noteq> Panic"
  by (auto simp: parse_bounds_def monad_simps split: option.splits)

lemma CellsVolume4DFromSCDRest_ordered:
  assumes "CellsVolume4DFromSCDRest L vol4 = Ok (Some v, err)"
  shows "ordered_volume v"
  using assms parse_bounds_ordered [of L vol4] unfolding CellsVolume4DFromSCDRest_def
  by (auto simp: ordered_volume_def split: outcome.splits)

text \<open>What a volume parser returns. Without an error the volume carries the cells of exactly
  one outline (a circle or a polygon, not both) and its time and altitude bounds are in order.\<close>

lemma CellsVolume4DFromSCDRest_sound:
  assumes "CellsVolume4DFromSCDRest L vol4 = Ok (v, None)"
  shows "\<exists>w. v = Some w \<and> ordered_volume w \<and>
           cellsFromOutlineSCDRest L (rv4_Volume vol4) = Ok (cv_Cells w) \<and>
           (rv3_OutlineCircle (rv4_Volume vol4) = None) \<noteq> (rv3_OutlinePolygon (rv4_Volume vol4) = None)"
proof -
  from assms obtain f cells where f: "v = Some (f\<lparr>cv_Cells := cells\<rparr>)"
      "cellsFromOutlineSCDRest L (rv4_Volume vol4) = Ok cells"
    unfolding CellsVolume4DFromSCDRest_def
    by (cases "parse_bounds L vol4"; cases "cellsFromOutlineSCDRest L (rv4_Volume vol4)") auto
  define w where "w = f\<lparr>cv_Cells := cells\<rparr>"
  have w: "v = Some w" "cellsFromOutlineSCDRest L (rv4_Volume vol4) = Ok (cv_Cells w)"
    using f by (simp_all add: w_def)
  moreover have "ordered_volume w" using CellsVolume4DFromSCDRest_ordered assms w by blast
  moreover have "(rv3_OutlineCircle (rv4_Volume vol4) = None) \<noteq> (rv3_OutlinePolygon (rv4_Volume vol4) = None)"
    using w(2) by (auto simp: cellsFromOutlineSCDRest_def split: option.splits)
  ultimately show ?thesis by blast
qed

text \<open>A request volume with a polygon, and one with a circle that lacks its center.\<close>

definition demo_volume4D :: rest_Volume4D where
  "demo_volume4D = \<lparr>
     rv4_Volume = \<lparr>rv3_OutlineCircle = None,
       rv3_OutlinePolygon = Some \<lparr>rpo_Vertices =
          [\<lparr>rll_Lng = 0, rll_Lat = 0\<rparr>, \<lparr>rll_Lng = 1, rll_Lat = 0\<rparr>, \<lparr>rll_Lng = 0, rll_Lat = 1\<rparr>]\<rparr>,
       rv3_AltitudeLower = Some \<lparr>ral_Value = 1, ral_Reference = ''W84'', ral_Units = ''M''\<rparr>,
       rv3_AltitudeUpper = Some \<lparr>ral_Value = 9, ral_Reference = ''W84'', ral_Units = ''M''\<rparr>\<rparr>,
     rv4_TimeStart = Some \<lparr>rt_Value = ''t'', rt_Format = ''RFC3339''\<rparr>,
     rv4_TimeEnd = Some \<lparr>rt_Value = ''ttt'', rt_Format = ''RFC3339''\<rparr>\<rparr>"

lemma demo_volume4D_parse:
  "CellsVolume4DFromSCDRest demo_externals demo_volume4D =
     Ok (Some \<lparr>cv_Cells = [3], cv_StartTime = Some 1, cv_EndTime = Some 3,
               cv_AltitudeLo = Some 1, cv_AltitudeHi = Some 9\<rparr>, None)"
  by (simp add: demo_volume4D_def CellsVolume4DFromSCDRest_def parse_bounds_def time_bound_def altitude_bound_def
      altitudeBoundsFromSCDRest_def cellsFromOutlineSCDRest_def polygonCellsFromSCDRest_def
      ValidateLatLng_def Covering_def validateLoop_def loop_pairs_def loopAreaKm2_def)

lemma CellsVolume4DFromSCDRest_sound_witness:
  "\<exists>w. CellsVolume4DFromSCDRest demo_externals demo_volume4D = Ok (Some w, None) \<and> ordered_volume w"
  using CellsVolume4DFromSCDRest_sound [OF demo_volume4D_parse] demo_volume4D_parse by auto

text \<open>Parsing a volume panics exactly when its times and altitudes are good and its only
  outline is a circle without a center, or with a center on the globe and no radius. The OpenAPI
  types make both fields optional and the code reads them without a nil check.\<close>

lemma CellsVolume4DFromSCDRest_panics:
  "CellsVolume4DFromSCDRest L vol4 = Panic \<longleftrightarrow>
     (\<exists>v c. CellsVolume4DFromSCDRest L
              (vol4\<lparr>rv4_Volume := (rv4_Volume vol4)\<lparr>rv3_OutlineCircle := None, rv3_OutlinePolygon := None\<rparr>\<rparr>)
              = Ok (Some v, Some ErrMissingFootprint) \<and>
        rv3_OutlinePolygon (rv4_Volume vol4) = None \<and> rv3_OutlineCircle (rv4_Volume vol4) = Some c \<and>
        (case rci_Center c of
           None \<Rightarrow> True
         | Some p \<Rightarrow> \<bar>rll_Lat p\<bar> \<le> 90 \<and> \<bar>rll_Lng p\<bar> \<le> 180 \<and> rci_Radius c = None))"
proof -
  have circle: "circleCellsFromSCDRest L c = Panic \<longleftrightarrow>
      (case rci_Center c of
         None \<Rightarrow> True
       | Some p \<Rightarrow> \<bar>rll_Lat p\<bar> \<le> 90 \<and> \<bar>rll_Lng p\<bar> \<le> 180 \<and> rci_Radius c = None)" for c
    by (cases "rci_Center c"; cases "rci_Radius c")
      (simp_all add: circleCellsFromSCDRest_def Let_def monad_simps)
  have bounds: "parse_bounds L
      (vol4\<lparr>rv4_Volume := (rv4_Volume vol4)\<lparr>rv3_OutlineCircle := None, rv3_OutlinePolygon := None\<rparr>\<rparr>) =
      parse_bounds L vol4"
    by (simp add: parse_bounds_def altitudeBoundsFromSCDRest_def)
  show ?thesis
    unfolding CellsVolume4DFromSCDRest_def cellsFromOutlineSCDRest_def bounds circle [symmetric]
    by (cases "rv3_OutlineCircle (rv4_Volume vol4)"; cases "rv3_OutlinePolygon (rv4_Volume vol4)";
        cases "parse_bounds L vol4") (auto split: outcome.splits)
qed

end
