(* ===== verification/Scd_Requests.thy ===== *)
theory Scd_Requests
  imports Scd_Memstore Scd_Conversions Auth
begin

text \<open>
  The requests the strategic-coordination operations execute and the responses they produce: the
  payload types of \<open>src/pkg/scd/operations\<close> and the REST types of \<open>src/pkg/api/scdv1/types.gen.go\<close>
  they use. A request is encoded as JSON when it is proposed and decoded when it is applied; the
  encoding keeps every field, so an operation receives the request that was proposed.
\<close>

section \<open>Response types\<close>

record SubscriptionState =
  ss_SubscriptionId :: string
  ss_NotificationIndex :: "32 word"

record SubscriberToNotify =
  sn_Subscriptions :: "SubscriptionState list"
  sn_UssBaseUrl :: string

record AirspaceConflictResponse =
  ac_Message :: "string option"
  ac_MissingOperationalIntents :: "rest_OIR list option"
  ac_MissingConstraints :: "rest_Constraint list option"

datatype scd_response =
    UssAvailabilityStatusResponse rest_UssAvailabilityStatus string
  | GetConstraintReferenceResponse rest_Constraint
  | ChangeConstraintReferenceResponse rest_Constraint "SubscriberToNotify list"
  | QueryConstraintReferencesResponse "rest_Constraint list"
  | PutSubscriptionResponse rest_Subscription "rest_OIR list option" "rest_Constraint list option"
  | DeleteSubscriptionResponse rest_Subscription
  | GetSubscriptionResponse rest_Subscription
  | QuerySubscriptionsResponse "rest_Subscription list"
  | GetOperationalIntentReferenceResponse rest_OIR
  | QueryOperationalIntentReferenceResponse "rest_OIR list"
  | ChangeOperationalIntentReferenceResponse rest_OIR "SubscriberToNotify list"
  | PutOIRResult_Response rest_OIR "SubscriberToNotify list"
  | PutOIRResult_Conflict AirspaceConflictResponse

section \<open>Requests\<close>

text \<open>\<open>validOIRParams\<close>; its \<open>ImplicitSubscription\<close> struct is flattened, its key set is the list of
  the map's keys.\<close>

record validOIRParams =
  vp_ID :: ID
  vp_OVN :: OVN
  vp_NewOVN :: OVN
  vp_State :: OperationalIntentState
  vp_Volume :: cells_volume_4d
  vp_SubscriptionID :: ID
  vp_USSBaseURL :: string
  vp_Implicit_ID :: ID
  vp_Implicit_BaseURL :: string
  vp_Implicit_ForConstraints :: bool
  vp_Key :: "OVN list"

text \<open>A request of a read operation is the REST request with the client ID of its authorization; the
  payloads of the write operations are validated before they are proposed.\<close>

datatype scd_request =
    GetUssAvailabilityRequest string
  | SetUssAvailabilityPayload Manager UssAvailabilityState OVN
  | GetConstraintReferenceRequest string "string option"
  | CreateConstraintPayload Constraint
  | UpdateConstraintPayload Constraint
  | QueryConstraintReferencesRequest "rest_Volume4D option" "string option"
  | DeleteConstraintPayload ID Manager OVN
  | CreateSubscriptionPayload Subscription
  | UpdateSubscriptionPayload Subscription
  | DeleteSubscriptionPayload ID Manager OVN
  | GetSubscriptionRequest string "string option"
  | QuerySubscriptionsRequest "rest_Volume4D option" "string option"
  | GetOperationalIntentReferenceRequest string "string option"
  | QueryOperationalIntentReferencesRequest "rest_Volume4D option" "string option"
  | DeleteOIRPayload ID Manager OVN
  | CreateOIRPayload Manager validOIRParams
  | UpdateOIRPayload Manager validOIRParams

fun scd_OperationID :: "scd_request \<Rightarrow> string" where
  "scd_OperationID (GetUssAvailabilityRequest _) = ''scdv1.GetUssAvailability''"
| "scd_OperationID (SetUssAvailabilityPayload _ _ _) = ''scdv1.SetUssAvailability''"
| "scd_OperationID (GetConstraintReferenceRequest _ _) = ''scdv1.GetConstraintReference''"
| "scd_OperationID (CreateConstraintPayload _) = ''scdv1.CreateConstraintReference''"
| "scd_OperationID (UpdateConstraintPayload _) = ''scdv1.UpdateConstraintReference''"
| "scd_OperationID (QueryConstraintReferencesRequest _ _) = ''scdv1.QueryConstraintReferences''"
| "scd_OperationID (DeleteConstraintPayload _ _ _) = ''scdv1.DeleteConstraintReference''"
| "scd_OperationID (CreateSubscriptionPayload _) = ''scdv1.CreateSubscription''"
| "scd_OperationID (UpdateSubscriptionPayload _) = ''scdv1.UpdateSubscription''"
| "scd_OperationID (DeleteSubscriptionPayload _ _ _) = ''scdv1.DeleteSubscription''"
| "scd_OperationID (GetSubscriptionRequest _ _) = ''scdv1.GetSubscription''"
| "scd_OperationID (QuerySubscriptionsRequest _ _) = ''scdv1.QuerySubscriptions''"
| "scd_OperationID (GetOperationalIntentReferenceRequest _ _) = ''scdv1.GetOperationalIntentReference''"
| "scd_OperationID (QueryOperationalIntentReferencesRequest _ _) = ''scdv1.QueryOperationalIntentReferences''"
| "scd_OperationID (DeleteOIRPayload _ _ _) = ''scdv1.DeleteOperationalIntentReference''"
| "scd_OperationID (CreateOIRPayload _ _) = ''scdv1.CreateOperationalIntentReference''"
| "scd_OperationID (UpdateOIRPayload _ _) = ''scdv1.UpdateOperationalIntentReference''"

definition unexpected_request :: "(scd_state, 'a) op" where
  "unexpected_request = fail (NewError ''unexpected request type for operation'')"

lemma readonly_unexpected [pres_intros]: "readonly unexpected_request"
  by (simp add: unexpected_request_def readonly_def)

lemma preserves_unexpected [pres_intros]: "preserves I unexpected_request"
  by (simp add: unexpected_request_def preserves_def)

section \<open>Subscribers to notify\<close>

definition subscription_state :: "Subscription \<Rightarrow> SubscriptionState" where
  "subscription_state s = \<lparr>ss_SubscriptionId = sub_ID s, ss_NotificationIndex = ucast (sub_NotificationIndex s)\<rparr>"

definition makeSubscribersToNotify :: "Subscription list \<Rightarrow> SubscriberToNotify list" where
  "makeSubscribersToNotify subs =
     (let byURL = fold (\<lambda>s m. append_at (sub_USSBaseURL s) (subscription_state s) m) subs []
      in map (\<lambda>(url, states). \<lparr>sn_Subscriptions = states, sn_UssBaseUrl = url\<rparr>) byURL)"

text \<open>The notification list groups the notified subscriptions by USS: each base URL of a notified
  subscription occurs once, and with it exactly the identifiers and indices of that URL's
  subscriptions, in order.\<close>

lemma makeSubscribersToNotify_groups:
  "distinct (map sn_UssBaseUrl (makeSubscribersToNotify subs)) \<and>
   set (makeSubscribersToNotify subs) =
     (\<lambda>url. \<lparr>sn_Subscriptions = map subscription_state (filter (\<lambda>s. sub_USSBaseURL s = url) subs),
             sn_UssBaseUrl = url\<rparr>) ` sub_USSBaseURL ` set subs"
  using grouped_append_at [of sub_USSBaseURL subscription_state subs]
  by (auto simp: makeSubscribersToNotify_def Let_def split_def comp_def image_iff)

end
