(* ===== verification/Scd_Constraint_Ops.thy ===== *)
theory Scd_Constraint_Ops
  imports Scd_Requests
begin

text \<open>
  The operations on constraints and on USS availabilities:
  \<open>src/pkg/scd/operations/constraint.go\<close> and \<open>src/pkg/scd/operations/availability.go\<close>.
\<close>

section \<open>USS availability\<close>

definition NewSetUssAvailabilityPayload :: "string \<Rightarrow> string \<Rightarrow> string \<Rightarrow> scd_request outcome" where
  "NewSetUssAvailabilityPayload ussID availability oldVersion =
     obind (omap_err (PropagateWithCode (Some BadRequest)) (UssAvailabilityStateFromString availability)) (\<lambda>a.
       Ok (SetUssAvailabilityPayload ussID a oldVersion))"

text \<open>\<open>err != nil && !errors.Is(err, ErrNotFound)\<close> after a lookup: nil for an absent entity.\<close>

definition or_nil :: "('s, 'a) op \<Rightarrow> ('s, 'a option) op" where
  "or_nil m s = (case m s of
     (Ok x, t) \<Rightarrow> (Ok (Some x), t)
   | (Err e, t) \<Rightarrow> if e = ErrNotFound then (Ok None, t) else (Err e, t)
   | (Panic, t) \<Rightarrow> (Panic, t))"

lemma readonly_or_nil [pres_intros]: "readonly m \<Longrightarrow> readonly (or_nil m)"
  by (auto simp: readonly_def or_nil_def split: prod.splits outcome.splits) (metis snd_conv)+

lemma preserves_or_nil [pres_intros]: "preserves I m \<Longrightarrow> preserves I (or_nil m)"
  by (auto simp: preserves_def or_nil_def split: prod.splits outcome.splits; fastforce)

definition availability_response :: "UssAvailabilityStatus \<Rightarrow> scd_response" where
  "availability_response u = UssAvailabilityStatusResponse (UssAvailabilityStatus_ToRest u) (ua_Version u)"

definition executeGetUssAvailability :: "externals \<Rightarrow> ctx \<Rightarrow> scd_request \<Rightarrow> (scd_state, scd_response) op" where
  "executeGetUssAvailability L ctx req =
     (case req of
        GetUssAvailabilityRequest ussId \<Rightarrow>
          bindE (or_nil (GetUssAvailability L ussId)) (\<lambda>ussa.
            case ussa of
              None \<Rightarrow> ret (UssAvailabilityStatusResponse
                            \<lparr>rua_Uss = ussId, rua_Availability = UssAvailabilityStateUnknown\<rparr> '''')
            | Some u \<Rightarrow> ret (availability_response u))
      | _ \<Rightarrow> unexpected_request)"

definition executeSetUssAvailability :: "externals \<Rightarrow> ctx \<Rightarrow> scd_request \<Rightarrow> (scd_state, scd_response) op" where
  "executeSetUssAvailability L ctx req =
     (case req of
        SetUssAvailabilityPayload i availability version \<Rightarrow>
          let ussareq = \<lparr>ua_Uss = i, ua_Availability = availability, ua_Version = ''''\<rparr> in
          bindE (or_nil (GetUssAvailability L i)) (\<lambda>old.
          if old = None \<and> \<not> OVN_Empty version
          then fail (NewErrorWithCode AlreadyExists (''availability for USS '' @ i @ '' already exists''))
          else if (case old of None \<Rightarrow> False | Some o1 \<Rightarrow> ua_Version o1 \<noteq> version)
          then fail (NewErrorWithCode VersionMismatch (''USS availability version '' @ version @ '' is not current''))
          else bindE (UpsertUssAvailability L ctx ussareq) (\<lambda>ussa. ret (availability_response ussa)))
      | _ \<Rightarrow> unexpected_request)"

section \<open>Constraints\<close>

record rest_PutConstraintReferenceParameters =
  pc_Extents :: "rest_Volume4D list"
  pc_UssBaseUrl :: string

definition newConstraint ::
    "externals \<Rightarrow> string \<Rightarrow> OVN \<Rightarrow> Manager \<Rightarrow> rest_PutConstraintReferenceParameters \<Rightarrow> bool \<Rightarrow> time \<Rightarrow>
     Constraint outcome" where
  "newConstraint L entityid ovn manager params allowHTTPBaseUrls now =
     obind (omap_err (\<lambda>_. NewError (''Invalid ID format: `'' @ entityid @ ''`'')) (IDFromString L entityid)) (\<lambda>i.
     obind (if allowHTTPBaseUrls then Ok () else ValidateUSSBaseURL L (pc_UssBaseUrl params)) (\<lambda>_.
     obind (UnionCellsVolume4DFromSCDRest L (pc_Extents params)
              [WithRequireCellsTimeBounds, WithRequireCellsEndTimeAfter now]) (\<lambda>volume.
     Ok \<lparr>con_ID = i, con_Manager = manager, con_UssAvailability = '''', con_Version = 0, con_OVN = ovn,
         con_USSBaseURL = pc_UssBaseUrl params, con_Volume = volume\<rparr>)))"

definition NewCreateConstraintPayload ::
    "externals \<Rightarrow> string \<Rightarrow> Manager \<Rightarrow> rest_PutConstraintReferenceParameters \<Rightarrow> bool \<Rightarrow> time \<Rightarrow> scd_request outcome" where
  "NewCreateConstraintPayload L entityid manager params allowHTTP now =
     obind (newConstraint L entityid '''' manager params allowHTTP now) (\<lambda>c. Ok (CreateConstraintPayload c))"

definition NewUpdateConstraintPayload ::
    "externals \<Rightarrow> string \<Rightarrow> OVN \<Rightarrow> Manager \<Rightarrow> rest_PutConstraintReferenceParameters \<Rightarrow> bool \<Rightarrow> time \<Rightarrow>
     scd_request outcome" where
  "NewUpdateConstraintPayload L entityid ovn manager params allowHTTP now =
     obind (newConstraint L entityid ovn manager params allowHTTP now) (\<lambda>c. Ok (UpdateConstraintPayload c))"

text \<open>\<open>request.(constraintPayload)\<close>\<close>

fun constraint_of :: "scd_request \<Rightarrow> Constraint option" where
  "constraint_of (CreateConstraintPayload c) = Some c"
| "constraint_of (UpdateConstraintPayload c) = Some c"
| "constraint_of _ = None"

definition executePutConstraint :: "externals \<Rightarrow> ctx \<Rightarrow> scd_request \<Rightarrow> (scd_state, scd_response) op" where
  "executePutConstraint L ctx req =
     (case constraint_of req of
        None \<Rightarrow> unexpected_request
      | Some constraint \<Rightarrow>
          let ovn = con_OVN constraint in
          bindE (or_nil (GetConstraint L (con_ID constraint))) (\<lambda>old.
          bindE (liftO (case old of
              None \<Rightarrow> if ovn \<noteq> ''''
                      then Err (NewErrorWithCode VersionMismatch (''Old version '' @ ovn @ '' does not exist''))
                      else Ok 1
            | Some o1 \<Rightarrow>
                if con_Manager o1 \<noteq> con_Manager constraint
                then Err (NewErrorWithCode PermissionDenied (''Constraint owned by '' @ con_Manager o1 @
                       '', but '' @ con_Manager constraint @ '' attempted to modify''))
                else if con_OVN o1 \<noteq> ovn
                then Err (NewErrorWithCode VersionMismatch (''Current version is '' @ con_OVN o1 @
                       '' but client specified version '' @ ovn))
                else Ok (con_Version o1 + 1))) (\<lambda>version.
          let notify = (case old of None \<Rightarrow> con_Volume constraint
                        | Some o1 \<Rightarrow> UnionCellsVolumes4D L [con_Volume constraint, con_Volume o1]) in
          bindE (UpsertConstraint L ctx (constraint\<lparr>con_Version := version\<rparr>)) (\<lambda>c.
          bindE (IncrementNotificationIndicesForConstraints L notify) (\<lambda>subs.
          ret (ChangeConstraintReferenceResponse (Constraint_ToRest L c) (makeSubscribersToNotify subs)))))))"

definition executeGetConstraint :: "externals \<Rightarrow> ctx \<Rightarrow> scd_request \<Rightarrow> (scd_state, scd_response) op" where
  "executeGetConstraint L ctx req =
     (case req of
        GetConstraintReferenceRequest entityid clientID \<Rightarrow>
          bindE (liftO (omap_err (\<lambda>_. NewErrorWithCode BadRequest (''Invalid ID format: `'' @ entityid @ ''`''))
                   (IDFromString L entityid))) (\<lambda>i.
          bindE (or_nil (GetConstraint L i)) (\<lambda>constraint.
          case constraint of
            None \<Rightarrow> fail (NewErrorWithCode NotFound (''Constraint '' @ i @ '' not found''))
          | Some c \<Rightarrow>
              bindE (liftO (deref clientID)) (\<lambda>client.
              ret (GetConstraintReferenceResponse (Constraint_ToRest L
                (if con_Manager c \<noteq> client then c\<lparr>con_OVN := NoOvnPhrase\<rparr> else c))))))
      | _ \<Rightarrow> unexpected_request)"

text \<open>A constraint in a list, with its OVN hidden from other managers.\<close>

definition constraint_for :: "externals \<Rightarrow> Manager \<Rightarrow> Constraint \<Rightarrow> rest_Constraint" where
  "constraint_for L manager c =
     (let p = Constraint_ToRest L c
      in if con_Manager c \<noteq> manager then p\<lparr>rco_Ovn := Some NoOvnPhrase\<rparr> else p)"

text \<open>\<open>*req.Auth.ClientID\<close> is evaluated once per element: an empty list needs no client.\<close>

definition for_client :: "string option \<Rightarrow> 'a list \<Rightarrow> (Manager \<Rightarrow> 'a \<Rightarrow> 'b) \<Rightarrow> 'b list outcome" where
  "for_client clientID xs f =
     (if xs = [] then Ok [] else obind (deref clientID) (\<lambda>client. Ok (map (f client) xs)))"

definition executeQueryConstraintReferences ::
    "externals \<Rightarrow> ctx \<Rightarrow> scd_request \<Rightarrow> (scd_state, scd_response) op" where
  "executeQueryConstraintReferences L ctx req =
     (case req of
        QueryConstraintReferencesRequest aoi clientID \<Rightarrow>
          (case aoi of
             None \<Rightarrow> fail (NewErrorWithCode BadRequest ''Missing area_of_interest'')
           | Some a \<Rightarrow>
               bindE (liftO (omap_err (PropagateWithCode (Some BadRequest))
                        (volume_or_error (CellsVolume4DFromSCDRest L a)))) (\<lambda>cellsVol4.
               bindE (SearchConstraints L cellsVol4) (\<lambda>constraints.
               bindE (liftO (for_client clientID constraints (constraint_for L))) (\<lambda>refs.
               ret (QueryConstraintReferencesResponse refs)))))
      | _ \<Rightarrow> unexpected_request)"

definition executeDeleteConstraint :: "externals \<Rightarrow> ctx \<Rightarrow> scd_request \<Rightarrow> (scd_state, scd_response) op" where
  "executeDeleteConstraint L ctx req =
     (case req of
        DeleteConstraintPayload i manager ovn \<Rightarrow>
          bindE (or_nil (GetConstraint L i)) (\<lambda>old1.
          case old1 of
            None \<Rightarrow> fail (NewErrorWithCode NotFound (''Constraint '' @ i @ '' not found''))
          | Some old \<Rightarrow>
              if con_Manager old \<noteq> manager
              then fail (NewErrorWithCode PermissionDenied (''Constraint owned by '' @ con_Manager old @
                     '', but '' @ manager @ '' attempted to delete''))
              else if con_OVN old \<noteq> ovn
              then fail (NewErrorWithCode VersionMismatch (''Current version is '' @ con_OVN old @
                     '' but client specified version '' @ ovn))
              else
                bindE (DeleteConstraint i) (\<lambda>_.
                bindE (IncrementNotificationIndicesForConstraints L (con_Volume old)) (\<lambda>subs.
                ret (ChangeConstraintReferenceResponse (Constraint_ToRest L old) (makeSubscribersToNotify subs)))))
      | _ \<Rightarrow> unexpected_request)"

section \<open>Correctness\<close>

definition find_availability :: "externals \<Rightarrow> scd_state \<Rightarrow> Manager \<Rightarrow> UssAvailabilityStatus option" where
  "find_availability L st m = map_option (availabilityRecord_toModel L) (map_of (st_Availabilities st) m)"

lemma or_nil_lookups [simp]:
  "or_nil (GetConstraint L i) st = (Ok (find_constraint L st i), st)"
  "or_nil (GetUssAvailability L m) st = (Ok (find_availability L st m), st)"
  by (simp_all add: or_nil_def GetUssAvailability_def find_availability_def split: option.splits)

lemma increment_frame [simp]:
  "find_constraint L (snd (increment_where L n v st)) = find_constraint L st"
  "find_intent L (snd (increment_where L n v st)) = find_intent L st"
  by (simp_all add: increment_where_conv find_constraint_def find_intent_def fun_eq_iff)

lemma increment_for_constraints [simp]:
  "IncrementNotificationIndicesForConstraints L v = increment_where L sr_NotifyForConstraints v"
  by (simp add: IncrementNotificationIndicesForConstraints_def)

lemma increment_for_intents [simp]:
  "IncrementNotificationIndicesForOperationalIntents L v = increment_where L sr_NotifyForOperationalIntents v"
  by (simp add: IncrementNotificationIndicesForOperationalIntents_def)

lemma increment_where_Ok: "\<exists>out. increment_where L n v st = (Ok out, snd (increment_where L n v st))"
  by (simp add: increment_where_conv)

lemma bind_increment_not_fail:
  "bindE (increment_where L n v) f st = f (case fst (increment_where L n v st) of Ok x \<Rightarrow> x | _ \<Rightarrow> [])
     (snd (increment_where L n v st))"
  by (simp add: increment_where_conv bindE_def)

subsection \<open>Availability is a compare-and-set\<close>

text \<open>Setting the availability of a USS succeeds, at a valid time, exactly when the client gives
  the current version, or no version when the USS has no availability yet; a success replaces the
  availability of that USS alone and returns the version to give next; a failure changes nothing and
  is \<open>AlreadyExists\<close> for a version of an availability that does not exist and \<open>VersionMismatch\<close> for a
  stale one.\<close>

lemma executeSetUssAvailability_cas:
  assumes "\<not> IsZero now"
  shows "case executeSetUssAvailability L (Some now) (SetUssAvailabilityPayload i a v) st of (r, st') \<Rightarrow>
     (let cur = find_availability L st i;
          new = \<lparr>ua_Uss = i, ua_Availability = a, ua_Version = NewOVNFromTime L now i\<rparr> in
      if v = (case cur of None \<Rightarrow> '''' | Some u \<Rightarrow> ua_Version u)
      then r = Ok (availability_response new) \<and>
           find_availability L st' = (find_availability L st)(i \<mapsto> new) \<and>
           st' = st\<lparr>st_Availabilities := st_Availabilities st'\<rparr>
      else st' = st \<and> outcome_code r = Some (if cur = None then AlreadyExists else VersionMismatch))"
proof (cases "find_availability L st i")
  case None
  then show ?thesis using assms
    by (auto simp: executeSetUssAvailability_def bindE_def OVN_Empty_def Let_def UpsertUssAvailability_def
        MustFromContext_def availabilityRecord_toModel_def find_availability_def gomap_simps fun_eq_iff)
next
  case (Some u)
  then show ?thesis using assms
    by (auto simp: executeSetUssAvailability_def bindE_def Let_def UpsertUssAvailability_def
        MustFromContext_def availabilityRecord_toModel_def find_availability_def gomap_simps fun_eq_iff)
qed

lemma executeSetUssAvailability_cas_witness:
  "fst (executeSetUssAvailability demo_externals (Some 7) (SetUssAvailabilityPayload ''u'' ''Down'' ''x'')
     empty_scd_state) \<noteq> Panic"
proof -
  have "\<not> IsZero 7" by (simp add: IsZero_def zero_time_def)
  from executeSetUssAvailability_cas [OF this, where L = demo_externals and st = empty_scd_state and i = "''u''" and a = "''Down''" and v = "''x''"]
  show ?thesis
    by (cases "executeSetUssAvailability demo_externals (Some 7)
        (SetUssAvailabilityPayload ''u'' ''Down'' ''x'') empty_scd_state")
      (auto simp: find_availability_def empty_scd_state_def Let_def)
qed

subsection \<open>Constraints\<close>

lemma executePutConstraint_None:
  "constraint_of req = None \<Longrightarrow> executePutConstraint L ctx req = unexpected_request"
  by (simp add: executePutConstraint_def)

text \<open>The check against the stored constraint, as the version that will be stored.\<close>

definition constraint_next :: "Constraint \<Rightarrow> Constraint option \<Rightarrow> VersionNumber outcome" where
  "constraint_next c old =
     (case old of
              None \<Rightarrow> if con_OVN c \<noteq> ''''
                      then Err (NewErrorWithCode VersionMismatch (''Old version '' @ con_OVN c @ '' does not exist''))
                      else Ok 1
            | Some o1 \<Rightarrow>
                if con_Manager o1 \<noteq> con_Manager c
                then Err (NewErrorWithCode PermissionDenied (''Constraint owned by '' @ con_Manager o1 @
                       '', but '' @ con_Manager c @ '' attempted to modify''))
                else if con_OVN o1 \<noteq> con_OVN c
                then Err (NewErrorWithCode VersionMismatch (''Current version is '' @ con_OVN o1 @
                       '' but client specified version '' @ con_OVN c))
                else Ok (con_Version o1 + 1))"

lemma executePutConstraint_conv:
  "constraint_of req = Some c \<Longrightarrow>
   executePutConstraint L ctx req st =
     bindE (liftO (constraint_next c (find_constraint L st (con_ID c)))) (\<lambda>version.
     bindE (UpsertConstraint L ctx (c\<lparr>con_Version := version\<rparr>)) (\<lambda>c'.
     bindE (increment_where L sr_NotifyForConstraints
              (case find_constraint L st (con_ID c) of None \<Rightarrow> con_Volume c
               | Some o1 \<Rightarrow> UnionCellsVolumes4D L [con_Volume c, con_Volume o1])) (\<lambda>subs.
     ret (ChangeConstraintReferenceResponse (Constraint_ToRest L c') (makeSubscribersToNotify subs))))) st"
  by (simp add: executePutConstraint_def constraint_next_def Let_def)

lemma UpsertConstraint_Ok:
  assumes "UpsertConstraint L ctx c s = (Ok c', t)"
  shows "\<exists>now. ctx = Some now \<and> c' = c\<lparr>con_UssAvailability := '''', con_OVN := NewOVNFromTime L now (con_ID c)\<rparr>"
  using assms by (auto simp: UpsertConstraint_def monad_simps Let_def constraintRecord_toModel_def)

definition storable_volume :: "externals \<Rightarrow> cells_volume_4d \<Rightarrow> bool" where
  "storable_volume L v \<longleftrightarrow>
     (\<forall>c \<in> set (cv_Cells v). s2_Level L c = 13) \<and> cv_StartTime v \<noteq> None \<and> cv_EndTime v \<noteq> None"

lemma UpsertConstraint_succeeds:
  "storable_volume L (con_Volume c) \<Longrightarrow> \<not> IsZero now \<Longrightarrow> \<exists>c' t. UpsertConstraint L (Some now) c s = (Ok c', t)"
  by (auto simp: UpsertConstraint_def monad_simps Let_def storable_volume_def CellUnionToCellIdsWithValidation_def)

lemma executePutConstraint_succeeds:
  assumes "constraint_of req = Some c" "constraint_next c (find_constraint L st (con_ID c)) = Ok n"
    "storable_volume L (con_Volume c)" "\<not> IsZero now"
  shows "is_Ok (fst (executePutConstraint L (Some now) req st))"
  using assms UpsertConstraint_succeeds [of L "c\<lparr>con_Version := n\<rparr>" now st]
  by (auto simp: executePutConstraint_conv bind_increment_not_fail)

text \<open>A constraint is created only under no version, and replaced only by its manager at its
  current OVN; then exactly that constraint changes, its version number goes up by one (from 1 for a
  new one), its OVN becomes the one of the update time, and the response shows the stored constraint.
  Every refusal leaves the store as it was.\<close>

lemma executePutConstraint_fenced:
  assumes "constraint_of req = Some c" and "executePutConstraint L ctx req st = (r, st')"
  shows "(\<not> is_Ok r \<longrightarrow> st' = st) \<and>
         (\<forall>resp. r = Ok resp \<longrightarrow>
           (let old = find_constraint L st (con_ID c) in
            (old = None \<longrightarrow> con_OVN c = '''') \<and>
            (\<forall>o1. old = Some o1 \<longrightarrow> con_Manager o1 = con_Manager c \<and> con_OVN o1 = con_OVN c) \<and>
            (\<exists>c' now subs. ctx = Some now \<and>
               c' = c\<lparr>con_Version := (case old of None \<Rightarrow> 1 | Some o1 \<Rightarrow> con_Version o1 + 1),
                       con_UssAvailability := '''', con_OVN := NewOVNFromTime L now (con_ID c)\<rparr> \<and>
               find_constraint L st' = (find_constraint L st)(con_ID c \<mapsto> c') \<and>
               resp = ChangeConstraintReferenceResponse (Constraint_ToRest L c') subs)))"
proof (cases "constraint_next c (find_constraint L st (con_ID c))")
  case (Ok version)
  then have next1: "version = (case find_constraint L st (con_ID c) of None \<Rightarrow> 1 | Some o1 \<Rightarrow> con_Version o1 + 1)"
    "find_constraint L st (con_ID c) = None \<longrightarrow> con_OVN c = ''''"
    "\<forall>o1. find_constraint L st (con_ID c) = Some o1 \<longrightarrow> con_Manager o1 = con_Manager c \<and> con_OVN o1 = con_OVN c"
    by (auto simp: constraint_next_def split: option.splits if_splits)
  obtain u s1 where u: "UpsertConstraint L ctx (c\<lparr>con_Version := version\<rparr>) st = (u, s1)" by fastforce
  show ?thesis
  proof (cases u)
    case (Ok c')
    from u Ok have "find_constraint L s1 = (find_constraint L st)(con_ID c \<mapsto> c')"
      using constraint_store.upsert_lookup [of L ctx "c\<lparr>con_Version := version\<rparr>" st c' s1] by simp
    moreover from u Ok obtain now where "ctx = Some now"
      "c' = c\<lparr>con_Version := version, con_UssAvailability := '''', con_OVN := NewOVNFromTime L now (con_ID c)\<rparr>"
      using UpsertConstraint_Ok [of L ctx "c\<lparr>con_Version := version\<rparr>" st c' s1] by auto
    ultimately show ?thesis
      using assms \<open>constraint_next _ _ = Ok version\<close> next1 u Ok
      by (auto simp: executePutConstraint_conv bind_increment_not_fail Let_def)
  next
    case (Err e)
    then show ?thesis using assms u \<open>constraint_next _ _ = Ok version\<close> constraint_store.upsert_fails [OF u]
      by (auto simp: executePutConstraint_conv)
  next
    case Panic
    then show ?thesis using assms u \<open>constraint_next _ _ = Ok version\<close> constraint_store.upsert_fails [OF u]
      by (auto simp: executePutConstraint_conv)
  qed
qed (use assms in \<open>auto simp: executePutConstraint_conv\<close>)

definition demo_constraint :: Constraint where
  "demo_constraint = \<lparr>con_ID = ''c1'', con_Manager = ''uss1'', con_UssAvailability = '''', con_Version = 0,
     con_OVN = '''', con_USSBaseURL = ''https://uss1'', con_Volume = demo_volume\<rparr>"

lemma demo_put_constraint:
  "is_Ok (fst (executePutConstraint demo_externals (Some 7) (CreateConstraintPayload demo_constraint) demo_scd_state))"
  by (rule executePutConstraint_succeeds [where c = demo_constraint and n = 1])
    (simp_all add: constraint_next_def find_constraint_def storable_volume_def demo_constraint_def demo_scd_defs
      IsZero_def zero_time_def)

lemma executePutConstraint_fenced_witness:
  "\<exists>c' st'. find_constraint demo_externals st' ''c1'' = Some c' \<and> con_Version c' = 1 \<and>
     snd (executePutConstraint demo_externals (Some 7) (CreateConstraintPayload demo_constraint) demo_scd_state) = st'"
proof -
  obtain r st' where e: "executePutConstraint demo_externals (Some 7) (CreateConstraintPayload demo_constraint)
      demo_scd_state = (r, st')" by fastforce
  with demo_put_constraint obtain resp where "r = Ok resp" by (cases r) auto
  moreover have "find_constraint demo_externals demo_scd_state ''c1'' = None" "con_ID demo_constraint = ''c1''"
    by (simp_all add: find_constraint_def demo_scd_state_def demo_constraint_def)
  ultimately show ?thesis
    using executePutConstraint_fenced [OF _ e, of demo_constraint] e by (auto simp: Let_def)
qed

interpretation constraint_delete: fenced_delete "find_constraint L" con_Manager con_OVN
  "\<lambda>i m v. executeDeleteConstraint L ctx (DeleteConstraintPayload i m v)" for L ctx
proof (unfold_locales, goal_cases)
  case (4 k own v s r t)
  then show ?case
    by (cases "find_constraint L s k")
      (auto simp: executeDeleteConstraint_def bindE_def bind_increment_not_fail DeleteConstraint_def
        find_constraint_def gomap_simps fun_eq_iff increment_where_conv split: if_splits)
qed (auto simp: executeDeleteConstraint_def bindE_def)

text \<open>A constraint is deleted only by its manager at its current OVN, and then it is gone and
  no other constraint has changed. A delete of an absent constraint, by another client, or at another
  OVN is refused with the code that says so and changes nothing; in particular, after a successful
  delete no second delete succeeds.\<close>

lemma executeDeleteConstraint_fenced:
  assumes "executeDeleteConstraint L ctx (DeleteConstraintPayload i m v) st = (r, st')"
  shows "(case find_constraint L st i of
            None \<Rightarrow> st' = st \<and> outcome_code r = Some NotFound
          | Some c \<Rightarrow>
              if con_Manager c \<noteq> m then st' = st \<and> outcome_code r = Some PermissionDenied
              else if con_OVN c \<noteq> v then st' = st \<and> outcome_code r = Some VersionMismatch
              else is_Ok r \<and> find_constraint L st' = (find_constraint L st)(i := None)) \<and>
         (is_Ok r \<longrightarrow> (\<forall>m' v'. outcome_code (fst (executeDeleteConstraint L ctx
              (DeleteConstraintPayload i m' v') st')) = Some NotFound))"
proof -
  have once: "outcome_code (fst (executeDeleteConstraint L ctx (DeleteConstraintPayload i m' v') st')) = Some NotFound"
    if "is_Ok r" for m' v'
    using that assms constraint_delete.del_once [OF TrueI, of L ctx i m v st _ st' m' v'] by (cases r) auto
  show ?thesis
  proof (cases "find_constraint L st i")
    case None
    then show ?thesis using assms constraint_delete.absent [of L st i ctx m v] once by auto
  next
    case (Some c)
    have "is_Ok r" if "con_Manager c = m" "con_OVN c = v"
      using that Some assms
      by (auto simp: executeDeleteConstraint_def bindE_def DeleteConstraint_def find_constraint_def
          increment_where_conv)
    then show ?thesis
      using Some assms constraint_delete.not_owner [OF Some, of m ctx v] constraint_delete.stale [OF Some, of m v ctx]
        constraint_delete.del_removes [of L ctx i m v st _ st'] once
      by (cases r) (auto split: if_splits)
  qed
qed

lemma executeDeleteConstraint_fenced_witness:
  "outcome_code (fst (executeDeleteConstraint demo_externals (Some 7) (DeleteConstraintPayload ''c9'' ''uss1'' ''v'')
     demo_scd_state)) = Some NotFound"
proof -
  obtain r st' where e: "executeDeleteConstraint demo_externals (Some 7) (DeleteConstraintPayload ''c9'' ''uss1'' ''v'')
      demo_scd_state = (r, st')" by fastforce
  from executeDeleteConstraint_fenced [OF e] e show ?thesis
    by (simp add: find_constraint_def demo_scd_state_def)
qed

end
