(* ===== verification/Scd_Subscription_Ops.thy ===== *)
theory Scd_Subscription_Ops
  imports Scd_Constraint_Ops
begin

text \<open>
  The operations on subscriptions: \<open>src/pkg/scd/operations/subscription.go\<close>.
\<close>

section \<open>Requests\<close>

record rest_PutSubscriptionParameters =
  ps_Extents :: rest_Volume4D
  ps_UssBaseUrl :: string
  ps_NotifyForOperationalIntents :: "bool option"
  ps_NotifyForConstraints :: "bool option"

text \<open>The two sentinel errors are let through; they come with the volume parsed so far.\<close>

definition subscription_volume :: "externals \<Rightarrow> rest_Volume4D \<Rightarrow> cells_volume_4d outcome" where
  "subscription_volume L extents =
     obind (CellsVolume4DFromSCDRest L extents) (\<lambda>(volume, err).
       case err of
         None \<Rightarrow> deref volume
       | Some e \<Rightarrow> if e = ErrMissingSpatialVolume \<or> e = ErrMissingFootprint then deref volume
                   else Err (PropagateWithCode (Some BadRequest) e))"

definition newSubscription ::
    "externals \<Rightarrow> string \<Rightarrow> Manager \<Rightarrow> string \<Rightarrow> rest_PutSubscriptionParameters \<Rightarrow> bool \<Rightarrow> Subscription outcome" where
  "newSubscription L subscriptionid manager version params allowHTTPBaseUrls =
     obind (omap_err (\<lambda>_. NewErrorWithCode BadRequest (''Invalid ID format: `'' @ subscriptionid @ ''`''))
              (IDFromString L subscriptionid)) (\<lambda>i.
     obind (if allowHTTPBaseUrls then Ok ()
            else omap_err (PropagateWithCode (Some BadRequest)) (ValidateUSSBaseURL L (ps_UssBaseUrl params))) (\<lambda>_.
     obind (subscription_volume L (ps_Extents params)) (\<lambda>volume.
     let sub = \<lparr>sub_ID = i, sub_Version = version, sub_NotificationIndex = 0, sub_Manager = manager,
                sub_USSBaseURL = ps_UssBaseUrl params,
                sub_NotifyForOperationalIntents =
                  (case ps_NotifyForOperationalIntents params of None \<Rightarrow> False | Some b \<Rightarrow> b),
                sub_NotifyForConstraints =
                  (case ps_NotifyForConstraints params of None \<Rightarrow> False | Some b \<Rightarrow> b),
                sub_ImplicitSubscription = False, sub_Volume = volume\<rparr>
     in if \<not> sub_NotifyForOperationalIntents sub \<and> \<not> sub_NotifyForConstraints sub
        then Err (NewErrorWithCode BadRequest ''No notification triggers requested for Subscription'')
        else Ok sub)))"

definition NewCreateSubscriptionPayload ::
    "externals \<Rightarrow> string \<Rightarrow> Manager \<Rightarrow> rest_PutSubscriptionParameters \<Rightarrow> bool \<Rightarrow> scd_request outcome" where
  "NewCreateSubscriptionPayload L i manager params allowHTTP =
     obind (newSubscription L i manager '''' params allowHTTP) (\<lambda>s. Ok (CreateSubscriptionPayload s))"

definition NewUpdateSubscriptionPayload ::
    "externals \<Rightarrow> string \<Rightarrow> Manager \<Rightarrow> string \<Rightarrow> rest_PutSubscriptionParameters \<Rightarrow> bool \<Rightarrow> scd_request outcome" where
  "NewUpdateSubscriptionPayload L i manager version params allowHTTP =
     obind (newSubscription L i manager version params allowHTTP) (\<lambda>s. Ok (UpdateSubscriptionPayload s))"

text \<open>\<open>request.(subscriptionPayload)\<close>\<close>

fun subscription_of :: "scd_request \<Rightarrow> Subscription option" where
  "subscription_of (CreateSubscriptionPayload s) = Some s"
| "subscription_of (UpdateSubscriptionPayload s) = Some s"
| "subscription_of _ = None"

section \<open>Create and update\<close>

fun getOperations :: "externals \<Rightarrow> ID list \<Rightarrow> (scd_state, OperationalIntent option list) op" where
  "getOperations L [] = ret []"
| "getOperations L (i # is) =
     bindE (GetOperationalIntent L i) (\<lambda>o1. bindE (getOperations L is) (\<lambda>os. ret (o1 # os)))"

text \<open>The checks of an update against the stored subscription, in the order of the source; the result
  is the subscription to store and the IDs of its dependent operational intents.\<close>

definition check_subscription_update ::
    "externals \<Rightarrow> Subscription \<Rightarrow> Subscription option \<Rightarrow> (scd_state, Subscription \<times> ID list) op" where
  "check_subscription_update L subreq old =
     (case old of
        None \<Rightarrow>
          if sub_Version subreq \<noteq> ''''
          then fail (NewErrorWithCode NotFound (''Subscription '' @ sub_ID subreq @ '' not found''))
          else ret (subreq, [])
      | Some o1 \<Rightarrow>
          if sub_Version subreq = ''''
          then fail (NewErrorWithCode AlreadyExists (''Subscription '' @ sub_ID subreq @ '' already exists''))
          else if sub_Version subreq \<noteq> sub_Version o1
          then fail (NewErrorWithCode VersionMismatch (''Subscription version '' @ sub_Version subreq @ '' is not current''))
          else if sub_Manager o1 \<noteq> sub_Manager subreq
          then fail (NewErrorWithCode PermissionDenied ''Subscription is owned by different client'')
          else
            let sub = subreq\<lparr>sub_NotificationIndex := sub_NotificationIndex o1\<rparr> in
            bindE (GetDependentOperationalIntents (sub_ID subreq)) (\<lambda>ids.
            bindE (getOperations L ids) (\<lambda>operations.
            bindE (liftO (ValidateDependentOps L sub operations)) (\<lambda>_. ret (sub, ids)))))"

text \<open>An operational intent in a list, with its OVN hidden from other managers.\<close>

definition intent_for :: "externals \<Rightarrow> Manager \<Rightarrow> OperationalIntent \<Rightarrow> rest_OIR" where
  "intent_for L manager o1 =
     (let p = OperationalIntent_ToRest L o1
      in if oi_Manager o1 \<noteq> manager then p\<lparr>roi_Ovn := Some NoOvnPhrase\<rparr> else p)"

definition relevant_intents :: "externals \<Rightarrow> Manager \<Rightarrow> Subscription \<Rightarrow> (scd_state, rest_OIR list option) op" where
  "relevant_intents L manager sub =
     (if \<not> sub_NotifyForOperationalIntents sub then ret None
      else bindE (if cv_Cells (sub_Volume sub) = [] then ret []
                  else SearchOperationalIntents L (sub_Volume sub)) (\<lambda>ops.
           ret (Some (map (intent_for L manager) ops))))"

definition relevant_constraints ::
    "externals \<Rightarrow> Manager \<Rightarrow> Subscription \<Rightarrow> (scd_state, rest_Constraint list option) op" where
  "relevant_constraints L manager sub =
     (if \<not> sub_NotifyForConstraints sub then ret None
      else bindE (SearchConstraints L (sub_Volume sub)) (\<lambda>cs. ret (Some (map (constraint_for L manager) cs))))"

definition executePutSubscription :: "externals \<Rightarrow> ctx \<Rightarrow> scd_request \<Rightarrow> (scd_state, scd_response) op" where
  "executePutSubscription L ctx req =
     (case subscription_of req of
        None \<Rightarrow> unexpected_request
      | Some subreq0 \<Rightarrow>
          bindE (GetSubscription L (sub_ID subreq0)) (\<lambda>old.
          bindE (liftO (MustFromContext ctx)) (\<lambda>now.
          bindE (liftO (Subscription_AdjustTimeRange now subreq0 old)) (\<lambda>subreq.
          bindE (check_subscription_update L subreq old) (\<lambda>(sub, dependentOpIds).
          bindE (UpsertSubscription L ctx sub) (\<lambda>stored.
          let p = Subscription_ToRest L stored dependentOpIds in
          bindE (relevant_intents L (sub_Manager sub) stored) (\<lambda>oirs.
          bindE (relevant_constraints L (sub_Manager sub) stored) (\<lambda>constraints.
          ret (PutSubscriptionResponse p oirs constraints)))))))))"

section \<open>Delete and read\<close>

definition executeDeleteSubscription :: "externals \<Rightarrow> ctx \<Rightarrow> scd_request \<Rightarrow> (scd_state, scd_response) op" where
  "executeDeleteSubscription L ctx req =
     (case req of
        DeleteSubscriptionPayload i manager version \<Rightarrow>
          bindE (GetSubscription L i) (\<lambda>old1.
          case old1 of
            None \<Rightarrow> fail (NewErrorWithCode NotFound (''Subscription '' @ i @ '' not found''))
          | Some old \<Rightarrow>
              if sub_Manager old \<noteq> manager
              then fail (NewErrorWithCode PermissionDenied ''Subscription is owned by different client'')
              else if sub_Version old \<noteq> version
              then fail (NewErrorWithCode VersionMismatch (''Subscription version '' @ version @ '' is not current''))
              else
                bindE (GetDependentOperationalIntents i) (\<lambda>dependentOps.
                if length dependentOps > 0
                then fail (NewErrorWithCode BadRequest ''Subscriptions with dependent Operations may not be removed'')
                else
                  bindE (DeleteSubscription i) (\<lambda>_.
                  ret (DeleteSubscriptionResponse (Subscription_ToRest L old dependentOps)))))
      | _ \<Rightarrow> unexpected_request)"

definition executeGetSubscription :: "externals \<Rightarrow> ctx \<Rightarrow> scd_request \<Rightarrow> (scd_state, scd_response) op" where
  "executeGetSubscription L ctx req =
     (case req of
        GetSubscriptionRequest subscriptionid clientID \<Rightarrow>
          bindE (liftO (omap_err (\<lambda>_. NewErrorWithCode BadRequest (''Invalid ID format: `'' @ subscriptionid @ ''`''))
                   (IDFromString L subscriptionid))) (\<lambda>i.
          bindE (GetSubscription L i) (\<lambda>sub1.
          case sub1 of
            None \<Rightarrow> fail (NewErrorWithCode NotFound (''Subscription '' @ i @ '' not found''))
          | Some sub \<Rightarrow>
              bindE (liftO (deref clientID)) (\<lambda>client.
              if client \<noteq> sub_Manager sub
              then fail (NewErrorWithCode PermissionDenied ''Subscription is owned by different client'')
              else
                bindE (GetDependentOperationalIntents i) (\<lambda>dependentOps.
                ret (GetSubscriptionResponse (Subscription_ToRest L sub dependentOps))))))
      | _ \<Rightarrow> unexpected_request)"

text \<open>The loop over the search results: expired subscriptions and those of other managers are left
  out. \<open>sub.EndTime\<close> is not nil for a stored subscription; \<open>*req.Auth.ClientID\<close> is only read for one
  that is not expired.\<close>

fun query_subscriptions_loop ::
    "externals \<Rightarrow> time \<Rightarrow> string option \<Rightarrow> Subscription list \<Rightarrow> (scd_state, rest_Subscription list) op" where
  "query_subscriptions_loop L now clientID [] = ret []"
| "query_subscriptions_loop L now clientID (sub # subs) =
     bindE (liftO (deref (cv_EndTime (sub_Volume sub)))) (\<lambda>endTime.
     bindE (if endTime < now then ret False
            else bindE (liftO (deref clientID)) (\<lambda>client. ret (sub_Manager sub = client))) (\<lambda>mine.
     if \<not> mine then query_subscriptions_loop L now clientID subs
     else
       bindE (GetDependentOperationalIntents (sub_ID sub)) (\<lambda>dependentOps.
       bindE (query_subscriptions_loop L now clientID subs) (\<lambda>rest.
       ret (Subscription_ToRest L sub dependentOps # rest)))))"

definition executeQuerySubscriptions :: "externals \<Rightarrow> ctx \<Rightarrow> scd_request \<Rightarrow> (scd_state, scd_response) op" where
  "executeQuerySubscriptions L ctx req =
     (case req of
        QuerySubscriptionsRequest aoi clientID \<Rightarrow>
          (case aoi of
             None \<Rightarrow> fail (NewErrorWithCode BadRequest ''Missing area_of_interest'')
           | Some a \<Rightarrow>
               bindE (liftO (omap_err (PropagateWithCode (Some BadRequest))
                        (volume_or_error (CellsVolume4DFromSCDRest L a)))) (\<lambda>cellsVolume.
               bindE (SearchSubscriptions L cellsVolume) (\<lambda>subs.
               bindE (liftO (MustFromContext ctx)) (\<lambda>nowMarker.
               bindE (query_subscriptions_loop L nowMarker clientID subs) (\<lambda>rs.
               ret (QuerySubscriptionsResponse rs))))))
      | _ \<Rightarrow> unexpected_request)"

section \<open>The references between intents and subscriptions\<close>

definition dependents :: "scd_state \<Rightarrow> ID \<Rightarrow> ID list" where
  "dependents st sid =
     map or_ID (filter (\<lambda>r. or_SubscriptionID r = Some sid) (map snd (st_OperationalIntents st)))"

lemma GetDependentOperationalIntents_conv [simp]:
  "GetDependentOperationalIntents sid st = (Ok (dependents st sid), st)"
  by (auto simp: GetDependentOperationalIntents_def range_until_never dependents_def
      intro!: arg_cong [where f = "map or_ID"] filter_cong)

lemma dependents_iff:
  assumes "scd_wf st"
  shows "i \<in> set (dependents st sid) \<longleftrightarrow>
    (\<exists>r. map_of (st_OperationalIntents st) i = Some r \<and> or_SubscriptionID r = Some sid)"
proof -
  have wf: "wf_gomap (st_OperationalIntents st)" and k: "keyed or_ID (st_OperationalIntents st)"
    using assms by (simp_all add: scd_wf_def)
  show ?thesis
    using values_ran [OF wf] k by (auto simp: dependents_def ran_def keyed_def)
qed

text \<open>The invariant across the two kinds of entities: the subscription of an intent exists, and an
  implicit subscription, which exists only for the intents it was made for, has a dependent intent.
  No subscription has the empty ID, which stands for no subscription in requests.\<close>

definition scd_refs :: "scd_state \<Rightarrow> bool" where
  "scd_refs st \<longleftrightarrow>
     (\<forall>i r sid. map_of (st_OperationalIntents st) i = Some r \<longrightarrow> or_SubscriptionID r = Some sid \<longrightarrow>
        map_of (st_Subscriptions st) sid \<noteq> None)"

definition scd_implicit_used :: "scd_state \<Rightarrow> bool" where
  "scd_implicit_used st \<longleftrightarrow>
     (\<forall>sid s. map_of (st_Subscriptions st) sid = Some s \<longrightarrow> sr_ImplicitSubscription s \<longrightarrow>
        (\<exists>i r. map_of (st_OperationalIntents st) i = Some r \<and> or_SubscriptionID r = Some sid))"

definition scd_inv :: "scd_state \<Rightarrow> bool" where
  "scd_inv st \<longleftrightarrow> scd_wf st \<and> scd_refs st \<and> scd_implicit_used st \<and>
     map_of (st_Subscriptions st) '''' = None"

lemma scd_inv_empty [simp]: "scd_inv empty_scd_state"
  by (simp add: scd_inv_def scd_refs_def scd_implicit_used_def empty_scd_state_def
      scd_wf_empty [unfolded empty_scd_state_def])

text \<open>Only the domain of the subscriptions and their implicit flags matter for it.\<close>

lemma scd_inv_subscriptions_map:
  assumes "scd_inv st" and "\<And>s. sr_ID (f s) = sr_ID s"
    and "\<And>s. sr_ImplicitSubscription (f s) = sr_ImplicitSubscription s"
  shows "scd_inv (st\<lparr>st_Subscriptions := map_values f (st_Subscriptions st)\<rparr>)"
  using assms
  by (auto simp: scd_inv_def scd_wf_def scd_refs_def scd_implicit_used_def keyed_map_values)

lemma increment_where_inv: "scd_inv st \<Longrightarrow> scd_inv (snd (increment_where L n v st))"
  unfolding increment_where_conv snd_conv by (rule scd_inv_subscriptions_map) auto

lemma scd_inv_constraints:
  "scd_inv st \<Longrightarrow> scd_wf (st\<lparr>st_Constraints := m\<rparr>) \<Longrightarrow> scd_inv (st\<lparr>st_Constraints := m\<rparr>)"
  "scd_inv st \<Longrightarrow> scd_wf (st\<lparr>st_Availabilities := a\<rparr>) \<Longrightarrow> scd_inv (st\<lparr>st_Availabilities := a\<rparr>)"
  by (simp_all add: scd_inv_def scd_refs_def scd_implicit_used_def)

lemma scd_inv_upsert_subscription:
  assumes "scd_inv st" "sr_ID s = i" "i \<noteq> ''''" "sr_ImplicitSubscription s \<Longrightarrow> dependents st i \<noteq> []"
  shows "scd_inv (st\<lparr>st_Subscriptions := AList.update i s (st_Subscriptions st)\<rparr>)"
proof -
  have "dependents st i \<noteq> [] \<longleftrightarrow> (\<exists>j r. map_of (st_OperationalIntents st) j = Some r \<and> or_SubscriptionID r = Some i)"
    using dependents_iff [of st _ i] assms(1) unfolding scd_inv_def by (metis list.set_intros(1) list.set(1) empty_iff neq_Nil_conv)
  with assms show ?thesis
    by (auto simp: scd_inv_def scd_refs_def scd_implicit_used_def map_of_update scd_wf_updates)
qed

lemma scd_inv_delete_subscription:
  assumes "scd_inv st" "dependents st i = []"
  shows "scd_inv (st\<lparr>st_Subscriptions := AList.delete i (st_Subscriptions st)\<rparr>)"
proof -
  have "\<And>j r. map_of (st_OperationalIntents st) j = Some r \<Longrightarrow> or_SubscriptionID r \<noteq> Some i"
    using dependents_iff [of st _ i] assms unfolding scd_inv_def by (metis empty_iff list.set(1))
  with assms(1) show ?thesis
    by (auto simp: scd_inv_def scd_refs_def scd_implicit_used_def map_of_delete scd_wf_updates)
qed

section \<open>Correctness of the operations\<close>

lemma getOperations_conv [simp]: "getOperations L is st = (Ok (map (find_intent L st) is), st)"
  by (induction "is") (simp_all add: bindE_def)

lemma SearchConstraints_Ok:
  assumes "scd_wf st"
  shows "\<exists>cs. SearchConstraints L v st = (Ok cs, st)"
proof -
  have "constraint_complete r" if "r \<in> set (map snd (st_Constraints st))" for r
    using that all_valuesD [of "st_Constraints st" constraint_complete r] assms by (simp add: scd_wf_def)
  then have "\<exists>p. \<forall>r \<in> set (map snd (st_Constraints st)). constraint_selected v r = Ok (p r)"
    by (intro exI [of _ "\<lambda>r. case constraint_selected v r of Ok b \<Rightarrow> b | _ \<Rightarrow> False"])
      (force simp: constraint_selected_def constraint_complete_def)
  then obtain p where "\<And>r. r \<in> set (map snd (st_Constraints st)) \<Longrightarrow> constraint_selected v r = Ok (p r)" by blast
  from range_until_deref_conv [of "map snd (st_Constraints st)" "constraint_selected v" p,
      where f = "constraintRecord_toModel L", OF this]
  show ?thesis by (simp add: SearchConstraints_def)
qed

lemma relevant_Ok:
  assumes "scd_wf st"
  shows "\<exists>os. relevant_intents L m s st = (Ok os, st)" "\<exists>cs. relevant_constraints L m s st = (Ok cs, st)"
  using SearchOperationalIntents_conv [OF assms, of "sub_Volume s" L] SearchConstraints_Ok [OF assms, of L "sub_Volume s"]
  by (auto simp: relevant_intents_def relevant_constraints_def bindE_def split: prod.splits)

lemma UpsertSubscription_Ok:
  assumes "UpsertSubscription L ctx s st = (Ok s', t)"
  shows "\<exists>now start end1. ctx = Some now \<and> cv_StartTime (sub_Volume s) = Some start \<and>
     cv_EndTime (sub_Volume s) = Some end1 \<and>
     s' = s\<lparr>sub_Version := NewOVNFromTime L now (sub_ID s),
            sub_Volume := (sub_Volume s)\<lparr>cv_AltitudeLo := None, cv_AltitudeHi := None\<rparr>\<rparr> \<and>
     t = st\<lparr>st_Subscriptions := st_Subscriptions t\<rparr> \<and>
     (\<exists>r. st_Subscriptions t = AList.update (sub_ID s) r (st_Subscriptions st) \<and>
          sr_ID r = sub_ID s \<and> sr_ImplicitSubscription r = sub_ImplicitSubscription s)"
  using assms
  by (auto simp: UpsertSubscription_def monad_simps Let_def subscriptionRecord_toModel_def)
    (rule exI, rule conjI, rule refl, simp)

lemma AdjustTimeRange_Ok:
  assumes "Subscription_AdjustTimeRange now s old = Ok s'"
  shows "\<exists>a b. s' = s\<lparr>sub_Volume := (sub_Volume s)\<lparr>cv_StartTime := Some a, cv_EndTime := Some b\<rparr>\<rparr> \<and>
           a \<le> b \<and> b - a \<le> maxSubscriptionDuration \<and>
           (\<forall>t. cv_StartTime (sub_Volume s) = Some t \<longrightarrow> a = t \<and> now - t \<le> maxClockSkew) \<and>
           (cv_StartTime (sub_Volume s) = None \<and> old = None \<longrightarrow> a = now) \<and>
           (\<forall>t. cv_EndTime (sub_Volume s) = Some t \<longrightarrow> b = t)"
proof -
  from assms obtain st en where e: "adjust_subscription_times now (cv_StartTime (sub_Volume s))
      (cv_EndTime (sub_Volume s))
      (map_option (\<lambda>o1. (cv_StartTime (sub_Volume o1), cv_EndTime (sub_Volume o1))) old) = Ok (st, en)"
    "s' = s\<lparr>sub_Volume := (sub_Volume s)\<lparr>cv_StartTime := st, cv_EndTime := en\<rparr>\<rparr>"
    by (auto simp: Subscription_AdjustTimeRange_def monad_simps)
  from adjust_subscription_times_Ok [OF e(1)] e(2) show ?thesis by auto
qed

text \<open>What it means that a subscription covers an intent that depends on it.\<close>

definition covers_intent :: "externals \<Rightarrow> Subscription \<Rightarrow> OperationalIntent \<Rightarrow> bool" where
  "covers_intent L s o1 \<longleftrightarrow> (\<exists>ss se os oe.
     s2_Contains L (cv_Cells (sub_Volume s)) (cv_Cells (oi_Volume o1)) \<and>
     cv_StartTime (sub_Volume s) = Some ss \<and> cv_EndTime (sub_Volume s) = Some se \<and>
     cv_StartTime (oi_Volume o1) = Some os \<and> cv_EndTime (oi_Volume o1) = Some oe \<and>
     ss - os \<le> 5 * Minute \<and> oe \<le> se)"

lemma ValidateDependentOp_Ok:
  assumes "ValidateDependentOp L s o1 = Ok u"
  shows "covers_intent L s o1"
  using assms Sub_gt_iff [of "5 * Minute"]
  by (auto simp: ValidateDependentOp_def covers_intent_def Let_def monad_simps deref_def not_less
      split: if_splits option.splits)

lemma ValidateDependentOps_Ok:
  "ValidateDependentOps L s os = Ok u \<Longrightarrow> o1 \<in> set os \<Longrightarrow> \<exists>p. o1 = Some p \<and> covers_intent L s p"
  by (induction L s os rule: ValidateDependentOps.induct)
    (auto simp: monad_simps deref_def dest: ValidateDependentOp_Ok split: option.splits)

lemma readonly_getOperations [pres_intros]: "readonly (getOperations L is)"
  by (simp add: readonly_def)

lemma readonly_check_subscription_update [pres_intros]: "readonly (check_subscription_update L s old)"
  unfolding check_subscription_update_def by (auto intro!: pres_intros split: option.splits)

lemma check_subscription_update_Ok:
  assumes "check_subscription_update L s old st = (Ok (sub, ids), t)"
  shows "t = st \<and>
    (case old of
       None \<Rightarrow> sub_Version s = '''' \<and> sub = s \<and> ids = []
     | Some o1 \<Rightarrow> sub_Version s \<noteq> '''' \<and> sub_Version s = sub_Version o1 \<and> sub_Manager o1 = sub_Manager s \<and>
         sub = s\<lparr>sub_NotificationIndex := sub_NotificationIndex o1\<rparr> \<and> ids = dependents st (sub_ID s) \<and>
         (\<forall>i \<in> set ids. \<exists>p. find_intent L st i = Some p \<and> covers_intent L sub p))"
proof (cases old)
  case None
  with assms show ?thesis by (auto simp: check_subscription_update_def split: if_splits)
next
  case (Some o1)
  with assms have v: "ValidateDependentOps L (s\<lparr>sub_NotificationIndex := sub_NotificationIndex o1\<rparr>)
      (map (find_intent L st) (dependents st (sub_ID s))) = Ok ()"
    and r: "sub_Version s \<noteq> ''''" "sub_Version s = sub_Version o1" "sub_Manager o1 = sub_Manager s"
      "sub = s\<lparr>sub_NotificationIndex := sub_NotificationIndex o1\<rparr>" "ids = dependents st (sub_ID s)" "t = st"
    by (auto simp: check_subscription_update_def Let_def monad_simps split: if_splits)
  have "\<exists>p. find_intent L st i = Some p \<and> covers_intent L sub p" if "i \<in> set ids" for i
    using ValidateDependentOps_Ok [OF v, of "find_intent L st i"] that r by auto
  with r Some show ?thesis by simp
qed

lemma executePutSubscription_steps:
  assumes "scd_wf st" "subscription_of req = Some s0" "executePutSubscription L ctx req st = (r, st')"
  shows "(\<not> is_Ok r \<and> st' = st) \<or>
    (\<exists>resp now s sub ids stored. r = Ok resp \<and> ctx = Some now \<and> \<not> IsZero now \<and>
       Subscription_AdjustTimeRange now s0 (find_subscription L st (sub_ID s0)) = Ok s \<and>
       check_subscription_update L s (find_subscription L st (sub_ID s0)) st = (Ok (sub, ids), st) \<and>
       UpsertSubscription L ctx sub st = (Ok stored, st'))"
proof -
  let ?old = "find_subscription L st (sub_ID s0)"
  have e: "executePutSubscription L ctx req st =
    bindE (liftO (MustFromContext ctx)) (\<lambda>now.
    bindE (liftO (Subscription_AdjustTimeRange now s0 ?old)) (\<lambda>s.
    bindE (check_subscription_update L s ?old) (\<lambda>(sub, ids).
    bindE (UpsertSubscription L ctx sub) (\<lambda>stored.
    bindE (relevant_intents L (sub_Manager sub) stored) (\<lambda>oirs.
    bindE (relevant_constraints L (sub_Manager sub) stored) (\<lambda>cs.
    ret (PutSubscriptionResponse (Subscription_ToRest L stored ids) oirs cs))))))) st"
    using assms(2) by (simp add: executePutSubscription_def Let_def)
  show ?thesis
  proof (cases "MustFromContext ctx")
    case (Ok now)
    then have ctx: "ctx = Some now" "\<not> IsZero now" by simp_all
    show ?thesis
    proof (cases "Subscription_AdjustTimeRange now s0 ?old")
      case (Ok s)
      obtain c t where c: "check_subscription_update L s ?old st = (c, t)" by fastforce
      with readonlyD [OF readonly_check_subscription_update c] have t: "t = st" by simp
      show ?thesis
      proof (cases c)
        case (Ok p)
        obtain sub ids where p: "p = (sub, ids)" by fastforce
        obtain u t' where u: "UpsertSubscription L ctx sub st = (u, t')" by fastforce
        show ?thesis
        proof (cases u)
          case (Ok stored)
          have "scd_wf t'" using preservesD [OF preserves_upserts(2) assms(1) u] .
          then obtain os cs where "relevant_intents L (sub_Manager sub) stored t' = (Ok os, t')"
            "relevant_constraints L (sub_Manager sub) stored t' = (Ok cs, t')"
            using relevant_Ok by blast
          with e u Ok p c t \<open>c = Ok p\<close> \<open>Subscription_AdjustTimeRange _ _ _ = Ok s\<close> ctx assms(3) show ?thesis
            by auto
        qed (use e u p c t Ok \<open>c = Ok p\<close> \<open>Subscription_AdjustTimeRange _ _ _ = Ok s\<close> ctx assms(3)
            subscription_store.upsert_fails [OF u] in auto)
      qed (use e c t Ok ctx assms(3) in auto)
    qed (use e ctx assms(3) in auto)
  qed (use e assms(3) in auto)
qed

text \<open>C17: creating and updating a subscription. It succeeds only as a creation without a version
  where there is none, or as an update by its manager at its current version. What is stored then
  has a start and an end, at most 24 hours apart and in order, a start no more than the clock skew in
  the past when the client chose it and the current time when a new subscription gives none; an
  update keeps the notification index and covers, in cells and time, every operational intent that
  depends on the subscription. No operational intent and no other subscription changes, and a refusal
  changes nothing.\<close>

theorem executePutSubscription_correct:
  assumes "scd_wf st" and "subscription_of req = Some s0" and "executePutSubscription L ctx req st = (r, st')"
  shows "(\<not> is_Ok r \<longrightarrow> st' = st) \<and>
    (is_Ok r \<longrightarrow> (let old = find_subscription L st (sub_ID s0) in
      \<exists>now sub start end1. ctx = Some now \<and>
        (case old of
           None \<Rightarrow> sub_Version s0 = '''' \<and> sub_NotificationIndex sub = sub_NotificationIndex s0
         | Some o1 \<Rightarrow> sub_Version s0 = sub_Version o1 \<and> sub_Manager s0 = sub_Manager o1 \<and>
             sub_NotificationIndex sub = sub_NotificationIndex o1 \<and>
             (\<forall>i \<in> set (dependents st (sub_ID s0)). \<exists>p. find_intent L st i = Some p \<and> covers_intent L sub p)) \<and>
        find_subscription L st' = (find_subscription L st)(sub_ID s0 \<mapsto> sub) \<and>
        st' = st\<lparr>st_Subscriptions := st_Subscriptions st'\<rparr> \<and>
        sub_Manager sub = sub_Manager s0 \<and> cv_Cells (sub_Volume sub) = cv_Cells (sub_Volume s0) \<and>
        cv_StartTime (sub_Volume sub) = Some start \<and> cv_EndTime (sub_Volume sub) = Some end1 \<and>
        start \<le> end1 \<and> end1 - start \<le> 24 * Hour \<and>
        (\<forall>t. cv_StartTime (sub_Volume s0) = Some t \<longrightarrow> start = t \<and> now - t \<le> 5 * Minute) \<and>
        (cv_StartTime (sub_Volume s0) = None \<and> old = None \<longrightarrow> start = now)))"
proof -
  from executePutSubscription_steps [OF assms] consider
      (failed) "\<not> is_Ok r" "st' = st"
    | (ok) resp now s sub ids stored where "r = Ok resp" "ctx = Some now"
        "Subscription_AdjustTimeRange now s0 (find_subscription L st (sub_ID s0)) = Ok s"
        "check_subscription_update L s (find_subscription L st (sub_ID s0)) st = (Ok (sub, ids), st)"
        "UpsertSubscription L ctx sub st = (Ok stored, st')"
    by blast
  then show ?thesis
  proof cases
    case ok
    obtain a b where adj: "s = s0\<lparr>sub_Volume := (sub_Volume s0)\<lparr>cv_StartTime := Some a, cv_EndTime := Some b\<rparr>\<rparr>"
        "a \<le> b" "b - a \<le> 24 * Hour"
        "\<forall>t. cv_StartTime (sub_Volume s0) = Some t \<longrightarrow> a = t \<and> now - t \<le> 5 * Minute"
        "cv_StartTime (sub_Volume s0) = None \<and> find_subscription L st (sub_ID s0) = None \<longrightarrow> a = now"
      using AdjustTimeRange_Ok [OF ok(3)] by blast
    note chk = check_subscription_update_Ok [OF ok(4)]
    have sub: "sub_ID sub = sub_ID s0" "sub_Manager sub = sub_Manager s0"
        "sub_Volume sub = (sub_Volume s0)\<lparr>cv_StartTime := Some a, cv_EndTime := Some b\<rparr>"
      using chk adj(1) by (auto split: option.splits)
    note up = UpsertSubscription_Ok [OF ok(5)] subscription_store.upsert_lookup [OF ok(5)]
    from up sub have stored: "sub_Manager stored = sub_Manager s0"
        "sub_NotificationIndex stored = sub_NotificationIndex sub"
        "cv_Cells (sub_Volume stored) = cv_Cells (sub_Volume s0)"
        "cv_StartTime (sub_Volume stored) = Some a" "cv_EndTime (sub_Volume stored) = Some b"
        "\<And>p. covers_intent L sub p \<Longrightarrow> covers_intent L stored p"
      by (auto simp: covers_intent_def)
    have frame: "st' = st\<lparr>st_Subscriptions := st_Subscriptions st'\<rparr>" using up(1) by blast
    have old: "case find_subscription L st (sub_ID s0) of
        None \<Rightarrow> sub_Version s0 = '''' \<and> sub_NotificationIndex stored = sub_NotificationIndex s0
      | Some o1 \<Rightarrow> sub_Version s0 = sub_Version o1 \<and> sub_Manager s0 = sub_Manager o1 \<and>
          sub_NotificationIndex stored = sub_NotificationIndex o1 \<and>
          (\<forall>i \<in> set (dependents st (sub_ID s0)). \<exists>p. find_intent L st i = Some p \<and> covers_intent L stored p)"
      using chk adj(1) stored(2,6) by (fastforce split: option.splits)
    show ?thesis
      using ok(1,2) old up(2) frame stored adj sub(1) by (auto simp: Let_def)
  qed simp
qed

definition demo_subscription :: Subscription where
  "demo_subscription = \<lparr>sub_ID = ''s2'', sub_Version = '''', sub_NotificationIndex = 0,
     sub_Manager = ''uss1'', sub_USSBaseURL = ''https://uss1'', sub_NotifyForOperationalIntents = True,
     sub_NotifyForConstraints = True, sub_ImplicitSubscription = False, sub_Volume = demo_volume\<rparr>"

lemma demo_put_subscription:
  "is_Ok (fst (executePutSubscription demo_externals (Some 100) (CreateSubscriptionPayload demo_subscription)
     demo_scd_state))"
proof -
  let ?s = "demo_subscription"
  obtain t where t: "UpsertSubscription demo_externals (Some 100) ?s demo_scd_state = t" "is_Ok (fst t)"
    by (simp add: UpsertSubscription_def bindE_def Let_def demo_subscription_def demo_volume_def
        requireExtentTimes_def MustFromContext_def IsZero_def zero_time_def)
  then obtain s' st' where u: "UpsertSubscription demo_externals (Some 100) ?s demo_scd_state = (Ok s', st')"
    by (cases t; cases "fst t") auto
  have "scd_wf st'" using preservesD [OF preserves_upserts(2) demo_scd_wf u] .
  then obtain os cs where "relevant_intents demo_externals (sub_Manager ?s) s' st' = (Ok os, st')"
      "relevant_constraints demo_externals (sub_Manager ?s) s' st' = (Ok cs, st')"
    using relevant_Ok by blast
  moreover have "Subscription_AdjustTimeRange 100 ?s None = Ok ?s"
    by (simp add: Subscription_AdjustTimeRange_def adjust_subscription_times_def adjust_start_def
        demo_subscription_def demo_volume_def Sub_def sat64_def)
  moreover have "check_subscription_update demo_externals ?s None demo_scd_state = (Ok (?s, []), demo_scd_state)"
    by (simp add: check_subscription_update_def demo_subscription_def)
  moreover have "find_subscription demo_externals demo_scd_state (sub_ID ?s) = None"
    by (simp add: find_subscription_def demo_scd_state_def demo_subscription_def)
  ultimately show ?thesis
    using u by (simp add: executePutSubscription_def MustFromContext_def IsZero_def zero_time_def Let_def)
qed

theorem executePutSubscription_correct_witness:
  "\<exists>st' sub. snd (executePutSubscription demo_externals (Some 100) (CreateSubscriptionPayload demo_subscription)
       demo_scd_state) = st' \<and> find_subscription demo_externals st' ''s2'' = Some sub \<and>
     cv_StartTime (sub_Volume sub) = Some 100"
proof -
  obtain r st' where e: "executePutSubscription demo_externals (Some 100)
      (CreateSubscriptionPayload demo_subscription) demo_scd_state = (r, st')" by fastforce
  with demo_put_subscription have "is_Ok r" by simp
  with executePutSubscription_correct [OF demo_scd_wf _ e, of demo_subscription]
  have "\<exists>sub. find_subscription demo_externals st' = (find_subscription demo_externals demo_scd_state)
      (sub_ID demo_subscription \<mapsto> sub) \<and> cv_StartTime (sub_Volume sub) = Some 100"
    by (auto simp: Let_def demo_subscription_def demo_volume_def)
  with e show ?thesis by (auto simp: demo_subscription_def)
qed

subsection \<open>Deleting\<close>

lemma executeDeleteSubscription_conv:
  "executeDeleteSubscription L ctx (DeleteSubscriptionPayload i m v) st =
     (case find_subscription L st i of
        None \<Rightarrow> (Err (NewErrorWithCode NotFound (''Subscription '' @ i @ '' not found'')), st)
      | Some old \<Rightarrow>
          if sub_Manager old \<noteq> m
          then (Err (NewErrorWithCode PermissionDenied ''Subscription is owned by different client''), st)
          else if sub_Version old \<noteq> v
          then (Err (NewErrorWithCode VersionMismatch (''Subscription version '' @ v @ '' is not current'')), st)
          else if dependents st i \<noteq> []
          then (Err (NewErrorWithCode BadRequest ''Subscriptions with dependent Operations may not be removed''), st)
          else (Ok (DeleteSubscriptionResponse (Subscription_ToRest L old [])),
                st\<lparr>st_Subscriptions := AList.delete i (st_Subscriptions st)\<rparr>))"
  by (auto simp: executeDeleteSubscription_def bindE_def DeleteSubscription_def find_subscription_def
      split: option.splits)

interpretation subscription_delete: fenced_delete "find_subscription L" sub_Manager sub_Version
  "\<lambda>i m v. executeDeleteSubscription L ctx (DeleteSubscriptionPayload i m v)" for L ctx
  by unfold_locales
    (auto simp: executeDeleteSubscription_conv find_subscription_def gomap_simps fun_eq_iff
      split: option.splits if_splits)

text \<open>C18: a subscription is deleted only by its manager, at its current version, and while no
  operational intent depends on it; then it alone is gone. Any other delete changes nothing and says
  why; for a subscription with dependent intents it is a bad request.\<close>

theorem executeDeleteSubscription_guarded:
  assumes "executeDeleteSubscription L ctx (DeleteSubscriptionPayload i m v) st = (r, st')"
  shows "(is_Ok r \<longleftrightarrow> (\<exists>s. find_subscription L st i = Some s \<and> sub_Manager s = m \<and> sub_Version s = v) \<and>
            dependents st i = []) \<and>
         (is_Ok r \<longrightarrow> find_subscription L st' = (find_subscription L st)(i := None) \<and>
            st' = st\<lparr>st_Subscriptions := st_Subscriptions st'\<rparr>) \<and>
         (\<not> is_Ok r \<longrightarrow> st' = st \<and>
            outcome_code r = Some (case find_subscription L st i of None \<Rightarrow> NotFound
              | Some s \<Rightarrow> if sub_Manager s \<noteq> m then PermissionDenied
                          else if sub_Version s \<noteq> v then VersionMismatch else BadRequest))"
  using assms subscription_delete.del_removes [of L ctx i m v st _ st']
  by (cases r) (auto simp: executeDeleteSubscription_conv split: option.splits if_splits)

theorem executeDeleteSubscription_guarded_witness:
  "let v = NewOVNFromTime demo_externals 5 ''sub'' in
   outcome_code (fst (executeDeleteSubscription demo_externals (Some 7)
     (DeleteSubscriptionPayload ''sub'' ''uss1'' v) demo_scd_state)) = Some BadRequest"
proof -
  let ?v = "NewOVNFromTime demo_externals 5 ''sub''"
  obtain r st' where e: "executeDeleteSubscription demo_externals (Some 7)
      (DeleteSubscriptionPayload ''sub'' ''uss1'' ?v) demo_scd_state = (r, st')" by fastforce
  from executeDeleteSubscription_guarded [OF e] e show ?thesis
    by (auto simp: find_subscription_def demo_scd_defs dependents_def subscriptionRecord_toModel_def)
qed

subsection \<open>An update that panics\<close>

text \<open>An update of a subscription on which an operational intent depends, by its manager at its
  current version, with cells that contain the intent's, panics when the request gives no lower
  altitude: the check of the dependent intents dereferences it. Nothing in the request validation
  asks for altitudes.\<close>

lemma executePutSubscription_panics_without_altitude:
  assumes "scd_wf st" and "\<not> IsZero now" and "subscription_of req = Some s0"
    and "find_subscription L st (sub_ID s0) = Some old"
    and "sub_Version s0 = sub_Version old" "sub_Version old \<noteq> ''''" "sub_Manager s0 = sub_Manager old"
    and "is_Ok (Subscription_AdjustTimeRange now s0 (Some old))"
    and "dependents st (sub_ID s0) = i # rest" and "find_intent L st i = Some p"
    and "s2_Contains L (cv_Cells (sub_Volume s0)) (cv_Cells (oi_Volume p))"
    and "cv_AltitudeLo (sub_Volume s0) = None"
  shows "executePutSubscription L (Some now) req st = (Panic, st)"
proof -
  obtain s where s: "Subscription_AdjustTimeRange now s0 (Some old) = Ok s"
    using assms(8) by (cases "Subscription_AdjustTimeRange now s0 (Some old)") auto
  then obtain a b where sv: "s = s0\<lparr>sub_Volume := (sub_Volume s0)\<lparr>cv_StartTime := Some a, cv_EndTime := Some b\<rparr>\<rparr>"
    using AdjustTimeRange_Ok by blast
  have "cv_AltitudeLo (oi_Volume p) \<noteq> None"
    using assms(1,10) by (auto simp: scd_wf_def find_intent_def all_values_def intent_complete_def)
  then have "ValidateDependentOp L (s\<lparr>sub_NotificationIndex := sub_NotificationIndex old\<rparr>) p = Panic"
    using assms(11,12) sv by (auto simp: ValidateDependentOp_def Let_def)
  then have "check_subscription_update L s (Some old) st = (Panic, st)"
    using assms(4-7,9,10) sv by (simp add: check_subscription_update_def Let_def)
  with assms(2-4) s show ?thesis
    by (simp add: executePutSubscription_def MustFromContext_def)
qed

lemma executePutSubscription_panics_without_altitude_witness:
  "let s0 = demo_subscription\<lparr>sub_ID := ''sub'', sub_Version := NewOVNFromTime demo_externals 5 ''sub'',
              sub_Volume := demo_volume\<lparr>cv_AltitudeLo := None\<rparr>\<rparr>
   in fst (executePutSubscription demo_externals (Some 100) (UpdateSubscriptionPayload s0) demo_scd_state) = Panic"
proof -
  let ?s0 = "demo_subscription\<lparr>sub_ID := ''sub'', sub_Version := NewOVNFromTime demo_externals 5 ''sub'',
              sub_Volume := demo_volume\<lparr>cv_AltitudeLo := None\<rparr>\<rparr>"
  let ?old = "subscriptionRecord_toModel demo_externals demo_subscription_record"
  let ?p = "intent_model demo_externals demo_scd_state demo_intent_record"
  have ovn: "NewOVNFromTime demo_externals 5 ''sub'' \<noteq> ''''"
    using NewOVNFromTime_not_Nil [OF demo_sha256_length] .
  have "executePutSubscription demo_externals (Some 100) (UpdateSubscriptionPayload ?s0) demo_scd_state
      = (Panic, demo_scd_state)"
    by (rule executePutSubscription_panics_without_altitude [OF demo_scd_wf,
          where ?s0.0 = "?s0" and old = "?old" and i = "''oi''" and rest = "[]" and p = "?p"])
      (simp_all add: ovn demo_scd_defs demo_subscription_def find_subscription_def find_intent_def dependents_def
        subscriptionRecord_toModel_def Subscription_AdjustTimeRange_def adjust_subscription_times_def
        adjust_start_def Sub_def sat64_def IsZero_def zero_time_def)
  then show ?thesis by simp
qed

end
