(* ===== verification/Scd_Oir_Ops.thy ===== *)
theory Scd_Oir_Ops
  imports Scd_Subscription_Ops
begin

text \<open>
  The operations on operational intent references:
  \<open>src/pkg/scd/operations/operational_intents.go\<close>. The identifier that \<open>uuid.New()\<close> draws for an
  implicit subscription is an argument of the request validation.
\<close>

section \<open>Request validation\<close>

record rest_ImplicitSubscriptionParameters =
  is_UssBaseUrl :: string
  is_NotifyForConstraints :: "bool option"

record rest_PutOIRParameters =
  po_Extents :: "rest_Volume4D list"
  po_Key :: "string list option"
  po_State :: string
  po_UssBaseUrl :: string
  po_SubscriptionId :: "string option"
  po_NewSubscription :: "rest_ImplicitSubscriptionParameters option"
  po_RequestedOvnSuffix :: "string option"

abbreviation UtmConformanceMonitoringSaScope :: string where
  "UtmConformanceMonitoringSaScope \<equiv> ''utm.conformance_monitoring_sa''"

definition checkUpsertPermissionsAndReturnManager ::
    "AuthorizationResult \<Rightarrow> OperationalIntentState \<Rightarrow> Manager outcome" where
  "checkUpsertPermissionsAndReturnManager auth requestedState =
     (case au_ClientID auth of
        None \<Rightarrow> Err (NewError ''Missing manager'')
      | Some client \<Rightarrow>
          let hasCMSARole = HasScope (au_Scopes auth) UtmConformanceMonitoringSaScope in
          if State_RequiresCMSA requestedState \<and> \<not> hasCMSARole
          then Err (NewError ''Missing Conformance Monitoring for Situational Awareness scope to transition to CMSA state'')
          else Ok client)"

text \<open>The implicit subscription part: identifier, base URL, whether for constraints.\<close>

definition implicit_subscription_params ::
    "ID \<Rightarrow> rest_PutOIRParameters \<Rightarrow> (ID \<times> string \<times> bool) outcome" where
  "implicit_subscription_params newID params =
     (case po_NewSubscription params of
        None \<Rightarrow> Ok ('''', '''', False)
      | Some ns \<Rightarrow>
          if is_UssBaseUrl ns = ''''
          then Err (NewError ''Missing required USS base url for new subscription (in parameters for implicit subscription)'')
          else if po_SubscriptionId params \<noteq> None
          then Err (NewError ''Cannot provide both a Subscription ID and request an implicit subscription'')
          else Ok (newID, is_UssBaseUrl ns, case is_NotifyForConstraints ns of None \<Rightarrow> False | Some b \<Rightarrow> b))"

definition validateAndReturnOIRUpsertParams ::
    "externals \<Rightarrow> ID \<Rightarrow> time \<Rightarrow> string \<Rightarrow> OVN \<Rightarrow> rest_PutOIRParameters \<Rightarrow> bool \<Rightarrow> validOIRParams outcome" where
  "validateAndReturnOIRUpsertParams L newID now entityid ovn params allowHTTPBaseUrls =
     obind (omap_err (\<lambda>_. NewError (''Invalid ID format: `'' @ entityid @ ''`'')) (IDFromString L entityid)) (\<lambda>i.
     obind (case po_SubscriptionId params of None \<Rightarrow> Ok ''''
            | Some s \<Rightarrow> omap_err (\<lambda>_. NewError (''Invalid ID format for Subscription ID: `'' @ s @ ''`''))
                         (IDFromOptionalString L s)) (\<lambda>sid.
     obind (implicit_subscription_params newID params) (\<lambda>(implID, implURL, implForConstraints).
     obind (if allowHTTPBaseUrls then Ok ()
            else obind (ValidateUSSBaseURL L (po_UssBaseUrl params)) (\<lambda>_.
                 case po_NewSubscription params of None \<Rightarrow> Ok () | Some _ \<Rightarrow> ValidateUSSBaseURL L implURL)) (\<lambda>_.
     if \<not> State_IsValidInDSS (po_State params)
     then Err (NewError (''Invalid OperationalIntent state: '' @ po_State params))
     else
     obind (UnionCellsVolume4DFromSCDRest L (po_Extents params)
              [WithRequireCellsTimeBounds, WithRequireCellsAltitudeBounds, WithRequireCellsEndTimeAfter now]) (\<lambda>volume.
     if ovn = '''' \<and> po_State params \<noteq> OperationalIntentStateAccepted
     then Err (NewError (''Invalid state for initial version: `'' @ po_State params @ ''`''))
     else
     obind (case po_RequestedOvnSuffix params of None \<Rightarrow> Ok ''''
            | Some suffix \<Rightarrow> NewOVNFromUUIDv7Suffix L now i suffix) (\<lambda>newOVN.
     if State_RequiresSubscription (po_State params) \<and> sid = '''' \<and>
        (case po_NewSubscription params of None \<Rightarrow> True | Some ns \<Rightarrow> is_UssBaseUrl ns = '''')
     then Err (NewError ''Provided Operational Intent Reference state requires either a subscription ID or information to create an implicit subscription'')
     else Ok \<lparr>vp_ID = i, vp_OVN = ovn, vp_NewOVN = newOVN, vp_State = po_State params, vp_Volume = volume,
              vp_SubscriptionID = sid, vp_USSBaseURL = po_UssBaseUrl params,
              vp_Implicit_ID = implID, vp_Implicit_BaseURL = implURL,
              vp_Implicit_ForConstraints = implForConstraints,
              vp_Key = (case po_Key params of None \<Rightarrow> [] | Some k \<Rightarrow> remdups k)\<rparr>))))))"

definition newOIRUpsert ::
    "externals \<Rightarrow> ID \<Rightarrow> string \<Rightarrow> OVN \<Rightarrow> rest_PutOIRParameters \<Rightarrow> AuthorizationResult \<Rightarrow> bool \<Rightarrow> time \<Rightarrow>
     (Manager \<times> validOIRParams) outcome" where
  "newOIRUpsert L newID entityid ovn params auth allowHTTPBaseUrls now =
     obind (omap_err (PropagateWithCode (Some BadRequest))
              (validateAndReturnOIRUpsertParams L newID now entityid ovn params allowHTTPBaseUrls)) (\<lambda>vp.
     obind (omap_err (PropagateWithCode (Some PermissionDenied))
              (checkUpsertPermissionsAndReturnManager auth (vp_State vp))) (\<lambda>manager.
     Ok (manager, vp)))"

definition NewCreateOIRPayload ::
    "externals \<Rightarrow> ID \<Rightarrow> string \<Rightarrow> rest_PutOIRParameters \<Rightarrow> AuthorizationResult \<Rightarrow> bool \<Rightarrow> time \<Rightarrow> scd_request outcome" where
  "NewCreateOIRPayload L newID entityid params auth allowHTTP now =
     obind (newOIRUpsert L newID entityid '''' params auth allowHTTP now) (\<lambda>(m, vp). Ok (CreateOIRPayload m vp))"

definition NewUpdateOIRPayload ::
    "externals \<Rightarrow> ID \<Rightarrow> string \<Rightarrow> OVN \<Rightarrow> rest_PutOIRParameters \<Rightarrow> AuthorizationResult \<Rightarrow> bool \<Rightarrow> time \<Rightarrow>
     scd_request outcome" where
  "NewUpdateOIRPayload L newID entityid ovn params auth allowHTTP now =
     obind (newOIRUpsert L newID entityid ovn params auth allowHTTP now) (\<lambda>(m, vp). Ok (UpdateOIRPayload m vp))"

text \<open>\<open>request.(oirPayload)\<close>\<close>

fun oir_of :: "scd_request \<Rightarrow> (Manager \<times> validOIRParams) option" where
  "oir_of (CreateOIRPayload m p) = Some (m, p)"
| "oir_of (UpdateOIRPayload m p) = Some (m, p)"
| "oir_of _ = None"

definition toOIR ::
    "validOIRParams \<Rightarrow> Manager \<Rightarrow> Subscription option \<Rightarrow> VersionNumber \<Rightarrow> OVN list \<Rightarrow> OperationalIntent" where
  "toOIR vp manager attachedSub version pastOVNs = \<lparr>
     oi_ID = vp_ID vp, oi_Manager = manager, oi_UssAvailability = '''', oi_Version = version,
     oi_State = vp_State vp, oi_OVN = vp_NewOVN vp, oi_PastOVNs = pastOVNs, oi_USSBaseURL = vp_USSBaseURL vp,
     oi_SubscriptionID = map_option sub_ID attachedSub, oi_Volume = vp_Volume vp\<rparr>"

definition newImplicitSubscription :: "validOIRParams \<Rightarrow> Manager \<Rightarrow> Subscription" where
  "newImplicitSubscription v manager = \<lparr>
     sub_ID = vp_Implicit_ID v, sub_Version = '''', sub_NotificationIndex = 0, sub_Manager = manager,
     sub_USSBaseURL = vp_Implicit_BaseURL v, sub_NotifyForOperationalIntents = True,
     sub_NotifyForConstraints = vp_Implicit_ForConstraints v, sub_ImplicitSubscription = True,
     sub_Volume = vp_Volume v\<rparr>"

section \<open>Steps of an upsert\<close>

definition SubscriptionIsImplicitAndOnlyAttachedToOIR ::
    "ID \<Rightarrow> Subscription option \<Rightarrow> (scd_state, bool) op" where
  "SubscriptionIsImplicitAndOnlyAttachedToOIR oirID subscription =
     (case subscription of
        None \<Rightarrow> ret False
      | Some sub \<Rightarrow>
          if \<not> sub_ImplicitSubscription sub then ret False
          else
            bindE (GetDependentOperationalIntents (sub_ID sub)) (\<lambda>dependentOps.
            if length dependentOps = 0
            then fail (NewError ''An implicit Subscription had no dependent OperationalIntents'')
            else ret (length dependentOps = 1 \<and> hd dependentOps = oirID)))"

definition validateUpsertRequestAgainstPreviousOIR ::
    "Manager \<Rightarrow> OVN \<Rightarrow> OperationalIntent option \<Rightarrow> unit outcome" where
  "validateUpsertRequestAgainstPreviousOIR requestingManager providedOVN previousOIR =
     (case previousOIR of
        Some o1 \<Rightarrow>
          if oi_Manager o1 \<noteq> requestingManager
          then Err (NewErrorWithCode PermissionDenied (''OperationalIntent owned by '' @ oi_Manager o1 @
                 '', but '' @ requestingManager @ '' attempted to modify''))
          else if oi_OVN o1 \<noteq> providedOVN
          then Err (NewErrorWithCode VersionMismatch (''Current version is '' @ oi_OVN o1 @
                 '' but client specified version '' @ providedOVN))
          else Ok ()
      | None \<Rightarrow>
          if providedOVN \<noteq> ''''
          then Err (NewErrorWithCode NotFound (''OperationalIntent does not exist and therefore is not version '' @ providedOVN))
          else Ok ())"

text \<open>\<open>ensureSubscriptionCoversOIR\<close>, one function per bound it looks at. The result is the
  subscription, extended where it is implicit and falls short, and whether it was changed.\<close>

definition cover_start :: "cells_volume_4d \<Rightarrow> Subscription \<times> bool \<Rightarrow> (Subscription \<times> bool) outcome" where
  "cover_start vol = (\<lambda>(sub, updateSub).
     case cv_StartTime (sub_Volume sub) of
       None \<Rightarrow> Ok (sub, updateSub)
     | Some ss \<Rightarrow> obind (deref (cv_StartTime vol)) (\<lambda>vs.
         if ss > vs
         then if sub_ImplicitSubscription sub
              then Ok (sub\<lparr>sub_Volume := (sub_Volume sub)\<lparr>cv_StartTime := cv_StartTime vol\<rparr>\<rparr>, True)
              else Err (NewErrorWithCode BadRequest
                     ''Subscription does not begin until after the OperationalIntent starts'')
         else Ok (sub, updateSub)))"

definition cover_end :: "cells_volume_4d \<Rightarrow> Subscription \<times> bool \<Rightarrow> (Subscription \<times> bool) outcome" where
  "cover_end vol = (\<lambda>(sub, updateSub).
     case cv_EndTime (sub_Volume sub) of
       None \<Rightarrow> Ok (sub, updateSub)
     | Some se \<Rightarrow> obind (deref (cv_EndTime vol)) (\<lambda>ve.
         if se < ve
         then if sub_ImplicitSubscription sub
              then Ok (sub\<lparr>sub_Volume := (sub_Volume sub)\<lparr>cv_EndTime := cv_EndTime vol\<rparr>\<rparr>, True)
              else Err (NewErrorWithCode BadRequest ''Subscription ends before the OperationalIntent ends'')
         else Ok (sub, updateSub)))"

definition cover_cells ::
    "externals \<Rightarrow> cells_volume_4d \<Rightarrow> Subscription \<times> bool \<Rightarrow> (Subscription \<times> bool) outcome" where
  "cover_cells L vol = (\<lambda>(sub, updateSub).
     if \<not> s2_Contains L (cv_Cells (sub_Volume sub)) (cv_Cells vol)
     then if sub_ImplicitSubscription sub
          then Ok (sub\<lparr>sub_Volume := (sub_Volume sub)\<lparr>cv_Cells :=
                     s2_CellUnionFromUnion L [cv_Cells (sub_Volume sub), cv_Cells vol]\<rparr>\<rparr>, True)
          else Err (NewErrorWithCode BadRequest
                 ''Subscription does not cover entire spatial area of the OperationalIntent'')
     else Ok (sub, updateSub))"

definition ensureSubscriptionCoversOIR ::
    "externals \<Rightarrow> Subscription \<Rightarrow> validOIRParams \<Rightarrow> (Subscription \<times> bool) outcome" where
  "ensureSubscriptionCoversOIR L sub params =
     obind (cover_start (vp_Volume params) (sub, False)) (\<lambda>r.
     obind (cover_end (vp_Volume params) r) (cover_cells L (vp_Volume params)))"

text \<open>The result is the subscription to attach, whether it has to be stored, and whether the
  previous subscription is to be removed.\<close>

definition resolveSubscription ::
    "externals \<Rightarrow> Subscription option \<Rightarrow> Manager \<Rightarrow> validOIRParams \<Rightarrow>
     (scd_state, Subscription option \<times> bool \<times> bool) op" where
  "resolveSubscription L previousSub manager vp =
     (let previousSubIsBeingReplaced =
            (case previousSub of None \<Rightarrow> False | Some p \<Rightarrow> vp_SubscriptionID vp \<noteq> sub_ID p) in
      bindE (if previousSubIsBeingReplaced
             then SubscriptionIsImplicitAndOnlyAttachedToOIR (vp_ID vp) previousSub
             else ret False) (\<lambda>removePrevious.
      if vp_SubscriptionID vp = ''''
      then if vp_Implicit_ID vp \<noteq> ''''
           then ret (Some (newImplicitSubscription vp manager), True, removePrevious)
           else ret (None, False, removePrevious)
      else
        bindE (if previousSub = None \<or> previousSubIsBeingReplaced
               then bindE (GetSubscription L (vp_SubscriptionID vp)) (\<lambda>s. case s of
                      None \<Rightarrow> fail (NewErrorWithCode BadRequest (''Specified Subscription '' @ vp_SubscriptionID vp @ '' does not exist''))
                    | Some sub \<Rightarrow> ret sub)
               else liftO (deref previousSub)) (\<lambda>attachedSub.
        if sub_Manager attachedSub \<noteq> manager
        then fail (NewErrorWithCode PermissionDenied ''Specificed Subscription is owned by different client'')
        else
          bindE (liftO (ensureSubscriptionCoversOIR L attachedSub vp)) (\<lambda>(sub, upsert).
          ret (Some sub, upsert, removePrevious)))))"

definition validateKeyAndProvideConflictResponse ::
    "externals \<Rightarrow> Manager \<Rightarrow> validOIRParams \<Rightarrow> Subscription option \<Rightarrow> (scd_state, AirspaceConflictResponse option) op" where
  "validateKeyAndProvideConflictResponse L requestingManager params attachedSubscription =
     bindE (SearchOperationalIntents L (vp_Volume params)) (\<lambda>relevantOps.
     let missingOps = filter (\<lambda>o1. oi_OVN o1 \<notin> set (vp_Key params) \<and>
                        OperationalIntent_RequiresKey o1 \<and> oi_ID o1 \<noteq> vp_ID params) relevantOps in
     bindE (if (case attachedSubscription of None \<Rightarrow> False | Some s \<Rightarrow> sub_NotifyForConstraints s)
            then bindE (SearchConstraints L (vp_Volume params)) (\<lambda>constraints.
                   ret (filter (\<lambda>c. con_OVN c \<notin> set (vp_Key params)) constraints))
            else ret []) (\<lambda>missingConstraints.
     if length missingOps > 0 \<or> length missingConstraints > 0
     then ret (Some \<lparr>
            ac_Message = Some ''Current OVNs not provided for one or more OperationalIntents or Constraints'',
            ac_MissingOperationalIntents =
              (if length missingOps > 0 then Some (map (intent_for L requestingManager) missingOps) else None),
            ac_MissingConstraints =
              (if length missingConstraints > 0
               then Some (map (constraint_for L requestingManager) missingConstraints) else None)\<rparr>)
     else ret None))"

section \<open>Create and update\<close>

definition executePutOperationalIntentReference ::
    "externals \<Rightarrow> ctx \<Rightarrow> scd_request \<Rightarrow> (scd_state, scd_response) op" where
  "executePutOperationalIntentReference L ctx req =
     (case oir_of req of
        None \<Rightarrow> unexpected_request
      | Some (manager, vp) \<Rightarrow>
          bindE (GetOperationalIntent L (vp_ID vp)) (\<lambda>old.
          let subscriptionIds =
                (case old of None \<Rightarrow> [] | Some o1 \<Rightarrow> (case oi_SubscriptionID o1 of None \<Rightarrow> [] | Some sid \<Rightarrow> [sid])) @
                (if vp_SubscriptionID vp \<noteq> '''' then [vp_SubscriptionID vp] else []) in
          bindE (LockSubscriptionsOnCells (cv_Cells (vp_Volume vp)) subscriptionIds
                   (cv_StartTime (vp_Volume vp)) (cv_EndTime (vp_Volume vp))) (\<lambda>_.
          bindE (liftO (validateUpsertRequestAgainstPreviousOIR manager (vp_OVN vp) old)) (\<lambda>_.
          bindE (case old of
                   Some o1 \<Rightarrow>
                     bindE (case oi_SubscriptionID o1 of None \<Rightarrow> ret None | Some sid \<Rightarrow> GetSubscription L sid) (\<lambda>ps.
                     ret (oi_Version o1 + 1, oi_PastOVNs o1 @ [vp_OVN vp], ps, oi_UssAvailability o1))
                 | None \<Rightarrow>
                     bindE (or_nil (GetUssAvailability L manager)) (\<lambda>ussa.
                     ret (1, [], None, case ussa of None \<Rightarrow> UssAvailabilityStateUnknown
                                       | Some u \<Rightarrow> ua_Availability u))) (\<lambda>(version, pastOVNs, previousSub, ussAvailability).
          if ussAvailability = UssAvailabilityStateDown \<and>
             (vp_State vp = OperationalIntentStateAccepted \<or> vp_State vp = OperationalIntentStateActivated)
          then fail (NewErrorWithCode PreconditionFailed (''USS '' @ manager @ '' may not transition OperationalIntent '' @
                 vp_ID vp @ '' to '' @ vp_State vp @ '' while marked as Down in the DSS''))
          else
          bindE (resolveSubscription L previousSub manager vp) (\<lambda>(attachedSub, upsertAttachedSub, removePrevious).
          bindE (if State_RequiresKey (vp_State vp)
                 then validateKeyAndProvideConflictResponse L manager vp attachedSub
                 else ret None) (\<lambda>responseConflict.
          case responseConflict of
            Some conflict \<Rightarrow> ret (PutOIRResult_Conflict conflict)
          | None \<Rightarrow>
              bindE (if upsertAttachedSub
                     then bindE (liftO (deref attachedSub)) (\<lambda>sub.
                          bindE (UpsertSubscription L ctx sub) (\<lambda>sub'. ret (Some sub')))
                     else ret attachedSub) (\<lambda>attachedSub.
              bindE (UpsertOperationalIntent L ctx (toOIR vp manager attachedSub version pastOVNs)) (\<lambda>op.
              bindE (if removePrevious
                     then bindE (liftO (deref previousSub)) (\<lambda>p. DeleteSubscription (sub_ID p))
                     else ret ()) (\<lambda>_.
              let notify = (case old of None \<Rightarrow> vp_Volume vp
                            | Some o1 \<Rightarrow> UnionCellsVolumes4D L [vp_Volume vp, oi_Volume o1]) in
              bindE (IncrementNotificationIndicesForOperationalIntents L notify) (\<lambda>subsToNotify.
              ret (PutOIRResult_Response (OperationalIntent_ToRest L op) (makeSubscribersToNotify subsToNotify)))))))))))))"

section \<open>Delete and read\<close>

definition executeDeleteOperationalIntentReference ::
    "externals \<Rightarrow> ctx \<Rightarrow> scd_request \<Rightarrow> (scd_state, scd_response) op" where
  "executeDeleteOperationalIntentReference L ctx req =
     (case req of
        DeleteOIRPayload i manager ovn \<Rightarrow>
          bindE (GetOperationalIntent L i) (\<lambda>old1.
          case old1 of
            None \<Rightarrow> fail (NewErrorWithCode NotFound (''OperationalIntent '' @ i @ '' not found''))
          | Some old \<Rightarrow>
              if oi_Manager old \<noteq> manager
              then fail (NewErrorWithCode PermissionDenied (''OperationalIntent owned by '' @ oi_Manager old @
                     '', but '' @ manager @ '' attempted to delete''))
              else if oi_OVN old \<noteq> ovn
              then fail (NewErrorWithCode VersionMismatch (''Current version is '' @ oi_OVN old @
                     '' but client specified version '' @ ovn))
              else if oi_UssAvailability old = UssAvailabilityStateDown
              then fail (NewErrorWithCode PreconditionFailed (''USS '' @ manager @
                     '' may not delete OperationalIntent '' @ i @ '' while marked as Down in the DSS''))
              else
                let subscriptionIds = (case oi_SubscriptionID old of None \<Rightarrow> [] | Some sid \<Rightarrow> [sid]) in
                bindE (LockSubscriptionsOnCells (cv_Cells (oi_Volume old)) subscriptionIds
                         (cv_StartTime (oi_Volume old)) (cv_EndTime (oi_Volume old))) (\<lambda>_.
                bindE (case oi_SubscriptionID old of
                         None \<Rightarrow> ret None
                       | Some sid \<Rightarrow> bindE (GetSubscription L sid) (\<lambda>s. case s of
                           None \<Rightarrow> fail (NewError ''OperationalIntent's Subscription missing from repo'')
                         | Some sub \<Rightarrow> ret (Some sub))) (\<lambda>previousSubscription.
                bindE (SubscriptionIsImplicitAndOnlyAttachedToOIR i previousSubscription) (\<lambda>removeImplicitSubscription.
                bindE (IncrementNotificationIndicesForOperationalIntents L (oi_Volume old)) (\<lambda>subsToNotify.
                bindE (DeleteOperationalIntent i) (\<lambda>_.
                bindE (if removeImplicitSubscription
                       then bindE (liftO (deref previousSubscription)) (\<lambda>p. DeleteSubscription (sub_ID p))
                       else ret ()) (\<lambda>_.
                ret (ChangeOperationalIntentReferenceResponse (OperationalIntent_ToRest L old)
                       (makeSubscribersToNotify subsToNotify)))))))))
      | _ \<Rightarrow> unexpected_request)"

definition executeGetOperationalIntentReference ::
    "externals \<Rightarrow> ctx \<Rightarrow> scd_request \<Rightarrow> (scd_state, scd_response) op" where
  "executeGetOperationalIntentReference L ctx req =
     (case req of
        GetOperationalIntentReferenceRequest entityid clientID \<Rightarrow>
          bindE (liftO (omap_err (\<lambda>_. NewErrorWithCode BadRequest (''Invalid ID format: `'' @ entityid @ ''`''))
                   (IDFromString L entityid))) (\<lambda>i.
          bindE (GetOperationalIntent L i) (\<lambda>op.
          case op of
            None \<Rightarrow> fail (NewErrorWithCode NotFound (''OperationalIntent '' @ i @ '' not found''))
          | Some o1 \<Rightarrow>
              bindE (liftO (deref clientID)) (\<lambda>client.
              ret (GetOperationalIntentReferenceResponse (OperationalIntent_ToRest L
                (if oi_Manager o1 \<noteq> client then o1\<lparr>oi_OVN := NoOvnPhrase\<rparr> else o1))))))
      | _ \<Rightarrow> unexpected_request)"

definition executeQueryOperationalIntentReferences ::
    "externals \<Rightarrow> ctx \<Rightarrow> scd_request \<Rightarrow> (scd_state, scd_response) op" where
  "executeQueryOperationalIntentReferences L ctx req =
     (case req of
        QueryOperationalIntentReferencesRequest aoi clientID \<Rightarrow>
          (case aoi of
             None \<Rightarrow> fail (NewErrorWithCode BadRequest ''Missing area_of_interest'')
           | Some a \<Rightarrow>
               bindE (liftO (omap_err (PropagateWithCode (Some BadRequest))
                        (volume_or_error (CellsVolume4DFromSCDRest L a)))) (\<lambda>cellsVolume4D.
               bindE (SearchOperationalIntents L cellsVolume4D) (\<lambda>ops.
               bindE (liftO (for_client clientID ops (intent_for L))) (\<lambda>refs.
               ret (QueryOperationalIntentReferenceResponse refs)))))
      | _ \<Rightarrow> unexpected_request)"

section \<open>The steps of a successful upsert\<close>

lemma readonly_oir_steps [pres_intros]:
  "readonly (SubscriptionIsImplicitAndOnlyAttachedToOIR i s)"
  "readonly (resolveSubscription L p m vp)"
  "readonly (validateKeyAndProvideConflictResponse L m vp s)"
  unfolding SubscriptionIsImplicitAndOnlyAttachedToOIR_def resolveSubscription_def
    validateKeyAndProvideConflictResponse_def
  by (auto intro!: pres_intros simp: Let_def split: option.splits)

text \<open>What the handler reads before it decides.\<close>

definition previous_subscription :: "externals \<Rightarrow> scd_state \<Rightarrow> OperationalIntent option \<Rightarrow> Subscription option" where
  "previous_subscription L st old =
     (case old of None \<Rightarrow> None
      | Some o1 \<Rightarrow> (case oi_SubscriptionID o1 of None \<Rightarrow> None | Some sid \<Rightarrow> find_subscription L st sid))"

definition next_version :: "OperationalIntent option \<Rightarrow> VersionNumber" where
  "next_version old = (case old of None \<Rightarrow> 1 | Some o1 \<Rightarrow> oi_Version o1 + 1)"

definition next_past_OVNs :: "OVN \<Rightarrow> OperationalIntent option \<Rightarrow> OVN list" where
  "next_past_OVNs ovn old = (case old of None \<Rightarrow> [] | Some o1 \<Rightarrow> oi_PastOVNs o1 @ [ovn])"

definition manager_availability :: "scd_state \<Rightarrow> Manager \<Rightarrow> OperationalIntent option \<Rightarrow> UssAvailabilityState" where
  "manager_availability st manager old =
     (case old of None \<Rightarrow> uss_state st manager | Some o1 \<Rightarrow> oi_UssAvailability o1)"

lemma find_availability_state:
  "(case find_availability L st m of None \<Rightarrow> UssAvailabilityStateUnknown | Some u \<Rightarrow> ua_Availability u) = uss_state st m"
  by (simp add: find_availability_def uss_state_def availabilityRecord_toModel_def split: option.splits)

lemma put_reads:
  "bindE (case old of
            Some o1 \<Rightarrow>
              bindE (case oi_SubscriptionID o1 of None \<Rightarrow> ret None | Some sid \<Rightarrow> GetSubscription L sid) (\<lambda>ps.
              ret (oi_Version o1 + 1, oi_PastOVNs o1 @ [ovn], ps, oi_UssAvailability o1))
          | None \<Rightarrow>
              bindE (or_nil (GetUssAvailability L manager)) (\<lambda>ussa.
              ret (1, [], None, case ussa of None \<Rightarrow> UssAvailabilityStateUnknown
                                | Some u \<Rightarrow> ua_Availability u))) f st
   = f (next_version old, next_past_OVNs ovn old, previous_subscription L st old, manager_availability st manager old) st"
  by (simp add: bindE_def next_version_def next_past_OVNs_def previous_subscription_def
      manager_availability_def find_availability_state split: option.splits)

text \<open>The handler from the point where no conflict was found.\<close>

definition put_commit ::
    "externals \<Rightarrow> ctx \<Rightarrow> Manager \<Rightarrow> validOIRParams \<Rightarrow> OperationalIntent option \<Rightarrow> Subscription option \<Rightarrow>
     Subscription option \<Rightarrow> bool \<Rightarrow> bool \<Rightarrow> (scd_state, scd_response) op" where
  "put_commit L ctx manager vp old prev attachedSub upsertAttachedSub removePrevious =
        bindE (if upsertAttachedSub
               then bindE (liftO (deref attachedSub)) (\<lambda>sub.
                    bindE (UpsertSubscription L ctx sub) (\<lambda>sub'. ret (Some sub')))
               else ret attachedSub) (\<lambda>attachedSub.
        bindE (UpsertOperationalIntent L ctx (toOIR vp manager attachedSub (next_version old)
                 (next_past_OVNs (vp_OVN vp) old))) (\<lambda>op.
        bindE (if removePrevious
               then bindE (liftO (deref prev)) (\<lambda>p. DeleteSubscription (sub_ID p)) else ret ()) (\<lambda>_.
        bindE (increment_where L sr_NotifyForOperationalIntents
                 (case old of None \<Rightarrow> vp_Volume vp
                  | Some o1 \<Rightarrow> UnionCellsVolumes4D L [vp_Volume vp, oi_Volume o1])) (\<lambda>subs.
        ret (PutOIRResult_Response (OperationalIntent_ToRest L op) (makeSubscribersToNotify subs))))))"

lemma executePut_conv:
  assumes "oir_of req = Some (manager, vp)" and old: "old = find_intent L st (vp_ID vp)"
    and prev: "prev = previous_subscription L st old"
  shows "executePutOperationalIntentReference L ctx req st =
    bindE (liftO (validateUpsertRequestAgainstPreviousOIR manager (vp_OVN vp) old)) (\<lambda>_.
    if manager_availability st manager old = UssAvailabilityStateDown \<and>
       (vp_State vp = OperationalIntentStateAccepted \<or> vp_State vp = OperationalIntentStateActivated)
    then fail (NewErrorWithCode PreconditionFailed (''USS '' @ manager @ '' may not transition OperationalIntent '' @
                 vp_ID vp @ '' to '' @ vp_State vp @ '' while marked as Down in the DSS''))
    else
    bindE (resolveSubscription L prev manager vp) (\<lambda>(attachedSub, upsertAttachedSub, removePrevious).
    bindE (if State_RequiresKey (vp_State vp)
           then validateKeyAndProvideConflictResponse L manager vp attachedSub else ret None) (\<lambda>responseConflict.
    case responseConflict of
      Some conflict \<Rightarrow> ret (PutOIRResult_Conflict conflict)
    | None \<Rightarrow>
        put_commit L ctx manager vp old prev attachedSub upsertAttachedSub removePrevious))) st"
  using assms(1) unfolding prev old
  by (cases "validateUpsertRequestAgainstPreviousOIR manager (vp_OVN vp) (find_intent L st (vp_ID vp))")
    (auto simp: executePutOperationalIntentReference_def LockSubscriptionsOnCells_def Let_def put_reads
      put_commit_def)

text \<open>The steps of a stored upsert: \<open>st1\<close> after the attached subscription is stored, \<open>st2\<close> after the
  intent is, \<open>st3\<close> after the previous implicit subscription is removed.\<close>

definition put_stored ::
    "externals \<Rightarrow> ctx \<Rightarrow> Manager \<Rightarrow> validOIRParams \<Rightarrow> scd_state \<Rightarrow> Subscription option \<Rightarrow> bool \<Rightarrow> bool \<Rightarrow>
     Subscription option \<Rightarrow> OperationalIntent \<Rightarrow> scd_state \<Rightarrow> scd_state \<Rightarrow> scd_state \<Rightarrow> bool" where
  "put_stored L ctx manager vp st att up rm att' op st1 st2 st3 \<longleftrightarrow>
     (let old = find_intent L st (vp_ID vp); prev = previous_subscription L st old in
      resolveSubscription L prev manager vp st = (Ok (att, up, rm), st) \<and>
      (State_RequiresKey (vp_State vp) \<longrightarrow>
         validateKeyAndProvideConflictResponse L manager vp att st = (Ok None, st)) \<and>
      (if up then \<exists>sub sub'. att = Some sub \<and> UpsertSubscription L ctx sub st = (Ok sub', st1) \<and> att' = Some sub'
       else st1 = st \<and> att' = att) \<and>
      UpsertOperationalIntent L ctx (toOIR vp manager att' (next_version old) (next_past_OVNs (vp_OVN vp) old)) st1
        = (Ok op, st2) \<and>
      (if rm then \<exists>p. prev = Some p \<and> DeleteSubscription (sub_ID p) st2 = (Ok (), st3) else st3 = st2))"

lemma put_commit_Ok:
  assumes "put_commit L ctx manager vp old prev att up rm st = (Ok resp, st')"
  shows "\<exists>att' op st1 st2 st3 subs.
    (if up then \<exists>sub sub'. att = Some sub \<and> UpsertSubscription L ctx sub st = (Ok sub', st1) \<and> att' = Some sub'
     else st1 = st \<and> att' = att) \<and>
    UpsertOperationalIntent L ctx (toOIR vp manager att' (next_version old) (next_past_OVNs (vp_OVN vp) old)) st1
      = (Ok op, st2) \<and>
    (if rm then \<exists>p. prev = Some p \<and> DeleteSubscription (sub_ID p) st2 = (Ok (), st3) else st3 = st2) \<and>
    increment_where L sr_NotifyForOperationalIntents
      (case old of None \<Rightarrow> vp_Volume vp | Some o1 \<Rightarrow> UnionCellsVolumes4D L [vp_Volume vp, oi_Volume o1]) st3
      = (Ok subs, st') \<and>
    resp = PutOIRResult_Response (OperationalIntent_ToRest L op) (makeSubscribersToNotify subs)"
  using assms unfolding put_commit_def
  by (cases up; cases rm; cases att; cases prev) (auto simp: monad_simps; blast)+

lemma executePut_Ok:
  assumes "oir_of req = Some (manager, vp)" and "executePutOperationalIntentReference L ctx req st = (Ok resp, st')"
  defines "old \<equiv> find_intent L st (vp_ID vp)"
  defines "prev \<equiv> previous_subscription L st old"
  shows "validateUpsertRequestAgainstPreviousOIR manager (vp_OVN vp) old = Ok () \<and>
    \<not> (manager_availability st manager old = UssAvailabilityStateDown \<and>
       (vp_State vp = OperationalIntentStateAccepted \<or> vp_State vp = OperationalIntentStateActivated)) \<and>
    ((\<exists>c att up rm. resp = PutOIRResult_Conflict c \<and> st' = st \<and> State_RequiresKey (vp_State vp) \<and>
        resolveSubscription L prev manager vp st = (Ok (att, up, rm), st) \<and>
        validateKeyAndProvideConflictResponse L manager vp att st = (Ok (Some c), st)) \<or>
     (\<exists>att up rm att' op st1 st2 st3 subs. put_stored L ctx manager vp st att up rm att' op st1 st2 st3 \<and>
        increment_where L sr_NotifyForOperationalIntents
          (case old of None \<Rightarrow> vp_Volume vp | Some o1 \<Rightarrow> UnionCellsVolumes4D L [vp_Volume vp, oi_Volume o1]) st3
          = (Ok subs, st') \<and>
        resp = PutOIRResult_Response (OperationalIntent_ToRest L op) (makeSubscribersToNotify subs)))"
proof -
  note e = executePut_conv [OF assms(1) refl refl, where L = L and st = st and ctx = ctx]
  obtain att up rm where res: "resolveSubscription L prev manager vp st = (Ok (att, up, rm), st)"
    and v: "validateUpsertRequestAgainstPreviousOIR manager (vp_OVN vp) old = Ok ()"
    and a: "\<not> (manager_availability st manager old = UssAvailabilityStateDown \<and>
       (vp_State vp = OperationalIntentStateAccepted \<or> vp_State vp = OperationalIntentStateActivated))"
    using assms(2) readonly_oir_steps(2) [of L prev manager vp] unfolding e old_def prev_def
    by (auto simp: monad_simps split: if_splits dest: readonlyD)
  obtain k where k: "(if State_RequiresKey (vp_State vp)
           then validateKeyAndProvideConflictResponse L manager vp att else ret None) st = (Ok k, st)"
    using assms(2) res v a readonly_oir_steps(3) [of L manager vp att] unfolding e old_def prev_def
    by (auto simp: monad_simps split: if_splits dest: readonlyD)
  show ?thesis
  proof (cases k)
    case None
    then have "put_commit L ctx manager vp old prev att up rm st = (Ok resp, st')"
      using assms(2) res v a k unfolding e old_def prev_def by (auto split: if_splits)
    from put_commit_Ok [OF this] show ?thesis
      using None res v a k unfolding old_def prev_def put_stored_def Let_def by (auto split: if_splits)
  next
    case (Some c)
    then show ?thesis using assms(2) res v a k unfolding e old_def prev_def
      by (auto split: if_splits)
  qed
qed

section \<open>What the steps establish\<close>

lemma distinct_other:
  assumes "xs \<noteq> [x]" "x \<in> set xs" "distinct xs"
  obtains y where "y \<in> set xs" "y \<noteq> x"
proof (cases xs)
  case (Cons a ys)
  with assms show ?thesis by (cases ys) (auto intro: that)
qed (use assms in simp)

lemma distinct_dependents:
  assumes "scd_wf st"
  shows "distinct (dependents st sid)"
proof -
  have "map or_ID (map snd (st_OperationalIntents st)) = map fst (st_OperationalIntents st)"
    using assms by (auto simp: scd_wf_def keyed_def wf_gomap_map_of [symmetric])
  then have "distinct (map or_ID (map snd (st_OperationalIntents st)))"
    using assms by (simp only: scd_wf_def wf_gomap_def)
  then show ?thesis unfolding dependents_def by (rule distinct_map_filter)
qed

lemma ensureSubscriptionCoversOIR_Ok:
  assumes "ensureSubscriptionCoversOIR L s0 vp = Ok (s, up)"
  shows "sub_ID s = sub_ID s0 \<and> sub_Manager s = sub_Manager s0 \<and>
    sub_ImplicitSubscription s = sub_ImplicitSubscription s0 \<and>
    sub_NotifyForConstraints s = sub_NotifyForConstraints s0 \<and>
    (\<not> up \<longrightarrow> s = s0) \<and> (up \<longrightarrow> sub_ImplicitSubscription s0) \<and>
    (\<forall>a v. cv_StartTime (sub_Volume s) = Some a \<longrightarrow> cv_StartTime (vp_Volume vp) = Some v \<longrightarrow> a \<le> v) \<and>
    (\<forall>a v. cv_EndTime (sub_Volume s) = Some a \<longrightarrow> cv_EndTime (vp_Volume vp) = Some v \<longrightarrow> v \<le> a) \<and>
    (s2_Contains L (cv_Cells (sub_Volume s)) (cv_Cells (vp_Volume vp)) \<or>
     cv_Cells (sub_Volume s) = s2_CellUnionFromUnion L [cv_Cells (sub_Volume s0), cv_Cells (vp_Volume vp)])"
proof -
  obtain r1 r2 where r: "cover_start (vp_Volume vp) (s0, False) = Ok r1" "cover_end (vp_Volume vp) r1 = Ok r2"
      "cover_cells L (vp_Volume vp) r2 = Ok (s, up)"
    using assms by (auto simp: ensureSubscriptionCoversOIR_def monad_simps)
  obtain s1 u1 s2 u2 where p: "r1 = (s1, u1)" "r2 = (s2, u2)" by fastforce
  from r(1) p have 1: "s1 = s0\<lparr>sub_Volume := (sub_Volume s0)\<lparr>cv_StartTime := cv_StartTime (sub_Volume s1)\<rparr>\<rparr>"
    "\<not> u1 \<longrightarrow> s1 = s0" "u1 \<longrightarrow> sub_ImplicitSubscription s0"
    "\<forall>a v. cv_StartTime (sub_Volume s1) = Some a \<longrightarrow> cv_StartTime (vp_Volume vp) = Some v \<longrightarrow> a \<le> v"
    by (auto simp: cover_start_def monad_simps deref_def split: option.splits if_splits)
  from r(2) p have 2: "s2 = s1\<lparr>sub_Volume := (sub_Volume s1)\<lparr>cv_EndTime := cv_EndTime (sub_Volume s2)\<rparr>\<rparr>"
    "\<not> u2 \<longrightarrow> \<not> u1 \<and> s2 = s1" "u2 \<longrightarrow> u1 \<or> sub_ImplicitSubscription s1"
    "\<forall>a v. cv_EndTime (sub_Volume s2) = Some a \<longrightarrow> cv_EndTime (vp_Volume vp) = Some v \<longrightarrow> v \<le> a"
    by (auto simp: cover_end_def monad_simps deref_def split: option.splits if_splits)
  from r(3) p have 3: "s = s2\<lparr>sub_Volume := (sub_Volume s2)\<lparr>cv_Cells := cv_Cells (sub_Volume s)\<rparr>\<rparr>"
    "\<not> up \<longrightarrow> \<not> u2 \<and> s = s2" "up \<longrightarrow> u2 \<or> sub_ImplicitSubscription s2"
    "s2_Contains L (cv_Cells (sub_Volume s)) (cv_Cells (vp_Volume vp)) \<or>
     cv_Cells (sub_Volume s) = s2_CellUnionFromUnion L [cv_Cells (sub_Volume s2), cv_Cells (vp_Volume vp)]"
    by (auto simp: cover_cells_def split: if_splits)
  obtain a where s1: "s1 = s0\<lparr>sub_Volume := (sub_Volume s0)\<lparr>cv_StartTime := a\<rparr>\<rparr>" using 1(1) by blast
  obtain b where s2: "s2 = s1\<lparr>sub_Volume := (sub_Volume s1)\<lparr>cv_EndTime := b\<rparr>\<rparr>" using 2(1) by blast
  obtain c where s: "s = s2\<lparr>sub_Volume := (sub_Volume s2)\<lparr>cv_Cells := c\<rparr>\<rparr>" using 3(1) by blast
  have fields: "sub_ID s = sub_ID s0" "sub_Manager s = sub_Manager s0"
    "sub_ImplicitSubscription s2 = sub_ImplicitSubscription s0" "sub_ImplicitSubscription s1 = sub_ImplicitSubscription s0"
    "sub_ImplicitSubscription s = sub_ImplicitSubscription s0"
    "sub_NotifyForConstraints s = sub_NotifyForConstraints s0" "cv_Cells (sub_Volume s2) = cv_Cells (sub_Volume s0)"
    "cv_StartTime (sub_Volume s) = cv_StartTime (sub_Volume s1)" "cv_EndTime (sub_Volume s) = cv_EndTime (sub_Volume s2)"
    by (simp_all add: s s2 s1)
  have "\<not> up \<longrightarrow> s = s0" using 1(2) 2(2) 3(2) by blast
  moreover have "up \<longrightarrow> sub_ImplicitSubscription s0" using 1(3) 2(3) 3(3) fields(3,4) by blast
  ultimately show ?thesis using 1(4) 2(4) 3(4) fields by simp
qed

definition fresh_implicit :: "scd_state \<Rightarrow> validOIRParams \<Rightarrow> bool" where
  "fresh_implicit st vp \<longleftrightarrow> vp_Implicit_ID vp = '''' \<or> map_of (st_Subscriptions st) (vp_Implicit_ID vp) = None"

lemma OnlyAttached_Ok:
  assumes "SubscriptionIsImplicitAndOnlyAttachedToOIR i s st = (Ok b, t)"
  shows "t = st \<and> (b \<longleftrightarrow> (\<exists>p. s = Some p \<and> sub_ImplicitSubscription p \<and> dependents st (sub_ID p) = [i]))"
  using assms unfolding SubscriptionIsImplicitAndOnlyAttachedToOIR_def
  by (auto simp: bindE_def length_Suc_conv split: option.splits if_splits)

lemma resolveSubscription_Ok:
  assumes "resolveSubscription L prev m vp st = (Ok (att, up, rm), t)"
    and "\<And>p. prev = Some p \<Longrightarrow> find_subscription L st (sub_ID p) = Some p"
  shows "(if vp_SubscriptionID vp = ''''
          then att = (if vp_Implicit_ID vp \<noteq> '''' then Some (newImplicitSubscription vp m) else None) \<and>
               up = (vp_Implicit_ID vp \<noteq> '''')
          else \<exists>s0 s. find_subscription L st (vp_SubscriptionID vp) = Some s0 \<and> sub_Manager s0 = m \<and>
                      ensureSubscriptionCoversOIR L s0 vp = Ok (s, up) \<and> att = Some s) \<and>
         (rm \<longleftrightarrow> (\<exists>p. prev = Some p \<and> vp_SubscriptionID vp \<noteq> sub_ID p \<and> sub_ImplicitSubscription p \<and>
                    dependents st (sub_ID p) = [vp_ID vp]))"
proof -
  define repl where "repl = (case prev of None \<Rightarrow> False | Some p \<Rightarrow> vp_SubscriptionID vp \<noteq> sub_ID p)"
  from assms(1) obtain b where b: "(if repl then SubscriptionIsImplicitAndOnlyAttachedToOIR (vp_ID vp) prev
      else ret False) st = (Ok b, st)" and rm: "rm = b"
    using readonly_oir_steps(1) [of "vp_ID vp" prev]
    by (auto simp: resolveSubscription_def Let_def repl_def monad_simps split: if_splits dest: readonlyD)
  then have "rm \<longleftrightarrow> (\<exists>p. prev = Some p \<and> vp_SubscriptionID vp \<noteq> sub_ID p \<and> sub_ImplicitSubscription p \<and>
      dependents st (sub_ID p) = [vp_ID vp])"
    by (cases prev) (auto simp: repl_def dest: OnlyAttached_Ok split: if_splits)
  moreover have "if vp_SubscriptionID vp = ''''
          then att = (if vp_Implicit_ID vp \<noteq> '''' then Some (newImplicitSubscription vp m) else None) \<and>
               up = (vp_Implicit_ID vp \<noteq> '''')
          else \<exists>s0 s. find_subscription L st (vp_SubscriptionID vp) = Some s0 \<and> sub_Manager s0 = m \<and>
                      ensureSubscriptionCoversOIR L s0 vp = Ok (s, up) \<and> att = Some s"
    using assms b unfolding resolveSubscription_def Let_def repl_def [symmetric]
    by (cases prev) (auto simp: monad_simps repl_def split: if_splits option.splits)
  ultimately show ?thesis by blast
qed

lemma find_subscription_ID:
  "scd_wf st \<Longrightarrow> find_subscription L st sid = Some s \<Longrightarrow> sub_ID s = sid"
  by (auto simp: scd_wf_def keyed_def find_subscription_def subscriptionRecord_toModel_def)

lemma find_intent_ID: "scd_wf st \<Longrightarrow> find_intent L st i = Some o1 \<Longrightarrow> oi_ID o1 = i"
  by (auto simp: scd_wf_def keyed_def find_intent_def)

lemma previous_subscription_Some:
  assumes "scd_wf st" "previous_subscription L st old = Some p"
  shows "find_subscription L st (sub_ID p) = Some p"
    and "\<exists>o1. old = Some o1 \<and> oi_SubscriptionID o1 = Some (sub_ID p)"
  using assms find_subscription_ID by (auto simp: previous_subscription_def split: option.splits)

lemma UpsertOperationalIntent_Ok:
  assumes "UpsertOperationalIntent L ctx o1 st = (Ok op, t)"
  shows "\<exists>now r. ctx = Some now \<and> t = st\<lparr>st_OperationalIntents := AList.update (oi_ID o1) r (st_OperationalIntents st)\<rparr> \<and>
    r = \<lparr>or_ID = oi_ID o1, or_Manager = oi_Manager o1, or_Version = oi_Version o1, or_State = oi_State o1,
         or_USSBaseURL = oi_USSBaseURL o1, or_SubscriptionID = oi_SubscriptionID o1,
         or_USSRequestedOVN = oi_OVN o1, or_PastOVNs = oi_PastOVNs o1, or_UpdatedAt = now, or_Volume = oi_Volume o1\<rparr> \<and>
    op = intent_model L st r"
  using assms by (auto simp: UpsertOperationalIntent_def monad_simps Let_def split: if_splits)

text \<open>The subscription maps before and after, and the intent that was stored.\<close>

lemma put_stored_effect:
  assumes "scd_wf st" and "put_stored L ctx manager vp st att up rm att' op st1 st2 st3"
  shows "\<exists>now r. ctx = Some now \<and>
    st_OperationalIntents st3 = AList.update (vp_ID vp) r (st_OperationalIntents st) \<and>
    r = \<lparr>or_ID = vp_ID vp, or_Manager = manager, or_Version = next_version (find_intent L st (vp_ID vp)),
         or_State = vp_State vp, or_USSBaseURL = vp_USSBaseURL vp, or_SubscriptionID = map_option sub_ID att,
         or_USSRequestedOVN = vp_NewOVN vp,
         or_PastOVNs = next_past_OVNs (vp_OVN vp) (find_intent L st (vp_ID vp)),
         or_UpdatedAt = now, or_Volume = vp_Volume vp\<rparr> \<and>
    op = intent_model L st r \<and> st_Availabilities st3 = st_Availabilities st \<and> st_Constraints st3 = st_Constraints st \<and>
    (\<exists>s. st_Subscriptions st1 =
          (if up then AList.update (sub_ID (the att)) s (st_Subscriptions st) else st_Subscriptions st) \<and>
         (up \<longrightarrow> att \<noteq> None \<and> sr_ImplicitSubscription s = sub_ImplicitSubscription (the att))) \<and>
    st_Subscriptions st3 =
      (if rm then AList.delete (sub_ID (the (previous_subscription L st (find_intent L st (vp_ID vp))))) (st_Subscriptions st1)
       else st_Subscriptions st1) \<and> scd_wf st3"
proof -
  define old where "old = find_intent L st (vp_ID vp)"
  from assms(2) have d: "if up then \<exists>sub sub'. att = Some sub \<and> UpsertSubscription L ctx sub st = (Ok sub', st1) \<and> att' = Some sub'
       else st1 = st \<and> att' = att"
    "UpsertOperationalIntent L ctx (toOIR vp manager att' (next_version old) (next_past_OVNs (vp_OVN vp) old)) st1
        = (Ok op, st2)"
    "if rm then \<exists>p. previous_subscription L st old = Some p \<and> DeleteSubscription (sub_ID p) st2 = (Ok (), st3) else st3 = st2"
    by (auto simp: put_stored_def Let_def old_def)
  have s1: "st1 = st\<lparr>st_Subscriptions := st_Subscriptions st1\<rparr> \<and> map_option sub_ID att' = map_option sub_ID att \<and> scd_wf st1 \<and>
    (\<exists>s. st_Subscriptions st1 =
          (if up then AList.update (sub_ID (the att)) s (st_Subscriptions st) else st_Subscriptions st) \<and>
         (up \<longrightarrow> att \<noteq> None \<and> sr_ImplicitSubscription s = sub_ImplicitSubscription (the att)))"
  proof (cases up)
    case True
    with d(1) obtain sub sub' where u: "att = Some sub" "UpsertSubscription L ctx sub st = (Ok sub', st1)" "att' = Some sub'"
      by auto
    from UpsertSubscription_Ok [OF u(2)] u True preservesD [OF preserves_upserts(2) assms(1) u(2)] show ?thesis by auto
  qed (use d(1) assms(1) in simp)
  from UpsertOperationalIntent_Ok [OF d(2)] obtain now r where r: "ctx = Some now"
      "st2 = st1\<lparr>st_OperationalIntents := AList.update (vp_ID vp) r (st_OperationalIntents st1)\<rparr>"
      "op = intent_model L st1 r"
      "r = \<lparr>or_ID = vp_ID vp, or_Manager = manager, or_Version = next_version old,
         or_State = vp_State vp, or_USSBaseURL = vp_USSBaseURL vp, or_SubscriptionID = map_option sub_ID att',
         or_USSRequestedOVN = vp_NewOVN vp, or_PastOVNs = next_past_OVNs (vp_OVN vp) old,
         or_UpdatedAt = now, or_Volume = vp_Volume vp\<rparr>"
    by (auto simp: toOIR_def)
  have wf2: "scd_wf st2" using s1 preservesD [OF preserves_upserts(4) _ d(2)] by blast
  have "st3 = st2\<lparr>st_Subscriptions := st_Subscriptions st3\<rparr> \<and> st_Subscriptions st3 =
      (if rm then AList.delete (sub_ID (the (previous_subscription L st old))) (st_Subscriptions st1) else st_Subscriptions st1)"
    using d(3) r(2) by (auto simp: DeleteSubscription_def split: if_splits)
  moreover have "scd_wf st3"
    using d(3) wf2 preservesD [OF preserves_deletes(2), of st2 _ _ st3] by (auto split: if_splits)
  ultimately have s3: "st3 = st2\<lparr>st_Subscriptions := st_Subscriptions st3\<rparr>" "st_Subscriptions st3 =
      (if rm then AList.delete (sub_ID (the (previous_subscription L st old))) (st_Subscriptions st1) else st_Subscriptions st1)"
      "scd_wf st3" by blast+
  obtain m1 m3 where m: "st1 = st\<lparr>st_Subscriptions := m1\<rparr>" "st3 = st2\<lparr>st_Subscriptions := m3\<rparr>"
    using s1 s3 by blast
  have fr: "st_OperationalIntents st1 = st_OperationalIntents st" "intent_model L st1 = intent_model L st"
    "st_Availabilities st3 = st_Availabilities st" "st_Constraints st3 = st_Constraints st"
    "st_OperationalIntents st3 = st_OperationalIntents st2"
    by (simp_all add: m r(2))
  show ?thesis
    unfolding old_def [symmetric] using r(1,3,4) fr s1 s3 r(2)
    by (intro exI [of _ now] exI [of _ r]) simp
qed

lemma attached_facts:
  assumes wf: "scd_wf st"
    and rs: "if vp_SubscriptionID vp = ''''
          then att = (if vp_Implicit_ID vp \<noteq> '''' then Some (newImplicitSubscription vp m) else None) \<and>
               up = (vp_Implicit_ID vp \<noteq> '''')
          else \<exists>s0 s. find_subscription L st (vp_SubscriptionID vp) = Some s0 \<and> sub_Manager s0 = m \<and>
                      ensureSubscriptionCoversOIR L s0 vp = Ok (s, up) \<and> att = Some s"
    and fresh: "fresh_implicit st vp" and att: "att = Some a"
  shows "sub_ID a = (if vp_SubscriptionID vp = '''' then vp_Implicit_ID vp else vp_SubscriptionID vp)"
    and "sub_ID a \<noteq> ''''"
    and "vp_SubscriptionID vp = '''' \<longrightarrow> up \<and> map_of (st_Subscriptions st) (sub_ID a) = None"
    and "vp_SubscriptionID vp \<noteq> '''' \<longrightarrow> map_of (st_Subscriptions st) (sub_ID a) \<noteq> None"
proof -
  have "sub_ID a = (if vp_SubscriptionID vp = '''' then vp_Implicit_ID vp else vp_SubscriptionID vp) \<and> sub_ID a \<noteq> '''' \<and>
    (vp_SubscriptionID vp = '''' \<longrightarrow> up \<and> map_of (st_Subscriptions st) (sub_ID a) = None) \<and>
    (vp_SubscriptionID vp \<noteq> '''' \<longrightarrow> map_of (st_Subscriptions st) (sub_ID a) \<noteq> None)"
  proof (cases "vp_SubscriptionID vp = ''''")
    case True
    with rs att have i: "vp_Implicit_ID vp \<noteq> ''''" "a = newImplicitSubscription vp m" "up"
      by (simp_all split: if_splits)
    then have "sub_ID a = vp_Implicit_ID vp" by (simp add: newImplicitSubscription_def)
    with True i fresh show ?thesis by (simp add: fresh_implicit_def)
  next
    case False
    with rs att obtain s0 where s0: "find_subscription L st (vp_SubscriptionID vp) = Some s0"
        "ensureSubscriptionCoversOIR L s0 vp = Ok (a, up)" by auto
    then have "sub_ID a = vp_SubscriptionID vp"
      using ensureSubscriptionCoversOIR_Ok [OF s0(2)] find_subscription_ID [OF wf s0(1)] by simp
    with False s0(1) show ?thesis by (auto simp: find_subscription_def)
  qed
  then show "sub_ID a = (if vp_SubscriptionID vp = '''' then vp_Implicit_ID vp else vp_SubscriptionID vp)"
    and "sub_ID a \<noteq> ''''"
    and "vp_SubscriptionID vp = '''' \<longrightarrow> up \<and> map_of (st_Subscriptions st) (sub_ID a) = None"
    and "vp_SubscriptionID vp \<noteq> '''' \<longrightarrow> map_of (st_Subscriptions st) (sub_ID a) \<noteq> None"
    by blast+
qed

text \<open>An upsert that is stored keeps the invariant, when the identifier drawn for an implicit
  subscription is not in use.\<close>

lemma put_stored_inv:
  assumes inv: "scd_inv st" and p: "put_stored L ctx manager vp st att up rm att' op st1 st2 st3"
    and fresh: "fresh_implicit st vp"
  shows "scd_inv st3"
proof -
  have wf: "scd_wf st" using inv by (simp add: scd_inv_def)
  define old where "old = find_intent L st (vp_ID vp)"
  define prev where "prev = previous_subscription L st old"
  have res: "resolveSubscription L prev manager vp st = (Ok (att, up, rm), st)"
    using p by (simp add: put_stored_def Let_def old_def prev_def)
  note rs = resolveSubscription_Ok [OF res, OF previous_subscription_Some(1) [OF wf, of L old, folded prev_def]]
  from put_stored_effect [OF wf p, folded old_def, folded prev_def] obtain r s where f:
      "st_OperationalIntents st3 = AList.update (vp_ID vp) r (st_OperationalIntents st)"
      "or_SubscriptionID r = map_option sub_ID att"
      "st_Subscriptions st1 = (if up then AList.update (sub_ID (the att)) s (st_Subscriptions st) else st_Subscriptions st)"
      "up \<longrightarrow> att \<noteq> None"
      "st_Subscriptions st3 = (if rm then AList.delete (sub_ID (the prev)) (st_Subscriptions st1) else st_Subscriptions st1)"
      "scd_wf st3"
    by (metis (no_types, lifting) operationalIntentRecord.select_convs(6))
  have e: "map_of (st_OperationalIntents st3) = (map_of (st_OperationalIntents st))(vp_ID vp \<mapsto> r)"
      "or_SubscriptionID r = map_option sub_ID att"
      "map_of (st_Subscriptions st1) = (if up then (map_of (st_Subscriptions st))(sub_ID (the att) \<mapsto> s) else map_of (st_Subscriptions st))"
      "up \<longrightarrow> att \<noteq> None"
      "map_of (st_Subscriptions st3) = (if rm then (map_of (st_Subscriptions st1))(sub_ID (the prev) := None) else map_of (st_Subscriptions st1))"
      "scd_wf st3"
    using f(2,4,6) by (simp_all add: f(1) f(3) f(5) map_of_update map_of_delete)
  have att_id: "sub_ID a = (if vp_SubscriptionID vp = '''' then vp_Implicit_ID vp else vp_SubscriptionID vp)"
    and att_in: "map_of (st_Subscriptions st1) (sub_ID a) \<noteq> None"
    and att_new: "vp_SubscriptionID vp = '''' \<longrightarrow> map_of (st_Subscriptions st) (sub_ID a) = None"
    if "att = Some a" for a
    using attached_facts [OF wf conjunct1 [OF rs] fresh that] e(3) that by (auto split: if_splits)
  have prev_in: "map_of (st_Subscriptions st) (sub_ID q) \<noteq> None" "\<exists>o1. old = Some o1 \<and> oi_SubscriptionID o1 = Some (sub_ID q)"
    if "prev = Some q" for q
    using previous_subscription_Some [OF wf, of L old q] that by (auto simp: prev_def find_subscription_def)
  have keep: "sub_ID a \<noteq> sub_ID q" if "att = Some a" "prev = Some q" "vp_SubscriptionID vp \<noteq> sub_ID q" for a q
    using that att_id [OF that(1)] att_new [OF that(1)] prev_in(1) [OF that(2)] by (auto split: if_splits)
  have rm_prev: "\<exists>q. prev = Some q \<and> vp_SubscriptionID vp \<noteq> sub_ID q \<and> dependents st (sub_ID q) = [vp_ID vp]" if rm
    using that rs by blast
  have "scd_refs st3" unfolding scd_refs_def
  proof (intro allI impI)
    fix j r' sid assume j: "map_of (st_OperationalIntents st3) j = Some r'" "or_SubscriptionID r' = Some sid"
    show "map_of (st_Subscriptions st3) sid \<noteq> None"
    proof (cases "j = vp_ID vp")
      case True
      with j e(1,2) have "map_option sub_ID att = Some sid" by simp
      then obtain a where "att = Some a" "sid = sub_ID a" by auto
      then show ?thesis using att_in keep rm_prev e(5) by fastforce
    next
      case False
      with j e(1) have j': "map_of (st_OperationalIntents st) j = Some r'" by simp
      then have "map_of (st_Subscriptions st1) sid \<noteq> None"
        using inv j(2) e(3) by (auto simp: scd_inv_def scd_refs_def)
      moreover have "sid \<noteq> sub_ID q" if "dependents st (sub_ID q) = [vp_ID vp]" for q
        using dependents_iff [OF wf, of j "sub_ID q"] that j' j(2) False by auto
      ultimately show ?thesis using e(5) rm_prev by fastforce
    qed
  qed
  moreover have "scd_implicit_used st3" unfolding scd_implicit_used_def
  proof (intro allI impI)
    fix sid s' assume s': "map_of (st_Subscriptions st3) sid = Some s'" "sr_ImplicitSubscription s'"
    show "\<exists>i r. map_of (st_OperationalIntents st3) i = Some r \<and> or_SubscriptionID r = Some sid"
    proof (cases "map_option sub_ID att = Some sid")
      case True
      with e(1,2) show ?thesis by (intro exI [of _ "vp_ID vp"] exI [of _ r]) simp
    next
      case False
      with s' e(3-5) have old_s: "map_of (st_Subscriptions st) sid = Some s'" and nrm: "rm \<longrightarrow> sid \<noteq> sub_ID (the prev)"
        by (auto split: if_splits)
      with inv s'(2) obtain j r' where j: "map_of (st_OperationalIntents st) j = Some r'" "or_SubscriptionID r' = Some sid"
        unfolding scd_inv_def scd_implicit_used_def by blast
      show ?thesis
      proof (cases "j = vp_ID vp")
        case True
        have ne: "sid \<noteq> ''''" using inv old_s by (auto simp: scd_inv_def)
        from True j old_s obtain q where q: "prev = Some q" "sub_ID q = sid" "sub_ImplicitSubscription q"
          using s'(2) wf by (auto simp: prev_def old_def previous_subscription_def find_intent_def find_subscription_def
              subscriptionRecord_toModel_def scd_wf_def keyed_def)
        have "vp_SubscriptionID vp \<noteq> sid"
        proof
          assume vs: "vp_SubscriptionID vp = sid"
          with rs ne obtain a where "att = Some a" by auto
          with att_id [OF this] vs ne False show False by simp
        qed
        with rs nrm q have "dependents st sid \<noteq> [vp_ID vp]" by auto
        moreover have "vp_ID vp \<in> set (dependents st sid)" using dependents_iff [OF wf] j True by blast
        ultimately obtain j' where "j' \<in> set (dependents st sid)" "j' \<noteq> vp_ID vp"
          using distinct_dependents [OF wf, of sid] by (rule distinct_other)
        then show ?thesis using dependents_iff [OF wf] e(1) by fastforce
      qed (use j e(1) in auto)
    qed
  qed
  moreover have "map_of (st_Subscriptions st3) '''' = None"
  proof -
    have "sub_ID a \<noteq> ''''" if "att = Some a" for a
      using attached_facts(2) [OF wf conjunct1 [OF rs] fresh that] .
    then show ?thesis using inv e(3-5) by (auto simp: scd_inv_def split: if_splits)
  qed
  ultimately show ?thesis using e(6) by (simp add: scd_inv_def)
qed

section \<open>Correctness of upserts\<close>

lemma intent_model_cong:
  "st_Availabilities a = st_Availabilities b \<Longrightarrow> intent_model L a = intent_model L b"
  by (simp add: fun_eq_iff intent_model_def uss_state_def)

lemma put_stored_find_intent:
  assumes "scd_wf st" and "put_stored L ctx manager vp st att up rm att' op st1 st2 st3"
  shows "find_intent L st3 = (find_intent L st)(vp_ID vp \<mapsto> op)"
proof -
  from put_stored_effect [OF assms] obtain r where r:
      "st_OperationalIntents st3 = AList.update (vp_ID vp) r (st_OperationalIntents st)"
      "op = intent_model L st r" "st_Availabilities st3 = st_Availabilities st"
    by blast
  then show ?thesis
    unfolding find_intent_def [abs_def] intent_model_cong [of st3 st L, OF r(3)]
    by (auto simp: fun_eq_iff map_of_update)
qed

lemma put_stored_op:
  assumes "scd_wf st" and "put_stored L ctx manager vp st att up rm att' op st1 st2 st3"
  shows "\<exists>now. ctx = Some now \<and> oi_ID op = vp_ID vp \<and> oi_Manager op = manager \<and>
    oi_Version op = next_version (find_intent L st (vp_ID vp)) \<and>
    oi_PastOVNs op = next_past_OVNs (vp_OVN vp) (find_intent L st (vp_ID vp)) \<and>
    oi_State op = vp_State vp \<and> oi_Volume op = vp_Volume vp \<and> oi_USSBaseURL op = vp_USSBaseURL vp \<and>
    oi_SubscriptionID op = map_option sub_ID att \<and>
    oi_OVN op = (if vp_NewOVN vp \<noteq> '''' then vp_NewOVN vp else NewOVNFromTime L now (vp_ID vp))"
proof -
  from put_stored_effect [OF assms] obtain now r where "ctx = Some now" "op = intent_model L st r"
    "r = \<lparr>or_ID = vp_ID vp, or_Manager = manager, or_Version = next_version (find_intent L st (vp_ID vp)),
         or_State = vp_State vp, or_USSBaseURL = vp_USSBaseURL vp, or_SubscriptionID = map_option sub_ID att,
         or_USSRequestedOVN = vp_NewOVN vp,
         or_PastOVNs = next_past_OVNs (vp_OVN vp) (find_intent L st (vp_ID vp)),
         or_UpdatedAt = now, or_Volume = vp_Volume vp\<rparr>" by blast
  then show ?thesis by (simp add: intent_model_OVN)
qed

lemma validateUpsert_Ok [simp]:
  "validateUpsertRequestAgainstPreviousOIR m ovn old = Ok u \<longleftrightarrow>
     (case old of None \<Rightarrow> ovn = '''' | Some o1 \<Rightarrow> oi_Manager o1 = m \<and> oi_OVN o1 = ovn)"
  by (auto simp: validateUpsertRequestAgainstPreviousOIR_def split: option.splits)

lemma manager_availability_conv:
  "scd_wf st \<Longrightarrow> (\<forall>o1. find_intent L st i = Some o1 \<longrightarrow> oi_Manager o1 = m) \<Longrightarrow>
   manager_availability st m (find_intent L st i) = uss_state st m"
  by (auto simp: manager_availability_def find_intent_def split: option.splits)

lemma executePut_Response:
  assumes "oir_of req = Some (m, vp)"
    and "executePutOperationalIntentReference L ctx req st = (Ok (PutOIRResult_Response p subs), st')"
  obtains att up rm att' op st1 st2 st3 where
    "put_stored L ctx m vp st att up rm att' op st1 st2 st3" "p = OperationalIntent_ToRest L op"
    "st' = snd (increment_where L sr_NotifyForOperationalIntents
       (case find_intent L st (vp_ID vp) of None \<Rightarrow> vp_Volume vp
        | Some o1 \<Rightarrow> UnionCellsVolumes4D L [vp_Volume vp, oi_Volume o1]) st3)"
  using executePut_Ok [OF assms] by (auto intro: that)

text \<open>C9: the fence around an operational intent. An upsert is stored only as a creation without an
  OVN of an intent that does not exist, or as an update by its manager that names its current OVN, and
  never moves an intent of a USS that is marked as down into the accepted or activated state. What is
  stored then is the requested state and volume under the next version number (1 for a new intent),
  with the previous OVN added to the past ones; every other intent is unchanged, and the response
  shows the stored intent.\<close>

theorem executePutOIR_fenced:
  assumes "scd_wf st" and "oir_of req = Some (m, vp)"
    and "executePutOperationalIntentReference L ctx req st = (Ok (PutOIRResult_Response p subs), st')"
  shows "(case find_intent L st (vp_ID vp) of
            None \<Rightarrow> vp_OVN vp = '''' | Some o1 \<Rightarrow> oi_Manager o1 = m \<and> oi_OVN o1 = vp_OVN vp) \<and>
         (uss_state st m = UssAvailabilityStateDown \<longrightarrow>
            vp_State vp \<notin> {OperationalIntentStateAccepted, OperationalIntentStateActivated}) \<and>
         (\<exists>op now. find_intent L st' = (find_intent L st)(vp_ID vp \<mapsto> op) \<and>
            p = OperationalIntent_ToRest L op \<and> ctx = Some now \<and>
            oi_Manager op = m \<and> oi_State op = vp_State vp \<and> oi_Volume op = vp_Volume vp \<and>
            oi_Version op = (case find_intent L st (vp_ID vp) of None \<Rightarrow> 1 | Some o1 \<Rightarrow> oi_Version o1 + 1) \<and>
            oi_PastOVNs op = (case find_intent L st (vp_ID vp) of None \<Rightarrow> []
                              | Some o1 \<Rightarrow> oi_PastOVNs o1 @ [oi_OVN o1]) \<and>
            oi_OVN op = (if vp_NewOVN vp \<noteq> '''' then vp_NewOVN vp else NewOVNFromTime L now (vp_ID vp)))"
proof -
  note ok = executePut_Ok [OF assms(2,3)]
  then have v: "case find_intent L st (vp_ID vp) of
      None \<Rightarrow> vp_OVN vp = '''' | Some o1 \<Rightarrow> oi_Manager o1 = m \<and> oi_OVN o1 = vp_OVN vp" by simp
  then have "manager_availability st m (find_intent L st (vp_ID vp)) = uss_state st m"
    by (intro manager_availability_conv [OF assms(1)]) (auto split: option.splits)
  with ok have a: "uss_state st m = UssAvailabilityStateDown \<longrightarrow>
      vp_State vp \<notin> {OperationalIntentStateAccepted, OperationalIntentStateActivated}" by auto
  obtain att up rm att' op st1 st2 st3 where s: "put_stored L ctx m vp st att up rm att' op st1 st2 st3"
      "p = OperationalIntent_ToRest L op" "find_intent L st' = find_intent L st3"
    by (rule executePut_Response [OF assms(2,3)]) simp
  have past: "next_past_OVNs (vp_OVN vp) (find_intent L st (vp_ID vp)) =
      (case find_intent L st (vp_ID vp) of None \<Rightarrow> [] | Some o1 \<Rightarrow> oi_PastOVNs o1 @ [oi_OVN o1])"
    using v by (auto simp: next_past_OVNs_def split: option.splits)
  obtain now where op: "ctx = Some now" "oi_Manager op = m" "oi_State op = vp_State vp" "oi_Volume op = vp_Volume vp"
      "oi_Version op = next_version (find_intent L st (vp_ID vp))"
      "oi_PastOVNs op = next_past_OVNs (vp_OVN vp) (find_intent L st (vp_ID vp))"
      "oi_OVN op = (if vp_NewOVN vp \<noteq> '''' then vp_NewOVN vp else NewOVNFromTime L now (vp_ID vp))"
    using put_stored_op [OF assms(1) s(1)] by blast
  have "find_intent L st' = (find_intent L st)(vp_ID vp \<mapsto> op)"
    using put_stored_find_intent [OF assms(1) s(1)] s(3) by simp
  then show ?thesis
    by (intro conjI exI [of _ op] exI [of _ now] v a s(2) op(1-4) op(5) [unfolded next_version_def]
        op(6) [unfolded past] op(7))
qed

text \<open>C7: the key. When the requested state requires it, an upsert is stored only if the client's key
  holds the current OVN of every other operational intent that meets the requested volume in cells,
  time and altitude and that requires it (all but the accepted intents of a USS that is down),
  provided no more intents meet the volume than the result limit.\<close>

theorem executePutOIR_key_complete:
  assumes "scd_wf st" and "oir_of req = Some (m, vp)"
    and "executePutOperationalIntentReference L ctx req st = (Ok (PutOIRResult_Response p subs), st')"
    and "State_RequiresKey (vp_State vp)"
    and "length (filter (intent_matches (vp_Volume vp)) (map snd (st_OperationalIntents st))) \<le> MaxResultLimit"
    and "map_of (st_OperationalIntents st) i = Some r" and "i \<noteq> vp_ID vp"
    and "intent_matches (vp_Volume vp) r" and "OperationalIntent_RequiresKey (intent_model L st r)"
  shows "oi_OVN (intent_model L st r) \<in> set (vp_Key vp)"
proof -
  obtain att up rm att' op st1 st2 st3 where "put_stored L ctx m vp st att up rm att' op st1 st2 st3"
    by (rule executePut_Response [OF assms(2,3)])
  then have v: "validateKeyAndProvideConflictResponse L m vp att st = (Ok None, st)"
    using assms(4) by (simp add: put_stored_def Let_def)
  then have ne: "cv_Cells (vp_Volume vp) \<noteq> []"
    by (auto simp: validateKeyAndProvideConflictResponse_def SearchOperationalIntents_def)
  have "SearchOperationalIntents L (vp_Volume vp) st =
      (Ok (map (intent_model L st) (filter (intent_matches (vp_Volume vp)) (map snd (st_OperationalIntents st)))), st)"
    using SearchOperationalIntents_conv [OF assms(1) ne, of L] assms(5) by simp
  with v have none: "\<forall>o1 \<in> set (map (intent_model L st) (filter (intent_matches (vp_Volume vp)) (map snd (st_OperationalIntents st)))).
      \<not> (oi_OVN o1 \<notin> set (vp_Key vp) \<and> OperationalIntent_RequiresKey o1 \<and> oi_ID o1 \<noteq> vp_ID vp)"
    by (auto simp: validateKeyAndProvideConflictResponse_def Let_def monad_simps filter_empty_conv split: if_splits)
  have "r \<in> set (map snd (st_OperationalIntents st))" using map_of_SomeD [OF assms(6)] by force
  moreover have "or_ID r = i" using assms(1,6) by (simp add: scd_wf_def keyed_def)
  ultimately show ?thesis using none assms(7-9) by auto
qed

subsection \<open>The search for constraints\<close>

definition constraint_matches :: "cells_volume_4d \<Rightarrow> constraintRecord \<Rightarrow> bool" where
  "constraint_matches v r \<longleftrightarrow> set (cv_Cells (cr_Volume r)) \<inter> set (cv_Cells v) \<noteq> {} \<and>
     ranges_meet (the (cv_StartTime (cr_Volume r))) (the (cv_EndTime (cr_Volume r))) (cv_StartTime v) (cv_EndTime v)"

lemma SearchConstraints_conv:
  assumes "scd_wf st" "cv_Cells v \<noteq> []"
  shows "SearchConstraints L v st =
    (Ok (map (constraintRecord_toModel L) (take MaxResultLimit (filter (constraint_matches v) (map snd (st_Constraints st))))), st)"
proof -
  have "constraint_selected v r = Ok (constraint_matches v r)" if "r \<in> set (map snd (st_Constraints st))" for r
    using that all_valuesD [of "st_Constraints st" constraint_complete r] assms(1)
    by (auto simp: scd_wf_def constraint_complete_def constraint_selected_def constraint_matches_def overlapsTime_iff ranges_meet_def)
  from range_until_deref_conv [of "map snd (st_Constraints st)" "constraint_selected v" "constraint_matches v", where f = "constraintRecord_toModel L", OF this] assms(2)
  show ?thesis
    by (simp add: SearchConstraints_def cellSet_def range_until_ge take_map)
qed

subsection \<open>When an upsert goes through\<close>

definition complete_volume :: "cells_volume_4d \<Rightarrow> bool" where
  "complete_volume v \<longleftrightarrow> cv_StartTime v \<noteq> None \<and> cv_EndTime v \<noteq> None \<and>
     cv_AltitudeLo v \<noteq> None \<and> cv_AltitudeHi v \<noteq> None"

lemma UpsertSubscription_succeeds:
  assumes "\<not> IsZero now" "cv_StartTime (sub_Volume s) \<noteq> None" "cv_EndTime (sub_Volume s) \<noteq> None"
  shows "\<exists>s' t. UpsertSubscription L (Some now) s st = (Ok s', t) \<and>
     (\<forall>i. map_of (st_Subscriptions st) i \<noteq> None \<longrightarrow> map_of (st_Subscriptions t) i \<noteq> None)"
  using assms by (auto simp: UpsertSubscription_def bindE_def Let_def MustFromContext_def requireExtentTimes_def map_of_update)

lemma UpsertOperationalIntent_succeeds:
  assumes "\<not> IsZero now" "complete_volume (oi_Volume o1)"
  shows "\<exists>op t. UpsertOperationalIntent L (Some now) o1 st = (Ok op, t) \<and> st_Subscriptions t = st_Subscriptions st"
  using assms
  by (auto simp: UpsertOperationalIntent_def bindE_def Let_def MustFromContext_def requireExtentTimes_def complete_volume_def)

lemma put_commit_succeeds:
  assumes now: "\<not> IsZero now" and vol: "complete_volume (vp_Volume vp)"
    and up: "up \<Longrightarrow> \<exists>s. att = Some s \<and> cv_StartTime (sub_Volume s) \<noteq> None \<and> cv_EndTime (sub_Volume s) \<noteq> None"
    and rm: "rm \<Longrightarrow> \<exists>p. prev = Some p \<and> map_of (st_Subscriptions st) (sub_ID p) \<noteq> None"
  shows "\<exists>p subs st'. put_commit L (Some now) m vp old prev att up rm st = (Ok (PutOIRResult_Response p subs), st')"
proof -
  obtain att' st1 where 1: "(if up then bindE (liftO (deref att)) (\<lambda>sub.
        bindE (UpsertSubscription L (Some now) sub) (\<lambda>sub'. ret (Some sub'))) else ret att) st = (Ok att', st1)"
      "\<forall>i. map_of (st_Subscriptions st) i \<noteq> None \<longrightarrow> map_of (st_Subscriptions st1) i \<noteq> None"
  proof (cases up)
    case True
    with up obtain s where s: "att = Some s" "cv_StartTime (sub_Volume s) \<noteq> None" "cv_EndTime (sub_Volume s) \<noteq> None"
      by blast
    from UpsertSubscription_succeeds [OF now s(2,3), of L st] obtain s' t where
      "UpsertSubscription L (Some now) s st = (Ok s', t)"
      "\<forall>i. map_of (st_Subscriptions st) i \<noteq> None \<longrightarrow> map_of (st_Subscriptions t) i \<noteq> None" by blast
    with True s(1) show ?thesis by (auto intro: that)
  qed (auto intro: that)
  have "complete_volume (oi_Volume (toOIR vp m att' n ovns))" for n ovns using vol by (simp add: toOIR_def)
  from UpsertOperationalIntent_succeeds [OF now this, of L] obtain op st2 where 2:
    "UpsertOperationalIntent L (Some now) (toOIR vp m att' (next_version old) (next_past_OVNs (vp_OVN vp) old)) st1 = (Ok op, st2)"
    "st_Subscriptions st2 = st_Subscriptions st1" by blast
  obtain st3 where 3: "(if rm then bindE (liftO (deref prev)) (\<lambda>p. DeleteSubscription (sub_ID p)) else ret ()) st2 = (Ok (), st3)"
    using rm 1(2) 2(2) by (cases rm) (auto simp: DeleteSubscription_def)
  show ?thesis unfolding put_commit_def using 1(1) 2(1) 3 by (simp add: bind_increment_not_fail)
qed

text \<open>With the invariant, the check whether an implicit subscription can be removed never fails.\<close>

lemma OnlyAttached_succeeds:
  assumes "scd_inv st" and "\<And>p. prev = Some p \<Longrightarrow> find_subscription L st (sub_ID p) = Some p"
  shows "\<exists>b. SubscriptionIsImplicitAndOnlyAttachedToOIR i prev st = (Ok b, st)"
proof (cases prev)
  case (Some p)
  have "dependents st (sub_ID p) \<noteq> []" if "sub_ImplicitSubscription p"
  proof -
    from assms(2) [OF Some] obtain s where s: "map_of (st_Subscriptions st) (sub_ID p) = Some s"
        "p = subscriptionRecord_toModel L s"
      by (auto simp: find_subscription_def)
    then have "sr_ImplicitSubscription s" using that by (simp add: subscriptionRecord_toModel_def)
    with s(1) assms(1) obtain j where "j \<in> set (dependents st (sub_ID p))"
      unfolding scd_inv_def scd_implicit_used_def using dependents_iff by blast
    then show ?thesis by auto
  qed
  with Some show ?thesis by (auto simp: SubscriptionIsImplicitAndOnlyAttachedToOIR_def bindE_def)
qed (auto simp: SubscriptionIsImplicitAndOnlyAttachedToOIR_def)

lemma resolveSubscription_succeeds:
  assumes inv: "scd_inv st" and v: "vp_SubscriptionID vp = ''''"
    and prev: "prev = previous_subscription L st (find_intent L st (vp_ID vp))"
  shows "\<exists>rm. resolveSubscription L prev m vp st =
    (Ok (if vp_Implicit_ID vp \<noteq> '''' then Some (newImplicitSubscription vp m) else None, vp_Implicit_ID vp \<noteq> '''', rm), st)"
proof -
  have wf: "scd_wf st" using inv by (simp add: scd_inv_def)
  have p: "find_subscription L st (sub_ID p) = Some p" if "prev = Some p" for p
    using previous_subscription_Some(1) [OF wf, of L "find_intent L st (vp_ID vp)"] that prev by simp
  from OnlyAttached_succeeds [OF inv p] obtain b where
    "SubscriptionIsImplicitAndOnlyAttachedToOIR (vp_ID vp) prev st = (Ok b, st)" by blast
  then show ?thesis using v by (auto simp: resolveSubscription_def Let_def split: option.splits)
qed

text \<open>The subscription an upsert asks for can be used: it names none, or one that exists, belongs to its manager
  and covers the intent or, being implicit, can be extended to do so.\<close>

definition subscription_covers :: "externals \<Rightarrow> cells_volume_4d \<Rightarrow> cells_volume_4d \<Rightarrow> bool" where
  "subscription_covers L s v \<longleftrightarrow>
     (\<forall>a b. cv_StartTime s = Some a \<longrightarrow> cv_StartTime v = Some b \<longrightarrow> a \<le> b) \<and>
     (\<forall>a b. cv_EndTime s = Some a \<longrightarrow> cv_EndTime v = Some b \<longrightarrow> b \<le> a) \<and> s2_Contains L (cv_Cells s) (cv_Cells v)"

definition subscription_usable :: "externals \<Rightarrow> scd_state \<Rightarrow> Manager \<Rightarrow> validOIRParams \<Rightarrow> bool" where
  "subscription_usable L st m vp \<longleftrightarrow> vp_SubscriptionID vp = '''' \<or>
     (\<exists>s. find_subscription L st (vp_SubscriptionID vp) = Some s \<and> sub_Manager s = m \<and>
        (sub_ImplicitSubscription s \<or> subscription_covers L (sub_Volume s) (vp_Volume vp)))"

text \<open>The ID of the subscription it is attached to, and whether that one is for constraints too.\<close>

definition attached_ID :: "validOIRParams \<Rightarrow> ID option" where
  "attached_ID vp = (if vp_SubscriptionID vp \<noteq> '''' then Some (vp_SubscriptionID vp)
                     else if vp_Implicit_ID vp \<noteq> '''' then Some (vp_Implicit_ID vp) else None)"

definition attached_for_constraints :: "externals \<Rightarrow> scd_state \<Rightarrow> validOIRParams \<Rightarrow> bool" where
  "attached_for_constraints L st vp \<longleftrightarrow>
     (if vp_SubscriptionID vp \<noteq> ''''
      then \<exists>s. find_subscription L st (vp_SubscriptionID vp) = Some s \<and> sub_NotifyForConstraints s
      else vp_Implicit_ID vp \<noteq> '''' \<and> vp_Implicit_ForConstraints vp)"

text \<open>The key is complete: if the state requires one, it holds the OVN of every other intent in the volume that requires
  it, and of every constraint there when the attached subscription is for constraints.\<close>

definition key_complete :: "externals \<Rightarrow> scd_state \<Rightarrow> validOIRParams \<Rightarrow> bool" where
  "key_complete L st vp \<longleftrightarrow> (State_RequiresKey (vp_State vp) \<longrightarrow>
     (\<forall>i r. map_of (st_OperationalIntents st) i = Some r \<and> i \<noteq> vp_ID vp \<and> intent_matches (vp_Volume vp) r \<and>
        OperationalIntent_RequiresKey (intent_model L st r) \<longrightarrow> oi_OVN (intent_model L st r) \<in> set (vp_Key vp)) \<and>
     (attached_for_constraints L st vp \<longrightarrow>
        (\<forall>i c. map_of (st_Constraints st) i = Some c \<and> constraint_matches (vp_Volume vp) c \<longrightarrow>
           con_OVN (constraintRecord_toModel L c) \<in> set (vp_Key vp))))"

lemma ensureSubscriptionCoversOIR_succeeds:
  assumes "complete_volume (vp_Volume vp)" "find_subscription L st i = Some s0"
    and "sub_ImplicitSubscription s0 \<or> subscription_covers L (sub_Volume s0) (vp_Volume vp)"
  shows "\<exists>s up. ensureSubscriptionCoversOIR L s0 vp = Ok (s, up) \<and> cv_StartTime (sub_Volume s) \<noteq> None \<and> cv_EndTime (sub_Volume s) \<noteq> None"
proof -
  obtain a b where t: "cv_StartTime (sub_Volume s0) = Some a" "cv_EndTime (sub_Volume s0) = Some b"
    using assms(2) by (auto simp: find_subscription_def subscriptionRecord_toModel_def)
  obtain c d where v: "cv_StartTime (vp_Volume vp) = Some c" "cv_EndTime (vp_Volume vp) = Some d"
    using assms(1) by (auto simp: complete_volume_def)
  show ?thesis
    using assms(3) t v
    by (auto simp: ensureSubscriptionCoversOIR_def cover_start_def cover_end_def cover_cells_def subscription_covers_def)
qed

text \<open>With the invariant, the subscription of such an upsert is resolved.\<close>

lemma resolveSubscription_usable:
  assumes inv: "scd_inv st" and vol: "complete_volume (vp_Volume vp)" and usable: "subscription_usable L st m vp"
    and prev: "prev = previous_subscription L st (find_intent L st (vp_ID vp))"
  shows "\<exists>att up rm. resolveSubscription L prev m vp st = (Ok (att, up, rm), st) \<and> map_option sub_ID att = attached_ID vp \<and>
    (\<forall>s. att = Some s \<longrightarrow> sub_NotifyForConstraints s \<longrightarrow> attached_for_constraints L st vp) \<and>
    (up \<longrightarrow> (\<exists>s. att = Some s \<and> cv_StartTime (sub_Volume s) \<noteq> None \<and> cv_EndTime (sub_Volume s) \<noteq> None))"
proof -
  have wf: "scd_wf st" using inv by (simp add: scd_inv_def)
  have p: "find_subscription L st (sub_ID p) = Some p" if "prev = Some p" for p
    using previous_subscription_Some(1) [OF wf, of L "find_intent L st (vp_ID vp)"] that prev by simp
  define repl where "repl = (case prev of None \<Rightarrow> False | Some p \<Rightarrow> vp_SubscriptionID vp \<noteq> sub_ID p)"
  from OnlyAttached_succeeds [OF inv p] obtain b where
    b: "SubscriptionIsImplicitAndOnlyAttachedToOIR (vp_ID vp) prev st = (Ok b, st)" by blast
  then have b': "(if repl then SubscriptionIsImplicitAndOnlyAttachedToOIR (vp_ID vp) prev else ret False) st = (Ok (repl \<and> b), st)"
    by simp
  show ?thesis
  proof (cases "vp_SubscriptionID vp = ''''")
    case True
    with b' vol show ?thesis
      unfolding resolveSubscription_def Let_def repl_def [symmetric]
      by (auto simp: attached_ID_def attached_for_constraints_def newImplicitSubscription_def complete_volume_def)
  next
    case False
    with usable obtain s0 where s0: "find_subscription L st (vp_SubscriptionID vp) = Some s0" "sub_Manager s0 = m"
        "sub_ImplicitSubscription s0 \<or> subscription_covers L (sub_Volume s0) (vp_Volume vp)"
      by (auto simp: subscription_usable_def)
    from ensureSubscriptionCoversOIR_succeeds [OF vol s0(1,3)] obtain s up where
      s: "ensureSubscriptionCoversOIR L s0 vp = Ok (s, up)" "cv_StartTime (sub_Volume s) \<noteq> None" "cv_EndTime (sub_Volume s) \<noteq> None" by blast
    have a: "(if prev = None \<or> repl then bindE (GetSubscription L (vp_SubscriptionID vp)) (\<lambda>s. case s of
          None \<Rightarrow> fail (NewErrorWithCode BadRequest (''Specified Subscription '' @ vp_SubscriptionID vp @ '' does not exist''))
        | Some sub \<Rightarrow> ret sub) else liftO (deref prev)) st = (Ok s0, st)"
      using s0(1) p by (cases prev) (auto simp: repl_def)
    have "resolveSubscription L prev m vp st = (Ok (Some s, up, repl \<and> b), st)"
      unfolding resolveSubscription_def Let_def repl_def [symmetric]
      using False s0(2) by (simp add: bindE_def b' a s(1))
    moreover have "sub_ID s = vp_SubscriptionID vp" "sub_NotifyForConstraints s = sub_NotifyForConstraints s0"
      using ensureSubscriptionCoversOIR_Ok [OF s(1)] find_subscription_ID [OF wf s0(1)] by auto
    ultimately show ?thesis using False s(2,3) s0(1)
      by (auto simp: attached_ID_def attached_for_constraints_def)
  qed
qed

lemma missing_none:
  assumes "wf_gomap m" "\<And>i r. map_of m i = Some r \<Longrightarrow> P r \<Longrightarrow> \<not> Q (f r)"
  shows "filter Q (map f (take n (filter P (map snd m)))) = []"
proof -
  have "\<not> Q (f r)" if "r \<in> set (filter P (map snd m))" for r
    using that assms values_map_of [OF assms(1), of r] by auto
  then show ?thesis by (auto simp: filter_empty_conv dest!: in_set_takeD)
qed

lemma validateKey_succeeds:
  assumes wf: "scd_wf st" and ne: "cv_Cells (vp_Volume vp) \<noteq> []"
    and key: "key_complete L st vp" "State_RequiresKey (vp_State vp)"
    and c: "\<And>s. att = Some s \<Longrightarrow> sub_NotifyForConstraints s \<Longrightarrow> attached_for_constraints L st vp"
  shows "validateKeyAndProvideConflictResponse L m vp att st = (Ok None, st)"
proof -
  let ?v = "vp_Volume vp"
  have w: "wf_gomap (st_OperationalIntents st)" "wf_gomap (st_Constraints st)" and k: "keyed or_ID (st_OperationalIntents st)"
    using wf by (simp_all add: scd_wf_def)
  have "filter (\<lambda>o1. oi_OVN o1 \<notin> set (vp_Key vp) \<and> OperationalIntent_RequiresKey o1 \<and> oi_ID o1 \<noteq> vp_ID vp)
      (map (intent_model L st) (take MaxResultLimit (filter (intent_matches ?v) (map snd (st_OperationalIntents st))))) = []"
    by (rule missing_none [OF w(1)]) (use key k in \<open>auto simp: key_complete_def keyed_def\<close>)
  moreover have "filter (\<lambda>c. con_OVN c \<notin> set (vp_Key vp))
      (map (constraintRecord_toModel L) (take MaxResultLimit (filter (constraint_matches ?v) (map snd (st_Constraints st))))) = []"
    if "att = Some s" "sub_NotifyForConstraints s" for s
    by (rule missing_none [OF w(2)]) (use key c [OF that] in \<open>auto simp: key_complete_def\<close>)
  ultimately show ?thesis
    using SearchOperationalIntents_conv [OF wf ne, of L] SearchConstraints_conv [OF wf ne, of L]
    by (cases att) (simp_all add: validateKeyAndProvideConflictResponse_def Let_def)
qed

lemma executePut_succeeds:
  assumes inv: "scd_inv st" and req: "oir_of req = Some (m, vp)" and now: "\<not> IsZero now"
    and fence: "case find_intent L st (vp_ID vp) of None \<Rightarrow> vp_OVN vp = '''' | Some o1 \<Rightarrow> oi_Manager o1 = m \<and> oi_OVN o1 = vp_OVN vp"
    and avail: "uss_state st m = UssAvailabilityStateDown \<Longrightarrow>
      vp_State vp \<noteq> OperationalIntentStateAccepted \<and> vp_State vp \<noteq> OperationalIntentStateActivated"
    and usable: "subscription_usable L st m vp"
    and vol: "complete_volume (vp_Volume vp)" "cv_Cells (vp_Volume vp) \<noteq> []"
    and key: "key_complete L st vp"
  shows "\<exists>p subs st'. executePutOperationalIntentReference L (Some now) req st = (Ok (PutOIRResult_Response p subs), st')"
proof -
  let ?old = "find_intent L st (vp_ID vp)"
  let ?prev = "previous_subscription L st ?old"
  have wf: "scd_wf st" using inv by (simp add: scd_inv_def)
  from resolveSubscription_usable [OF inv vol(1) usable refl] obtain att up rm where
    r: "resolveSubscription L ?prev m vp st = (Ok (att, up, rm), st)"
      "\<forall>s. att = Some s \<longrightarrow> sub_NotifyForConstraints s \<longrightarrow> attached_for_constraints L st vp"
      "up \<longrightarrow> (\<exists>s. att = Some s \<and> cv_StartTime (sub_Volume s) \<noteq> None \<and> cv_EndTime (sub_Volume s) \<noteq> None)" by blast
  have k: "(if State_RequiresKey (vp_State vp) then validateKeyAndProvideConflictResponse L m vp att else ret None) st = (Ok None, st)"
    using validateKey_succeeds [OF wf vol(2) key, of att m] r(2) by simp
  have pr: "find_subscription L st (sub_ID p) = Some p" if "?prev = Some p" for p
    using previous_subscription_Some(1) [OF wf that] .
  have rm: "\<exists>p. ?prev = Some p \<and> map_of (st_Subscriptions st) (sub_ID p) \<noteq> None" if "rm"
  proof -
    from that resolveSubscription_Ok [OF r(1) pr] obtain p where "?prev = Some p" by blast
    with pr [OF this] show ?thesis by (auto simp: find_subscription_def)
  qed
  have "\<exists>p subs st'. put_commit L (Some now) m vp ?old ?prev att up rm st = (Ok (PutOIRResult_Response p subs), st')"
    by (intro put_commit_succeeds [OF now vol(1)] rm) (use r(3) in blast)
  moreover have "manager_availability st m ?old = uss_state st m"
    using fence by (intro manager_availability_conv [OF wf]) (auto split: option.splits)
  moreover have "validateUpsertRequestAgainstPreviousOIR m (vp_OVN vp) ?old = Ok ()"
    using fence by (cases ?old) (simp_all add: validateUpsertRequestAgainstPreviousOIR_def)
  ultimately show ?thesis
    unfolding executePut_conv [OF req refl refl, where L = L and st = st]
    using avail by (auto simp: r(1) k)
qed

definition demo_oir_params :: validOIRParams where
  "demo_oir_params = \<lparr>vp_ID = ''oi2'', vp_OVN = '''', vp_NewOVN = '''', vp_State = OperationalIntentStateAccepted,
     vp_Volume = demo_volume, vp_SubscriptionID = '''', vp_USSBaseURL = ''https://uss2'',
     vp_Implicit_ID = ''impl'', vp_Implicit_BaseURL = ''https://uss2'', vp_Implicit_ForConstraints = False,
     vp_Key = [NewOVNFromTime demo_externals 5 ''oi'']\<rparr>"

abbreviation demo_create_oir :: scd_request where
  "demo_create_oir \<equiv> CreateOIRPayload ''uss2'' demo_oir_params"

lemma demo_scd_inv: "scd_inv demo_scd_state"
  using demo_scd_wf by (simp add: scd_inv_def scd_refs_def scd_implicit_used_def demo_scd_defs)

lemma demo_oir_guards:
  "oir_of demo_create_oir = Some (''uss2'', demo_oir_params)" "\<not> IsZero 7"
  "case find_intent demo_externals demo_scd_state (vp_ID demo_oir_params) of
     None \<Rightarrow> vp_OVN demo_oir_params = ''''
   | Some o1 \<Rightarrow> oi_Manager o1 = ''uss2'' \<and> oi_OVN o1 = vp_OVN demo_oir_params"
  "uss_state demo_scd_state ''uss2'' = UssAvailabilityStateDown \<Longrightarrow>
     vp_State demo_oir_params \<noteq> OperationalIntentStateAccepted \<and> vp_State demo_oir_params \<noteq> OperationalIntentStateActivated"
  "subscription_usable demo_externals demo_scd_state ''uss2'' demo_oir_params"
  "complete_volume (vp_Volume demo_oir_params)" "cv_Cells (vp_Volume demo_oir_params) \<noteq> []"
  "key_complete demo_externals demo_scd_state demo_oir_params"
  by (simp_all add: demo_oir_params_def demo_scd_defs find_intent_def uss_state_def complete_volume_def
      IsZero_def zero_time_def intent_model_OVN subscription_usable_def key_complete_def attached_for_constraints_def)

lemma demo_put_oir:
  "\<exists>p subs st'. executePutOperationalIntentReference demo_externals (Some 7) demo_create_oir demo_scd_state =
     (Ok (PutOIRResult_Response p subs), st')"
  by (rule executePut_succeeds [OF demo_scd_inv demo_oir_guards])

theorem executePutOIR_fenced_witness:
  "\<exists>p subs st' op. executePutOperationalIntentReference demo_externals (Some 7) demo_create_oir demo_scd_state =
       (Ok (PutOIRResult_Response p subs), st') \<and>
     find_intent demo_externals st' ''oi2'' = Some op \<and> oi_Version op = 1"
proof -
  obtain p subs st' where e: "executePutOperationalIntentReference demo_externals (Some 7) demo_create_oir demo_scd_state =
       (Ok (PutOIRResult_Response p subs), st')" using demo_put_oir by blast
  have none: "find_intent demo_externals demo_scd_state (vp_ID demo_oir_params) = None" "vp_ID demo_oir_params = ''oi2''"
    by (simp_all add: find_intent_def demo_scd_state_def demo_oir_params_def)
  from executePutOIR_fenced [OF demo_scd_wf _ e, of "''uss2''" demo_oir_params] none e show ?thesis by auto
qed

theorem executePutOIR_key_complete_witness:
  "oi_OVN (intent_model demo_externals demo_scd_state demo_intent_record) \<in> set (vp_Key demo_oir_params)"
proof -
  obtain p subs st' where e: "executePutOperationalIntentReference demo_externals (Some 7) demo_create_oir demo_scd_state =
       (Ok (PutOIRResult_Response p subs), st')" using demo_put_oir by blast
  show ?thesis
    by (rule executePutOIR_key_complete [OF demo_scd_wf _ e, where m = "''uss2''" and i = "''oi''"])
      (simp_all add: demo_oir_params_def demo_scd_defs State_RequiresKey_def intent_matches_def ranges_meet_def
        OperationalIntent_RequiresKey_def uss_state_def)
qed

text \<open>C10: the other side of the fence and the key. In a state that satisfies the invariant, an upsert is stored
  when it passes the fence; its manager is not down, if it asks for the accepted or activated
  state; it names no subscription, or one that exists, belongs to the manager and covers the intent or is implicit;
  its volume has cells, times and altitudes; and its key, if the state requires one, holds the OVN of every other intent in the
  volume that requires it and, when the attached subscription is for constraints, of every constraint there.
  The internal errors on the way (in particular that an implicit
  subscription has no dependent intent) do not occur, and the stored intent is attached to the named or the new
  implicit subscription.\<close>

theorem executePutOIR_goes_through:
  assumes "scd_inv st" and "oir_of req = Some (m, vp)" and "\<not> IsZero now"
    and "case find_intent L st (vp_ID vp) of None \<Rightarrow> vp_OVN vp = '''' | Some o1 \<Rightarrow> oi_Manager o1 = m \<and> oi_OVN o1 = vp_OVN vp"
    and "uss_state st m = UssAvailabilityStateDown \<Longrightarrow>
      vp_State vp \<noteq> OperationalIntentStateAccepted \<and> vp_State vp \<noteq> OperationalIntentStateActivated"
    and "subscription_usable L st m vp"
    and "complete_volume (vp_Volume vp)" and "cv_Cells (vp_Volume vp) \<noteq> []"
    and "key_complete L st vp"
  shows "\<exists>op subs st'. executePutOperationalIntentReference L (Some now) req st =
           (Ok (PutOIRResult_Response (OperationalIntent_ToRest L op) subs), st') \<and>
         find_intent L st' (vp_ID vp) = Some op \<and> oi_SubscriptionID op = attached_ID vp"
proof -
  have wf: "scd_wf st" using assms(1) by (simp add: scd_inv_def)
  obtain p subs st' where e: "executePutOperationalIntentReference L (Some now) req st =
      (Ok (PutOIRResult_Response p subs), st')"
    using executePut_succeeds [OF assms] by blast
  obtain att up rm att' op st1 st2 st3 where s: "put_stored L (Some now) m vp st att up rm att' op st1 st2 st3"
      "p = OperationalIntent_ToRest L op" "find_intent L st' = find_intent L st3"
    by (rule executePut_Response [OF assms(2) e]) simp
  let ?prev = "previous_subscription L st (find_intent L st (vp_ID vp))"
  from s(1) have "resolveSubscription L ?prev m vp st = (Ok (att, up, rm), st)"
    by (simp add: put_stored_def Let_def)
  with resolveSubscription_usable [OF assms(1,7,6) refl]
  have "map_option sub_ID att = attached_ID vp" by auto
  with put_stored_op [OF wf s(1)] put_stored_find_intent [OF wf s(1)] s(2,3) e show ?thesis by auto
qed

theorem executePutOIR_goes_through_witness:
  "\<exists>op subs st'. executePutOperationalIntentReference demo_externals (Some 7) demo_create_oir demo_scd_state =
     (Ok (PutOIRResult_Response (OperationalIntent_ToRest demo_externals op) subs), st') \<and>
     oi_SubscriptionID op = Some ''impl''"
  using executePutOIR_goes_through [OF demo_scd_inv demo_oir_guards]
  by (auto simp: demo_oir_params_def attached_ID_def)

end
