(* ===== verification/Scd_Oir_Delete.thy ===== *)
theory Scd_Oir_Delete
  imports Scd_Oir_Ops
begin

text \<open>
  What the remaining operations on operational intent references establish: conflicts, deletions and
  the implicit subscriptions they clean up, and who gets to see an OVN.
\<close>

section \<open>Conflicts\<close>

definition missing_intents :: "externals \<Rightarrow> scd_state \<Rightarrow> validOIRParams \<Rightarrow> OperationalIntent set" where
  "missing_intents L st vp = {intent_model L st r | i r. map_of (st_OperationalIntents st) i = Some r \<and>
     i \<noteq> vp_ID vp \<and> intent_matches (vp_Volume vp) r \<and> OperationalIntent_RequiresKey (intent_model L st r) \<and>
     oi_OVN (intent_model L st r) \<notin> set (vp_Key vp)}"

lemma validateKey_conflict:
  assumes wf: "scd_wf st" and "validateKeyAndProvideConflictResponse L m vp att st = (Ok (Some c), st)"
    and few: "length (filter (intent_matches (vp_Volume vp)) (map snd (st_OperationalIntents st))) \<le> MaxResultLimit"
  shows "set (case ac_MissingOperationalIntents c of None \<Rightarrow> [] | Some os \<Rightarrow> os) = intent_for L m ` missing_intents L st vp"
    and "\<forall>s. att = Some s \<longrightarrow> \<not> sub_NotifyForConstraints s \<Longrightarrow> ac_MissingConstraints c = None \<and> missing_intents L st vp \<noteq> {}"
proof -
  define os where "os = filter (\<lambda>o1. oi_OVN o1 \<notin> set (vp_Key vp) \<and> OperationalIntent_RequiresKey o1 \<and> oi_ID o1 \<noteq> vp_ID vp)
    (map (intent_model L st) (filter (intent_matches (vp_Volume vp)) (map snd (st_OperationalIntents st))))"
  have ne: "cv_Cells (vp_Volume vp) \<noteq> []"
    using assms(2) by (auto simp: validateKeyAndProvideConflictResponse_def SearchOperationalIntents_def)
  have srch: "SearchOperationalIntents L (vp_Volume vp) st =
      (Ok (map (intent_model L st) (filter (intent_matches (vp_Volume vp)) (map snd (st_OperationalIntents st)))), st)"
    using SearchOperationalIntents_conv [OF wf ne, of L] few by simp
  have vals: "snd ` set (st_OperationalIntents st) = ran (map_of (st_OperationalIntents st))"
    and ids: "keyed or_ID (st_OperationalIntents st)"
    using wf values_ran by (auto simp: scd_wf_def)
  have os: "set os = missing_intents L st vp"
    unfolding os_def missing_intents_def using vals ids by (auto simp: ran_def keyed_def; blast)
  have "ac_MissingOperationalIntents c = (if length os > 0 then Some (map (intent_for L m) os) else None)"
    using assms(2) srch
    by (auto simp: validateKeyAndProvideConflictResponse_def Let_def monad_simps os_def split: if_splits)
  with os show "set (case ac_MissingOperationalIntents c of None \<Rightarrow> [] | Some os \<Rightarrow> os) = intent_for L m ` missing_intents L st vp"
    by auto
  show "ac_MissingConstraints c = None \<and> missing_intents L st vp \<noteq> {}"
    if "\<forall>s. att = Some s \<longrightarrow> \<not> sub_NotifyForConstraints s"
    using assms(2) srch that os
    by (cases att) (auto simp: validateKeyAndProvideConflictResponse_def Let_def os_def [symmetric] split: if_splits)
qed

text \<open>C8: a conflict answer. It changes nothing, is given only in the states that require a key, and
  lists exactly the other intents in the requested volume that require a key and whose OVN the client
  did not give (when no more intents meet the volume than the result limit); the OVNs of other
  managers' intents are replaced by the placeholder.\<close>

theorem executePutOIR_conflict_exact:
  assumes "scd_wf st" and "oir_of req = Some (m, vp)"
    and "executePutOperationalIntentReference L ctx req st = (Ok (PutOIRResult_Conflict c), st')"
    and "length (filter (intent_matches (vp_Volume vp)) (map snd (st_OperationalIntents st))) \<le> MaxResultLimit"
  shows "st' = st \<and> State_RequiresKey (vp_State vp) \<and>
         set (case ac_MissingOperationalIntents c of None \<Rightarrow> [] | Some os \<Rightarrow> os) =
           {p. \<exists>o1 \<in> missing_intents L st vp.
                 p = (OperationalIntent_ToRest L o1)\<lparr>roi_Ovn := Some (if oi_Manager o1 = m then oi_OVN o1 else NoOvnPhrase)\<rparr>}"
proof -
  obtain att up rm where c: "st' = st" "State_RequiresKey (vp_State vp)"
      "validateKeyAndProvideConflictResponse L m vp att st = (Ok (Some c), st)"
    using executePut_Ok [OF assms(2,3)] by auto
  have "intent_for L m =
      (\<lambda>o1. (OperationalIntent_ToRest L o1)\<lparr>roi_Ovn := Some (if oi_Manager o1 = m then oi_OVN o1 else NoOvnPhrase)\<rparr>)"
    by (simp add: fun_eq_iff intent_for_def Let_def OperationalIntent_ToRest_def)
  with validateKey_conflict(1) [OF assms(1) c(3) assms(4)] c(1,2) show ?thesis
    by (simp only: image_def simp_thms)
qed

lemma demo_conflict:
  "\<exists>c. executePutOperationalIntentReference demo_externals (Some 7)
     (CreateOIRPayload ''uss2'' (demo_oir_params\<lparr>vp_Key := []\<rparr>)) demo_scd_state = (Ok (PutOIRResult_Conflict c), demo_scd_state)"
proof -
  let ?vp = "demo_oir_params\<lparr>vp_Key := []\<rparr>"
  have ne: "cv_Cells (vp_Volume ?vp) \<noteq> []" by (simp add: demo_oir_params_def demo_volume_def)
  from resolveSubscription_succeeds [OF demo_scd_inv _ refl, of ?vp demo_externals "''uss2''"]
  obtain rm where r: "resolveSubscription demo_externals
      (previous_subscription demo_externals demo_scd_state (find_intent demo_externals demo_scd_state (vp_ID ?vp))) ''uss2'' ?vp
      demo_scd_state = (Ok (Some (newImplicitSubscription ?vp ''uss2''), True, rm), demo_scd_state)"
    by (auto simp: demo_oir_params_def)
  have "\<exists>c. validateKeyAndProvideConflictResponse demo_externals ''uss2'' ?vp (Some (newImplicitSubscription ?vp ''uss2''))
      demo_scd_state = (Ok (Some c), demo_scd_state)"
    using SearchOperationalIntents_conv [OF demo_scd_wf ne, of demo_externals]
    by (simp add: validateKeyAndProvideConflictResponse_def Let_def demo_oir_params_def newImplicitSubscription_def
        demo_scd_defs intent_matches_def ranges_meet_def OperationalIntent_RequiresKey_def uss_state_def)
  then obtain c where c: "validateKeyAndProvideConflictResponse demo_externals ''uss2'' ?vp
      (Some (newImplicitSubscription ?vp ''uss2'')) demo_scd_state = (Ok (Some c), demo_scd_state)" by blast
  have o: "find_intent demo_externals demo_scd_state (vp_ID ?vp) = None" "vp_OVN ?vp = ''''" "State_RequiresKey (vp_State ?vp)"
    by (simp_all add: find_intent_def demo_scd_state_def demo_oir_params_def State_RequiresKey_def)
  have "oir_of (CreateOIRPayload ''uss2'' ?vp) = Some (''uss2'', ?vp)" by simp
  from executePut_conv [OF this refl refl, where L = demo_externals and st = demo_scd_state and ctx = "Some 7"] o r c
  have "executePutOperationalIntentReference demo_externals (Some 7) (CreateOIRPayload ''uss2'' ?vp) demo_scd_state =
      (Ok (PutOIRResult_Conflict c), demo_scd_state)"
    by (simp add: manager_availability_def validateUpsertRequestAgainstPreviousOIR_def uss_state_def demo_scd_state_def)
  then show ?thesis by blast
qed

theorem executePutOIR_conflict_exact_witness:
  "\<exists>c. executePutOperationalIntentReference demo_externals (Some 7)
     (CreateOIRPayload ''uss2'' (demo_oir_params\<lparr>vp_Key := []\<rparr>)) demo_scd_state = (Ok (PutOIRResult_Conflict c), demo_scd_state)
     \<and> State_RequiresKey (vp_State demo_oir_params)"
proof -
  obtain c where c: "executePutOperationalIntentReference demo_externals (Some 7)
     (CreateOIRPayload ''uss2'' (demo_oir_params\<lparr>vp_Key := []\<rparr>)) demo_scd_state = (Ok (PutOIRResult_Conflict c), demo_scd_state)"
    using demo_conflict by blast
  have "length (filter (intent_matches (vp_Volume (demo_oir_params\<lparr>vp_Key := []\<rparr>)))
      (map snd (st_OperationalIntents demo_scd_state))) \<le> MaxResultLimit"
    by (simp add: demo_scd_state_def)
  with executePutOIR_conflict_exact [OF demo_scd_wf _ c, of "''uss2''" "demo_oir_params\<lparr>vp_Key := []\<rparr>"] c
  show ?thesis by auto
qed

section \<open>Deleting\<close>

text \<open>The subscription that goes with an intent: the implicit one that only this intent uses.\<close>

definition orphan :: "externals \<Rightarrow> scd_state \<Rightarrow> ID \<Rightarrow> ID option" where
  "orphan L st i =
     (case previous_subscription L st (find_intent L st i) of
        None \<Rightarrow> None
      | Some p \<Rightarrow> if sub_ImplicitSubscription p \<and> dependents st (sub_ID p) = [i] then Some (sub_ID p) else None)"

definition delete_result :: "externals \<Rightarrow> scd_state \<Rightarrow> ID \<Rightarrow> OperationalIntent \<Rightarrow> scd_state" where
  "delete_result L st i old =
     (let st1 = snd (increment_where L sr_NotifyForOperationalIntents (oi_Volume old) st);
          st2 = st1\<lparr>st_OperationalIntents := AList.delete i (st_OperationalIntents st1)\<rparr> in
      case orphan L st i of None \<Rightarrow> st2
      | Some sid \<Rightarrow> st2\<lparr>st_Subscriptions := AList.delete sid (st_Subscriptions st2)\<rparr>)"

lemma executeDeleteOIR_Ok:
  assumes inv: "scd_inv st" and old: "find_intent L st i = Some old"
    and guard: "oi_Manager old = m" "oi_OVN old = v" "oi_UssAvailability old \<noteq> UssAvailabilityStateDown"
  shows "\<exists>resp. executeDeleteOperationalIntentReference L ctx (DeleteOIRPayload i m v) st = (Ok resp, delete_result L st i old)"
proof -
  have wf: "scd_wf st" using inv by (simp add: scd_inv_def)
  let ?prev = "previous_subscription L st (Some old)"
  have prev: "find_subscription L st (sub_ID p) = Some p" if "?prev = Some p" for p
    using previous_subscription_Some(1) [OF wf that] .
  from old inv have refs: "find_subscription L st sid \<noteq> None" if "oi_SubscriptionID old = Some sid" for sid
    using that by (auto simp: scd_inv_def scd_refs_def find_intent_def find_subscription_def)
  have p: "(case oi_SubscriptionID old of
                         None \<Rightarrow> ret None
                       | Some sid \<Rightarrow> bindE (GetSubscription L sid) (\<lambda>s. case s of
                           None \<Rightarrow> fail (NewError ''OperationalIntent's Subscription missing from repo'')
                         | Some sub \<Rightarrow> ret (Some sub))) st = (Ok ?prev, st)"
    using refs by (auto simp: previous_subscription_def split: option.splits)
  from OnlyAttached_succeeds [OF inv prev, where i = i] obtain rm where rm:
    "SubscriptionIsImplicitAndOnlyAttachedToOIR i ?prev st = (Ok rm, st)" by blast
  then have orph: "rm \<longleftrightarrow> orphan L st i \<noteq> None" "\<And>sid. orphan L st i = Some sid \<Longrightarrow> \<exists>p. ?prev = Some p \<and> sub_ID p = sid"
    using OnlyAttached_Ok [OF rm] old by (auto simp: orphan_def split: option.splits if_splits)
  let ?st1 = "snd (increment_where L sr_NotifyForOperationalIntents (oi_Volume old) st)"
  have del: "DeleteOperationalIntent i ?st1 = (Ok (), ?st1\<lparr>st_OperationalIntents := AList.delete i (st_OperationalIntents ?st1)\<rparr>)"
    using old by (auto simp: DeleteOperationalIntent_def increment_where_conv find_intent_def)
  have ds: "DeleteSubscription (sub_ID p) (?st1\<lparr>st_OperationalIntents := m'\<rparr>) =
      (Ok (), ?st1\<lparr>st_OperationalIntents := m', st_Subscriptions := AList.delete (sub_ID p) (st_Subscriptions ?st1)\<rparr>)"
    if "?prev = Some p" for p m'
    using prev [OF that] by (auto simp: DeleteSubscription_def increment_where_conv find_subscription_def)
  have "executeDeleteOperationalIntentReference L ctx (DeleteOIRPayload i m v) st =
    bindE (if rm then bindE (liftO (deref ?prev)) (\<lambda>p. DeleteSubscription (sub_ID p)) else ret ()) (\<lambda>_.
      ret (ChangeOperationalIntentReferenceResponse (OperationalIntent_ToRest L old)
        (makeSubscribersToNotify (case fst (increment_where L sr_NotifyForOperationalIntents (oi_Volume old) st)
           of Ok x \<Rightarrow> x | _ \<Rightarrow> []))))
      (?st1\<lparr>st_OperationalIntents := AList.delete i (st_OperationalIntents ?st1)\<rparr>)"
    using old guard p rm del
    by (simp add: executeDeleteOperationalIntentReference_def LockSubscriptionsOnCells_def Let_def bind_increment_not_fail)
  then show ?thesis
    using orph ds by (cases "orphan L st i") (auto simp: delete_result_def Let_def)
qed
lemma DeleteSubscription_intents: "DeleteSubscription x u = (Ok y, t) \<Longrightarrow> find_intent L t = find_intent L u"
  by (auto simp: DeleteSubscription_def find_intent_def fun_eq_iff split: if_splits)

interpretation intent_delete: fenced_delete "find_intent L" oi_Manager oi_OVN
  "\<lambda>i m v. executeDeleteOperationalIntentReference L ctx (DeleteOIRPayload i m v)" for L ctx
proof (unfold_locales, goal_cases)
  case (4 k own v s r t)
  have "\<exists>(old :: OperationalIntent) u2. DeleteOperationalIntent k (snd (increment_where L sr_NotifyForOperationalIntents (oi_Volume old) s))
      = (Ok (), u2) \<and> find_intent L t = find_intent L u2"
  proof (cases "find_intent L s k")
    case (Some old)
    with 4 show ?thesis
      by (intro exI [of _ old])
        (auto simp: executeDeleteOperationalIntentReference_def LockSubscriptionsOnCells_def Let_def monad_simps
          increment_where_conv split: if_splits option.splits dest!: OnlyAttached_Ok DeleteSubscription_intents)
  qed (use 4 in \<open>auto simp: executeDeleteOperationalIntentReference_def\<close>)
  then obtain old :: OperationalIntent and u2 where s:
    "DeleteOperationalIntent k (snd (increment_where L sr_NotifyForOperationalIntents (oi_Volume old) s)) = (Ok (), u2)"
    "find_intent L t = find_intent L u2" by blast
  from intent_store.remove_Ok [OF s(1)] s(2) show ?case by simp
qed (auto simp: executeDeleteOperationalIntentReference_def bindE_def)

lemma orphan_Some:
  assumes "orphan L st i = Some sid"
  shows "dependents st sid = [i]"
  using assms by (auto simp: orphan_def split: option.splits if_splits)

text \<open>A deletion keeps the invariant.\<close>

lemma delete_result_maps:
  "map_of (st_OperationalIntents (delete_result L st i old)) = (map_of (st_OperationalIntents st))(i := None)"
  "map_of (st_Subscriptions (delete_result L st i old)) k =
     (if orphan L st i = Some k then None
      else map_of (st_Subscriptions (snd (increment_where L sr_NotifyForOperationalIntents (oi_Volume old) st))) k)"
  by (auto simp: delete_result_def Let_def map_of_delete increment_where_conv split: option.splits)

lemma delete_result_inv:
  assumes inv: "scd_inv st" and i: "map_of (st_OperationalIntents st) i = Some ri"
  shows "scd_inv (delete_result L st i old)"
proof -
  let ?st1 = "snd (increment_where L sr_NotifyForOperationalIntents (oi_Volume old) st)"
  have wf: "scd_wf st" using inv by (simp add: scd_inv_def)
  have inv1: "scd_inv ?st1" using increment_where_inv [OF inv] .
  have oi1: "st_OperationalIntents ?st1 = st_OperationalIntents st" by (simp add: increment_where_conv)
  have "scd_wf (delete_result L st i old)"
    using scd_wf_updates(7) [of ?st1 i] scd_wf_updates(6) [OF scd_wf_updates(7) [of ?st1 i]] inv1
    by (auto simp: delete_result_def Let_def scd_inv_def split: option.splits)
  moreover have "scd_refs (delete_result L st i old)" unfolding scd_refs_def delete_result_maps
  proof (intro allI impI)
    fix j r sid assume j: "((map_of (st_OperationalIntents st))(i := None)) j = Some r" "or_SubscriptionID r = Some sid"
    then have "map_of (st_Subscriptions ?st1) sid \<noteq> None"
      using inv1 oi1 by (auto simp: scd_inv_def scd_refs_def split: if_splits)
    moreover have "orphan L st i \<noteq> Some sid"
      using orphan_Some [of L st i sid] dependents_iff [OF wf, of j sid] j by (auto split: if_splits)
    ultimately show "(if orphan L st i = Some sid then None else map_of (st_Subscriptions ?st1) sid) \<noteq> None" by simp
  qed
  moreover have "scd_implicit_used (delete_result L st i old)" unfolding scd_implicit_used_def delete_result_maps
  proof (intro allI impI)
    fix sid s assume s: "(if orphan L st i = Some sid then None else map_of (st_Subscriptions ?st1) sid) = Some s"
      "sr_ImplicitSubscription s"
    then have "map_of (st_Subscriptions ?st1) sid = Some s" by (simp split: if_splits)
    with inv1 s(2) obtain j r where "map_of (st_OperationalIntents ?st1) j = Some r" "or_SubscriptionID r = Some sid"
      unfolding scd_inv_def scd_implicit_used_def by blast
    then have j: "map_of (st_OperationalIntents st) j = Some r" "or_SubscriptionID r = Some sid" by (simp_all add: oi1)
    have "\<exists>j r. j \<noteq> i \<and> map_of (st_OperationalIntents st) j = Some r \<and> or_SubscriptionID r = Some sid"
    proof (cases "j = i")
      case True
      from s have "\<exists>s0. map_of (st_Subscriptions st) sid = Some s0 \<and> sr_ImplicitSubscription s0"
        by (auto simp: increment_where_conv bump_def split: if_splits)
      with True j wf s(1) have "dependents st sid \<noteq> [i]"
        by (auto simp: orphan_def previous_subscription_def find_intent_def find_subscription_def
            subscriptionRecord_toModel_def scd_wf_def keyed_def split: if_splits)
      moreover have "i \<in> set (dependents st sid)" using dependents_iff [OF wf] j True by blast
      ultimately obtain j' where "j' \<in> set (dependents st sid)" "j' \<noteq> i"
        using distinct_dependents [OF wf, of sid] by (rule distinct_other)
      then show ?thesis using dependents_iff [OF wf] by blast
    qed (use j in blast)
    then show "\<exists>j r. ((map_of (st_OperationalIntents st))(i := None)) j = Some r \<and> or_SubscriptionID r = Some sid" by auto
  qed
  moreover have "map_of (st_Subscriptions (delete_result L st i old)) '''' = None"
    using inv1 by (simp add: delete_result_maps scd_inv_def)
  ultimately show ?thesis by (simp add: scd_inv_def)
qed

lemma executeDeleteOIR_outcome:
  assumes "scd_inv st"
    and "executeDeleteOperationalIntentReference L ctx (DeleteOIRPayload i m v) st = (r, st')"
  shows "(is_Ok r \<longleftrightarrow> (\<exists>old. find_intent L st i = Some old \<and> oi_Manager old = m \<and> oi_OVN old = v \<and>
             oi_UssAvailability old \<noteq> UssAvailabilityStateDown)) \<and>
         (is_Ok r \<longrightarrow> find_intent L st' = (find_intent L st)(i := None) \<and>
             dom (map_of (st_Subscriptions st')) =
               {sid \<in> dom (map_of (st_Subscriptions st)). \<not> (\<exists>s. find_subscription L st sid = Some s \<and>
                  sub_ImplicitSubscription s \<and> dependents st sid = [i])} \<and>
             scd_inv st') \<and>
         (\<not> is_Ok r \<longrightarrow> st' = st \<and>
             outcome_code r = Some (case find_intent L st i of None \<Rightarrow> NotFound
               | Some old \<Rightarrow> if oi_Manager old \<noteq> m then PermissionDenied
                            else if oi_OVN old \<noteq> v then VersionMismatch else PreconditionFailed))"
proof (cases "find_intent L st i")
  case None
  then show ?thesis using assms(2) intent_delete.absent [OF None, of ctx m v] by auto
next
  case (Some old)
  have wf: "scd_wf st" using assms(1) by (simp add: scd_inv_def)
  show ?thesis
  proof (cases "oi_Manager old = m \<and> oi_OVN old = v \<and> oi_UssAvailability old \<noteq> UssAvailabilityStateDown")
    case True
    then obtain resp where r: "r = Ok resp" "st' = delete_result L st i old"
      using executeDeleteOIR_Ok [OF assms(1) Some, of m v ctx] assms(2) by auto
    from Some obtain ri where ri: "map_of (st_OperationalIntents st) i = Some ri" by (auto simp: find_intent_def)
    have orph: "orphan L st i = Some sid \<longleftrightarrow> (\<exists>s. find_subscription L st sid = Some s \<and>
        sub_ImplicitSubscription s \<and> dependents st sid = [i])" for sid
    proof
      assume "\<exists>s. find_subscription L st sid = Some s \<and> sub_ImplicitSubscription s \<and> dependents st sid = [i]"
      then obtain s where s: "find_subscription L st sid = Some s" "sub_ImplicitSubscription s" "dependents st sid = [i]" by blast
      moreover from s(3) have "or_SubscriptionID ri = Some sid"
        using dependents_iff [OF wf, of i sid] ri by auto
      ultimately show "orphan L st i = Some sid"
        using find_subscription_ID [OF wf s(1)] ri by (simp add: orphan_def previous_subscription_def find_intent_def)
    next
      assume "orphan L st i = Some sid"
      then obtain p where p: "previous_subscription L st (find_intent L st i) = Some p" "sub_ID p = sid"
          "sub_ImplicitSubscription p" "dependents st sid = [i]"
        by (auto simp: orphan_def split: option.splits if_splits)
      with previous_subscription_Some(1) [OF wf p(1)]
      show "\<exists>s. find_subscription L st sid = Some s \<and> sub_ImplicitSubscription s \<and> dependents st sid = [i]" by blast
    qed
    have "dom (map_of (st_Subscriptions st')) =
        {sid \<in> dom (map_of (st_Subscriptions st)). \<not> orphan L st i = Some sid}"
      by (auto simp: r(2) delete_result_maps increment_where_conv split: if_splits)
    then show ?thesis
      using r True Some intent_delete.del_removes [OF assms(2) [unfolded r(1)]] delete_result_inv [OF assms(1) ri]
      by (simp add: orph)
  next
    case False
    then show ?thesis
      using assms(2) Some intent_delete.not_owner [OF Some, of m ctx v] intent_delete.stale [OF Some, of m v ctx]
      by (auto simp: executeDeleteOperationalIntentReference_def bindE_def)
  qed
qed

text \<open>C11: deleting an operational intent. In a state that satisfies the invariant it succeeds exactly
  when the intent exists, the client is its manager and names its current OVN, and the manager is not
  marked as down. Then the intent is gone and every other intent unchanged, the implicit subscription
  that only this intent used is gone with it and no other subscription, and the invariant holds again.
  Otherwise nothing changes and the code says why.\<close>

theorem executeDeleteOIR_correct:
  assumes "scd_inv st"
    and "executeDeleteOperationalIntentReference L ctx (DeleteOIRPayload i m v) st = (r, st')"
  shows "(is_Ok r \<longleftrightarrow> (\<exists>old. find_intent L st i = Some old \<and> oi_Manager old = m \<and> oi_OVN old = v \<and>
             oi_UssAvailability old \<noteq> UssAvailabilityStateDown)) \<and>
         (is_Ok r \<longrightarrow> find_intent L st' = (find_intent L st)(i := None) \<and>
             dom (map_of (st_Subscriptions st')) =
               {sid \<in> dom (map_of (st_Subscriptions st)). \<not> (\<exists>s. find_subscription L st sid = Some s \<and>
                  sub_ImplicitSubscription s \<and> dependents st sid = [i])} \<and>
             scd_inv st') \<and>
         (\<not> is_Ok r \<longrightarrow> st' = st \<and>
             outcome_code r = Some (case find_intent L st i of None \<Rightarrow> NotFound
               | Some old \<Rightarrow> if oi_Manager old \<noteq> m then PermissionDenied
                            else if oi_OVN old \<noteq> v then VersionMismatch else PreconditionFailed))"
  using assms by (rule executeDeleteOIR_outcome)

theorem executeDeleteOIR_correct_witness:
  "let v = NewOVNFromTime demo_externals 5 ''oi'' in
   is_Ok (fst (executeDeleteOperationalIntentReference demo_externals (Some 7) (DeleteOIRPayload ''oi'' ''uss1'' v) demo_scd_state))
   \<and> map_of (st_Subscriptions (snd (executeDeleteOperationalIntentReference demo_externals (Some 7)
        (DeleteOIRPayload ''oi'' ''uss1'' v) demo_scd_state))) ''sub'' = None"
proof -
  let ?v = "NewOVNFromTime demo_externals 5 ''oi''"
  obtain r st' where e: "executeDeleteOperationalIntentReference demo_externals (Some 7) (DeleteOIRPayload ''oi'' ''uss1'' ?v)
      demo_scd_state = (r, st')" by fastforce
  have f: "find_intent demo_externals demo_scd_state ''oi'' = Some (intent_model demo_externals demo_scd_state demo_intent_record)"
    by (simp add: find_intent_def demo_scd_state_def)
  have g: "find_subscription demo_externals demo_scd_state ''sub'' =
        Some (subscriptionRecord_toModel demo_externals demo_subscription_record)"
      "dependents demo_scd_state ''sub'' = [''oi'']"
      "sub_ImplicitSubscription (subscriptionRecord_toModel demo_externals demo_subscription_record)"
    by (simp_all add: find_subscription_def dependents_def demo_scd_defs subscriptionRecord_toModel_def)
  have h: "or_Manager demo_intent_record = ''uss1''" "uss_state demo_scd_state ''uss1'' \<noteq> UssAvailabilityStateDown"
      "oi_OVN (intent_model demo_externals demo_scd_state demo_intent_record) = ?v"
    by (simp_all add: intent_model_OVN demo_intent_record_def uss_state_def demo_scd_state_def)
  note c = executeDeleteOIR_correct [OF demo_scd_inv e]
  from c f h have ok: "is_Ok r" by simp
  with c have "dom (map_of (st_Subscriptions st')) = {sid \<in> dom (map_of (st_Subscriptions demo_scd_state)).
      \<not> (\<exists>s. find_subscription demo_externals demo_scd_state sid = Some s \<and>
         sub_ImplicitSubscription s \<and> dependents demo_scd_state sid = [''oi''])}" by blast
  with g have "''sub'' \<notin> dom (map_of (st_Subscriptions st'))" by auto
  with ok e show ?thesis by (simp add: domIff)
qed

end
