(* ===== verification/Raft_Store.thy ===== *)
theory Raft_Store
  imports Interfaces Dss_Models
begin

text \<open>
  The replicated store of \<open>src/pkg/raftstore/store.go\<close>: the loop \<open>processCommits\<close> that every node
  runs over the committed entries, and \<open>Transact\<close>, which turns a request of a registered operation
  into a proposal. The repository the loop drives is the interface \<open>RaftRepo\<close>, a record of its
  methods; the stores of the services provide it (theories \<open>Scd_Raft\<close> and \<open>Rid_Raft\<close>).

  A panic in the loop's goroutine and a failed restore from a snapshot (\<open>logger.Fatal\<close>) end the
  process: the loop stops there. The laws the loop relies on are those of the locale
  \<open>checkpointed_repo\<close>; the lemmas proved in its context are about every repository that satisfies
  them.
\<close>

section \<open>Proposals and commits\<close>

text \<open>\<open>consensus.Proposal\<close> and \<open>consensus.EntryCommit\<close>. The reply channel of a commit is the value
  that processing it produces.\<close>

record Proposal =
  pr_ID :: string
  pr_NodeID :: "64 word"
  pr_Timestamp :: time
  pr_RequestType :: string
  pr_Value :: string
  pr_ReadOnly :: bool

record 'd EntryCommit =
  ec_Prop :: Proposal
  ec_SnapshotData :: "'d option"

text \<open>\<open>newProposal\<close>: the ID is drawn by the caller.\<close>

definition newProposal :: "string \<Rightarrow> 64 word \<Rightarrow> ctx \<Rightarrow> string \<Rightarrow> string \<Rightarrow> bool \<Rightarrow> Proposal outcome" where
  "newProposal newID nodeID ctx requestType value readOnly =
     obind (MustFromContext ctx) (\<lambda>timestamp.
     Ok \<lparr>pr_ID = newID, pr_NodeID = nodeID, pr_Timestamp = timestamp, pr_RequestType = requestType,
         pr_Value = value, pr_ReadOnly = readOnly\<rparr>)"

text \<open>\<open>store.OperationHandler\<close>: how a registered operation is executed and whether it only reads. Its
  \<open>Encode\<close> and \<open>Decode\<close> functions are the generic JSON ones, a parameter of the stores.\<close>

record ('s, 'q, 'r) OperationHandler =
  oh_Execute :: "ctx \<Rightarrow> 'q \<Rightarrow> ('s, 'r) op"
  oh_IsReadOnly :: bool

text \<open>\<open>Store.Transact\<close>: the proposal for a request of a registered operation. Read-only operations
  go to \<open>HandleReadRequest\<close>, the others to \<open>HandleWriteRequest\<close>; the proposals of the two differ in
  the flag.\<close>

definition Transact ::
    "(string, ('s, 'q, 'r) OperationHandler) gomap \<Rightarrow> ('q \<Rightarrow> string) \<Rightarrow> ('q \<Rightarrow> string outcome) \<Rightarrow>
     string \<Rightarrow> 64 word \<Rightarrow> ctx \<Rightarrow> 'q \<Rightarrow> Proposal outcome" where
  "Transact registry OperationID encode newID nodeID ctx request =
     (case map_of registry (OperationID request) of
        None \<Rightarrow> Err (NewError (''no handler registered for operation '' @ OperationID request))
      | Some handler \<Rightarrow>
          obind (encode request) (\<lambda>payload.
          newProposal newID nodeID ctx (OperationID request) payload (oh_IsReadOnly handler)))"

text \<open>One case of a repository's \<open>Apply\<close>: a decoded payload, an operation on it and the type of its
  result.\<close>

definition with_payload :: "'p outcome \<Rightarrow> ('p \<Rightarrow> ('s, 'a) op) \<Rightarrow> ('a \<Rightarrow> 'b) \<Rightarrow> ('s, 'b) op" where
  "with_payload p f g = bindE (liftO p) (\<lambda>x. bindE (f x) (\<lambda>y. ret (g y)))"

lemma readonly_with_payload [pres_intros]:
  "(\<And>x. readonly (f x)) \<Longrightarrow> readonly (with_payload p f g)"
  unfolding with_payload_def by (intro pres_intros)

section \<open>The commit loop\<close>

text \<open>The interface \<open>RaftRepo\<close>.\<close>

record ('r, 'd, 'a) RaftRepo =
  rr_Checkpoint :: "'r \<Rightarrow> 'r"
  rr_Restore :: "'r \<Rightarrow> 'r"
  rr_RestoreFromSnapshot :: "'d \<Rightarrow> ('r, unit) op"
  rr_Apply :: "ctx \<times> Proposal \<Rightarrow> ('r, 'a) op"

text \<open>What becomes of one commit: a snapshot was restored, the proposer was sent a result, or the
  process ended.\<close>

datatype 'a commit_result = Restored | Replied "'a outcome" | Crashed

definition processCommit :: "('r, 'd, 'a) RaftRepo \<Rightarrow> 'd EntryCommit \<Rightarrow> 'r \<Rightarrow> 'a commit_result \<times> 'r" where
  "processCommit repo commit r =
     (case ec_SnapshotData commit of
        Some data \<Rightarrow>
          (case rr_RestoreFromSnapshot repo data r of
             (Ok _, r') \<Rightarrow> (Restored, r')
           | (_, r') \<Rightarrow> (Crashed, r'))
      | None \<Rightarrow>
          let prop = ec_Prop commit;
              proposalCtx = Some (pr_Timestamp prop);
              r1 = (if \<not> pr_ReadOnly prop then rr_Checkpoint repo r else r)
          in case rr_Apply repo (proposalCtx, prop) r1 of
               (Ok result, r2) \<Rightarrow> (Replied (Ok result), r2)
             | (Err e, r2) \<Rightarrow> (Replied (Err e), if \<not> pr_ReadOnly prop then rr_Restore repo r2 else r2)
             | (Panic, r2) \<Rightarrow> (Crashed, r2))"

fun processCommits :: "('r, 'd, 'a) RaftRepo \<Rightarrow> 'd EntryCommit list \<Rightarrow> 'r \<Rightarrow> 'a commit_result list \<times> 'r" where
  "processCommits repo [] r = ([], r)"
| "processCommits repo (c # cs) r =
     (case processCommit repo c r of
        (Crashed, r') \<Rightarrow> ([Crashed], r')
      | (x, r') \<Rightarrow> (case processCommits repo cs r' of (xs, r'') \<Rightarrow> (x # xs, r'')))"

lemma processCommits_append:
  assumes "processCommits repo cs r = (xs, r')" and "Crashed \<notin> set xs"
  shows "processCommits repo (cs @ ds) r = (case processCommits repo ds r' of (ys, r'') \<Rightarrow> (xs @ ys, r''))"
  using assms
  by (induction cs arbitrary: r xs) (auto split: prod.splits commit_result.splits)

text \<open>One commit of a proposal, by its flag and outcome.\<close>

lemma processCommit_read:
  assumes "ec_SnapshotData c = None" "pr_ReadOnly (ec_Prop c)"
    "rr_Apply repo (Some (pr_Timestamp (ec_Prop c)), ec_Prop c) r = (x, r')"
  shows "processCommit repo c r = (case x of Panic \<Rightarrow> Crashed | _ \<Rightarrow> Replied x, r')"
  using assms by (cases x) (simp_all add: processCommit_def Let_def)

lemma processCommit_write:
  assumes "ec_SnapshotData c = None" "\<not> pr_ReadOnly (ec_Prop c)"
    "rr_Apply repo (Some (pr_Timestamp (ec_Prop c)), ec_Prop c) (rr_Checkpoint repo r) = (x, r')"
  shows "processCommit repo c r = (case x of Panic \<Rightarrow> (Crashed, r')
     | Err e \<Rightarrow> (Replied x, rr_Restore repo r') | Ok _ \<Rightarrow> (Replied x, r'))"
  using assms by (cases x) (simp_all add: processCommit_def Let_def)

section \<open>Requests of clients\<close>

text \<open>How the wait for a proposal ends: its result arrives; Raft did not accept it; or the context of the
  request is cancelled first, when the proposal has or has not been applied. The errors of the last two
  (\<open>raft.ErrProposalDropped\<close>, \<open>ctx.Err()\<close>) carry no DSS code.\<close>

datatype delivery = Delivered | NotProposed string | Cancelled string bool

definition await_result :: "('r, 'd, 'a) RaftRepo \<Rightarrow> delivery \<Rightarrow> Proposal \<Rightarrow> ('r, 'a) op" where
  "await_result repo d proposal r =
     (let (x, r') = processCommit repo \<lparr>ec_Prop = proposal, ec_SnapshotData = None\<rparr> r
      in case d of
           NotProposed msg \<Rightarrow> (Err (NewError msg), r)
         | Cancelled msg applied \<Rightarrow>
             if \<not> applied then (Err (NewError msg), r)
             else (case x of Replied _ \<Rightarrow> (Err (NewError msg), r') | _ \<Rightarrow> (Panic, r'))
         | Delivered \<Rightarrow> (case x of Replied res \<Rightarrow> (res, r') | _ \<Rightarrow> (Panic, r')))"

text \<open>\<open>HandleReadRequest\<close> and \<open>HandleWriteRequest\<close>, for a request whose proposal is the next one to be
  applied (a crash of the process while it is applied is a panic). Their result type is \<open>any\<close> here, so that the type assertion on the result always holds.\<close>

definition HandleReadRequest ::
    "('r, 'd, 'a) RaftRepo \<Rightarrow> delivery \<Rightarrow> string \<Rightarrow> 64 word \<Rightarrow> ctx \<Rightarrow> string \<Rightarrow> string \<Rightarrow> ('r, 'a) op" where
  "HandleReadRequest repo d newID nodeID ctx requestType value =
     bindE (liftO (newProposal newID nodeID ctx requestType value True)) (await_result repo d)"

definition HandleWriteRequest ::
    "('r, 'd, 'a) RaftRepo \<Rightarrow> delivery \<Rightarrow> string \<Rightarrow> 64 word \<Rightarrow> ctx \<Rightarrow> string \<Rightarrow> string \<Rightarrow> ('r, 'a) op" where
  "HandleWriteRequest repo d newID nodeID ctx requestType value =
     bindE (liftO (newProposal newID nodeID ctx requestType value False)) (await_result repo d)"

text \<open>\<open>Store.Transact\<close> with its wait.\<close>

definition store_Transact ::
    "('r, 'd, 'a) RaftRepo \<Rightarrow> (string, ('s, 'q, 'b) OperationHandler) gomap \<Rightarrow> ('q \<Rightarrow> string) \<Rightarrow> ('q \<Rightarrow> string outcome) \<Rightarrow>
     delivery \<Rightarrow> string \<Rightarrow> 64 word \<Rightarrow> ctx \<Rightarrow> 'q \<Rightarrow> ('r, 'a) op" where
  "store_Transact repo registry OperationID encode d newID nodeID ctx request =
     (case map_of registry (OperationID request) of
        None \<Rightarrow> fail (NewError (''no handler registered for operation '' @ OperationID request))
      | Some handler \<Rightarrow>
          bindE (liftO (encode request)) (\<lambda>payload.
          if oh_IsReadOnly handler
          then HandleReadRequest repo d newID nodeID ctx (OperationID request) payload
          else HandleWriteRequest repo d newID nodeID ctx (OperationID request) payload))"

lemma store_Transact_alt:
  "store_Transact repo registry OperationID encode d newID nodeID ctx request =
     bindE (liftO (Transact registry OperationID encode newID nodeID ctx request)) (await_result repo d)"
  by (rule ext, cases "encode request")
    (simp_all add: store_Transact_def Transact_def HandleReadRequest_def HandleWriteRequest_def bindE_def split: option.splits)

lemma await_result_cases:
  assumes "await_result repo d p r = (x, r')" "x \<noteq> Panic"
  shows "processCommit repo \<lparr>ec_Prop = p, ec_SnapshotData = None\<rparr> r = (Replied x, r') \<or>
    (\<exists>msg. x = Err (NewError msg) \<and>
       (r' = r \<or> (\<exists>y. processCommit repo \<lparr>ec_Prop = p, ec_SnapshotData = None\<rparr> r = (Replied y, r'))))"
  using assms by (auto simp: await_result_def Let_def split: prod.splits delivery.splits commit_result.splits if_splits)

section \<open>The loop over a repository whose checkpoints work\<close>

text \<open>What the loop does with any repository whose checkpoints work.\<close>

context checkpointed_repo
begin

text \<open>A write whose application fails is rolled back completely.\<close>

lemma failed_write_rolled_back:
  assumes repo: "rr_Checkpoint repo = Checkpoint" "rr_Restore repo = Restore" "rr_Apply repo = app \<circ> f"
    and c: "ec_SnapshotData c = None" "\<not> pr_ReadOnly (ec_Prop c)"
    and p: "processCommit repo c r = (Replied (Err e), r')"
  shows "current r' = current r"
proof -
  obtain x r1 where x: "app (f (Some (pr_Timestamp (ec_Prop c)), ec_Prop c)) (Checkpoint r) = (x, r1)" by fastforce
  then have "r' = Restore r1" and "r1 = snd (app (f (Some (pr_Timestamp (ec_Prop c)), ec_Prop c)) (Checkpoint r))"
    using processCommit_write [OF c, of repo r x r1] p repo by (auto split: outcome.splits)
  then show ?thesis using rollback by simp
qed

text \<open>A write that goes through has exactly the effect of its application.\<close>

lemma applied_write:
  assumes repo: "rr_Checkpoint repo = Checkpoint" "rr_Restore repo = Restore" "rr_Apply repo = app \<circ> f"
    and c: "ec_SnapshotData c = None" "\<not> pr_ReadOnly (ec_Prop c)"
    and p: "processCommit repo c r = (Replied (Ok x), r')"
  shows "app (f (Some (pr_Timestamp (ec_Prop c)), ec_Prop c)) (Checkpoint r) = (Ok x, r')"
proof -
  obtain y r1 where y: "app (f (Some (pr_Timestamp (ec_Prop c)), ec_Prop c)) (Checkpoint r) = (y, r1)" by fastforce
  then show ?thesis
    using processCommit_write [OF c, of repo r y r1] p repo by (auto split: outcome.splits)
qed

text \<open>What an application that succeeds establishes, and nothing else, is true after the commit.\<close>

lemma commit_keeps:
  assumes repo: "rr_Checkpoint repo = Checkpoint" "rr_Restore repo = Restore" "rr_Apply repo = app \<circ> f"
    and c: "ec_SnapshotData c = None" and p: "processCommit repo c r = (Replied x, r')" and I: "I (current r)"
    and keep: "\<And>y r1 r2. current r1 = current r \<Longrightarrow> \<not> pr_ReadOnly (ec_Prop c) \<Longrightarrow>
      app (f (Some (pr_Timestamp (ec_Prop c)), ec_Prop c)) r1 = (Ok y, r2) \<Longrightarrow> I (current r2)"
    and ro: "pr_ReadOnly (ec_Prop c) \<Longrightarrow>
      current (snd (app (f (Some (pr_Timestamp (ec_Prop c)), ec_Prop c)) r)) = current r"
  shows "I (current r')"
proof (cases "pr_ReadOnly (ec_Prop c)")
  case True
  obtain y r1 where y: "app (f (Some (pr_Timestamp (ec_Prop c)), ec_Prop c)) r = (y, r1)" by fastforce
  with processCommit_read [OF c True, of repo r y r1] p repo have "r' = r1" by simp
  with ro [OF True] y I show ?thesis by simp
next
  case False
  show ?thesis
  proof (cases x)
    case (Ok y)
    with p have "processCommit repo c r = (Replied (Ok y), r')" by simp
    from keep [OF checkpoint_current False applied_write [OF repo c False this]] show ?thesis .
  next
    case (Err e)
    with failed_write_rolled_back [OF repo c False] p I show ?thesis by simp
  next
    case Panic
    obtain y r1 where "app (f (Some (pr_Timestamp (ec_Prop c)), ec_Prop c)) (Checkpoint r) = (y, r1)" by fastforce
    with Panic processCommit_write [OF c False, of repo r y r1] p repo show ?thesis by (auto split: outcome.splits)
  qed
qed

end

section \<open>Replicas\<close>

text \<open>A repository whose behaviour depends on its current state alone, and whose snapshots restore it.
  Two nodes with the same state answer the same commits in the same way, whatever their checkpoints
  hold; a node that starts from a snapshot and reads the rest of the log is such a node.\<close>

locale replicated_repo = checkpointed_repo Checkpoint Restore current saved app
  for Checkpoint :: "'r \<Rightarrow> 'r" and Restore :: "'r \<Rightarrow> 'r" and current :: "'r \<Rightarrow> 's" and saved :: "'r \<Rightarrow> 's"
    and app :: "ctx \<times> Proposal \<Rightarrow> ('r, 'a) op" +
  fixes snapshot :: "'r \<Rightarrow> 'd" and load :: "'d \<Rightarrow> ('r, unit) op" and safe :: "'s \<Rightarrow> bool"
    and repo :: "('r, 'd, 'a) RaftRepo"
  assumes app_current: "current r = current q \<Longrightarrow>
      fst (app p r) = fst (app p q) \<and> current (snd (app p r)) = current (snd (app p q))"
    and load_current: "fst (load d r) = fst (load d q) \<and>
      (load d r = (Ok (), r') \<longrightarrow> load d q = (Ok (), q') \<longrightarrow> current r' = current q')"
    and load_snapshot: "safe (current r) \<Longrightarrow> \<exists>q'. load (snapshot r) q = (Ok (), q') \<and> current q' = current r"
    and repo_ops: "rr_Checkpoint repo = Checkpoint" "rr_Restore repo = Restore" "rr_Apply repo = app \<circ> id"
      "rr_RestoreFromSnapshot repo = load"
begin

lemma processCommit_current:
  assumes "current r = current q" and "processCommit repo c r = (x, r')" and "processCommit repo c q = (y, q')"
  shows "x = y \<and> (x \<noteq> Crashed \<longrightarrow> current r' = current q')"
proof (cases "ec_SnapshotData c")
  case (Some d)
  obtain a r1 b q1 where l: "load d r = (a, r1)" "load d q = (b, q1)" by fastforce
  with load_current [of d r q r1 q1] have "a = b" by simp
  with l Some assms(2,3) load_current [of d r q r1 q1] show ?thesis
    by (cases a) (auto simp: processCommit_def repo_ops)
next
  case None
  let ?p = "(Some (pr_Timestamp (ec_Prop c)), ec_Prop c)"
  show ?thesis
  proof (cases "pr_ReadOnly (ec_Prop c)")
    case True
    obtain a r1 b q1 where l: "app ?p r = (a, r1)" "app ?p q = (b, q1)" by fastforce
    with app_current [OF assms(1), of ?p] have "a = b" "current r1 = current q1" by simp_all
    with l processCommit_read [OF None True, of repo r a r1] processCommit_read [OF None True, of repo q b q1]
      assms(2,3) show ?thesis by (auto simp: repo_ops)
  next
    case False
    obtain a r1 b q1 where l: "app ?p (Checkpoint r) = (a, r1)" "app ?p (Checkpoint q) = (b, q1)" by fastforce
    with app_current [of "Checkpoint r" "Checkpoint q" ?p] assms(1)
    have "a = b" "current r1 = current q1" by (simp_all add: checkpoint_current)
    moreover have "current (Restore r1) = current (Restore q1)"
      using app_saved [of ?p "Checkpoint r"] app_saved [of ?p "Checkpoint q"] l assms(1)
      by (simp add: restore_current checkpoint_saved)
    ultimately show ?thesis
      using l processCommit_write [OF None False, of repo r a r1] processCommit_write [OF None False, of repo q b q1]
        assms(2,3) by (cases a) (auto simp: repo_ops)
  qed
qed

lemma processCommits_current:
  assumes "current r = current q" and "processCommits repo cs r = (xs, r')" and "processCommits repo cs q = (ys, q')"
  shows "xs = ys \<and> (Crashed \<notin> set xs \<longrightarrow> current r' = current q')"
  using assms
proof (induction cs arbitrary: r q xs ys r' q')
  case (Cons c cs)
  obtain x r1 y q1 where h: "processCommit repo c r = (x, r1)" "processCommit repo c q = (y, q1)" by fastforce
  from processCommit_current [OF Cons.prems(1) h] have xy: "y = x" "x \<noteq> Crashed \<Longrightarrow> current r1 = current q1" by auto
  obtain us r2 vs q2 where t: "processCommits repo cs r1 = (us, r2)" "processCommits repo cs q1 = (vs, q2)" by fastforce
  show ?case
  proof (cases "x = Crashed")
    case True
    with h xy(1) Cons.prems show ?thesis by auto
  next
    case False
    then have "xs = x # us" "ys = x # vs" "r' = r2" "q' = q2"
      using h xy(1) t Cons.prems(2,3) by (auto split: commit_result.splits)
    with Cons.IH [OF xy(2) [OF False] t] False show ?thesis by simp
  qed
qed simp

lemma catch_up:
  assumes "processCommits repo cs r0 = (xs, r1)" and "Crashed \<notin> set xs" and "safe (current r1)"
    and "processCommits repo (cs @ ds) r0 = (zs, r2)" and "Crashed \<notin> set zs"
  shows "\<exists>ys q'. processCommits repo (\<lparr>ec_Prop = p, ec_SnapshotData = Some (snapshot r1)\<rparr> # ds) q = (Restored # ys, q') \<and>
    zs = xs @ ys \<and> current q' = current r2"
proof -
  obtain q1 where q1: "load (snapshot r1) q = (Ok (), q1)" "current q1 = current r1" using load_snapshot [OF assms(3)] by blast
  obtain ys r3 ys' q2 where p: "processCommits repo ds r1 = (ys, r3)" "processCommits repo ds q1 = (ys', q2)" by fastforce
  have z: "zs = xs @ ys" "r2 = r3" using processCommits_append [OF assms(1,2), of ds] p assms(4) by auto
  with processCommits_current [OF q1(2) p(2,1)] assms(5) have "ys' = ys" "current q2 = current r2" by auto
  with q1 p(2) z show ?thesis by (simp add: processCommit_def repo_ops)
qed

end

end
