(* ===== verification/Scd_Registry.thy ===== *)
theory Scd_Registry
  imports Scd_Oir_Delete Raft_Store
begin

text \<open>
  The registry of the strategic-coordination operations: \<open>store.OperationHandler\<close> of
  \<open>src/pkg/store/store.go\<close> and the \<open>init\<close> functions of \<open>src/pkg/scd/operations\<close>, which enter every
  operation under its ID. What holds of all registered operations: the ones marked as read-only do not
  change the store, every one that succeeds keeps the invariant of the store, and no answer shows a
  client the OVN of another client's entity.
\<close>

section \<open>The registry\<close>

type_synonym scd_handler = "(scd_state, scd_request, scd_response) OperationHandler"

definition availability_handlers :: "externals \<Rightarrow> (string, scd_handler) gomap" where
  "availability_handlers L = [
     (''scdv1.GetUssAvailability'', \<lparr>oh_Execute = executeGetUssAvailability L, oh_IsReadOnly = True\<rparr>),
     (''scdv1.SetUssAvailability'', \<lparr>oh_Execute = executeSetUssAvailability L, oh_IsReadOnly = False\<rparr>)]"

definition constraint_handlers :: "externals \<Rightarrow> (string, scd_handler) gomap" where
  "constraint_handlers L = [
     (''scdv1.DeleteConstraintReference'', \<lparr>oh_Execute = executeDeleteConstraint L, oh_IsReadOnly = False\<rparr>),
     (''scdv1.GetConstraintReference'', \<lparr>oh_Execute = executeGetConstraint L, oh_IsReadOnly = True\<rparr>),
     (''scdv1.CreateConstraintReference'', \<lparr>oh_Execute = executePutConstraint L, oh_IsReadOnly = False\<rparr>),
     (''scdv1.UpdateConstraintReference'', \<lparr>oh_Execute = executePutConstraint L, oh_IsReadOnly = False\<rparr>),
     (''scdv1.QueryConstraintReferences'', \<lparr>oh_Execute = executeQueryConstraintReferences L, oh_IsReadOnly = True\<rparr>)]"

definition oir_handlers :: "externals \<Rightarrow> (string, scd_handler) gomap" where
  "oir_handlers L = [
     (''scdv1.GetOperationalIntentReference'',
        \<lparr>oh_Execute = executeGetOperationalIntentReference L, oh_IsReadOnly = True\<rparr>),
     (''scdv1.QueryOperationalIntentReferences'',
        \<lparr>oh_Execute = executeQueryOperationalIntentReferences L, oh_IsReadOnly = True\<rparr>),
     (''scdv1.DeleteOperationalIntentReference'',
        \<lparr>oh_Execute = executeDeleteOperationalIntentReference L, oh_IsReadOnly = False\<rparr>),
     (''scdv1.CreateOperationalIntentReference'',
        \<lparr>oh_Execute = executePutOperationalIntentReference L, oh_IsReadOnly = False\<rparr>),
     (''scdv1.UpdateOperationalIntentReference'',
        \<lparr>oh_Execute = executePutOperationalIntentReference L, oh_IsReadOnly = False\<rparr>)]"

definition subscription_handlers :: "externals \<Rightarrow> (string, scd_handler) gomap" where
  "subscription_handlers L = [
     (''scdv1.CreateSubscription'', \<lparr>oh_Execute = executePutSubscription L, oh_IsReadOnly = False\<rparr>),
     (''scdv1.UpdateSubscription'', \<lparr>oh_Execute = executePutSubscription L, oh_IsReadOnly = False\<rparr>),
     (''scdv1.DeleteSubscription'', \<lparr>oh_Execute = executeDeleteSubscription L, oh_IsReadOnly = False\<rparr>),
     (''scdv1.GetSubscription'', \<lparr>oh_Execute = executeGetSubscription L, oh_IsReadOnly = True\<rparr>),
     (''scdv1.QuerySubscriptions'', \<lparr>oh_Execute = executeQuerySubscriptions L, oh_IsReadOnly = True\<rparr>)]"

definition scd_Registry :: "externals \<Rightarrow> (string, scd_handler) gomap" where
  "scd_Registry L = availability_handlers L @ constraint_handlers L @ oir_handlers L @ subscription_handlers L"

lemmas scd_Registry_defs = scd_Registry_def availability_handlers_def constraint_handlers_def
  oir_handlers_def subscription_handlers_def

lemma wf_scd_Registry: "wf_gomap (scd_Registry L)"
  by (simp add: wf_gomap_def scd_Registry_defs)

text \<open>The handler a request is dispatched to.\<close>

fun scd_handler_of :: "externals \<Rightarrow> scd_request \<Rightarrow> scd_handler" where
  "scd_handler_of L (GetUssAvailabilityRequest _) = \<lparr>oh_Execute = executeGetUssAvailability L, oh_IsReadOnly = True\<rparr>"
| "scd_handler_of L (SetUssAvailabilityPayload _ _ _) = \<lparr>oh_Execute = executeSetUssAvailability L, oh_IsReadOnly = False\<rparr>"
| "scd_handler_of L (GetConstraintReferenceRequest _ _) = \<lparr>oh_Execute = executeGetConstraint L, oh_IsReadOnly = True\<rparr>"
| "scd_handler_of L (CreateConstraintPayload _) = \<lparr>oh_Execute = executePutConstraint L, oh_IsReadOnly = False\<rparr>"
| "scd_handler_of L (UpdateConstraintPayload _) = \<lparr>oh_Execute = executePutConstraint L, oh_IsReadOnly = False\<rparr>"
| "scd_handler_of L (QueryConstraintReferencesRequest _ _) = \<lparr>oh_Execute = executeQueryConstraintReferences L, oh_IsReadOnly = True\<rparr>"
| "scd_handler_of L (DeleteConstraintPayload _ _ _) = \<lparr>oh_Execute = executeDeleteConstraint L, oh_IsReadOnly = False\<rparr>"
| "scd_handler_of L (CreateSubscriptionPayload _) = \<lparr>oh_Execute = executePutSubscription L, oh_IsReadOnly = False\<rparr>"
| "scd_handler_of L (UpdateSubscriptionPayload _) = \<lparr>oh_Execute = executePutSubscription L, oh_IsReadOnly = False\<rparr>"
| "scd_handler_of L (DeleteSubscriptionPayload _ _ _) = \<lparr>oh_Execute = executeDeleteSubscription L, oh_IsReadOnly = False\<rparr>"
| "scd_handler_of L (GetSubscriptionRequest _ _) = \<lparr>oh_Execute = executeGetSubscription L, oh_IsReadOnly = True\<rparr>"
| "scd_handler_of L (QuerySubscriptionsRequest _ _) = \<lparr>oh_Execute = executeQuerySubscriptions L, oh_IsReadOnly = True\<rparr>"
| "scd_handler_of L (GetOperationalIntentReferenceRequest _ _) =
     \<lparr>oh_Execute = executeGetOperationalIntentReference L, oh_IsReadOnly = True\<rparr>"
| "scd_handler_of L (QueryOperationalIntentReferencesRequest _ _) =
     \<lparr>oh_Execute = executeQueryOperationalIntentReferences L, oh_IsReadOnly = True\<rparr>"
| "scd_handler_of L (DeleteOIRPayload _ _ _) = \<lparr>oh_Execute = executeDeleteOperationalIntentReference L, oh_IsReadOnly = False\<rparr>"
| "scd_handler_of L (CreateOIRPayload _ _) = \<lparr>oh_Execute = executePutOperationalIntentReference L, oh_IsReadOnly = False\<rparr>"
| "scd_handler_of L (UpdateOIRPayload _ _) = \<lparr>oh_Execute = executePutOperationalIntentReference L, oh_IsReadOnly = False\<rparr>"

lemma scd_Registry_handler: "map_of (scd_Registry L) (scd_OperationID req) = Some (scd_handler_of L req)"
  by (cases req) (simp_all add: scd_Registry_defs)

section \<open>Read-only operations\<close>

lemma readonly_query_subscriptions_loop [pres_intros]: "readonly (query_subscriptions_loop L now c subs)"
  by (induction subs) (auto intro!: pres_intros)

lemma readonly_reads [pres_intros]:
  "readonly (executeGetUssAvailability L ctx req)" "readonly (executeGetConstraint L ctx req)"
  "readonly (executeQueryConstraintReferences L ctx req)" "readonly (executeGetSubscription L ctx req)"
  "readonly (executeQuerySubscriptions L ctx req)" "readonly (executeGetOperationalIntentReference L ctx req)"
  "readonly (executeQueryOperationalIntentReferences L ctx req)"
  unfolding executeGetUssAvailability_def executeGetConstraint_def executeQueryConstraintReferences_def
    executeGetSubscription_def executeQuerySubscriptions_def executeGetOperationalIntentReference_def
    executeQueryOperationalIntentReferences_def
  by (cases req; auto intro!: pres_intros split: option.splits)+

lemma registry_readonly:
  "map_of (scd_Registry L) opid = Some h \<Longrightarrow> oh_IsReadOnly h \<Longrightarrow> readonly (oh_Execute h ctx req)"
  by (auto simp: scd_Registry_defs pres_intros split: if_splits)

section \<open>The invariant of the store\<close>

text \<open>What the invariant needs of a request: a subscription
  that a client puts has an ID and is not implicit, which the payload constructors establish
  (\<open>put_subscription_admissible\<close>; an ID is the text of a UUID), and the ID that \<open>uuid.New()\<close> drew for an implicit subscription is
  new.\<close>

definition admissible :: "scd_state \<Rightarrow> scd_request \<Rightarrow> bool" where
  "admissible st req \<longleftrightarrow>
     (case subscription_of req of None \<Rightarrow> True | Some s \<Rightarrow> sub_ID s \<noteq> '''' \<and> \<not> sub_ImplicitSubscription s) \<and>
     (case oir_of req of None \<Rightarrow> True | Some (_, vp) \<Rightarrow> fresh_implicit st vp)"

lemma put_subscription_admissible:
  assumes "NewCreateSubscriptionPayload L i m params allowHTTP = Ok req \<or> NewUpdateSubscriptionPayload L i m v params allowHTTP = Ok req"
  shows "\<exists>s. subscription_of req = Some s \<and> \<not> sub_ImplicitSubscription s \<and> IDFromString L i = Ok (sub_ID s) \<and> oir_of req = None"
  using assms
  by (auto simp: NewCreateSubscriptionPayload_def NewUpdateSubscriptionPayload_def newSubscription_def monad_simps Let_def
      split: if_splits)

lemma executeSetUssAvailability_inv:
  "scd_inv st \<Longrightarrow> executeSetUssAvailability L ctx req st = (r, st') \<Longrightarrow> scd_inv st'"
proof -
  assume inv: "scd_inv st" and e: "executeSetUssAvailability L ctx req st = (r, st')"
  have u: "scd_inv t" if "UpsertUssAvailability L ctx a st = (x, t)" for a x t
  proof -
    have wf: "scd_wf t" using preservesD [OF preserves_upserts(3) _ that] inv by (simp add: scd_inv_def)
    from that have "t = st \<or> t = st\<lparr>st_Availabilities := st_Availabilities t\<rparr>"
      by (auto simp: UpsertUssAvailability_def bindE_def Let_def split: outcome.splits)
    then show ?thesis using inv wf scd_inv_constraints(2) [OF inv, of "st_Availabilities t"] by metis
  qed
  with inv e show ?thesis
    by (cases req) (auto simp: executeSetUssAvailability_def unexpected_request_def Let_def bindE_def
        split: if_splits option.splits prod.splits outcome.splits)
qed

lemma UpsertConstraint_inv: "scd_inv st \<Longrightarrow> UpsertConstraint L ctx c st = (x, t) \<Longrightarrow> scd_inv t"
proof -
  assume inv: "scd_inv st" and e: "UpsertConstraint L ctx c st = (x, t)"
  have wf: "scd_wf t" using preservesD [OF preserves_upserts(1) _ e] inv by (simp add: scd_inv_def)
  from e have "t = st \<or> t = st\<lparr>st_Constraints := st_Constraints t\<rparr>"
    by (auto simp: UpsertConstraint_def bindE_def Let_def split: outcome.splits)
  then show ?thesis using inv wf scd_inv_constraints(1) [OF inv, of "st_Constraints t"] by metis
qed

lemma executePutConstraint_inv:
  assumes "scd_inv st" "executePutConstraint L ctx req st = (Ok resp, st')"
  shows "scd_inv st'"
proof (cases "constraint_of req")
  case (Some c)
  from assms(2) show ?thesis
    unfolding executePutConstraint_conv [OF Some]
    by (auto simp: monad_simps) (metis UpsertConstraint_inv assms(1) increment_where_inv snd_conv)
qed (use assms in \<open>simp add: executePutConstraint_None unexpected_request_def\<close>)

lemma executeDeleteConstraint_inv:
  assumes "scd_inv st" "executeDeleteConstraint L ctx req st = (Ok resp, st')"
  shows "scd_inv st'"
proof -
  have d: "scd_inv t" if "DeleteConstraint i st = (x, t)" for i x t
  proof -
    have "scd_wf t" using preservesD [OF preserves_deletes(1) _ that] assms(1) by (simp add: scd_inv_def)
    moreover from that have "t = st \<or> t = st\<lparr>st_Constraints := st_Constraints t\<rparr>"
      by (auto simp: DeleteConstraint_def split: if_splits)
    ultimately show ?thesis using assms(1) scd_inv_constraints(1) [OF assms(1), of "st_Constraints t"] by metis
  qed
  from assms(2) obtain i v t subs where "DeleteConstraint i st = (Ok (), t)"
      "increment_where L sr_NotifyForConstraints v t = (Ok subs, st')"
    by (cases req) (auto simp: executeDeleteConstraint_def unexpected_request_def monad_simps split: option.splits if_splits)
  then show ?thesis using d increment_where_inv [of t L sr_NotifyForConstraints v] by simp
qed

lemma executePutSubscription_inv:
  assumes "scd_inv st" "admissible st req" "executePutSubscription L ctx req st = (Ok resp, st')"
  shows "scd_inv st'"
proof (cases "subscription_of req")
  case (Some s0)
  have wf: "scd_wf st" using assms(1) by (simp add: scd_inv_def)
  from executePutSubscription_steps [OF wf Some assms(3)] obtain now s sub ids stored where st:
      "Subscription_AdjustTimeRange now s0 (find_subscription L st (sub_ID s0)) = Ok s"
      "check_subscription_update L s (find_subscription L st (sub_ID s0)) st = (Ok (sub, ids), st)"
      "UpsertSubscription L ctx sub st = (Ok stored, st')" by auto
  from AdjustTimeRange_Ok [OF st(1)] have "sub_ID s = sub_ID s0" "sub_ImplicitSubscription s = sub_ImplicitSubscription s0"
    by auto
  moreover from check_subscription_update_Ok [OF st(2)]
  have "sub_ID sub = sub_ID s" "sub_ImplicitSubscription sub = sub_ImplicitSubscription s"
    by (auto split: option.splits)
  ultimately have "sub_ID sub \<noteq> ''''" "\<not> sub_ImplicitSubscription sub"
    using assms(2) Some by (auto simp: admissible_def)
  with UpsertSubscription_Ok [OF st(3)] scd_inv_upsert_subscription [OF assms(1), of _ "sub_ID sub"]
  show ?thesis by metis
qed (use assms in \<open>simp add: executePutSubscription_def unexpected_request_def\<close>)

lemma executeDeleteSubscription_inv:
  assumes "scd_inv st" "executeDeleteSubscription L ctx req st = (Ok resp, st')"
  shows "scd_inv st'"
proof (cases "\<exists>i m v. req = DeleteSubscriptionPayload i m v")
  case True
  then show ?thesis
    using assms by (auto simp: executeDeleteSubscription_conv split: option.splits if_splits
        intro: scd_inv_delete_subscription)
qed (use assms(2) in \<open>cases req; simp add: executeDeleteSubscription_def unexpected_request_def\<close>)

lemma executePutOIR_inv:
  assumes "scd_inv st" "admissible st req" "executePutOperationalIntentReference L ctx req st = (Ok resp, st')"
  shows "scd_inv st'"
proof (cases "oir_of req")
  case (Some p)
  obtain m vp where p: "p = (m, vp)" by fastforce
  have fresh: "fresh_implicit st vp" using assms(2) Some p by (simp add: admissible_def)
  from executePut_Ok [OF Some [unfolded p] assms(3)] consider "st' = st"
    | att up rm att' op st1 st2 st3 v subs where "put_stored L ctx m vp st att up rm att' op st1 st2 st3"
        "increment_where L sr_NotifyForOperationalIntents v st3 = (Ok subs, st')" by blast
  then show ?thesis
  proof cases
    case 2
    with put_stored_inv [OF assms(1) 2(1) fresh]
      increment_where_inv [of st3 L sr_NotifyForOperationalIntents v] show ?thesis by simp
  qed (use assms(1) in simp)
qed (use assms in \<open>simp add: executePutOperationalIntentReference_def unexpected_request_def\<close>)

lemma executeDeleteOIR_inv:
  assumes "scd_inv st" "executeDeleteOperationalIntentReference L ctx req st = (Ok resp, st')"
  shows "scd_inv st'"
proof (cases "\<exists>i m v. req = DeleteOIRPayload i m v")
  case True
  then obtain i m v where req: "req = DeleteOIRPayload i m v" by blast
  from intent_delete.del_guard [OF assms(2) [unfolded req]] obtain old where old: "find_intent L st i = Some old"
      "oi_Manager old = m" "oi_OVN old = v" by blast
  have "oi_UssAvailability old \<noteq> UssAvailabilityStateDown"
    using assms(2) old by (auto simp: req executeDeleteOperationalIntentReference_def)
  from executeDeleteOIR_Ok [OF assms(1) old this, of ctx] assms(2) have "st' = delete_result L st i old"
    by (auto simp: req)
  moreover obtain r where "map_of (st_OperationalIntents st) i = Some r" using old(1) by (auto simp: find_intent_def)
  ultimately show ?thesis using delete_result_inv [OF assms(1)] by blast
qed (use assms(2) in \<open>cases req; simp add: executeDeleteOperationalIntentReference_def unexpected_request_def\<close>)

lemma registry_write_inv:
  assumes "scd_inv st" and "admissible st req" and "map_of (scd_Registry L) opid = Some h" and "\<not> oh_IsReadOnly h"
    and "oh_Execute h ctx req st = (Ok resp, st')"
  shows "scd_inv st'"
proof -
  from assms(3,4) have "oh_Execute h \<in> {executeSetUssAvailability L, executeDeleteConstraint L, executePutConstraint L,
      executeDeleteOperationalIntentReference L, executePutOperationalIntentReference L,
      executePutSubscription L, executeDeleteSubscription L}"
    by (auto simp: scd_Registry_defs split: if_splits)
  then consider "oh_Execute h = executeSetUssAvailability L" | "oh_Execute h = executeDeleteConstraint L"
    | "oh_Execute h = executePutConstraint L" | "oh_Execute h = executeDeleteOperationalIntentReference L"
    | "oh_Execute h = executePutOperationalIntentReference L" | "oh_Execute h = executePutSubscription L"
    | "oh_Execute h = executeDeleteSubscription L"
    by blast
  then show ?thesis
    using assms(5) executeSetUssAvailability_inv [OF assms(1)] executePutConstraint_inv [OF assms(1)]
      executeDeleteConstraint_inv [OF assms(1)] executePutSubscription_inv [OF assms(1,2)]
      executeDeleteSubscription_inv [OF assms(1)] executePutOIR_inv [OF assms(1,2)] executeDeleteOIR_inv [OF assms(1)]
    by cases simp_all
qed

text \<open>The invariant of the strategic-coordination store: every intent's subscription exists, every
  implicit subscription has an intent that depends on it, every record is stored under its own ID and
  is complete. A registered operation that succeeds on an admissible request keeps it so.\<close>

lemma registry_keeps_inv:
  assumes "scd_inv st" and "admissible st req"
    and "map_of (scd_Registry L) opid = Some h" and "oh_Execute h ctx req st = (Ok resp, st')"
  shows "scd_inv st'"
proof (cases "oh_IsReadOnly h")
  case True
  with registry_readonly [OF assms(3)] assms(1,4) show ?thesis by (metis readonlyD)
qed (use assms registry_write_inv in blast)

section \<open>Who sees an OVN\<close>

text \<open>The client of a request, and the managers and OVNs of the intents and constraints in a response.\<close>

fun client_of :: "scd_request \<Rightarrow> Manager option" where
  "client_of (GetUssAvailabilityRequest _) = None"
| "client_of (SetUssAvailabilityPayload _ _ _) = None"
| "client_of (GetConstraintReferenceRequest _ c) = c"
| "client_of (CreateConstraintPayload c) = Some (con_Manager c)"
| "client_of (UpdateConstraintPayload c) = Some (con_Manager c)"
| "client_of (QueryConstraintReferencesRequest _ c) = c"
| "client_of (DeleteConstraintPayload _ m _) = Some m"
| "client_of (CreateSubscriptionPayload s) = Some (sub_Manager s)"
| "client_of (UpdateSubscriptionPayload s) = Some (sub_Manager s)"
| "client_of (DeleteSubscriptionPayload _ m _) = Some m"
| "client_of (GetSubscriptionRequest _ c) = c"
| "client_of (QuerySubscriptionsRequest _ c) = c"
| "client_of (GetOperationalIntentReferenceRequest _ c) = c"
| "client_of (QueryOperationalIntentReferencesRequest _ c) = c"
| "client_of (DeleteOIRPayload _ m _) = Some m"
| "client_of (CreateOIRPayload m _) = Some m"
| "client_of (UpdateOIRPayload m _) = Some m"

definition oir_OVNs :: "rest_OIR list \<Rightarrow> (Manager \<times> OVN option) list" where
  "oir_OVNs = map (\<lambda>p. (roi_Manager p, roi_Ovn p))"

definition constraint_OVNs :: "rest_Constraint list \<Rightarrow> (Manager \<times> OVN option) list" where
  "constraint_OVNs = map (\<lambda>p. (rco_Manager p, rco_Ovn p))"

fun shown_OVNs :: "scd_response \<Rightarrow> (Manager \<times> OVN option) list" where
  "shown_OVNs (GetConstraintReferenceResponse c) = constraint_OVNs [c]"
| "shown_OVNs (ChangeConstraintReferenceResponse c _) = constraint_OVNs [c]"
| "shown_OVNs (QueryConstraintReferencesResponse cs) = constraint_OVNs cs"
| "shown_OVNs (PutSubscriptionResponse _ os cs) =
     oir_OVNs (case os of None \<Rightarrow> [] | Some xs \<Rightarrow> xs) @ constraint_OVNs (case cs of None \<Rightarrow> [] | Some xs \<Rightarrow> xs)"
| "shown_OVNs (GetOperationalIntentReferenceResponse p) = oir_OVNs [p]"
| "shown_OVNs (QueryOperationalIntentReferenceResponse ps) = oir_OVNs ps"
| "shown_OVNs (ChangeOperationalIntentReferenceResponse p _) = oir_OVNs [p]"
| "shown_OVNs (PutOIRResult_Response p _) = oir_OVNs [p]"
| "shown_OVNs (PutOIRResult_Conflict c) =
     oir_OVNs (case ac_MissingOperationalIntents c of None \<Rightarrow> [] | Some xs \<Rightarrow> xs) @
     constraint_OVNs (case ac_MissingConstraints c of None \<Rightarrow> [] | Some xs \<Rightarrow> xs)"
| "shown_OVNs _ = []"

definition hides :: "Manager option \<Rightarrow> (Manager \<times> OVN option) list \<Rightarrow> bool" where
  "hides client vs \<longleftrightarrow> (\<forall>(m, v) \<in> set vs. client = Some m \<or> v = Some NoOvnPhrase)"

lemma hides_simps [simp]:
  "hides c []" "hides c (xs @ ys) \<longleftrightarrow> hides c xs \<and> hides c ys"
  "hides c (oir_OVNs [OperationalIntent_ToRest L o1]) \<longleftrightarrow> c = Some (oi_Manager o1) \<or> oi_OVN o1 = NoOvnPhrase"
  "hides c (constraint_OVNs [Constraint_ToRest L c1]) \<longleftrightarrow> c = Some (con_Manager c1) \<or> con_OVN c1 = NoOvnPhrase"
  "hides c (oir_OVNs [])" "hides c (constraint_OVNs [])"
  by (auto simp: hides_def oir_OVNs_def constraint_OVNs_def OperationalIntent_ToRest_def Constraint_ToRest_def)

lemma hides_lists [simp]:
  "hides (Some m) (oir_OVNs (map (intent_for L m) os))"
  "hides (Some m) (constraint_OVNs (map (constraint_for L m) cs))"
  by (auto simp: hides_def oir_OVNs_def constraint_OVNs_def intent_for_def constraint_for_def Let_def
      OperationalIntent_ToRest_def Constraint_ToRest_def)

lemma hides_for_client:
  "for_client c os (intent_for L) = Ok ps \<Longrightarrow> hides c (oir_OVNs ps)"
  "for_client c cs (constraint_for L) = Ok qs \<Longrightarrow> hides c (constraint_OVNs qs)"
  by (cases c; auto simp: for_client_def split: if_splits)+

lemma relevant_hides:
  "relevant_intents L m s st = (Ok os, t) \<Longrightarrow> hides (Some m) (oir_OVNs (case os of None \<Rightarrow> [] | Some xs \<Rightarrow> xs))"
  "relevant_constraints L m s st = (Ok cs, t) \<Longrightarrow> hides (Some m) (constraint_OVNs (case cs of None \<Rightarrow> [] | Some xs \<Rightarrow> xs))"
  by (auto simp: relevant_intents_def relevant_constraints_def monad_simps split: if_splits)

lemma hides_reads:
  "executeGetUssAvailability L ctx req st = (Ok resp, st') \<Longrightarrow> hides (client_of req) (shown_OVNs resp)"
  "executeGetConstraint L ctx req st = (Ok resp, st') \<Longrightarrow> hides (client_of req) (shown_OVNs resp)"
  "executeQueryConstraintReferences L ctx req st = (Ok resp, st') \<Longrightarrow> hides (client_of req) (shown_OVNs resp)"
  "executeGetSubscription L ctx req st = (Ok resp, st') \<Longrightarrow> hides (client_of req) (shown_OVNs resp)"
  "executeQuerySubscriptions L ctx req st = (Ok resp, st') \<Longrightarrow> hides (client_of req) (shown_OVNs resp)"
  "executeGetOperationalIntentReference L ctx req st = (Ok resp, st') \<Longrightarrow> hides (client_of req) (shown_OVNs resp)"
  "executeQueryOperationalIntentReferences L ctx req st = (Ok resp, st') \<Longrightarrow> hides (client_of req) (shown_OVNs resp)"
  by (cases req; auto simp: unexpected_request_def monad_simps availability_response_def deref_def
      executeGetUssAvailability_def executeGetConstraint_def executeQueryConstraintReferences_def
      executeGetSubscription_def executeQuerySubscriptions_def executeGetOperationalIntentReference_def
      executeQueryOperationalIntentReferences_def dest: hides_for_client split: option.splits if_splits)+

lemma client_of_puts:
  "constraint_of req = Some c \<Longrightarrow> client_of req = Some (con_Manager c)"
  "subscription_of req = Some s \<Longrightarrow> client_of req = Some (sub_Manager s)"
  "oir_of req = Some (m, vp) \<Longrightarrow> client_of req = Some m"
  by (cases req; simp)+

lemma hides_constraint_writes:
  "executePutConstraint L ctx req st = (Ok resp, st') \<Longrightarrow> hides (client_of req) (shown_OVNs resp)"
  "executeDeleteConstraint L ctx req st = (Ok resp, st') \<Longrightarrow> hides (client_of req) (shown_OVNs resp)"
proof -
  assume e: "executePutConstraint L ctx req st = (Ok resp, st')"
  show "hides (client_of req) (shown_OVNs resp)"
  proof (cases "constraint_of req")
    case (Some c)
    from e show ?thesis unfolding executePutConstraint_conv [OF Some]
      by (auto simp: monad_simps client_of_puts(1) [OF Some] dest: UpsertConstraint_Ok)
  qed (use e in \<open>simp add: executePutConstraint_None unexpected_request_def\<close>)
next
  assume "executeDeleteConstraint L ctx req st = (Ok resp, st')"
  then show "hides (client_of req) (shown_OVNs resp)"
    by (cases req) (auto simp: executeDeleteConstraint_def unexpected_request_def monad_simps split: option.splits if_splits)
qed

lemma hides_PutSubscription:
  assumes "executePutSubscription L ctx req st = (Ok resp, st')"
  shows "hides (client_of req) (shown_OVNs resp)"
proof (cases "subscription_of req")
  case (Some s0)
  from assms obtain now s sub ids t u os cs w stored where st:
      "Subscription_AdjustTimeRange now s0 (find_subscription L st (sub_ID s0)) = Ok s"
      "check_subscription_update L s (find_subscription L st (sub_ID s0)) st = (Ok (sub, ids), t)"
      "relevant_intents L (sub_Manager sub) stored u = (Ok os, w)"
      "relevant_constraints L (sub_Manager sub) stored w = (Ok cs, st')"
      "resp = PutSubscriptionResponse (Subscription_ToRest L stored ids) os cs"
    using Some by (auto simp: executePutSubscription_def Let_def monad_simps)
  from AdjustTimeRange_Ok [OF st(1)] check_subscription_update_Ok [OF st(2)] have "sub_Manager sub = sub_Manager s0"
    by (auto split: option.splits)
  with st(5) relevant_hides(1) [OF st(3)] relevant_hides(2) [OF st(4)] client_of_puts(2) [OF Some]
  show ?thesis by simp
qed (use assms in \<open>simp add: executePutSubscription_def unexpected_request_def\<close>)

lemma hides_conflict:
  assumes "validateKeyAndProvideConflictResponse L m vp att st = (Ok (Some c), t)"
  shows "hides (Some m) (shown_OVNs (PutOIRResult_Conflict c))"
  using assms by (auto simp: validateKeyAndProvideConflictResponse_def Let_def monad_simps split: if_splits)

lemma hides_oir_writes:
  "executePutOperationalIntentReference L ctx req st = (Ok resp, st') \<Longrightarrow> scd_wf st \<Longrightarrow> hides (client_of req) (shown_OVNs resp)"
  "executeDeleteOperationalIntentReference L ctx req st = (Ok resp, st') \<Longrightarrow> hides (client_of req) (shown_OVNs resp)"
proof -
  assume e: "executePutOperationalIntentReference L ctx req st = (Ok resp, st')" and wf: "scd_wf st"
  show "hides (client_of req) (shown_OVNs resp)"
  proof (cases "oir_of req")
    case (Some p)
    obtain m vp where p: "oir_of req = Some (m, vp)" using Some by (cases p) simp
    from executePut_Ok [OF p e] consider c att where "resp = PutOIRResult_Conflict c"
        "validateKeyAndProvideConflictResponse L m vp att st = (Ok (Some c), st)"
      | att up rm att' op st1 st2 st3 subs where "put_stored L ctx m vp st att up rm att' op st1 st2 st3"
        "resp = PutOIRResult_Response (OperationalIntent_ToRest L op) (makeSubscribersToNotify subs)" by blast
    then show ?thesis
    proof cases
      case 1
      then show ?thesis using hides_conflict client_of_puts(3) [OF p] by metis
    next
      case 2
      then have "oi_Manager op = m" using put_stored_op [OF wf 2(1)] by auto
      with 2 client_of_puts(3) [OF p] show ?thesis by simp
    qed
  qed (use e in \<open>simp add: executePutOperationalIntentReference_def unexpected_request_def\<close>)
next
  assume "executeDeleteOperationalIntentReference L ctx req st = (Ok resp, st')"
  then show "hides (client_of req) (shown_OVNs resp)"
    by (cases req) (auto simp: executeDeleteOperationalIntentReference_def unexpected_request_def Let_def monad_simps
        split: option.splits if_splits)
qed

lemma hides_others:
  "executeSetUssAvailability L ctx req st = (Ok resp, st') \<Longrightarrow> hides (client_of req) (shown_OVNs resp)"
  "executeDeleteSubscription L ctx req st = (Ok resp, st') \<Longrightarrow> hides (client_of req) (shown_OVNs resp)"
  by (cases req; auto simp: executeSetUssAvailability_def executeDeleteSubscription_def unexpected_request_def Let_def
      availability_response_def monad_simps split: option.splits if_splits)+

text \<open>C16: an OVN is a capability: a client needs the OVNs of the entities around it to plan, and learns
  them from their managers. No registered operation, whether it reads, searches, changes an entity or
  reports a conflict, shows a client the OVN of an intent or constraint that another client manages;
  the placeholder phrase is in its place.\<close>

theorem scd_Registry_hides_OVNs:
  assumes "scd_wf st" and "map_of (scd_Registry L) opid = Some h" and "oh_Execute h ctx req st = (Ok resp, st')"
    and "(m, v) \<in> set (shown_OVNs resp)" and "client_of req \<noteq> Some m"
  shows "v = Some NoOvnPhrase"
proof -
  from assms(2) have "oh_Execute h \<in> {executeGetUssAvailability L, executeSetUssAvailability L, executeDeleteConstraint L,
      executeGetConstraint L, executePutConstraint L, executeQueryConstraintReferences L,
      executeGetOperationalIntentReference L, executeQueryOperationalIntentReferences L,
      executeDeleteOperationalIntentReference L, executePutOperationalIntentReference L,
      executePutSubscription L, executeDeleteSubscription L, executeGetSubscription L, executeQuerySubscriptions L}"
    by (auto simp: scd_Registry_defs split: if_splits)
  with assms(1,3) have "hides (client_of req) (shown_OVNs resp)"
    by (elim insertE emptyE)
      (simp_all add: hides_reads hides_constraint_writes hides_PutSubscription hides_oir_writes hides_others)
  with assms(4,5) show ?thesis by (auto simp: hides_def)
qed

theorem scd_Registry_hides_OVNs_witness:
  "let req = GetOperationalIntentReferenceRequest ''0000'' (Some ''uss2'');
       st = demo_scd_state\<lparr>st_OperationalIntents := [(''0000'', demo_intent_record\<lparr>or_ID := ''0000''\<rparr>)]\<rparr> in
   \<exists>p. executeGetOperationalIntentReference demo_externals None req st = (Ok (GetOperationalIntentReferenceResponse p), st) \<and>
       roi_Manager p = ''uss1'' \<and> roi_Ovn p = Some NoOvnPhrase"
proof -
  define req where "req = GetOperationalIntentReferenceRequest ''0000'' (Some ''uss2'')"
  define st where "st = demo_scd_state\<lparr>st_OperationalIntents := [(''0000'', demo_intent_record\<lparr>or_ID := ''0000''\<rparr>)]\<rparr>"
  have wf: "scd_wf st"
    by (auto simp: st_def scd_wf_def demo_scd_defs keyed_def all_values_def wf_gomap_def intent_complete_def)
  have "IDFromString demo_externals ''0000'' = Ok ''0000''"
    by (simp add: IDFromString_def) (simp add: numeral_eq_Suc)
  moreover obtain o1 where o1: "find_intent demo_externals st ''0000'' = Some o1" "oi_Manager o1 = ''uss1''"
    by (simp add: find_intent_def st_def demo_intent_record_def)
  ultimately obtain p where e: "executeGetOperationalIntentReference demo_externals None req st =
      (Ok (GetOperationalIntentReferenceResponse p), st)" "roi_Manager p = ''uss1''"
    by (simp add: executeGetOperationalIntentReference_def req_def OperationalIntent_ToRest_def)
  have "oh_Execute (scd_handler_of demo_externals req) None req st = (Ok (GetOperationalIntentReferenceResponse p), st)"
    using e(1) by (simp add: req_def)
  moreover have "(''uss1'', roi_Ovn p) \<in> set (shown_OVNs (GetOperationalIntentReferenceResponse p))"
    using e(2) by (simp add: oir_OVNs_def)
  moreover have "client_of req \<noteq> Some ''uss1''" by (simp add: req_def)
  ultimately have "roi_Ovn p = Some NoOvnPhrase"
    by (rule scd_Registry_hides_OVNs [OF wf scd_Registry_handler])
  with e show ?thesis unfolding Let_def req_def [symmetric] st_def [symmetric] by blast
qed

end
