(* ===== verification/Consensus_State.thy ===== *)
theory Consensus_State
  imports Raft_Store
begin

text \<open>
  The state a node keeps beside the Raft library, \<open>src/pkg/raftstore/consensus\<close>: the members of the
  group and the retired IDs (\<open>membership.go\<close>), the proposals that wait for their result
  (\<open>proposal.go\<close>) and the reads that wait for their index (\<open>readindex.go\<close>).

  The types of \<open>raftpb\<close> are those of the library \<open>go.etcd.io/raft\<close>; the check of a peer URL,
  \<open>types.NewURLs\<close>, is a parameter. A transport is represented by the calls made to it. A Go channel
  is a number; what was sent on it, or that it was closed, is recorded in the order of the events.
  The mutexes make each operation below one step; steps of different goroutines interleave.
\<close>

section \<open>Membership\<close>

datatype ConfChangeType = ConfChangeAddNode | ConfChangeRemoveNode | ConfChangeUpdateNode | ConfChangeAddLearnerNode

record ConfChangeSingle =
  cc_Type :: ConfChangeType
  cc_NodeId :: "64 word"

record member =
  mb_URL :: string

datatype transport_call = AddPeer "64 word" string | RemovePeer "64 word"

record membership =
  ms_nodeID :: "64 word"
  ms_members :: "(64 word, member) gomap"
  ms_removedIDs :: "64 word list"
  ms_transport :: "transport_call list"

abbreviation minVoters :: int where "minVoters \<equiv> 3"
abbreviation raft_None :: "64 word" where "raft_None \<equiv> 0"

definition isIDRemoved :: "membership \<Rightarrow> 64 word \<Rightarrow> bool" where
  "isIDRemoved m i = (i \<in> set (ms_removedIDs m))"

definition addNode :: "64 word \<Rightarrow> member \<Rightarrow> membership \<Rightarrow> membership" where
  "addNode nodeID mem m =
     (let m1 = m\<lparr>ms_members := AList.update nodeID mem (ms_members m)\<rparr>
      in if nodeID \<noteq> ms_nodeID m1
         then m1\<lparr>ms_transport := ms_transport m1 @ [AddPeer nodeID (mb_URL mem)]\<rparr> else m1)"

definition removeNode :: "64 word \<Rightarrow> membership \<Rightarrow> membership" where
  "removeNode nodeID m =
     (let m1 = m\<lparr>ms_members := AList.delete nodeID (ms_members m), ms_removedIDs := ms_removedIDs m @ [nodeID]\<rparr>
      in if nodeID \<noteq> ms_nodeID m1
         then m1\<lparr>ms_transport := ms_transport m1 @ [RemovePeer nodeID]\<rparr> else m1)"

text \<open>\<open>restore\<close>; a nil map and an empty one are the same list.\<close>

definition membership_restore ::
    "(64 word, member) gomap \<Rightarrow> 64 word list \<Rightarrow> (membership, unit) op" where
  "membership_restore members removedIDs m =
     (case find (\<lambda>i. map_of members i \<noteq> None) removedIDs of
        Some i \<Rightarrow> (Err (NewError ''removed ID is still present in the members map''), m)
      | None \<Rightarrow> (Ok (), m\<lparr>ms_members := members, ms_removedIDs := removedIDs,
          ms_transport := ms_transport m @ map RemovePeer removedIDs @
            map (\<lambda>(i, mem). AddPeer i (mb_URL mem))
              (filter (\<lambda>(i, mem). i \<noteq> ms_nodeID m \<and> mb_URL mem \<noteq> '''') members)\<rparr>))"

definition validateConfChange :: "(string \<Rightarrow> bool) \<Rightarrow> membership \<Rightarrow> ConfChangeSingle \<Rightarrow> string \<Rightarrow> unit outcome" where
  "validateConfChange validURL m change peerURL =
     (if cc_NodeId change = raft_None then Err (NewErrorWithCode BadRequest ''node ID is invalid'')
      else if cc_NodeId change \<in> set (ms_removedIDs m)
      then Err (NewErrorWithCode BadRequest ''node ID was removed from the group and cannot be reused'')
      else
        let isMember = (map_of (ms_members m) (cc_NodeId change) \<noteq> None) in
        case cc_Type change of
          ConfChangeAddNode \<Rightarrow>
            if isMember then Err (NewErrorWithCode BadRequest ''node is already a member of the group'')
            else if \<not> validURL peerURL then Err (NewErrorWithCode BadRequest ''invalid URL'')
            else Ok ()
        | ConfChangeRemoveNode \<Rightarrow>
            if \<not> isMember then Err (NewErrorWithCode BadRequest ''node is not a member of the group'')
            else if int (length (ms_members m)) - 1 < minVoters
            then Err (NewErrorWithCode BadRequest ''removing node would leave too few voters'')
            else Ok ()
        | _ \<Rightarrow> Err (NewErrorWithCode BadRequest ''unsupported config change type''))"

text \<open>The part of \<open>applyConfigChangeV2\<close> that changes the membership once the change is accepted.\<close>

definition apply_change :: "ConfChangeSingle \<Rightarrow> member \<Rightarrow> membership \<Rightarrow> membership" where
  "apply_change change mem m =
     (case cc_Type change of
        ConfChangeAddNode \<Rightarrow> addNode (cc_NodeId change) mem m
      | ConfChangeRemoveNode \<Rightarrow> removeNode (cc_NodeId change) m
      | _ \<Rightarrow> m)"

subsection \<open>What a change does\<close>

lemma addNode_sel [simp]:
  "ms_members (addNode i mem m) = AList.update i mem (ms_members m)"
  "ms_removedIDs (addNode i mem m) = ms_removedIDs m" "ms_nodeID (addNode i mem m) = ms_nodeID m"
  by (simp_all add: addNode_def Let_def)

lemma removeNode_sel [simp]:
  "ms_members (removeNode i m) = AList.delete i (ms_members m)"
  "ms_removedIDs (removeNode i m) = ms_removedIDs m @ [i]" "ms_nodeID (removeNode i m) = ms_nodeID m"
  by (simp_all add: removeNode_def Let_def)

text \<open>The invariant of the membership: a map with one entry per ID, no retired ID among the members and
  none retired twice.\<close>

definition membership_inv :: "membership \<Rightarrow> bool" where
  "membership_inv m \<longleftrightarrow> wf_gomap (ms_members m) \<and> dom (map_of (ms_members m)) \<inter> set (ms_removedIDs m) = {} \<and>
     distinct (ms_removedIDs m)"

lemma accepted_change_inv:
  assumes "membership_inv m" "validateConfChange ok m change url = Ok ()"
  shows "membership_inv (apply_change change mem m)"
  using assms
  by (auto simp: membership_inv_def validateConfChange_def apply_change_def Let_def map_of_update map_of_delete
      split: if_splits ConfChangeType.splits)

lemma accepted_change_voters:
  assumes "wf_gomap (ms_members m)" "3 \<le> length (ms_members m)" "validateConfChange ok m change url = Ok ()"
  shows "3 \<le> length (ms_members (apply_change change mem m))"
proof (cases "cc_Type change")
  case ConfChangeRemoveNode
  with assms(3) obtain u where u: "map_of (ms_members m) (cc_NodeId change) = Some u" "4 \<le> length (ms_members m)"
    by (auto simp: validateConfChange_def Let_def split: if_splits)
  with length_delete_wf [OF assms(1) u(1)] ConfChangeRemoveNode show ?thesis by (simp add: apply_change_def)
qed (use assms in \<open>auto simp: apply_change_def length_update_wf\<close>)

text \<open>A group of four.\<close>

definition demo_members :: membership where
  "demo_members = \<lparr>ms_nodeID = 1, ms_members = map (\<lambda>i. (i, \<lparr>mb_URL = ''https://n''\<rparr>)) [1, 2, 3, 4],
     ms_removedIDs = [], ms_transport = []\<rparr>"

section \<open>Proposals that wait for their result\<close>

text \<open>\<open>proposalsTracker\<close>: the channel made for each pending proposal, the number of channels made, and
  the results sent on them. Each channel has room for one result: a second send on one that was not
  received from would block the goroutine that applies the log.\<close>

record 'a proposalsTracker =
  pt_pending :: "(string, nat) gomap"
  pt_made :: nat
  pt_sent :: "(nat \<times> 'a) list"

definition newProposalsTracker :: "'a proposalsTracker" where
  "newProposalsTracker = \<lparr>pt_pending = [], pt_made = 0, pt_sent = []\<rparr>"

definition pt_track :: "string \<Rightarrow> 'a proposalsTracker \<Rightarrow> nat \<times> 'a proposalsTracker" where
  "pt_track i p = (pt_made p, p\<lparr>pt_pending := AList.update i (pt_made p) (pt_pending p), pt_made := Suc (pt_made p)\<rparr>)"

definition pt_untrack :: "string \<Rightarrow> 'a \<Rightarrow> 'a proposalsTracker \<Rightarrow> 'a proposalsTracker" where
  "pt_untrack i result p =
     (case map_of (pt_pending p) i of
        None \<Rightarrow> p
      | Some applied \<Rightarrow> p\<lparr>pt_sent := pt_sent p @ [(applied, result)], pt_pending := AList.delete i (pt_pending p)\<rparr>)"

text \<open>The callers of the two operations: clients that propose, clients that give up and the goroutine
  that applies the log, in any order.\<close>

datatype 'a pt_event = Track string | Untrack string 'a

fun pt_step :: "'a pt_event \<Rightarrow> 'a proposalsTracker \<Rightarrow> 'a proposalsTracker" where
  "pt_step (Track i) p = snd (pt_track i p)"
| "pt_step (Untrack i x) p = pt_untrack i x p"

text \<open>No channel is shared by two entries of a map.\<close>

definition unshared :: "('v \<Rightarrow> nat) \<Rightarrow> ('k, 'v) gomap \<Rightarrow> bool" where
  "unshared f m \<longleftrightarrow> (\<forall>i j v w. map_of m i = Some v \<longrightarrow> map_of m j = Some w \<longrightarrow> f v = f w \<longrightarrow> i = j)"

lemma unshared_Nil [simp]: "unshared f []"
  by (simp add: unshared_def)

lemma unshared_update_fresh:
  "unshared f m \<Longrightarrow> (\<And>j w. map_of m j = Some w \<Longrightarrow> f w \<noteq> f v) \<Longrightarrow> unshared f (AList.update i v m)"
  by (auto simp: unshared_def map_of_update) metis+

lemma unshared_update_same:
  "unshared f m \<Longrightarrow> map_of m i = Some w \<Longrightarrow> f v = f w \<Longrightarrow> unshared f (AList.update i v m)"
  by (auto simp: unshared_def map_of_update)

lemma unshared_delete: "unshared f m \<Longrightarrow> unshared f (AList.delete i m)"
  by (auto simp: unshared_def map_of_delete)

definition pt_inv :: "'a proposalsTracker \<Rightarrow> bool" where
  "pt_inv p \<longleftrightarrow> wf_gomap (pt_pending p) \<and> distinct (map fst (pt_sent p)) \<and>
     (\<forall>c \<in> fst ` set (pt_sent p). c < pt_made p) \<and>
     (\<forall>i c. map_of (pt_pending p) i = Some c \<longrightarrow> c < pt_made p \<and> c \<notin> fst ` set (pt_sent p)) \<and>
     unshared (\<lambda>c. c) (pt_pending p)"

lemma pt_inv_new [simp]: "pt_inv newProposalsTracker"
  by (simp add: pt_inv_def newProposalsTracker_def)

lemma pt_inv_track:
  assumes "pt_inv p"
  shows "pt_inv (snd (pt_track i p))"
proof -
  have "unshared (\<lambda>c. c) (AList.update i (pt_made p) (pt_pending p))"
    using assms by (intro unshared_update_fresh) (auto simp: pt_inv_def)
  then show ?thesis
    using assms by (auto simp: pt_inv_def pt_track_def map_of_update less_Suc_eq)
qed

lemma pt_inv_untrack:
  assumes "pt_inv p"
  shows "pt_inv (pt_untrack i x p)"
proof (cases "map_of (pt_pending p) i")
  case (Some c)
  then have c: "c < pt_made p" "c \<notin> fst ` set (pt_sent p)" using assms by (auto simp: pt_inv_def)
  have other: "d \<noteq> c" if "map_of (pt_pending p) j = Some d" "j \<noteq> i" for j d
    using assms Some that by (auto simp: pt_inv_def unshared_def)
  then show ?thesis
    using assms Some c unshared_delete [of "\<lambda>c. c" "pt_pending p" i]
    by (auto simp: pt_inv_def pt_untrack_def map_of_delete)
qed (use assms in \<open>simp add: pt_untrack_def\<close>)

lemma pt_inv_step: "pt_inv p \<Longrightarrow> pt_inv (pt_step e p)"
  by (cases e) (simp_all add: pt_inv_track pt_inv_untrack)

lemma pt_inv_run: "pt_inv p \<Longrightarrow> pt_inv (fold pt_step es p)"
  by (induction es arbitrary: p) (simp_all add: pt_inv_step)

text \<open>C30: whatever clients and the log do, in whatever order, at most one result is ever sent on the
  channel of a proposal, so no send blocks; and while a proposal is pending nothing was sent to it, so
  the result of its application reaches it.\<close>

theorem proposalsTracker_one_result:
  "let p = fold pt_step es newProposalsTracker in
   distinct (map fst (pt_sent p)) \<and>
   (\<forall>i c x. map_of (pt_pending p) i = Some c \<longrightarrow> c \<notin> fst ` set (pt_sent p) \<and>
      (c, x) \<in> set (pt_sent (pt_untrack i x p)) \<and> map_of (pt_pending (pt_untrack i x p)) i = None)"
proof -
  have "pt_inv (fold pt_step es newProposalsTracker)" by (rule pt_inv_run) simp
  then show ?thesis
    by (auto simp: Let_def pt_inv_def pt_untrack_def map_of_delete split: option.splits)
qed

theorem proposalsTracker_one_result_witness:
  "let p = fold pt_step [Track ''a'', Track ''b'', Untrack ''a'' (5 :: nat)] newProposalsTracker in
   map_of (pt_pending p) ''b'' = Some 1 \<and> (1, 7) \<in> set (pt_sent (pt_untrack ''b'' 7 p))"
proof -
  let ?p = "fold pt_step [Track ''a'', Track ''b'', Untrack ''a'' (5 :: nat)] newProposalsTracker"
  have pending: "map_of (pt_pending ?p) ''b'' = Some 1"
    by (simp add: newProposalsTracker_def pt_track_def pt_untrack_def)
  with proposalsTracker_one_result [of "[Track ''a'', Track ''b'', Untrack ''a'' (5 :: nat)]"]
  have "(1, 7) \<in> set (pt_sent (pt_untrack ''b'' 7 ?p))" unfolding Let_def by blast
  with pending show ?thesis unfolding Let_def by blast
qed

section \<open>Reads that wait for their index\<close>

text \<open>\<open>readIndexTracker\<close>. A channel that is closed is recorded with the index its read waited for and
  the applied index at that moment; closing a channel twice panics.\<close>

record pendingRead =
  rd_index :: "64 word"
  rd_indexKnown :: bool
  rd_done :: nat

record readIndexTracker =
  rt_pending :: "(string, pendingRead) gomap"
  rt_made :: nat
  rt_closed :: "(nat \<times> 64 word \<times> 64 word) list"

definition newReadIndexTracker :: readIndexTracker where
  "newReadIndexTracker = \<lparr>rt_pending = [], rt_made = 0, rt_closed = []\<rparr>"

definition rt_track :: "string \<Rightarrow> readIndexTracker \<Rightarrow> nat \<times> readIndexTracker" where
  "rt_track i r = (rt_made r, r\<lparr>rt_pending := AList.update i \<lparr>rd_index = 0, rd_indexKnown = False, rd_done = rt_made r\<rparr>
                                     (rt_pending r), rt_made := Suc (rt_made r)\<rparr>)"

definition close_read :: "string \<Rightarrow> pendingRead \<Rightarrow> 64 word \<Rightarrow> readIndexTracker \<Rightarrow> readIndexTracker" where
  "close_read i p appliedIndex r =
     r\<lparr>rt_closed := rt_closed r @ [(rd_done p, rd_index p, appliedIndex)], rt_pending := AList.delete i (rt_pending r)\<rparr>"

definition setIndex :: "string \<Rightarrow> 64 word \<Rightarrow> 64 word \<Rightarrow> readIndexTracker \<Rightarrow> readIndexTracker" where
  "setIndex i index appliedIndex r =
     (case map_of (rt_pending r) i of
        None \<Rightarrow> r
      | Some p \<Rightarrow>
          let p1 = p\<lparr>rd_index := index, rd_indexKnown := True\<rparr>;
              r1 = r\<lparr>rt_pending := AList.update i p1 (rt_pending r)\<rparr>
          in if index \<le> appliedIndex then close_read i p1 appliedIndex r1 else r1)"

definition release_one :: "64 word \<Rightarrow> string \<times> pendingRead \<Rightarrow> readIndexTracker \<Rightarrow> readIndexTracker" where
  "release_one appliedIndex = (\<lambda>(i, p) r.
     if rd_indexKnown p \<and> rd_index p \<le> appliedIndex then close_read i p appliedIndex r else r)"

text \<open>The loop deletes entries of the map it ranges over, which Go allows: each entry is visited once.\<close>

definition releaseUpTo :: "64 word \<Rightarrow> readIndexTracker \<Rightarrow> readIndexTracker" where
  "releaseUpTo appliedIndex r = fold (release_one appliedIndex) (rt_pending r) r"

definition rt_untrack :: "string \<Rightarrow> readIndexTracker \<Rightarrow> readIndexTracker" where
  "rt_untrack i r = r\<lparr>rt_pending := AList.delete i (rt_pending r)\<rparr>"

datatype rt_event = TrackRead string | SetIndex string "64 word" "64 word" | ReleaseUpTo "64 word" | UntrackRead string

fun rt_step :: "rt_event \<Rightarrow> readIndexTracker \<Rightarrow> readIndexTracker" where
  "rt_step (TrackRead i) r = snd (rt_track i r)"
| "rt_step (SetIndex i index applied) r = setIndex i index applied r"
| "rt_step (ReleaseUpTo applied) r = releaseUpTo applied r"
| "rt_step (UntrackRead i) r = rt_untrack i r"

definition rt_inv :: "readIndexTracker \<Rightarrow> bool" where
  "rt_inv r \<longleftrightarrow> wf_gomap (rt_pending r) \<and> distinct (map fst (rt_closed r)) \<and>
     (\<forall>(c, index, applied) \<in> set (rt_closed r). c < rt_made r \<and> index \<le> applied) \<and>
     (\<forall>i p. map_of (rt_pending r) i = Some p \<longrightarrow> rd_done p < rt_made r \<and> rd_done p \<notin> fst ` set (rt_closed r)) \<and>
     unshared rd_done (rt_pending r)"

lemma rt_inv_new [simp]: "rt_inv newReadIndexTracker"
  by (simp add: rt_inv_def newReadIndexTracker_def)

lemma rt_inv_track:
  assumes "rt_inv r"
  shows "rt_inv (snd (rt_track i r))"
proof -
  have "unshared rd_done (AList.update i \<lparr>rd_index = 0, rd_indexKnown = False, rd_done = rt_made r\<rparr> (rt_pending r))"
    using assms by (intro unshared_update_fresh) (simp add: rt_inv_def, metis less_irrefl pendingRead.select_convs(3) rt_inv_def)
  then show ?thesis
    using assms by (auto simp: rt_inv_def rt_track_def map_of_update less_Suc_eq)
qed

lemma rt_inv_close:
  assumes "rt_inv r" "map_of (rt_pending r) i = Some p" "rd_index p \<le> applied"
  shows "rt_inv (close_read i p applied r)"
proof -
  have other: "rd_done q \<noteq> rd_done p" if "map_of (rt_pending r) j = Some q" "j \<noteq> i" for j q
    using assms that by (auto simp: rt_inv_def unshared_def)
  then show ?thesis
    using assms unshared_delete [of rd_done "rt_pending r" i]
    by (auto simp: rt_inv_def close_read_def map_of_delete)
qed

lemma rt_inv_setIndex:
  assumes "rt_inv r"
  shows "rt_inv (setIndex i index applied r)"
proof (cases "map_of (rt_pending r) i")
  case (Some p)
  let ?p = "p\<lparr>rd_index := index, rd_indexKnown := True\<rparr>"
  let ?r = "r\<lparr>rt_pending := AList.update i ?p (rt_pending r)\<rparr>"
  have "unshared rd_done (AList.update i ?p (rt_pending r))"
    by (rule unshared_update_same [OF _ Some]) (use assms in \<open>simp_all add: rt_inv_def\<close>)
  then have "rt_inv ?r" using assms Some by (auto simp: rt_inv_def map_of_update)
  with rt_inv_close [of ?r i ?p applied] Some show ?thesis
    by (simp add: setIndex_def Let_def map_of_update)
qed (use assms in \<open>simp add: setIndex_def\<close>)

text \<open>The release loop, for the entries it has still to visit.\<close>

lemma release_loop:
  assumes "rt_inv r" "distinct (map fst ps)" "\<And>i p. (i, p) \<in> set ps \<Longrightarrow> map_of (rt_pending r) i = Some p"
  shows "rt_inv (fold (release_one a) ps r) \<and>
    map_of (rt_pending (fold (release_one a) ps r)) =
      (\<lambda>i. case map_of (rt_pending r) i of None \<Rightarrow> None
           | Some p \<Rightarrow> if i \<in> fst ` set ps \<and> rd_indexKnown p \<and> rd_index p \<le> a then None else Some p)"
  using assms
proof (induction ps arbitrary: r)
  case Nil
  then show ?case by (auto simp: fun_eq_iff split: option.splits)
next
  case (Cons ip ps)
  obtain i p where ip: "ip = (i, p)" by fastforce
  have p: "map_of (rt_pending r) i = Some p" using Cons.prems(3) ip by simp
  let ?r = "release_one a ip r"
  have inv: "rt_inv ?r"
    using Cons.prems(1) rt_inv_close [OF Cons.prems(1) p] by (auto simp: release_one_def ip)
  have pend: "map_of (rt_pending ?r) j =
      (if j = i \<and> rd_indexKnown p \<and> rd_index p \<le> a then None else map_of (rt_pending r) j)" for j
    by (auto simp: release_one_def ip close_read_def map_of_delete)
  have "map_of (rt_pending ?r) j = Some q" if "(j, q) \<in> set ps" for j q
    using that Cons.prems(2,3) pend ip by (force simp: image_iff)
  from Cons.IH [OF inv _ this] Cons.prems(2) show ?case
    using pend p ip by (auto simp: fun_eq_iff split: option.splits if_splits)
qed

lemma releaseUpTo_effect:
  assumes "rt_inv r"
  shows "rt_inv (releaseUpTo a r) \<and>
    map_of (rt_pending (releaseUpTo a r)) =
      (\<lambda>i. case map_of (rt_pending r) i of None \<Rightarrow> None
           | Some p \<Rightarrow> if rd_indexKnown p \<and> rd_index p \<le> a then None else Some p)"
proof -
  have wf: "wf_gomap (rt_pending r)" using assms by (simp add: rt_inv_def)
  have d: "distinct (map fst (rt_pending r))" using wf by (simp only: wf_gomap_def)
  have m: "map_of (rt_pending r) i = Some p" if "(i, p) \<in> set (rt_pending r)" for i p
    using that wf_gomap_map_of [OF wf] by blast
  have i: "i \<in> fst ` set (rt_pending r)" if "map_of (rt_pending r) i = Some p" for i p
    using map_of_SomeD [OF that] by force
  have "(case map_of (rt_pending r) i of None \<Rightarrow> None
         | Some p \<Rightarrow> if i \<in> fst ` set (rt_pending r) \<and> rd_indexKnown p \<and> rd_index p \<le> a then None else Some p) =
        (case map_of (rt_pending r) i of None \<Rightarrow> None
         | Some p \<Rightarrow> if rd_indexKnown p \<and> rd_index p \<le> a then None else Some p)" for i
    by (cases "map_of (rt_pending r) i") (simp_all add: i)
  then show ?thesis
    unfolding releaseUpTo_def using release_loop [OF assms d m, of a] by simp
qed

text \<open>The reads that wait, as channel, ID and the index that Raft has to give at least: a pending read is
  under its own ID, and one whose index is known, or that was released, has an index from Raft that is
  not too small; what was released had been applied, when at most \<open>b\<close> was applied.\<close>

definition rt_waits :: "(nat \<times> string \<times> 64 word) set \<Rightarrow> 64 word \<Rightarrow> readIndexTracker \<Rightarrow> bool" where
  "rt_waits W b r \<longleftrightarrow> rt_inv r \<and> (\<forall>c j w. (c, j, w) \<in> W \<longrightarrow> c < rt_made r) \<and>
     (\<forall>i p j w. map_of (rt_pending r) i = Some p \<longrightarrow> (rd_done p, j, w) \<in> W \<longrightarrow>
        j = i \<and> (rd_indexKnown p \<longrightarrow> w \<le> rd_index p)) \<and>
     (\<forall>c index applied. (c, index, applied) \<in> set (rt_closed r) \<longrightarrow> index \<le> applied \<and> applied \<le> b \<and>
        (\<forall>j w. (c, j, w) \<in> W \<longrightarrow> w \<le> index))"

lemma rt_waits_new [simp]: "rt_waits {} b newReadIndexTracker"
  by (simp add: rt_waits_def) (simp add: newReadIndexTracker_def)

lemma rt_waits_mono: "rt_waits W a r \<Longrightarrow> a \<le> b \<Longrightarrow> V \<subseteq> W \<Longrightarrow> rt_waits V b r"
  unfolding rt_waits_def by (meson order_trans subsetD)

lemma rt_waits_track:
  assumes "rt_waits W b r"
  shows "rt_waits (insert (fst (rt_track i r), i, w) W) b (snd (rt_track i r))"
proof -
  note d = assms [unfolded rt_waits_def]
  have pend: "rd_done p < rt_made r" if "map_of (rt_pending r) j = Some p" for j p
    using d that by (auto simp: rt_inv_def)
  have closed: "c < rt_made r" if "(c, index, applied) \<in> set (rt_closed r)" for c index applied
    using d that by (auto simp: rt_inv_def)
  have "c < Suc (rt_made r)" if "(c, j, v) \<in> insert (rt_made r, i, w) W" for c j v
    using d that by (auto simp: less_Suc_eq)
  moreover have "j = k \<and> (rd_indexKnown p \<longrightarrow> v \<le> rd_index p)"
    if "((map_of (rt_pending r))(i \<mapsto> \<lparr>rd_index = 0, rd_indexKnown = False, rd_done = rt_made r\<rparr>)) k = Some p"
      "(rd_done p, j, v) \<in> insert (rt_made r, i, w) W" for k p j v
  proof (cases "k = i")
    case True
    have "(rt_made r, j, v) \<notin> W" using d by blast
    with True that show ?thesis by auto
  next
    case False
    with that(1) have p: "map_of (rt_pending r) k = Some p" by simp
    with that(2) pend [OF p] have "(rd_done p, j, v) \<in> W" by auto
    with d p show ?thesis by blast
  qed
  moreover have "index \<le> applied \<and> applied \<le> b \<and> (\<forall>j v. (c, j, v) \<in> insert (rt_made r, i, w) W \<longrightarrow> v \<le> index)"
    if "(c, index, applied) \<in> set (rt_closed r)" for c index applied
    using d that closed [OF that] by blast
  ultimately show ?thesis
    using rt_inv_track [of r i] d unfolding rt_waits_def rt_track_def by (simp add: map_of_update)
qed

lemma rt_waits_untrack:
  assumes "rt_waits W b r"
  shows "rt_waits W b (rt_untrack i r)"
proof -
  have "rt_inv (rt_untrack i r)" using assms unshared_delete [of rd_done "rt_pending r" i]
    by (auto simp: rt_waits_def rt_inv_def rt_untrack_def map_of_delete)
  with assms show ?thesis by (auto simp: rt_waits_def rt_untrack_def map_of_delete)
qed

lemma rt_waits_close:
  assumes "rt_waits W b r" "map_of (rt_pending r) i = Some p" "rd_indexKnown p" "rd_index p \<le> b"
  shows "rt_waits W b (close_read i p b r)"
proof -
  have "rt_inv (close_read i p b r)" using assms rt_inv_close by (simp add: rt_waits_def)
  with assms show ?thesis unfolding rt_waits_def close_read_def by (auto simp: map_of_delete)
qed

lemma rt_waits_setIndex:
  assumes "rt_waits W b r" and "\<And>c w. (c, i, w) \<in> W \<Longrightarrow> w \<le> index"
  shows "rt_waits W b (setIndex i index b r)"
proof (cases "map_of (rt_pending r) i")
  case (Some p)
  let ?p = "p\<lparr>rd_index := index, rd_indexKnown := True\<rparr>"
  let ?r = "r\<lparr>rt_pending := AList.update i ?p (rt_pending r)\<rparr>"
  have "unshared rd_done (AList.update i ?p (rt_pending r))"
    by (rule unshared_update_same [OF _ Some]) (use assms in \<open>simp_all add: rt_waits_def rt_inv_def\<close>)
  then have "rt_inv ?r" using assms(1) Some by (auto simp: rt_waits_def rt_inv_def map_of_update)
  moreover have "j = i" if "(rd_done p, j, w) \<in> W" for j w using assms(1) Some that unfolding rt_waits_def by blast
  ultimately have "rt_waits W b ?r" using assms unfolding rt_waits_def by (auto simp: map_of_update)
  with rt_waits_close [of W b ?r i ?p] Some show ?thesis by (simp add: setIndex_def Let_def map_of_update)
qed (use assms in \<open>simp add: setIndex_def\<close>)

lemma rt_waits_releaseUpTo:
  assumes "rt_waits W b r"
  shows "rt_waits W b (releaseUpTo b r)"
proof -
  have loop: "rt_waits W b (fold (release_one b) ps q)"
    if "rt_waits W b q" "distinct (map fst ps)" "\<And>i p. (i, p) \<in> set ps \<Longrightarrow> map_of (rt_pending q) i = Some p" for ps q
    using that
  proof (induction ps arbitrary: q)
    case (Cons ip ps)
    obtain i p where ip: "ip = (i, p)" by fastforce
    have p: "map_of (rt_pending q) i = Some p" using Cons.prems(3) ip by simp
    have "rt_waits W b (release_one b ip q)"
      using Cons.prems(1) rt_waits_close [OF Cons.prems(1) p] by (simp add: release_one_def ip)
    moreover have "map_of (rt_pending (release_one b ip q)) j = Some u" if "(j, u) \<in> set ps" for j u
      using that Cons.prems(2,3) ip by (force simp: release_one_def close_read_def map_of_delete image_iff)
    ultimately show ?case using Cons.IH Cons.prems(2) by simp
  qed simp
  have wf: "wf_gomap (rt_pending r)" using assms by (simp add: rt_waits_def rt_inv_def)
  show ?thesis unfolding releaseUpTo_def
    by (rule loop [OF assms]) (use wf wf_gomap_map_of [OF wf] in \<open>auto simp: wf_gomap_def\<close>)
qed

lemma rt_inv_step: "rt_inv r \<Longrightarrow> rt_inv (rt_step e r)"
proof (cases e)
  case (UntrackRead i)
  assume "rt_inv r"
  then show ?thesis
    using UntrackRead unshared_delete [of rd_done "rt_pending r" i] by (auto simp: rt_inv_def rt_untrack_def map_of_delete)
qed (simp_all add: rt_inv_track rt_inv_setIndex releaseUpTo_effect)

lemma rt_inv_run: "rt_inv r \<Longrightarrow> rt_inv (fold rt_step es r)"
  by (induction es arbitrary: r) (simp_all add: rt_inv_step)

text \<open>A linearizable read waits for its index. In every run of the tracker, whatever the order of
  new reads, reported indices, applied entries and clients that give up: no channel is closed twice
  (which would panic), a read is released only once the applied index has reached the index reported
  for it, and after the applied index advances no read that it satisfies is left waiting.\<close>

lemma readIndexTracker_releases:
  "let r = fold rt_step es newReadIndexTracker in
   distinct (map fst (rt_closed r)) \<and>
   list_all (\<lambda>(c, index, applied). index \<le> applied) (rt_closed r) \<and>
   (\<forall>a i p. map_of (rt_pending (releaseUpTo a r)) i = Some p \<longleftrightarrow>
      map_of (rt_pending r) i = Some p \<and> \<not> (rd_indexKnown p \<and> rd_index p \<le> a))"
proof -
  let ?r = "fold rt_step es newReadIndexTracker"
  have inv: "rt_inv ?r" by (rule rt_inv_run) simp
  have "distinct (map fst (rt_closed ?r))" using inv by (simp add: rt_inv_def)
  moreover have "list_all (\<lambda>(c, index, applied). index \<le> applied) (rt_closed ?r)"
    using inv by (auto simp: rt_inv_def list_all_iff)
  moreover have "map_of (rt_pending (releaseUpTo a ?r)) i = Some p \<longleftrightarrow>
      map_of (rt_pending ?r) i = Some p \<and> \<not> (rd_indexKnown p \<and> rd_index p \<le> a)" for a i p
    using releaseUpTo_effect [OF inv, of a] by (auto split: option.splits if_splits)
  ultimately show ?thesis unfolding Let_def by blast
qed

end
