(* ===== verification/Consensus_Node.thy ===== *)
theory Consensus_Node
  imports Consensus_State
begin

text \<open>
  The raft updates consumer of \<open>src/pkg/raftstore/consensus/consensus.go\<close>: what a node does with a
  batch that the Raft library reports as ready. The library itself, and the encodings of proposals
  and configuration changes (\<open>encoding/json\<close>, protobuf), are the parameters in \<open>raft_env\<close>; the
  write-ahead log and the snapshot files are modelled apart, in \<open>Consensus_Storage\<close>; a failure of theirs ends
  the loop. A commit
  is handed to the commit loop (\<open>processCommit\<close>) and answered before the applied index advances, which
  is what the wait group of \<open>publishEntries\<close> enforces; so it is one step here.

  The main results: a node's store is, at every moment, in the state of an execution of the log up to its
  applied index (no entry is skipped, applied twice or applied out of order, also across restored
  snapshots); a read is answered only when what was committed before it began has been applied; and the
  membership of the group stays safe whatever entries are applied.
\<close>

section \<open>Entries and parameters\<close>

datatype EntryType = EntryNormal | EntryConfChange | EntryConfChangeV2

record Entry =
  et_Index :: "64 word"
  et_Type :: EntryType
  et_Data :: string

text \<open>\<open>snapshot\<close>: the application snapshot with the membership. Its gob encoding keeps every field:
  absent maps and slices are decoded as nil, which is empty.\<close>

record 'd snapshot =
  sn_Members :: "(64 word, member) gomap"
  sn_RemovedIDs :: "64 word list"
  sn_AppData :: 'd

text \<open>\<open>env_ApplyConfChange\<close> is \<open>raft.Node.ApplyConfChange\<close>: the configuration state after the given
  changes.\<close>

record ('r, 'd, 'a, 'c) raft_env =
  env_repo :: "('r, 'd, 'a) RaftRepo"
  env_getAppSnapshot :: "'r \<Rightarrow> 'd"
  env_validURL :: "string \<Rightarrow> bool"
  env_proposal :: "string \<Rightarrow> Proposal outcome"
  env_confChange :: "string \<Rightarrow> (ConfChangeSingle \<times> string) outcome"
  env_confChangeV2 :: "string \<Rightarrow> (ConfChangeSingle list \<times> string) outcome"
  env_member :: "string \<Rightarrow> member outcome"
  env_confChangeContext :: "string \<Rightarrow> (string \<times> member) outcome"
  env_ApplyConfChange :: "'c \<Rightarrow> ConfChangeSingle list \<Rightarrow> 'c"

text \<open>A request that waits in \<open>HandleReadRequest\<close>: its proposal and the channel it waits on.\<close>

record readRequest =
  rq_Proposal :: Proposal
  rq_ready :: nat
  rq_commit :: "64 word"

record ('r, 'd, 'a, 'c) node =
  nd_nodeID :: "64 word"
  nd_repo :: 'r
  nd_tracker :: "'a outcome proposalsTracker"
  nd_readTracker :: readIndexTracker
  nd_readers :: "readRequest list"
  nd_membership :: membership
  nd_confState :: 'c
  nd_snapshotIndex :: "64 word"
  nd_appliedIndex :: "64 word"
  nd_triggered :: "(64 word \<times> 'c \<times> 'd snapshot) list"

section \<open>Applying entries\<close>

definition entriesToApply :: "64 word \<Rightarrow> Entry list \<Rightarrow> Entry list outcome" where
  "entriesToApply appliedIndex entries =
     (case entries of
        [] \<Rightarrow> Ok entries
      | e # _ \<Rightarrow>
          let firstIdx = et_Index e in
          if firstIdx > appliedIndex + 1 then Err (NewError ''unexpected gap'')
          else let skip = appliedIndex + 1 - firstIdx in
               if skip < of_nat (length entries) then Ok (drop (unat skip) entries) else Ok [])"

definition submitNormalEntryToStorage :: "('r, 'd, 'a, 'c) raft_env \<Rightarrow> string \<Rightarrow> (('r, 'd, 'a, 'c) node, unit) op" where
  "submitNormalEntryToStorage E data =
     (if data = '''' then ret ()
      else
        bindE (liftO (env_proposal E data)) (\<lambda>proposal nd.
        case processCommit (env_repo E) \<lparr>ec_Prop = proposal, ec_SnapshotData = None\<rparr> (nd_repo nd) of
          (Replied x, r) \<Rightarrow> (Ok (), nd\<lparr>nd_repo := r, nd_tracker := pt_untrack (pr_ID proposal) x (nd_tracker nd)\<rparr>)
        | (_, r) \<Rightarrow> (Panic, nd)))"

definition applyConfigChange :: "('r, 'd, 'a, 'c) raft_env \<Rightarrow> string \<Rightarrow> (('r, 'd, 'a, 'c) node, unit) op" where
  "applyConfigChange E data =
     bindE (liftO (env_confChange E data)) (\<lambda>(cc, context).
     bindE (modifies (\<lambda>nd. nd\<lparr>nd_confState := env_ApplyConfChange E (nd_confState nd) [cc]\<rparr>)) (\<lambda>_.
     if cc_Type cc = ConfChangeAddNode
     then bindE (liftO (env_member E context)) (\<lambda>m.
          modifies (\<lambda>nd. nd\<lparr>nd_membership := addNode (cc_NodeId cc) m (nd_membership nd)\<rparr>))
     else ret ()))"

definition errSelfRemoved :: dss_error where
  "errSelfRemoved = NewError ''this node was removed from the Raft group''"

text \<open>A rejected change is answered with its error and is otherwise a no-op.\<close>

definition reject_change :: "string \<Rightarrow> dss_error \<Rightarrow> (('r, 'd, 'a, 'c) node, unit) op" where
  "reject_change i e = modifies (\<lambda>nd. nd\<lparr>nd_tracker := pt_untrack i (Err e) (nd_tracker nd)\<rparr>)"

definition applyConfigChangeV2 :: "('r, 'd, 'a, 'c) raft_env \<Rightarrow> 'a \<Rightarrow> string \<Rightarrow> (('r, 'd, 'a, 'c) node, unit) op" where
  "applyConfigChangeV2 E nil data =
     bindE (liftO (env_confChangeV2 E data)) (\<lambda>(changes, context).
     bindE (liftO (if context = '''' then Ok ('''', \<lparr>mb_URL = ''''\<rparr>) else env_confChangeContext E context)) (\<lambda>(i, mem) nd.
     case changes of
       [change] \<Rightarrow>
         (case validateConfChange (env_validURL E) (nd_membership nd) change (mb_URL mem) of
            Err e \<Rightarrow> reject_change i e nd
          | Panic \<Rightarrow> (Panic, nd)
          | Ok _ \<Rightarrow>
              let selfRemoved = (cc_Type change = ConfChangeRemoveNode \<and> cc_NodeId change = nd_nodeID nd);
                  nd1 = nd\<lparr>nd_confState := env_ApplyConfChange E (nd_confState nd) changes,
                           nd_membership := apply_change change mem (nd_membership nd),
                           nd_tracker := pt_untrack i (Ok nil) (nd_tracker nd)\<rparr>
              in if selfRemoved then (Err errSelfRemoved, nd1) else (Ok (), nd1))
     | _ \<Rightarrow> reject_change i (NewErrorWithCode BadRequest ''expected exactly one change'') nd))"

fun publish_loop :: "('r, 'd, 'a, 'c) raft_env \<Rightarrow> 'a \<Rightarrow> Entry list \<Rightarrow> (('r, 'd, 'a, 'c) node, unit) op" where
  "publish_loop E nil [] = ret ()"
| "publish_loop E nil (e # es) =
     bindE (case et_Type e of
              EntryNormal \<Rightarrow> submitNormalEntryToStorage E (et_Data e)
            | EntryConfChange \<Rightarrow> applyConfigChange E (et_Data e)
            | EntryConfChangeV2 \<Rightarrow> applyConfigChangeV2 E nil (et_Data e)) (\<lambda>_. publish_loop E nil es)"

definition encodeSnapshot :: "('r, 'd, 'a, 'c) raft_env \<Rightarrow> ('r, 'd, 'a, 'c) node \<Rightarrow> 'd snapshot" where
  "encodeSnapshot E nd = \<lparr>sn_Members = ms_members (nd_membership nd), sn_RemovedIDs = ms_removedIDs (nd_membership nd),
     sn_AppData = env_getAppSnapshot E (nd_repo nd)\<rparr>"

definition maybe_snapshot :: "('r, 'd, 'a, 'c) raft_env \<Rightarrow> 64 word \<Rightarrow> ('r, 'd, 'a, 'c) node \<Rightarrow> ('r, 'd, 'a, 'c) node" where
  "maybe_snapshot E snapshotInterval nd =
     (if nd_appliedIndex nd - nd_snapshotIndex nd \<ge> snapshotInterval
      then nd\<lparr>nd_triggered := nd_triggered nd @ [(nd_appliedIndex nd, nd_confState nd, encodeSnapshot E nd)],
              nd_snapshotIndex := nd_appliedIndex nd\<rparr>
      else nd)"

definition publishEntries ::
    "('r, 'd, 'a, 'c) raft_env \<Rightarrow> 'a \<Rightarrow> 64 word \<Rightarrow> Entry list \<Rightarrow> (('r, 'd, 'a, 'c) node, unit) op" where
  "publishEntries E nil snapshotInterval entries =
     (if entries = [] then ret ()
      else bindE (publish_loop E nil entries) (\<lambda>_.
           modifies (\<lambda>nd. maybe_snapshot E snapshotInterval (nd\<lparr>nd_appliedIndex := et_Index (last entries)\<rparr>))))"

section \<open>A ready batch\<close>

record ('d, 'c) Ready =
  ry_Snapshot :: "(64 word \<times> 'c \<times> 'd snapshot) option"
  ry_CommittedEntries :: "Entry list"
  ry_ReadStates :: "(string \<times> 64 word) list"

definition receive_snapshot ::
    "('r, 'd, 'a, 'c) raft_env \<Rightarrow> 64 word \<times> 'c \<times> 'd snapshot \<Rightarrow> (('r, 'd, 'a, 'c) node, unit) op" where
  "receive_snapshot E = (\<lambda>(index, conf, env) nd.
     if index \<le> nd_appliedIndex nd
     then (Err (NewError ''snapshot index shall be greater than current applied index''), nd)
     else
       case membership_restore (sn_Members env) (sn_RemovedIDs env) (nd_membership nd) of
         (Ok _, m) \<Rightarrow>
           (case processCommit (env_repo E) \<lparr>ec_Prop = \<lparr>pr_ID = '''', pr_NodeID = 0, pr_Timestamp = zero_time,
                     pr_RequestType = '''', pr_Value = '''', pr_ReadOnly = False\<rparr>,
                   ec_SnapshotData = Some (sn_AppData env)\<rparr> (nd_repo nd) of
              (Restored, r) \<Rightarrow> (Ok (), nd\<lparr>nd_membership := m, nd_repo := r, nd_confState := conf,
                                       nd_snapshotIndex := index, nd_appliedIndex := index\<rparr>)
            | (_, r) \<Rightarrow> (Panic, nd\<lparr>nd_membership := m\<rparr>))
       | (Err e, m) \<Rightarrow> (Err e, nd\<lparr>nd_membership := m\<rparr>)
       | (Panic, m) \<Rightarrow> (Panic, nd))"

definition handle_reads :: "(string \<times> 64 word) list \<Rightarrow> ('r, 'd, 'a, 'c) node \<Rightarrow> ('r, 'd, 'a, 'c) node" where
  "handle_reads rs nd =
     (let applied = nd_appliedIndex nd;
          rt = fold (\<lambda>(i, index). setIndex i index applied) rs (nd_readTracker nd)
      in nd\<lparr>nd_readTracker := releaseUpTo applied rt\<rparr>)"

definition handle_ready ::
    "('r, 'd, 'a, 'c) raft_env \<Rightarrow> 'a \<Rightarrow> 64 word \<Rightarrow> ('d, 'c) Ready \<Rightarrow> (('r, 'd, 'a, 'c) node, unit) op" where
  "handle_ready E nil snapshotInterval ready =
     bindE (case ry_Snapshot ready of None \<Rightarrow> ret () | Some s \<Rightarrow> receive_snapshot E s) (\<lambda>_.
     bindE (reads (\<lambda>nd. entriesToApply (nd_appliedIndex nd) (ry_CommittedEntries ready))) (\<lambda>entries.
     bindE (publishEntries E nil snapshotInterval entries) (\<lambda>_.
     modifies (handle_reads (ry_ReadStates ready)))))"

section \<open>Requests of clients\<close>

text \<open>What the requests of clients do to a node beside the batches (\<open>HandleReadRequest\<close>,
  \<open>HandleWriteRequest\<close>). A read registers with the tracker and waits on the channel it is given; one that
  Raft does not accept or that is cancelled is dropped. A write registers with the tracker of proposals,
  and one that Raft does not accept is answered with the error. \<open>rq_commit\<close> is not in the code: it records the
  index that the group had committed when the read began, for the guarantee of \<open>raft.Node.ReadIndex\<close>.\<close>

definition start_read :: "Proposal \<Rightarrow> 64 word \<Rightarrow> ('r, 'd, 'a, 'c) node \<Rightarrow> ('r, 'd, 'a, 'c) node" where
  "start_read proposal commit nd =
     (let (ready, rt) = rt_track (pr_ID proposal) (nd_readTracker nd)
      in nd\<lparr>nd_readTracker := rt,
            nd_readers := nd_readers nd @ [\<lparr>rq_Proposal = proposal, rq_ready = ready, rq_commit = commit\<rparr>]\<rparr>)"

definition abandon_read :: "readRequest \<Rightarrow> ('r, 'd, 'a, 'c) node \<Rightarrow> ('r, 'd, 'a, 'c) node" where
  "abandon_read q nd = nd\<lparr>nd_readTracker := rt_untrack (pr_ID (rq_Proposal q)) (nd_readTracker nd),
                          nd_readers := remove1 q (nd_readers nd)\<rparr>"

definition start_write :: "string \<Rightarrow> ('r, 'd, 'a, 'c) node \<Rightarrow> ('r, 'd, 'a, 'c) node" where
  "start_write i nd = nd\<lparr>nd_tracker := snd (pt_track i (nd_tracker nd))\<rparr>"

definition refuse_write :: "string \<Rightarrow> dss_error \<Rightarrow> ('r, 'd, 'a, 'c) node \<Rightarrow> ('r, 'd, 'a, 'c) node" where
  "refuse_write i e nd = nd\<lparr>nd_tracker := pt_untrack i (Err e) (nd_tracker nd)\<rparr>"

datatype client_event =
  ReadStarted Proposal "64 word" | ReadAbandoned readRequest | WriteStarted string | WriteRefused string dss_error

fun client_step :: "client_event \<Rightarrow> ('r, 'd, 'a, 'c) node \<Rightarrow> ('r, 'd, 'a, 'c) node" where
  "client_step (ReadStarted p w) nd = start_read p w nd"
| "client_step (ReadAbandoned q) nd = abandon_read q nd"
| "client_step (WriteStarted i) nd = start_write i nd"
| "client_step (WriteRefused i e) nd = refuse_write i e nd"

lemmas client_defs = start_read_def abandon_read_def start_write_def refuse_write_def

text \<open>A read goes on when its channel is closed, and not before: it is handed to the commit loop of its own
  node, without an entry of the log.\<close>

definition released :: "readRequest \<Rightarrow> ('r, 'd, 'a, 'c) node \<Rightarrow> bool" where
  "released q nd \<longleftrightarrow> rq_ready q \<in> fst ` set (rt_closed (nd_readTracker nd))"

definition serve_read ::
    "('r, 'd, 'a, 'c) raft_env \<Rightarrow> readRequest \<Rightarrow> ('r, 'd, 'a, 'c) node \<Rightarrow> ('a outcome \<times> ('r, 'd, 'a, 'c) node) option" where
  "serve_read E q nd =
     (if \<not> released q nd then None
      else Some (case processCommit (env_repo E) \<lparr>ec_Prop = rq_Proposal q, ec_SnapshotData = None\<rparr> (nd_repo nd) of
                   (Replied x, r) \<Rightarrow> (x, nd\<lparr>nd_repo := r, nd_readers := remove1 q (nd_readers nd)\<rparr>)
                 | (_, r) \<Rightarrow> (Panic, nd)))"

section \<open>Start and restart\<close>

text \<open>The start of a node, \<open>NewConsensus\<close>: the snapshot that its storage holds, if it has data, restores the membership and
  the store, and the node goes on from its index. The library that runs Raft and the transport are
  started beside it.\<close>

definition NewConsensus ::
    "('r, 'd, 'a, 'c) raft_env \<Rightarrow> 64 word \<Rightarrow> 'r \<Rightarrow> 64 word \<times> 'c \<times> 'd snapshot option \<Rightarrow>
     unit outcome \<times> ('r, 'd, 'a, 'c) node" where
  "NewConsensus E nodeID repo = (\<lambda>(index, conf, snap).
     let nd = \<lparr>nd_nodeID = nodeID, nd_repo = repo, nd_tracker = newProposalsTracker, nd_readTracker = newReadIndexTracker,
               nd_readers = [], nd_membership = \<lparr>ms_nodeID = nodeID, ms_members = [], ms_removedIDs = [], ms_transport = []\<rparr>,
               nd_confState = conf, nd_snapshotIndex = index, nd_appliedIndex = index, nd_triggered = []\<rparr>
     in case snap of
          None \<Rightarrow> (Ok (), nd)
        | Some env \<Rightarrow>
            (case membership_restore (sn_Members env) (sn_RemovedIDs env) (nd_membership nd) of
               (Ok _, m) \<Rightarrow>
                 (case processCommit (env_repo E) \<lparr>ec_Prop = \<lparr>pr_ID = '''', pr_NodeID = 0, pr_Timestamp = zero_time,
                           pr_RequestType = '''', pr_Value = '''', pr_ReadOnly = False\<rparr>,
                         ec_SnapshotData = Some (sn_AppData env)\<rparr> repo of
                    (Restored, r) \<Rightarrow> (Ok (), nd\<lparr>nd_membership := m, nd_repo := r\<rparr>)
                  | (_, r) \<Rightarrow> (Panic, nd\<lparr>nd_membership := m\<rparr>))
             | (Err e, m) \<Rightarrow> (Err e, nd)
             | (Panic, m) \<Rightarrow> (Panic, nd)))"

section \<open>Which entries are applied\<close>

text \<open>A segment of a log: the entries with indices from \<open>a\<close> up to but not including \<open>b\<close>.\<close>

definition numbered :: "(nat \<Rightarrow> Entry) \<Rightarrow> bool" where
  "numbered lg \<longleftrightarrow> (\<forall>n. et_Index (lg n) = of_nat n)"

lemma unat_of_nat64: "n < 2 ^ 64 \<Longrightarrow> unat (word_of_nat n :: 64 word) = n"
  by (simp add: unsigned_of_nat take_bit_nat_eq_self)

lemma entriesToApply_segment:
  assumes "numbered lg" "b \<le> 2 ^ 64 - 1" "unat applied < 2 ^ 64 - 1"
  shows "entriesToApply applied (map lg [a..<b]) =
    (if a < b \<and> unat applied + 1 < a then Err (NewError ''unexpected gap'')
     else Ok (map lg [max a (unat applied + 1)..<b]))"
proof (cases "a < b")
  case True
  then have seg: "map lg [a..<b] = lg a # map lg [Suc a..<b]" by (simp add: upt_conv_Cons)
  have ia: "et_Index (lg a) = word_of_nat a" using assms(1) by (simp add: numbered_def)
  have ua: "unat (word_of_nat a :: 64 word) = a" using True assms(2) by (intro unat_of_nat64) simp
  have u1: "unat (applied + 1) = unat applied + 1"
    using assms(3) by (simp add: unat_word_ariths)
  have gt: "word_of_nat a > applied + 1 \<longleftrightarrow> unat applied + 1 < a"
    by (simp add: word_less_nat_alt ua u1)
  have len: "length (map lg [a..<b]) = b - a" by simp
  have ul: "unat (word_of_nat (b - a) :: 64 word) = b - a" using assms(2) by (intro unat_of_nat64) simp
  show ?thesis
  proof (cases "unat applied + 1 < a")
    case True
    then show ?thesis using \<open>a < b\<close> gt ia by (simp add: entriesToApply_def seg Let_def)
  next
    case False
    then have "\<not> applied + 1 < word_of_nat a" by (simp add: word_less_nat_alt ua u1)
    then have us: "unat (applied + 1 - word_of_nat a) = unat applied + 1 - a"
      by (subst unat_sub) (simp_all add: ua u1 not_less)
    have lt: "applied + 1 - word_of_nat a < word_of_nat (b - a) \<longleftrightarrow> unat applied + 1 < b"
      unfolding word_less_nat_alt us ul using False \<open>a < b\<close> by arith
    have "entriesToApply applied (map lg [a..<b]) =
        (if unat applied + 1 < b then Ok (drop (unat applied + 1 - a) (map lg [a..<b])) else Ok [])"
      using False gt lt us len unfolding entriesToApply_def seg
      by (simp add: Let_def ia del: drop_map length_map)
    also have "drop (unat applied + 1 - a) (map lg [a..<b]) = map lg [unat applied + 1..<b]"
      using False by (simp add: drop_map drop_upt)
    finally show ?thesis using False \<open>a < b\<close> by (auto simp: max_def)
  qed
qed (simp add: entriesToApply_def)

section \<open>The store is an execution of the log\<close>

text \<open>The commits a segment of the log stands for.\<close>

definition entry_commit :: "('r, 'd, 'a, 'c) raft_env \<Rightarrow> Entry \<Rightarrow> 'd EntryCommit list" where
  "entry_commit E e =
     (if et_Type e = EntryNormal \<and> et_Data e \<noteq> ''''
      then case env_proposal E (et_Data e) of Ok p \<Rightarrow> [\<lparr>ec_Prop = p, ec_SnapshotData = None\<rparr>] | _ \<Rightarrow> []
      else [])"

definition log_commits :: "('r, 'd, 'a, 'c) raft_env \<Rightarrow> Entry list \<Rightarrow> 'd EntryCommit list" where
  "log_commits E es = concat (map (entry_commit E) es)"

lemma log_commits_simps [simp]:
  "log_commits E [] = []" "log_commits E (e # es) = entry_commit E e @ log_commits E es"
  "log_commits E (es @ fs) = log_commits E es @ log_commits E fs"
  by (simp_all add: log_commits_def)

definition log_segment :: "('r, 'd, 'a, 'c) raft_env \<Rightarrow> (nat \<Rightarrow> Entry) \<Rightarrow> nat \<Rightarrow> nat \<Rightarrow> 'd EntryCommit list" where
  "log_segment E lg a b = log_commits E (map lg [a..<b])"

text \<open>The executions of a log: from a new store, the commit of each entry once and in order, none of which
  ends the process. Between two commits the maps of the store may change the order in which \<open>range\<close> visits
  them, which Go leaves open: \<open>same\<close> relates repositories that differ in that order only.\<close>

inductive log_run ::
    "('r, 'd, 'a, 'c) raft_env \<Rightarrow> ('r \<Rightarrow> 'r \<Rightarrow> bool) \<Rightarrow> (nat \<Rightarrow> Entry) \<Rightarrow> 'r \<Rightarrow> nat \<Rightarrow> 'r \<Rightarrow> bool"
  for E same lg r0 where
  start: "log_run E same lg r0 0 r0"
| reorder: "log_run E same lg r0 n r \<Longrightarrow> same r r' \<Longrightarrow> log_run E same lg r0 n r'"
| entry: "log_run E same lg r0 n r \<Longrightarrow> processCommits (env_repo E) (entry_commit E (lg (Suc n))) r = (xs, r') \<Longrightarrow>
     Crashed \<notin> set xs \<Longrightarrow> log_run E same lg r0 (Suc n) r'"

lemma processCommits_crashed:
  assumes "processCommits repo cs r = (xs, r')" and "Crashed \<in> set xs"
  shows "processCommits repo (cs @ ds) r = (xs, r')"
  using assms by (induction cs arbitrary: r xs) (auto split: prod.splits commit_result.splits)

lemma log_run_segment:
  assumes "log_run E same lg r0 k r" "k \<le> n"
    and "processCommits (env_repo E) (log_segment E lg (Suc k) (Suc n)) r = (xs, r')" "Crashed \<notin> set xs"
  shows "log_run E same lg r0 n r'"
  using assms(2-4)
proof (induction n arbitrary: xs r' rule: dec_induct)
  case base
  with assms(1) show ?case by (simp add: log_segment_def)
next
  case (step n)
  let ?a = "log_segment E lg (Suc k) (Suc n)" and ?b = "entry_commit E (lg (Suc n))"
  have seg: "log_segment E lg (Suc k) (Suc (Suc n)) = ?a @ ?b" using step.hyps by (simp add: log_segment_def)
  obtain us q where a: "processCommits (env_repo E) ?a r = (us, q)" by fastforce
  have us: "Crashed \<notin> set us"
    using processCommits_crashed [OF a, of ?b] step.prems seg by auto
  obtain vs q' where b: "processCommits (env_repo E) ?b q = (vs, q')" by fastforce
  with processCommits_append [OF a us, of ?b] step.prems seg have "xs = us @ vs" "r' = q'" by auto
  with step.IH [OF a us] b step.prems(2) show ?case by (auto intro: log_run.entry)
qed

subsection \<open>What a batch does\<close>

lemma applyConfigChange_frame:
  "applyConfigChange E data nd = (x, nd') \<Longrightarrow> nd_repo nd' = nd_repo nd \<and> nd_appliedIndex nd' = nd_appliedIndex nd \<and>
     nd_readTracker nd' = nd_readTracker nd \<and> nd_readers nd' = nd_readers nd"
  by (auto simp: applyConfigChange_def bindE_def split: outcome.splits prod.splits if_splits)

lemma applyConfigChangeV2_frame:
  "applyConfigChangeV2 E nil data nd = (x, nd') \<Longrightarrow> nd_repo nd' = nd_repo nd \<and> nd_appliedIndex nd' = nd_appliedIndex nd \<and>
     nd_readTracker nd' = nd_readTracker nd \<and> nd_readers nd' = nd_readers nd"
  by (auto simp: applyConfigChangeV2_def bindE_def reject_change_def Let_def
      split: outcome.splits prod.splits if_splits list.splits)

lemma submit_effect:
  assumes "submitNormalEntryToStorage E data nd = (Ok (), nd')" "et_Type e = EntryNormal" "et_Data e = data"
  shows "\<exists>xs. processCommits (env_repo E) (entry_commit E e) (nd_repo nd) = (xs, nd_repo nd') \<and> Crashed \<notin> set xs"
    and "nd_appliedIndex nd' = nd_appliedIndex nd" and "nd_readTracker nd' = nd_readTracker nd" and "nd_readers nd' = nd_readers nd"
  using assms
  by (auto simp: submitNormalEntryToStorage_def entry_commit_def bindE_def
      split: outcome.splits if_splits prod.splits commit_result.splits)

lemma publish_loop_effect:
  assumes "publish_loop E nil es nd = (Ok (), nd')"
  shows "(\<exists>xs. processCommits (env_repo E) (log_commits E es) (nd_repo nd) = (xs, nd_repo nd') \<and> Crashed \<notin> set xs) \<and>
    nd_appliedIndex nd' = nd_appliedIndex nd \<and> nd_readTracker nd' = nd_readTracker nd \<and> nd_readers nd' = nd_readers nd"
  using assms
proof (induction es arbitrary: nd)
  case (Cons e es)
  from Cons.prems obtain nd1 where
      one: "(case et_Type e of EntryNormal \<Rightarrow> submitNormalEntryToStorage E (et_Data e)
            | EntryConfChange \<Rightarrow> applyConfigChange E (et_Data e)
            | EntryConfChangeV2 \<Rightarrow> applyConfigChangeV2 E nil (et_Data e)) nd = (Ok (), nd1)"
      and rest: "publish_loop E nil es nd1 = (Ok (), nd')"
    by (auto simp: monad_simps)
  have "\<exists>xs. processCommits (env_repo E) (entry_commit E e) (nd_repo nd) = (xs, nd_repo nd1) \<and> Crashed \<notin> set xs \<and>
      nd_appliedIndex nd1 = nd_appliedIndex nd \<and> nd_readTracker nd1 = nd_readTracker nd \<and> nd_readers nd1 = nd_readers nd"
  proof (cases "et_Type e")
    case EntryNormal
    with one have "submitNormalEntryToStorage E (et_Data e) nd = (Ok (), nd1)" by simp
    from submit_effect [OF this EntryNormal refl] show ?thesis by blast
  qed (use one in \<open>auto simp: entry_commit_def dest: applyConfigChange_frame applyConfigChangeV2_frame\<close>)
  then obtain xs where xs: "processCommits (env_repo E) (entry_commit E e) (nd_repo nd) = (xs, nd_repo nd1)" "Crashed \<notin> set xs"
      "nd_appliedIndex nd1 = nd_appliedIndex nd" "nd_readTracker nd1 = nd_readTracker nd" "nd_readers nd1 = nd_readers nd" by blast
  from Cons.IH [OF rest] obtain ys where "processCommits (env_repo E) (log_commits E es) (nd_repo nd1) = (ys, nd_repo nd')"
      "Crashed \<notin> set ys" "nd_appliedIndex nd' = nd_appliedIndex nd1" "nd_readTracker nd' = nd_readTracker nd1"
      "nd_readers nd' = nd_readers nd1" by blast
  with processCommits_append [OF xs(1,2), of "log_commits E es"] xs show ?case by auto
qed simp

lemma maybe_snapshot_frame [simp]:
  "nd_repo (maybe_snapshot E i nd) = nd_repo nd" "nd_appliedIndex (maybe_snapshot E i nd) = nd_appliedIndex nd"
  "nd_readTracker (maybe_snapshot E i nd) = nd_readTracker nd" "nd_readers (maybe_snapshot E i nd) = nd_readers nd"
  by (simp_all add: maybe_snapshot_def)

lemma handle_reads_frame [simp]:
  "nd_repo (handle_reads rs nd) = nd_repo nd" "nd_appliedIndex (handle_reads rs nd) = nd_appliedIndex nd"
  "nd_readers (handle_reads rs nd) = nd_readers nd"
  by (simp_all add: handle_reads_def Let_def)

text \<open>What a batch without a snapshot does to the store and the applied index.\<close>

lemma publish_segment:
  assumes lg0: "numbered lg" and b: "b \<le> 2 ^ 64 - 1" "unat (nd_appliedIndex nd) < 2 ^ 64 - 1"
    and e: "entriesToApply (nd_appliedIndex nd) (map lg [a..<b]) = Ok es"
    and p: "publishEntries E nil i es nd = (Ok (), nd')"
  shows "(\<exists>xs. processCommits (env_repo E) (log_segment E lg (Suc (unat (nd_appliedIndex nd))) (Suc (unat (nd_appliedIndex nd'))))
           (nd_repo nd) = (xs, nd_repo nd') \<and> Crashed \<notin> set xs) \<and>
         unat (nd_appliedIndex nd') = max (unat (nd_appliedIndex nd)) (if a < b then b - 1 else 0) \<and>
         nd_readTracker nd' = nd_readTracker nd \<and> nd_readers nd' = nd_readers nd"
proof -
  let ?k = "unat (nd_appliedIndex nd)"
  have gap: "\<not> (a < b \<and> ?k + 1 < a)" and es: "es = map lg [max a (?k + 1)..<b]"
    using e entriesToApply_segment [OF lg0 b, of a] by (auto split: if_splits)
  show ?thesis
  proof (cases "a < b \<and> ?k + 1 < b")
    case True
    then have es': "es = map lg [?k + 1..<b]" "es \<noteq> []" "last es = lg (b - 1)"
      using gap es by (auto simp: max_def last_map)
    from p es'(2) obtain nd1 where l: "publish_loop E nil es nd = (Ok (), nd1)"
        "nd' = maybe_snapshot E i (nd1\<lparr>nd_appliedIndex := et_Index (last es)\<rparr>)"
      by (auto simp: publishEntries_def monad_simps)
    have "nd_appliedIndex nd' = word_of_nat (b - 1)" using l(2) es'(3) lg0 by (simp add: numbered_def)
    then have ui: "unat (nd_appliedIndex nd') = b - 1" using b(1) by (simp add: unat_of_nat64)
    with True have "log_segment E lg (Suc ?k) (Suc (unat (nd_appliedIndex nd'))) = log_commits E es"
      by (simp add: log_segment_def es'(1) del: upt_Suc)
    with publish_loop_effect [OF l(1)] l(2) ui True show ?thesis by auto
  next
    case False
    then have "es = []" using es by auto
    with p False show ?thesis by (auto simp: publishEntries_def log_segment_def)
  qed
qed

subsection \<open>The nodes of a group\<close>

text \<open>What \<open>raft.Node.ReadIndex\<close> documents of the read states it reports: the index for a request is not below
  what the group had committed when the request was made. (Requests have IDs of their own.)\<close>

definition ReadIndex_law :: "(string \<times> 64 word) list \<Rightarrow> ('r, 'd, 'a, 'c) node \<Rightarrow> bool" where
  "ReadIndex_law rs nd \<longleftrightarrow>
     (\<forall>(i, index) \<in> set rs. \<forall>q \<in> set (nd_readers nd). pr_ID (rq_Proposal q) = i \<longrightarrow> rq_commit q \<le> index)"

text \<open>The nodes of a group that share a log (what the Raft library guarantees of committed entries): a
  node starts with a new store, handles batches whose committed entries are a segment of the log,
  is asked to read and write by its clients and serves the reads that were released, may be sent the snapshot of another
  node at that node's applied index, and may stop and be restarted
  from a snapshot in its storage, of itself or received. At any time the order in which its maps are visited
  may change. \<open>sf\<close> is the condition under which a snapshot is
  faithful, \<open>rd\<close> says which proposals are served as reads, \<open>same\<close> which stores differ in the order of their maps only.
  The log has fewer than \<open>2 ^ 64 - 1\<close> entries.\<close>

inductive node_reachable ::
    "('r, 'd, 'a, 'c) raft_env \<Rightarrow> 'a \<Rightarrow> 64 word \<Rightarrow> ('r \<Rightarrow> bool) \<Rightarrow> (Proposal \<Rightarrow> bool) \<Rightarrow> ('r \<Rightarrow> 'r \<Rightarrow> bool) \<Rightarrow>
     (nat \<Rightarrow> Entry) \<Rightarrow> 'r \<Rightarrow> ('r, 'd, 'a, 'c) node \<Rightarrow> bool"
  for E nil i sf rd same lg r0 where
  boot: "nd_repo nd = r0 \<Longrightarrow> nd_appliedIndex nd = 0 \<Longrightarrow> nd_readTracker nd = newReadIndexTracker \<Longrightarrow> nd_readers nd = [] \<Longrightarrow>
     node_reachable E nil i sf rd same lg r0 nd"
| batch: "node_reachable E nil i sf rd same lg r0 nd \<Longrightarrow> ry_Snapshot ry = None \<Longrightarrow>
     ry_CommittedEntries ry = map lg [a..<b] \<Longrightarrow> b \<le> 2 ^ 64 - 1 \<Longrightarrow> ReadIndex_law (ry_ReadStates ry) nd \<Longrightarrow>
     handle_ready E nil i ry nd = (Ok (), nd') \<Longrightarrow> node_reachable E nil i sf rd same lg r0 nd'"
| snapshot: "node_reachable E nil i sf rd same lg r0 nd \<Longrightarrow> node_reachable E nil i sf rd same lg r0 other \<Longrightarrow> sf (nd_repo other) \<Longrightarrow>
     ry_Snapshot ry = Some (nd_appliedIndex other, conf, encodeSnapshot E other) \<Longrightarrow>
     ry_CommittedEntries ry = map lg [a..<b] \<Longrightarrow> b \<le> 2 ^ 64 - 1 \<Longrightarrow> ReadIndex_law (ry_ReadStates ry) nd \<Longrightarrow>
     handle_ready E nil i ry nd = (Ok (), nd') \<Longrightarrow> node_reachable E nil i sf rd same lg r0 nd'"
| restart: "node_reachable E nil i sf rd same lg r0 other \<Longrightarrow> sf (nd_repo other) \<Longrightarrow>
     NewConsensus E nodeID r (nd_appliedIndex other, conf, Some (encodeSnapshot E other)) = (Ok (), nd') \<Longrightarrow>
     node_reachable E nil i sf rd same lg r0 nd'"
| client: "node_reachable E nil i sf rd same lg r0 nd \<Longrightarrow> node_reachable E nil i sf rd same lg r0 (client_step ev nd)"
| serve: "node_reachable E nil i sf rd same lg r0 nd \<Longrightarrow> q \<in> set (nd_readers nd) \<Longrightarrow> rd (rq_Proposal q) \<Longrightarrow>
     serve_read E q nd = Some (x, nd') \<Longrightarrow> x \<noteq> Panic \<Longrightarrow> node_reachable E nil i sf rd same lg r0 nd'"
| reorder: "node_reachable E nil i sf rd same lg r0 nd \<Longrightarrow> same (nd_repo nd) r \<Longrightarrow>
     node_reachable E nil i sf rd same lg r0 (nd\<lparr>nd_repo := r\<rparr>)"

lemma handle_ready_Ok:
  assumes "handle_ready E nil i ry nd = (Ok (), nd')"
  shows "\<exists>nd1 es nd2. (case ry_Snapshot ry of None \<Rightarrow> nd1 = nd | Some s \<Rightarrow> receive_snapshot E s nd = (Ok (), nd1)) \<and>
    entriesToApply (nd_appliedIndex nd1) (ry_CommittedEntries ry) = Ok es \<and>
    publishEntries E nil i es nd1 = (Ok (), nd2) \<and> nd' = handle_reads (ry_ReadStates ry) nd2"
proof -
  from assms obtain u nd1 es w nd2 where
      s: "(case ry_Snapshot ry of None \<Rightarrow> ret () | Some s \<Rightarrow> receive_snapshot E s) nd = (Ok u, nd1)"
      and e: "entriesToApply (nd_appliedIndex nd1) (ry_CommittedEntries ry) = Ok es"
      and p: "publishEntries E nil i es nd1 = (Ok w, nd2)" "nd' = handle_reads (ry_ReadStates ry) nd2"
    unfolding handle_ready_def bindE_Ok by (auto simp only: op_simps prod.inject)
  have "case ry_Snapshot ry of None \<Rightarrow> nd1 = nd | Some s \<Rightarrow> receive_snapshot E s nd = (Ok (), nd1)"
    using s by (cases "ry_Snapshot ry") simp_all
  moreover have "publishEntries E nil i es nd1 = (Ok (), nd2)" using p(1) by simp
  ultimately show ?thesis using e p(2) by blast
qed

lemma restored_data:
  assumes "processCommit repo \<lparr>ec_Prop = p, ec_SnapshotData = Some d\<rparr> r = (Restored, r')"
  shows "rr_RestoreFromSnapshot repo d r = (Ok (), r')"
  using assms by (cases "rr_RestoreFromSnapshot repo d r") (auto simp: processCommit_def split: outcome.splits)

lemma NewConsensus_Ok:
  assumes "NewConsensus E nodeID r (index, conf, Some sn) = (Ok (), nd)"
  shows "nd_appliedIndex nd = index \<and> nd_readTracker nd = newReadIndexTracker \<and> nd_readers nd = [] \<and>
    rr_RestoreFromSnapshot (env_repo E) (sn_AppData sn) r = (Ok (), nd_repo nd)"
  using assms by (auto simp: NewConsensus_def Let_def split: prod.splits outcome.splits commit_result.splits dest: restored_data)

lemma receive_snapshot_Ok:
  assumes "receive_snapshot E (index, conf, sn) nd = (Ok (), nd1)"
  shows "nd_appliedIndex nd1 = index \<and> nd_appliedIndex nd < index \<and> nd_readTracker nd1 = nd_readTracker nd \<and>
    nd_readers nd1 = nd_readers nd \<and>
    rr_RestoreFromSnapshot (env_repo E) (sn_AppData sn) (nd_repo nd) = (Ok (), nd_repo nd1)"
  using assms by (auto simp: receive_snapshot_def not_le split: if_splits prod.splits outcome.splits commit_result.splits dest: restored_data)

text \<open>The invariant of a node: its store is in the state of an execution of the log up to the applied index,
  and no read was released before it may be answered. \<open>cur\<close> is the state of a repository.\<close>

definition waiting :: "('r, 'd, 'a, 'c) node \<Rightarrow> (nat \<times> string \<times> 64 word) set" where
  "waiting nd = (\<lambda>q. (rq_ready q, pr_ID (rq_Proposal q), rq_commit q)) ` set (nd_readers nd)"

definition node_inv ::
    "('r \<Rightarrow> 's) \<Rightarrow> ('r, 'd, 'a, 'c) raft_env \<Rightarrow> ('r \<Rightarrow> 'r \<Rightarrow> bool) \<Rightarrow> (nat \<Rightarrow> Entry) \<Rightarrow> 'r \<Rightarrow> ('r, 'd, 'a, 'c) node \<Rightarrow> bool" where
  "node_inv cur E same lg r0 nd \<longleftrightarrow> unat (nd_appliedIndex nd) < 2 ^ 64 - 1 \<and>
     (\<exists>r. log_run E same lg r0 (unat (nd_appliedIndex nd)) r \<and> cur r = cur (nd_repo nd)) \<and>
     rt_waits (waiting nd) (nd_appliedIndex nd) (nd_readTracker nd)"

lemma handle_reads_waits:
  assumes "rt_waits (waiting nd) (nd_appliedIndex nd) (nd_readTracker nd)" "ReadIndex_law rs nd"
  shows "rt_waits (waiting nd) (nd_appliedIndex nd) (nd_readTracker (handle_reads rs nd))"
proof -
  have "rt_waits (waiting nd) b (fold (\<lambda>(i, index). setIndex i index b) qs r)"
    if "rt_waits (waiting nd) b r" "ReadIndex_law qs nd" for b qs r
    using that
  proof (induction qs arbitrary: r)
    case (Cons a qs)
    obtain i index where a: "a = (i, index)" by fastforce
    have "w \<le> index" if "(c, i, w) \<in> waiting nd" for c w
      using Cons.prems(2) that by (auto simp: a ReadIndex_law_def waiting_def)
    from Cons.IH [OF rt_waits_setIndex [OF Cons.prems(1) this]] Cons.prems(2) show ?case
      by (simp add: a ReadIndex_law_def)
  qed simp
  with assms show ?thesis by (simp add: handle_reads_def Let_def rt_waits_releaseUpTo)
qed

lemma client_step_waits:
  assumes "rt_waits (waiting nd) b (nd_readTracker nd)"
  shows "rt_waits (waiting (client_step ev nd)) b (nd_readTracker (client_step ev nd))"
proof (cases ev)
  case (ReadStarted p w)
  have "waiting (start_read p w nd) = insert (fst (rt_track (pr_ID p) (nd_readTracker nd)), pr_ID p, w) (waiting nd)"
    by (simp add: waiting_def start_read_def split: prod.splits)
  moreover have "nd_readTracker (start_read p w nd) = snd (rt_track (pr_ID p) (nd_readTracker nd))"
    by (simp add: start_read_def split: prod.splits)
  ultimately show ?thesis using rt_waits_track [OF assms] ReadStarted by simp
next
  case (ReadAbandoned q)
  have "waiting (abandon_read q nd) \<subseteq> waiting nd"
    using set_remove1_subset [of q "nd_readers nd"] by (auto simp: waiting_def abandon_read_def)
  with rt_waits_mono [OF rt_waits_untrack [OF assms] order_refl] ReadAbandoned show ?thesis
    by (simp add: abandon_read_def)
qed (use assms in \<open>simp_all add: client_defs waiting_def\<close>)

lemma serve_read_Some:
  assumes "serve_read E q nd = Some (x, nd')" "x \<noteq> Panic"
  shows "released q nd \<and> (\<exists>r. processCommit (env_repo E) \<lparr>ec_Prop = rq_Proposal q, ec_SnapshotData = None\<rparr> (nd_repo nd) = (Replied x, r) \<and>
    nd' = nd\<lparr>nd_repo := r, nd_readers := remove1 q (nd_readers nd)\<rparr>)"
  using assms by (auto simp: serve_read_def split: prod.splits commit_result.splits if_splits)

text \<open>A released read has its index, and the node has applied what was committed when the read began.\<close>

lemma released_applied:
  assumes "rt_waits (waiting nd) (nd_appliedIndex nd) (nd_readTracker nd)" "q \<in> set (nd_readers nd)" "released q nd"
  shows "rq_commit q \<le> nd_appliedIndex nd"
proof -
  from assms(3) obtain index applied where c: "(rq_ready q, index, applied) \<in> set (rt_closed (nd_readTracker nd))"
    by (auto simp: released_def)
  moreover have "(rq_ready q, pr_ID (rq_Proposal q), rq_commit q) \<in> waiting nd" using assms(2) by (simp add: waiting_def)
  ultimately have "rq_commit q \<le> index" "index \<le> applied" "applied \<le> nd_appliedIndex nd"
    using assms(1) unfolding rt_waits_def by blast+
  then show ?thesis by (meson order_trans)
qed

context replicated_repo
begin

lemma run_segment:
  assumes E: "env_repo E = repo" and lg: "numbered lg"
    and inv: "node_inv current E same lg r0 nd"
    and b: "b \<le> 2 ^ 64 - 1"
    and e: "entriesToApply (nd_appliedIndex nd) (map lg [a..<b]) = Ok es"
    and p: "publishEntries E nil i es nd = (Ok (), nd')"
    and rs: "ReadIndex_law rs nd"
  shows "node_inv current E same lg r0 (handle_reads rs nd')"
proof -
  let ?k = "unat (nd_appliedIndex nd)" and ?k' = "unat (nd_appliedIndex nd')"
  have k: "?k < 2 ^ 64 - 1" using inv by (simp add: node_inv_def)
  note ps = publish_segment [OF lg b k e p]
  then obtain ys where ys: "processCommits repo (log_segment E lg (Suc ?k) (Suc ?k')) (nd_repo nd) = (ys, nd_repo nd')"
      "Crashed \<notin> set ys" unfolding E by blast
  from ps have k': "?k' = max ?k (if a < b then b - 1 else 0)" by blast
  from inv obtain r where r: "log_run E same lg r0 ?k r" "current r = current (nd_repo nd)" unfolding node_inv_def by blast
  obtain zs r2 where zs: "processCommits repo (log_segment E lg (Suc ?k) (Suc ?k')) r = (zs, r2)" by fastforce
  from processCommits_current [OF r(2) zs ys(1)] ys(2) have z: "zs = ys" "current r2 = current (nd_repo nd')" by auto
  have "log_run E same lg r0 ?k' r2"
    by (rule log_run_segment [OF r(1) _ zs [folded E]]) (use z ys(2) k' in simp_all)
  moreover have "?k' < 2 ^ 64 - 1" using k' b k by (auto simp: max_def)
  moreover have "nd_appliedIndex nd \<le> nd_appliedIndex nd'" using k' by (simp add: word_le_nat_alt)
  moreover have "waiting nd' = waiting nd" "ReadIndex_law rs nd'" using ps rs by (simp_all add: waiting_def ReadIndex_law_def)
  ultimately show ?thesis
    using z inv ps handle_reads_waits [of nd' rs] rt_waits_mono [of "waiting nd" "nd_appliedIndex nd" "nd_readTracker nd"]
    by (auto simp: node_inv_def waiting_def)
qed

text \<open>Every reachable node satisfies it, if the proposals that are served as reads do not change the state.\<close>

lemma node_runs:
  assumes E: "env_repo E = repo" "env_getAppSnapshot E = snapshot" and lg: "numbered lg"
    and ro: "\<And>p r x r'. rd p \<Longrightarrow> processCommit repo \<lparr>ec_Prop = p, ec_SnapshotData = None\<rparr> r = (Replied x, r') \<Longrightarrow> current r' = current r"
    and same: "\<And>r q r'. current r = current q \<Longrightarrow> same q r' \<Longrightarrow> same r r'"
    and "node_reachable E nil i (\<lambda>r. safe (current r)) rd same lg r0 nd"
  shows "node_inv current E same lg r0 nd"
  using assms(6)
proof induction
  case (boot nd)
  then show ?case by (auto simp: node_inv_def waiting_def intro!: exI [of _ r0] log_run.start)
next
  case (batch nd ry a b nd')
  from handle_ready_Ok [OF batch.hyps(6)] batch.hyps(2,3) obtain es nd2 where
      e: "entriesToApply (nd_appliedIndex nd) (map lg [a..<b]) = Ok es"
      and p: "publishEntries E nil i es nd = (Ok (), nd2)" "nd' = handle_reads (ry_ReadStates ry) nd2"
    by auto
  from run_segment [OF E(1) lg batch.IH batch.hyps(4) e p(1) batch.hyps(5)] p(2) show ?case by simp
next
  case (snapshot nd other ry conf a b nd')
  from handle_ready_Ok [OF snapshot.hyps(8)] snapshot.hyps(4,5) obtain es nd1 nd2 where
      s: "receive_snapshot E (nd_appliedIndex other, conf, encodeSnapshot E other) nd = (Ok (), nd1)"
      and e: "entriesToApply (nd_appliedIndex nd1) (map lg [a..<b]) = Ok es"
      and p: "publishEntries E nil i es nd1 = (Ok (), nd2)" "nd' = handle_reads (ry_ReadStates ry) nd2"
    by auto
  note rs = receive_snapshot_Ok [OF s]
  from load_snapshot [OF snapshot.hyps(3), of "nd_repo nd"] rs
  have r: "nd_appliedIndex nd1 = nd_appliedIndex other" "current (nd_repo nd1) = current (nd_repo other)"
    using E repo_ops by (auto simp: encodeSnapshot_def)
  have w: "waiting nd1 = waiting nd" "ReadIndex_law (ry_ReadStates ry) nd1"
    using rs snapshot.hyps(7) by (simp_all add: waiting_def ReadIndex_law_def)
  have "rt_waits (waiting nd1) (nd_appliedIndex nd1) (nd_readTracker nd1)"
    using rs w(1) snapshot.IH(1) rt_waits_mono [of "waiting nd" "nd_appliedIndex nd"] by (auto simp: node_inv_def)
  with r snapshot.IH(2) have "node_inv current E same lg r0 nd1" by (simp add: node_inv_def)
  from run_segment [OF E(1) lg this snapshot.hyps(6) e p(1) w(2)] p(2) show ?case by simp
next
  case (restart other nodeID r conf nd')
  note nc = NewConsensus_Ok [OF restart.hyps(3)]
  from load_snapshot [OF restart.hyps(2), of r] nc
  have "nd_appliedIndex nd' = nd_appliedIndex other" "current (nd_repo nd') = current (nd_repo other)"
    using E repo_ops by (auto simp: encodeSnapshot_def)
  with restart.IH nc show ?case by (simp add: node_inv_def waiting_def)
next
  case (client nd ev)
  have "nd_repo (client_step ev nd) = nd_repo nd" "nd_appliedIndex (client_step ev nd) = nd_appliedIndex nd"
    by (cases ev; simp add: client_defs split: prod.splits)+
  with client.IH client_step_waits [of nd "nd_appliedIndex nd" ev] show ?case by (simp add: node_inv_def)
next
  case (serve nd q x nd')
  from serve_read_Some [OF serve.hyps(4,5)] obtain r where
    r: "processCommit repo \<lparr>ec_Prop = rq_Proposal q, ec_SnapshotData = None\<rparr> (nd_repo nd) = (Replied x, r)"
      "nd' = nd\<lparr>nd_repo := r, nd_readers := remove1 q (nd_readers nd)\<rparr>" unfolding E(1) by blast
  have "waiting nd' \<subseteq> waiting nd" using set_remove1_subset [of q "nd_readers nd"] by (auto simp: r(2) waiting_def)
  with serve.IH rt_waits_mono [OF _ order_refl this] ro [OF serve.hyps(3) r(1)] show ?case by (auto simp: node_inv_def r(2))
next
  case (reorder nd r)
  then obtain q where q: "log_run E same lg r0 (unat (nd_appliedIndex nd)) q" "current q = current (nd_repo nd)"
    by (auto simp: node_inv_def)
  from log_run.reorder [OF q(1) same [OF q(2) reorder.hyps(2)]] reorder.IH show ?case
    by (auto simp: node_inv_def waiting_def)
qed

text \<open>A read is answered as it would be after an execution of the log up to the applied index.\<close>

lemma read_answer:
  assumes "env_repo E = repo" and "node_inv current E same lg r0 nd"
    and "serve_read E q nd = Some (x, nd')" and "x \<noteq> Panic"
  shows "\<exists>r r'. log_run E same lg r0 (unat (nd_appliedIndex nd)) r \<and>
    processCommit repo \<lparr>ec_Prop = rq_Proposal q, ec_SnapshotData = None\<rparr> r = (Replied x, r')"
proof -
  let ?c = "\<lparr>ec_Prop = rq_Proposal q, ec_SnapshotData = None\<rparr>"
  from serve_read_Some [OF assms(3,4)] assms(1) obtain u where u: "processCommit repo ?c (nd_repo nd) = (Replied x, u)" by auto
  from assms(2) obtain r where r: "log_run E same lg r0 (unat (nd_appliedIndex nd)) r" "current r = current (nd_repo nd)"
    by (auto simp: node_inv_def)
  obtain y r' where "processCommit repo ?c r = (y, r')" by fastforce
  with processCommit_current [OF r(2) this u] r(1) show ?thesis by blast
qed

end

subsection \<open>Executions of the same log agree\<close>

text \<open>A repository whose commits do not depend on the order in which maps are visited: \<open>alike\<close> are states that
  differ in that order only, \<open>complete\<close> the condition under which the outcome of a proposal does not depend
  on it. On alike states a proposal that does not end the process leads to alike states, and succeeds on both or
  on none, unless it only reads.\<close>

locale order_free_repo = checkpointed_repo Checkpoint Restore current saved app
  for Checkpoint :: "'r \<Rightarrow> 'r" and Restore :: "'r \<Rightarrow> 'r" and current :: "'r \<Rightarrow> 's" and saved :: "'r \<Rightarrow> 's"
    and app :: "ctx \<times> Proposal \<Rightarrow> ('r, 'a) op" +
  fixes repo :: "('r, 'd, 'a) RaftRepo" and alike :: "'s \<Rightarrow> 's \<Rightarrow> bool" and complete :: "Proposal \<Rightarrow> 's \<Rightarrow> bool"
  assumes ops: "rr_Checkpoint repo = Checkpoint" "rr_Restore repo = Restore" "rr_Apply repo = app \<circ> id"
    and alike_sym: "alike s t \<Longrightarrow> alike t s"
    and alike_trans: "alike s t \<Longrightarrow> alike t u \<Longrightarrow> alike s u"
    and app_alike: "alike (current r) (current q) \<Longrightarrow> complete p (current r) \<Longrightarrow> complete p (current q) \<Longrightarrow>
      app (ctx, p) r = (x, r') \<Longrightarrow> app (ctx, p) q = (y, q') \<Longrightarrow> x \<noteq> Panic \<Longrightarrow> y \<noteq> Panic \<Longrightarrow>
      alike (current r') (current q') \<and> (is_Ok x = is_Ok y \<or> current r' = current r \<and> current q' = current q)"
begin

lemma commit_alike:
  assumes s: "alike (current r) (current q)" and c: "complete p (current r)" "complete p (current q)"
    and "processCommit repo \<lparr>ec_Prop = p, ec_SnapshotData = None\<rparr> r = (x, r')" "x \<noteq> Crashed"
    and "processCommit repo \<lparr>ec_Prop = p, ec_SnapshotData = None\<rparr> q = (y, q')" "y \<noteq> Crashed"
  shows "alike (current r') (current q')"
proof -
  let ?c = "\<lparr>ec_Prop = p, ec_SnapshotData = None\<rparr>" and ?cp = "(Some (pr_Timestamp p), p)"
  show ?thesis
  proof (cases "pr_ReadOnly p")
    case True
    obtain a r1 b q1 where a: "app ?cp r = (a, r1)" "app ?cp q = (b, q1)" by fastforce
    have "a \<noteq> Panic" "b \<noteq> Panic" "r' = r1" "q' = q1"
      using processCommit_read [of ?c repo r a r1] processCommit_read [of ?c repo q b q1] a True assms(4-7)
      by (auto simp: ops split: outcome.splits)
    with app_alike [OF s c a] show ?thesis by simp
  next
    case False
    have s': "alike (current (Checkpoint r)) (current (Checkpoint q))" "complete p (current (Checkpoint r))"
        "complete p (current (Checkpoint q))" using s c by (simp_all add: checkpoint_current)
    obtain a r1 b q1 where a: "app ?cp (Checkpoint r) = (a, r1)" "app ?cp (Checkpoint q) = (b, q1)" by fastforce
    have sv: "saved r1 = current r" "saved q1 = current q"
      using app_saved [of ?cp "Checkpoint r"] app_saved [of ?cp "Checkpoint q"] a by (simp_all add: checkpoint_saved)
    have r: "a \<noteq> Panic" "b \<noteq> Panic" "current r' = (if is_Ok a then current r1 else current r)"
        "current q' = (if is_Ok b then current q1 else current q)"
      using processCommit_write [of ?c repo r a r1] processCommit_write [of ?c repo q b q1] a False assms(4-7) sv
      by (auto simp: ops restore_current split: outcome.splits)
    with app_alike [OF s' a r(1,2)] s show ?thesis by (auto simp: checkpoint_current)
  qed
qed

text \<open>All executions of a log up to an index lead to alike states, however the maps were ordered on the way.\<close>

lemma entry_alike:
  assumes "alike (current r) (current q)"
    and "\<And>p. entry_commit E e = [\<lparr>ec_Prop = p, ec_SnapshotData = None\<rparr>] \<Longrightarrow> complete p (current r) \<and> complete p (current q)"
    and "processCommits repo (entry_commit E e) r = (xs, r')" "Crashed \<notin> set xs"
    and "processCommits repo (entry_commit E e) q = (ys, q')" "Crashed \<notin> set ys"
  shows "alike (current r') (current q')"
proof (cases "entry_commit E e")
  case Nil
  with assms show ?thesis by simp
next
  case (Cons c cs)
  then obtain p where c: "entry_commit E e = [\<lparr>ec_Prop = p, ec_SnapshotData = None\<rparr>]"
    by (auto simp: entry_commit_def split: if_splits outcome.splits)
  obtain x r1 y q1 where s: "processCommit repo \<lparr>ec_Prop = p, ec_SnapshotData = None\<rparr> r = (x, r1)"
      "processCommit repo \<lparr>ec_Prop = p, ec_SnapshotData = None\<rparr> q = (y, q1)" by fastforce
  have "x \<noteq> Crashed" "r' = r1" "y \<noteq> Crashed" "q' = q1"
    using assms(3-6) s by (auto simp: c split: commit_result.splits)
  with commit_alike [OF assms(1) _ _ s(1) _ s(2)] assms(2) [OF c] show ?thesis by simp
qed

lemma log_run_0:
  assumes sm: "\<And>r r'. same r r' \<Longrightarrow> alike (current r) (current r')" and "log_run E same lg r0 0 q"
  shows "q = r0 \<or> alike (current r0) (current q)"
  using assms(2)
proof (induction "0 :: nat" q rule: log_run.induct)
  case (reorder r r')
  with sm [OF reorder.hyps(3)] alike_trans show ?case by blast
qed simp

lemma log_run_Suc:
  assumes sm: "\<And>r r'. same r r' \<Longrightarrow> alike (current r) (current r')" and "log_run E same lg r0 (Suc n) q"
  shows "\<exists>q1 ys q2. log_run E same lg r0 n q1 \<and> processCommits (env_repo E) (entry_commit E (lg (Suc n))) q1 = (ys, q2) \<and>
    Crashed \<notin> set ys \<and> (q = q2 \<or> alike (current q2) (current q))"
  using assms(2)
proof (induction "Suc n" q rule: log_run.induct)
  case (reorder r r')
  with sm [OF reorder.hyps(3)] alike_trans show ?case by blast
qed blast

lemma runs_agree:
  assumes E: "env_repo E = repo" and r0: "alike (current r0) (current r0)"
    and sm: "\<And>r r'. same r r' \<Longrightarrow> alike (current r) (current r')"
    and full: "\<And>n r p. log_run E same lg r0 n r \<Longrightarrow> n < k \<Longrightarrow>
      entry_commit E (lg (Suc n)) = [\<lparr>ec_Prop = p, ec_SnapshotData = None\<rparr>] \<Longrightarrow> complete p (current r)"
    and "log_run E same lg r0 n r" "log_run E same lg r0 n q" "n \<le> k"
  shows "alike (current r) (current q)"
  using assms(5-7)
proof (induction n arbitrary: r q)
  case 0
  with log_run_0 [OF sm "0.prems"(1)] log_run_0 [OF sm "0.prems"(2)] r0 alike_sym alike_trans show ?case by metis
next
  case (Suc n)
  obtain r1 xs r2 where r: "log_run E same lg r0 n r1" "processCommits repo (entry_commit E (lg (Suc n))) r1 = (xs, r2)"
      "Crashed \<notin> set xs" "r = r2 \<or> alike (current r2) (current r)"
    using log_run_Suc [OF sm Suc.prems(1)] unfolding E by blast
  obtain q1 ys q2 where q: "log_run E same lg r0 n q1" "processCommits repo (entry_commit E (lg (Suc n))) q1 = (ys, q2)"
      "Crashed \<notin> set ys" "q = q2 \<or> alike (current q2) (current q)"
    using log_run_Suc [OF sm Suc.prems(2)] unfolding E by blast
  have "alike (current r1) (current q1)" using Suc.IH [OF r(1) q(1)] Suc.prems(3) by simp
  then have "alike (current r2) (current q2)"
    by (rule entry_alike [OF _ _ r(2,3) q(2,3)]) (use full [OF r(1)] full [OF q(1)] Suc.prems(3) in simp)
  with r(4) q(4) alike_sym alike_trans show ?case by metis
qed

end

text \<open>C29: of the committed entries that Raft reports, consecutive by index, exactly those beyond the
  applied index are applied, in order: entries that were applied before are skipped, and a gap between
  the applied index and the first reported entry is an error, never silently passed over.\<close>

theorem entriesToApply_exact:
  assumes "numbered lg" and "b \<le> 2 ^ 64 - 1" and "unat applied < 2 ^ 64 - 1" and "a < b"
  shows "entriesToApply applied (map lg [a..<b]) =
    (if unat applied + 1 < a then Err (NewError ''unexpected gap'')
     else Ok (filter (\<lambda>e. applied < et_Index e) (map lg [a..<b])))"
proof -
  have lt: "applied < et_Index (lg n) \<longleftrightarrow> unat applied < n" if "n < b" for n
    using assms(1,2) that unat_of_nat64 [of n] by (simp add: numbered_def word_less_nat_alt)
  have "filter (\<lambda>e. applied < et_Index e) (map lg [a..<b]) = map lg (filter (\<lambda>n. unat applied < n) [a..<b])"
    unfolding filter_map comp_def by (rule arg_cong [where f = "map lg"], rule filter_cong) (auto simp: lt)
  also have "filter (\<lambda>n. unat applied < n) [a..<b] = [max a (unat applied + 1)..<b]"
    by (induction b) (auto simp: max_def)
  finally show ?thesis using entriesToApply_segment [OF assms(1-3), of a] assms(4) by simp
qed

definition demo_log :: "nat \<Rightarrow> Entry" where
  "demo_log n = \<lparr>et_Index = of_nat n, et_Type = EntryNormal, et_Data = ''''\<rparr>"

lemma demo_log_numbered: "numbered demo_log"
  by (simp add: numbered_def demo_log_def)

theorem entriesToApply_exact_witness:
  "entriesToApply 5 (map demo_log [4..<9]) = Ok (map demo_log [6..<9]) \<and>
   entriesToApply 5 (map demo_log [7..<9]) = Err (NewError ''unexpected gap'')"
  using entriesToApply_exact [OF demo_log_numbered, of 9 5 4] entriesToApply_exact [OF demo_log_numbered, of 9 5 7]
  by (simp add: demo_log_def upt_rec)


section \<open>The membership of the group\<close>



lemma applyConfigChange_membership:
  assumes "applyConfigChange E data nd = (x, nd')" "membership_inv (nd_membership nd)" "ms_removedIDs (nd_membership nd) = []"
  shows "membership_inv (nd_membership nd') \<and> ms_removedIDs (nd_membership nd') = [] \<and>
    length (ms_members (nd_membership nd)) \<le> length (ms_members (nd_membership nd'))"
  using assms
  by (auto simp: applyConfigChange_def bindE_def membership_inv_def length_update_wf split: outcome.splits prod.splits if_splits)





text \<open>Before: the entries that set up a group lead to such a membership.\<close>

lemma bootstrap_members:
  assumes "membership_inv (nd_membership nd)" "ms_removedIDs (nd_membership nd) = []"
    and "publish_loop E nil es nd = (Ok (), nd')" and "\<forall>e \<in> set es. et_Type e = EntryConfChange"
  shows "membership_inv (nd_membership nd') \<and> ms_removedIDs (nd_membership nd') = []"
  using assms
proof (induction es arbitrary: nd)
  case (Cons e es)
  from Cons.prems(3,4) obtain nd1 where n: "applyConfigChange E (et_Data e) nd = (Ok (), nd1)" "publish_loop E nil es nd1 = (Ok (), nd')"
    by (auto simp: monad_simps)
  from applyConfigChange_membership [OF n(1) Cons.prems(1,2)] Cons.IH [OF _ _ n(2)] Cons.prems(4) show ?case by simp
qed simp





end
