(* ===== verification/Raft_Requests.thy ===== *)
theory Raft_Requests
  imports Raft_Store
begin

text \<open>
  From a request that a server hands to the replicated store to its execution
  (\<open>src/pkg/raftstore/store.go\<close>, \<open>Transact\<close> and the last case of the repositories' \<open>Apply\<close>): the
  locale \<open>registered_store\<close> is the contract between the commit loop and a registry of operations. Every
  such store satisfies the contract \<open>transactional_store\<close> that the servers rely on.
\<close>

section \<open>Stores with registered operations\<close>

text \<open>What a codec has to do for a request: decoding what was encoded gives the request again, and the
  error of an encoding that fails has no code. (\<open>encoding/json\<close> does so for requests whose strings are valid UTF-8; it
  replaces other bytes.)\<close>

definition codec_faithful :: "('q \<Rightarrow> string) \<Rightarrow> ('q \<Rightarrow> string outcome) \<Rightarrow> (string \<Rightarrow> string \<Rightarrow> 'q outcome) \<Rightarrow> 'q \<Rightarrow> bool" where
  "codec_faithful OperationID encode decode q \<longleftrightarrow> (\<forall>v. encode q = Ok v \<longrightarrow> decode (OperationID q) v = Ok q)"

definition codec_proper :: "('q \<Rightarrow> string) \<Rightarrow> ('q \<Rightarrow> string outcome) \<Rightarrow> (string \<Rightarrow> string \<Rightarrow> 'q outcome) \<Rightarrow> 'q \<Rightarrow> bool" where
  "codec_proper OperationID encode decode q \<longleftrightarrow>
     codec_faithful OperationID encode decode q \<and> (\<forall>e. encode q = Err e \<longrightarrow> GetCode e = None)"

text \<open>A repository that applies the proposals of registered operations by decoding the request and
  executing its handler on the current state. It is a \<open>transactional_store\<close>, whatever becomes of the
  wait for the result.\<close>

locale registered_store = checkpointed_repo Checkpoint Restore current saved app
  for Checkpoint :: "'r \<Rightarrow> 'r" and Restore :: "'r \<Rightarrow> 'r" and current :: "'r \<Rightarrow> 's" and saved :: "'r \<Rightarrow> 's"
    and app :: "ctx \<times> Proposal \<Rightarrow> ('r, 'a) op" +
  fixes repo :: "('r, 'd, 'a) RaftRepo"
    and registry :: "(string, ('s, 'q, 'b) OperationHandler) gomap"
    and OperationID :: "'q \<Rightarrow> string"
    and handler_of :: "'q \<Rightarrow> ('s, 'q, 'b) OperationHandler"
    and encode :: "'q \<Rightarrow> string outcome"
    and decode :: "string \<Rightarrow> string \<Rightarrow> 'q outcome"
    and answer :: "'b \<Rightarrow> 'a"
  assumes ops: "rr_Checkpoint repo = Checkpoint" "rr_Restore repo = Restore" "rr_Apply repo = app \<circ> id"
    and registered: "map_of registry (OperationID q) = Some (handler_of q)"
    and reads: "oh_IsReadOnly (handler_of q) \<Longrightarrow> readonly (oh_Execute (handler_of q) ctx q)"
    and applies: "pr_RequestType p = OperationID q \<Longrightarrow> decode (OperationID q) (pr_Value p) = Ok q \<Longrightarrow>
      oh_Execute (handler_of q) ctx q (current r) = (y, s) \<Longrightarrow>
      \<exists>r'. app (ctx, p) r = (obind y (\<lambda>resp. Ok (answer resp)), r') \<and> current r' = s"
begin

text \<open>One commit of the proposal for a request.\<close>

lemma commit_request:
  assumes "pr_RequestType p = OperationID q" "decode (OperationID q) (pr_Value p) = Ok q"
    and "pr_ReadOnly p \<longleftrightarrow> oh_IsReadOnly (handler_of q)"
    and e: "oh_Execute (handler_of q) (Some (pr_Timestamp p)) q (current r) = (y, s)"
  shows "\<exists>r'. processCommit repo \<lparr>ec_Prop = p, ec_SnapshotData = None\<rparr> r =
      (case y of Panic \<Rightarrow> Crashed | _ \<Rightarrow> Replied (obind y (\<lambda>resp. Ok (answer resp))), r') \<and>
    (y \<noteq> Panic \<longrightarrow> current r' = (if is_Ok y then s else current r)) \<and> (pr_ReadOnly p \<longrightarrow> s = current r)"
proof (cases "pr_ReadOnly p")
  case True
  with assms(3) e have "s = current r" using readonlyD [OF reads [of q "Some (pr_Timestamp p)"]] by fastforce
  moreover obtain r' where "app (Some (pr_Timestamp p), p) r = (obind y (\<lambda>resp. Ok (answer resp)), r')" "current r' = s"
    using applies [OF assms(1,2) e] by blast
  ultimately show ?thesis
    using True processCommit_read [of "\<lparr>ec_Prop = p, ec_SnapshotData = None\<rparr>" repo r] by (cases y) (auto simp: ops)
next
  case False
  have e': "oh_Execute (handler_of q) (Some (pr_Timestamp p)) q (current (Checkpoint r)) = (y, s)"
    using e by (simp add: checkpoint_current)
  from applies [OF assms(1,2) e'] obtain r1 where
    r1: "app (Some (pr_Timestamp p), p) (Checkpoint r) = (obind y (\<lambda>resp. Ok (answer resp)), r1)" "current r1 = s" by blast
  moreover have "saved r1 = current r" using app_saved [of "(Some (pr_Timestamp p), p)" "Checkpoint r"] r1
    by (simp add: checkpoint_saved)
  ultimately show ?thesis
    using False processCommit_write [of "\<lparr>ec_Prop = p, ec_SnapshotData = None\<rparr>" repo r]
    by (cases y) (auto simp: ops restore_current)
qed

lemma Transact_Ok:
  assumes "Transact registry OperationID encode newID nodeID ctx q = Ok p"
  shows "encode q = Ok (pr_Value p)" "ctx = Some (pr_Timestamp p)" "pr_RequestType p = OperationID q"
    "pr_ReadOnly p \<longleftrightarrow> oh_IsReadOnly (handler_of q)"
  using assms by (auto simp: Transact_def registered newProposal_def monad_simps)

text \<open>A committed request was executed by its own handler.\<close>

lemma commit_executes:
  assumes f: "codec_faithful OperationID encode decode q"
    and t: "Transact registry OperationID encode newID nodeID ctx q = Ok p"
    and c: "processCommit repo \<lparr>ec_Prop = p, ec_SnapshotData = None\<rparr> r = (Replied x, r')"
  shows "(\<forall>y. x = Ok y \<longrightarrow> (\<exists>resp. y = answer resp \<and> oh_Execute (handler_of q) ctx q (current r) = (Ok resp, current r'))) \<and>
         (\<forall>e. x = Err e \<longrightarrow> fst (oh_Execute (handler_of q) ctx q (current r)) = Err e) \<and>
         (\<not> is_Ok x \<longrightarrow> current r' = current r) \<and> (pr_ReadOnly p \<longrightarrow> current r' = current r)"
proof -
  note p = Transact_Ok [OF t]
  obtain y s where e: "oh_Execute (handler_of q) (Some (pr_Timestamp p)) q (current r) = (y, s)" by fastforce
  have "decode (OperationID q) (pr_Value p) = Ok q" using f p(1) by (simp add: codec_faithful_def)
  from commit_request [OF p(3) this p(4) e] c e p(2) show ?thesis by (cases y) auto
qed

lemma transact_cases:
  assumes "codec_proper OperationID encode decode q"
    "store_Transact repo registry OperationID encode d newID nodeID ctx q r = (x, r')" "x \<noteq> Panic"
  obtains (failed) e where "x = Err e" "GetCode e = None" "r' = r"
  | (replied) p y where "Transact registry OperationID encode newID nodeID ctx q = Ok p"
      "processCommit repo \<lparr>ec_Prop = p, ec_SnapshotData = None\<rparr> r = (Replied y, r')"
      "x = y \<or> (\<exists>msg. x = Err (NewError msg))"
proof (cases "Transact registry OperationID encode newID nodeID ctx q")
  case (Ok p)
  then have "await_result repo d p r = (x, r')" using assms(2) by (simp add: store_Transact_alt)
  from await_result_cases [OF this assms(3)] Ok show ?thesis by (auto intro: failed replied)
next
  case (Err e)
  then have "encode q = Err e"
    by (auto simp: Transact_def registered newProposal_def MustFromContext_def monad_simps split: option.splits if_splits)
  with assms Err show ?thesis by (auto simp: store_Transact_alt codec_proper_def intro: failed)
next
  case Panic
  with assms show ?thesis by (simp add: store_Transact_alt)
qed

lemma transactional:
  "transactional_store (store_Transact repo registry OperationID encode d newID nodeID) current
     (\<lambda>ctx q. oh_Execute (handler_of q) ctx q) answer (codec_proper OperationID encode decode)"
proof (unfold_locales, goal_cases)
  case (1 q c r y r')
  from 1(1) have f: "codec_faithful OperationID encode decode q" by (simp add: codec_proper_def)
  show ?case
    by (rule transact_cases [OF 1(1,2)]) (use commit_executes [OF f] in auto)
next
  case (2 q c r e r')
  from 2(1) have f: "codec_faithful OperationID encode decode q" by (simp add: codec_proper_def)
  show ?case
    by (rule transact_cases [OF 2(1,2)]) (use 2(3) commit_executes [OF f] in auto)
next
  case (3 q c r e r')
  from 3(1) have f: "codec_faithful OperationID encode decode q" by (simp add: codec_proper_def)
  show ?case
  proof (rule transact_cases [OF 3(1,2)])
    fix p z
    assume "Transact registry OperationID encode newID nodeID c q = Ok p"
      "processCommit repo \<lparr>ec_Prop = p, ec_SnapshotData = None\<rparr> r = (Replied z, r')"
    with commit_executes [OF f, of newID nodeID c p r z r'] show ?thesis by (cases z) auto
  qed simp_all
qed

text \<open>A request whose result arrives is answered with the outcome of its execution.\<close>

lemma delivered:
  assumes "encode q = Ok v" "decode (OperationID q) v = Ok q" "ctx = Some ts" "\<not> IsZero ts"
    and e: "oh_Execute (handler_of q) ctx q (current r) = (x, st')" "x \<noteq> Panic"
  shows "\<exists>r'. store_Transact repo registry OperationID encode Delivered newID nodeID ctx q r =
      (obind x (\<lambda>resp. Ok (answer resp)), r') \<and> current r' = (if is_Ok x then st' else current r)"
proof -
  define p where "p = \<lparr>pr_ID = newID, pr_NodeID = nodeID, pr_Timestamp = ts, pr_RequestType = OperationID q,
            pr_Value = v, pr_ReadOnly = oh_IsReadOnly (handler_of q)\<rparr>"
  have t: "Transact registry OperationID encode newID nodeID ctx q = Ok p"
    using assms(1,3,4) by (simp add: Transact_def registered newProposal_def p_def MustFromContext_def)
  from commit_request [of p q r x st'] assms(2,3) e obtain r' where
    "processCommit repo \<lparr>ec_Prop = p, ec_SnapshotData = None\<rparr> r = (Replied (obind x (\<lambda>resp. Ok (answer resp))), r')"
    "current r' = (if is_Ok x then st' else current r)"
    by (cases x) (auto simp: p_def)
  then show ?thesis by (auto simp: store_Transact_alt t await_result_def)
qed

end

end
