(* ===== verification/Scd_Raft.thy ===== *)
theory Scd_Raft
  imports Scd_Registry Consensus_Node Raft_Requests
begin

text \<open>
  The strategic-coordination repository of the replicated store,
  \<open>src/pkg/scd/store/raftstore/store.go\<close>: \<open>Apply\<close> executes a proposal on the in-memory store, either
  as one repository operation or, for any other request type, as the registered operation of that ID.
  Decoding a payload is \<open>encoding/json\<close>: the parameter \<open>scd_codec\<close> holds the decoder of each payload
  type. The theory shows that the commit loop over this repository is atomic and keeps the store's
  invariant on every run.
\<close>

section \<open>Payload decoders\<close>

text \<open>The encoders and decoders of \<open>encoding/json\<close> at the types that are proposed. A request is decoded
  by the handler of its operation ID, to the type that operation has.\<close>

record scd_codec =
  js_volume :: "string \<Rightarrow> cells_volume_4d outcome"
  js_ID :: "string \<Rightarrow> ID outcome"
  js_manager :: "string \<Rightarrow> Manager outcome"
  js_time :: "string \<Rightarrow> time outcome"
  js_constraint :: "string \<Rightarrow> Constraint outcome"
  js_subscription :: "string \<Rightarrow> Subscription outcome"
  js_intent :: "string \<Rightarrow> OperationalIntent outcome"
  js_availability :: "string \<Rightarrow> UssAvailabilityStatus outcome"
  js_encode :: "scd_request \<Rightarrow> string outcome"
  js_decode :: "string \<Rightarrow> string \<Rightarrow> scd_request outcome"

text \<open>The values \<open>Apply\<close> returns, at type \<open>any\<close>.\<close>

datatype scd_any =
    AnyNil
  | AnyConstraints "Constraint list" | AnyConstraint Constraint
  | AnySubscriptions "Subscription list" | AnySubscription "Subscription option"
  | AnyIntents "OperationalIntent list" | AnyIntent "OperationalIntent option"
  | AnyAvailability UssAvailabilityStatus | AnyIDs "ID list" | AnyCount nat
  | AnyResponse scd_response

section \<open>Apply\<close>

definition apply_constraints :: "externals \<Rightarrow> scd_codec \<Rightarrow> ctx \<Rightarrow> string \<Rightarrow> string \<Rightarrow> (scd_state, scd_any) op option" where
  "apply_constraints L J ctx ty v =
     (if ty = ''searchConstraints'' then Some (with_payload (js_volume J v) (SearchConstraints L) AnyConstraints)
      else if ty = ''getConstraint'' then Some (with_payload (js_ID J v) (GetConstraint L) AnyConstraint)
      else if ty = ''upsertConstraint'' then Some (with_payload (js_constraint J v) (UpsertConstraint L ctx) AnyConstraint)
      else if ty = ''deleteConstraint'' then Some (with_payload (js_ID J v) DeleteConstraint (\<lambda>_. AnyNil))
      else if ty = ''countConstraints'' then Some (with_payload (Ok ()) (\<lambda>_. CountConstraints) AnyCount)
      else None)"

definition apply_subscriptions :: "externals \<Rightarrow> scd_codec \<Rightarrow> ctx \<Rightarrow> string \<Rightarrow> string \<Rightarrow> (scd_state, scd_any) op option" where
  "apply_subscriptions L J ctx ty v =
     (if ty = ''searchSubscriptions'' then Some (with_payload (js_volume J v) (SearchSubscriptions L) AnySubscriptions)
      else if ty = ''getSubscription'' then Some (with_payload (js_ID J v) (GetSubscription L) AnySubscription)
      else if ty = ''upsertSubscription''
      then Some (with_payload (js_subscription J v) (UpsertSubscription L ctx) (\<lambda>s. AnySubscription (Some s)))
      else if ty = ''deleteSubscription'' then Some (with_payload (js_ID J v) DeleteSubscription (\<lambda>_. AnyNil))
      else if ty = ''incrementNotificationIndicesForOperationalIntents''
      then Some (with_payload (js_volume J v) (IncrementNotificationIndicesForOperationalIntents L) AnySubscriptions)
      else if ty = ''incrementNotificationIndicesForConstraints''
      then Some (with_payload (js_volume J v) (IncrementNotificationIndicesForConstraints L) AnySubscriptions)
      else if ty = ''listExpiredSubscriptions'' then Some (with_payload (js_time J v) ListExpiredSubscriptions AnyIDs)
      else if ty = ''countSubscriptions'' then Some (with_payload (Ok ()) (\<lambda>_. CountSubscriptions) AnyCount)
      else None)"

definition apply_intents :: "externals \<Rightarrow> scd_codec \<Rightarrow> ctx \<Rightarrow> string \<Rightarrow> string \<Rightarrow> (scd_state, scd_any) op option" where
  "apply_intents L J ctx ty v =
     (if ty = ''getOperationalIntent'' then Some (with_payload (js_ID J v) (GetOperationalIntent L) AnyIntent)
      else if ty = ''deleteOperationalIntent'' then Some (with_payload (js_ID J v) DeleteOperationalIntent (\<lambda>_. AnyNil))
      else if ty = ''upsertOperationalIntent''
      then Some (with_payload (js_intent J v) (UpsertOperationalIntent L ctx) (\<lambda>o1. AnyIntent (Some o1)))
      else if ty = ''searchOperationalIntents'' then Some (with_payload (js_volume J v) (SearchOperationalIntents L) AnyIntents)
      else if ty = ''getDependentOperationalIntents''
      then Some (with_payload (js_ID J v) GetDependentOperationalIntents AnyIDs)
      else if ty = ''listExpiredOperationalIntents'' then Some (with_payload (js_time J v) ListExpiredOperationalIntents AnyIDs)
      else if ty = ''countOperationalIntents'' then Some (with_payload (Ok ()) (\<lambda>_. CountOperationalIntents) AnyCount)
      else None)"

definition apply_availability :: "externals \<Rightarrow> scd_codec \<Rightarrow> ctx \<Rightarrow> string \<Rightarrow> string \<Rightarrow> (scd_state, scd_any) op option" where
  "apply_availability L J ctx ty v =
     (if ty = ''getUssAvailability'' then Some (with_payload (js_manager J v) (GetUssAvailability L) AnyAvailability)
      else if ty = ''upsertUssAvailability''
      then Some (with_payload (js_availability J v) (UpsertUssAvailability L ctx) AnyAvailability)
      else None)"

definition apply_registered :: "externals \<Rightarrow> scd_codec \<Rightarrow> ctx \<Rightarrow> string \<Rightarrow> string \<Rightarrow> (scd_state, scd_any) op" where
  "apply_registered L J ctx ty v =
     (case map_of (scd_Registry L) ty of
        None \<Rightarrow> fail (NewError (''unrecognized request type: '' @ ty))
      | Some handler \<Rightarrow>
          bindE (liftO (js_decode J ty v)) (\<lambda>request.
          bindE (oh_Execute handler ctx request) (\<lambda>resp. ret (AnyResponse resp))))"

definition scd_Apply :: "externals \<Rightarrow> scd_codec \<Rightarrow> ctx \<times> Proposal \<Rightarrow> (scd_state, scd_any) op" where
  "scd_Apply L J = (\<lambda>(ctx, proposal).
     let ty = pr_RequestType proposal; v = pr_Value proposal in
     case apply_constraints L J ctx ty v of Some m \<Rightarrow> m
     | None \<Rightarrow>
     case apply_subscriptions L J ctx ty v of Some m \<Rightarrow> m
     | None \<Rightarrow>
     case apply_intents L J ctx ty v of Some m \<Rightarrow> m
     | None \<Rightarrow>
     case apply_availability L J ctx ty v of Some m \<Rightarrow> m
     | None \<Rightarrow> apply_registered L J ctx ty v)"

definition scd_RaftRepo :: "externals \<Rightarrow> scd_codec \<Rightarrow> (scd_repo, scd_envelope gob_data, scd_any) RaftRepo" where
  "scd_RaftRepo L J = \<lparr>rr_Checkpoint = scd_Checkpoint, rr_Restore = scd_Restore,
     rr_RestoreFromSnapshot = scd_RestoreFromSnapshot, rr_Apply = (\<lambda>p. on_state (scd_Apply L J p))\<rparr>"

section \<open>The commit loop is atomic\<close>

interpretation scd_raft: checkpointed_repo scd_Checkpoint scd_Restore mr_state mr_checkpoint
  "\<lambda>p. on_state (scd_Apply L J p)" for L J
  by unfold_locales (simp_all add: scd_Checkpoint_def scd_Restore_def)

lemma scd_RaftRepo_sel [simp]:
  "rr_Checkpoint (scd_RaftRepo L J) = scd_Checkpoint" "rr_Restore (scd_RaftRepo L J) = scd_Restore"
  "rr_RestoreFromSnapshot (scd_RaftRepo L J) = scd_RestoreFromSnapshot"
  "rr_Apply (scd_RaftRepo L J) = (\<lambda>p. on_state (scd_Apply L J p)) \<circ> id"
  by (simp_all add: scd_RaftRepo_def)

text \<open>The direct requests that only read.\<close>

definition direct_reads :: "string list" where
  "direct_reads = [''searchConstraints'', ''getConstraint'', ''countConstraints'', ''searchSubscriptions'',
     ''getSubscription'', ''listExpiredSubscriptions'', ''countSubscriptions'', ''getOperationalIntent'',
     ''searchOperationalIntents'', ''getDependentOperationalIntents'', ''listExpiredOperationalIntents'',
     ''countOperationalIntents'', ''getUssAvailability'']"

lemma scd_Apply_direct_readonly:
  "pr_RequestType p \<in> set direct_reads \<Longrightarrow> readonly (scd_Apply L J (ctx, p))"
  unfolding direct_reads_def
  by (auto simp: scd_Apply_def apply_constraints_def apply_subscriptions_def apply_intents_def apply_availability_def)
    (intro pres_intros)+

lemma scd_Apply_registered:
  assumes "map_of (scd_Registry L) (pr_RequestType p) = Some h"
  shows "scd_Apply L J (ctx, p) = apply_registered L J ctx (pr_RequestType p) (pr_Value p)"
proof -
  have "pr_RequestType p \<in> fst ` set (scd_Registry L)" using assms by (rule map_of_SomeD [THEN imageI, of _ _ _ fst, simplified])
  then show ?thesis
    by (auto simp: scd_Apply_def apply_constraints_def apply_subscriptions_def apply_intents_def apply_availability_def
      scd_Registry_defs)
qed

lemma scd_commit_write:
  assumes "ec_SnapshotData c = None" and "\<not> pr_ReadOnly (ec_Prop c)"
    and "processCommit (scd_RaftRepo L J) c r = (Replied x, r')"
  shows "if is_Ok x then scd_Apply L J (Some (pr_Timestamp (ec_Prop c)), ec_Prop c) (mr_state r) = (x, mr_state r')
         else mr_state r' = mr_state r"
proof (cases x)
  case (Ok y)
  with assms(3) have p: "processCommit (scd_RaftRepo L J) c r = (Replied (Ok y), r')" by simp
  have "on_state (scd_Apply L J (Some (pr_Timestamp (ec_Prop c)), ec_Prop c)) (scd_Checkpoint r) = (Ok y, r')"
    using scd_raft.applied_write [OF scd_RaftRepo_sel(1,2,4) assms(1,2) p] by simp
  with Ok show ?thesis
    by (auto simp: on_state_def scd_raft.checkpoint_current split: prod.splits)
next
  case (Err e)
  with assms(3) scd_raft.failed_write_rolled_back [OF scd_RaftRepo_sel(1,2,4) assms(1,2)] show ?thesis by simp
next
  case Panic
  obtain a r1 where "rr_Apply (scd_RaftRepo L J) (Some (pr_Timestamp (ec_Prop c)), ec_Prop c)
      (rr_Checkpoint (scd_RaftRepo L J) r) = (a, r1)" by fastforce
  with Panic processCommit_write [OF assms(1,2) this] assms(3) show ?thesis by (auto split: outcome.splits)
qed

text \<open>C6: the commit loop applies a write as a whole or not at all. A write that is answered with an
  error leaves the store exactly as it was, although the operation may have failed half way; a write
  that is answered with a result has exactly the effect of executing it at the proposal's timestamp.\<close>

theorem scd_commit_atomic:
  assumes "ec_SnapshotData c = None" and "\<not> pr_ReadOnly (ec_Prop c)"
    and "processCommit (scd_RaftRepo L J) c r = (Replied x, r')"
  shows "if is_Ok x then scd_Apply L J (Some (pr_Timestamp (ec_Prop c)), ec_Prop c) (mr_state r) = (x, mr_state r')
         else mr_state r' = mr_state r"
  using assms by (rule scd_commit_write)

section \<open>The invariant on every run\<close>

text \<open>A write that a client can cause: a registered operation whose request is admissible when it is
  applied. A read: a registered operation marked as read-only, or a direct request that only reads.\<close>

definition scd_write_request :: "externals \<Rightarrow> scd_codec \<Rightarrow> scd_state \<Rightarrow> Proposal \<Rightarrow> bool" where
  "scd_write_request L J st p \<longleftrightarrow> \<not> pr_ReadOnly p \<and> map_of (scd_Registry L) (pr_RequestType p) \<noteq> None \<and>
     (\<forall>req. js_decode J (pr_RequestType p) (pr_Value p) = Ok req \<longrightarrow> admissible st req)"

definition scd_read_request :: "externals \<Rightarrow> Proposal \<Rightarrow> bool" where
  "scd_read_request L p \<longleftrightarrow> pr_ReadOnly p \<and> (pr_RequestType p \<in> set direct_reads \<or>
     (\<exists>h. map_of (scd_Registry L) (pr_RequestType p) = Some h \<and> oh_IsReadOnly h))"

text \<open>The repositories a node can have: it starts with a new one, processes writes and reads in the
  order of the log, and is sent snapshots of other nodes.\<close>

inductive scd_reachable :: "externals \<Rightarrow> scd_codec \<Rightarrow> scd_repo \<Rightarrow> bool" for L J where
  start: "scd_reachable L J scd_newRepo"
| written: "scd_reachable L J r \<Longrightarrow> ec_SnapshotData c = None \<Longrightarrow> scd_write_request L J (mr_state r) (ec_Prop c) \<Longrightarrow>
     processCommit (scd_RaftRepo L J) c r = (Replied x, r') \<Longrightarrow> scd_reachable L J r'"
| served: "scd_reachable L J r \<Longrightarrow> ec_SnapshotData c = None \<Longrightarrow> scd_read_request L (ec_Prop c) \<Longrightarrow>
     processCommit (scd_RaftRepo L J) c r = (Replied x, r') \<Longrightarrow> scd_reachable L J r'"
| restore: "scd_reachable L J r \<Longrightarrow> scd_reachable L J q \<Longrightarrow> gob_safe (mr_state q) \<Longrightarrow>
     ec_SnapshotData c = Some (scd_GetSnapshot q) \<Longrightarrow>
     processCommit (scd_RaftRepo L J) c r = (Restored, r') \<Longrightarrow> scd_reachable L J r'"

lemma apply_registered_Ok:
  assumes "apply_registered L J ctx ty v st = (Ok x, st')"
  shows "\<exists>h req resp. map_of (scd_Registry L) ty = Some h \<and> js_decode J ty v = Ok req \<and>
    oh_Execute h ctx req st = (Ok resp, st') \<and> x = AnyResponse resp"
  using assms by (auto simp: apply_registered_def monad_simps split: option.splits)

lemma readonly_apply_registered:
  assumes "map_of (scd_Registry L) ty = Some h" "oh_IsReadOnly h"
  shows "readonly (apply_registered L J ctx ty v)"
  using assms registry_readonly [OF assms] by (auto simp: apply_registered_def intro!: pres_intros)

lemma scd_read_readonly:
  assumes "scd_read_request L p"
  shows "readonly (scd_Apply L J (ctx, p))"
  using assms scd_Apply_direct_readonly scd_Apply_registered readonly_apply_registered
  unfolding scd_read_request_def by metis

lemma scd_read_keeps:
  assumes "scd_read_request L p" "processCommit (scd_RaftRepo L J) \<lparr>ec_Prop = p, ec_SnapshotData = None\<rparr> r = (Replied x, r')"
  shows "mr_state r' = mr_state r"
  using assms readonlyD [OF scd_read_readonly [OF assms(1)]]
  by (auto simp: scd_read_request_def processCommit_def Let_def on_state_def split: prod.splits outcome.splits)

lemma scd_reachable_wf: "scd_inv (mr_state scd_newRepo)"
  by (simp add: scd_newRepo_def scd_Checkpoint_def)

text \<open>C5: on every node, after any sequence of registered operations on admissible requests, reads and restored snapshots, the
  store satisfies its invariant: every record is complete, no operational intent refers to a subscription that does not exist,
  and no implicit subscription is left without an intent. Admissible are requests in which a put subscription has an ID
  and is not implicit, as the payload constructors make them, and in which the ID drawn for an implicit subscription is not
  in use. The snapshots are those of stores without zero altitudes and without empty subscription IDs, which are
  the ones the encoding keeps (\<open>gob_safe\<close>). The methods of the repository that write without a registered operation are not part
  of it: they do not check references.\<close>

theorem scd_reachable_invariant:
  assumes "scd_reachable L J r"
  shows "scd_inv (mr_state r)"
  using assms
proof induction
  case start
  show ?case by (rule scd_reachable_wf)
next
  case (written r c x r')
  show ?case
  proof (rule scd_raft.commit_keeps [OF scd_RaftRepo_sel(1,2,4) written.hyps(2) written.hyps(4), where I = scd_inv])
    fix y r1 r2
    assume e: "mr_state r1 = mr_state r"
      "on_state (scd_Apply L J (id (Some (pr_Timestamp (ec_Prop c)), ec_Prop c))) r1 = (Ok y, r2)"
    from written.hyps(3) obtain h where h: "map_of (scd_Registry L) (pr_RequestType (ec_Prop c)) = Some h"
      by (auto simp: scd_write_request_def)
    from e have "apply_registered L J (Some (pr_Timestamp (ec_Prop c))) (pr_RequestType (ec_Prop c))
        (pr_Value (ec_Prop c)) (mr_state r) = (Ok y, mr_state r2)"
      by (auto simp: scd_Apply_registered [OF h] on_state_def split: prod.splits)
    from apply_registered_Ok [OF this] obtain h' req resp where
      "map_of (scd_Registry L) (pr_RequestType (ec_Prop c)) = Some h'"
      "js_decode J (pr_RequestType (ec_Prop c)) (pr_Value (ec_Prop c)) = Ok req"
      "oh_Execute h' (Some (pr_Timestamp (ec_Prop c))) req (mr_state r) = (Ok resp, mr_state r2)" by blast
    with written registry_keeps_inv [of "mr_state r" req L _ h'] show "scd_inv (mr_state r2)"
      by (auto simp: scd_write_request_def)
  qed (use written in \<open>auto simp: scd_write_request_def\<close>)
next
  case (served r c x r')
  from scd_read_readonly [OF served.hyps(3)] show ?case
    using served scd_raft.commit_keeps [OF scd_RaftRepo_sel(1,2,4) served.hyps(2) served.hyps(4), where I = scd_inv]
    by (auto simp: scd_read_request_def readonly_def)
next
  case (restore r q c r')
  from scd_snapshot_restores [OF restore.hyps(3), of r] obtain q' where
    "scd_RestoreFromSnapshot (scd_GetSnapshot q) r = (Ok (), q')" "mr_state q' = mr_state q" by blast
  with restore show ?case by (auto simp: processCommit_def)
qed

section \<open>Replicas and snapshots\<close>

interpretation scd_replica: replicated_repo scd_Checkpoint scd_Restore mr_state mr_checkpoint
  "\<lambda>p. on_state (scd_Apply L J p)" scd_GetSnapshot scd_RestoreFromSnapshot gob_safe "scd_RaftRepo L J" for L J
proof (unfold_locales, goal_cases)
  case (2 d r q r' q')
  then show ?case by (auto simp: scd_RestoreFromSnapshot_def split: gob_data.splits if_splits)
qed (simp_all add: scd_snapshot_restores)

text \<open>A node that is brought up from a snapshot ends in the same state as a node that processed the
  whole log, and gives the same answers to the commits after the snapshot, whatever it held before;
  provided that the state in the snapshot has no zero altitudes.\<close>

lemma scd_catch_up:
  assumes "processCommits (scd_RaftRepo L J) cs r0 = (xs, r1)" and "Crashed \<notin> set xs" and "gob_safe (mr_state r1)"
    and "processCommits (scd_RaftRepo L J) (cs @ ds) r0 = (zs, r2)" and "Crashed \<notin> set zs"
  shows "\<exists>ys q'. processCommits (scd_RaftRepo L J) (\<lparr>ec_Prop = p, ec_SnapshotData = Some (scd_GetSnapshot r1)\<rparr> # ds) q
            = (Restored # ys, q') \<and>
           zs = xs @ ys \<and> mr_state q' = mr_state r2"
  using assms by (rule scd_replica.catch_up)

section \<open>From a request to its execution\<close>

interpretation scd_reg: registered_store scd_Checkpoint scd_Restore mr_state mr_checkpoint "\<lambda>p. on_state (scd_Apply L J p)"
  "scd_RaftRepo L J" "scd_Registry L" scd_OperationID "scd_handler_of L" "js_encode J" "js_decode J" AnyResponse for L J
proof (unfold_locales, goal_cases)
  case (5 q ctx)
  then show ?case by (rule registry_readonly [OF scd_Registry_handler])
next
  case (6 p q ctx r y s)
  moreover have h: "map_of (scd_Registry L) (pr_RequestType p) = Some (scd_handler_of L q)"
    using 6(1) by (simp add: scd_Registry_handler)
  ultimately show ?case
    by (cases y) (simp_all add: on_state_def scd_Apply_registered [OF h] apply_registered_def scd_Registry_handler)
qed (simp_all add: scd_Registry_handler)

abbreviation scd_codec_faithful :: "scd_codec \<Rightarrow> scd_request \<Rightarrow> bool" where
  "scd_codec_faithful J \<equiv> codec_faithful scd_OperationID (js_encode J) (js_decode J)"

abbreviation scd_proper :: "scd_codec \<Rightarrow> scd_request \<Rightarrow> bool" where
  "scd_proper J \<equiv> codec_proper scd_OperationID (js_encode J) (js_decode J)"

text \<open>A request that a client hands to \<open>Transact\<close> becomes a proposal which, when it is committed, is
  executed by the handler of the request's own operation, on that request and at the time the client
  sent it: a positive answer is the handler's and so is the state, an error is the handler's error and leaves the state
  alone. A
  proposal that is marked as read-only never changes the state.\<close>

lemma scd_Transact_executes:
  assumes "scd_codec_faithful J req"
    and "Transact (scd_Registry L) scd_OperationID (js_encode J) newID nodeID ctx req = Ok p"
    and "processCommit (scd_RaftRepo L J) \<lparr>ec_Prop = p, ec_SnapshotData = None\<rparr> r = (Replied x, r')"
  shows "(\<forall>y. x = Ok y \<longrightarrow> (\<exists>resp. y = AnyResponse resp \<and>
             oh_Execute (scd_handler_of L req) ctx req (mr_state r) = (Ok resp, mr_state r'))) \<and>
         (\<forall>e. x = Err e \<longrightarrow> fst (oh_Execute (scd_handler_of L req) ctx req (mr_state r)) = Err e) \<and>
         (\<not> is_Ok x \<longrightarrow> mr_state r' = mr_state r) \<and> (pr_ReadOnly p \<longrightarrow> mr_state r' = mr_state r)"
  using assms by (rule scd_reg.commit_executes)

text \<open>The replicated store is a transactional store for the requests its codec can encode.\<close>

definition scd_Store_Transact ::
    "externals \<Rightarrow> scd_codec \<Rightarrow> delivery \<Rightarrow> string \<Rightarrow> 64 word \<Rightarrow> ctx \<Rightarrow> scd_request \<Rightarrow> (scd_repo, scd_any) op" where
  "scd_Store_Transact L J d newID nodeID =
     store_Transact (scd_RaftRepo L J) (scd_Registry L) scd_OperationID (js_encode J) d newID nodeID"

interpretation scd_store: transactional_store "scd_Store_Transact L J d newID nodeID" mr_state
  "\<lambda>ctx req. oh_Execute (scd_handler_of L req) ctx req" AnyResponse "scd_proper J" for L J d newID nodeID
  unfolding scd_Store_Transact_def by (rule scd_reg.transactional)

text \<open>A request whose result arrives is answered with the outcome of its execution.\<close>

lemma scd_Store_Transact_delivered:
  assumes "js_encode J req = Ok v" "js_decode J (scd_OperationID req) v = Ok req" "ctx = Some ts" "\<not> IsZero ts"
    and e: "oh_Execute (scd_handler_of L req) ctx req (mr_state r) = (x, st')" "x \<noteq> Panic"
  shows "\<exists>r'. scd_Store_Transact L J Delivered newID nodeID ctx req r = (obind x (\<lambda>resp. Ok (AnyResponse resp)), r') \<and>
    mr_state r' = (if is_Ok x then st' else mr_state r)"
  unfolding scd_Store_Transact_def using assms by (rule scd_reg.delivered)

section \<open>A run\<close>

text \<open>A decoder that always gives the same request, and a commit of it.\<close>

definition demo_scd_codec :: scd_codec where
  "demo_scd_codec = \<lparr>js_volume = (\<lambda>_. Ok demo_volume), js_ID = Ok, js_manager = Ok, js_time = (\<lambda>_. Ok 0),
     js_constraint = (\<lambda>_. Err (NewError ''json'')), js_subscription = (\<lambda>_. Err (NewError ''json'')),
     js_intent = (\<lambda>_. Err (NewError ''json'')), js_availability = (\<lambda>_. Err (NewError ''json'')),
     js_encode = (\<lambda>_. Ok ''create''), js_decode = (\<lambda>_ _. Ok demo_create_oir)\<rparr>"

definition demo_commit :: "scd_envelope gob_data EntryCommit" where
  "demo_commit = \<lparr>ec_Prop = \<lparr>pr_ID = ''p'', pr_NodeID = 1, pr_Timestamp = 7,
     pr_RequestType = ''scdv1.CreateOperationalIntentReference'', pr_Value = ''create'', pr_ReadOnly = False\<rparr>,
     ec_SnapshotData = None\<rparr>"

lemma demo_Apply:
  "scd_Apply demo_externals demo_scd_codec (Some (pr_Timestamp (ec_Prop demo_commit)), ec_Prop demo_commit) =
     bindE (executePutOperationalIntentReference demo_externals (Some 7) demo_create_oir) (\<lambda>resp. ret (AnyResponse resp))"
proof -
  have "map_of (scd_Registry demo_externals) (pr_RequestType (ec_Prop demo_commit)) =
      Some (scd_handler_of demo_externals demo_create_oir)"
    using scd_Registry_handler [of demo_externals demo_create_oir] by (simp add: demo_commit_def)
  from scd_Apply_registered [OF this] this show ?thesis
    by (simp add: apply_registered_def) (simp add: demo_commit_def demo_scd_codec_def liftO_def fun_eq_iff bindE_def)
qed

lemma demo_commit_processed:
  assumes "mr_state r = demo_scd_state"
  shows "\<exists>resp r'. processCommit (scd_RaftRepo demo_externals demo_scd_codec) demo_commit r = (Replied (Ok (AnyResponse resp)), r')"
proof -
  obtain p subs st' where e: "executePutOperationalIntentReference demo_externals (Some 7) demo_create_oir demo_scd_state =
      (Ok (PutOIRResult_Response p subs), st')" using demo_put_oir by blast
  have c: "ec_SnapshotData demo_commit = None" "\<not> pr_ReadOnly (ec_Prop demo_commit)" by (simp_all add: demo_commit_def)
  have "rr_Apply (scd_RaftRepo demo_externals demo_scd_codec) (Some (pr_Timestamp (ec_Prop demo_commit)), ec_Prop demo_commit)
     (rr_Checkpoint (scd_RaftRepo demo_externals demo_scd_codec) r) =
     (Ok (AnyResponse (PutOIRResult_Response p subs)), (scd_Checkpoint r)\<lparr>mr_state := st'\<rparr>)"
    using e assms by (simp add: on_state_def demo_Apply scd_raft.checkpoint_current)
  from processCommit_write [OF c this] show ?thesis by auto
qed

theorem scd_commit_atomic_witness:
  "\<exists>x r'. processCommit (scd_RaftRepo demo_externals demo_scd_codec) demo_commit
       \<lparr>mr_state = demo_scd_state, mr_checkpoint = empty_scd_state\<rparr> = (Replied (Ok x), r') \<and>
     scd_Apply demo_externals demo_scd_codec (Some 7, ec_Prop demo_commit) demo_scd_state = (Ok x, mr_state r')"
proof -
  let ?r = "\<lparr>mr_state = demo_scd_state, mr_checkpoint = empty_scd_state\<rparr>"
  obtain x r' where e: "processCommit (scd_RaftRepo demo_externals demo_scd_codec) demo_commit ?r = (Replied (Ok x), r')"
    using demo_commit_processed [of ?r] by auto
  with scd_commit_atomic [OF _ _ e] show ?thesis by (auto simp: demo_commit_def)
qed

text \<open>The same commit on a new store, after which the store is reachable and has the new intent.\<close>

lemma demo_first_commit:
  "\<exists>x r'. processCommit (scd_RaftRepo demo_externals demo_scd_codec) demo_commit scd_newRepo = (Replied (Ok x), r') \<and>
     gob_safe (mr_state scd_newRepo)"
proof -
  have st: "mr_state scd_newRepo = empty_scd_state" by (simp add: scd_newRepo_def scd_Checkpoint_def)
  have "\<exists>p subs st'. executePutOperationalIntentReference demo_externals (Some 7) demo_create_oir empty_scd_state =
     (Ok (PutOIRResult_Response p subs), st')"
    by (rule executePut_succeeds [OF scd_inv_empty demo_oir_guards(1,2)])
      (simp_all add: demo_oir_params_def demo_volume_def empty_scd_state_def find_intent_def uss_state_def
        complete_volume_def IsZero_def zero_time_def subscription_usable_def key_complete_def attached_for_constraints_def)
  then obtain p subs st' where e: "executePutOperationalIntentReference demo_externals (Some 7) demo_create_oir empty_scd_state =
     (Ok (PutOIRResult_Response p subs), st')" by blast
  have c: "ec_SnapshotData demo_commit = None" "\<not> pr_ReadOnly (ec_Prop demo_commit)" by (simp_all add: demo_commit_def)
  have "rr_Apply (scd_RaftRepo demo_externals demo_scd_codec) (Some (pr_Timestamp (ec_Prop demo_commit)), ec_Prop demo_commit)
     (rr_Checkpoint (scd_RaftRepo demo_externals demo_scd_codec) scd_newRepo) =
     (Ok (AnyResponse (PutOIRResult_Response p subs)), (scd_Checkpoint scd_newRepo)\<lparr>mr_state := st'\<rparr>)"
    using e st by (simp add: on_state_def demo_Apply scd_raft.checkpoint_current)
  from processCommit_write [OF c this] st show ?thesis by (auto simp: gob_safe_def empty_scd_state_def)
qed

theorem scd_reachable_invariant_witness:
  "\<exists>x r'. processCommit (scd_RaftRepo demo_externals demo_scd_codec) demo_commit scd_newRepo = (Replied (Ok x), r') \<and>
     scd_inv (mr_state r')"
proof -
  obtain x r' where e: "processCommit (scd_RaftRepo demo_externals demo_scd_codec) demo_commit scd_newRepo = (Replied (Ok x), r')"
    using demo_first_commit by blast
  have "scd_write_request demo_externals demo_scd_codec (mr_state scd_newRepo) (ec_Prop demo_commit)"
    using scd_Registry_handler [of demo_externals demo_create_oir]
    by (simp add: scd_write_request_def demo_commit_def demo_scd_codec_def admissible_def fresh_implicit_def
        scd_newRepo_def scd_Checkpoint_def empty_scd_state_def)
  from scd_reachable_invariant [OF scd_reachable.written [OF scd_reachable.start _ this e]] e
  show ?thesis by (auto simp: demo_commit_def)
qed

lemma scd_catch_up_witness:
  "\<exists>x q'. processCommits (scd_RaftRepo demo_externals demo_scd_codec)
      [\<lparr>ec_Prop = ec_Prop demo_commit, ec_SnapshotData = Some (scd_GetSnapshot scd_newRepo)\<rparr>, demo_commit]
      \<lparr>mr_state = demo_scd_state, mr_checkpoint = empty_scd_state\<rparr> = ([Restored, Replied (Ok x)], q')"
proof -
  obtain x r' where e: "processCommit (scd_RaftRepo demo_externals demo_scd_codec) demo_commit scd_newRepo = (Replied (Ok x), r')"
      "gob_safe (mr_state scd_newRepo)"
    using demo_first_commit by blast
  from scd_catch_up [of demo_externals demo_scd_codec "[]" scd_newRepo "[]" scd_newRepo "[demo_commit]" "[Replied (Ok x)]" r'
      "ec_Prop demo_commit" "\<lparr>mr_state = demo_scd_state, mr_checkpoint = empty_scd_state\<rparr>"] e
  show ?thesis by auto
qed

lemma scd_Transact_executes_witness:
  "\<exists>p x r'. Transact (scd_Registry demo_externals) scd_OperationID (js_encode demo_scd_codec) ''p'' 1 (Some 7) demo_create_oir = Ok p \<and>
     processCommit (scd_RaftRepo demo_externals demo_scd_codec) \<lparr>ec_Prop = p, ec_SnapshotData = None\<rparr> scd_newRepo =
       (Replied (Ok (AnyResponse x)), r') \<and>
     executePutOperationalIntentReference demo_externals (Some 7) demo_create_oir (mr_state scd_newRepo) = (Ok x, mr_state r')"
proof -
  obtain y r' where e: "processCommit (scd_RaftRepo demo_externals demo_scd_codec) demo_commit scd_newRepo = (Replied (Ok y), r')"
    using demo_first_commit by blast
  have f: "scd_codec_faithful demo_scd_codec demo_create_oir" by (simp add: codec_faithful_def demo_scd_codec_def)
  have t: "Transact (scd_Registry demo_externals) scd_OperationID (js_encode demo_scd_codec) ''p'' 1 (Some 7) demo_create_oir =
      Ok (ec_Prop demo_commit)"
    unfolding Transact_def scd_Registry_handler
    by (simp add: demo_scd_codec_def newProposal_def demo_commit_def MustFromContext_def IsZero_def zero_time_def)
  have c: "\<lparr>ec_Prop = ec_Prop demo_commit, ec_SnapshotData = None\<rparr> = demo_commit" by (simp add: demo_commit_def)
  from scd_Transact_executes [OF f t, unfolded c, OF e] obtain x where "y = AnyResponse x"
      "executePutOperationalIntentReference demo_externals (Some 7) demo_create_oir (mr_state scd_newRepo) = (Ok x, mr_state r')"
    by auto
  with e t c show ?thesis by metis
qed

end
