(* ===== verification/Scd_Order.thy ===== *)
theory Scd_Order
  imports Scd_Raft
begin

text \<open>
  The strategic-coordination store and the order of its maps. Go leaves open in which order \<open>range\<close>
  visits a map, and two nodes visit theirs in different orders. The theory shows that what a commit does
  to the store does not depend on it: on two stores with the same contents every proposal leads to
  stores with the same contents again, as long as it does not end the process and the search for
  the key of an operational intent is not cut off at the result limit; beyond the limit it does depend
  on it (\<open>search_depends_on_order\<close>).
\<close>

section \<open>Stores with the same contents\<close>

definition same_maps :: "scd_state \<Rightarrow> scd_state \<Rightarrow> bool" where
  "same_maps s t \<longleftrightarrow>
     map_of (st_Constraints s) = map_of (st_Constraints t) \<and> map_of (st_Subscriptions s) = map_of (st_Subscriptions t) \<and>
     map_of (st_OperationalIntents s) = map_of (st_OperationalIntents t) \<and> map_of (st_Availabilities s) = map_of (st_Availabilities t)"

definition scd_same :: "scd_state \<Rightarrow> scd_state \<Rightarrow> bool" where
  "scd_same s t \<longleftrightarrow> scd_wf s \<and> scd_wf t \<and> same_maps s t"

lemma scd_same_equiv:
  "scd_same s t \<Longrightarrow> scd_same t s" "scd_same s t \<Longrightarrow> scd_same t u \<Longrightarrow> scd_same s u" "scd_wf s \<Longrightarrow> scd_same s s"
  by (simp_all add: scd_same_def same_maps_def)

lemma same_map_mset:
  assumes "wf_gomap m" "wf_gomap m'" "map_of m = map_of m'"
  shows "mset m = mset m'"
proof -
  have "distinct m" "distinct m'" using assms(1,2) by (auto simp: wf_gomap_def distinct_map)
  moreover have "set m = set m'" using assms by (auto simp: wf_gomap_map_of)
  ultimately show ?thesis using set_eq_iff_mset_eq_distinct by blast
qed

lemma scd_same_values:
  assumes "scd_same s t"
  shows "mset (map snd (st_OperationalIntents s)) = mset (map snd (st_OperationalIntents t))"
    and "mset (map snd (st_Constraints s)) = mset (map snd (st_Constraints t))"
  using assms same_map_mset [of "st_OperationalIntents s" "st_OperationalIntents t"]
    same_map_mset [of "st_Constraints s" "st_Constraints t"]
  by (simp_all add: scd_same_def same_maps_def scd_wf_def)

lemma scd_same_lookups:
  assumes "scd_same s t"
  shows "find_constraint L s = find_constraint L t" "find_subscription L s = find_subscription L t"
    "find_availability L s = find_availability L t" "intent_model L s = intent_model L t" "find_intent L s = find_intent L t"
    "uss_state s = uss_state t"
proof -
  have u: "uss_state s = uss_state t" using assms by (simp add: scd_same_def same_maps_def uss_state_def fun_eq_iff)
  then have i: "intent_model L s = intent_model L t" by (simp add: intent_model_def fun_eq_iff)
  have m: "same_maps s t" using assms by (simp add: scd_same_def)
  show "find_constraint L s = find_constraint L t" "find_subscription L s = find_subscription L t"
      "find_availability L s = find_availability L t" "intent_model L s = intent_model L t" "find_intent L s = find_intent L t"
      "uss_state s = uss_state t"
    using u i m
    by (simp_all add: same_maps_def find_constraint_def find_subscription_def find_availability_def find_intent_def ext)
qed

lemma mset_map_filter: "mset xs = mset ys \<Longrightarrow> mset (map f (filter P xs)) = mset (map f (filter P ys))"
  by (metis mset_filter mset_map)

lemma scd_same_dependents: "scd_same s t \<Longrightarrow> mset (dependents s i) = mset (dependents t i)"
  unfolding dependents_def by (intro mset_map_filter scd_same_values)

section \<open>Operations on stores with the same contents\<close>

text \<open>\<open>sim R m m'\<close>: on stores with the same contents, \<open>m\<close> and \<open>m'\<close> both fail, or both succeed with results
  related by \<open>R\<close>, and leave stores with the same contents behind, unless one of them panics.\<close>

fun agree :: "('a \<Rightarrow> 'b \<Rightarrow> bool) \<Rightarrow> 'a outcome \<Rightarrow> 'b outcome \<Rightarrow> bool" where
  "agree R (Ok x) (Ok y) = R x y"
| "agree R (Err _) (Err _) = True"
| "agree R _ _ = False"

definition sim :: "('a \<Rightarrow> 'b \<Rightarrow> bool) \<Rightarrow> (scd_state, 'a) op \<Rightarrow> (scd_state, 'b) op \<Rightarrow> bool" where
  "sim R m m' \<longleftrightarrow> (\<forall>s t x s' y t'. scd_same s t \<longrightarrow> m s = (x, s') \<longrightarrow> m' t = (y, t') \<longrightarrow> x \<noteq> Panic \<longrightarrow> y \<noteq> Panic \<longrightarrow>
     agree R x y \<and> scd_same s' t')"

abbreviation any_result :: "'a \<Rightarrow> 'b \<Rightarrow> bool" where
  "any_result \<equiv> \<lambda>_ _. True"

named_theorems sim_intros \<open>an operation does not depend on the order of the maps\<close>

lemma simI:
  "(\<And>s t x s' y t'. scd_same s t \<Longrightarrow> m s = (x, s') \<Longrightarrow> m' t = (y, t') \<Longrightarrow> x \<noteq> Panic \<Longrightarrow> y \<noteq> Panic \<Longrightarrow>
     agree R x y \<and> scd_same s' t') \<Longrightarrow> sim R m m'"
  by (simp add: sim_def)

lemma simD:
  "sim R m m' \<Longrightarrow> scd_same s t \<Longrightarrow> m s = (x, s') \<Longrightarrow> m' t = (y, t') \<Longrightarrow> x \<noteq> Panic \<Longrightarrow> y \<noteq> Panic \<Longrightarrow>
     agree R x y \<and> scd_same s' t'"
  by (simp add: sim_def)

lemma sim_bindE:
  assumes "sim R m m'" and "\<And>x y. R x y \<Longrightarrow> sim S (f x) (f' y)"
  shows "sim S (bindE m f) (bindE m' f')"
proof (rule simI)
  fix s t x s' y t'
  assume a: "scd_same s t" "bindE m f s = (x, s')" "bindE m' f' t = (y, t')" "x \<noteq> Panic" "y \<noteq> Panic"
  obtain u s1 v t1 where m: "m s = (u, s1)" "m' t = (v, t1)" by fastforce
  have "u \<noteq> Panic" "v \<noteq> Panic" using a(2-5) m by auto
  from simD [OF assms(1) a(1) m this] have h: "agree R u v" "scd_same s1 t1" by auto
  show "agree S x y \<and> scd_same s' t'"
  proof (cases u)
    case (Ok w)
    with h(1) obtain z where z: "v = Ok z" "R w z" by (cases v) auto
    from simD [OF assms(2) [OF z(2)] h(2)] a(2-5) m Ok z(1) show ?thesis by simp
  next
    case (Err e)
    with h(1) obtain e' where "v = Err e'" by (cases v) auto
    with Err a(2,3) m h(2) show ?thesis by auto
  qed (use \<open>u \<noteq> Panic\<close> in simp)
qed

lemma sim_bind_eq [sim_intros]:
  assumes "sim (=) m m'" and "\<And>x. sim S (f x) (f' x)"
  shows "sim S (bindE m f) (bindE m' f')"
  using sim_bindE [OF assms(1)] assms(2) by blast

lemma sim_basic [sim_intros]:
  "sim (=) (ret x) (ret x)" "sim any_result (ret y) (ret z)" "sim R (fail e) (fail e')"
  "sim (=) (liftO u) (liftO u)" "sim any_result (liftO u) (liftO u)"
  by (auto simp: sim_def; cases u; simp)+

lemma sim_if [sim_intros]:
  "sim R a a' \<Longrightarrow> sim R b b' \<Longrightarrow> sim R (if c then a else b) (if c then a' else b')"
  by simp

lemma sim_option [sim_intros]:
  "sim R a a' \<Longrightarrow> (\<And>x. sim R (b x) (b' x)) \<Longrightarrow>
     sim R (case z of None \<Rightarrow> a | Some x \<Rightarrow> b x) (case z of None \<Rightarrow> a' | Some x \<Rightarrow> b' x)"
  by (cases z) simp_all

lemma sim_prod [sim_intros]:
  "(\<And>x y. sim R (f x y) (f' x y)) \<Longrightarrow> sim R (case p of (x, y) \<Rightarrow> f x y) (case p of (x, y) \<Rightarrow> f' x y)"
  by (cases p) simp

lemma sim_let [sim_intros]: "sim R (f x) (f' x) \<Longrightarrow> sim R (let y = x in f y) (let y = x in f' y)"
  by simp

lemma sim_weaken: "sim R m m' \<Longrightarrow> sim any_result m m'"
proof (rule simI)
  fix s t x s' y t'
  assume "sim R m m'" "scd_same s t" "m s = (x, s')" "m' t = (y, t')" "x \<noteq> Panic" "y \<noteq> Panic"
  from simD [OF this] show "agree any_result x y \<and> scd_same s' t'" by (cases x; cases y) simp_all
qed

lemma sim_any_bind [sim_intros]:
  assumes "sim any_result m m'" and "\<And>x y. sim S (f x) (f' y)"
  shows "sim S (bindE m f) (bindE m' f')"
  using sim_bindE [OF assms(1)] assms(2) by blast

subsection \<open>The operations of the store\<close>

lemma sim_lookups [sim_intros]:
  "sim (=) (or_nil (GetConstraint L i)) (or_nil (GetConstraint L i))" "sim (=) (or_nil (GetUssAvailability L u)) (or_nil (GetUssAvailability L u))"
  "sim (=) (GetSubscription L i) (GetSubscription L i)" "sim (=) (GetOperationalIntent L i) (GetOperationalIntent L i)"
  by (auto simp: sim_def scd_same_lookups)

lemma sim_of_maps:
  assumes "preserves scd_wf m" and "\<And>s t. scd_same s t \<Longrightarrow> fst (m s) = fst (m t) \<and> same_maps (snd (m s)) (snd (m t))"
  shows "sim (=) m m"
proof (rule simI)
  fix s t x s' y t'
  assume a: "scd_same s t" "m s = (x, s')" "m t = (y, t')" "x \<noteq> Panic" "y \<noteq> Panic"
  with assms(2) [OF a(1)] preservesD [OF assms(1) _ a(2)] preservesD [OF assms(1) _ a(3)]
  have "x = y" "scd_same s' t'" by (auto simp: scd_same_def)
  with a(4) show "agree (=) x y \<and> scd_same s' t'" by (cases x) auto
qed

lemma sim_upserts [sim_intros]:
  "sim (=) (UpsertConstraint L ctx c) (UpsertConstraint L ctx c)"
  "sim (=) (UpsertSubscription L ctx u) (UpsertSubscription L ctx u)"
  "sim (=) (UpsertUssAvailability L ctx a) (UpsertUssAvailability L ctx a)"
proof -
  show "sim (=) (UpsertConstraint L ctx c) (UpsertConstraint L ctx c)"
    by (rule sim_of_maps, rule preserves_upserts, cases "CellUnionToCellIdsWithValidation L (cv_Cells (con_Volume c))";
        cases "requireExtentTimes (cv_StartTime (con_Volume c)) (cv_EndTime (con_Volume c))"; cases "MustFromContext ctx")
      (simp_all add: UpsertConstraint_def Let_def scd_same_def same_maps_def map_of_update)
  show "sim (=) (UpsertSubscription L ctx u) (UpsertSubscription L ctx u)"
    by (rule sim_of_maps, rule preserves_upserts, cases "cv_StartTime (sub_Volume u)"; cases "cv_EndTime (sub_Volume u)";
        cases "MustFromContext ctx")
      (simp_all add: UpsertSubscription_def requireExtentTimes_def Let_def scd_same_def same_maps_def map_of_update)
  show "sim (=) (UpsertUssAvailability L ctx a) (UpsertUssAvailability L ctx a)"
    by (rule sim_of_maps, rule preserves_upserts, cases "MustFromContext ctx")
      (simp_all add: UpsertUssAvailability_def Let_def scd_same_def same_maps_def map_of_update)
qed

lemma sim_upsert_intent [sim_intros]: "sim (=) (UpsertOperationalIntent L ctx o1) (UpsertOperationalIntent L ctx o1)"
proof (rule sim_of_maps, rule preserves_upserts)
  fix s t
  assume a: "scd_same s t"
  show "fst (UpsertOperationalIntent L ctx o1 s) = fst (UpsertOperationalIntent L ctx o1 t) \<and>
      same_maps (snd (UpsertOperationalIntent L ctx o1 s)) (snd (UpsertOperationalIntent L ctx o1 t))"
    using a scd_same_lookups(4) [OF a, of L]
    by (cases "requireExtentTimes (cv_StartTime (oi_Volume o1)) (cv_EndTime (oi_Volume o1))"; cases "MustFromContext ctx")
      (simp_all add: UpsertOperationalIntent_def Let_def scd_same_def same_maps_def map_of_update)
qed

lemma sim_deletes [sim_intros]:
  "sim (=) (DeleteConstraint i) (DeleteConstraint i)" "sim (=) (DeleteSubscription i) (DeleteSubscription i)"
  "sim (=) (DeleteOperationalIntent i) (DeleteOperationalIntent i)"
  by (rule sim_of_maps, rule preserves_deletes,
      auto simp: DeleteConstraint_def DeleteSubscription_def DeleteOperationalIntent_def scd_same_def same_maps_def map_of_delete)+

lemma sim_increment [sim_intros]: "sim any_result (increment_where L n v) (increment_where L n v)"
proof (rule simI)
  fix s t x s' y t'
  assume "scd_same s t" "increment_where L n v s = (x, s')" "increment_where L n v t = (y, t')"
  with increment_where_wf [of s L n v] increment_where_wf [of t L n v] show "agree any_result x y \<and> scd_same s' t'"
    by (auto simp: increment_where_conv scd_same_def same_maps_def fun_eq_iff)
qed


section \<open>The operations of the registry\<close>

lemma sim_increments [sim_intros]:
  "sim any_result (IncrementNotificationIndicesForOperationalIntents L v) (IncrementNotificationIndicesForOperationalIntents L v)"
  "sim any_result (IncrementNotificationIndicesForConstraints L v) (IncrementNotificationIndicesForConstraints L v)"
  unfolding IncrementNotificationIndicesForOperationalIntents_def IncrementNotificationIndicesForConstraints_def
  by (rule sim_increment)+

lemma sim_unexpected [sim_intros]: "sim R unexpected_request unexpected_request"
  unfolding unexpected_request_def by (rule sim_basic)

lemma sim_any_ret [sim_intros]: "sim (=) m m' \<Longrightarrow> (\<And>x. sim any_result (f x) (f' x)) \<Longrightarrow> sim any_result (bindE m f) (bindE m' f')"
  by (rule sim_bind_eq)

lemma sim_Set: "sim any_result (executeSetUssAvailability L ctx req) (executeSetUssAvailability L ctx req)"
  unfolding executeSetUssAvailability_def by (cases req; simp; intro sim_intros)

lemma sim_PutConstraint: "sim any_result (executePutConstraint L ctx req) (executePutConstraint L ctx req)"
  unfolding executePutConstraint_def by (cases "constraint_of req"; simp; intro sim_intros)

lemma sim_DeleteConstraint: "sim any_result (executeDeleteConstraint L ctx req) (executeDeleteConstraint L ctx req)"
  unfolding executeDeleteConstraint_def by (cases req; simp; intro sim_intros)

subsection \<open>Subscriptions\<close>

lemma sim_dependents: "sim (\<lambda>x y. mset x = mset y) (GetDependentOperationalIntents i) (GetDependentOperationalIntents i)"
  by (auto simp: sim_def scd_same_dependents)

lemma sim_getOperations:
  "mset is = mset js \<Longrightarrow> sim (\<lambda>x y. set x = set y) (getOperations L is) (getOperations L js)"
  using mset_eq_setD [of "is" js] by (auto simp: sim_def scd_same_lookups)

lemma ValidateDependentOps_all:
  "ValidateDependentOps L s os = Ok () \<longleftrightarrow> (\<forall>o1 \<in> set os. \<exists>op. o1 = Some op \<and> ValidateDependentOp L s op = Ok ())"
  by (induction os) (auto simp: monad_simps deref_def split: option.splits)

lemma sim_ValidateDependentOps:
  assumes "set os = set ps"
  shows "sim any_result (liftO (ValidateDependentOps L s os)) (liftO (ValidateDependentOps L s ps))"
proof -
  have "ValidateDependentOps L s os = Ok () \<longleftrightarrow> ValidateDependentOps L s ps = Ok ()"
    unfolding ValidateDependentOps_all using assms by simp
  then show ?thesis
    by (cases "ValidateDependentOps L s os"; cases "ValidateDependentOps L s ps") (auto simp: sim_def)
qed

lemma sim_check_update:
  "sim (\<lambda>x y. fst x = fst y) (check_subscription_update L subreq old) (check_subscription_update L subreq old)"
proof (cases old)
  case None
  then show ?thesis by (auto simp: check_subscription_update_def sim_def)
next
  case (Some o1)
  let ?sub = "subreq\<lparr>sub_NotificationIndex := sub_NotificationIndex o1\<rparr>"
  have "sim (\<lambda>x y. fst x = fst y)
      (bindE (GetDependentOperationalIntents (sub_ID subreq)) (\<lambda>ids. bindE (getOperations L ids) (\<lambda>operations.
            bindE (liftO (ValidateDependentOps L ?sub operations)) (\<lambda>_. ret (?sub, ids)))))
      (bindE (GetDependentOperationalIntents (sub_ID subreq)) (\<lambda>ids. bindE (getOperations L ids) (\<lambda>operations.
            bindE (liftO (ValidateDependentOps L ?sub operations)) (\<lambda>_. ret (?sub, ids)))))"
    by (rule sim_bindE [OF sim_dependents], rule sim_bindE [OF sim_getOperations], assumption,
        rule sim_any_bind [OF sim_ValidateDependentOps], assumption) (simp add: sim_def)
  then show ?thesis
    unfolding check_subscription_update_def Some unfolding option.case Let_def by (intro sim_if sim_basic)
qed

lemma sim_total:
  assumes "\<And>st. scd_wf st \<Longrightarrow> \<exists>x. n st = (Ok x, st)"
  shows "sim any_result n n"
proof (rule simI)
  fix s t x s' y t'
  assume a: "scd_same s t" "n s = (x, s')" "n t = (y, t')"
  then have "scd_wf s" "scd_wf t" by (simp_all add: scd_same_def)
  with assms [of s] assms [of t] a show "agree any_result x y \<and> scd_same s' t'" by auto
qed

lemma sim_relevant [sim_intros]:
  "sim any_result (relevant_intents L m s) (relevant_intents L m s)" "sim any_result (relevant_constraints L m s) (relevant_constraints L m s)"
  by (rule sim_total, erule relevant_Ok)+

lemma sim_PutSubscription: "sim any_result (executePutSubscription L ctx req) (executePutSubscription L ctx req)"
proof (cases "subscription_of req")
  case (Some s)
  have "sim any_result
     (case x of (sub, deps) \<Rightarrow> bindE (UpsertSubscription L ctx sub) (\<lambda>stored.
          let p = Subscription_ToRest L stored deps in
          bindE (relevant_intents L (sub_Manager sub) stored) (\<lambda>oirs.
          bindE (relevant_constraints L (sub_Manager sub) stored) (\<lambda>constraints.
          ret (PutSubscriptionResponse p oirs constraints)))))
     (case y of (sub, deps) \<Rightarrow> bindE (UpsertSubscription L ctx sub) (\<lambda>stored.
          let p = Subscription_ToRest L stored deps in
          bindE (relevant_intents L (sub_Manager sub) stored) (\<lambda>oirs.
          bindE (relevant_constraints L (sub_Manager sub) stored) (\<lambda>constraints.
          ret (PutSubscriptionResponse p oirs constraints)))))"
    if "fst x = fst y" for x y :: "Subscription \<times> ID list"
    using that by (cases x; cases y) (simp add: Let_def, intro sim_intros)
  note put = sim_bindE [OF sim_check_update this]
  show ?thesis
    unfolding executePutSubscription_def Some option.case
    by (rule sim_bind_eq [OF sim_lookups(3)], rule sim_bind_eq [OF sim_basic(4)], rule sim_bind_eq [OF sim_basic(4)], rule put) simp
qed (simp add: executePutSubscription_def sim_unexpected)

lemma sim_DeleteSubscription: "sim any_result (executeDeleteSubscription L ctx req) (executeDeleteSubscription L ctx req)"
proof -
  have "sim any_result
      (if length xs > 0 then fail e else bindE (DeleteSubscription i) (\<lambda>_. ret (DeleteSubscriptionResponse (Subscription_ToRest L old xs))))
      (if length ys > 0 then fail e else bindE (DeleteSubscription i) (\<lambda>_. ret (DeleteSubscriptionResponse (Subscription_ToRest L old ys))))"
    if "mset xs = mset ys" for xs ys e i old
    using mset_eq_length [OF that] by (simp only:) (intro sim_intros)
  note delete = sim_bindE [OF sim_dependents this]
  show ?thesis
  proof (cases req)
    case (DeleteSubscriptionPayload i m v)
    show ?thesis
      unfolding executeDeleteSubscription_def DeleteSubscriptionPayload scd_request.case
      by (rule sim_bind_eq [OF sim_lookups(3)], intro sim_option sim_if sim_basic, rule delete) simp
  qed (simp_all add: executeDeleteSubscription_def sim_unexpected)
qed

subsection \<open>Operational intents\<close>

lemma sim_OnlyAttached [sim_intros]:
  "sim (=) (SubscriptionIsImplicitAndOnlyAttachedToOIR i s) (SubscriptionIsImplicitAndOnlyAttachedToOIR i s)"
proof -
  have "sim (=) (if length xs = 0 then fail e else ret (length xs = 1 \<and> hd xs = i))
      (if length ys = 0 then fail e else ret (length ys = 1 \<and> hd ys = i))" if "mset xs = mset ys" for xs ys e
  proof (cases "length xs = 1")
    case True
    then obtain x where "xs = [x]" by (auto simp: length_Suc_conv)
    with that show ?thesis by (simp add: sim_basic)
  qed (use mset_eq_length [OF that] in \<open>simp add: sim_basic\<close>)
  note attached = sim_bindE [OF sim_dependents this]
  show ?thesis
    unfolding SubscriptionIsImplicitAndOnlyAttachedToOIR_def by (intro sim_option sim_if sim_basic, rule attached) simp
qed

lemma sim_resolve [sim_intros]: "sim (=) (resolveSubscription L p m vp) (resolveSubscription L p m vp)"
  unfolding resolveSubscription_def Let_def by (intro sim_intros)

lemma sim_put_commit [sim_intros]:
  "sim any_result (put_commit L ctx m vp old p att up rm) (put_commit L ctx m vp old p att up rm)"
  unfolding put_commit_def by (intro sim_intros)

lemma sim_DeleteOIR:
  "sim any_result (executeDeleteOperationalIntentReference L ctx req) (executeDeleteOperationalIntentReference L ctx req)"
  unfolding executeDeleteOperationalIntentReference_def LockSubscriptionsOnCells_def
  by (cases req; simp only: scd_request.case Let_def; intro sim_intros)

subsection \<open>Upserts of operational intents\<close>

text \<open>The search for the key of an upsert is complete: no more intents and no more constraints match the volume
  than a search returns.\<close>

definition within_limit :: "cells_volume_4d \<Rightarrow> scd_state \<Rightarrow> bool" where
  "within_limit v st \<longleftrightarrow>
     length (filter (intent_matches v) (map snd (st_OperationalIntents st))) \<le> MaxResultLimit \<and>
     length (filter (constraint_matches v) (map snd (st_Constraints st))) \<le> MaxResultLimit"

lemma same_intents_found:
  assumes "scd_same s t" "within_limit v s" "within_limit v t" "cv_Cells v \<noteq> []"
  obtains xs ys where "SearchOperationalIntents L v s = (Ok xs, s)" "SearchOperationalIntents L v t = (Ok ys, t)" "mset xs = mset ys"
proof (rule that)
  have wf: "scd_wf s" "scd_wf t" using assms(1) by (simp_all add: scd_same_def)
  show "SearchOperationalIntents L v s = (Ok (map (intent_model L s) (filter (intent_matches v) (map snd (st_OperationalIntents s)))), s)"
      "SearchOperationalIntents L v t = (Ok (map (intent_model L t) (filter (intent_matches v) (map snd (st_OperationalIntents t)))), t)"
    using SearchOperationalIntents_conv wf assms(2-4) by (simp_all add: within_limit_def)
  show "mset (map (intent_model L s) (filter (intent_matches v) (map snd (st_OperationalIntents s)))) =
      mset (map (intent_model L t) (filter (intent_matches v) (map snd (st_OperationalIntents t))))"
    unfolding scd_same_lookups(4) [OF assms(1)] by (rule mset_map_filter [OF scd_same_values(1) [OF assms(1)]])
qed

lemma same_constraints_found:
  assumes "scd_same s t" "within_limit v s" "within_limit v t" "cv_Cells v \<noteq> []"
  obtains xs ys where "SearchConstraints L v s = (Ok xs, s)" "SearchConstraints L v t = (Ok ys, t)" "mset xs = mset ys"
proof (rule that)
  have wf: "scd_wf s" "scd_wf t" using assms(1) by (simp_all add: scd_same_def)
  show "SearchConstraints L v s = (Ok (map (constraintRecord_toModel L) (filter (constraint_matches v) (map snd (st_Constraints s)))), s)"
      "SearchConstraints L v t = (Ok (map (constraintRecord_toModel L) (filter (constraint_matches v) (map snd (st_Constraints t)))), t)"
    using SearchConstraints_conv wf assms(2-4) by (simp_all add: within_limit_def)
qed (rule mset_map_filter [OF scd_same_values(2) [OF assms(1)]])

lemma none_filtered: "mset xs = mset ys \<Longrightarrow> filter P xs = [] \<longleftrightarrow> filter P ys = []"
  by (metis mset_eq_setD filter_empty_conv)

text \<open>Operations on stores with the same contents that satisfy a condition.\<close>

definition sim_on :: "(scd_state \<Rightarrow> bool) \<Rightarrow> ('a \<Rightarrow> 'b \<Rightarrow> bool) \<Rightarrow> (scd_state, 'a) op \<Rightarrow> (scd_state, 'b) op \<Rightarrow> bool" where
  "sim_on P R m m' \<longleftrightarrow> (\<forall>s t x s' y t'. scd_same s t \<longrightarrow> P s \<longrightarrow> P t \<longrightarrow> m s = (x, s') \<longrightarrow> m' t = (y, t') \<longrightarrow> x \<noteq> Panic \<longrightarrow> y \<noteq> Panic \<longrightarrow>
     agree R x y \<and> scd_same s' t')"

lemma sim_onD:
  "sim_on P R m m' \<Longrightarrow> scd_same s t \<Longrightarrow> P s \<Longrightarrow> P t \<Longrightarrow> m s = (x, s') \<Longrightarrow> m' t = (y, t') \<Longrightarrow> x \<noteq> Panic \<Longrightarrow> y \<noteq> Panic \<Longrightarrow>
     agree R x y \<and> scd_same s' t'"
  by (simp add: sim_on_def)

lemma sim_sim_on: "sim R m m' \<Longrightarrow> sim_on P R m m'"
  by (simp add: sim_def sim_on_def)

lemma sim_on_bindE:
  assumes m: "sim_on P R m m'" and ro: "readonly m" "readonly m'" and f: "\<And>x y. R x y \<Longrightarrow> sim_on P S (f x) (f' y)"
  shows "sim_on P S (bindE m f) (bindE m' f')"
  unfolding sim_on_def
proof (intro allI impI)
  fix s t x s' y t'
  assume a: "scd_same s t" "P s" "P t" "bindE m f s = (x, s')" "bindE m' f' t = (y, t')" "x \<noteq> Panic" "y \<noteq> Panic"
  obtain u v where e: "m s = (u, s)" "m' t = (v, t)" using ro by (metis readonlyD surj_pair)
  have "u \<noteq> Panic" "v \<noteq> Panic" using a(4-7) e by auto
  from sim_onD [OF m a(1-3) e this] have h: "agree R u v" by blast
  show "agree S x y \<and> scd_same s' t'"
  proof (cases u)
    case (Ok w)
    with h obtain z where z: "v = Ok z" "R w z" by (cases v) auto
    from sim_onD [OF f [OF z(2)] a(1-3)] a(4-7) e Ok z(1) show ?thesis by simp
  next
    case (Err e1)
    with h obtain e2 where "v = Err e2" by (cases v) auto
    with Err a(1,4,5) e show ?thesis by auto
  qed (use \<open>u \<noteq> Panic\<close> in simp)
qed

lemma sim_on_bind_eq:
  assumes "sim (=) m m" "readonly m" "\<And>x. sim_on P S (f x) (f' x)"
  shows "sim_on P S (bindE m f) (bindE m f')"
  using sim_on_bindE [OF sim_sim_on [OF assms(1)] assms(2,2)] assms(3) by blast

lemma sim_validateKey:
  "sim_on (within_limit (vp_Volume vp)) (\<lambda>x y. (x = None) = (y = None))
     (validateKeyAndProvideConflictResponse L m vp att) (validateKeyAndProvideConflictResponse L m vp att)"
  unfolding sim_on_def
proof (intro allI impI)
  fix s t x s' y t'
  let ?v = "vp_Volume vp" and ?val = "validateKeyAndProvideConflictResponse L m vp att"
  assume a: "scd_same s t" "within_limit ?v s" "within_limit ?v t" "?val s = (x, s')" "?val t = (y, t')" "x \<noteq> Panic" "y \<noteq> Panic"
  show "agree (\<lambda>x y. (x = None) = (y = None)) x y \<and> scd_same s' t'"
  proof (cases "cv_Cells ?v = []")
    case True
    with a show ?thesis by (auto simp: validateKeyAndProvideConflictResponse_def SearchOperationalIntents_def)
  next
    case False
    obtain xs ys where o1: "SearchOperationalIntents L ?v s = (Ok xs, s)" "SearchOperationalIntents L ?v t = (Ok ys, t)" "mset xs = mset ys"
      using same_intents_found [OF a(1-3) False] .
    obtain cs ds where c: "SearchConstraints L ?v s = (Ok cs, s)" "SearchConstraints L ?v t = (Ok ds, t)" "mset cs = mset ds"
      using same_constraints_found [OF a(1-3) False] .
    show ?thesis
      using a none_filtered [OF o1(3)] none_filtered [OF c(3)]
      by (auto simp: validateKeyAndProvideConflictResponse_def o1(1,2) c(1,2) Let_def bindE_def split: if_splits)
  qed
qed

lemma sim_PutOIR:
  assumes "oir_of req = Some (m, vp)"
  shows "sim_on (within_limit (vp_Volume vp)) any_result
    (executePutOperationalIntentReference L ctx req) (executePutOperationalIntentReference L ctx req)"
proof -
  let ?P = "within_limit (vp_Volume vp)"
  define decide where "decide old prev avail =
    bindE (liftO (validateUpsertRequestAgainstPreviousOIR m (vp_OVN vp) old)) (\<lambda>_.
    if avail = UssAvailabilityStateDown \<and>
       (vp_State vp = OperationalIntentStateAccepted \<or> vp_State vp = OperationalIntentStateActivated)
    then fail (NewErrorWithCode PreconditionFailed (''USS '' @ m @ '' may not transition OperationalIntent '' @
                 vp_ID vp @ '' to '' @ vp_State vp @ '' while marked as Down in the DSS''))
    else
    bindE (resolveSubscription L prev m vp) (\<lambda>(attachedSub, upsertAttachedSub, removePrevious).
    bindE (if State_RequiresKey (vp_State vp)
           then validateKeyAndProvideConflictResponse L m vp attachedSub else ret None) (\<lambda>responseConflict.
    case responseConflict of
      Some conflict \<Rightarrow> ret (PutOIRResult_Conflict conflict)
    | None \<Rightarrow> put_commit L ctx m vp old prev attachedSub upsertAttachedSub removePrevious)))" for old prev avail
  have key: "sim_on ?P (\<lambda>x y. (x = None) = (y = None))
      (if State_RequiresKey (vp_State vp) then validateKeyAndProvideConflictResponse L m vp att else ret None)
      (if State_RequiresKey (vp_State vp) then validateKeyAndProvideConflictResponse L m vp att else ret None)" for att
    using sim_validateKey by (auto simp: sim_on_def)
  have d: "sim_on ?P any_result (decide old prev avail) (decide old prev avail)" for old prev avail
    unfolding decide_def
  proof (rule sim_on_bindE [OF sim_sim_on [OF sim_basic(4)]], goal_cases)
    case (3 x y)
    show ?case
    proof (cases "avail = UssAvailabilityStateDown \<and>
       (vp_State vp = OperationalIntentStateAccepted \<or> vp_State vp = OperationalIntentStateActivated)")
      case False
      have "sim_on ?P any_result
          (case z of (att, up, rm) \<Rightarrow> bindE (if State_RequiresKey (vp_State vp)
             then validateKeyAndProvideConflictResponse L m vp att else ret None) (\<lambda>c.
             case c of Some conflict \<Rightarrow> ret (PutOIRResult_Conflict conflict) | None \<Rightarrow> put_commit L ctx m vp old prev att up rm))
          (case z of (att, up, rm) \<Rightarrow> bindE (if State_RequiresKey (vp_State vp)
             then validateKeyAndProvideConflictResponse L m vp att else ret None) (\<lambda>c.
             case c of Some conflict \<Rightarrow> ret (PutOIRResult_Conflict conflict) | None \<Rightarrow> put_commit L ctx m vp old prev att up rm))" for z
        unfolding split_beta
        by (rule sim_on_bindE [OF key])
          (auto intro!: pres_intros sim_sim_on sim_intros split: option.split)
      then show ?thesis
        unfolding if_not_P [OF False] by (rule sim_on_bind_eq [OF sim_resolve readonly_oir_steps(2)])
    qed (simp add: sim_sim_on sim_basic)
  qed (rule pres_intros)+
  have e: "executePutOperationalIntentReference L ctx req s =
      decide (find_intent L s (vp_ID vp)) (previous_subscription L s (find_intent L s (vp_ID vp)))
        (manager_availability s m (find_intent L s (vp_ID vp))) s" for s
    unfolding decide_def by (rule executePut_conv [OF assms refl refl])
  have l: "find_intent L s = find_intent L t" "previous_subscription L s = previous_subscription L t"
      "manager_availability s = manager_availability t" if "scd_same s t" for s t
    unfolding fun_eq_iff previous_subscription_def manager_availability_def scd_same_lookups [OF that] by simp_all
  show ?thesis
    unfolding sim_on_def
  proof (intro allI impI)
    fix s t x s' y t'
    assume a: "scd_same s t" "?P s" "?P t" "executePutOperationalIntentReference L ctx req s = (x, s')"
      "executePutOperationalIntentReference L ctx req t = (y, t')" "x \<noteq> Panic" "y \<noteq> Panic"
    show "agree any_result x y \<and> scd_same s' t'"
      by (rule sim_onD [OF d a(1-3) a(4) [unfolded e l [OF a(1)]] a(5) [unfolded e] a(6,7)])
  qed
qed

subsection \<open>Every proposal\<close>

text \<open>The condition on a proposal: if it is an upsert of an operational intent, the search for its key is complete.\<close>

definition scd_complete :: "scd_codec \<Rightarrow> Proposal \<Rightarrow> scd_state \<Rightarrow> bool" where
  "scd_complete J p st \<longleftrightarrow>
     (case js_decode J (pr_RequestType p) (pr_Value p) of
        Ok req \<Rightarrow> (case oir_of req of None \<Rightarrow> True | Some (m, vp) \<Rightarrow> within_limit (vp_Volume vp) st)
      | _ \<Rightarrow> True)"

definition order_free :: "(scd_state \<Rightarrow> bool) \<Rightarrow> (scd_state, 'a) op \<Rightarrow> bool" where
  "order_free P m \<longleftrightarrow> readonly m \<or> sim_on P any_result m m"

lemma order_freeI: "readonly m \<Longrightarrow> order_free P m" "sim any_result m m \<Longrightarrow> order_free P m"
  by (simp_all add: order_free_def sim_sim_on)

lemma sim_with_payload: "(\<And>x. sim R (f x) (f x)) \<Longrightarrow> sim any_result (with_payload p f g) (with_payload p f g)"
  unfolding with_payload_def by (rule sim_bind_eq [OF sim_basic(4)], rule sim_any_bind [OF sim_weaken], assumption, rule sim_basic)

lemma direct_order_free:
  "apply_constraints L J ctx ty v = Some m \<Longrightarrow> order_free P m"
  "apply_subscriptions L J ctx ty v = Some m \<Longrightarrow> order_free P m"
  "apply_intents L J ctx ty v = Some m \<Longrightarrow> order_free P m"
  "apply_availability L J ctx ty v = Some m \<Longrightarrow> order_free P m"
proof -
  show "apply_constraints L J ctx ty v = Some m \<Longrightarrow> order_free P m"
    by (auto simp: apply_constraints_def split: if_splits intro: order_freeI sim_with_payload sim_intros pres_intros)
  show "apply_subscriptions L J ctx ty v = Some m \<Longrightarrow> order_free P m"
    by (auto simp: apply_subscriptions_def split: if_splits intro: order_freeI sim_with_payload sim_intros pres_intros)
  show "apply_intents L J ctx ty v = Some m \<Longrightarrow> order_free P m"
    by (auto simp: apply_intents_def split: if_splits intro: order_freeI sim_with_payload sim_intros pres_intros)
  show "apply_availability L J ctx ty v = Some m \<Longrightarrow> order_free P m"
    by (auto simp: apply_availability_def split: if_splits intro: order_freeI sim_with_payload sim_intros pres_intros)
qed

lemma registry_writes:
  assumes "map_of (scd_Registry L) opid = Some h" "\<not> oh_IsReadOnly h"
  shows "sim any_result (oh_Execute h ctx req) (oh_Execute h ctx req) \<or> oh_Execute h = executePutOperationalIntentReference L"
  using assms sim_Set sim_PutConstraint sim_DeleteConstraint sim_PutSubscription sim_DeleteSubscription sim_DeleteOIR
  by (auto simp: scd_Registry_defs split: if_splits)

lemma sim_on_answer:
  assumes "sim_on P any_result m m"
  shows "sim_on P any_result (bindE (liftO (Ok q)) (\<lambda>_. bindE m (\<lambda>x. ret (f x)))) (bindE (liftO (Ok q)) (\<lambda>_. bindE m (\<lambda>x. ret (f x))))"
  unfolding sim_on_def
proof (intro allI impI)
  fix s t x s' y t'
  assume a: "scd_same s t" "P s" "P t" "bindE (liftO (Ok q)) (\<lambda>_. bindE m (\<lambda>x. ret (f x))) s = (x, s')"
    "bindE (liftO (Ok q)) (\<lambda>_. bindE m (\<lambda>x. ret (f x))) t = (y, t')" "x \<noteq> Panic" "y \<noteq> Panic"
  obtain u s1 v t1 where m: "m s = (u, s1)" "m t = (v, t1)" by fastforce
  have "u \<noteq> Panic" "v \<noteq> Panic" using a(4-7) m by auto
  from sim_onD [OF assms a(1-3) m this] a(4-7) m show "agree any_result x y \<and> scd_same s' t'"
    by (cases u; cases v) auto
qed

lemma registered_order_free: "order_free (scd_complete J p) (apply_registered L J ctx (pr_RequestType p) (pr_Value p))"
proof (cases "map_of (scd_Registry L) (pr_RequestType p)")
  case (Some h)
  show ?thesis
  proof (cases "oh_IsReadOnly h")
    case True
    with readonly_apply_registered [OF Some] show ?thesis by (auto simp: order_free_def)
  next
    case False
    have ex: "sim_on (scd_complete J p) any_result (oh_Execute h ctx req) (oh_Execute h ctx req)"
      if "js_decode J (pr_RequestType p) (pr_Value p) = Ok req" for req
    proof (cases "oh_Execute h = executePutOperationalIntentReference L")
      case True
      show ?thesis
      proof (cases "oir_of req")
        case None
        then show ?thesis by (simp add: True executePutOperationalIntentReference_def sim_sim_on sim_unexpected)
      next
        case (Some mv)
        with sim_PutOIR [of req "fst mv" "snd mv" L ctx] that True show ?thesis
          by (auto simp: sim_on_def scd_complete_def split: prod.splits)
      qed
    qed (use registry_writes [OF Some False] sim_sim_on in blast)
    have "sim_on (scd_complete J p) any_result
        (bindE (liftO (js_decode J (pr_RequestType p) (pr_Value p))) (\<lambda>req. bindE (oh_Execute h ctx req) (\<lambda>resp. ret (AnyResponse resp))))
        (bindE (liftO (js_decode J (pr_RequestType p) (pr_Value p))) (\<lambda>req. bindE (oh_Execute h ctx req) (\<lambda>resp. ret (AnyResponse resp))))"
    proof (cases "js_decode J (pr_RequestType p) (pr_Value p)")
      case (Ok req)
      with sim_on_answer [OF ex [OF Ok], of req] show ?thesis by (simp add: sim_on_def)
    qed (simp_all add: sim_on_def)
    with Some show ?thesis by (simp add: order_free_def apply_registered_def)
  qed
qed (simp add: apply_registered_def order_freeI(1) readonly_basic)


lemma first_case:
  assumes "\<And>m. a = Some m \<Longrightarrow> Q m" "Q z"
  shows "Q (case a of Some m \<Rightarrow> m | None \<Rightarrow> z)"
  using assms by (simp split: option.split)

lemma scd_Apply_order_free: "order_free (scd_complete J p) (scd_Apply L J (ctx, p))"
  unfolding scd_Apply_def Let_def split_conv
  by (intro first_case [where Q = "order_free (scd_complete J p)"] registered_order_free, (erule direct_order_free)+)

interpretation scd_order: order_free_repo scd_Checkpoint scd_Restore mr_state mr_checkpoint "\<lambda>p. on_state (scd_Apply L J p)"
  "scd_RaftRepo L J" scd_same "scd_complete J" for L J
proof (unfold_locales, goal_cases)
  case (6 r q p ctx x r' y q')
  then have e: "scd_Apply L J (ctx, p) (mr_state r) = (x, mr_state r')" "scd_Apply L J (ctx, p) (mr_state q) = (y, mr_state q')"
    by (auto simp: on_state_def split: prod.splits)
  from scd_Apply_order_free [of J p L ctx] show ?case
    unfolding order_free_def
  proof
    assume "readonly (scd_Apply L J (ctx, p))"
    with e 6(1) readonlyD show ?thesis by metis
  next
    assume "sim_on (scd_complete J p) any_result (scd_Apply L J (ctx, p)) (scd_Apply L J (ctx, p))"
    from sim_onD [OF this 6(1-3) e 6(6,7)] show ?thesis by (cases x; cases y) auto
  qed
next
  case (4 s t)
  then show ?case by (rule scd_same_equiv)
next
  case (5 s t u)
  then show ?case by (rule scd_same_equiv)
qed simp_all

section \<open>Beyond the result limit\<close>

lemma reordered_map:
  assumes "wf_gomap m" "mset m' = mset m"
  shows "wf_gomap m' \<and> map_of m' = map_of m"
proof -
  have "mset (map fst m') = mset (map fst m)" using assms(2) by simp
  then have wf: "wf_gomap m'" using assms(1) by (metis wf_gomap_def mset_eq_imp_distinct_iff)
  moreover have "map_of m' k = map_of m k" for k
    using wf_gomap_map_of [OF wf, of k] wf_gomap_map_of [OF assms(1), of k] mset_eq_setD [OF assms(2)]
    by (metis not_Some_eq)
  ultimately show ?thesis by blast
qed

text \<open>Stores with the same contents in which one intent is visited last, and first.\<close>

lemma moved_intent:
  assumes "scd_wf s" and "map_of (st_OperationalIntents s) i = Some r"
  defines "others \<equiv> remove1 (i, r) (st_OperationalIntents s)"
  shows "scd_same s (s\<lparr>st_OperationalIntents := others @ [(i, r)]\<rparr>)" "scd_same s (s\<lparr>st_OperationalIntents := (i, r) # others\<rparr>)"
    and "r \<notin> set (map snd others)" and "mset (r # map snd others) = mset (map snd (st_OperationalIntents s))"
proof -
  let ?m = "st_OperationalIntents s"
  have wf: "wf_gomap ?m" and k: "keyed or_ID ?m" using assms(1) by (simp_all add: scd_wf_def)
  have ir: "(i, r) \<in> set ?m" using assms(2) by (rule map_of_SomeD)
  have p: "mset ((i, r) # others) = mset ?m" "mset (others @ [(i, r)]) = mset ?m" using ir by (simp_all add: others_def)
  from reordered_map [OF wf p(1)] reordered_map [OF wf p(2)] assms(1)
  show "scd_same s (s\<lparr>st_OperationalIntents := others @ [(i, r)]\<rparr>)" "scd_same s (s\<lparr>st_OperationalIntents := (i, r) # others\<rparr>)"
    by (simp_all add: scd_same_def same_maps_def scd_wf_def keyed_def all_values_def)
  have "distinct ((i, r) # others)" using reordered_map [OF wf p(1)] by (metis wf_gomap_def distinct_map)
  moreover have "j = i" if "(j, r) \<in> set others" for j
    using that notin_set_remove1 [of "(j, r)" ?m "(i, r)"] k assms(2) wf by (auto simp: others_def keyed_def wf_gomap_map_of)
  ultimately show "r \<notin> set (map snd others)" by auto
  have "mset (map snd ((i, r) # others)) = mset (map snd ?m)" using p(1) by (metis mset_map)
  then show "mset (r # map snd others) = mset (map snd ?m)" by simp
qed

text \<open>When more intents match than a search returns, whether an upsert is stored or refused for its key
  depends on the order in which the map is visited. So nodes with the same contents may take different
  decisions on the same entry of the log.\<close>

lemma key_check_depends_on_order:
  assumes wf: "scd_wf s" and r: "map_of (st_OperationalIntents s) i = Some r" "intent_matches (vp_Volume vp) r"
    and many: "MaxResultLimit < length (filter (intent_matches (vp_Volume vp)) (map snd (st_OperationalIntents s)))"
    and cells: "cv_Cells (vp_Volume vp) \<noteq> []"
    and key: "\<And>j q. map_of (st_OperationalIntents s) j = Some q \<Longrightarrow> oi_OVN (intent_model L s q) \<in> set (vp_Key vp) \<longleftrightarrow> q \<noteq> r"
    and needed: "OperationalIntent_RequiresKey (intent_model L s r)" "i \<noteq> vp_ID vp"
  shows "\<exists>t u c. scd_same s t \<and> validateKeyAndProvideConflictResponse L m vp None t = (Ok None, t) \<and>
    scd_same s u \<and> validateKeyAndProvideConflictResponse L m vp None u = (Ok (Some c), u)"
proof -
  let ?v = "vp_Volume vp" and ?o = "remove1 (i, r) (st_OperationalIntents s)"
  let ?t = "s\<lparr>st_OperationalIntents := ?o @ [(i, r)]\<rparr>" and ?u = "s\<lparr>st_OperationalIntents := (i, r) # ?o\<rparr>"
  note mv = moved_intent [OF wf r(1)]
  have wft: "scd_wf ?t" "scd_wf ?u" using mv(1,2) by (auto simp: scd_same_def)
  have im: "intent_model L ?t = intent_model L s" "intent_model L ?u = intent_model L s"
    using scd_same_lookups(4) mv(1,2) by metis+
  have "mset (filter (intent_matches ?v) (r # map snd ?o)) = mset (filter (intent_matches ?v) (map snd (st_OperationalIntents s)))"
    using mv(4) by (metis mset_filter)
  from mset_eq_length [OF this] many r(2) have n: "MaxResultLimit \<le> length (filter (intent_matches ?v) (map snd ?o))" by simp
  have known: "oi_OVN (intent_model L s q) \<in> set (vp_Key vp)" if "q \<in> set (map snd ?o)" for q
  proof -
    from that have "q \<in> set (map snd (st_OperationalIntents s))" "q \<noteq> r"
      using mv(3) notin_set_remove1 by force+
    with values_map_of [of "st_OperationalIntents s" q] wf key show ?thesis by (auto simp: scd_wf_def)
  qed
  have "SearchOperationalIntents L ?v ?t = (Ok (map (intent_model L s) (take MaxResultLimit (filter (intent_matches ?v) (map snd ?o)))), ?t)"
    using SearchOperationalIntents_conv [OF wft(1) cells, of L] n by (simp add: im)
  moreover have "filter (\<lambda>o1. oi_OVN o1 \<notin> set (vp_Key vp) \<and> OperationalIntent_RequiresKey o1 \<and> oi_ID o1 \<noteq> vp_ID vp)
      (map (intent_model L s) (take MaxResultLimit (filter (intent_matches ?v) (map snd ?o)))) = []"
    using known by (auto simp: filter_empty_conv dest!: in_set_takeD)
  ultimately have t: "validateKeyAndProvideConflictResponse L m vp None ?t = (Ok None, ?t)"
    by (simp add: validateKeyAndProvideConflictResponse_def Let_def)
  let ?f = "\<lambda>o1. oi_OVN o1 \<notin> set (vp_Key vp) \<and> OperationalIntent_RequiresKey o1 \<and> oi_ID o1 \<noteq> vp_ID vp"
  define found where "found = map (intent_model L s) (take MaxResultLimit (filter (intent_matches ?v) (r # map snd ?o)))"
  have "intent_model L s r \<in> set found" using r(2) by (simp add: found_def take_Cons')
  moreover have "?f (intent_model L s r)" using key [OF r(1)] needed r(1) wf by (auto simp: scd_wf_def keyed_def)
  ultimately have "filter ?f found \<noteq> []" unfolding filter_empty_conv by blast
  moreover have "map snd (st_OperationalIntents ?u) = r # map snd ?o" by simp
  then have "SearchOperationalIntents L ?v ?u = (Ok found, ?u)"
    using SearchOperationalIntents_conv [OF wft(2) cells, of L] by (simp only: im found_def)
  ultimately have "\<exists>c. validateKeyAndProvideConflictResponse L m vp None ?u = (Ok (Some c), ?u)"
    by (simp add: validateKeyAndProvideConflictResponse_def Let_def)
  with t mv(1,2) show ?thesis by blast
qed

section \<open>Every proposal keeps the store well formed\<close>

definition keeps_wf :: "(scd_state, 'a) op \<Rightarrow> bool" where
  "keeps_wf m \<longleftrightarrow> (\<forall>s x s'. scd_wf s \<longrightarrow> m s = (x, s') \<longrightarrow> x \<noteq> Panic \<longrightarrow> scd_wf s')"

lemma keeps_wfI:
  "preserves scd_wf m \<Longrightarrow> keeps_wf m"
  "order_free (\<lambda>_. True) m \<Longrightarrow> keeps_wf m"
proof -
  show "preserves scd_wf m \<Longrightarrow> keeps_wf m" using preservesD [of scd_wf m] unfolding keeps_wf_def by blast
  show "keeps_wf m" if "order_free (\<lambda>_. True) m"
    unfolding keeps_wf_def
  proof (intro allI impI)
    fix s x s'
    assume a: "scd_wf s" "m s = (x, s')" "x \<noteq> Panic"
    from that show "scd_wf s'"
      unfolding order_free_def
    proof
      assume "readonly m"
      with readonlyD [OF this a(2)] a(1) show ?thesis by simp
    next
      assume "sim_on (\<lambda>_. True) any_result m m"
      from sim_onD [OF this scd_same_equiv(3) [OF a(1)] TrueI TrueI a(2,2,3,3)] show ?thesis by (simp add: scd_same_def)
    qed
  qed
qed

lemma PutOIR_wf: "preserves scd_wf (executePutOperationalIntentReference L ctx req)"
  unfolding executePutOperationalIntentReference_def Let_def unexpected_request_def
  by (intro pres_intros) (rule readonly_preserves, (rule pres_intros)+)+

lemma registered_wf: "keeps_wf (apply_registered L J ctx ty v)"
proof (cases "map_of (scd_Registry L) ty")
  case (Some h)
  consider "oh_IsReadOnly h" | "\<not> oh_IsReadOnly h" "oh_Execute h = executePutOperationalIntentReference L"
    | "\<not> oh_IsReadOnly h" "oh_Execute h \<noteq> executePutOperationalIntentReference L" by blast
  then show ?thesis
  proof cases
    case 1
    from readonly_apply_registered [OF Some 1] show ?thesis by (rule keeps_wfI(1) [OF readonly_preserves])
  next
    case 2
    then show ?thesis
      unfolding apply_registered_def Some option.case
      by (intro keeps_wfI(1) pres_intros) (simp add: PutOIR_wf)
  next
    case 3
    have "sim any_result (oh_Execute h ctx req) (oh_Execute h ctx req)" for req
      using registry_writes [OF Some 3(1)] 3(2) by blast
    then show ?thesis
      unfolding apply_registered_def Some option.case
      by (intro keeps_wfI(2) order_freeI(2) sim_bind_eq [OF sim_basic(4)] sim_any_bind sim_basic(2))
  qed
qed (simp add: apply_registered_def keeps_wfI(1) preserves_basic)

lemma scd_Apply_wf: "keeps_wf (scd_Apply L J (ctx, p))"
  unfolding scd_Apply_def Let_def split_conv
  by (intro first_case [where Q = keeps_wf] registered_wf, (rule keeps_wfI(2), erule direct_order_free)+)

lemma scd_commit_wf:
  assumes "processCommit (scd_RaftRepo L J) \<lparr>ec_Prop = p, ec_SnapshotData = None\<rparr> r = (x, q)" "scd_wf (mr_state r)" "x \<noteq> Crashed"
  shows "scd_wf (mr_state q)"
proof -
  let ?c = "\<lparr>ec_Prop = p, ec_SnapshotData = None\<rparr>" and ?app = "scd_Apply L J (Some (pr_Timestamp p), p)"
  show ?thesis
  proof (cases "pr_ReadOnly p")
    case True
    obtain y s' where a: "?app (mr_state r) = (y, s')" by fastforce
    with True assms(1,3) have "y \<noteq> Panic" "mr_state q = s'"
      by (auto simp: processCommit_def Let_def on_state_def split: outcome.splits)
    with a assms(2) scd_Apply_wf show ?thesis unfolding keeps_wf_def by blast
  next
    case False
    obtain y where y: "x = Replied y" using assms(1,3) by (auto simp: processCommit_def Let_def split: prod.splits outcome.splits)
    from scd_commit_write [OF _ _ assms(1) [unfolded y]] False assms(2) scd_Apply_wf
    show ?thesis unfolding keeps_wf_def by (cases y) (auto split: if_splits)
  qed
qed

end
