(* ===== verification/Scd_Cluster.thy ===== *)
theory Scd_Cluster
  imports Scd_Order
begin

text \<open>
  The strategic-coordination store on a group of nodes: the commit loop over the SCD repository
  (\<open>Scd_Raft\<close>) driven by the raft updates consumer (\<open>Consensus_Node\<close>), whatever the order in which each
  node visits its maps (\<open>Scd_Order\<close>).
\<close>

definition scd_env :: "externals \<Rightarrow> scd_codec \<Rightarrow> (scd_repo, scd_envelope gob_data, scd_any, 'c) raft_env \<Rightarrow> bool" where
  "scd_env L J E \<longleftrightarrow> env_repo E = scd_RaftRepo L J \<and> env_getAppSnapshot E = scd_GetSnapshot"

text \<open>Repositories whose stores differ in the order of their maps only.\<close>

definition scd_reordered :: "scd_repo \<Rightarrow> scd_repo \<Rightarrow> bool" where
  "scd_reordered r r' \<longleftrightarrow> scd_same (mr_state r) (mr_state r')"

abbreviation scd_node ::
    "externals \<Rightarrow> (scd_repo, scd_envelope gob_data, scd_any, 'c) raft_env \<Rightarrow> scd_any \<Rightarrow> 64 word \<Rightarrow> (nat \<Rightarrow> Entry) \<Rightarrow>
     (scd_repo, scd_envelope gob_data, scd_any, 'c) node \<Rightarrow> bool" where
  "scd_node L E nil i lg nd \<equiv>
     node_reachable E nil i (\<lambda>r. gob_safe (mr_state r)) (scd_read_request L) scd_reordered lg scd_newRepo nd"

abbreviation scd_run ::
    "(scd_repo, scd_envelope gob_data, scd_any, 'c) raft_env \<Rightarrow> (nat \<Rightarrow> Entry) \<Rightarrow> nat \<Rightarrow> scd_repo \<Rightarrow> bool" where
  "scd_run E lg n r \<equiv> log_run E scd_reordered lg scd_newRepo n r"

lemma scd_node_inv:
  assumes "scd_env L J E" and "numbered lg" and "scd_node L E nil i lg nd"
  shows "node_inv mr_state E scd_reordered lg scd_newRepo nd"
proof (rule scd_replica.node_runs [OF _ _ assms(2) _ _ assms(3)])
  show "env_repo E = scd_RaftRepo L J" "env_getAppSnapshot E = scd_GetSnapshot"
    using assms(1) by (simp_all add: scd_env_def)
next
  fix r q r' :: scd_repo
  assume "mr_state r = mr_state q" "scd_reordered q r'"
  then show "scd_reordered r r'" by (simp add: scd_reordered_def)
qed (rule scd_read_keeps)

text \<open>The stores of all executions are well formed, so that every reordering of their maps is a step of them.\<close>

lemma scd_run_wf:
  assumes "scd_env L J E" "scd_run E lg n r"
  shows "scd_wf (mr_state r)"
  using assms(2)
proof induction
  case start
  then show ?case using scd_reachable_wf by (simp add: scd_inv_def)
next
  case (reorder n r r')
  then show ?case by (simp add: scd_reordered_def scd_same_def)
next
  case (entry n r xs r')
  show ?case
  proof (cases "entry_commit E (lg (Suc n))")
    case (Cons c cs)
    then obtain p where c: "entry_commit E (lg (Suc n)) = [\<lparr>ec_Prop = p, ec_SnapshotData = None\<rparr>]"
      by (auto simp: entry_commit_def split: if_splits outcome.splits)
    obtain x q where s: "processCommit (env_repo E) \<lparr>ec_Prop = p, ec_SnapshotData = None\<rparr> r = (x, q)" by fastforce
    with entry.hyps(2,3) c have "x \<noteq> Crashed" "r' = q" by (auto split: commit_result.splits)
    with scd_commit_wf [OF _ entry.IH] s assms(1) show ?thesis by (auto simp: scd_env_def)
  qed (use entry in simp)
qed

text \<open>\<open>searches_complete\<close>: on no execution of the log up to an index does the search for the key of an upsert reach
  the result limit.\<close>

definition searches_complete ::
    "scd_codec \<Rightarrow> (scd_repo, scd_envelope gob_data, scd_any, 'c) raft_env \<Rightarrow> (nat \<Rightarrow> Entry) \<Rightarrow> nat \<Rightarrow> bool" where
  "searches_complete J E lg k \<longleftrightarrow>
     (\<forall>n r p. scd_run E lg n r \<longrightarrow> n < k \<longrightarrow> entry_commit E (lg (Suc n)) = [\<lparr>ec_Prop = p, ec_SnapshotData = None\<rparr>] \<longrightarrow>
        scd_complete J p (mr_state r))"

lemma scd_runs_agree:
  assumes "scd_env L J E" "searches_complete J E lg k" "scd_run E lg k r" "scd_run E lg k q"
  shows "scd_same (mr_state r) (mr_state q)"
proof (rule scd_order.runs_agree [of E L J scd_newRepo scd_reordered lg k k r q])
  show "env_repo E = scd_RaftRepo L J" using assms(1) by (simp add: scd_env_def)
  show "scd_same (mr_state scd_newRepo) (mr_state scd_newRepo)"
    using scd_reachable_wf by (simp add: scd_same_def same_maps_def scd_inv_def)
next
  fix n r p
  assume "scd_run E lg n r" "n < k" "entry_commit E (lg (Suc n)) = [\<lparr>ec_Prop = p, ec_SnapshotData = None\<rparr>]"
  with assms(2) show "scd_complete J p (mr_state r)" unfolding searches_complete_def by blast
qed (use assms(3,4) in \<open>simp_all add: scd_reordered_def\<close>)

text \<open>C3: replication. On every node of a group that shares a log, whatever batches it was given, how they
  overlapped, which snapshots it was sent, whether it was restarted from one, what its clients asked of it and
  in which order it visits its maps, the store is in the state of an execution of the log from the beginning
  up to the node's applied index, each entry once and in order. Two nodes
  that have applied the same entries hold the same entities under the same IDs, although Go lets them
  visit their maps in different orders. Two conditions: the
  snapshots that are sent or loaded are of stores without zero altitudes (others are not faithful), and on no execution
  of the log do more than \<open>MaxResultLimit\<close> intents or constraints match the volume of an upsert of an
  intent when it is applied (beyond that the order decides, see \<open>key_check_depends_on_order\<close>). The order may change between commits,
  and is fixed during one. Nodes that crashed are not considered.\<close>

theorem scd_nodes_agree:
  assumes "scd_env L J E" and "numbered lg" and "scd_node L E nil i lg nd" and "scd_node L E nil i' lg nd'"
    and "nd_appliedIndex nd = nd_appliedIndex nd'" and "searches_complete J E lg (unat (nd_appliedIndex nd))"
  shows "(\<exists>r. scd_run E lg (unat (nd_appliedIndex nd)) r \<and> mr_state r = mr_state (nd_repo nd)) \<and>
         same_maps (mr_state (nd_repo nd)) (mr_state (nd_repo nd'))"
proof -
  obtain r where r: "scd_run E lg (unat (nd_appliedIndex nd)) r" "mr_state r = mr_state (nd_repo nd)"
    using scd_node_inv [OF assms(1-3)] by (auto simp: node_inv_def)
  obtain q where q: "scd_run E lg (unat (nd_appliedIndex nd)) q" "mr_state q = mr_state (nd_repo nd')"
    using scd_node_inv [OF assms(1,2,4)] assms(5) by (auto simp: node_inv_def)
  from scd_runs_agree [OF assms(1,6) r(1) q(1)] r q show ?thesis by (auto simp: scd_same_def)
qed

definition demo_env :: "(scd_repo, scd_envelope gob_data, scd_any, nat) raft_env" where
  "demo_env = \<lparr>env_repo = scd_RaftRepo demo_externals demo_scd_codec, env_getAppSnapshot = scd_GetSnapshot,
     env_validURL = (\<lambda>_. True), env_proposal = (\<lambda>_. Ok (ec_Prop demo_commit)),
     env_confChange = (\<lambda>_. Err (NewError ''proto'')), env_confChangeV2 = (\<lambda>_. Err (NewError ''proto'')),
     env_member = (\<lambda>_. Err (NewError ''json'')), env_confChangeContext = (\<lambda>_. Err (NewError ''json'')),
     env_ApplyConfChange = (\<lambda>n _. Suc n)\<rparr>"

definition demo_node :: "64 word \<Rightarrow> (scd_repo, scd_envelope gob_data, scd_any, nat) node" where
  "demo_node n = \<lparr>nd_nodeID = n, nd_repo = scd_newRepo, nd_tracker = newProposalsTracker,
     nd_readTracker = newReadIndexTracker, nd_readers = [], nd_membership = demo_members, nd_confState = 0,
     nd_snapshotIndex = 0, nd_appliedIndex = 0, nd_triggered = []\<rparr>"

text \<open>One node is given three entries at once, the other two and then, with an overlap, two more.\<close>

definition demo_batch :: "nat \<Rightarrow> nat \<Rightarrow> (scd_envelope gob_data, nat) Ready" where
  "demo_batch a b = \<lparr>ry_Snapshot = None, ry_CommittedEntries = map demo_log [a..<b], ry_ReadStates = []\<rparr>"

lemma demo_batch_handled:
  assumes "unat (nd_appliedIndex nd) + 1 < b" "a \<le> unat (nd_appliedIndex nd) + 1" "b \<le> 2 ^ 64 - 1"
  shows "\<exists>nd'. handle_ready demo_env AnyNil 100 (demo_batch a b) nd = (Ok (), nd') \<and> nd_appliedIndex nd' = of_nat (b - 1)"
proof -
  let ?es = "map demo_log [unat (nd_appliedIndex nd) + 1..<b]"
  have ne: "[unat (nd_appliedIndex nd) + 1..<b] \<noteq> []" using assms(1) by simp
  have "publish_loop demo_env AnyNil (map demo_log ns) nd = (Ok (), nd)" for ns and nd :: "(scd_repo, scd_envelope gob_data, scd_any, nat) node"
    by (induction ns) (simp_all add: demo_log_def submitNormalEntryToStorage_def)
  then have p: "publishEntries demo_env AnyNil 100 ?es nd =
      (Ok (), maybe_snapshot demo_env 100 (nd\<lparr>nd_appliedIndex := of_nat (b - 1)\<rparr>))"
    using ne assms(1) by (simp add: publishEntries_def last_map demo_log_def del: upt_Suc map_is_Nil_conv)
  have "unat (nd_appliedIndex nd) < 2 ^ 64 - 1" using assms(1,3) by linarith
  then have e: "entriesToApply (nd_appliedIndex nd) (map demo_log [a..<b]) = Ok ?es"
    using entriesToApply_segment [OF demo_log_numbered assms(3), of "nd_appliedIndex nd" a] assms(1,2) by (simp add: max_def)
  show ?thesis using p e by (simp add: handle_ready_def demo_batch_def)
qed

theorem scd_nodes_agree_witness:
  "\<exists>nd1 nd2 nd3. handle_ready demo_env AnyNil 100 (demo_batch 1 4) (demo_node 1) = (Ok (), nd1) \<and>
     handle_ready demo_env AnyNil 100 (demo_batch 1 3) (demo_node 2) = (Ok (), nd2) \<and>
     handle_ready demo_env AnyNil 100 (demo_batch 2 4) nd2 = (Ok (), nd3) \<and>
     same_maps (mr_state (nd_repo nd1)) (mr_state (nd_repo nd3))"
proof -
  obtain nd1 where n1: "handle_ready demo_env AnyNil 100 (demo_batch 1 4) (demo_node 1) = (Ok (), nd1)" "nd_appliedIndex nd1 = 3"
    using demo_batch_handled [of "demo_node 1" 4 1] by (auto simp: demo_node_def)
  obtain nd2 where n2: "handle_ready demo_env AnyNil 100 (demo_batch 1 3) (demo_node 2) = (Ok (), nd2)" "nd_appliedIndex nd2 = 2"
    using demo_batch_handled [of "demo_node 2" 3 1] by (auto simp: demo_node_def)
  obtain nd3 where n3: "handle_ready demo_env AnyNil 100 (demo_batch 2 4) nd2 = (Ok (), nd3)" "nd_appliedIndex nd3 = 3"
    using demo_batch_handled [of nd2 4 2] n2(2) by auto
  let ?R = "scd_node demo_externals demo_env AnyNil 100 demo_log"
  have boot: "?R (demo_node n)" for n by (rule node_reachable.boot) (simp_all add: demo_node_def)
  have step: "?R nd'" if "?R nd" "handle_ready demo_env AnyNil 100 (demo_batch a b) nd = (Ok (), nd')" "b \<le> 2 ^ 64 - 1" for nd nd' a b
    by (rule node_reachable.batch [OF that(1) _ _ that(3) _ that(2), of a]) (simp_all add: demo_batch_def ReadIndex_law_def)
  have "scd_env demo_externals demo_scd_codec demo_env" by (simp add: scd_env_def demo_env_def)
  moreover have "searches_complete demo_scd_codec demo_env demo_log k" for k
    by (simp add: searches_complete_def entry_commit_def demo_log_def)
  ultimately show ?thesis
    using scd_nodes_agree [OF _ demo_log_numbered step [OF boot n1(1)] step [OF step [OF boot n2(1)] n3(1)]] n1 n2 n3 by auto
qed











end
