(* ===== verification/Http_Api.thy ===== *)
theory Http_Api
  imports Auth
begin

text \<open>
  What the generated API servers share: the routes, routers and response bodies of
  \<open>src/pkg/api/common.gen.go\<close>, the parts that are the same in every \<open>server.gen.go\<close> (authorization
  errors, choice of the response that is written), and \<open>Handle\<close> of \<open>src/pkg/errors/errors.go\<close>,
  which makes the message a client is shown.

  The path patterns of the generated routers are regular expressions of one form: literal segments and
  groups \<open>[^/]*\<close>, separated by slashes and anchored at both ends. A pattern is the list of its
  segments. The theory shows that such a pattern matches exactly the paths made from it, and that a
  table of patterns that differ pairwise has no route that shadows another.
\<close>

section \<open>Requests and patterns\<close>

record http_request =
  hr_Method :: string
  hr_Path :: string
  hr_Query :: "(string, string) gomap"
  hr_Authorization :: string
  hr_Body :: string

datatype segment = Literal string | Parameter

fun match_segments :: "segment list \<Rightarrow> string list \<Rightarrow> string list option" where
  "match_segments [] [] = Some []"
| "match_segments [] (w # ws) = None"
| "match_segments (p # ps) [] = None"
| "match_segments (Literal l # ps) (w # ws) = (if l = w then match_segments ps ws else None)"
| "match_segments (Parameter # ps) (w # ws) = map_option ((#) w) (match_segments ps ws)"

text \<open>\<open>Regexp.FindStringSubmatch\<close>: the contents of the groups. A path starts with a slash, so that the
  first piece between slashes is empty.\<close>

definition FindStringSubmatch :: "segment list \<Rightarrow> string \<Rightarrow> string list option" where
  "FindStringSubmatch pat path = match_segments (Literal '''' # pat) (strings_Split (CHR ''/'') path)"

definition MatchString :: "segment list \<Rightarrow> string \<Rightarrow> bool" where
  "MatchString pat path \<longleftrightarrow> FindStringSubmatch pat path \<noteq> None"

text \<open>\<open>pathMatch[i + 1]\<close>: the i-th group.\<close>

definition path_param :: "segment list \<Rightarrow> http_request \<Rightarrow> nat \<Rightarrow> string outcome" where
  "path_param pat r i =
     (case FindStringSubmatch pat (hr_Path r) of
        None \<Rightarrow> Panic
      | Some groups \<Rightarrow> if i < length groups then Ok (groups ! i) else Panic)"

section \<open>Routers\<close>

record 'h Route =
  rt_Method :: string
  rt_Pattern :: "segment list"
  rt_Handler :: 'h
  rt_Name :: string

type_synonym ('s, 'b) Handler = "segment list \<Rightarrow> http_request \<Rightarrow> ('s, nat \<times> 'b) op"

text \<open>\<open>APIRouter.Handle\<close>: the first route of the request's method whose pattern matches its path;
  \<open>None\<close> where the router returns false. Labels and tracing spans are not modelled.\<close>

fun router_Handle :: "('s, 'b) Handler Route list \<Rightarrow> http_request \<Rightarrow> ('s, nat \<times> 'b) op option" where
  "router_Handle [] r = None"
| "router_Handle (route # routes) r =
     (if rt_Method route = hr_Method r \<and> MatchString (rt_Pattern route) (hr_Path r)
      then Some (rt_Handler route (rt_Pattern route) r)
      else router_Handle routes r)"

section \<open>Responses\<close>

text \<open>The error shown to a client: the message of the root cause and an ID under which the error is
  logged. The ID is drawn at random.\<close>

definition MakeErrID :: "dss_error + string \<Rightarrow> string" where
  "MakeErrID NewRandom =
     (case NewRandom of
        Inr errUUID \<Rightarrow> ''E:'' @ errUUID
      | Inl err \<Rightarrow> ''E:<error ID could not be constructed: '' @ RootCause err @ ''>'')"

definition errors_Handle :: "string \<Rightarrow> dss_error option \<Rightarrow> string" where
  "errors_Handle errID err =
     (let e = (case err of None \<Rightarrow> NewError ''Error to handle is nil'' | Some e \<Rightarrow> e)
      in RootCause e @ '' ('' @ errID @ '')'')"

text \<open>What is written as JSON: the response of an operation, an \<open>ErrorResponse\<close> or an
  \<open>InternalServerErrorBody\<close>.\<close>

datatype 'a body = ResponseBody 'a | ErrorResponse string | InternalServerErrorBody string

text \<open>The response sets of the operations: a pointer for each status the operation may answer with.
  \<open>ResponseSet{Response400: b}\<close> is \<open>[400 \<mapsto> b]\<close>.\<close>

type_synonym 'a ResponseSet = "nat \<rightharpoonup> 'a body"

definition error_response :: "string \<Rightarrow> dss_error \<Rightarrow> 'a body" where
  "error_response errID e = ErrorResponse (errors_Handle errID (Some e))"

definition internal_error :: "string \<Rightarrow> dss_error \<Rightarrow> 'a body" where
  "internal_error errID e = InternalServerErrorBody (errors_Handle errID (Some e))"

definition setAuthError :: "string \<Rightarrow> dss_error \<Rightarrow> 'a ResponseSet" where
  "setAuthError errID authErr =
     (case GetCode authErr of
        Some Unauthenticated \<Rightarrow> [401 \<mapsto> error_response errID authErr]
      | Some PermissionDenied \<Rightarrow> [403 \<mapsto> error_response errID authErr]
      | _ \<Rightarrow> [500 \<mapsto> internal_error errID authErr])"

text \<open>The statuses an operation may answer with are tried in order; the first response that is set is
  written.\<close>

fun write_response :: "nat list \<Rightarrow> 'a ResponseSet \<Rightarrow> nat \<times> 'a body" where
  "write_response [] response = (500, InternalServerErrorBody ''Handler implementation did not set a response'')"
| "write_response (status # statuses) response =
     (case response status of
        Some b \<Rightarrow> (status, b)
      | None \<Rightarrow> write_response statuses response)"

text \<open>The common part of the methods of the generated routers, after the parameters and the body are
  parsed: the request is authorized; the implementation is only called when that gives no error; the
  response is written.\<close>

definition serve_operation ::
    "string \<Rightarrow> AuthorizationResult outcome \<Rightarrow> nat list \<Rightarrow> (AuthorizationResult \<Rightarrow> ('s, 'a ResponseSet) op) \<Rightarrow>
     ('s, nat \<times> 'a body) op" where
  "serve_operation errID authorize statuses implementation =
     bindE (liftO authorize) (\<lambda>auth.
     bindE (case au_Error auth of
              Some e \<Rightarrow> ret (setAuthError errID e)
            | None \<Rightarrow> implementation auth) (\<lambda>response.
     ret (write_response statuses response)))"

text \<open>\<open>MultiRouter.ServeHTTP\<close>\<close>

fun ServeHTTP :: "(http_request \<Rightarrow> ('s, nat \<times> 'b) op option) list \<Rightarrow> 'b \<Rightarrow> http_request \<Rightarrow> ('s, nat \<times> 'b) op" where
  "ServeHTTP [] notFound r = ret (404, notFound)"
| "ServeHTTP (router # routers) notFound r =
     (case router r of Some m \<Rightarrow> m | None \<Rightarrow> ServeHTTP routers notFound r)"

section \<open>Patterns match exactly the paths made from them\<close>

text \<open>The path of a pattern with its parameters filled in, and the parameter lists that fit.\<close>

fun path_segments :: "segment list \<Rightarrow> string list \<Rightarrow> string list" where
  "path_segments [] _ = []"
| "path_segments (Literal l # ps) params = l # path_segments ps params"
| "path_segments (Parameter # ps) params = hd params # path_segments ps (tl params)"

definition make_path :: "segment list \<Rightarrow> string list \<Rightarrow> string" where
  "make_path pat params = concat (map ((#) (CHR ''/'')) (path_segments pat params))"

definition no_slash :: "string \<Rightarrow> bool" where
  "no_slash w \<longleftrightarrow> CHR ''/'' \<notin> set w"

definition fits :: "segment list \<Rightarrow> string list \<Rightarrow> bool" where
  "fits pat params \<longleftrightarrow> length params = length (filter ((=) Parameter) pat) \<and> list_all no_slash params"

definition simple_pattern :: "segment list \<Rightarrow> bool" where
  "simple_pattern pat \<longleftrightarrow> pat \<noteq> [] \<and> list_all (\<lambda>s. case s of Literal l \<Rightarrow> no_slash l | Parameter \<Rightarrow> True) pat"

lemma strings_Split_not_Nil [simp]: "strings_Split sep s \<noteq> []"
  by (induction s) (auto split: list.splits)

lemma strings_Split_pieces: "w \<in> set (strings_Split sep s) \<Longrightarrow> sep \<notin> set w"
  by (induction s arbitrary: w) (auto split: list.splits if_splits)

lemma strings_Split_join:
  "sep \<notin> set w \<Longrightarrow> list_all (\<lambda>v. sep \<notin> set v) ws \<Longrightarrow>
     strings_Split sep (w @ concat (map ((#) sep) ws)) = w # ws"
proof (induction ws arbitrary: w)
  case Nil
  then show ?case by (induction w) auto
next
  case (Cons v vs)
  have "strings_Split sep (w @ sep # u) = w # strings_Split sep u" if "sep \<notin> set w" for u
    using that by (induction w) auto
  with Cons show ?case by simp
qed

lemma strings_Split_concat: "strings_Split sep s = w # ws \<Longrightarrow> s = w @ concat (map ((#) sep) ws)"
proof (induction s arbitrary: w ws)
  case (Cons c s)
  obtain v vs where v: "strings_Split sep s = v # vs" by (meson neq_Nil_conv strings_Split_not_Nil)
  from Cons.IH [OF this] have s: "v @ concat (map ((#) sep) vs) = s" by simp
  show ?case
  proof (cases "c = sep")
    case True
    with v Cons.prems have "w = ''''" "ws = v # vs" by auto
    with s True show ?thesis by simp
  next
    case False
    with v Cons.prems have "w = c # v" "ws = vs" by auto
    with s show ?thesis by simp
  qed
qed simp

lemma match_segments_iff:
  "match_segments ps ws = Some params \<longleftrightarrow>
     length params = length (filter ((=) Parameter) ps) \<and> ws = path_segments ps params"
proof (induction ps ws arbitrary: params rule: match_segments.induct)
  case (5 ps w ws)
  then show ?case by (cases params) auto
next
  case (3 p ps)
  then show ?case by (cases p) auto
qed auto

text \<open>Round trip: a pattern matches a path with given groups exactly when the path is made from the
  pattern with these groups, none of which has a slash.\<close>

lemma FindStringSubmatch_iff:
  assumes "simple_pattern pat"
  shows "FindStringSubmatch pat path = Some params \<longleftrightarrow> fits pat params \<and> path = make_path pat params"
proof -
  have seg: "list_all no_slash (path_segments pat params)" if "list_all no_slash params"
      "length params = length (filter ((=) Parameter) pat)"
    using that assms
  proof (induction pat params rule: path_segments.induct)
    case (3 ps params)
    then show ?case by (cases params; cases ps) (auto simp: simple_pattern_def)
  next
    case (2 l ps params)
    then show ?case by (cases ps) (auto simp: simple_pattern_def)
  qed simp
  have pieces: "list_all no_slash params" if "length params = length (filter ((=) Parameter) ps)"
      "list_all no_slash (path_segments ps params)" for ps params
    using that
  proof (induction ps params rule: path_segments.induct)
    case (3 ps params)
    then show ?case by (cases params) auto
  qed auto
  show ?thesis
  proof
    assume "FindStringSubmatch pat path = Some params"
    then have m: "length params = length (filter ((=) Parameter) pat)"
        "strings_Split (CHR ''/'') path = '''' # path_segments pat params"
      by (auto simp: FindStringSubmatch_def match_segments_iff)
    then have "list_all no_slash (path_segments pat params)"
      using strings_Split_pieces [of _ "CHR ''/''" path] by (auto simp: list_all_iff no_slash_def)
    with m strings_Split_concat [OF m(2)] pieces show "fits pat params \<and> path = make_path pat params"
      by (simp add: fits_def make_path_def)
  next
    assume a: "fits pat params \<and> path = make_path pat params"
    then have "strings_Split (CHR ''/'') path = '''' # path_segments pat params"
      using strings_Split_join [of "CHR ''/''" "''''" "path_segments pat params"] seg
      by (auto simp: fits_def make_path_def list_all_iff no_slash_def)
    with a show "FindStringSubmatch pat path = Some params"
      by (simp add: FindStringSubmatch_def match_segments_iff fits_def)
  qed
qed

text \<open>Two patterns that no path matches both: they have different lengths or different literals at
  some place.\<close>

fun disjoint_patterns :: "segment list \<Rightarrow> segment list \<Rightarrow> bool" where
  "disjoint_patterns [] [] = False"
| "disjoint_patterns [] (q # qs) = True"
| "disjoint_patterns (p # ps) [] = True"
| "disjoint_patterns (Literal a # ps) (Literal b # qs) = (a \<noteq> b \<or> disjoint_patterns ps qs)"
| "disjoint_patterns (Parameter # ps) (q # qs) = disjoint_patterns ps qs"
| "disjoint_patterns (Literal a # ps) (Parameter # qs) = disjoint_patterns ps qs"


lemma disjoint_patterns_sound:
  "disjoint_patterns ps qs \<Longrightarrow> match_segments ps ws = Some xs \<Longrightarrow> match_segments qs ws = None"
proof (induction ps qs arbitrary: ws xs rule: disjoint_patterns.induct)
  case (2 q qs)
  then show ?case by (cases ws) auto
next
  case (3 p ps)
  then show ?case by (cases ws) auto
next
  case (4 a ps b qs)
  then show ?case by (cases ws) (auto split: if_splits)
next
  case (5 ps q qs)
  then show ?case by (cases ws; cases q) auto
next
  case (6 a ps qs)
  then show ?case by (cases ws) (auto split: if_splits)
qed simp

text \<open>A table in which any two routes of one method have disjoint patterns.\<close>

fun unambiguous :: "'h Route list \<Rightarrow> bool" where
  "unambiguous [] = True"
| "unambiguous (rt # rts) =
     (simple_pattern (rt_Pattern rt) \<and>
      list_all (\<lambda>q. rt_Method q \<noteq> rt_Method rt \<or> disjoint_patterns (rt_Pattern rt) (rt_Pattern q)) rts \<and> unambiguous rts)"

lemma unambiguous_simple: "unambiguous rts \<Longrightarrow> rt \<in> set rts \<Longrightarrow> simple_pattern (rt_Pattern rt)"
  by (induction rts) auto

lemma router_Handle_Some:
  "router_Handle rts r = Some m \<Longrightarrow> \<exists>rt \<in> set rts. rt_Method rt = hr_Method r \<and>
     MatchString (rt_Pattern rt) (hr_Path r) \<and> m = rt_Handler rt (rt_Pattern rt) r"
  by (induction rts) (auto split: if_splits)

lemma router_Handle_None:
  "router_Handle rts r = None \<longleftrightarrow>
     (\<forall>rt \<in> set rts. rt_Method rt = hr_Method r \<longrightarrow> \<not> MatchString (rt_Pattern rt) (hr_Path r))"
  by (induction rts) auto

lemma router_Handle_exact:
  assumes "unambiguous rts" "rt \<in> set rts" "hr_Method r = rt_Method rt" "hr_Path r = make_path (rt_Pattern rt) params"
    "fits (rt_Pattern rt) params"
  shows "router_Handle rts r = Some (rt_Handler rt (rt_Pattern rt) r)"
    and "i < length params \<Longrightarrow> path_param (rt_Pattern rt) r i = Ok (params ! i)"
proof -
  have f: "FindStringSubmatch (rt_Pattern rt) (hr_Path r) = Some params"
    using FindStringSubmatch_iff [OF unambiguous_simple [OF assms(1,2)]] assms by simp
  then show "i < length params \<Longrightarrow> path_param (rt_Pattern rt) r i = Ok (params ! i)" by (simp add: path_param_def)
  show "router_Handle rts r = Some (rt_Handler rt (rt_Pattern rt) r)"
    using assms(1,2)
  proof (induction rts)
    case (Cons q rts)
    show ?case
    proof (cases "rt = q")
      case True
      then show ?thesis using f assms(3) by (simp add: MatchString_def)
    next
      case False
      with Cons.prems have rt: "rt \<in> set rts" "unambiguous rts"
          "rt_Method rt \<noteq> rt_Method q \<or> disjoint_patterns (rt_Pattern q) (rt_Pattern rt)"
        by (auto simp: list_all_iff)
      have "match_segments (Literal '''' # rt_Pattern rt) (strings_Split (CHR ''/'') (hr_Path r)) = None"
        if "disjoint_patterns (rt_Pattern q) (rt_Pattern rt)" "MatchString (rt_Pattern q) (hr_Path r)"
        using that disjoint_patterns_sound [of "Literal '''' # rt_Pattern q" "Literal '''' # rt_Pattern rt"]
        by (auto simp: MatchString_def FindStringSubmatch_def)
      with rt(3) f assms(3) have "\<not> (rt_Method q = hr_Method r \<and> MatchString (rt_Pattern q) (hr_Path r))"
        by (auto simp: FindStringSubmatch_def)
      with Cons.IH rt show ?thesis by auto
    qed
  qed simp
qed

section \<open>Only an authorized request reaches the implementation\<close>

lemma write_response_single:
  "status \<in> set statuses \<Longrightarrow> write_response statuses [status \<mapsto> b] = (status, b)"
  by (induction statuses) auto

lemma write_response_cases:
  "write_response statuses R = (status, b) \<Longrightarrow>
     (status \<in> set statuses \<and> R status = Some b) \<or> (status = 500 \<and> (\<forall>s \<in> set statuses. R s = None))"
  by (induction statuses) (auto split: option.splits)

lemma setAuthError_statuses: "setAuthError errID e s = Some b \<Longrightarrow> s \<in> {401, 403, 500}"
  by (auto simp: setAuthError_def split: option.splits error_code.splits if_splits)

lemma serve_operation_Ok:
  assumes "serve_operation errID authorize statuses impl st = (Ok (status, b), st')"
  obtains (refused) auth e where "authorize = Ok auth" "au_Error auth = Some e" "st' = st"
      "write_response statuses (setAuthError errID e) = (status, b)"
  | (served) auth R where "authorize = Ok auth" "au_Error auth = None" "impl auth st = (Ok R, st')"
      "write_response statuses R = (status, b)"
proof -
  from assms obtain auth where a: "authorize = Ok auth"
    by (auto simp: serve_operation_def monad_simps)
  show thesis
    using assms a refused [of auth] served [of auth]
    by (cases "au_Error auth") (auto simp: serve_operation_def monad_simps)
qed

lemma setAuthError_written:
  assumes "401 \<in> set statuses" "403 \<in> set statuses" "write_response statuses (setAuthError errID e) = (status, b)"
  shows "status \<in> {401, 403, 500}"
  using write_response_cases [OF assms(3)] setAuthError_statuses [of errID e status b] by auto

end
