(* ===== verification/Rest_Server.thy ===== *)
theory Rest_Server
  imports Http_Api Interfaces
begin

text \<open>
  What the REST handlers of the services share (\<open>src/pkg/scd/*_handler.go\<close>,
  \<open>src/pkg/rid/server\<close>): the steps a handler is made of (a check with an early return, a
  transaction whose outcome becomes a response, the choice of a status by the code of an error), and
  two notions to reason about a handler: which statuses it answers with (\<open>responses\<close>), and what an
  answer says about a change of the store (\<open>accounts\<close>). Both are established by rules that follow the
  structure of a handler; the rules for transactions are proved for every \<open>transactional_store\<close>.
  \<open>errID\<close> is the ID drawn for the error that is shown.
\<close>

section \<open>Requests\<close>

text \<open>A request as the generated router passes it: the ID and the version of the path, the body or the
  error met when parsing it (\<open>BodyParseError\<close>), and the result of the authorization. The request
  types of the operations have those fields that their paths and methods have.\<close>

record 'b api_request =
  rq_ID :: string
  rq_Version :: string
  rq_Body :: "dss_error + 'b"
  rq_Auth :: AuthorizationResult

section \<open>Checks, transactions and responses\<close>

text \<open>\<open>if err != nil { return response(err) }\<close>\<close>

definition check :: "'x outcome \<Rightarrow> (dss_error \<Rightarrow> 'r) \<Rightarrow> ('x \<Rightarrow> ('s, 'r) op) \<Rightarrow> ('s, 'r) op" where
  "check v onErr k = (case v of Ok x \<Rightarrow> k x | Err e \<Rightarrow> ret (onErr e) | Panic \<Rightarrow> liftO Panic)"

definition check_body :: "dss_error + 'x \<Rightarrow> (dss_error \<Rightarrow> 'r) \<Rightarrow> ('x \<Rightarrow> ('s, 'r) op) \<Rightarrow> ('s, 'r) op" where
  "check_body v onErr k = (case v of Inr x \<Rightarrow> k x | Inl e \<Rightarrow> ret (onErr e))"

definition respond :: "('s, 'x) op \<Rightarrow> (dss_error \<Rightarrow> 'r) \<Rightarrow> ('x \<Rightarrow> 'r) \<Rightarrow> ('s, 'r) op" where
  "respond m onErr onOk s =
     (case m s of (Ok x, t) \<Rightarrow> (Ok (onOk x), t) | (Err e, t) \<Rightarrow> (Ok (onErr e), t) | (Panic, t) \<Rightarrow> (Panic, t))"

text \<open>The same for a response that is made by code which may panic.\<close>

definition respondO :: "('s, 'x) op \<Rightarrow> (dss_error \<Rightarrow> 'r) \<Rightarrow> ('x \<Rightarrow> 'r outcome) \<Rightarrow> ('s, 'r) op" where
  "respondO m onErr onOk s =
     (case m s of (Ok x, t) \<Rightarrow> (onOk x, t) | (Err e, t) \<Rightarrow> (Ok (onErr e), t) | (Panic, t) \<Rightarrow> (Panic, t))"

lemma respond_respondO: "respond m onErr onOk = respondO m onErr (\<lambda>x. Ok (onOk x))"
  by (simp add: fun_eq_iff respond_def respondO_def split: prod.splits outcome.splits)

text \<open>\<open>store.TransactWithResult\<close>; \<open>assert\<close> is the type assertion on the result.\<close>

definition TransactWithResult ::
    "('c \<Rightarrow> 'q \<Rightarrow> ('s, 'a) op) \<Rightarrow> ('a \<Rightarrow> 'x option) \<Rightarrow> 'c \<Rightarrow> 'q \<Rightarrow> ('s, 'x) op" where
  "TransactWithResult Transact assert ctx request =
     bindE (Transact ctx request) (\<lambda>transactionResult.
     case assert transactionResult of
       Some r \<Rightarrow> ret r
     | None \<Rightarrow> fail (NewError ''unexpected result type''))"

text \<open>\<open>switch stacktrace.GetCode(err)\<close> with an \<open>ErrorResponse\<close> in every case and an internal error by
  default.\<close>

definition by_code :: "string \<Rightarrow> (error_code \<times> nat) list \<Rightarrow> dss_error \<Rightarrow> 'a ResponseSet" where
  "by_code errID statuses e =
     (case GetCode e of
        None \<Rightarrow> [500 \<mapsto> internal_error errID e]
      | Some c \<Rightarrow>
          (case map_of statuses c of
             Some n \<Rightarrow> [n \<mapsto> error_response errID e]
           | None \<Rightarrow> [500 \<mapsto> internal_error errID e]))"

definition bad_request :: "string \<Rightarrow> dss_error \<Rightarrow> 'a ResponseSet" where
  "bad_request errID e = [400 \<mapsto> error_response errID e]"

definition malformed :: "string \<Rightarrow> dss_error \<Rightarrow> 'a ResponseSet" where
  "malformed errID e = bad_request errID (PropagateWithCode (Some BadRequest) e)"

definition missing_client :: "string \<Rightarrow> string \<Rightarrow> ('s, 'a ResponseSet) op" where
  "missing_client errID msg = ret [403 \<mapsto> error_response errID (NewErrorWithCode PermissionDenied msg)]"

lemma by_code_None: "GetCode e = None \<Longrightarrow> by_code errID t e = [500 \<mapsto> internal_error errID e]"
  by (simp add: by_code_def)

lemma by_code_Some: "GetCode e = Some c \<Longrightarrow> map_of t c = Some n \<Longrightarrow> by_code errID t e = [n \<mapsto> error_response errID e]"
  by (simp add: by_code_def)

section \<open>What an answer says about a change\<close>

text \<open>\<open>accounts legit current m\<close>: when the handler \<open>m\<close> answers and the store has changed, then it has
  set one response, and the change is one that \<open>legit\<close> allows with the status of that response.\<close>

definition accounts :: "('s \<Rightarrow> 's \<Rightarrow> nat \<Rightarrow> bool) \<Rightarrow> ('r \<Rightarrow> 's) \<Rightarrow> ('r, 'a ResponseSet) op \<Rightarrow> bool" where
  "accounts legit current m \<longleftrightarrow>
     (\<forall>r R r'. m r = (Ok R, r') \<longrightarrow> current r' \<noteq> current r \<longrightarrow>
        (\<exists>n b. R = [n \<mapsto> b] \<and> legit (current r) (current r') n))"

lemma accounts_basic:
  "accounts legit cur (ret R)" "accounts legit cur (liftO Panic)" "accounts legit cur (missing_client errID msg)"
  by (simp_all add: accounts_def missing_client_def)

lemma accounts_check: "(\<And>x. v = Ok x \<Longrightarrow> accounts legit cur (k x)) \<Longrightarrow> accounts legit cur (check v f k)"
  by (cases v) (simp_all add: check_def accounts_basic)

lemma accounts_check_body: "(\<And>x. v = Inr x \<Longrightarrow> accounts legit cur (k x)) \<Longrightarrow> accounts legit cur (check_body v f k)"
  by (cases v) (simp_all add: check_body_def accounts_basic)

lemma accounts_liftO: "(\<And>x. v = Ok x \<Longrightarrow> accounts legit cur (k x)) \<Longrightarrow> accounts legit cur (bindE (liftO v) k)"
  by (cases v) (simp_all add: accounts_def bindE_def)

lemma accounts_option:
  "accounts legit cur a \<Longrightarrow> (\<And>x. v = Some x \<Longrightarrow> accounts legit cur (k x)) \<Longrightarrow>
     accounts legit cur (case v of None \<Rightarrow> a | Some x \<Rightarrow> k x)"
  by (cases v) simp_all

lemma accounts_if: "(c \<Longrightarrow> accounts legit cur a) \<Longrightarrow> (\<not> c \<Longrightarrow> accounts legit cur b) \<Longrightarrow> accounts legit cur (if c then a else b)"
  by simp

text \<open>A handler that only reads has nothing to account for.\<close>

lemma accounts_unchanged:
  "(\<And>r x r'. m r = (x, r') \<Longrightarrow> x \<noteq> Panic \<Longrightarrow> cur r' = cur r) \<Longrightarrow> accounts legit cur (respondO m f g)"
  by (fastforce simp: accounts_def respondO_def split: prod.splits outcome.splits)

lemmas accounts_intros = accounts_basic accounts_check accounts_check_body accounts_liftO accounts_option accounts_if

text \<open>What handlers derive from the contract of the store they use.\<close>

locale rest_store = transactional_store transact current execute answer proper
  for transact :: "'c \<Rightarrow> 'q \<Rightarrow> ('r, 'a) op" and current :: "'r \<Rightarrow> 's"
    and execute :: "'c \<Rightarrow> 'q \<Rightarrow> ('s, 'b) op" and answer :: "'b \<Rightarrow> 'a" and proper :: "'q \<Rightarrow> bool"
begin

text \<open>The three ways a transaction ends for a handler.\<close>

lemma respondO_cases:
  assumes proper: "proper q" and "respondO (TransactWithResult transact assert ctx q) onErr onOk r = (Ok R, r')"
  obtains (success) resp x where "onOk x = Ok R" "execute ctx q (current r) = (Ok resp, current r')" "assert (answer resp) = Some x"
  | (coded) e where "R = onErr e" "GetCode e \<noteq> None" "current r' = current r" "fst (execute ctx q (current r)) = Err e"
  | (doubt) e where "R = onErr e" "GetCode e = None"
      "current r' = current r \<or> (\<exists>resp. execute ctx q (current r) = (Ok resp, current r'))"
proof (cases "transact ctx q r")
  case (Pair x r1)
  show thesis
  proof (cases x)
    case (Ok y)
    with committed [OF proper, of ctx r y r1] Pair obtain resp where
      y: "y = answer resp" "execute ctx q (current r) = (Ok resp, current r1)" by blast
    show thesis
    proof (cases "assert y")
      case (Some z)
      with assms(2) Pair Ok y show thesis by (auto simp: respondO_def TransactWithResult_def intro: success)
    next
      case None
      with assms(2) Pair Ok y show thesis by (auto simp: respondO_def TransactWithResult_def intro: doubt)
    qed
  next
    case (Err e)
    then have e: "R = onErr e" "r' = r1"
      using assms(2) Pair by (simp_all add: respondO_def TransactWithResult_def)
    show thesis
    proof (cases "GetCode e = None")
      case True
      with in_doubt [OF proper, of ctx r e r1] Pair Err e show thesis by (auto intro: doubt)
    next
      case False
      with refused [OF proper, of ctx r e r1] Pair Err e show thesis by (auto intro: coded)
    qed
  qed (use assms(2) Pair in \<open>simp add: respondO_def TransactWithResult_def\<close>)
qed

lemma respond_cases:
  assumes "proper q" and "respond (TransactWithResult transact assert ctx q) onErr onOk r = (Ok R, r')"
  obtains (success) resp x where "R = onOk x" "execute ctx q (current r) = (Ok resp, current r')" "assert (answer resp) = Some x"
  | (coded) e where "R = onErr e" "GetCode e \<noteq> None" "current r' = current r" "fst (execute ctx q (current r)) = Err e"
  | (doubt) e where "R = onErr e" "GetCode e = None"
      "current r' = current r \<or> (\<exists>resp. execute ctx q (current r) = (Ok resp, current r'))"
  by (rule respondO_cases [OF assms [unfolded respond_respondO]]) (auto intro: success coded doubt)

lemma accounts_respondO:
  assumes proper: "proper q"
    and ok: "\<And>resp x s t R. execute ctx q s = (Ok resp, t) \<Longrightarrow> assert (answer resp) = Some x \<Longrightarrow> onOk x = Ok R \<Longrightarrow>
      \<exists>n b. R = [n \<mapsto> b] \<and> legit s t n"
    and lost: "\<And>e resp s t. GetCode e = None \<Longrightarrow> execute ctx q s = (Ok resp, t) \<Longrightarrow> \<exists>n b. onErr e = [n \<mapsto> b] \<and> legit s t n"
  shows "accounts legit current (respondO (TransactWithResult transact assert ctx q) onErr onOk)"
  unfolding accounts_def
proof (intro allI impI)
  fix r R r'
  assume "respondO (TransactWithResult transact assert ctx q) onErr onOk r = (Ok R, r')" and ne: "current r' \<noteq> current r"
  then show "\<exists>n b. R = [n \<mapsto> b] \<and> legit (current r) (current r') n"
  proof (cases rule: respondO_cases [OF proper, consumes 1, case_names success coded doubt])
    case (success resp x)
    with ok show ?thesis by blast
  next
    case (coded e)
    with ne show ?thesis by simp
  next
    case (doubt e)
    with ne lost [of e] show ?thesis by blast
  qed
qed

lemma accounts_respond:
  assumes "proper q"
    and "\<And>resp x s t. execute ctx q s = (Ok resp, t) \<Longrightarrow> assert (answer resp) = Some x \<Longrightarrow> \<exists>n b. onOk x = [n \<mapsto> b] \<and> legit s t n"
    and "\<And>e resp s t. GetCode e = None \<Longrightarrow> execute ctx q s = (Ok resp, t) \<Longrightarrow> \<exists>n b. onErr e = [n \<mapsto> b] \<and> legit s t n"
  shows "accounts legit current (respond (TransactWithResult transact assert ctx q) onErr onOk)"
  unfolding respond_respondO using assms by (intro accounts_respondO) auto

end

text \<open>\<open>guarded legit cur authorize m\<close>: when the router's method \<open>m\<close> answers and the store has changed, then
  the request was authorized and the change is legitimate for the authorized client; the status is
  the handler's or that of an internal error.\<close>

definition guarded ::
    "(AuthorizationResult \<Rightarrow> 's \<Rightarrow> 's \<Rightarrow> nat \<Rightarrow> bool) \<Rightarrow> ('r \<Rightarrow> 's) \<Rightarrow> AuthorizationResult outcome \<Rightarrow>
     ('r, nat \<times> 'a body) op \<Rightarrow> bool" where
  "guarded legit cur authorize m \<longleftrightarrow>
     (\<forall>st st' status b. m st = (Ok (status, b), st') \<longrightarrow> cur st' \<noteq> cur st \<longrightarrow>
        (\<exists>auth n. authorize = Ok auth \<and> au_Error auth = None \<and> legit auth (cur st) (cur st') n \<and> status \<in> {n, 500}))"

lemma guarded_param:
  "(\<And>x. guarded legit cur authorize (k x)) \<Longrightarrow> guarded legit cur authorize (bindE (liftO (path_param pat r i)) k)"
  by (cases "path_param pat r i") (simp_all add: guarded_def bindE_def)

lemma guarded_serve:
  assumes "\<And>auth. accounts (legit auth) cur (impl auth)"
  shows "guarded legit cur authorize (serve_operation errID authorize statuses impl)"
  unfolding guarded_def
proof (intro allI impI)
  fix st st' status b
  assume s: "serve_operation errID authorize statuses impl st = (Ok (status, b), st')" and ne: "cur st' \<noteq> cur st"
  from s show "\<exists>auth n. authorize = Ok auth \<and> au_Error auth = None \<and> legit auth (cur st) (cur st') n \<and> status \<in> {n, 500}"
  proof (cases rule: serve_operation_Ok)
    case (refused auth e)
    with ne show ?thesis by simp
  next
    case (served auth R)
    with assms [of auth] ne obtain n b' where q: "R = [n \<mapsto> b']" "legit auth (cur st) (cur st') n"
      unfolding accounts_def by blast
    have "status \<in> {n, 500}" using write_response_cases [OF served(4)] q(1) by (auto split: if_splits)
    with q served show ?thesis by blast
  qed
qed

section \<open>The statuses of a handler\<close>

text \<open>The body that the router writes when a handler has set none of the responses.\<close>

abbreviation not_set :: "'a body" where
  "not_set \<equiv> InternalServerErrorBody ''Handler implementation did not set a response''"

text \<open>\<open>responses S m\<close>: the handler sets exactly one response, and its status is one of \<open>S\<close>. In the source
  the second half is the type of the response set.\<close>

definition responds :: "nat list \<Rightarrow> 'a ResponseSet \<Rightarrow> bool" where
  "responds S R \<longleftrightarrow> (\<exists>n \<in> set S. \<exists>b. R = [n \<mapsto> b] \<and> b \<noteq> not_set)"

definition responses :: "nat list \<Rightarrow> ('s, 'a ResponseSet) op \<Rightarrow> bool" where
  "responses S m \<longleftrightarrow> (\<forall>st R st'. m st = (Ok R, st') \<longrightarrow> responds S R)"

lemma respondsI: "n \<in> set S \<Longrightarrow> b \<noteq> not_set \<Longrightarrow> responds S [n \<mapsto> b]"
  by (auto simp: responds_def)

lemma set_bodies: "error_response errID e \<noteq> not_set" "internal_error errID e \<noteq> not_set"
proof -
  show "error_response errID e \<noteq> not_set" by (simp add: error_response_def)
  have "last (errors_Handle errID (Some e)) \<noteq> last ''Handler implementation did not set a response''"
    by (simp add: errors_Handle_def)
  then show "internal_error errID e \<noteq> not_set" by (auto simp: internal_error_def)
qed

lemma responds_single:
  "400 \<in> set S \<Longrightarrow> responds S (bad_request errID e)" "400 \<in> set S \<Longrightarrow> responds S (malformed errID e)"
  "n \<in> set S \<Longrightarrow> responds S [n \<mapsto> error_response errID e]" "n \<in> set S \<Longrightarrow> responds S [n \<mapsto> internal_error errID e]"
  "n \<in> set S \<Longrightarrow> responds S [n \<mapsto> ResponseBody x']"
  by (auto simp: bad_request_def malformed_def set_bodies intro!: respondsI)

lemma responds_by_code:
  "500 \<in> set S \<Longrightarrow> set (map snd t) \<subseteq> set S \<Longrightarrow> responds S (by_code errID t e)"
  by (auto simp: by_code_def responds_single split: option.splits dest!: map_of_SomeD intro!: responds_single)

lemma responds_if: "responds S a \<Longrightarrow> responds S b \<Longrightarrow> responds S (if c then a else b)"
  by simp

lemma responses_ret: "responds S R \<Longrightarrow> responses S (ret R)"
  by (simp add: responses_def)

lemma responses_missing_client: "403 \<in> set S \<Longrightarrow> responses S (missing_client errID msg)"
  unfolding missing_client_def by (intro responses_ret responds_single)

lemma responses_check:
  "(\<And>e. responds S (f e)) \<Longrightarrow> (\<And>x. responses S (k x)) \<Longrightarrow> responses S (check v f k)"
  by (cases v) (simp_all add: check_def responses_def)

lemma responses_check_body:
  "(\<And>e. responds S (f e)) \<Longrightarrow> (\<And>x. responses S (k x)) \<Longrightarrow> responses S (check_body v f k)"
  by (cases v) (simp_all add: check_body_def responses_def)

lemma responses_liftO: "(\<And>x. responses S (k x)) \<Longrightarrow> responses S (bindE (liftO v) k)"
  by (cases v) (simp_all add: bindE_def responses_def)

lemma responses_option:
  "responses S a \<Longrightarrow> (\<And>x. responses S (k x)) \<Longrightarrow> responses S (case v of None \<Rightarrow> a | Some x \<Rightarrow> k x)"
  by (cases v) simp_all

lemma responses_if: "responses S a \<Longrightarrow> responses S b \<Longrightarrow> responses S (if c then a else b)"
  by simp

lemma responses_respond:
  "(\<And>e. responds S (onErr e)) \<Longrightarrow> (\<And>x. responds S (onOk x)) \<Longrightarrow> responses S (respond m onErr onOk)"
  by (auto simp: responses_def respond_def split: prod.splits outcome.splits)

lemma responses_respondO:
  "(\<And>e. responds S (onErr e)) \<Longrightarrow> (\<And>x R. onOk x = Ok R \<Longrightarrow> responds S R) \<Longrightarrow> responses S (respondO m onErr onOk)"
  by (auto simp: responses_def respondO_def split: prod.splits outcome.splits)

lemmas responses_intros = responses_check_body responses_check responses_liftO responses_option
  responses_if responses_respond responses_missing_client responses_ret responds_if responds_single responds_by_code

text \<open>What is written is what the handler or the authorizer set.\<close>

definition answers_from :: "nat list \<Rightarrow> ('s, nat \<times> 'a body) op \<Rightarrow> bool" where
  "answers_from S m \<longleftrightarrow> (\<forall>st status b st'. m st = (Ok (status, b), st') \<longrightarrow> status \<in> set S \<and> b \<noteq> not_set)"

lemma answers_param:
  "(\<And>x. answers_from S (k x)) \<Longrightarrow> answers_from S (bindE (liftO (path_param pat r i)) k)"
  by (cases "path_param pat r i") (simp_all add: answers_from_def bindE_def)

lemma answers_serve:
  assumes "{401, 403, 500} \<subseteq> set S" "set S \<subseteq> set S'" "\<And>auth. responses S (impl auth)"
  shows "answers_from S (serve_operation errID authorize S' impl)"
  unfolding answers_from_def
proof (intro allI impI)
  fix st status b st'
  assume "serve_operation errID authorize S' impl st = (Ok (status, b), st')"
  then obtain R where "responds S R" "write_response S' R = (status, b)"
  proof (cases rule: serve_operation_Ok)
    case (refused auth e)
    have "responds S (setAuthError errID e)"
      using assms(1) by (auto simp: setAuthError_def split: option.splits error_code.splits intro!: responds_single)
    with refused that show thesis by blast
  next
    case (served auth R)
    with assms(3) [of auth] that show thesis by (auto simp: responses_def)
  qed
  then show "status \<in> set S \<and> b \<noteq> not_set" using assms(2) by (auto simp: responds_def write_response_single subset_iff)
qed

end
