(* ===== verification/Scd_Server.thy ===== *)
theory Scd_Server
  imports Scd_Raft Rest_Server
begin

text \<open>
  The REST handlers of strategic coordination: \<open>src/pkg/scd/*_handler.go\<close>. A handler checks the
  request, builds the payload of the operation, hands it to \<open>Store.Transact\<close> and turns the outcome
  into a response set. The store is a field of the server, as in the source; what the handlers rely on
  is the locale \<open>transactional_store\<close>, which the replicated store satisfies (theory \<open>Scd_Raft\<close>).
  \<open>errID\<close> is the ID drawn for the error that is shown.
\<close>

section \<open>The server\<close>

record rest_ErrorReport =
  er_ReportId :: "string option"
  er_Exchange :: string

text \<open>The bodies of the responses.\<close>

datatype scd_body =
    ScdResponse scd_response
  | ConflictResponse AirspaceConflictResponse
  | ReportResponse rest_ErrorReport

record 's scd_server =
  sv_Transact :: "ctx \<Rightarrow> scd_request \<Rightarrow> ('s, scd_any) op"
  sv_HandleReport :: "rest_ErrorReport \<Rightarrow> rest_ErrorReport outcome"
  sv_AllowHTTPBaseUrls :: bool

text \<open>The Go type of an operation's result, and the assertion on it in \<open>store.TransactWithResult\<close>.\<close>

fun result_type :: "scd_response \<Rightarrow> string" where
  "result_type (UssAvailabilityStatusResponse _ _) = ''UssAvailabilityStatusResponse''"
| "result_type (GetConstraintReferenceResponse _) = ''GetConstraintReferenceResponse''"
| "result_type (ChangeConstraintReferenceResponse _ _) = ''ChangeConstraintReferenceResponse''"
| "result_type (QueryConstraintReferencesResponse _) = ''QueryConstraintReferencesResponse''"
| "result_type (PutSubscriptionResponse _ _ _) = ''PutSubscriptionResponse''"
| "result_type (DeleteSubscriptionResponse _) = ''DeleteSubscriptionResponse''"
| "result_type (GetSubscriptionResponse _) = ''GetSubscriptionResponse''"
| "result_type (QuerySubscriptionsResponse _) = ''QuerySubscriptionsResponse''"
| "result_type (GetOperationalIntentReferenceResponse _) = ''GetOperationalIntentReferenceResponse''"
| "result_type (QueryOperationalIntentReferenceResponse _) = ''QueryOperationalIntentReferenceResponse''"
| "result_type (ChangeOperationalIntentReferenceResponse _ _) = ''ChangeOperationalIntentReferenceResponse''"
| "result_type (PutOIRResult_Response _ _) = ''PutOperationalIntentReferenceResult''"
| "result_type (PutOIRResult_Conflict _) = ''PutOperationalIntentReferenceResult''"

definition scd_TransactWithResult :: "'s scd_server \<Rightarrow> string \<Rightarrow> ctx \<Rightarrow> scd_request \<Rightarrow> ('s, scd_response) op" where
  "scd_TransactWithResult sv ResultType =
     TransactWithResult (sv_Transact sv)
       (\<lambda>y. case y of AnyResponse r \<Rightarrow> if result_type r = ResultType then Some r else None | _ \<Rightarrow> None)"

definition invalid_ID :: "string \<Rightarrow> string \<Rightarrow> dss_error \<Rightarrow> 'a ResponseSet" where
  "invalid_ID errID i e = bad_request errID (NewErrorWithCode BadRequest (''Invalid ID format: `'' @ i @ ''`''))"

definition ok_response :: "nat \<Rightarrow> scd_response \<Rightarrow> scd_body ResponseSet" where
  "ok_response n r = [n \<mapsto> ResponseBody (ScdResponse r)]"

section \<open>Operational intents\<close>

definition scd_DeleteOperationalIntentReference ::
    "externals \<Rightarrow> 's scd_server \<Rightarrow> string \<Rightarrow> ctx \<Rightarrow> unit api_request \<Rightarrow> ('s, scd_body ResponseSet) op" where
  "scd_DeleteOperationalIntentReference L sv errID ctx req =
     check (IDFromString L (rq_ID req)) (invalid_ID errID (rq_ID req)) (\<lambda>i.
     case au_ClientID (rq_Auth req) of
       None \<Rightarrow> missing_client errID ''Missing manager''
     | Some client \<Rightarrow>
         let ovn = rq_Version req in
         if ovn = '''' then ret (bad_request errID (NewErrorWithCode BadRequest ''Missing OVN for operational intent to modify''))
         else respond (scd_TransactWithResult sv ''ChangeOperationalIntentReferenceResponse'' ctx (DeleteOIRPayload i client ovn))
                (by_code errID [(PermissionDenied, 403), (NotFound, 404), (VersionMismatch, 409), (PreconditionFailed, 412)])
                (ok_response 200))"

definition scd_GetOperationalIntentReference ::
    "externals \<Rightarrow> 's scd_server \<Rightarrow> string \<Rightarrow> ctx \<Rightarrow> unit api_request \<Rightarrow> ('s, scd_body ResponseSet) op" where
  "scd_GetOperationalIntentReference L sv errID ctx req =
     check (IDFromString L (rq_ID req)) (invalid_ID errID (rq_ID req)) (\<lambda>_.
     case au_ClientID (rq_Auth req) of
       None \<Rightarrow> missing_client errID ''Missing manager''
     | Some client \<Rightarrow>
         respond (scd_TransactWithResult sv ''GetOperationalIntentReferenceResponse'' ctx
                    (GetOperationalIntentReferenceRequest (rq_ID req) (au_ClientID (rq_Auth req))))
           (by_code errID [(NotFound, 404)])
           (ok_response 200))"

text \<open>The check of the area of interest that the queries share.\<close>

definition check_area ::
    "externals \<Rightarrow> string \<Rightarrow> rest_Volume4D option api_request \<Rightarrow>
     (rest_Volume4D \<Rightarrow> ('s, 'a ResponseSet) op) \<Rightarrow> ('s, 'a ResponseSet) op" where
  "check_area L errID req k =
     check_body (rq_Body req) (malformed errID) (\<lambda>aoi.
     case aoi of
       None \<Rightarrow> ret (bad_request errID (NewErrorWithCode BadRequest ''Missing area_of_interest''))
     | Some a \<Rightarrow> check (volume_or_error (CellsVolume4DFromSCDRest L a)) (malformed errID) (\<lambda>_. k a))"

definition scd_QueryOperationalIntentReferences ::
    "externals \<Rightarrow> 's scd_server \<Rightarrow> string \<Rightarrow> ctx \<Rightarrow> rest_Volume4D option api_request \<Rightarrow> ('s, scd_body ResponseSet) op" where
  "scd_QueryOperationalIntentReferences L sv errID ctx req =
     check_area L errID req (\<lambda>a.
     case au_ClientID (rq_Auth req) of
       None \<Rightarrow> missing_client errID ''Missing manager''
     | Some client \<Rightarrow>
         respond (scd_TransactWithResult sv ''QueryOperationalIntentReferenceResponse'' ctx
                    (QueryOperationalIntentReferencesRequest (Some a) (au_ClientID (rq_Auth req))))
           (by_code errID [(BadRequest, 400)])
           (ok_response 200))"

text \<open>The outcome of an upsert: a version mismatch and a conflict are answered with an
  \<open>AirspaceConflictResponse\<close>.\<close>

definition oir_error :: "string \<Rightarrow> dss_error \<Rightarrow> scd_body ResponseSet" where
  "oir_error errID e =
     (if GetCode e = Some VersionMismatch
      then [409 \<mapsto> ResponseBody (ConflictResponse \<lparr>ac_Message = Some (errors_Handle errID (Some e)),
              ac_MissingOperationalIntents = None, ac_MissingConstraints = None\<rparr>)]
      else by_code errID [(PermissionDenied, 403), (BadRequest, 400), (NotFound, 400), (PreconditionFailed, 412)] e)"

definition oir_result :: "nat \<Rightarrow> scd_response \<Rightarrow> scd_body ResponseSet" where
  "oir_result n r =
     (case r of
        PutOIRResult_Conflict c \<Rightarrow> [409 \<mapsto> ResponseBody (ConflictResponse c)]
      | PutOIRResult_Response p subs \<Rightarrow> [n \<mapsto> ResponseBody (ScdResponse (ChangeOperationalIntentReferenceResponse p subs))]
      | _ \<Rightarrow> [n \<mapsto> ResponseBody (ScdResponse r)])"

definition oir_payload_error :: "string \<Rightarrow> dss_error \<Rightarrow> scd_body ResponseSet" where
  "oir_payload_error errID e =
     [(if GetCode e = Some PermissionDenied then 403 else 400) \<mapsto> error_response errID e]"

definition scd_CreateOperationalIntentReference ::
    "externals \<Rightarrow> 's scd_server \<Rightarrow> string \<Rightarrow> ID \<Rightarrow> ctx \<Rightarrow> rest_PutOIRParameters api_request \<Rightarrow> ('s, scd_body ResponseSet) op" where
  "scd_CreateOperationalIntentReference L sv errID newID ctx req =
     check_body (rq_Body req) (malformed errID) (\<lambda>params.
     bindE (liftO (MustFromContext ctx)) (\<lambda>now.
     check (NewCreateOIRPayload L newID (rq_ID req) params (rq_Auth req) (sv_AllowHTTPBaseUrls sv) now)
       (oir_payload_error errID) (\<lambda>payload.
     respond (scd_TransactWithResult sv ''PutOperationalIntentReferenceResult'' ctx payload) (oir_error errID) (oir_result 201))))"

definition scd_UpdateOperationalIntentReference ::
    "externals \<Rightarrow> 's scd_server \<Rightarrow> string \<Rightarrow> ID \<Rightarrow> ctx \<Rightarrow> rest_PutOIRParameters api_request \<Rightarrow> ('s, scd_body ResponseSet) op" where
  "scd_UpdateOperationalIntentReference L sv errID newID ctx req =
     check_body (rq_Body req) (malformed errID) (\<lambda>params.
     bindE (liftO (MustFromContext ctx)) (\<lambda>now.
     check (NewUpdateOIRPayload L newID (rq_ID req) (rq_Version req) params (rq_Auth req) (sv_AllowHTTPBaseUrls sv) now)
       (oir_payload_error errID) (\<lambda>payload.
     respond (scd_TransactWithResult sv ''PutOperationalIntentReferenceResult'' ctx payload) (oir_error errID) (oir_result 200))))"

section \<open>Constraints\<close>

definition scd_DeleteConstraintReference ::
    "externals \<Rightarrow> 's scd_server \<Rightarrow> string \<Rightarrow> ctx \<Rightarrow> unit api_request \<Rightarrow> ('s, scd_body ResponseSet) op" where
  "scd_DeleteConstraintReference L sv errID ctx req =
     check (IDFromString L (rq_ID req)) (invalid_ID errID (rq_ID req)) (\<lambda>i.
     case au_ClientID (rq_Auth req) of
       None \<Rightarrow> missing_client errID ''Missing manager''
     | Some client \<Rightarrow>
         if rq_Version req = '''' then ret (bad_request errID (NewErrorWithCode BadRequest ''Missing OVN for constraint to modify''))
         else respond (scd_TransactWithResult sv ''ChangeConstraintReferenceResponse'' ctx
                         (DeleteConstraintPayload i client (rq_Version req)))
                (by_code errID [(PermissionDenied, 403), (BadRequest, 400), (NotFound, 404), (VersionMismatch, 409)])
                (ok_response 200))"

definition scd_GetConstraintReference ::
    "externals \<Rightarrow> 's scd_server \<Rightarrow> string \<Rightarrow> ctx \<Rightarrow> unit api_request \<Rightarrow> ('s, scd_body ResponseSet) op" where
  "scd_GetConstraintReference L sv errID ctx req =
     check (IDFromString L (rq_ID req)) (invalid_ID errID (rq_ID req)) (\<lambda>_.
     case au_ClientID (rq_Auth req) of
       None \<Rightarrow> missing_client errID ''Missing manager''
     | Some client \<Rightarrow>
         respond (scd_TransactWithResult sv ''GetConstraintReferenceResponse'' ctx
                    (GetConstraintReferenceRequest (rq_ID req) (au_ClientID (rq_Auth req))))
           (by_code errID [(NotFound, 404)])
           (ok_response 200))"

abbreviation constraint_statuses :: "(error_code \<times> nat) list" where
  "constraint_statuses \<equiv> [(PermissionDenied, 403), (VersionMismatch, 409), (BadRequest, 400)]"

definition scd_CreateConstraintReference ::
    "externals \<Rightarrow> 's scd_server \<Rightarrow> string \<Rightarrow> ctx \<Rightarrow> rest_PutConstraintReferenceParameters api_request \<Rightarrow>
     ('s, scd_body ResponseSet) op" where
  "scd_CreateConstraintReference L sv errID ctx req =
     check_body (rq_Body req) (malformed errID) (\<lambda>params.
     case au_ClientID (rq_Auth req) of
       None \<Rightarrow> missing_client errID ''Missing manager''
     | Some client \<Rightarrow>
         bindE (liftO (MustFromContext ctx)) (\<lambda>now.
         check (NewCreateConstraintPayload L (rq_ID req) client params (sv_AllowHTTPBaseUrls sv) now) (malformed errID) (\<lambda>payload.
         respond (scd_TransactWithResult sv ''ChangeConstraintReferenceResponse'' ctx payload)
           (by_code errID constraint_statuses) (ok_response 201))))"

definition scd_UpdateConstraintReference ::
    "externals \<Rightarrow> 's scd_server \<Rightarrow> string \<Rightarrow> ctx \<Rightarrow> rest_PutConstraintReferenceParameters api_request \<Rightarrow>
     ('s, scd_body ResponseSet) op" where
  "scd_UpdateConstraintReference L sv errID ctx req =
     check_body (rq_Body req) (malformed errID) (\<lambda>params.
     case au_ClientID (rq_Auth req) of
       None \<Rightarrow> missing_client errID ''Missing manager''
     | Some client \<Rightarrow>
         bindE (liftO (MustFromContext ctx)) (\<lambda>now.
         check (NewUpdateConstraintPayload L (rq_ID req) (rq_Version req) client params (sv_AllowHTTPBaseUrls sv) now)
           (malformed errID) (\<lambda>payload.
         respond (scd_TransactWithResult sv ''ChangeConstraintReferenceResponse'' ctx payload)
           (by_code errID constraint_statuses) (ok_response 200))))"

definition scd_QueryConstraintReferences ::
    "externals \<Rightarrow> 's scd_server \<Rightarrow> string \<Rightarrow> ctx \<Rightarrow> rest_Volume4D option api_request \<Rightarrow> ('s, scd_body ResponseSet) op" where
  "scd_QueryConstraintReferences L sv errID ctx req =
     check_area L errID req (\<lambda>a.
     respond (scd_TransactWithResult sv ''QueryConstraintReferencesResponse'' ctx
                (QueryConstraintReferencesRequest (Some a) (au_ClientID (rq_Auth req))))
       (by_code errID [])
       (ok_response 200))"

section \<open>Subscriptions\<close>

abbreviation UtmStrategicCoordinationScope :: string where
  "UtmStrategicCoordinationScope \<equiv> ''utm.strategic_coordination''"

abbreviation UtmConstraintProcessingScope :: string where
  "UtmConstraintProcessingScope \<equiv> ''utm.constraint_processing''"

definition validateRequestedSubscriptionScopes ::
    "AuthorizationResult \<Rightarrow> rest_PutSubscriptionParameters \<Rightarrow> unit outcome" where
  "validateRequestedSubscriptionScopes authResult params =
     (if ps_NotifyForOperationalIntents params = Some True \<and> \<not> HasScope (au_Scopes authResult) UtmStrategicCoordinationScope
      then Err (NewErrorWithCode PermissionDenied (''Scope '' @ UtmStrategicCoordinationScope @
             '' is required to request operational intent notifications''))
      else if ps_NotifyForConstraints params = Some True \<and> \<not> HasScope (au_Scopes authResult) UtmConstraintProcessingScope
      then Err (NewErrorWithCode PermissionDenied (''Scope '' @ UtmConstraintProcessingScope @
             '' is required to request constraint notifications''))
      else Ok ())"

abbreviation subscription_statuses :: "(error_code \<times> nat) list" where
  "subscription_statuses \<equiv>
     [(PermissionDenied, 403), (AlreadyExists, 409), (VersionMismatch, 409), (BadRequest, 400), (NotFound, 400)]"

definition scd_CreateSubscription ::
    "externals \<Rightarrow> 's scd_server \<Rightarrow> string \<Rightarrow> ctx \<Rightarrow> rest_PutSubscriptionParameters api_request \<Rightarrow>
     ('s, scd_body ResponseSet) op" where
  "scd_CreateSubscription L sv errID ctx req =
     check_body (rq_Body req) (malformed errID) (\<lambda>params.
     case au_ClientID (rq_Auth req) of
       None \<Rightarrow> missing_client errID ''Missing owner''
     | Some client \<Rightarrow>
         check (validateRequestedSubscriptionScopes (rq_Auth req) params) (\<lambda>e. [403 \<mapsto> error_response errID e]) (\<lambda>_.
         check (NewCreateSubscriptionPayload L (rq_ID req) client params (sv_AllowHTTPBaseUrls sv)) (bad_request errID) (\<lambda>payload.
         respond (scd_TransactWithResult sv ''PutSubscriptionResponse'' ctx payload)
           (by_code errID subscription_statuses) (ok_response 200))))"

definition scd_UpdateSubscription ::
    "externals \<Rightarrow> 's scd_server \<Rightarrow> string \<Rightarrow> ctx \<Rightarrow> rest_PutSubscriptionParameters api_request \<Rightarrow>
     ('s, scd_body ResponseSet) op" where
  "scd_UpdateSubscription L sv errID ctx req =
     check_body (rq_Body req) (malformed errID) (\<lambda>params.
     case au_ClientID (rq_Auth req) of
       None \<Rightarrow> missing_client errID ''Missing owner''
     | Some client \<Rightarrow>
         check (validateRequestedSubscriptionScopes (rq_Auth req) params) (\<lambda>e. [403 \<mapsto> error_response errID e]) (\<lambda>_.
         check (NewUpdateSubscriptionPayload L (rq_ID req) client (rq_Version req) params (sv_AllowHTTPBaseUrls sv))
           (bad_request errID) (\<lambda>payload.
         respond (scd_TransactWithResult sv ''PutSubscriptionResponse'' ctx payload)
           (by_code errID subscription_statuses) (ok_response 200))))"

definition scd_GetSubscription ::
    "externals \<Rightarrow> 's scd_server \<Rightarrow> string \<Rightarrow> ctx \<Rightarrow> unit api_request \<Rightarrow> ('s, scd_body ResponseSet) op" where
  "scd_GetSubscription L sv errID ctx req =
     check (IDFromString L (rq_ID req)) (invalid_ID errID (rq_ID req)) (\<lambda>_.
     case au_ClientID (rq_Auth req) of
       None \<Rightarrow> missing_client errID ''Missing owner''
     | Some client \<Rightarrow>
         respond (scd_TransactWithResult sv ''GetSubscriptionResponse'' ctx
                    (GetSubscriptionRequest (rq_ID req) (au_ClientID (rq_Auth req))))
           (by_code errID [(PermissionDenied, 403), (BadRequest, 400), (NotFound, 404)])
           (ok_response 200))"

definition scd_QuerySubscriptions ::
    "externals \<Rightarrow> 's scd_server \<Rightarrow> string \<Rightarrow> ctx \<Rightarrow> rest_Volume4D option api_request \<Rightarrow> ('s, scd_body ResponseSet) op" where
  "scd_QuerySubscriptions L sv errID ctx req =
     check_area L errID req (\<lambda>a.
     case au_ClientID (rq_Auth req) of
       None \<Rightarrow> missing_client errID ''Missing owner''
     | Some client \<Rightarrow>
         respond (scd_TransactWithResult sv ''QuerySubscriptionsResponse'' ctx
                    (QuerySubscriptionsRequest (Some a) (au_ClientID (rq_Auth req))))
           (by_code errID [(BadRequest, 400), (PermissionDenied, 403), (AreaTooLarge, 413)])
           (ok_response 200))"

definition scd_DeleteSubscription ::
    "externals \<Rightarrow> 's scd_server \<Rightarrow> string \<Rightarrow> ctx \<Rightarrow> unit api_request \<Rightarrow> ('s, scd_body ResponseSet) op" where
  "scd_DeleteSubscription L sv errID ctx req =
     check (IDFromString L (rq_ID req))
       (\<lambda>_. bad_request errID (NewErrorWithCode BadRequest ''Invalid ID format'')) (\<lambda>i.
     if rq_Version req = '''' then ret (bad_request errID (NewErrorWithCode BadRequest ''Missing version''))
     else
     case au_ClientID (rq_Auth req) of
       None \<Rightarrow> missing_client errID ''Missing owner''
     | Some client \<Rightarrow>
         respond (scd_TransactWithResult sv ''DeleteSubscriptionResponse'' ctx (DeleteSubscriptionPayload i client (rq_Version req)))
           (by_code errID [(PermissionDenied, 403), (BadRequest, 400), (NotFound, 404), (VersionMismatch, 409)])
           (ok_response 200))"

section \<open>USS availability\<close>

fun strings_Contains :: "string \<Rightarrow> string \<Rightarrow> bool" where
  "strings_Contains [] sub \<longleftrightarrow> sub = []"
| "strings_Contains (c # s) sub \<longleftrightarrow> take (length sub) (c # s) = sub \<or> strings_Contains s sub"

definition unknown_availability :: "string \<Rightarrow> scd_body ResponseSet" where
  "unknown_availability ussId =
     ok_response 200 (UssAvailabilityStatusResponse \<lparr>rua_Uss = ussId, rua_Availability = UssAvailabilityStateUnknown\<rparr> '''')"

text \<open>\<open>strings.Contains(err.Error(), "does not exist")\<close>. The text of an error is the message of its root
  cause and the messages added on the way; of the latter, none on the way of these operations has the
  phrase, except where the root cause has it too.\<close>

definition scd_GetUssAvailability ::
    "externals \<Rightarrow> 's scd_server \<Rightarrow> string \<Rightarrow> ctx \<Rightarrow> unit api_request \<Rightarrow> ('s, scd_body ResponseSet) op" where
  "scd_GetUssAvailability L sv errID ctx req =
     (let i = rq_ID req in
      if i = '''' then ret (bad_request errID (NewErrorWithCode BadRequest ''UssId not provided''))
      else respond (scd_TransactWithResult sv ''UssAvailabilityStatusResponse'' ctx (GetUssAvailabilityRequest (rq_ID req)))
             (\<lambda>e. if strings_Contains (RootCause e) ''does not exist'' then unknown_availability i
                  else [500 \<mapsto> internal_error errID e])
             (ok_response 200))"

definition scd_SetUssAvailability ::
    "externals \<Rightarrow> 's scd_server \<Rightarrow> string \<Rightarrow> ctx \<Rightarrow> (string \<times> string) api_request \<Rightarrow> ('s, scd_body ResponseSet) op" where
  "scd_SetUssAvailability L sv errID ctx req =
     (if rq_ID req = '''' then ret (bad_request errID (NewErrorWithCode BadRequest ''ussID not provided.''))
      else
      check_body (rq_Body req) (malformed errID) (\<lambda>(availability, oldVersion).
      check (NewSetUssAvailabilityPayload (rq_ID req) availability oldVersion) (bad_request errID) (\<lambda>payload.
      respond (scd_TransactWithResult sv ''UssAvailabilityStatusResponse'' ctx payload)
        (\<lambda>e. if strings_Contains (RootCause e) ''does not exist'' then unknown_availability (rq_ID req)
             else by_code errID [(AlreadyExists, 409), (VersionMismatch, 409)] e)
        (ok_response 200))))"

section \<open>Reports\<close>

text \<open>\<open>JSONLoggingReceivedReportHandler.Handle\<close>: the report gets an ID, and is logged as JSON.\<close>

definition JSONLogging_Handle ::
    "dss_error + string \<Rightarrow> (rest_ErrorReport \<Rightarrow> dss_error + string) \<Rightarrow> rest_ErrorReport \<Rightarrow> rest_ErrorReport outcome" where
  "JSONLogging_Handle NewRandom Marshal report =
     (case NewRandom of
        Inl e \<Rightarrow> Err e
      | Inr reportID \<Rightarrow>
          let rVal = report\<lparr>er_ReportId := Some reportID\<rparr> in
          (case Marshal rVal of
             Inl e \<Rightarrow> Err (PropagateWithCode (Some BadRequest) e)
           | Inr _ \<Rightarrow> Ok rVal))"

definition scd_MakeDssReport ::
    "'s scd_server \<Rightarrow> string \<Rightarrow> ctx \<Rightarrow> rest_ErrorReport api_request \<Rightarrow> ('s, scd_body ResponseSet) op" where
  "scd_MakeDssReport sv errID ctx req =
     check_body (rq_Body req) (malformed errID) (\<lambda>report.
     check (sv_HandleReport sv report)
       (by_code errID [(BadRequest, 400), (PermissionDenied, 403)])
       (\<lambda>r. ret [201 \<mapsto> ResponseBody (ReportResponse r)]))"

section \<open>A handler changes the store only by executing its operation for its client\<close>

text \<open>A change is legitimate for an operation and a client, with a status, when it is the effect of
  executing one request of the operation that was made for the client, and the status says so: it is a
  success, a list of conflicts that the operation returned, or an internal error (the result did not
  arrive).\<close>

definition scd_legit ::
    "(ctx \<Rightarrow> scd_request \<Rightarrow> (scd_state, scd_response) op) \<Rightarrow> string \<Rightarrow> AuthorizationResult \<Rightarrow> ctx \<Rightarrow>
     scd_state \<Rightarrow> scd_state \<Rightarrow> nat \<Rightarrow> bool" where
  "scd_legit execute opid auth ctx s t n \<longleftrightarrow>
     (\<exists>q resp. scd_OperationID q = opid \<and> client_of q \<in> {None, au_ClientID auth} \<and> execute ctx q s = (Ok resp, t) \<and>
        (n \<in> {200, 201, 500} \<or> n = 409 \<and> (\<exists>c. resp = PutOIRResult_Conflict c)))"

lemma accounts_check_area:
  "(\<And>a. accounts legit cur (k a)) \<Longrightarrow> accounts legit cur (check_area L errID req k)"
  unfolding check_area_def by (intro accounts_intros)

text \<open>How the answers depend on the outcome of the transaction.\<close>

lemma oir_error_None: "GetCode e = None \<Longrightarrow> oir_error errID e = [500 \<mapsto> internal_error errID e]"
  by (simp add: oir_error_def by_code_None)

lemma oir_result_single:
  "\<exists>n' b. oir_result n r = [n' \<mapsto> b] \<and> (n' = n \<or> n' = 409 \<and> (\<exists>c. r = PutOIRResult_Conflict c))"
  by (cases r) (auto simp: oir_result_def)

text \<open>What the payload constructors make of the client.\<close>

lemma newSubscription_Ok:
  assumes "newSubscription L i manager version params allowHTTP = Ok s"
  shows "sub_Manager s = manager \<and> \<not> sub_ImplicitSubscription s \<and> IDFromString L i = Ok (sub_ID s)"
proof -
  from assms obtain j volume where "IDFromString L i = Ok j" "subscription_volume L (ps_Extents params) = Ok volume"
    unfolding newSubscription_def by (auto simp: monad_simps)
  with assms show ?thesis
    by (simp add: newSubscription_def Let_def monad_simps split: if_split_asm) auto
qed

lemma subscription_payload_client:
  "NewCreateSubscriptionPayload L i manager params allowHTTP = Ok q \<Longrightarrow>
     scd_OperationID q = ''scdv1.CreateSubscription'' \<and> client_of q = Some manager"
  "NewUpdateSubscriptionPayload L i manager version params allowHTTP = Ok q \<Longrightarrow>
     scd_OperationID q = ''scdv1.UpdateSubscription'' \<and> client_of q = Some manager"
  by (auto simp: NewCreateSubscriptionPayload_def NewUpdateSubscriptionPayload_def monad_simps dest: newSubscription_Ok)

lemma checkUpsertPermissions_client:
  "checkUpsertPermissionsAndReturnManager auth state = Ok m \<Longrightarrow> au_ClientID auth = Some m"
  by (auto simp: checkUpsertPermissionsAndReturnManager_def Let_def split: option.splits if_splits)

lemma oir_payload_client:
  "NewCreateOIRPayload L newID i params auth allowHTTP now = Ok q \<Longrightarrow>
     scd_OperationID q = ''scdv1.CreateOperationalIntentReference'' \<and> client_of q = au_ClientID auth"
  "NewUpdateOIRPayload L newID i ovn params auth allowHTTP now = Ok q \<Longrightarrow>
     scd_OperationID q = ''scdv1.UpdateOperationalIntentReference'' \<and> client_of q = au_ClientID auth"
  by (auto simp: NewCreateOIRPayload_def NewUpdateOIRPayload_def newOIRUpsert_def monad_simps
      dest: checkUpsertPermissions_client)

lemma constraint_payload_client:
  "NewCreateConstraintPayload L i manager cparams allowHTTP now = Ok q \<Longrightarrow>
     scd_OperationID q = ''scdv1.CreateConstraintReference'' \<and> client_of q = Some manager"
  "NewUpdateConstraintPayload L i ovn manager cparams allowHTTP now = Ok q \<Longrightarrow>
     scd_OperationID q = ''scdv1.UpdateConstraintReference'' \<and> client_of q = Some manager"
  by (auto simp: NewCreateConstraintPayload_def NewUpdateConstraintPayload_def newConstraint_def monad_simps)

text \<open>A server on a transactional store.\<close>

locale scd_service = rest_store transact current execute AnyResponse proper
  for transact :: "ctx \<Rightarrow> scd_request \<Rightarrow> ('r, scd_any) op" and current :: "'r \<Rightarrow> scd_state"
    and execute :: "ctx \<Rightarrow> scd_request \<Rightarrow> (scd_state, scd_response) op" and proper :: "scd_request \<Rightarrow> bool" +
  fixes sv :: "'r scd_server" and L :: externals
  assumes sv_Transact: "sv_Transact sv = transact"
begin

lemma accounts_respond_scd:
  assumes "\<forall>q. proper q" "scd_OperationID q = opid" "client_of q \<in> {None, au_ClientID auth}"
    and "\<And>resp. \<exists>n b. onOk resp = [n \<mapsto> b] \<and> (n \<in> {200, 201, 500} \<or> n = 409 \<and> (\<exists>c. resp = PutOIRResult_Conflict c))"
    and "\<And>e. GetCode e = None \<Longrightarrow> \<exists>n b. onErr e = [n \<mapsto> b] \<and> n \<in> {200, 500}"
  shows "accounts (scd_legit execute opid auth ctx) current (respond (scd_TransactWithResult sv ty ctx q) onErr onOk)"
  unfolding scd_TransactWithResult_def sv_Transact
proof (rule accounts_respond)
  fix resp x s t
  assume "execute ctx q s = (Ok resp, t)"
    "(case AnyResponse resp of AnyResponse r \<Rightarrow> if result_type r = ty then Some r else None | _ \<Rightarrow> None) = Some x"
  with assms(2,3) assms(4) [of x] show "\<exists>n b. onOk x = [n \<mapsto> b] \<and> scd_legit execute opid auth ctx s t n"
    unfolding scd_legit_def by (auto split: if_splits)
next
  fix e resp s t
  assume "GetCode e = None" "execute ctx q s = (Ok resp, t)"
  with assms(2,3) assms(5) [of e] show "\<exists>n b. onErr e = [n \<mapsto> b] \<and> scd_legit execute opid auth ctx s t n"
    unfolding scd_legit_def by blast
qed (use assms(1) in simp)

lemma accounts_respond_by_code:
  assumes "\<forall>q. proper q" "scd_OperationID q = opid" "client_of q \<in> {None, au_ClientID auth}" "n \<in> {200, 201}"
  shows "accounts (scd_legit execute opid auth ctx) current
    (respond (scd_TransactWithResult sv ty ctx q) (by_code errID t) (ok_response n))"
  using assms by (intro accounts_respond_scd) (auto simp: by_code_None ok_response_def)

lemma accounts_respond_oir:
  assumes "\<forall>q. proper q" "scd_OperationID q = opid" "client_of q \<in> {None, au_ClientID auth}" "n \<in> {200, 201}"
  shows "accounts (scd_legit execute opid auth ctx) current
    (respond (scd_TransactWithResult sv ty ctx q) (oir_error errID) (oir_result n))"
proof (rule accounts_respond_scd [OF assms(1,2,3)])
  fix resp
  show "\<exists>m b. oir_result n resp = [m \<mapsto> b] \<and> (m \<in> {200, 201, 500} \<or> m = 409 \<and> (\<exists>c. resp = PutOIRResult_Conflict c))"
    using oir_result_single [of n resp] assms(4) by auto
qed (auto simp: oir_error_None)

text \<open>Every handler accounts for its changes.\<close>

lemma handlers_account:
  assumes "\<forall>q. proper q"
  shows "accounts (scd_legit execute ''scdv1.DeleteOperationalIntentReference'' (rq_Auth req) ctx) current
     (scd_DeleteOperationalIntentReference L sv errID ctx req)"
    and "accounts (scd_legit execute ''scdv1.GetOperationalIntentReference'' (rq_Auth req) ctx) current
     (scd_GetOperationalIntentReference L sv errID ctx req)"
    and "accounts (scd_legit execute ''scdv1.DeleteConstraintReference'' (rq_Auth req) ctx) current
     (scd_DeleteConstraintReference L sv errID ctx req)"
    and "accounts (scd_legit execute ''scdv1.GetConstraintReference'' (rq_Auth req) ctx) current
     (scd_GetConstraintReference L sv errID ctx req)"
    and "accounts (scd_legit execute ''scdv1.GetSubscription'' (rq_Auth req) ctx) current (scd_GetSubscription L sv errID ctx req)"
    and "accounts (scd_legit execute ''scdv1.DeleteSubscription'' (rq_Auth req) ctx) current (scd_DeleteSubscription L sv errID ctx req)"
  unfolding scd_DeleteOperationalIntentReference_def scd_GetOperationalIntentReference_def Let_def
    scd_DeleteConstraintReference_def scd_GetConstraintReference_def scd_GetSubscription_def scd_DeleteSubscription_def
  using assms by - (intro accounts_check_area accounts_intros accounts_respond_by_code; simp)+

lemma queries_account:
  assumes "\<forall>q. proper q"
  shows "accounts (scd_legit execute ''scdv1.QueryOperationalIntentReferences'' (rq_Auth qreq) ctx) current
     (scd_QueryOperationalIntentReferences L sv errID ctx qreq)"
    and "accounts (scd_legit execute ''scdv1.QueryConstraintReferences'' (rq_Auth qreq) ctx) current
     (scd_QueryConstraintReferences L sv errID ctx qreq)"
    and "accounts (scd_legit execute ''scdv1.QuerySubscriptions'' (rq_Auth qreq) ctx) current
     (scd_QuerySubscriptions L sv errID ctx qreq)"
  unfolding scd_QueryOperationalIntentReferences_def scd_QueryConstraintReferences_def scd_QuerySubscriptions_def
  using assms by - (intro accounts_check_area accounts_intros accounts_respond_by_code; simp)+

lemma oir_upserts_account:
  assumes "\<forall>q. proper q"
  shows "accounts (scd_legit execute ''scdv1.CreateOperationalIntentReference'' (rq_Auth preq) ctx) current
     (scd_CreateOperationalIntentReference L sv errID newID ctx preq)"
    and "accounts (scd_legit execute ''scdv1.UpdateOperationalIntentReference'' (rq_Auth preq) ctx) current
     (scd_UpdateOperationalIntentReference L sv errID newID ctx preq)"
  unfolding scd_CreateOperationalIntentReference_def scd_UpdateOperationalIntentReference_def
  using assms by - (intro accounts_check_area accounts_intros accounts_respond_oir;
      auto dest: oir_payload_client)+

lemma constraint_upserts_account:
  assumes "\<forall>q. proper q"
  shows "accounts (scd_legit execute ''scdv1.CreateConstraintReference'' (rq_Auth creq) ctx) current
     (scd_CreateConstraintReference L sv errID ctx creq)"
    and "accounts (scd_legit execute ''scdv1.UpdateConstraintReference'' (rq_Auth creq) ctx) current
     (scd_UpdateConstraintReference L sv errID ctx creq)"
  unfolding scd_CreateConstraintReference_def scd_UpdateConstraintReference_def
  using assms by - (intro accounts_check_area accounts_intros accounts_respond_by_code;
      auto dest: constraint_payload_client)+

lemma subscription_upserts_account:
  assumes "\<forall>q. proper q"
  shows "accounts (scd_legit execute ''scdv1.CreateSubscription'' (rq_Auth sreq) ctx) current (scd_CreateSubscription L sv errID ctx sreq)"
    and "accounts (scd_legit execute ''scdv1.UpdateSubscription'' (rq_Auth sreq) ctx) current (scd_UpdateSubscription L sv errID ctx sreq)"
  unfolding scd_CreateSubscription_def scd_UpdateSubscription_def
  using assms by - (intro accounts_check_area accounts_intros accounts_respond_by_code;
      auto dest: subscription_payload_client)+

lemma availability_account:
  assumes "\<forall>q. proper q"
  shows "accounts (scd_legit execute ''scdv1.GetUssAvailability'' (rq_Auth areq) ctx) current (scd_GetUssAvailability L sv errID ctx areq)"
    and "accounts (scd_legit execute ''scdv1.SetUssAvailability'' (rq_Auth breq) ctx) current (scd_SetUssAvailability L sv errID ctx breq)"
  unfolding scd_GetUssAvailability_def scd_SetUssAvailability_def Let_def split_def
  using assms by - (intro accounts_check_area accounts_intros accounts_respond_scd;
      auto simp: NewSetUssAvailabilityPayload_def by_code_None ok_response_def unknown_availability_def monad_simps)+

lemma report_accounts: "accounts (scd_legit execute ''scdv1.MakeDssReport'' (rq_Auth rreq) ctx) current (scd_MakeDssReport sv errID ctx rreq)"
  unfolding scd_MakeDssReport_def by (intro accounts_check_area accounts_intros)

lemmas all_account = handlers_account queries_account oir_upserts_account constraint_upserts_account
  subscription_upserts_account availability_account report_accounts

end

section \<open>The server on the replicated store\<close>

definition scd_raft_server ::
    "externals \<Rightarrow> scd_codec \<Rightarrow> delivery \<Rightarrow> string \<Rightarrow> 64 word \<Rightarrow> (rest_ErrorReport \<Rightarrow> rest_ErrorReport outcome) \<Rightarrow> bool \<Rightarrow>
     scd_repo scd_server" where
  "scd_raft_server L J d proposalID nodeID report allowHTTP =
     \<lparr>sv_Transact = scd_Store_Transact L J d proposalID nodeID, sv_HandleReport = report, sv_AllowHTTPBaseUrls = allowHTTP\<rparr>"

interpretation scd_srv: scd_service "scd_Store_Transact L J d proposalID nodeID" mr_state
  "\<lambda>ctx req. oh_Execute (scd_handler_of L req) ctx req" "scd_proper J"
  "scd_raft_server L J d proposalID nodeID report allowHTTP" L for L J d proposalID nodeID report allowHTTP
  by unfold_locales (simp add: scd_raft_server_def)

end
