(* ===== verification/Scd_Api.thy ===== *)
theory Scd_Api
  imports Scd_Server
begin

text \<open>
  The generated API server of strategic coordination, \<open>src/pkg/api/scdv1/server.gen.go\<close>, with the
  authorization options of \<open>src/pkg/api/scdv1/interface.gen.go\<close>: the routes, and for each of them how
  the parameters and the body are read, the request is authorized, the handler is called and its
  response is written. Together with the theories below it, this is the way of an HTTP request from the
  socket to the replicated store and back; the theorems here span all of it.
\<close>

section \<open>Scopes and authorization options\<close>

abbreviation UtmAvailabilityArbitrationScope :: string where
  "UtmAvailabilityArbitrationScope \<equiv> ''utm.availability_arbitration''"

abbreviation UtmConstraintManagementScope :: string where
  "UtmConstraintManagementScope \<equiv> ''utm.constraint_management''"

definition scdv1_QueryOperationalIntentReferencesSecurity :: "AuthorizationOption list" where
  "scdv1_QueryOperationalIntentReferencesSecurity = [[(''Authority'', [UtmStrategicCoordinationScope])],
     [(''Authority'', [UtmConformanceMonitoringSaScope])]]"

definition scdv1_GetOperationalIntentReferenceSecurity :: "AuthorizationOption list" where
  "scdv1_GetOperationalIntentReferenceSecurity = [[(''Authority'', [UtmStrategicCoordinationScope])],
     [(''Authority'', [UtmConformanceMonitoringSaScope])]]"

definition scdv1_CreateOperationalIntentReferenceSecurity :: "AuthorizationOption list" where
  "scdv1_CreateOperationalIntentReferenceSecurity = [[(''Authority'', [UtmStrategicCoordinationScope])],
     [(''Authority'', [UtmStrategicCoordinationScope, UtmConstraintProcessingScope])],
     [(''Authority'', [UtmConformanceMonitoringSaScope])]]"

definition scdv1_UpdateOperationalIntentReferenceSecurity :: "AuthorizationOption list" where
  "scdv1_UpdateOperationalIntentReferenceSecurity = [[(''Authority'', [UtmStrategicCoordinationScope])],
     [(''Authority'', [UtmStrategicCoordinationScope, UtmConstraintProcessingScope])],
     [(''Authority'', [UtmConformanceMonitoringSaScope])]]"

definition scdv1_DeleteOperationalIntentReferenceSecurity :: "AuthorizationOption list" where
  "scdv1_DeleteOperationalIntentReferenceSecurity = [[(''Authority'', [UtmStrategicCoordinationScope])],
     [(''Authority'', [UtmConformanceMonitoringSaScope])]]"

definition scdv1_QueryConstraintReferencesSecurity :: "AuthorizationOption list" where
  "scdv1_QueryConstraintReferencesSecurity = [[(''Authority'', [UtmConstraintManagementScope])],
     [(''Authority'', [UtmConstraintProcessingScope])]]"

definition scdv1_GetConstraintReferenceSecurity :: "AuthorizationOption list" where
  "scdv1_GetConstraintReferenceSecurity = [[(''Authority'', [UtmConstraintManagementScope])],
     [(''Authority'', [UtmConstraintProcessingScope])]]"

definition scdv1_CreateConstraintReferenceSecurity :: "AuthorizationOption list" where
  "scdv1_CreateConstraintReferenceSecurity = [[(''Authority'', [UtmConstraintManagementScope])]]"

definition scdv1_UpdateConstraintReferenceSecurity :: "AuthorizationOption list" where
  "scdv1_UpdateConstraintReferenceSecurity = [[(''Authority'', [UtmConstraintManagementScope])]]"

definition scdv1_DeleteConstraintReferenceSecurity :: "AuthorizationOption list" where
  "scdv1_DeleteConstraintReferenceSecurity = [[(''Authority'', [UtmConstraintManagementScope])]]"

definition scdv1_QuerySubscriptionsSecurity :: "AuthorizationOption list" where
  "scdv1_QuerySubscriptionsSecurity = [[(''Authority'', [UtmConstraintProcessingScope])],
     [(''Authority'', [UtmStrategicCoordinationScope])]]"

definition scdv1_GetSubscriptionSecurity :: "AuthorizationOption list" where
  "scdv1_GetSubscriptionSecurity = [[(''Authority'', [UtmConstraintProcessingScope])],
     [(''Authority'', [UtmStrategicCoordinationScope])]]"

definition scdv1_CreateSubscriptionSecurity :: "AuthorizationOption list" where
  "scdv1_CreateSubscriptionSecurity = [[(''Authority'', [UtmConstraintProcessingScope])],
     [(''Authority'', [UtmStrategicCoordinationScope])]]"

definition scdv1_UpdateSubscriptionSecurity :: "AuthorizationOption list" where
  "scdv1_UpdateSubscriptionSecurity = [[(''Authority'', [UtmConstraintProcessingScope])],
     [(''Authority'', [UtmStrategicCoordinationScope])]]"

definition scdv1_DeleteSubscriptionSecurity :: "AuthorizationOption list" where
  "scdv1_DeleteSubscriptionSecurity = [[(''Authority'', [UtmConstraintProcessingScope])],
     [(''Authority'', [UtmStrategicCoordinationScope])]]"

definition scdv1_MakeDssReportSecurity :: "AuthorizationOption list" where
  "scdv1_MakeDssReportSecurity = [[(''Authority'', [UtmConstraintManagementScope])],
     [(''Authority'', [UtmConstraintProcessingScope])],
     [(''Authority'', [UtmStrategicCoordinationScope])],
     [(''Authority'', [UtmConformanceMonitoringSaScope])],
     [(''Authority'', [UtmAvailabilityArbitrationScope])]]"

definition scdv1_GetUssAvailabilitySecurity :: "AuthorizationOption list" where
  "scdv1_GetUssAvailabilitySecurity = [[(''Authority'', [UtmAvailabilityArbitrationScope])],
     [(''Authority'', [UtmStrategicCoordinationScope])],
     [(''Authority'', [UtmConformanceMonitoringSaScope])]]"

definition scdv1_SetUssAvailabilitySecurity :: "AuthorizationOption list" where
  "scdv1_SetUssAvailabilitySecurity = [[(''Authority'', [UtmAvailabilityArbitrationScope])]]"

text \<open>The authorization options by the name of the route.\<close>

definition scdv1_security :: "(string, AuthorizationOption list) gomap" where
  "scdv1_security = [
     (''scdv1.QueryOperationalIntentReferences'', scdv1_QueryOperationalIntentReferencesSecurity),
     (''scdv1.GetOperationalIntentReference'', scdv1_GetOperationalIntentReferenceSecurity),
     (''scdv1.CreateOperationalIntentReference'', scdv1_CreateOperationalIntentReferenceSecurity),
     (''scdv1.UpdateOperationalIntentReference'', scdv1_UpdateOperationalIntentReferenceSecurity),
     (''scdv1.DeleteOperationalIntentReference'', scdv1_DeleteOperationalIntentReferenceSecurity),
     (''scdv1.QueryConstraintReferences'', scdv1_QueryConstraintReferencesSecurity),
     (''scdv1.GetConstraintReference'', scdv1_GetConstraintReferenceSecurity),
     (''scdv1.CreateConstraintReference'', scdv1_CreateConstraintReferenceSecurity),
     (''scdv1.UpdateConstraintReference'', scdv1_UpdateConstraintReferenceSecurity),
     (''scdv1.DeleteConstraintReference'', scdv1_DeleteConstraintReferenceSecurity),
     (''scdv1.QuerySubscriptions'', scdv1_QuerySubscriptionsSecurity),
     (''scdv1.GetSubscription'', scdv1_GetSubscriptionSecurity),
     (''scdv1.CreateSubscription'', scdv1_CreateSubscriptionSecurity),
     (''scdv1.UpdateSubscription'', scdv1_UpdateSubscriptionSecurity),
     (''scdv1.DeleteSubscription'', scdv1_DeleteSubscriptionSecurity),
     (''scdv1.MakeDssReport'', scdv1_MakeDssReportSecurity),
     (''scdv1.GetUssAvailability'', scdv1_GetUssAvailabilitySecurity),
     (''scdv1.SetUssAvailability'', scdv1_SetUssAvailabilitySecurity)]"

section \<open>The environment of a request\<close>

text \<open>The decoders of \<open>encoding/json\<close> for the bodies of the requests. A body that does not parse is an
  error.\<close>

record scd_bodies =
  jb_area :: "string \<Rightarrow> dss_error + rest_Volume4D option"
  jb_oir :: "string \<Rightarrow> dss_error + rest_PutOIRParameters"
  jb_constraint :: "string \<Rightarrow> dss_error + rest_PutConstraintReferenceParameters"
  jb_subscription :: "string \<Rightarrow> dss_error + rest_PutSubscriptionParameters"
  jb_availability :: "string \<Rightarrow> dss_error + string \<times> string"
  jb_report :: "string \<Rightarrow> dss_error + rest_ErrorReport"

text \<open>What a request is served with: the keys, the time and the audiences of the authorizer, the
  decoders, the server, the identifiers drawn for the request and its context.\<close>

record ('key, 's) scd_api =
  ap_jwt :: "'key jwt_lib"
  ap_now :: time
  ap_keys :: "'key list"
  ap_audiences :: "string list"
  ap_bodies :: scd_bodies
  ap_server :: "'s scd_server"
  ap_errID :: string
  ap_newID :: ID
  ap_ctx :: ctx

definition scdv1_Authorize :: "('key, 's) scd_api \<Rightarrow> http_request \<Rightarrow> AuthorizationOption list \<Rightarrow> AuthorizationResult outcome" where
  "scdv1_Authorize A r authOptions =
     TokenMiddleware_Authorize (ap_jwt A) (ap_now A) (ap_keys A) (ap_audiences A) (hr_Authorization r) authOptions"

section \<open>The methods of the router\<close>

definition scdv1_QueryOperationalIntentReferences :: "externals \<Rightarrow> ('key, 's) scd_api \<Rightarrow> ('s, scd_body body) Handler" where
  "scdv1_QueryOperationalIntentReferences L A pat r =
     serve_operation (ap_errID A) (scdv1_Authorize A r scdv1_QueryOperationalIntentReferencesSecurity) [200, 400, 401, 403, 413, 429, 500] (\<lambda>auth.
       scd_QueryOperationalIntentReferences L (ap_server A) (ap_errID A) (ap_ctx A)
         \<lparr>rq_ID = '''', rq_Version = '''', rq_Body = jb_area (ap_bodies A) (hr_Body r), rq_Auth = auth\<rparr>)"

definition scdv1_GetOperationalIntentReference :: "externals \<Rightarrow> ('key, 's) scd_api \<Rightarrow> ('s, scd_body body) Handler" where
  "scdv1_GetOperationalIntentReference L A pat r =
     bindE (liftO (path_param pat r 0)) (\<lambda>i.
     serve_operation (ap_errID A) (scdv1_Authorize A r scdv1_GetOperationalIntentReferenceSecurity) [200, 400, 401, 403, 404, 429, 500] (\<lambda>auth.
       scd_GetOperationalIntentReference L (ap_server A) (ap_errID A) (ap_ctx A)
         \<lparr>rq_ID = i, rq_Version = '''', rq_Body = Inr (), rq_Auth = auth\<rparr>))"

definition scdv1_CreateOperationalIntentReference :: "externals \<Rightarrow> ('key, 's) scd_api \<Rightarrow> ('s, scd_body body) Handler" where
  "scdv1_CreateOperationalIntentReference L A pat r =
     bindE (liftO (path_param pat r 0)) (\<lambda>i.
     serve_operation (ap_errID A) (scdv1_Authorize A r scdv1_CreateOperationalIntentReferenceSecurity) [201, 400, 401, 403, 409, 412, 413, 429, 500] (\<lambda>auth.
       scd_CreateOperationalIntentReference L (ap_server A) (ap_errID A) (ap_newID A) (ap_ctx A)
         \<lparr>rq_ID = i, rq_Version = '''', rq_Body = jb_oir (ap_bodies A) (hr_Body r), rq_Auth = auth\<rparr>))"

definition scdv1_UpdateOperationalIntentReference :: "externals \<Rightarrow> ('key, 's) scd_api \<Rightarrow> ('s, scd_body body) Handler" where
  "scdv1_UpdateOperationalIntentReference L A pat r =
     bindE (liftO (path_param pat r 0)) (\<lambda>i.
     bindE (liftO (path_param pat r 1)) (\<lambda>version.
     serve_operation (ap_errID A) (scdv1_Authorize A r scdv1_UpdateOperationalIntentReferenceSecurity) [200, 400, 401, 403, 409, 412, 413, 429, 500] (\<lambda>auth.
       scd_UpdateOperationalIntentReference L (ap_server A) (ap_errID A) (ap_newID A) (ap_ctx A)
         \<lparr>rq_ID = i, rq_Version = version, rq_Body = jb_oir (ap_bodies A) (hr_Body r), rq_Auth = auth\<rparr>)))"

definition scdv1_DeleteOperationalIntentReference :: "externals \<Rightarrow> ('key, 's) scd_api \<Rightarrow> ('s, scd_body body) Handler" where
  "scdv1_DeleteOperationalIntentReference L A pat r =
     bindE (liftO (path_param pat r 0)) (\<lambda>i.
     bindE (liftO (path_param pat r 1)) (\<lambda>version.
     serve_operation (ap_errID A) (scdv1_Authorize A r scdv1_DeleteOperationalIntentReferenceSecurity) [200, 400, 401, 403, 404, 409, 412, 429, 500] (\<lambda>auth.
       scd_DeleteOperationalIntentReference L (ap_server A) (ap_errID A) (ap_ctx A)
         \<lparr>rq_ID = i, rq_Version = version, rq_Body = Inr (), rq_Auth = auth\<rparr>)))"

definition scdv1_QueryConstraintReferences :: "externals \<Rightarrow> ('key, 's) scd_api \<Rightarrow> ('s, scd_body body) Handler" where
  "scdv1_QueryConstraintReferences L A pat r =
     serve_operation (ap_errID A) (scdv1_Authorize A r scdv1_QueryConstraintReferencesSecurity) [200, 400, 401, 403, 413, 429, 500] (\<lambda>auth.
       scd_QueryConstraintReferences L (ap_server A) (ap_errID A) (ap_ctx A)
         \<lparr>rq_ID = '''', rq_Version = '''', rq_Body = jb_area (ap_bodies A) (hr_Body r), rq_Auth = auth\<rparr>)"

definition scdv1_GetConstraintReference :: "externals \<Rightarrow> ('key, 's) scd_api \<Rightarrow> ('s, scd_body body) Handler" where
  "scdv1_GetConstraintReference L A pat r =
     bindE (liftO (path_param pat r 0)) (\<lambda>i.
     serve_operation (ap_errID A) (scdv1_Authorize A r scdv1_GetConstraintReferenceSecurity) [200, 400, 401, 403, 404, 429, 500] (\<lambda>auth.
       scd_GetConstraintReference L (ap_server A) (ap_errID A) (ap_ctx A)
         \<lparr>rq_ID = i, rq_Version = '''', rq_Body = Inr (), rq_Auth = auth\<rparr>))"

definition scdv1_CreateConstraintReference :: "externals \<Rightarrow> ('key, 's) scd_api \<Rightarrow> ('s, scd_body body) Handler" where
  "scdv1_CreateConstraintReference L A pat r =
     bindE (liftO (path_param pat r 0)) (\<lambda>i.
     serve_operation (ap_errID A) (scdv1_Authorize A r scdv1_CreateConstraintReferenceSecurity) [201, 400, 401, 403, 409, 413, 429, 500] (\<lambda>auth.
       scd_CreateConstraintReference L (ap_server A) (ap_errID A) (ap_ctx A)
         \<lparr>rq_ID = i, rq_Version = '''', rq_Body = jb_constraint (ap_bodies A) (hr_Body r), rq_Auth = auth\<rparr>))"

definition scdv1_UpdateConstraintReference :: "externals \<Rightarrow> ('key, 's) scd_api \<Rightarrow> ('s, scd_body body) Handler" where
  "scdv1_UpdateConstraintReference L A pat r =
     bindE (liftO (path_param pat r 0)) (\<lambda>i.
     bindE (liftO (path_param pat r 1)) (\<lambda>version.
     serve_operation (ap_errID A) (scdv1_Authorize A r scdv1_UpdateConstraintReferenceSecurity) [200, 400, 401, 403, 409, 413, 429, 500] (\<lambda>auth.
       scd_UpdateConstraintReference L (ap_server A) (ap_errID A) (ap_ctx A)
         \<lparr>rq_ID = i, rq_Version = version, rq_Body = jb_constraint (ap_bodies A) (hr_Body r), rq_Auth = auth\<rparr>)))"

definition scdv1_DeleteConstraintReference :: "externals \<Rightarrow> ('key, 's) scd_api \<Rightarrow> ('s, scd_body body) Handler" where
  "scdv1_DeleteConstraintReference L A pat r =
     bindE (liftO (path_param pat r 0)) (\<lambda>i.
     bindE (liftO (path_param pat r 1)) (\<lambda>version.
     serve_operation (ap_errID A) (scdv1_Authorize A r scdv1_DeleteConstraintReferenceSecurity) [200, 400, 401, 403, 404, 409, 429, 500] (\<lambda>auth.
       scd_DeleteConstraintReference L (ap_server A) (ap_errID A) (ap_ctx A)
         \<lparr>rq_ID = i, rq_Version = version, rq_Body = Inr (), rq_Auth = auth\<rparr>)))"

definition scdv1_QuerySubscriptions :: "externals \<Rightarrow> ('key, 's) scd_api \<Rightarrow> ('s, scd_body body) Handler" where
  "scdv1_QuerySubscriptions L A pat r =
     serve_operation (ap_errID A) (scdv1_Authorize A r scdv1_QuerySubscriptionsSecurity) [200, 400, 401, 403, 413, 429, 500] (\<lambda>auth.
       scd_QuerySubscriptions L (ap_server A) (ap_errID A) (ap_ctx A)
         \<lparr>rq_ID = '''', rq_Version = '''', rq_Body = jb_area (ap_bodies A) (hr_Body r), rq_Auth = auth\<rparr>)"

definition scdv1_GetSubscription :: "externals \<Rightarrow> ('key, 's) scd_api \<Rightarrow> ('s, scd_body body) Handler" where
  "scdv1_GetSubscription L A pat r =
     bindE (liftO (path_param pat r 0)) (\<lambda>i.
     serve_operation (ap_errID A) (scdv1_Authorize A r scdv1_GetSubscriptionSecurity) [200, 400, 401, 403, 404, 429, 500] (\<lambda>auth.
       scd_GetSubscription L (ap_server A) (ap_errID A) (ap_ctx A)
         \<lparr>rq_ID = i, rq_Version = '''', rq_Body = Inr (), rq_Auth = auth\<rparr>))"

definition scdv1_CreateSubscription :: "externals \<Rightarrow> ('key, 's) scd_api \<Rightarrow> ('s, scd_body body) Handler" where
  "scdv1_CreateSubscription L A pat r =
     bindE (liftO (path_param pat r 0)) (\<lambda>i.
     serve_operation (ap_errID A) (scdv1_Authorize A r scdv1_CreateSubscriptionSecurity) [200, 400, 401, 403, 409, 429, 500] (\<lambda>auth.
       scd_CreateSubscription L (ap_server A) (ap_errID A) (ap_ctx A)
         \<lparr>rq_ID = i, rq_Version = '''', rq_Body = jb_subscription (ap_bodies A) (hr_Body r), rq_Auth = auth\<rparr>))"

definition scdv1_UpdateSubscription :: "externals \<Rightarrow> ('key, 's) scd_api \<Rightarrow> ('s, scd_body body) Handler" where
  "scdv1_UpdateSubscription L A pat r =
     bindE (liftO (path_param pat r 0)) (\<lambda>i.
     bindE (liftO (path_param pat r 1)) (\<lambda>version.
     serve_operation (ap_errID A) (scdv1_Authorize A r scdv1_UpdateSubscriptionSecurity) [200, 400, 401, 403, 409, 429, 500] (\<lambda>auth.
       scd_UpdateSubscription L (ap_server A) (ap_errID A) (ap_ctx A)
         \<lparr>rq_ID = i, rq_Version = version, rq_Body = jb_subscription (ap_bodies A) (hr_Body r), rq_Auth = auth\<rparr>)))"

definition scdv1_DeleteSubscription :: "externals \<Rightarrow> ('key, 's) scd_api \<Rightarrow> ('s, scd_body body) Handler" where
  "scdv1_DeleteSubscription L A pat r =
     bindE (liftO (path_param pat r 0)) (\<lambda>i.
     bindE (liftO (path_param pat r 1)) (\<lambda>version.
     serve_operation (ap_errID A) (scdv1_Authorize A r scdv1_DeleteSubscriptionSecurity) [200, 400, 401, 403, 404, 409, 429, 500] (\<lambda>auth.
       scd_DeleteSubscription L (ap_server A) (ap_errID A) (ap_ctx A)
         \<lparr>rq_ID = i, rq_Version = version, rq_Body = Inr (), rq_Auth = auth\<rparr>)))"

definition scdv1_MakeDssReport :: "externals \<Rightarrow> ('key, 's) scd_api \<Rightarrow> ('s, scd_body body) Handler" where
  "scdv1_MakeDssReport L A pat r =
     serve_operation (ap_errID A) (scdv1_Authorize A r scdv1_MakeDssReportSecurity) [201, 400, 401, 403, 429, 500] (\<lambda>auth.
       scd_MakeDssReport (ap_server A) (ap_errID A) (ap_ctx A)
         \<lparr>rq_ID = '''', rq_Version = '''', rq_Body = jb_report (ap_bodies A) (hr_Body r), rq_Auth = auth\<rparr>)"

definition scdv1_GetUssAvailability :: "externals \<Rightarrow> ('key, 's) scd_api \<Rightarrow> ('s, scd_body body) Handler" where
  "scdv1_GetUssAvailability L A pat r =
     bindE (liftO (path_param pat r 0)) (\<lambda>i.
     serve_operation (ap_errID A) (scdv1_Authorize A r scdv1_GetUssAvailabilitySecurity) [200, 400, 401, 403, 429, 500] (\<lambda>auth.
       scd_GetUssAvailability L (ap_server A) (ap_errID A) (ap_ctx A)
         \<lparr>rq_ID = i, rq_Version = '''', rq_Body = Inr (), rq_Auth = auth\<rparr>))"

definition scdv1_SetUssAvailability :: "externals \<Rightarrow> ('key, 's) scd_api \<Rightarrow> ('s, scd_body body) Handler" where
  "scdv1_SetUssAvailability L A pat r =
     bindE (liftO (path_param pat r 0)) (\<lambda>i.
     serve_operation (ap_errID A) (scdv1_Authorize A r scdv1_SetUssAvailabilitySecurity) [200, 400, 401, 403, 409, 429, 500] (\<lambda>auth.
       scd_SetUssAvailability L (ap_server A) (ap_errID A) (ap_ctx A)
         \<lparr>rq_ID = i, rq_Version = '''', rq_Body = jb_availability (ap_bodies A) (hr_Body r), rq_Auth = auth\<rparr>))"

section \<open>The routes\<close>

definition scdv1_routes :: "externals \<Rightarrow> ('key, 's) scd_api \<Rightarrow> ('s, scd_body body) Handler Route list" where
  "scdv1_routes L A = [
     \<lparr>rt_Method = ''POST'', rt_Pattern = [Literal ''dss'', Literal ''v1'', Literal ''operational_intent_references'', Literal ''query''],
      rt_Handler = scdv1_QueryOperationalIntentReferences L A, rt_Name = ''scdv1.QueryOperationalIntentReferences''\<rparr>,
     \<lparr>rt_Method = ''GET'', rt_Pattern = [Literal ''dss'', Literal ''v1'', Literal ''operational_intent_references'', Parameter],
      rt_Handler = scdv1_GetOperationalIntentReference L A, rt_Name = ''scdv1.GetOperationalIntentReference''\<rparr>,
     \<lparr>rt_Method = ''PUT'', rt_Pattern = [Literal ''dss'', Literal ''v1'', Literal ''operational_intent_references'', Parameter],
      rt_Handler = scdv1_CreateOperationalIntentReference L A, rt_Name = ''scdv1.CreateOperationalIntentReference''\<rparr>,
     \<lparr>rt_Method = ''PUT'', rt_Pattern = [Literal ''dss'', Literal ''v1'', Literal ''operational_intent_references'', Parameter, Parameter],
      rt_Handler = scdv1_UpdateOperationalIntentReference L A, rt_Name = ''scdv1.UpdateOperationalIntentReference''\<rparr>,
     \<lparr>rt_Method = ''DELETE'', rt_Pattern = [Literal ''dss'', Literal ''v1'', Literal ''operational_intent_references'', Parameter, Parameter],
      rt_Handler = scdv1_DeleteOperationalIntentReference L A, rt_Name = ''scdv1.DeleteOperationalIntentReference''\<rparr>,
     \<lparr>rt_Method = ''POST'', rt_Pattern = [Literal ''dss'', Literal ''v1'', Literal ''constraint_references'', Literal ''query''],
      rt_Handler = scdv1_QueryConstraintReferences L A, rt_Name = ''scdv1.QueryConstraintReferences''\<rparr>,
     \<lparr>rt_Method = ''GET'', rt_Pattern = [Literal ''dss'', Literal ''v1'', Literal ''constraint_references'', Parameter],
      rt_Handler = scdv1_GetConstraintReference L A, rt_Name = ''scdv1.GetConstraintReference''\<rparr>,
     \<lparr>rt_Method = ''PUT'', rt_Pattern = [Literal ''dss'', Literal ''v1'', Literal ''constraint_references'', Parameter],
      rt_Handler = scdv1_CreateConstraintReference L A, rt_Name = ''scdv1.CreateConstraintReference''\<rparr>,
     \<lparr>rt_Method = ''PUT'', rt_Pattern = [Literal ''dss'', Literal ''v1'', Literal ''constraint_references'', Parameter, Parameter],
      rt_Handler = scdv1_UpdateConstraintReference L A, rt_Name = ''scdv1.UpdateConstraintReference''\<rparr>,
     \<lparr>rt_Method = ''DELETE'', rt_Pattern = [Literal ''dss'', Literal ''v1'', Literal ''constraint_references'', Parameter, Parameter],
      rt_Handler = scdv1_DeleteConstraintReference L A, rt_Name = ''scdv1.DeleteConstraintReference''\<rparr>,
     \<lparr>rt_Method = ''POST'', rt_Pattern = [Literal ''dss'', Literal ''v1'', Literal ''subscriptions'', Literal ''query''],
      rt_Handler = scdv1_QuerySubscriptions L A, rt_Name = ''scdv1.QuerySubscriptions''\<rparr>,
     \<lparr>rt_Method = ''GET'', rt_Pattern = [Literal ''dss'', Literal ''v1'', Literal ''subscriptions'', Parameter],
      rt_Handler = scdv1_GetSubscription L A, rt_Name = ''scdv1.GetSubscription''\<rparr>,
     \<lparr>rt_Method = ''PUT'', rt_Pattern = [Literal ''dss'', Literal ''v1'', Literal ''subscriptions'', Parameter],
      rt_Handler = scdv1_CreateSubscription L A, rt_Name = ''scdv1.CreateSubscription''\<rparr>,
     \<lparr>rt_Method = ''PUT'', rt_Pattern = [Literal ''dss'', Literal ''v1'', Literal ''subscriptions'', Parameter, Parameter],
      rt_Handler = scdv1_UpdateSubscription L A, rt_Name = ''scdv1.UpdateSubscription''\<rparr>,
     \<lparr>rt_Method = ''DELETE'', rt_Pattern = [Literal ''dss'', Literal ''v1'', Literal ''subscriptions'', Parameter, Parameter],
      rt_Handler = scdv1_DeleteSubscription L A, rt_Name = ''scdv1.DeleteSubscription''\<rparr>,
     \<lparr>rt_Method = ''POST'', rt_Pattern = [Literal ''dss'', Literal ''v1'', Literal ''reports''],
      rt_Handler = scdv1_MakeDssReport L A, rt_Name = ''scdv1.MakeDssReport''\<rparr>,
     \<lparr>rt_Method = ''GET'', rt_Pattern = [Literal ''dss'', Literal ''v1'', Literal ''uss_availability'', Parameter],
      rt_Handler = scdv1_GetUssAvailability L A, rt_Name = ''scdv1.GetUssAvailability''\<rparr>,
     \<lparr>rt_Method = ''PUT'', rt_Pattern = [Literal ''dss'', Literal ''v1'', Literal ''uss_availability'', Parameter],
      rt_Handler = scdv1_SetUssAvailability L A, rt_Name = ''scdv1.SetUssAvailability''\<rparr>]"

section \<open>Every route is reached\<close>

lemma scdv1_unambiguous: "unambiguous (scdv1_routes L A)"
  by (simp add: scdv1_routes_def simple_pattern_def no_slash_def)

section \<open>Only authorized clients change the store\<close>

abbreviation scd_guarded ::
    "(ctx \<Rightarrow> scd_request \<Rightarrow> (scd_state, scd_response) op) \<Rightarrow> ('s \<Rightarrow> scd_state) \<Rightarrow> ('key, 's) scd_api \<Rightarrow> http_request \<Rightarrow> string \<Rightarrow>
     AuthorizationOption list \<Rightarrow> ('s, nat \<times> scd_body body) op \<Rightarrow> bool" where
  "scd_guarded X cur A r opid opts \<equiv> guarded (\<lambda>auth. scd_legit X opid auth (ap_ctx A)) cur (scdv1_Authorize A r opts)"

lemma scdv1_securities_not_Nil:
  "scdv1_QueryOperationalIntentReferencesSecurity \<noteq> []"
  "scdv1_GetOperationalIntentReferenceSecurity \<noteq> []"
  "scdv1_CreateOperationalIntentReferenceSecurity \<noteq> []"
  "scdv1_UpdateOperationalIntentReferenceSecurity \<noteq> []"
  "scdv1_DeleteOperationalIntentReferenceSecurity \<noteq> []"
  "scdv1_QueryConstraintReferencesSecurity \<noteq> []"
  "scdv1_GetConstraintReferenceSecurity \<noteq> []"
  "scdv1_CreateConstraintReferenceSecurity \<noteq> []"
  "scdv1_UpdateConstraintReferenceSecurity \<noteq> []"
  "scdv1_DeleteConstraintReferenceSecurity \<noteq> []"
  "scdv1_QuerySubscriptionsSecurity \<noteq> []"
  "scdv1_GetSubscriptionSecurity \<noteq> []"
  "scdv1_CreateSubscriptionSecurity \<noteq> []"
  "scdv1_UpdateSubscriptionSecurity \<noteq> []"
  "scdv1_DeleteSubscriptionSecurity \<noteq> []"
  "scdv1_MakeDssReportSecurity \<noteq> []"
  "scdv1_GetUssAvailabilitySecurity \<noteq> []"
  "scdv1_SetUssAvailabilitySecurity \<noteq> []"
  by (simp_all add: scdv1_QueryOperationalIntentReferencesSecurity_def scdv1_GetOperationalIntentReferenceSecurity_def scdv1_CreateOperationalIntentReferenceSecurity_def scdv1_UpdateOperationalIntentReferenceSecurity_def scdv1_DeleteOperationalIntentReferenceSecurity_def scdv1_QueryConstraintReferencesSecurity_def scdv1_GetConstraintReferenceSecurity_def scdv1_CreateConstraintReferenceSecurity_def scdv1_UpdateConstraintReferenceSecurity_def scdv1_DeleteConstraintReferenceSecurity_def scdv1_QuerySubscriptionsSecurity_def scdv1_GetSubscriptionSecurity_def scdv1_CreateSubscriptionSecurity_def scdv1_UpdateSubscriptionSecurity_def scdv1_DeleteSubscriptionSecurity_def scdv1_MakeDssReportSecurity_def scdv1_GetUssAvailabilitySecurity_def scdv1_SetUssAvailabilitySecurity_def)

lemma accounts_auth:
  "accounts (scd_legit X opid (rq_Auth req) ctx) cur m \<Longrightarrow> rq_Auth req = auth \<Longrightarrow> accounts (scd_legit X opid auth ctx) cur m"
  by simp

context scd_service
begin

lemmas served = all_account [THEN accounts_auth]

lemma methods_guarded:
  assumes "\<forall>q. proper q" "ap_server A = sv"
  shows "scd_guarded execute current A r ''scdv1.QueryOperationalIntentReferences'' scdv1_QueryOperationalIntentReferencesSecurity (scdv1_QueryOperationalIntentReferences L A pat r)"
    and "scd_guarded execute current A r ''scdv1.GetOperationalIntentReference'' scdv1_GetOperationalIntentReferenceSecurity (scdv1_GetOperationalIntentReference L A pat r)"
    and "scd_guarded execute current A r ''scdv1.CreateOperationalIntentReference'' scdv1_CreateOperationalIntentReferenceSecurity (scdv1_CreateOperationalIntentReference L A pat r)"
    and "scd_guarded execute current A r ''scdv1.UpdateOperationalIntentReference'' scdv1_UpdateOperationalIntentReferenceSecurity (scdv1_UpdateOperationalIntentReference L A pat r)"
    and "scd_guarded execute current A r ''scdv1.DeleteOperationalIntentReference'' scdv1_DeleteOperationalIntentReferenceSecurity (scdv1_DeleteOperationalIntentReference L A pat r)"
    and "scd_guarded execute current A r ''scdv1.QueryConstraintReferences'' scdv1_QueryConstraintReferencesSecurity (scdv1_QueryConstraintReferences L A pat r)"
    and "scd_guarded execute current A r ''scdv1.GetConstraintReference'' scdv1_GetConstraintReferenceSecurity (scdv1_GetConstraintReference L A pat r)"
    and "scd_guarded execute current A r ''scdv1.CreateConstraintReference'' scdv1_CreateConstraintReferenceSecurity (scdv1_CreateConstraintReference L A pat r)"
    and "scd_guarded execute current A r ''scdv1.UpdateConstraintReference'' scdv1_UpdateConstraintReferenceSecurity (scdv1_UpdateConstraintReference L A pat r)"
    and "scd_guarded execute current A r ''scdv1.DeleteConstraintReference'' scdv1_DeleteConstraintReferenceSecurity (scdv1_DeleteConstraintReference L A pat r)"
    and "scd_guarded execute current A r ''scdv1.QuerySubscriptions'' scdv1_QuerySubscriptionsSecurity (scdv1_QuerySubscriptions L A pat r)"
    and "scd_guarded execute current A r ''scdv1.GetSubscription'' scdv1_GetSubscriptionSecurity (scdv1_GetSubscription L A pat r)"
    and "scd_guarded execute current A r ''scdv1.CreateSubscription'' scdv1_CreateSubscriptionSecurity (scdv1_CreateSubscription L A pat r)"
    and "scd_guarded execute current A r ''scdv1.UpdateSubscription'' scdv1_UpdateSubscriptionSecurity (scdv1_UpdateSubscription L A pat r)"
    and "scd_guarded execute current A r ''scdv1.DeleteSubscription'' scdv1_DeleteSubscriptionSecurity (scdv1_DeleteSubscription L A pat r)"
    and "scd_guarded execute current A r ''scdv1.MakeDssReport'' scdv1_MakeDssReportSecurity (scdv1_MakeDssReport L A pat r)"
    and "scd_guarded execute current A r ''scdv1.GetUssAvailability'' scdv1_GetUssAvailabilitySecurity (scdv1_GetUssAvailability L A pat r)"
    and "scd_guarded execute current A r ''scdv1.SetUssAvailability'' scdv1_SetUssAvailabilitySecurity (scdv1_SetUssAvailability L A pat r)"
  using assms(1)
  unfolding assms(2) scdv1_QueryOperationalIntentReferences_def
    scdv1_GetOperationalIntentReference_def
    scdv1_CreateOperationalIntentReference_def
    scdv1_UpdateOperationalIntentReference_def
    scdv1_DeleteOperationalIntentReference_def
    scdv1_QueryConstraintReferences_def
    scdv1_GetConstraintReference_def
    scdv1_CreateConstraintReference_def
    scdv1_UpdateConstraintReference_def
    scdv1_DeleteConstraintReference_def
    scdv1_QuerySubscriptions_def
    scdv1_GetSubscription_def
    scdv1_CreateSubscription_def
    scdv1_UpdateSubscription_def
    scdv1_DeleteSubscription_def
    scdv1_MakeDssReport_def
    scdv1_GetUssAvailability_def
    scdv1_SetUssAvailability_def
  by - (intro guarded_param guarded_serve served; simp)+

lemma routes_guarded:
  assumes "\<forall>q. proper q" "ap_server A = sv" "rt \<in> set (scdv1_routes L A)"
  shows "\<exists>opts. map_of scdv1_security (rt_Name rt) = Some opts \<and> opts \<noteq> [] \<and>
    scd_guarded execute current A r (rt_Name rt) opts (rt_Handler rt pat r)"
proof -
  have "list_all (\<lambda>rt. \<exists>opts. map_of scdv1_security (rt_Name rt) = Some opts \<and> opts \<noteq> [] \<and>
    scd_guarded execute current A r (rt_Name rt) opts (rt_Handler rt pat r)) (scdv1_routes L A)"
    unfolding scdv1_routes_def scdv1_security_def
    by (simp add: methods_guarded [OF assms(1,2)]  scdv1_securities_not_Nil)
  with assms(3) show ?thesis by (simp add: list_all_iff)
qed

end

section \<open>From the socket to the store\<close>

lemma conflict_changes_nothing:
  assumes "oh_Execute (scd_handler_of L q) ctx q st = (Ok (PutOIRResult_Conflict c), st')"
  shows "st' = st"
proof (cases "oir_of q")
  case None
  with assms show ?thesis
    by (cases q) (auto simp: executeGetUssAvailability_def executeSetUssAvailability_def executeGetConstraint_def
      executePutConstraint_def executeQueryConstraintReferences_def executeDeleteConstraint_def executePutSubscription_def
      executeDeleteSubscription_def executeGetSubscription_def executeQuerySubscriptions_def
      executeGetOperationalIntentReference_def executeQueryOperationalIntentReferences_def
      executeDeleteOperationalIntentReference_def availability_response_def Let_def monad_simps
      split: option.splits if_splits)
next
  case (Some p)
  then have "oh_Execute (scd_handler_of L q) = executePutOperationalIntentReference L" by (cases q) simp_all
  with assms executePut_Ok [of q "fst p" "snd p" L ctx st "PutOIRResult_Conflict c" st'] Some show ?thesis by auto
qed

text \<open>C1: whoever changes the strategic-coordination data has been authorized to. When an HTTP request is
  answered and the store has changed, then the request matches one of the routes; its \<open>Authorization\<close>
  header carries a token that a configured key accepts, with an accepted audience, that has not more
  than an hour to live and holds all scopes of one of the options of that route; and the change is
  exactly one execution of the operation of that route, made in the name of the token's subject. The
  answer is a success, or an internal error when the result did not arrive. In particular a request
  that is answered with any other status has changed nothing.\<close>

theorem scd_http_change_authorized:
  assumes "jwt_validates (ap_jwt A)" and "\<forall>q. scd_proper J q"
    and "ap_server A = scd_raft_server L J d proposalID nodeID report allowHTTP"
    and "router_Handle (scdv1_routes L A) req = Some m" and "m r = (Ok (status, b), r')"
    and "mr_state r' \<noteq> mr_state r"
  shows "\<exists>rt \<in> set (scdv1_routes L A). \<exists>opts. \<exists>k \<in> set (ap_keys A). \<exists>tkn c q resp.
     rt_Method rt = hr_Method req \<and> MatchString (rt_Pattern rt) (hr_Path req) \<and>
     map_of scdv1_security (rt_Name rt) = Some opts \<and>
     getToken (hr_Authorization req) = Some tkn \<and> jwt_ParseWithClaims (ap_jwt A) (ap_now A) k tkn = Ok c \<and>
     (\<exists>a \<in> set (ap_audiences A). jwt_VerifyAudience (ap_jwt A) (cl_Audience c) a True) \<and>
     (\<exists>t. cl_ExpiresAt c = Some t \<and> t \<le> ap_now A + Hour) \<and>
     (\<exists>o1 \<in> set opts. \<forall>(scheme, scopes) \<in> set o1. set scopes \<subseteq> set (cl_Scopes c)) \<and>
     scd_OperationID q = rt_Name rt \<and> client_of q \<in> {None, Some (cl_Subject c)} \<and>
     oh_Execute (scd_handler_of L q) (ap_ctx A) q (mr_state r) = (Ok resp, mr_state r') \<and>
     status \<in> {200, 201, 500}"
proof -
  from router_Handle_Some [OF assms(4)] obtain rt where rt: "rt \<in> set (scdv1_routes L A)" "rt_Method rt = hr_Method req"
      "MatchString (rt_Pattern rt) (hr_Path req)" "m = rt_Handler rt (rt_Pattern rt) req" by blast
  from scd_srv.routes_guarded [OF assms(2,3) rt(1), of req "rt_Pattern rt"] obtain opts where
    o: "map_of scdv1_security (rt_Name rt) = Some opts" "opts \<noteq> []"
      "scd_guarded (\<lambda>ctx req. oh_Execute (scd_handler_of L req) ctx req) mr_state A req (rt_Name rt) opts m"
    unfolding rt(4) by blast
  from o(3) assms(5,6) obtain auth n where
    auth: "scdv1_Authorize A req opts = Ok auth" "au_Error auth = None"
      "scd_legit (\<lambda>ctx req. oh_Execute (scd_handler_of L req) ctx req) (rt_Name rt) auth (ap_ctx A) (mr_state r) (mr_state r') n"
      "status \<in> {n, 500}"
    unfolding guarded_def by blast
  then obtain q resp where q: "scdv1_Authorize A req opts = Ok auth" "au_Error auth = None"
      "scd_OperationID q = rt_Name rt" "client_of q \<in> {None, au_ClientID auth}"
      "oh_Execute (scd_handler_of L q) (ap_ctx A) q (mr_state r) = (Ok resp, mr_state r')"
      "status \<in> {200, 201, 500} \<or> (\<exists>c. resp = PutOIRResult_Conflict c)"
    unfolding scd_legit_def by blast
  have "status \<in> {200, 201, 500}" using q(5,6) conflict_changes_nothing assms(6) by metis
  with Authorize_grants [OF assms(1) q(1) [unfolded scdv1_Authorize_def] q(2)] q rt o(1,2) show ?thesis by fastforce
qed

text \<open>C14: the routes are exact. A request whose method is that of a route and whose path is made from the
  route's pattern with any parameters (which have no slash) is handled by that route, with those
  parameters, whatever the order of the routes; and a request that is handled by none has no such
  method and path.\<close>

theorem scd_routes_exact:
  assumes "rt \<in> set (scdv1_routes L A)" and "fits (rt_Pattern rt) params"
    and "hr_Method r = rt_Method rt" and "hr_Path r = make_path (rt_Pattern rt) params"
  shows "router_Handle (scdv1_routes L A) r = Some (rt_Handler rt (rt_Pattern rt) r) \<and>
         (\<forall>i < length params. path_param (rt_Pattern rt) r i = Ok (params ! i)) \<and>
         (router_Handle (scdv1_routes L A) r' = None \<longleftrightarrow>
            (\<forall>rt' \<in> set (scdv1_routes L A). \<forall>params'. fits (rt_Pattern rt') params' \<longrightarrow>
               hr_Method r' = rt_Method rt' \<longrightarrow> hr_Path r' \<noteq> make_path (rt_Pattern rt') params'))"
proof -
  have "MatchString (rt_Pattern rt') path \<longleftrightarrow> (\<exists>params. fits (rt_Pattern rt') params \<and> path = make_path (rt_Pattern rt') params)"
    if "rt' \<in> set (scdv1_routes L A)" for rt' path
    using FindStringSubmatch_iff [OF unambiguous_simple [OF scdv1_unambiguous that]]
    by (metis MatchString_def option.collapse option.discI)
  then show ?thesis
    using router_Handle_exact [OF scdv1_unambiguous assms(1,3,4,2)]
    by (auto simp: router_Handle_None)
qed

section \<open>Responses are those of the operation\<close>

text \<open>The fields of the response sets of the operations.\<close>

definition scdv1_ResponseSets :: "(string, nat list) gomap" where
  "scdv1_ResponseSets = [
     (''scdv1.QueryOperationalIntentReferences'', [200, 400, 401, 403, 413, 429, 500]),
     (''scdv1.GetOperationalIntentReference'', [200, 400, 401, 403, 404, 429, 500]),
     (''scdv1.CreateOperationalIntentReference'', [201, 400, 401, 403, 409, 412, 413, 429, 500]),
     (''scdv1.UpdateOperationalIntentReference'', [200, 400, 401, 403, 409, 412, 413, 429, 500]),
     (''scdv1.DeleteOperationalIntentReference'', [200, 400, 401, 403, 404, 409, 412, 429, 500]),
     (''scdv1.QueryConstraintReferences'', [200, 400, 401, 403, 413, 429, 500]),
     (''scdv1.GetConstraintReference'', [200, 400, 401, 403, 404, 429, 500]),
     (''scdv1.CreateConstraintReference'', [201, 400, 401, 403, 409, 413, 429, 500]),
     (''scdv1.UpdateConstraintReference'', [200, 400, 401, 403, 409, 413, 429, 500]),
     (''scdv1.DeleteConstraintReference'', [200, 400, 401, 403, 404, 409, 429, 500]),
     (''scdv1.QuerySubscriptions'', [200, 400, 401, 403, 413, 429, 500]),
     (''scdv1.GetSubscription'', [200, 400, 401, 403, 404, 429, 500]),
     (''scdv1.CreateSubscription'', [200, 400, 401, 403, 409, 429, 500]),
     (''scdv1.UpdateSubscription'', [200, 400, 401, 403, 409, 429, 500]),
     (''scdv1.DeleteSubscription'', [200, 400, 401, 403, 404, 409, 429, 500]),
     (''scdv1.MakeDssReport'', [201, 400, 401, 403, 429, 500]),
     (''scdv1.GetUssAvailability'', [200, 400, 401, 403, 429, 500]),
     (''scdv1.SetUssAvailability'', [200, 400, 401, 403, 409, 429, 500])]"

lemma scd_responds:
  "400 \<in> set S \<Longrightarrow> responds S (invalid_ID errID i e)" "n \<in> set S \<Longrightarrow> responds S (ok_response n x)"
  "{400, 403} \<subseteq> set S \<Longrightarrow> responds S (oir_payload_error errID e)"
  by (auto simp: invalid_ID_def ok_response_def oir_payload_error_def intro!: responds_single)

lemma responds_oir:
  "{400, 403, 409, 412, 500} \<subseteq> set S \<Longrightarrow> responds S (oir_error errID e)"
  "{n, 409} \<subseteq> set S \<Longrightarrow> responds S (oir_result n x)"
  by (auto simp: oir_error_def oir_result_def scd_responds split: scd_response.splits
      intro!: responds_by_code responds_single)

lemma responds_availability: "200 \<in> set S \<Longrightarrow> responds S (unknown_availability i)"
  by (simp add: unknown_availability_def scd_responds)

lemma responses_check_area:
  "400 \<in> set S \<Longrightarrow> (\<And>a. responses S (k a)) \<Longrightarrow> responses S (check_area L errID req k)"
  unfolding check_area_def
  by (intro responses_check_body responses_option responses_check responses_ret responds_single)

lemmas scd_responses_intros = responses_check_area responses_intros scd_responds responds_oir responds_availability

lemma methods_answer:
  "answers_from [200, 400, 401, 403, 413, 429, 500] (scdv1_QueryOperationalIntentReferences L A pat r)"
  "answers_from [200, 400, 401, 403, 404, 429, 500] (scdv1_GetOperationalIntentReference L A pat r)"
  "answers_from [201, 400, 401, 403, 409, 412, 413, 429, 500] (scdv1_CreateOperationalIntentReference L A pat r)"
  "answers_from [200, 400, 401, 403, 409, 412, 413, 429, 500] (scdv1_UpdateOperationalIntentReference L A pat r)"
  "answers_from [200, 400, 401, 403, 404, 409, 412, 429, 500] (scdv1_DeleteOperationalIntentReference L A pat r)"
  "answers_from [200, 400, 401, 403, 413, 429, 500] (scdv1_QueryConstraintReferences L A pat r)"
  "answers_from [200, 400, 401, 403, 404, 429, 500] (scdv1_GetConstraintReference L A pat r)"
  "answers_from [201, 400, 401, 403, 409, 413, 429, 500] (scdv1_CreateConstraintReference L A pat r)"
  "answers_from [200, 400, 401, 403, 409, 413, 429, 500] (scdv1_UpdateConstraintReference L A pat r)"
  "answers_from [200, 400, 401, 403, 404, 409, 429, 500] (scdv1_DeleteConstraintReference L A pat r)"
  "answers_from [200, 400, 401, 403, 413, 429, 500] (scdv1_QuerySubscriptions L A pat r)"
  "answers_from [200, 400, 401, 403, 404, 429, 500] (scdv1_GetSubscription L A pat r)"
  "answers_from [200, 400, 401, 403, 409, 429, 500] (scdv1_CreateSubscription L A pat r)"
  "answers_from [200, 400, 401, 403, 409, 429, 500] (scdv1_UpdateSubscription L A pat r)"
  "answers_from [200, 400, 401, 403, 404, 409, 429, 500] (scdv1_DeleteSubscription L A pat r)"
  "answers_from [201, 400, 401, 403, 429, 500] (scdv1_MakeDssReport L A pat r)"
  "answers_from [200, 400, 401, 403, 429, 500] (scdv1_GetUssAvailability L A pat r)"
  "answers_from [200, 400, 401, 403, 409, 429, 500] (scdv1_SetUssAvailability L A pat r)"
  unfolding scdv1_QueryOperationalIntentReferences_def scd_QueryOperationalIntentReferences_def
    scdv1_GetOperationalIntentReference_def scd_GetOperationalIntentReference_def
    scdv1_CreateOperationalIntentReference_def scd_CreateOperationalIntentReference_def
    scdv1_UpdateOperationalIntentReference_def scd_UpdateOperationalIntentReference_def
    scdv1_DeleteOperationalIntentReference_def scd_DeleteOperationalIntentReference_def
    scdv1_QueryConstraintReferences_def scd_QueryConstraintReferences_def
    scdv1_GetConstraintReference_def scd_GetConstraintReference_def
    scdv1_CreateConstraintReference_def scd_CreateConstraintReference_def
    scdv1_UpdateConstraintReference_def scd_UpdateConstraintReference_def
    scdv1_DeleteConstraintReference_def scd_DeleteConstraintReference_def
    scdv1_QuerySubscriptions_def scd_QuerySubscriptions_def
    scdv1_GetSubscription_def scd_GetSubscription_def
    scdv1_CreateSubscription_def scd_CreateSubscription_def
    scdv1_UpdateSubscription_def scd_UpdateSubscription_def
    scdv1_DeleteSubscription_def scd_DeleteSubscription_def
    scdv1_MakeDssReport_def scd_MakeDssReport_def
    scdv1_GetUssAvailability_def scd_GetUssAvailability_def
    scdv1_SetUssAvailability_def scd_SetUssAvailability_def Let_def split_def
  by (intro answers_param answers_serve scd_responses_intros; simp)+

text \<open>C13: every answer of the API is one that its operation may give. The status is a field of the
  operation's response set, and the body is the one that the handler or the authorizer set: the
  fallback of the generated router, \<open>Handler implementation did not set a response\<close>, is never sent.\<close>

theorem scd_answers_typed:
  assumes "rt \<in> set (scdv1_routes L A)" and "rt_Handler rt pat r st = (Ok (status, b), st')"
  shows "\<exists>S. map_of scdv1_ResponseSets (rt_Name rt) = Some S \<and> status \<in> set S \<and> b \<noteq> not_set"
proof -
  have "list_all (\<lambda>rt. \<exists>S. map_of scdv1_ResponseSets (rt_Name rt) = Some S \<and> answers_from S (rt_Handler rt pat r))
      (scdv1_routes L A)"
    unfolding scdv1_routes_def scdv1_ResponseSets_def by (simp add: methods_answer)
  with assms show ?thesis by (fastforce simp: list_all_iff answers_from_def)
qed

section \<open>Statuses that are never sent\<close>

lemma methods_answer_less:
  "answers_from [200, 400, 401, 403, 500] (scdv1_QueryOperationalIntentReferences L A pat r)"
  "answers_from [200, 400, 401, 403, 404, 500] (scdv1_GetOperationalIntentReference L A pat r)"
  "answers_from [201, 400, 401, 403, 409, 412, 500] (scdv1_CreateOperationalIntentReference L A pat r)"
  "answers_from [200, 400, 401, 403, 409, 412, 500] (scdv1_UpdateOperationalIntentReference L A pat r)"
  "answers_from [200, 400, 401, 403, 404, 409, 412, 500] (scdv1_DeleteOperationalIntentReference L A pat r)"
  "answers_from [200, 400, 401, 403, 500] (scdv1_QueryConstraintReferences L A pat r)"
  "answers_from [200, 400, 401, 403, 404, 500] (scdv1_GetConstraintReference L A pat r)"
  "answers_from [201, 400, 401, 403, 409, 500] (scdv1_CreateConstraintReference L A pat r)"
  "answers_from [200, 400, 401, 403, 409, 500] (scdv1_UpdateConstraintReference L A pat r)"
  "answers_from [200, 400, 401, 403, 404, 409, 500] (scdv1_DeleteConstraintReference L A pat r)"
  "answers_from [200, 400, 401, 403, 404, 500] (scdv1_GetSubscription L A pat r)"
  "answers_from [200, 400, 401, 403, 409, 500] (scdv1_CreateSubscription L A pat r)"
  "answers_from [200, 400, 401, 403, 409, 500] (scdv1_UpdateSubscription L A pat r)"
  "answers_from [200, 400, 401, 403, 404, 409, 500] (scdv1_DeleteSubscription L A pat r)"
  "answers_from [201, 400, 401, 403, 500] (scdv1_MakeDssReport L A pat r)"
  "answers_from [200, 400, 401, 403, 500] (scdv1_GetUssAvailability L A pat r)"
  "answers_from [200, 400, 401, 403, 409, 500] (scdv1_SetUssAvailability L A pat r)"
  unfolding scdv1_QueryOperationalIntentReferences_def scd_QueryOperationalIntentReferences_def
    scdv1_GetOperationalIntentReference_def scd_GetOperationalIntentReference_def
    scdv1_CreateOperationalIntentReference_def scd_CreateOperationalIntentReference_def
    scdv1_UpdateOperationalIntentReference_def scd_UpdateOperationalIntentReference_def
    scdv1_DeleteOperationalIntentReference_def scd_DeleteOperationalIntentReference_def
    scdv1_QueryConstraintReferences_def scd_QueryConstraintReferences_def
    scdv1_GetConstraintReference_def scd_GetConstraintReference_def
    scdv1_CreateConstraintReference_def scd_CreateConstraintReference_def
    scdv1_UpdateConstraintReference_def scd_UpdateConstraintReference_def
    scdv1_DeleteConstraintReference_def scd_DeleteConstraintReference_def
    scdv1_GetSubscription_def scd_GetSubscription_def
    scdv1_CreateSubscription_def scd_CreateSubscription_def
    scdv1_UpdateSubscription_def scd_UpdateSubscription_def
    scdv1_DeleteSubscription_def scd_DeleteSubscription_def
    scdv1_MakeDssReport_def scd_MakeDssReport_def
    scdv1_GetUssAvailability_def scd_GetUssAvailability_def
    scdv1_SetUssAvailability_def scd_SetUssAvailability_def Let_def split_def
  by (intro answers_param answers_serve scd_responses_intros; simp)+

text \<open>The only handler with a case for \<open>AreaTooLarge\<close> is the query for subscriptions, and its operation
  has no such error: a failed conversion of the area is a bad request.\<close>

lemma query_subscriptions_loop_no_error: "query_subscriptions_loop L now c subs st \<noteq> (Err e, t)"
proof (induction subs arbitrary: t)
  case (Cons sub subs)
  then show ?case by (auto simp: monad_simps deref_def split: option.splits if_splits)
qed simp

lemma executeQuerySubscriptions_code:
  assumes "fst (executeQuerySubscriptions L ctx (QuerySubscriptionsRequest aoi c) st) = Err e"
  shows "GetCode e \<noteq> Some AreaTooLarge"
proof -
  obtain t where "executeQuerySubscriptions L ctx (QuerySubscriptionsRequest aoi c) st = (Err e, t)"
    using assms by (metis prod.collapse)
  then show ?thesis
    by (auto simp: executeQuerySubscriptions_def SearchSubscriptions_def MustFromContext_def monad_simps
        query_subscriptions_loop_no_error split: option.splits if_splits)
qed

lemma QuerySubscriptions_responses:
  assumes "\<forall>q. scd_proper J q"
  shows "responses [200, 400, 401, 403, 500]
    (scd_QuerySubscriptions L (scd_raft_server L J d pid nid report allow) errID ctx req)"
proof -
  let ?t = "[(BadRequest, 400), (PermissionDenied, 403), (AreaTooLarge, 413)] :: (error_code \<times> nat) list"
  have "responses [200, 400, 401, 403, 500]
     (respond (scd_TransactWithResult (scd_raft_server L J d pid nid report allow) ''QuerySubscriptionsResponse'' ctx
        (QuerySubscriptionsRequest (Some a) c)) (by_code errID ?t) (ok_response 200))" for a c
    unfolding responses_def
  proof (intro allI impI)
    fix r R r'
    assume "respond (scd_TransactWithResult (scd_raft_server L J d pid nid report allow) ''QuerySubscriptionsResponse'' ctx
        (QuerySubscriptionsRequest (Some a) c)) (by_code errID ?t) (ok_response 200) r = (Ok R, r')"
    then have "respond (TransactWithResult (scd_Store_Transact L J d pid nid)
        (\<lambda>y. case y of AnyResponse r \<Rightarrow> if result_type r = ''QuerySubscriptionsResponse'' then Some r else None | _ \<Rightarrow> None) ctx
        (QuerySubscriptionsRequest (Some a) c)) (by_code errID ?t) (ok_response 200) r = (Ok R, r')"
      by (simp add: scd_TransactWithResult_def scd_raft_server_def)
    then show "responds [200, 400, 401, 403, 500] R"
    proof (cases rule: scd_srv.respond_cases [OF assms [THEN spec], consumes 1, case_names success coded doubt])
      case (success resp x)
      then show ?thesis by (simp add: scd_responds)
    next
      case (coded e)
      then have "GetCode e \<noteq> Some AreaTooLarge"
        using executeQuerySubscriptions_code [of L ctx "Some a" c "mr_state r" e] by simp
      with coded(1) show ?thesis by (auto simp: by_code_def responds_single split: option.splits error_code.splits)
    next
      case (doubt e)
      then show ?thesis by (simp add: by_code_None responds_single)
    qed
  qed
  then show ?thesis unfolding scd_QuerySubscriptions_def
    by (intro responses_check_area responses_option responses_missing_client) simp_all
qed

text \<open>The statuses 413 (area too large) and 429 (too many requests) are part of every response set that has
  them in vain. The conversion of an area that is too large is answered with 400, since its error is
  always given the code of a bad request, and no limit on the rate of requests exists.\<close>

lemma scd_never_413_429:
  assumes "\<forall>q. scd_proper J q" and "ap_server A = scd_raft_server L J d proposalID nodeID report allowHTTP"
    and "rt \<in> set (scdv1_routes L A)" and "rt_Handler rt pat r st = (Ok (status, b), st')"
  shows "status \<noteq> 413 \<and> status \<noteq> 429"
proof -
  have q: "answers_from [200, 400, 401, 403, 500] (scdv1_QuerySubscriptions L A pat r)"
    unfolding scdv1_QuerySubscriptions_def assms(2)
    by (rule answers_serve) (simp_all add: QuerySubscriptions_responses [OF assms(1)])
  have I: "\<exists>S. 413 \<notin> set S \<and> 429 \<notin> set S \<and> answers_from S m" if "answers_from S m" "413 \<notin> set S \<and> 429 \<notin> set S"
    for S :: "nat list" and m :: "(scd_repo, nat \<times> scd_body body) op" using that by blast
  have "list_all (\<lambda>rt. \<exists>S. 413 \<notin> set S \<and> 429 \<notin> set S \<and> answers_from S (rt_Handler rt pat r)) (scdv1_routes L A)"
    unfolding scdv1_routes_def list.pred_inject(2) Route.select_convs
    by (intro conjI list.pred_inject(1); rule I, (rule methods_answer_less q), simp)
  with assms(3,4) show ?thesis by (fastforce simp: list_all_iff answers_from_def)
qed

section \<open>A delete from end to end\<close>

text \<open>The answer to a request whose result arrives.\<close>

lemma respond_delivered:
  assumes "js_encode J q = Ok v" "js_decode J (scd_OperationID q) v = Ok q" "ctx = Some ts" "\<not> IsZero ts"
    and e: "oh_Execute (scd_handler_of L q) ctx q (mr_state r) = (x, st')" "x \<noteq> Panic"
    and ty: "\<And>resp. x = Ok resp \<Longrightarrow> result_type resp = ty"
  shows "\<exists>r'. respond (scd_TransactWithResult (scd_raft_server L J Delivered pid nid report allow) ty ctx q) onErr onOk r =
      (Ok (case x of Ok resp \<Rightarrow> onOk resp | Err e \<Rightarrow> onErr e), r') \<and> mr_state r' = (if is_Ok x then st' else mr_state r)"
proof -
  from scd_Store_Transact_delivered [OF assms(1-6), of pid nid] obtain r' where
    r': "scd_Store_Transact L J Delivered pid nid ctx q r = (obind x (\<lambda>resp. Ok (AnyResponse resp)), r')"
      "mr_state r' = (if is_Ok x then st' else mr_state r)" by blast
  then show ?thesis
    using e(2) ty by (cases x) (auto simp: respond_def scd_TransactWithResult_def TransactWithResult_def scd_raft_server_def)
qed

lemma executeDeleteOIR_type:
  "executeDeleteOperationalIntentReference L ctx (DeleteOIRPayload i m ovn) st = (Ok resp, st') \<Longrightarrow>
     result_type resp = ''ChangeOperationalIntentReferenceResponse''"
  by (auto simp: executeDeleteOperationalIntentReference_def Let_def monad_simps split: option.splits if_splits)

text \<open>The status a deletion is answered with.\<close>

definition delete_status :: "OperationalIntent option \<Rightarrow> Manager \<Rightarrow> OVN \<Rightarrow> nat" where
  "delete_status found m ovn =
     (case found of
        None \<Rightarrow> 404
      | Some old \<Rightarrow>
          if oi_Manager old \<noteq> m then 403
          else if oi_OVN old \<noteq> ovn then 409
          else if oi_UssAvailability old = UssAvailabilityStateDown then 412
          else 200)"

text \<open>C12: \<open>DELETE\<close> of an operational intent, from the request line to the store. An authorized request that
  names an ID and an OVN and whose result arrives is answered 404 when there is no such intent, 403
  when it is another client's, 409 when the OVN is not the current one, 412 when the client's USS is
  marked as down, and 200 otherwise. In the last case the intent is gone and no other intent has
  changed; in the others the store is as before.\<close>

theorem scd_http_delete_oir:
  assumes "scd_inv (mr_state r)" and "ap_ctx A = Some now" and "\<not> IsZero now"
    and "ap_server A = scd_raft_server L J Delivered proposalID nodeID report allowHTTP"
    and "hr_Method req = ''DELETE''"
    and "hr_Path req = ''/dss/v1/operational_intent_references/'' @ entityid @ ''/'' @ ovn"
    and "no_slash entityid" and "no_slash ovn" and "ovn \<noteq> ''''" and "IDFromString L entityid = Ok i"
    and "scdv1_Authorize A req scdv1_DeleteOperationalIntentReferenceSecurity = Ok auth"
    and "au_Error auth = None" and "au_ClientID auth = Some m"
    and "js_encode J (DeleteOIRPayload i m ovn) = Ok v"
    and "js_decode J ''scdv1.DeleteOperationalIntentReference'' v = Ok (DeleteOIRPayload i m ovn)"
  shows "\<exists>serve status b r'. router_Handle (scdv1_routes L A) req = Some serve \<and> serve r = (Ok (status, b), r') \<and>
     status = delete_status (find_intent L (mr_state r) i) m ovn \<and>
     (if status = 200 then find_intent L (mr_state r') = (find_intent L (mr_state r))(i := None)
      else mr_state r' = mr_state r)"
proof -
  define pat where "pat = [Literal ''dss'', Literal ''v1'', Literal ''operational_intent_references'', Parameter, Parameter]"
  define rt where "rt = \<lparr>rt_Method = ''DELETE'', rt_Pattern = pat, rt_Handler = scdv1_DeleteOperationalIntentReference L A,
    rt_Name = ''scdv1.DeleteOperationalIntentReference''\<rparr>"
  have rt: "rt \<in> set (scdv1_routes L A)" by (simp add: scdv1_routes_def rt_def pat_def)
  have f: "fits (rt_Pattern rt) [entityid, ovn]" "hr_Path req = make_path (rt_Pattern rt) [entityid, ovn]"
      "hr_Method req = rt_Method rt"
    using assms(5-8) by (simp_all add: rt_def pat_def fits_def make_path_def)
  note route = router_Handle_exact [OF scdv1_unambiguous rt f(3,2,1)]
  let ?q = "DeleteOIRPayload i m ovn" and ?st = "mr_state r"
  obtain x st' where x: "executeDeleteOperationalIntentReference L (Some now) ?q ?st = (x, st')" by fastforce
  note out = executeDeleteOIR_outcome [OF assms(1) x]
  have np: "x \<noteq> Panic" using out by (cases x) auto
  let ?t = "[(PermissionDenied, 403), (NotFound, 404), (VersionMismatch, 409), (PreconditionFailed, 412)] :: (error_code \<times> nat) list"
  from respond_delivered [of J ?q v "Some now" now L r x st' "''ChangeOperationalIntentReferenceResponse''"
      proposalID nodeID report allowHTTP "by_code (ap_errID A) ?t" "ok_response 200"]
  obtain r' where r': "respond (scd_TransactWithResult (ap_server A) ''ChangeOperationalIntentReferenceResponse'' (Some now) ?q)
      (by_code (ap_errID A) ?t) (ok_response 200) r =
      (Ok (case x of Ok resp \<Rightarrow> ok_response 200 resp | Err e \<Rightarrow> by_code (ap_errID A) ?t e), r')"
      "mr_state r' = (if is_Ok x then st' else ?st)"
    using assms x np executeDeleteOIR_type [of L "Some now" i m ovn ?st] by auto
  define R where "R = (case x of Ok resp \<Rightarrow> ok_response 200 resp | Err e \<Rightarrow> by_code (ap_errID A) ?t e)"
  have "\<exists>b. R = [delete_status (find_intent L ?st i) m ovn \<mapsto> b]"
  proof (cases x)
    case (Ok resp)
    with out show ?thesis by (auto simp: R_def ok_response_def delete_status_def)
  next
    case (Err e)
    with out show ?thesis by (auto simp: R_def delete_status_def by_code_Some split: option.splits)
  qed (use np in simp)
  then obtain b where b: "R = [delete_status (find_intent L ?st i) m ovn \<mapsto> b]" by blast
  have in_set: "delete_status (find_intent L ?st i) m ovn \<in> set [200, 400, 401, 403, 404, 409, 412, 429, 500]"
    by (simp add: delete_status_def split: option.splits)
  have "rt_Handler rt (rt_Pattern rt) req r = (Ok (delete_status (find_intent L ?st i) m ovn, b), r')"
    using assms r' route(2) [of 0] route(2) [of 1] write_response_single [OF in_set, of b] b
    by (simp add: rt_def scdv1_DeleteOperationalIntentReference_def serve_operation_def
        scd_DeleteOperationalIntentReference_def check_def Let_def bindE_def R_def [symmetric])
  moreover have "if delete_status (find_intent L ?st i) m ovn = 200
      then find_intent L (mr_state r') = (find_intent L ?st)(i := None) else mr_state r' = ?st"
    using out r'(2) by (cases x) (auto simp: delete_status_def split: option.splits)
  ultimately show ?thesis using route(1) by blast
qed

section \<open>Refusals that are answered as successes\<close>

lemma strings_Contains_iff: "strings_Contains s sub \<longleftrightarrow> (\<exists>a b. s = a @ sub @ b)"
proof (induction s)
  case (Cons c s)
  have "(\<exists>a b. c # s = a @ sub @ b) \<longleftrightarrow> (\<exists>b. c # s = sub @ b) \<or> (\<exists>a b. s = a @ sub @ b)"
    by (metis append_Cons append_Nil list.exhaust list.inject)
  moreover have "(\<exists>b. c # s = sub @ b) \<longleftrightarrow> take (length sub) (c # s) = sub"
    by (metis append_eq_conv_conj append_take_drop_id)
  ultimately show ?case using Cons by simp
qed simp

lemma strings_Contains_inner: "strings_Contains s sub \<Longrightarrow> strings_Contains (a @ s @ b) sub"
  unfolding strings_Contains_iff by (metis append.assoc)

text \<open>C15: a compare-and-set of a USS availability that is refused may be answered with 200. The handler takes
  any error whose text contains \<open>does not exist\<close> for a missing database table, and the text of a
  version mismatch quotes the version that the client sent. So when the client's \<open>old_version\<close> is not
  current and contains the phrase, nothing is stored, and the client is told that the request
  succeeded and that the availability is now \<open>Unknown\<close>.\<close>

theorem scd_set_availability_refusal_200:
  assumes "\<not> IsZero now" and "find_availability L (mr_state r) i = Some u" and "ua_Version u \<noteq> version"
    and "strings_Contains version ''does not exist''" and "i \<noteq> ''''"
    and "UssAvailabilityStateFromString availability = Ok a"
    and "js_encode J (SetUssAvailabilityPayload i a version) = Ok v"
    and "js_decode J ''scdv1.SetUssAvailability'' v = Ok (SetUssAvailabilityPayload i a version)"
  shows "\<exists>r'. scd_SetUssAvailability L (scd_raft_server L J Delivered proposalID nodeID report allowHTTP) errID (Some now)
       \<lparr>rq_ID = i, rq_Version = '''', rq_Body = Inr (availability, version), rq_Auth = auth\<rparr> r =
     (Ok [200 \<mapsto> ResponseBody (ScdResponse (UssAvailabilityStatusResponse
        \<lparr>rua_Uss = i, rua_Availability = UssAvailabilityStateUnknown\<rparr> ''''))], r') \<and> mr_state r' = mr_state r"
proof -
  let ?q = "SetUssAvailabilityPayload i a version"
  let ?e = "NewErrorWithCode VersionMismatch (''USS availability version '' @ version @ '' is not current'')"
  have x: "oh_Execute (scd_handler_of L ?q) (Some now) ?q (mr_state r) = (Err ?e, mr_state r)"
    using assms(2,3)
    by (auto simp: executeSetUssAvailability_def Let_def bindE_def or_nil_def GetUssAvailability_def find_availability_def
        split: option.splits)
  have c: "strings_Contains (RootCause ?e) ''does not exist''"
    by (simp only: dss_error.sel strings_Contains_inner [OF assms(4)])
  let ?onErr = "\<lambda>e. if strings_Contains (RootCause e) ''does not exist'' then unknown_availability i
             else by_code errID [(AlreadyExists, 409), (VersionMismatch, 409)] e"
  from respond_delivered [OF assms(7) _ refl assms(1) x, of "''UssAvailabilityStatusResponse''" proposalID nodeID report allowHTTP
      ?onErr "ok_response 200"] assms(8) c
  obtain r' where r': "respond (scd_TransactWithResult (scd_raft_server L J Delivered proposalID nodeID report allowHTTP)
      ''UssAvailabilityStatusResponse'' (Some now) ?q) ?onErr (ok_response 200) r = (Ok (unknown_availability i), r')"
      "mr_state r' = mr_state r"
    by auto
  have "scd_SetUssAvailability L (scd_raft_server L J Delivered proposalID nodeID report allowHTTP) errID (Some now)
       \<lparr>rq_ID = i, rq_Version = '''', rq_Body = Inr (availability, version), rq_Auth = auth\<rparr> r =
      (Ok (unknown_availability i), r')"
    using assms(5,6) r'(1)
    by (simp add: scd_SetUssAvailability_def check_body_def check_def NewSetUssAvailabilityPayload_def cong: if_cong)
  then show ?thesis using r'(2) by (simp add: unknown_availability_def ok_response_def)
qed

section \<open>Concrete requests\<close>

text \<open>A codec that encodes the requests of a list, by their position, and a service with it.\<close>

definition demo_codec_for :: "scd_request \<Rightarrow> scd_codec" where
  "demo_codec_for q = demo_scd_codec\<lparr>js_encode := (\<lambda>q'. if q' = q then Ok ''q'' else Err (NewError ''json'')),
     js_decode := (\<lambda>_ _. Ok q)\<rparr>"

lemma demo_codec_proper: "\<forall>q'. scd_proper (demo_codec_for q) q'"
  by (simp add: codec_proper_def codec_faithful_def demo_codec_for_def)

lemma demo_codec_for [simp]: "js_encode (demo_codec_for q) q = Ok ''q''" "js_decode (demo_codec_for q) ty v = Ok q"
  by (simp_all add: demo_codec_for_def)

definition demo_api :: "scd_request \<Rightarrow> (nat, scd_repo) scd_api" where
  "demo_api q = \<lparr>ap_jwt = demo_jwt\<lparr>jwt_ParseWithClaims := (\<lambda>now k t. if k = 7 \<and> now = 0
        then Ok (demo_claims\<lparr>cl_Scopes := [UtmStrategicCoordinationScope, UtmAvailabilityArbitrationScope]\<rparr>)
        else Err (NewError ''signature is invalid''))\<rparr>,
     ap_now = 0, ap_keys = [3, 7], ap_audiences = [''dss''],
     ap_bodies = \<lparr>jb_area = (\<lambda>_. Inr None), jb_oir = (\<lambda>_. Inl (NewError ''json'')), jb_constraint = (\<lambda>_. Inl (NewError ''json'')),
       jb_subscription = (\<lambda>_. Inl (NewError ''json'')), jb_availability = (\<lambda>_. Inr (''Normal'', '''')),
       jb_report = (\<lambda>_. Inl (NewError ''json''))\<rparr>,
     ap_server = scd_raft_server demo_externals (demo_codec_for q) Delivered ''p'' 1 (\<lambda>rep. Ok rep) False,
     ap_errID = ''E:1'', ap_newID = ''new'', ap_ctx = Some 7\<rparr>"

definition demo_put_availability :: http_request where
  "demo_put_availability = \<lparr>hr_Method = ''PUT'', hr_Path = ''/dss/v1/uss_availability/uss1'', hr_Query = [],
     hr_Authorization = ''Bearer abc'', hr_Body = ''{}''\<rparr>"

lemma demo_time [simp]: "\<not> IsZero 7"
  by (simp add: IsZero_def zero_time_def)

lemma demo_api_jwt: "jwt_validates (ap_jwt (demo_api q))"
  by (auto simp: jwt_validates_def demo_api_def demo_jwt_def demo_claims_def Claims_Valid_def)

lemma demo_Authorize:
  assumes "hr_Authorization r = ''Bearer abc''"
    and "validateScopes opts [UtmStrategicCoordinationScope, UtmAvailabilityArbitrationScope]"
  shows "scdv1_Authorize (demo_api q) r opts =
    Ok \<lparr>au_ClientID = Some ''uss1'', au_Scopes = [UtmStrategicCoordinationScope, UtmAvailabilityArbitrationScope], au_Error = None\<rparr>"
  using assms
  by (simp add: scdv1_Authorize_def TokenMiddleware_Authorize_def Authorize_def claims_FromContext_def extractClaims_def
      demo_getToken Let_def demo_api_def demo_jwt_def demo_claims_def)

theorem scd_set_availability_refusal_200_witness:
  "\<exists>r'. let i = ''u''; st = empty_scd_state\<lparr>st_Availabilities := [(i, \<lparr>ar_Uss = i, ar_Availability = ''Down'', ar_UpdatedAt = 3\<rparr>)]\<rparr>;
       q = SetUssAvailabilityPayload i UssAvailabilityStateNormal ''v that does not exist''
   in scd_SetUssAvailability demo_externals (ap_server (demo_api q)) ''E'' (Some 7)
       \<lparr>rq_ID = i, rq_Version = '''', rq_Body = Inr (''normal'', ''v that does not exist''),
        rq_Auth = \<lparr>au_ClientID = None, au_Scopes = [], au_Error = None\<rparr>\<rparr> \<lparr>mr_state = st, mr_checkpoint = st\<rparr> =
     (Ok [200 \<mapsto> ResponseBody (ScdResponse (UssAvailabilityStatusResponse
        \<lparr>rua_Uss = i, rua_Availability = UssAvailabilityStateUnknown\<rparr> ''''))], r') \<and> mr_state r' = st"
proof -
  let ?st = "empty_scd_state\<lparr>st_Availabilities := [(''u'', \<lparr>ar_Uss = ''u'', ar_Availability = ''Down'', ar_UpdatedAt = 3\<rparr>)]\<rparr>"
  let ?r = "\<lparr>mr_state = ?st, mr_checkpoint = ?st\<rparr>" and ?v = "''v that does not exist''"
  let ?q = "SetUssAvailabilityPayload ''u'' UssAvailabilityStateNormal ?v"
  obtain u where u: "find_availability demo_externals (mr_state ?r) ''u'' = Some u" "ua_Version u \<noteq> ?v"
  proof (rule that)
    show "find_availability demo_externals (mr_state ?r) ''u'' =
        Some (availabilityRecord_toModel demo_externals \<lparr>ar_Uss = ''u'', ar_Availability = ''Down'', ar_UpdatedAt = 3\<rparr>)"
      by (simp add: find_availability_def)
    show "ua_Version (availabilityRecord_toModel demo_externals \<lparr>ar_Uss = ''u'', ar_Availability = ''Down'', ar_UpdatedAt = 3\<rparr>) \<noteq> ?v"
      by (rule notI, drule arg_cong [where f = length])
        (simp add: availabilityRecord_toModel_def length_NewOVNFromTime demo_sha256_length)
  qed
  have p: "UssAvailabilityStateFromString ''normal'' = Ok UssAvailabilityStateNormal" "strings_Contains ?v ''does not exist''"
    by code_simp+
  from scd_set_availability_refusal_200 [OF demo_time u p(2) _ p(1), where J = "demo_codec_for ?q" and proposalID = "''p''"
      and nodeID = 1 and report = "\<lambda>rep. Ok rep" and allowHTTP = False and errID = "''E''"
      and auth = "\<lparr>au_ClientID = None, au_Scopes = [], au_Error = None\<rparr>"]
  show ?thesis by (auto simp: demo_api_def Let_def)
qed

text \<open>A USS availability that is set for the first time.\<close>

abbreviation demo_set :: scd_request where
  "demo_set \<equiv> SetUssAvailabilityPayload ''uss1'' UssAvailabilityStateNormal ''''"

theorem scd_routes_exact_witness:
  "\<exists>serve. router_Handle (scdv1_routes demo_externals (demo_api demo_set)) demo_put_availability = Some serve"
proof -
  define rt where "rt = \<lparr>rt_Method = ''PUT'', rt_Pattern = [Literal ''dss'', Literal ''v1'', Literal ''uss_availability'', Parameter],
      rt_Handler = scdv1_SetUssAvailability demo_externals (demo_api demo_set), rt_Name = ''scdv1.SetUssAvailability''\<rparr>"
  have "rt \<in> set (scdv1_routes demo_externals (demo_api demo_set))" by (simp add: scdv1_routes_def rt_def)
  from scd_routes_exact [OF this, of "[''uss1'']" demo_put_availability demo_put_availability] show ?thesis
    by (simp add: rt_def demo_put_availability_def fits_def no_slash_def make_path_def)
qed

lemma demo_put_served:
  "\<exists>serve b r'. router_Handle (scdv1_routes demo_externals (demo_api demo_set)) demo_put_availability = Some serve \<and>
     serve scd_newRepo = (Ok (200, b), r') \<and> mr_state r' \<noteq> mr_state scd_newRepo"
proof -
  let ?A = "demo_api demo_set" and ?pat = "[Literal ''dss'', Literal ''v1'', Literal ''uss_availability'', Parameter]"
  define rt where "rt = \<lparr>rt_Method = ''PUT'', rt_Pattern = ?pat,
      rt_Handler = scdv1_SetUssAvailability demo_externals ?A, rt_Name = ''scdv1.SetUssAvailability''\<rparr>"
  have rt: "rt \<in> set (scdv1_routes demo_externals ?A)" by (simp add: scdv1_routes_def rt_def)
  have f: "hr_Method demo_put_availability = rt_Method rt"
      "hr_Path demo_put_availability = make_path (rt_Pattern rt) [''uss1'']" "fits (rt_Pattern rt) [''uss1'']"
    by (simp_all add: rt_def demo_put_availability_def fits_def no_slash_def make_path_def)
  note route = router_Handle_exact [OF scdv1_unambiguous rt f]
  have st: "mr_state scd_newRepo = empty_scd_state" by (simp add: scd_newRepo_def scd_Checkpoint_def)
  obtain resp st' where x: "executeSetUssAvailability demo_externals (Some 7) demo_set empty_scd_state = (Ok resp, st')"
      "result_type resp = ''UssAvailabilityStatusResponse''" "st_Availabilities st' \<noteq> []"
    by (simp add: executeSetUssAvailability_def Let_def bindE_def or_nil_def GetUssAvailability_def OVN_Empty_def
        empty_scd_state_def UpsertUssAvailability_def MustFromContext_def availability_response_def)
  let ?onErr = "\<lambda>e. if strings_Contains (RootCause e) ''does not exist'' then unknown_availability ''uss1''
             else by_code ''E:1'' [(AlreadyExists, 409), (VersionMismatch, 409)] e"
  from respond_delivered [of "demo_codec_for demo_set" demo_set "''q''" "Some 7" 7 demo_externals scd_newRepo "Ok resp" st'
      "''UssAvailabilityStatusResponse''" "''p''" 1 "\<lambda>rep. Ok rep" False ?onErr "ok_response 200"] x st
  obtain r' where r': "respond (scd_TransactWithResult (ap_server ?A) ''UssAvailabilityStatusResponse'' (Some 7) demo_set)
      ?onErr (ok_response 200) scd_newRepo = (Ok (ok_response 200 resp), r')" "mr_state r' = st'"
    by (auto simp: demo_api_def)
  have a: "scdv1_Authorize ?A demo_put_availability scdv1_SetUssAvailabilitySecurity =
    Ok \<lparr>au_ClientID = Some ''uss1'', au_Scopes = [UtmStrategicCoordinationScope, UtmAvailabilityArbitrationScope], au_Error = None\<rparr>"
    by (rule demo_Authorize)
      (simp_all add: demo_put_availability_def validateScopes_def scdv1_SetUssAvailabilitySecurity_def)
  have n: "NewSetUssAvailabilityPayload ''uss1'' ''Normal'' '''' = Ok demo_set" by code_simp
  have s: "ap_bodies ?A = \<lparr>jb_area = (\<lambda>_. Inr None), jb_oir = (\<lambda>_. Inl (NewError ''json'')), jb_constraint = (\<lambda>_. Inl (NewError ''json'')),
       jb_subscription = (\<lambda>_. Inl (NewError ''json'')), jb_availability = (\<lambda>_. Inr (''Normal'', '''')),
       jb_report = (\<lambda>_. Inl (NewError ''json''))\<rparr>" "ap_errID ?A = ''E:1''" "ap_ctx ?A = Some 7"
    by (simp_all add: demo_api_def)
  have "rt_Handler rt (rt_Pattern rt) demo_put_availability scd_newRepo = (Ok (200, ResponseBody (ScdResponse resp)), r')"
    using r' route(2) [of 0] a
    by (simp add: rt_def scdv1_SetUssAvailability_def serve_operation_def scd_SetUssAvailability_def check_body_def check_def
        bindE_def s n ok_response_def cong: if_cong)
  moreover have "mr_state r' \<noteq> mr_state scd_newRepo" using r'(2) x(3) st by (auto simp: empty_scd_state_def)
  ultimately show ?thesis using route(1) by metis
qed

theorem scd_http_change_authorized_witness:
  "\<exists>serve b r'. router_Handle (scdv1_routes demo_externals (demo_api demo_set)) demo_put_availability = Some serve \<and>
     serve scd_newRepo = (Ok (200, b), r') \<and>
     (\<exists>k \<in> set [3, 7]. \<exists>tkn c. getToken ''Bearer abc'' = Some tkn \<and>
        jwt_ParseWithClaims (ap_jwt (demo_api demo_set)) 0 k tkn = Ok c)"
proof -
  obtain serve b r' where s: "router_Handle (scdv1_routes demo_externals (demo_api demo_set)) demo_put_availability = Some serve"
      "serve scd_newRepo = (Ok (200, b), r')" "mr_state r' \<noteq> mr_state scd_newRepo"
    using demo_put_served by blast
  have A: "ap_server (demo_api demo_set) =
      scd_raft_server demo_externals (demo_codec_for demo_set) Delivered ''p'' 1 (\<lambda>rep. Ok rep) False"
    by (simp add: demo_api_def)
  have "hr_Authorization demo_put_availability = ''Bearer abc''" "ap_keys (demo_api demo_set) = [3, 7]" "ap_now (demo_api demo_set) = 0"
    by (simp_all add: demo_put_availability_def demo_api_def)
  with scd_http_change_authorized [OF demo_api_jwt demo_codec_proper A s] s(1,2) show ?thesis by metis
qed

theorem scd_answers_typed_witness:
  "\<exists>serve b r'. router_Handle (scdv1_routes demo_externals (demo_api demo_set)) demo_put_availability = Some serve \<and>
     serve scd_newRepo = (Ok (200, b), r') \<and> b \<noteq> not_set"
proof -
  obtain serve b r' where s: "router_Handle (scdv1_routes demo_externals (demo_api demo_set)) demo_put_availability = Some serve"
      "serve scd_newRepo = (Ok (200, b), r')"
    using demo_put_served by blast
  from router_Handle_Some [OF s(1)] obtain rt where rt: "rt \<in> set (scdv1_routes demo_externals (demo_api demo_set))"
      "serve = rt_Handler rt (rt_Pattern rt) demo_put_availability" by blast
  from scd_answers_typed [OF rt(1), of "rt_Pattern rt" demo_put_availability scd_newRepo 200 b r'] s rt(2) show ?thesis by auto
qed

text \<open>A deletion of an intent that is not there.\<close>

theorem scd_http_delete_oir_witness:
  "let q = DeleteOIRPayload ''00000'' ''uss1'' ''ovn'' in
   \<exists>serve b r'. router_Handle (scdv1_routes demo_externals (demo_api q))
      \<lparr>hr_Method = ''DELETE'', hr_Path = ''/dss/v1/operational_intent_references/other/ovn'', hr_Query = [],
       hr_Authorization = ''Bearer abc'', hr_Body = ''''\<rparr> = Some serve \<and>
     serve \<lparr>mr_state = demo_scd_state, mr_checkpoint = demo_scd_state\<rparr> = (Ok (404, b), r') \<and> mr_state r' = demo_scd_state"
proof -
  let ?q = "DeleteOIRPayload ''00000'' ''uss1'' ''ovn''"
  let ?req = "\<lparr>hr_Method = ''DELETE'', hr_Path = ''/dss/v1/operational_intent_references/other/ovn'', hr_Query = [],
       hr_Authorization = ''Bearer abc'', hr_Body = ''''\<rparr>"
  have "replicate 5 (CHR ''0'') = ''00000''" by (simp add: numeral_eq_Suc)
  then have i: "IDFromString demo_externals ''other'' = Ok ''00000''" by (simp add: IDFromString_def)
  have a: "scdv1_Authorize (demo_api ?q) ?req scdv1_DeleteOperationalIntentReferenceSecurity =
    Ok \<lparr>au_ClientID = Some ''uss1'', au_Scopes = [UtmStrategicCoordinationScope, UtmAvailabilityArbitrationScope], au_Error = None\<rparr>"
    by (rule demo_Authorize) (simp_all add: validateScopes_def scdv1_DeleteOperationalIntentReferenceSecurity_def)
  have f: "find_intent demo_externals demo_scd_state ''00000'' = None" by (simp add: find_intent_def demo_scd_state_def)
  from scd_http_delete_oir [OF _ _ demo_time _ _ _ _ _ _ i a, of "\<lparr>mr_state = demo_scd_state, mr_checkpoint = demo_scd_state\<rparr>"
      "demo_codec_for ?q" "''p''" 1 "\<lambda>rep. Ok rep" False "''ovn''" "''uss1''" "''q''"] f
  show ?thesis by (simp add: demo_scd_inv demo_api_def no_slash_def delete_status_def Let_def)
qed

lemma scd_never_413_429_witness:
  "\<exists>serve b r'. router_Handle (scdv1_routes demo_externals (demo_api demo_set)) demo_put_availability = Some serve \<and>
     serve scd_newRepo = (Ok (200, b), r') \<and> (200 :: nat) \<noteq> 413"
proof -
  obtain serve b r' where s: "router_Handle (scdv1_routes demo_externals (demo_api demo_set)) demo_put_availability = Some serve"
      "serve scd_newRepo = (Ok (200, b), r')"
    using demo_put_served by blast
  from router_Handle_Some [OF s(1)] obtain rt where rt: "rt \<in> set (scdv1_routes demo_externals (demo_api demo_set))"
      "serve = rt_Handler rt (rt_Pattern rt) demo_put_availability" by blast
  have A: "ap_server (demo_api demo_set) =
      scd_raft_server demo_externals (demo_codec_for demo_set) Delivered ''p'' 1 (\<lambda>rep. Ok rep) False"
    by (simp add: demo_api_def)
  from scd_never_413_429 [OF demo_codec_proper A rt(1), of "rt_Pattern rt" demo_put_availability scd_newRepo 200 b r'] s rt(2)
  show ?thesis by blast
qed

end
