(* ===== verification/Raft_Direct.thy ===== *)
theory Raft_Direct
  imports Raft_Store
begin

text \<open>
  The methods of a replicated repository: each marshals its arguments, proposes a direct request
  (\<open>HandleReadRequest\<close> or \<open>HandleWriteRequest\<close> of \<open>src/pkg/raftstore/consensus/consensus.go\<close>) and waits
  for the result. The locale \<open>direct_repo\<close> is the contract between these methods and the repository's
  \<open>Apply\<close>; the theory shows that a client sees an operation of the in-memory store.
\<close>

section \<open>Direct requests\<close>

text \<open>How the consensus module treats a request: what becomes of the wait, the ID it draws for the
  proposal and the ID of the node.\<close>

record consensus_call =
  cc_delivery :: delivery
  cc_newID :: string
  cc_nodeID :: "64 word"

text \<open>The type assertion on the result of a request; a nil result is the zero value of the type.\<close>

definition assert_type :: "string \<Rightarrow> ('a \<Rightarrow> 'x option) \<Rightarrow> 'a \<Rightarrow> ('s, 'x) op" where
  "assert_type requestType assert y =
     (case assert y of
        Some x \<Rightarrow> ret x
      | None \<Rightarrow> fail (NewError (''unexpected result type for '' @ requestType)))"

definition direct_read ::
    "('r, 'd, 'a) RaftRepo \<Rightarrow> consensus_call \<Rightarrow> ctx \<Rightarrow> string \<Rightarrow> string outcome \<Rightarrow> ('a \<Rightarrow> 'x option) \<Rightarrow> ('r, 'x) op" where
  "direct_read repo c ctx requestType payload assert =
     bindE (liftO payload) (\<lambda>buf.
     bindE (HandleReadRequest repo (cc_delivery c) (cc_newID c) (cc_nodeID c) ctx requestType buf)
       (assert_type requestType assert))"

definition direct_write ::
    "('r, 'd, 'a) RaftRepo \<Rightarrow> consensus_call \<Rightarrow> ctx \<Rightarrow> string \<Rightarrow> string outcome \<Rightarrow> ('a \<Rightarrow> 'x option) \<Rightarrow> ('r, 'x) op" where
  "direct_write repo c ctx requestType payload assert =
     bindE (liftO payload) (\<lambda>buf.
     bindE (HandleWriteRequest repo (cc_delivery c) (cc_newID c) (cc_nodeID c) ctx requestType buf)
       (assert_type requestType assert))"

section \<open>What a client sees\<close>

text \<open>\<open>runs_as live m client\<close>: the method \<open>client\<close> of the replicated repository is the operation \<open>m\<close> of the
  in-memory store. When it succeeds, \<open>m\<close> has been executed with this result. An error with a code is the
  error of \<open>m\<close>, and nothing has changed. After an error without a code the request or its result
  may have been lost, and \<open>m\<close> has been executed or not. When nothing is lost (\<open>live\<close>), the outcome is that
  of \<open>m\<close>, and a failure has no effect.\<close>

definition runs_as :: "bool \<Rightarrow> ('s, 'x) op \<Rightarrow> ('s mem_repo, 'x) op \<Rightarrow> bool" where
  "runs_as live m client \<longleftrightarrow>
     (\<forall>r x r'. client r = (x, r') \<longrightarrow>
        (\<forall>y. x = Ok y \<longrightarrow> m (mr_state r) = (Ok y, mr_state r')) \<and>
        (\<forall>e. x = Err e \<longrightarrow>
           (if GetCode e = None then mr_state r' = mr_state r \<or> (\<exists>y. m (mr_state r) = (Ok y, mr_state r'))
            else mr_state r' = mr_state r \<and> fst (m (mr_state r)) = Err e)) \<and>
        (live \<longrightarrow> x = fst (m (mr_state r)) \<and>
           (x \<noteq> Panic \<longrightarrow> mr_state r' = (if is_Ok x then snd (m (mr_state r)) else mr_state r))))"

text \<open>For an operation that only reads: nothing changes, and the answer is that of the in-memory store or
  an error without a code.\<close>

definition reads_as :: "bool \<Rightarrow> ('s, 'x) op \<Rightarrow> ('s mem_repo, 'x) op \<Rightarrow> bool" where
  "reads_as live m client \<longleftrightarrow>
     (\<forall>r x r'. client r = (x, r') \<longrightarrow>
        (x \<noteq> Panic \<longrightarrow> mr_state r' = mr_state r \<and> (x = fst (m (mr_state r)) \<or> (\<exists>e. x = Err e \<and> GetCode e = None))) \<and>
        (live \<longrightarrow> x = fst (m (mr_state r))))"

lemma runs_as_readonly:
  assumes "runs_as live m client" and "readonly m"
  shows "reads_as live m client"
  unfolding reads_as_def
proof (intro allI impI conjI)
  fix r x r'
  assume c: "client r = (x, r')" and "x \<noteq> Panic"
  have same: "t = mr_state r" if "m (mr_state r) = (y, t)" for y t using assms(2) that by (auto dest: readonlyD)
  note run = assms(1) [unfolded runs_as_def, rule_format, OF c]
  consider y where "x = Ok y" | e where "x = Err e" using \<open>x \<noteq> Panic\<close> by (cases x) auto
  then have "mr_state r' = mr_state r \<and> (x = fst (m (mr_state r)) \<or> (\<exists>e. x = Err e \<and> GetCode e = None))"
  proof cases
    case (1 y)
    with run have "m (mr_state r) = (Ok y, mr_state r')" by blast
    with same [OF this] 1 show ?thesis by simp
  next
    case (2 e)
    with run same show ?thesis by (metis (full_types))
  qed
  then show "mr_state r' = mr_state r" "x = fst (m (mr_state r)) \<or> (\<exists>e. x = Err e \<and> GetCode e = None)" by blast+
next
  fix r x r'
  assume "client r = (x, r')" and live
  with assms(1) show "x = fst (m (mr_state r))" unfolding runs_as_def by blast
qed

text \<open>A request with a timestamp, whose argument can be marshalled and whose result arrives.\<close>

definition live_call :: "consensus_call \<Rightarrow> ctx \<Rightarrow> string outcome \<Rightarrow> bool" where
  "live_call c ctx payload \<longleftrightarrow> cc_delivery c = Delivered \<and> is_Ok payload \<and> is_Ok (MustFromContext ctx)"

section \<open>The contract of \<open>Apply\<close>\<close>

locale direct_repo =
  fixes app :: "ctx \<times> Proposal \<Rightarrow> ('s, 'a) op"
    and repo :: "('s mem_repo, 'd, 'a) RaftRepo"
    and direct_reads :: "string list"
  assumes apply_state: "rr_Apply repo cp = on_state (app cp)"
    and checkpoint_state: "mr_state (rr_Checkpoint repo r) = mr_state r"
    and checkpoint_copy: "mr_checkpoint (rr_Checkpoint repo r) = mr_state r"
    and restore_state: "mr_state (rr_Restore repo r) = mr_checkpoint r"
    and reads_harmless: "pr_RequestType p \<in> set direct_reads \<Longrightarrow> readonly (app (ctx, p))"
begin

lemma direct_commit:
  assumes a: "app (Some (pr_Timestamp p), p) (mr_state r) = (z, s)"
    and ro: "pr_ReadOnly p \<Longrightarrow> pr_RequestType p \<in> set direct_reads"
  shows "\<exists>r'. processCommit repo \<lparr>ec_Prop = p, ec_SnapshotData = None\<rparr> r =
      (case z of Panic \<Rightarrow> Crashed | _ \<Rightarrow> Replied z, r') \<and>
    (z \<noteq> Panic \<longrightarrow> mr_state r' = (if is_Ok z then s else mr_state r))"
proof (cases "pr_ReadOnly p")
  case True
  with ro a have "s = mr_state r" by (auto dest: readonlyD [OF reads_harmless])
  with True processCommit_read [of "\<lparr>ec_Prop = p, ec_SnapshotData = None\<rparr>" repo r z "r\<lparr>mr_state := s\<rparr>"] a show ?thesis
    by (simp add: apply_state on_state_def)
next
  case False
  with processCommit_write [of "\<lparr>ec_Prop = p, ec_SnapshotData = None\<rparr>" repo r z "(rr_Checkpoint repo r)\<lparr>mr_state := s\<rparr>"] a
  show ?thesis
    by (cases z) (simp_all add: apply_state on_state_def checkpoint_state checkpoint_copy restore_state)
qed

text \<open>A direct request runs the operation that \<open>Apply\<close> runs for its type.\<close>

lemma request_runs_as:
  assumes client: "client = bindE (liftO payload) (\<lambda>buf.
      bindE (bindE (liftO (newProposal (cc_newID c) (cc_nodeID c) ctx requestType buf readOnly)) (await_result repo (cc_delivery c)))
        (assert_type requestType assert))"
    and plain: "\<And>e. payload = Err e \<Longrightarrow> GetCode e = None" and ro: "readOnly \<Longrightarrow> requestType \<in> set direct_reads"
    and ap: "\<And>buf p st. payload = Ok buf \<Longrightarrow> pr_RequestType p = requestType \<Longrightarrow> pr_Value p = buf \<Longrightarrow>
      app (ctx, p) st = (obind (fst (m st)) (\<lambda>y. Ok (wrap y)), snd (m st))"
    and as: "\<And>y. assert (wrap y) = Some y"
  shows "runs_as (live_call c ctx payload) m client"
  unfolding runs_as_def
proof (intro allI impI)
  fix r x r'
  assume r: "client r = (x, r')"
  show "(\<forall>y. x = Ok y \<longrightarrow> m (mr_state r) = (Ok y, mr_state r')) \<and>
        (\<forall>e. x = Err e \<longrightarrow>
           (if GetCode e = None then mr_state r' = mr_state r \<or> (\<exists>y. m (mr_state r) = (Ok y, mr_state r'))
            else mr_state r' = mr_state r \<and> fst (m (mr_state r)) = Err e)) \<and>
        (live_call c ctx payload \<longrightarrow> x = fst (m (mr_state r)) \<and>
           (x \<noteq> Panic \<longrightarrow> mr_state r' = (if is_Ok x then snd (m (mr_state r)) else mr_state r)))"
  proof (cases "\<exists>buf ts. payload = Ok buf \<and> MustFromContext ctx = Ok ts")
    case True
    then obtain buf ts where b: "payload = Ok buf" "MustFromContext ctx = Ok ts" by blast
    define p where "p = \<lparr>pr_ID = cc_newID c, pr_NodeID = cc_nodeID c, pr_Timestamp = ts, pr_RequestType = requestType,
         pr_Value = buf, pr_ReadOnly = readOnly\<rparr>"
    have n: "newProposal (cc_newID c) (cc_nodeID c) ctx requestType buf readOnly = Ok p" "ctx = Some (pr_Timestamp p)"
      using b(2) by (auto simp: newProposal_def p_def MustFromContext_def split: option.splits if_splits)
    obtain z s where z: "m (mr_state r) = (z, s)" by fastforce
    with ap [OF b(1), of p "mr_state r"] n(2) have
      "app (Some (pr_Timestamp p), p) (mr_state r) = (obind z (\<lambda>y. Ok (wrap y)), s)" by (simp add: p_def)
    from direct_commit [OF this] ro obtain r1 where r1:
      "processCommit repo \<lparr>ec_Prop = p, ec_SnapshotData = None\<rparr> r =
         (case z of Panic \<Rightarrow> Crashed | _ \<Rightarrow> Replied (obind z (\<lambda>y. Ok (wrap y))), r1)"
      "z \<noteq> Panic \<longrightarrow> mr_state r1 = (if is_Ok z then s else mr_state r)"
      by (cases z) (auto simp: p_def)
    show ?thesis
      using r r1 z
      by (cases z; cases "cc_delivery c")
        (auto simp: client b(1) n(1) live_call_def assert_type_def as await_result_def bindE_def split: if_splits)
  next
    case False
    then show ?thesis
      using r plain
      by (cases payload; cases "MustFromContext ctx")
        (auto simp: client newProposal_def live_call_def MustFromContext_def bindE_def split: option.splits if_splits)
  qed
qed

text \<open>A direct read changes nothing, whatever its payload.\<close>

lemma direct_read_unchanged:
  assumes "requestType \<in> set direct_reads" and "direct_read repo c ctx requestType payload assert r = (x, r')" and "x \<noteq> Panic"
  shows "mr_state r' = mr_state r"
proof (cases "\<exists>buf p. payload = Ok buf \<and> newProposal (cc_newID c) (cc_nodeID c) ctx requestType buf True = Ok p")
  case True
  then obtain buf p where b: "payload = Ok buf" "newProposal (cc_newID c) (cc_nodeID c) ctx requestType buf True = Ok p" by blast
  then have p: "pr_RequestType p = requestType" by (auto simp: newProposal_def monad_simps)
  obtain z s where z: "app (Some (pr_Timestamp p), p) (mr_state r) = (z, s)" by fastforce
  have "s = mr_state r" using z readonlyD [OF reads_harmless] assms(1) p by blast
  with direct_commit [OF z] assms(1) p obtain r1 where
    c: "processCommit repo \<lparr>ec_Prop = p, ec_SnapshotData = None\<rparr> r = (case z of Panic \<Rightarrow> Crashed | _ \<Rightarrow> Replied z, r1)"
      "z \<noteq> Panic \<longrightarrow> mr_state r1 = mr_state r" by auto
  obtain y r2 where y: "await_result repo (cc_delivery c) p r = (y, r2)" by fastforce
  have "y \<noteq> Panic" "r' = r2"
    using assms(2,3) y b by (cases y; auto simp: direct_read_def HandleReadRequest_def assert_type_def split: option.splits)+
  with await_result_cases [OF y] c show ?thesis by (cases z) auto
next
  case False
  with assms(2,3) show ?thesis
    by (cases payload) (auto simp: direct_read_def HandleReadRequest_def newProposal_def monad_simps bindE_def split: outcome.splits)
qed

lemma write_runs_as:
  assumes "\<And>e. payload = Err e \<Longrightarrow> GetCode e = None"
    and "\<And>buf p st. payload = Ok buf \<Longrightarrow> pr_RequestType p = requestType \<Longrightarrow> pr_Value p = buf \<Longrightarrow>
      app (ctx, p) st = (obind (fst (m st)) (\<lambda>y. Ok (wrap y)), snd (m st))"
    and "\<And>y. assert (wrap y) = Some y"
  shows "runs_as (live_call c ctx payload) m (direct_write repo c ctx requestType payload assert)"
  by (rule request_runs_as [where readOnly = False, OF _ assms(1) _ assms(2,3)])
    (simp_all add: direct_write_def HandleWriteRequest_def)

lemma read_runs_as:
  assumes "requestType \<in> set direct_reads" and "\<And>e. payload = Err e \<Longrightarrow> GetCode e = None"
    and "\<And>buf p st. payload = Ok buf \<Longrightarrow> pr_RequestType p = requestType \<Longrightarrow> pr_Value p = buf \<Longrightarrow>
      app (ctx, p) st = (obind (fst (m st)) (\<lambda>y. Ok (wrap y)), snd (m st))"
    and "\<And>y. assert (wrap y) = Some y" and "readonly m"
  shows "reads_as (live_call c ctx payload) m (direct_read repo c ctx requestType payload assert)"
  by (rule runs_as_readonly, rule request_runs_as [where readOnly = True, OF _ assms(2) _ assms(3,4)])
    (simp_all add: direct_read_def HandleReadRequest_def assms(1,5))

end

lemma bindE_ret_run: "bindE m (\<lambda>x. ret (f x)) st = (obind (fst (m st)) (\<lambda>x. Ok (f x)), snd (m st))"
  by (cases "m st"; cases "fst (m st)") (simp_all add: bindE_def)

lemma obind_Ok_obind: "obind (obind y (\<lambda>x. Ok (f x))) g = obind y (\<lambda>x. g (f x))"
  by (cases y) simp_all

lemmas run_then_ret = bindE_ret_run obind_Ok_obind

text \<open>One case of \<open>Apply\<close> for a payload that could be decoded.\<close>

lemma with_payload_run:
  "with_payload (Ok x) f g st = (obind (fst (f x st)) (\<lambda>y. Ok (g y)), snd (f x st))"
  by (cases "f x st"; cases "fst (f x st)") (auto simp: with_payload_def bindE_def)

end
