(* ===== verification/Scd_Client.thy ===== *)
theory Scd_Client
  imports Scd_Raft Raft_Direct
begin

text \<open>
  The methods of the replicated strategic-coordination repository
  (\<open>src/pkg/scd/store/raftstore/constraints.go\<close>, \<open>subscriptions.go\<close>, \<open>operational_intents.go\<close> and
  \<open>availability.go\<close>): each proposes a direct request and waits for its result. The theory shows that
  each of them runs the method of the in-memory store.
\<close>

section \<open>Marshalling and result types\<close>

text \<open>\<open>json.Marshal\<close> at the types of the arguments.\<close>

record scd_marshal =
  jsm_volume :: "cells_volume_4d \<Rightarrow> string outcome"
  jsm_ID :: "ID \<Rightarrow> string outcome"
  jsm_manager :: "Manager \<Rightarrow> string outcome"
  jsm_time :: "time \<Rightarrow> string outcome"
  jsm_constraint :: "Constraint \<Rightarrow> string outcome"
  jsm_subscription :: "Subscription \<Rightarrow> string outcome"
  jsm_intent :: "OperationalIntent \<Rightarrow> string outcome"
  jsm_availability :: "UssAvailabilityStatus \<Rightarrow> string outcome"

text \<open>The type assertions on the results; a nil result is the zero value of its type. The methods that
  delete have the result type \<open>any\<close> and drop the result.\<close>

fun as_Constraints :: "scd_any \<Rightarrow> Constraint list option" where
  "as_Constraints (AnyConstraints x) = Some x" | "as_Constraints AnyNil = Some []" | "as_Constraints _ = None"

fun as_Constraint :: "scd_any \<Rightarrow> Constraint option option" where
  "as_Constraint (AnyConstraint x) = Some (Some x)" | "as_Constraint AnyNil = Some None" | "as_Constraint _ = None"

fun as_Subscriptions :: "scd_any \<Rightarrow> Subscription list option" where
  "as_Subscriptions (AnySubscriptions x) = Some x" | "as_Subscriptions AnyNil = Some []" | "as_Subscriptions _ = None"

fun as_Subscription :: "scd_any \<Rightarrow> Subscription option option" where
  "as_Subscription (AnySubscription x) = Some x" | "as_Subscription AnyNil = Some None" | "as_Subscription _ = None"

fun as_Intents :: "scd_any \<Rightarrow> OperationalIntent list option" where
  "as_Intents (AnyIntents x) = Some x" | "as_Intents AnyNil = Some []" | "as_Intents _ = None"

fun as_Intent :: "scd_any \<Rightarrow> OperationalIntent option option" where
  "as_Intent (AnyIntent x) = Some x" | "as_Intent AnyNil = Some None" | "as_Intent _ = None"

fun as_Availability :: "scd_any \<Rightarrow> UssAvailabilityStatus option option" where
  "as_Availability (AnyAvailability x) = Some (Some x)" | "as_Availability AnyNil = Some None" | "as_Availability _ = None"

fun as_IDs :: "scd_any \<Rightarrow> ID list option" where
  "as_IDs (AnyIDs x) = Some x" | "as_IDs AnyNil = Some []" | "as_IDs _ = None"

fun as_Count :: "scd_any \<Rightarrow> nat option" where
  "as_Count (AnyCount x) = Some x" | "as_Count AnyNil = Some 0" | "as_Count _ = None"

definition as_Unit :: "scd_any \<Rightarrow> unit option" where
  "as_Unit _ = Some ()"

section \<open>Constraints\<close>

definition sraft_SearchConstraints ::
    "externals \<Rightarrow> scd_codec \<Rightarrow> scd_marshal \<Rightarrow> consensus_call \<Rightarrow> ctx \<Rightarrow> cells_volume_4d \<Rightarrow> (scd_repo, Constraint list) op" where
  "sraft_SearchConstraints L J K c ctx cellsVolume =
     direct_read (scd_RaftRepo L J) c ctx ''searchConstraints'' (jsm_volume K cellsVolume) as_Constraints"

definition sraft_GetConstraint ::
    "externals \<Rightarrow> scd_codec \<Rightarrow> scd_marshal \<Rightarrow> consensus_call \<Rightarrow> ctx \<Rightarrow> ID \<Rightarrow> (scd_repo, Constraint option) op" where
  "sraft_GetConstraint L J K c ctx i =
     direct_read (scd_RaftRepo L J) c ctx ''getConstraint'' (jsm_ID K i) as_Constraint"

definition sraft_UpsertConstraint ::
    "externals \<Rightarrow> scd_codec \<Rightarrow> scd_marshal \<Rightarrow> consensus_call \<Rightarrow> ctx \<Rightarrow> Constraint \<Rightarrow> (scd_repo, Constraint option) op" where
  "sraft_UpsertConstraint L J K c ctx x =
     direct_write (scd_RaftRepo L J) c ctx ''upsertConstraint'' (jsm_constraint K x) as_Constraint"

definition sraft_DeleteConstraint ::
    "externals \<Rightarrow> scd_codec \<Rightarrow> scd_marshal \<Rightarrow> consensus_call \<Rightarrow> ctx \<Rightarrow> ID \<Rightarrow> (scd_repo, unit) op" where
  "sraft_DeleteConstraint L J K c ctx i =
     direct_write (scd_RaftRepo L J) c ctx ''deleteConstraint'' (jsm_ID K i) as_Unit"

definition sraft_CountConstraints :: "externals \<Rightarrow> scd_codec \<Rightarrow> consensus_call \<Rightarrow> ctx \<Rightarrow> (scd_repo, nat) op" where
  "sraft_CountConstraints L J c ctx = direct_read (scd_RaftRepo L J) c ctx ''countConstraints'' (Ok '''') as_Count"

section \<open>Subscriptions\<close>

definition sraft_SearchSubscriptions ::
    "externals \<Rightarrow> scd_codec \<Rightarrow> scd_marshal \<Rightarrow> consensus_call \<Rightarrow> ctx \<Rightarrow> cells_volume_4d \<Rightarrow> (scd_repo, Subscription list) op" where
  "sraft_SearchSubscriptions L J K c ctx cellsVolume =
     direct_read (scd_RaftRepo L J) c ctx ''searchSubscriptions'' (jsm_volume K cellsVolume) as_Subscriptions"

definition sraft_GetSubscription ::
    "externals \<Rightarrow> scd_codec \<Rightarrow> scd_marshal \<Rightarrow> consensus_call \<Rightarrow> ctx \<Rightarrow> ID \<Rightarrow> (scd_repo, Subscription option) op" where
  "sraft_GetSubscription L J K c ctx i =
     direct_read (scd_RaftRepo L J) c ctx ''getSubscription'' (jsm_ID K i) as_Subscription"

definition sraft_UpsertSubscription ::
    "externals \<Rightarrow> scd_codec \<Rightarrow> scd_marshal \<Rightarrow> consensus_call \<Rightarrow> ctx \<Rightarrow> Subscription \<Rightarrow> (scd_repo, Subscription option) op" where
  "sraft_UpsertSubscription L J K c ctx sub =
     direct_write (scd_RaftRepo L J) c ctx ''upsertSubscription'' (jsm_subscription K sub) as_Subscription"

definition sraft_DeleteSubscription ::
    "externals \<Rightarrow> scd_codec \<Rightarrow> scd_marshal \<Rightarrow> consensus_call \<Rightarrow> ctx \<Rightarrow> ID \<Rightarrow> (scd_repo, unit) op" where
  "sraft_DeleteSubscription L J K c ctx i =
     direct_write (scd_RaftRepo L J) c ctx ''deleteSubscription'' (jsm_ID K i) as_Unit"

definition sraft_IncrementNotificationIndicesForOperationalIntents ::
    "externals \<Rightarrow> scd_codec \<Rightarrow> scd_marshal \<Rightarrow> consensus_call \<Rightarrow> ctx \<Rightarrow> cells_volume_4d \<Rightarrow> (scd_repo, Subscription list) op" where
  "sraft_IncrementNotificationIndicesForOperationalIntents L J K c ctx cellsVolume =
     direct_write (scd_RaftRepo L J) c ctx ''incrementNotificationIndicesForOperationalIntents'' (jsm_volume K cellsVolume) as_Subscriptions"

definition sraft_IncrementNotificationIndicesForConstraints ::
    "externals \<Rightarrow> scd_codec \<Rightarrow> scd_marshal \<Rightarrow> consensus_call \<Rightarrow> ctx \<Rightarrow> cells_volume_4d \<Rightarrow> (scd_repo, Subscription list) op" where
  "sraft_IncrementNotificationIndicesForConstraints L J K c ctx cellsVolume =
     direct_write (scd_RaftRepo L J) c ctx ''incrementNotificationIndicesForConstraints'' (jsm_volume K cellsVolume) as_Subscriptions"

definition sraft_LockSubscriptionsOnCells ::
    "ctx \<Rightarrow> cell_union \<Rightarrow> ID list \<Rightarrow> time option \<Rightarrow> time option \<Rightarrow> (scd_repo, unit) op" where
  "sraft_LockSubscriptionsOnCells ctx cells ids startTime endTime = ret ()"

definition sraft_ListExpiredSubscriptions ::
    "externals \<Rightarrow> scd_codec \<Rightarrow> scd_marshal \<Rightarrow> consensus_call \<Rightarrow> ctx \<Rightarrow> time \<Rightarrow> (scd_repo, ID list) op" where
  "sraft_ListExpiredSubscriptions L J K c ctx threshold =
     direct_read (scd_RaftRepo L J) c ctx ''listExpiredSubscriptions'' (jsm_time K threshold) as_IDs"

definition sraft_DeleteExpiredSubscriptions :: "ctx \<Rightarrow> time \<Rightarrow> int \<Rightarrow> (scd_repo, ID list) op" where
  "sraft_DeleteExpiredSubscriptions ctx threshold limit =
     fail (NewErrorWithCode NotImplemented ''DeleteExpiredSubscriptions not implemented for raftstore'')"

definition sraft_CountSubscriptions :: "externals \<Rightarrow> scd_codec \<Rightarrow> consensus_call \<Rightarrow> ctx \<Rightarrow> (scd_repo, nat) op" where
  "sraft_CountSubscriptions L J c ctx = direct_read (scd_RaftRepo L J) c ctx ''countSubscriptions'' (Ok '''') as_Count"

section \<open>Operational intents\<close>

definition sraft_GetOperationalIntent ::
    "externals \<Rightarrow> scd_codec \<Rightarrow> scd_marshal \<Rightarrow> consensus_call \<Rightarrow> ctx \<Rightarrow> ID \<Rightarrow> (scd_repo, OperationalIntent option) op" where
  "sraft_GetOperationalIntent L J K c ctx i =
     direct_read (scd_RaftRepo L J) c ctx ''getOperationalIntent'' (jsm_ID K i) as_Intent"

definition sraft_DeleteOperationalIntent ::
    "externals \<Rightarrow> scd_codec \<Rightarrow> scd_marshal \<Rightarrow> consensus_call \<Rightarrow> ctx \<Rightarrow> ID \<Rightarrow> (scd_repo, unit) op" where
  "sraft_DeleteOperationalIntent L J K c ctx i =
     direct_write (scd_RaftRepo L J) c ctx ''deleteOperationalIntent'' (jsm_ID K i) as_Unit"

definition sraft_UpsertOperationalIntent ::
    "externals \<Rightarrow> scd_codec \<Rightarrow> scd_marshal \<Rightarrow> consensus_call \<Rightarrow> ctx \<Rightarrow> OperationalIntent \<Rightarrow> (scd_repo, OperationalIntent option) op" where
  "sraft_UpsertOperationalIntent L J K c ctx operation =
     direct_write (scd_RaftRepo L J) c ctx ''upsertOperationalIntent'' (jsm_intent K operation) as_Intent"

definition sraft_SearchOperationalIntents ::
    "externals \<Rightarrow> scd_codec \<Rightarrow> scd_marshal \<Rightarrow> consensus_call \<Rightarrow> ctx \<Rightarrow> cells_volume_4d \<Rightarrow> (scd_repo, OperationalIntent list) op" where
  "sraft_SearchOperationalIntents L J K c ctx cellsVolume =
     direct_read (scd_RaftRepo L J) c ctx ''searchOperationalIntents'' (jsm_volume K cellsVolume) as_Intents"

definition sraft_GetDependentOperationalIntents ::
    "externals \<Rightarrow> scd_codec \<Rightarrow> scd_marshal \<Rightarrow> consensus_call \<Rightarrow> ctx \<Rightarrow> ID \<Rightarrow> (scd_repo, ID list) op" where
  "sraft_GetDependentOperationalIntents L J K c ctx i =
     direct_read (scd_RaftRepo L J) c ctx ''getDependentOperationalIntents'' (jsm_ID K i) as_IDs"

definition sraft_ListExpiredOperationalIntents ::
    "externals \<Rightarrow> scd_codec \<Rightarrow> scd_marshal \<Rightarrow> consensus_call \<Rightarrow> ctx \<Rightarrow> time \<Rightarrow> (scd_repo, ID list) op" where
  "sraft_ListExpiredOperationalIntents L J K c ctx threshold =
     direct_read (scd_RaftRepo L J) c ctx ''listExpiredOperationalIntents'' (jsm_time K threshold) as_IDs"

definition sraft_DeleteExpiredOperationalIntents :: "ctx \<Rightarrow> time \<Rightarrow> int \<Rightarrow> (scd_repo, ID list) op" where
  "sraft_DeleteExpiredOperationalIntents ctx threshold limit =
     fail (NewErrorWithCode NotImplemented ''DeleteExpiredOperationalIntents not implemented for raftstore'')"

definition sraft_CountOperationalIntents :: "externals \<Rightarrow> scd_codec \<Rightarrow> consensus_call \<Rightarrow> ctx \<Rightarrow> (scd_repo, nat) op" where
  "sraft_CountOperationalIntents L J c ctx = direct_read (scd_RaftRepo L J) c ctx ''countOperationalIntents'' (Ok '''') as_Count"

section \<open>Availability\<close>

definition sraft_GetUssAvailability ::
    "externals \<Rightarrow> scd_codec \<Rightarrow> scd_marshal \<Rightarrow> consensus_call \<Rightarrow> ctx \<Rightarrow> Manager \<Rightarrow> (scd_repo, UssAvailabilityStatus option) op" where
  "sraft_GetUssAvailability L J K c ctx m =
     direct_read (scd_RaftRepo L J) c ctx ''getUssAvailability'' (jsm_manager K m) as_Availability"

definition sraft_UpsertUssAvailability ::
    "externals \<Rightarrow> scd_codec \<Rightarrow> scd_marshal \<Rightarrow> consensus_call \<Rightarrow> ctx \<Rightarrow> UssAvailabilityStatus \<Rightarrow> (scd_repo, UssAvailabilityStatus option) op" where
  "sraft_UpsertUssAvailability L J K c ctx ussa =
     direct_write (scd_RaftRepo L J) c ctx ''upsertUssAvailability'' (jsm_availability K ussa) as_Availability"

section \<open>The methods are those of the in-memory store\<close>

text \<open>The codec reads what was marshalled, and marshalling fails without a code.\<close>

definition scd_codec_inverts :: "scd_codec \<Rightarrow> scd_marshal \<Rightarrow> bool" where
  "scd_codec_inverts J K \<longleftrightarrow>
     (\<forall>x v. jsm_volume K x = Ok v \<longrightarrow> js_volume J v = Ok x) \<and> (\<forall>x v. jsm_ID K x = Ok v \<longrightarrow> js_ID J v = Ok x) \<and>
     (\<forall>x v. jsm_manager K x = Ok v \<longrightarrow> js_manager J v = Ok x) \<and> (\<forall>x v. jsm_time K x = Ok v \<longrightarrow> js_time J v = Ok x) \<and>
     (\<forall>x v. jsm_constraint K x = Ok v \<longrightarrow> js_constraint J v = Ok x) \<and>
     (\<forall>x v. jsm_subscription K x = Ok v \<longrightarrow> js_subscription J v = Ok x) \<and>
     (\<forall>x v. jsm_intent K x = Ok v \<longrightarrow> js_intent J v = Ok x) \<and>
     (\<forall>x v. jsm_availability K x = Ok v \<longrightarrow> js_availability J v = Ok x)"

definition scd_marshal_plain :: "scd_marshal \<Rightarrow> bool" where
  "scd_marshal_plain K \<longleftrightarrow>
     (\<forall>x e. jsm_volume K x = Err e \<longrightarrow> GetCode e = None) \<and> (\<forall>x e. jsm_ID K x = Err e \<longrightarrow> GetCode e = None) \<and>
     (\<forall>x e. jsm_manager K x = Err e \<longrightarrow> GetCode e = None) \<and> (\<forall>x e. jsm_time K x = Err e \<longrightarrow> GetCode e = None) \<and>
     (\<forall>x e. jsm_constraint K x = Err e \<longrightarrow> GetCode e = None) \<and> (\<forall>x e. jsm_subscription K x = Err e \<longrightarrow> GetCode e = None) \<and>
     (\<forall>x e. jsm_intent K x = Err e \<longrightarrow> GetCode e = None) \<and> (\<forall>x e. jsm_availability K x = Err e \<longrightarrow> GetCode e = None)"

interpretation scd_direct: direct_repo "scd_Apply L J" "scd_RaftRepo L J" direct_reads for L J
  by unfold_locales (simp_all add: scd_RaftRepo_def scd_Checkpoint_def scd_Restore_def scd_Apply_direct_readonly)

text \<open>The result of a method that may be nil.\<close>

definition nil_or :: "('x \<Rightarrow> scd_any) \<Rightarrow> 'x option \<Rightarrow> scd_any" where
  "nil_or f y = (case y of None \<Rightarrow> AnyNil | Some x \<Rightarrow> f x)"

lemma as_nil_or:
  "nil_or f (Some x) = f x"
  "as_Constraint (nil_or AnyConstraint y) = Some y" "as_Availability (nil_or AnyAvailability z) = Some z"
  by (simp_all add: nil_or_def split: option.splits)

lemmas scd_reads_as = scd_direct.read_runs_as [where wrap = AnyConstraints] scd_direct.read_runs_as [where wrap = "nil_or AnyConstraint"]
  scd_direct.read_runs_as [where wrap = AnySubscriptions] scd_direct.read_runs_as [where wrap = AnySubscription]
  scd_direct.read_runs_as [where wrap = AnyIntents] scd_direct.read_runs_as [where wrap = AnyIntent]
  scd_direct.read_runs_as [where wrap = AnyIDs] scd_direct.read_runs_as [where wrap = AnyCount]
  scd_direct.read_runs_as [where wrap = "nil_or AnyAvailability"]

lemmas scd_writes_as = scd_direct.write_runs_as [where wrap = "nil_or AnyConstraint"]
  scd_direct.write_runs_as [where wrap = AnySubscriptions] scd_direct.write_runs_as [where wrap = AnySubscription]
  scd_direct.write_runs_as [where wrap = AnyIntent] scd_direct.write_runs_as [where wrap = "nil_or AnyAvailability"]
  scd_direct.write_runs_as [where wrap = "\<lambda>_. AnyNil"]

lemmas scd_client_simps = direct_reads_def scd_codec_inverts_def scd_marshal_plain_def scd_Apply_def apply_constraints_def
  apply_subscriptions_def apply_intents_def apply_availability_def with_payload_run run_then_ret as_nil_or as_Unit_def

lemmas sraft_reads = sraft_SearchConstraints_def
  sraft_GetConstraint_def
  sraft_CountConstraints_def
  sraft_SearchSubscriptions_def
  sraft_GetSubscription_def
  sraft_ListExpiredSubscriptions_def
  sraft_CountSubscriptions_def
  sraft_GetOperationalIntent_def
  sraft_SearchOperationalIntents_def
  sraft_GetDependentOperationalIntents_def
  sraft_ListExpiredOperationalIntents_def
  sraft_CountOperationalIntents_def
  sraft_GetUssAvailability_def

lemma scd_reads:
  assumes "scd_codec_inverts J K" "scd_marshal_plain K"
  shows "reads_as (live_call c ctx (jsm_volume K cellsVolume)) (SearchConstraints L cellsVolume) (sraft_SearchConstraints L J K c ctx cellsVolume)"
    and "reads_as (live_call c ctx (jsm_ID K i)) (bindE (GetConstraint L i) (\<lambda>x. ret (Some x))) (sraft_GetConstraint L J K c ctx i)"
    and "reads_as (live_call c ctx (Ok '''')) CountConstraints (sraft_CountConstraints L J c ctx)"
    and "reads_as (live_call c ctx (jsm_volume K cellsVolume)) (SearchSubscriptions L cellsVolume) (sraft_SearchSubscriptions L J K c ctx cellsVolume)"
    and "reads_as (live_call c ctx (jsm_ID K i)) (GetSubscription L i) (sraft_GetSubscription L J K c ctx i)"
    and "reads_as (live_call c ctx (jsm_time K threshold)) (ListExpiredSubscriptions threshold) (sraft_ListExpiredSubscriptions L J K c ctx threshold)"
    and "reads_as (live_call c ctx (Ok '''')) CountSubscriptions (sraft_CountSubscriptions L J c ctx)"
    and "reads_as (live_call c ctx (jsm_ID K i)) (GetOperationalIntent L i) (sraft_GetOperationalIntent L J K c ctx i)"
    and "reads_as (live_call c ctx (jsm_volume K cellsVolume)) (SearchOperationalIntents L cellsVolume) (sraft_SearchOperationalIntents L J K c ctx cellsVolume)"
    and "reads_as (live_call c ctx (jsm_ID K i)) (GetDependentOperationalIntents i) (sraft_GetDependentOperationalIntents L J K c ctx i)"
    and "reads_as (live_call c ctx (jsm_time K threshold)) (ListExpiredOperationalIntents threshold) (sraft_ListExpiredOperationalIntents L J K c ctx threshold)"
    and "reads_as (live_call c ctx (Ok '''')) CountOperationalIntents (sraft_CountOperationalIntents L J c ctx)"
    and "reads_as (live_call c ctx (jsm_manager K m)) (bindE (GetUssAvailability L m) (\<lambda>x. ret (Some x))) (sraft_GetUssAvailability L J K c ctx m)"
  unfolding sraft_reads
  using assms
  by - (rule scd_reads_as; auto simp: scd_client_simps intro!: pres_intros)+

lemmas sraft_writes = sraft_UpsertConstraint_def
  sraft_DeleteConstraint_def
  sraft_UpsertSubscription_def
  sraft_DeleteSubscription_def
  sraft_IncrementNotificationIndicesForOperationalIntents_def
  sraft_IncrementNotificationIndicesForConstraints_def
  sraft_DeleteOperationalIntent_def
  sraft_UpsertOperationalIntent_def
  sraft_UpsertUssAvailability_def

lemma scd_writes:
  assumes "scd_codec_inverts J K" "scd_marshal_plain K"
  shows "runs_as (live_call c ctx (jsm_constraint K x)) (bindE (UpsertConstraint L ctx x) (\<lambda>x. ret (Some x))) (sraft_UpsertConstraint L J K c ctx x)"
    and "runs_as (live_call c ctx (jsm_ID K i)) (DeleteConstraint i) (sraft_DeleteConstraint L J K c ctx i)"
    and "runs_as (live_call c ctx (jsm_subscription K sub)) (bindE (UpsertSubscription L ctx sub) (\<lambda>x. ret (Some x))) (sraft_UpsertSubscription L J K c ctx sub)"
    and "runs_as (live_call c ctx (jsm_ID K i)) (DeleteSubscription i) (sraft_DeleteSubscription L J K c ctx i)"
    and "runs_as (live_call c ctx (jsm_volume K cellsVolume)) (IncrementNotificationIndicesForOperationalIntents L cellsVolume) (sraft_IncrementNotificationIndicesForOperationalIntents L J K c ctx cellsVolume)"
    and "runs_as (live_call c ctx (jsm_volume K cellsVolume)) (IncrementNotificationIndicesForConstraints L cellsVolume) (sraft_IncrementNotificationIndicesForConstraints L J K c ctx cellsVolume)"
    and "runs_as (live_call c ctx (jsm_ID K i)) (DeleteOperationalIntent i) (sraft_DeleteOperationalIntent L J K c ctx i)"
    and "runs_as (live_call c ctx (jsm_intent K operation)) (bindE (UpsertOperationalIntent L ctx operation) (\<lambda>x. ret (Some x))) (sraft_UpsertOperationalIntent L J K c ctx operation)"
    and "runs_as (live_call c ctx (jsm_availability K ussa)) (bindE (UpsertUssAvailability L ctx ussa) (\<lambda>x. ret (Some x))) (sraft_UpsertUssAvailability L J K c ctx ussa)"
  unfolding sraft_writes
  using assms
  by - (rule scd_writes_as; auto simp: scd_client_simps)+

text \<open>C32: the methods of the replicated strategic-coordination repository are those of the in-memory store.
  Each of the thirteen reading methods gives the answer, or the error, of the corresponding method of the
  in-memory store on the current state, or fails without a DSS code because the request or its result
  was lost, and changes nothing. Each of the nine writing methods, when it succeeds, has executed the
  corresponding method of the in-memory store with this result; an error with a code is the error of that
  method and has no effect. When the result arrives, the outcome is that of the in-memory store.\<close>

theorem scd_client_refines:
  assumes "scd_codec_inverts J K" and "scd_marshal_plain K"
  shows "reads_as (live_call c ctx (jsm_volume K cellsVolume)) (SearchConstraints L cellsVolume) (sraft_SearchConstraints L J K c ctx cellsVolume) \<and>
    reads_as (live_call c ctx (jsm_ID K i)) (bindE (GetConstraint L i) (\<lambda>x. ret (Some x))) (sraft_GetConstraint L J K c ctx i) \<and>
    reads_as (live_call c ctx (Ok '''')) CountConstraints (sraft_CountConstraints L J c ctx) \<and>
    reads_as (live_call c ctx (jsm_volume K cellsVolume)) (SearchSubscriptions L cellsVolume) (sraft_SearchSubscriptions L J K c ctx cellsVolume) \<and>
    reads_as (live_call c ctx (jsm_ID K i)) (GetSubscription L i) (sraft_GetSubscription L J K c ctx i) \<and>
    reads_as (live_call c ctx (jsm_time K threshold)) (ListExpiredSubscriptions threshold) (sraft_ListExpiredSubscriptions L J K c ctx threshold) \<and>
    reads_as (live_call c ctx (Ok '''')) CountSubscriptions (sraft_CountSubscriptions L J c ctx) \<and>
    reads_as (live_call c ctx (jsm_ID K i)) (GetOperationalIntent L i) (sraft_GetOperationalIntent L J K c ctx i) \<and>
    reads_as (live_call c ctx (jsm_volume K cellsVolume)) (SearchOperationalIntents L cellsVolume) (sraft_SearchOperationalIntents L J K c ctx cellsVolume) \<and>
    reads_as (live_call c ctx (jsm_ID K i)) (GetDependentOperationalIntents i) (sraft_GetDependentOperationalIntents L J K c ctx i) \<and>
    reads_as (live_call c ctx (jsm_time K threshold)) (ListExpiredOperationalIntents threshold) (sraft_ListExpiredOperationalIntents L J K c ctx threshold) \<and>
    reads_as (live_call c ctx (Ok '''')) CountOperationalIntents (sraft_CountOperationalIntents L J c ctx) \<and>
    reads_as (live_call c ctx (jsm_manager K m)) (bindE (GetUssAvailability L m) (\<lambda>x. ret (Some x))) (sraft_GetUssAvailability L J K c ctx m) \<and>
    runs_as (live_call c ctx (jsm_constraint K x)) (bindE (UpsertConstraint L ctx x) (\<lambda>x. ret (Some x))) (sraft_UpsertConstraint L J K c ctx x) \<and>
    runs_as (live_call c ctx (jsm_ID K i)) (DeleteConstraint i) (sraft_DeleteConstraint L J K c ctx i) \<and>
    runs_as (live_call c ctx (jsm_subscription K sub)) (bindE (UpsertSubscription L ctx sub) (\<lambda>x. ret (Some x))) (sraft_UpsertSubscription L J K c ctx sub) \<and>
    runs_as (live_call c ctx (jsm_ID K i)) (DeleteSubscription i) (sraft_DeleteSubscription L J K c ctx i) \<and>
    runs_as (live_call c ctx (jsm_volume K cellsVolume)) (IncrementNotificationIndicesForOperationalIntents L cellsVolume) (sraft_IncrementNotificationIndicesForOperationalIntents L J K c ctx cellsVolume) \<and>
    runs_as (live_call c ctx (jsm_volume K cellsVolume)) (IncrementNotificationIndicesForConstraints L cellsVolume) (sraft_IncrementNotificationIndicesForConstraints L J K c ctx cellsVolume) \<and>
    runs_as (live_call c ctx (jsm_ID K i)) (DeleteOperationalIntent i) (sraft_DeleteOperationalIntent L J K c ctx i) \<and>
    runs_as (live_call c ctx (jsm_intent K operation)) (bindE (UpsertOperationalIntent L ctx operation) (\<lambda>x. ret (Some x))) (sraft_UpsertOperationalIntent L J K c ctx operation) \<and>
    runs_as (live_call c ctx (jsm_availability K ussa)) (bindE (UpsertUssAvailability L ctx ussa) (\<lambda>x. ret (Some x))) (sraft_UpsertUssAvailability L J K c ctx ussa)"
  by (intro conjI scd_reads [OF assms] scd_writes [OF assms])

definition demo_scd_marshal :: scd_marshal where
  "demo_scd_marshal = \<lparr>jsm_volume = (\<lambda>_. Err (NewError ''json'')), jsm_ID = Ok, jsm_manager = Ok,
     jsm_time = (\<lambda>_. Err (NewError ''json'')), jsm_constraint = (\<lambda>_. Err (NewError ''json'')),
     jsm_subscription = (\<lambda>_. Err (NewError ''json'')), jsm_intent = (\<lambda>_. Err (NewError ''json'')),
     jsm_availability = (\<lambda>_. Err (NewError ''json''))\<rparr>"

theorem scd_client_refines_witness:
  "fst (sraft_GetDependentOperationalIntents demo_externals demo_scd_codec demo_scd_marshal
      \<lparr>cc_delivery = Delivered, cc_newID = ''p'', cc_nodeID = 1\<rparr> (Some 7) ''sub'' scd_newRepo) =
   fst (GetDependentOperationalIntents ''sub'' (mr_state scd_newRepo))"
proof -
  let ?c = "\<lparr>cc_delivery = Delivered, cc_newID = ''p'', cc_nodeID = 1\<rparr>"
  have j: "scd_codec_inverts demo_scd_codec demo_scd_marshal" "scd_marshal_plain demo_scd_marshal"
    by (simp_all add: scd_codec_inverts_def scd_marshal_plain_def demo_scd_marshal_def demo_scd_codec_def)
  have l: "live_call ?c (Some 7) (jsm_ID demo_scd_marshal ''sub'')"
    by (simp add: live_call_def demo_scd_marshal_def MustFromContext_def IsZero_def zero_time_def)
  obtain x r' where x: "sraft_GetDependentOperationalIntents demo_externals demo_scd_codec demo_scd_marshal ?c (Some 7) ''sub'' scd_newRepo = (x, r')"
    by fastforce
  have "reads_as (live_call ?c (Some 7) (jsm_ID demo_scd_marshal ''sub'')) (GetDependentOperationalIntents ''sub'')
      (sraft_GetDependentOperationalIntents demo_externals demo_scd_codec demo_scd_marshal ?c (Some 7) ''sub'')"
    using scd_client_refines [OF j, of ?c "Some 7"] by blast
  with x l show ?thesis unfolding reads_as_def by auto
qed

end
