(* ===== verification/Rid_Models.thy ===== *)
theory Rid_Models
  imports Dss_Models
begin

text \<open>
  The entities of the remote-identification service, \<open>src/pkg/rid/models\<close>: identification service
  areas (ISAs), subscriptions, and the adjustment of their time ranges. Every constructor of the program
  sets the embedded \<open>*CellsVolume4D\<close>, so it is a plain field here.
\<close>

section \<open>Entities\<close>

record IdentificationServiceArea =
  isa_ID :: ID
  isa_URL :: string
  isa_Owner :: Owner
  isa_Version :: "version option"
  isa_Writer :: string
  isa_Volume :: cells_volume_4d

record rid_Subscription =
  rs_ID :: ID
  rs_URL :: string
  rs_NotificationIndex :: "64 word"
  rs_Owner :: Owner
  rs_Version :: "version option"
  rs_Writer :: string
  rs_Volume :: cells_volume_4d

definition isa_SetCells :: "int list \<Rightarrow> IdentificationServiceArea \<Rightarrow> IdentificationServiceArea" where
  "isa_SetCells cids i = i\<lparr>isa_Volume := (isa_Volume i)\<lparr>cv_Cells := CellUnionFromInt64 cids\<rparr>\<rparr>"

definition rs_SetCells :: "int list \<Rightarrow> rid_Subscription \<Rightarrow> rid_Subscription" where
  "rs_SetCells cids s = s\<lparr>rs_Volume := (rs_Volume s)\<lparr>cv_Cells := map word_of_int cids\<rparr>\<rparr>"

definition ValidateURL :: "externals \<Rightarrow> string \<Rightarrow> unit outcome" where
  "ValidateURL L s =
     (case url_ParseScheme L s of
        None \<Rightarrow> Err (NewError ''Error parsing URL'')
      | Some scheme \<Rightarrow>
          if scheme = ''https'' then Ok ()
          else if scheme = ''http'' then Err (NewError ''rid url must use TLS'')
          else Err (NewError ''rid url must support https scheme''))"

section \<open>Time ranges\<close>

abbreviation rid_maxSubscriptionDuration :: duration where "rid_maxSubscriptionDuration \<equiv> Hour * 24"
abbreviation rid_maxClockSkew :: duration where "rid_maxClockSkew \<equiv> Minute * 5"

text \<open>The first step of both \<open>AdjustTimeRange\<close> methods: the start time, or the one it defaults to. The
  old entity is given by its two times.\<close>

definition rid_adjust_start :: "string \<Rightarrow> time \<Rightarrow> time option \<Rightarrow> (time option \<times> time option) option \<Rightarrow> time option outcome" where
  "rid_adjust_start what now start old =
     (case start of
        None \<Rightarrow> Ok (case old of None \<Rightarrow> Some now | Some (s, _) \<Rightarrow> s)
      | Some s \<Rightarrow>
          if Sub now s > rid_maxClockSkew
          then Err (NewErrorWithCode BadRequest (what @ '' time_start must not be in the past''))
          else Ok start)"

definition adjust_isa_times ::
    "time \<Rightarrow> time option \<Rightarrow> time option \<Rightarrow> (time option \<times> time option) option \<Rightarrow> (time option \<times> time option) outcome" where
  "adjust_isa_times now start end1 old =
     obind (rid_adjust_start ''IdentificationServiceArea'' now start old) (\<lambda>start'.
     let end2 = (if end1 = None then (case old of None \<Rightarrow> None | Some (_, e) \<Rightarrow> e) else end1) in
     case end2 of
       None \<Rightarrow> Err (NewErrorWithCode BadRequest ''IdentificationServiceArea must have an time_end'')
     | Some e \<Rightarrow>
         obind (deref start') (\<lambda>s.
         if Sub e s < 0
         then Err (NewErrorWithCode BadRequest ''IdentificationServiceArea time_end must be after time_start'')
         else Ok (Some s, Some e)))"

definition adjust_rid_sub_times ::
    "time \<Rightarrow> time option \<Rightarrow> time option \<Rightarrow> (time option \<times> time option) option \<Rightarrow> (time option \<times> time option) outcome" where
  "adjust_rid_sub_times now start end1 old =
     obind (rid_adjust_start ''Subscription'' now start old) (\<lambda>start'.
     let end2 = (if end1 = None then (case old of None \<Rightarrow> None | Some (_, e) \<Rightarrow> e) else end1) in
     obind (case end2 of
              None \<Rightarrow> obind (deref start') (\<lambda>s. Ok (s + rid_maxSubscriptionDuration))
            | Some e \<Rightarrow> Ok e) (\<lambda>e.
     obind (deref start') (\<lambda>s.
     if Sub e s < 0
     then Err (NewErrorWithCode BadRequest ''Subscription time_end must be after time_start'')
     else if Sub e s > rid_maxSubscriptionDuration
     then Err (NewErrorWithCode BadRequest ''Subscription window exceeds 24 hours'')
     else Ok (Some s, Some e))))"

definition ISA_AdjustTimeRange ::
    "time \<Rightarrow> IdentificationServiceArea \<Rightarrow> IdentificationServiceArea option \<Rightarrow> IdentificationServiceArea outcome" where
  "ISA_AdjustTimeRange now i old =
     obind (adjust_isa_times now (cv_StartTime (isa_Volume i)) (cv_EndTime (isa_Volume i))
              (map_option (\<lambda>o1. (cv_StartTime (isa_Volume o1), cv_EndTime (isa_Volume o1))) old))
       (\<lambda>(st, en). Ok (i\<lparr>isa_Volume := (isa_Volume i)\<lparr>cv_StartTime := st, cv_EndTime := en\<rparr>\<rparr>))"

definition rid_AdjustTimeRange ::
    "time \<Rightarrow> rid_Subscription \<Rightarrow> rid_Subscription option \<Rightarrow> rid_Subscription outcome" where
  "rid_AdjustTimeRange now s old =
     obind (adjust_rid_sub_times now (cv_StartTime (rs_Volume s)) (cv_EndTime (rs_Volume s))
              (map_option (\<lambda>o1. (cv_StartTime (rs_Volume o1), cv_EndTime (rs_Volume o1))) old))
       (\<lambda>(st, en). Ok (s\<lparr>rs_Volume := (rs_Volume s)\<lparr>cv_StartTime := st, cv_EndTime := en\<rparr>\<rparr>))"

subsection \<open>What an adjusted range is\<close>

lemma rid_adjust_start_Ok:
  "rid_adjust_start w now start old = Ok st \<longleftrightarrow>
     (case start of None \<Rightarrow> st = (case old of None \<Rightarrow> Some now | Some (s, _) \<Rightarrow> s)
                  | Some t \<Rightarrow> now - t \<le> rid_maxClockSkew \<and> st = Some t)"
  using Sub_gt_iff [of rid_maxClockSkew now]
  by (auto simp: rid_adjust_start_def not_less split: option.splits prod.splits)

lemma adjust_isa_times_Ok:
  assumes "adjust_isa_times now start end1 old = Ok (st, en)"
  shows "\<exists>s e. st = Some s \<and> en = Some e \<and> s \<le> e \<and>
           (\<forall>t. start = Some t \<longrightarrow> s = t \<and> now - t \<le> rid_maxClockSkew) \<and>
           (start = None \<longrightarrow> st = (case old of None \<Rightarrow> Some now | Some (s, _) \<Rightarrow> s)) \<and>
           (\<forall>t. end1 = Some t \<longrightarrow> e = t) \<and> (end1 = None \<longrightarrow> (\<exists>s'. old = Some (s', en)))"
  using assms unfolding adjust_isa_times_def
  by (auto simp: monad_simps rid_adjust_start_Ok Let_def Sub_neg_iff not_less deref_def
      split: option.splits if_splits prod.splits)

lemma adjust_rid_sub_times_Ok:
  assumes "adjust_rid_sub_times now start end1 old = Ok (st, en)"
  shows "\<exists>s e. st = Some s \<and> en = Some e \<and> s \<le> e \<and> e - s \<le> rid_maxSubscriptionDuration \<and>
           (\<forall>t. start = Some t \<longrightarrow> s = t \<and> now - t \<le> rid_maxClockSkew) \<and>
           (start = None \<longrightarrow> st = (case old of None \<Rightarrow> Some now | Some (s, _) \<Rightarrow> s)) \<and>
           (\<forall>t. end1 = Some t \<longrightarrow> e = t) \<and>
           (end1 = None \<longrightarrow> (case old of None \<Rightarrow> e = s + rid_maxSubscriptionDuration | Some (_, oe) \<Rightarrow>
              (case oe of None \<Rightarrow> e = s + rid_maxSubscriptionDuration | Some t \<Rightarrow> e = t)))"
proof -
  let ?e = "if end1 = None then (case old of None \<Rightarrow> None | Some (_, e) \<Rightarrow> e) else end1"
  from assms obtain st' e s where a: "rid_adjust_start ''Subscription'' now start old = Ok st'"
      and e: "(case ?e of None \<Rightarrow> obind (deref st') (\<lambda>s. Ok (s + rid_maxSubscriptionDuration)) | Some e \<Rightarrow> Ok e) = Ok e"
      and s: "st' = Some s" and r: "\<not> Sub e s < 0" "\<not> Sub e s > rid_maxSubscriptionDuration" "st = Some s" "en = Some e"
    unfolding adjust_rid_sub_times_def Let_def
    by (auto simp: obind_Ok_iff deref_def split: if_splits option.splits)
  have st: "case start of None \<Rightarrow> st = (case old of None \<Rightarrow> Some now | Some (s, _) \<Rightarrow> s)
                  | Some t \<Rightarrow> now - t \<le> rid_maxClockSkew \<and> st = Some t"
    using a unfolding rid_adjust_start_Ok s r(3) .
  have bounds: "s \<le> e" "e - s \<le> rid_maxSubscriptionDuration"
    using r Sub_gt_iff [of rid_maxSubscriptionDuration e s] by (simp_all add: Sub_neg_iff)
  have "\<forall>t. end1 = Some t \<longrightarrow> e = t" using e by (cases end1) simp_all
  moreover have "end1 = None \<longrightarrow> (case old of None \<Rightarrow> e = s + rid_maxSubscriptionDuration | Some (_, oe) \<Rightarrow>
              (case oe of None \<Rightarrow> e = s + rid_maxSubscriptionDuration | Some t \<Rightarrow> e = t))"
    using e s by (auto split: option.splits prod.splits)
  moreover have "\<forall>t. start = Some t \<longrightarrow> s = t \<and> now - t \<le> rid_maxClockSkew"
      "start = None \<longrightarrow> st = (case old of None \<Rightarrow> Some now | Some (s, _) \<Rightarrow> s)"
    using st r(3) by (auto split: option.splits)
  ultimately show ?thesis using r(3,4) bounds by (intro exI [of _ s] exI [of _ e] conjI)
qed

lemma rid_adjust_start_codes:
  "rid_adjust_start w now start old = Err e \<Longrightarrow> GetCode e = Some BadRequest"
  by (auto simp: rid_adjust_start_def split: option.splits prod.splits if_splits)

lemma adjusted_bounds:
  "adjust_isa_times now start end1 old = Ok (st, en) \<Longrightarrow> \<exists>s e. st = Some s \<and> en = Some e \<and> s \<le> e"
  "adjust_rid_sub_times now start end1 old = Ok (st, en) \<Longrightarrow>
     \<exists>s e. st = Some s \<and> en = Some e \<and> s \<le> e \<and> e - s \<le> rid_maxSubscriptionDuration"
  using adjust_isa_times_Ok [of now start end1 old st en] adjust_rid_sub_times_Ok [of now start end1 old st en] by blast+

lemma ISA_AdjustTimeRange_frame:
  "ISA_AdjustTimeRange now i old = Ok j \<Longrightarrow>
     isa_ID j = isa_ID i \<and> isa_Owner j = isa_Owner i \<and> isa_URL j = isa_URL i \<and> isa_Version j = isa_Version i \<and>
     isa_Writer j = isa_Writer i \<and> cv_Cells (isa_Volume j) = cv_Cells (isa_Volume i) \<and>
     (\<exists>s e. cv_StartTime (isa_Volume j) = Some s \<and> cv_EndTime (isa_Volume j) = Some e \<and> s \<le> e)"
  by (auto simp: ISA_AdjustTimeRange_def monad_simps dest!: adjusted_bounds)

lemma rid_AdjustTimeRange_frame:
  "rid_AdjustTimeRange now s old = Ok t \<Longrightarrow>
     rs_ID t = rs_ID s \<and> rs_Owner t = rs_Owner s \<and> rs_URL t = rs_URL s \<and> rs_Version t = rs_Version s \<and>
     rs_Writer t = rs_Writer s \<and> rs_NotificationIndex t = rs_NotificationIndex s \<and>
     cv_Cells (rs_Volume t) = cv_Cells (rs_Volume s) \<and>
     (\<exists>a e. cv_StartTime (rs_Volume t) = Some a \<and> cv_EndTime (rs_Volume t) = Some e \<and>
        a \<le> e \<and> e - a \<le> rid_maxSubscriptionDuration)"
  by (auto simp: rid_AdjustTimeRange_def monad_simps dest!: adjusted_bounds)

end
