(* ===== verification/Rid_Memstore.thy ===== *)
theory Rid_Memstore
  imports Rid_Models Interfaces
begin

text \<open>
  The in-memory store of the remote-identification service, \<open>src/pkg/rid/store/memstore\<close>: its records
  and state, the repository operations, its checkpoint and snapshot. As in the other store, the context
  of an operation is its request timestamp, and the operations act on the state of the repository.
\<close>

section \<open>Records and state\<close>

record isaRecord =
  ir_ID :: ID
  ir_URL :: string
  ir_Owner :: Owner
  ir_Cells :: cell_union
  ir_StartTime :: time
  ir_EndTime :: time
  ir_AltitudeHi :: "rat option"
  ir_AltitudeLo :: "rat option"
  ir_Writer :: string
  ir_UpdatedAt :: time

record rid_subscriptionRecord =
  rr_ID :: ID
  rr_URL :: string
  rr_NotificationIndex :: "64 word"
  rr_Owner :: Owner
  rr_Cells :: cell_union
  rr_StartTime :: time
  rr_EndTime :: time
  rr_AltitudeHi :: "rat option"
  rr_AltitudeLo :: "rat option"
  rr_Writer :: string
  rr_UpdatedAt :: time

record rid_state =
  rid_ISAs :: "(ID, isaRecord) gomap"
  rid_Subscriptions :: "(ID, rid_subscriptionRecord) gomap"

definition empty_rid_state :: rid_state where
  "empty_rid_state = \<lparr>rid_ISAs = [], rid_Subscriptions = []\<rparr>"

definition validateWriteData :: "externals \<Rightarrow> cell_union \<Rightarrow> time option \<Rightarrow> time option \<Rightarrow> unit outcome" where
  "validateWriteData L cells start end1 =
     (if length cells = 0 then Err (NewError ''At least one cell must be provided'')
      else obind (validate_cells L cells) (\<lambda>_.
        case start of
          None \<Rightarrow> Err (NewError ''Start time must be provided'')
        | Some s \<Rightarrow>
            (case end1 of
               None \<Rightarrow> Err (NewError ''End time must be provided'')
             | Some e \<Rightarrow> if \<not> s < e then Err (NewError ''Start time must be strictly before end time'') else Ok ())))"

definition rid_cellSet :: "cell_union \<Rightarrow> cell_id set" where
  "rid_cellSet cells = set cells"

definition rid_overlaps :: "cell_union \<Rightarrow> cell_id set \<Rightarrow> bool" where
  "rid_overlaps cells want = list_ex (\<lambda>c. c \<in> want) cells"

definition isaRecord_version :: "isaRecord \<Rightarrow> version option" where
  "isaRecord_version r = Some (VersionFromTime (ir_UpdatedAt r))"

definition rid_subscriptionRecord_version :: "rid_subscriptionRecord \<Rightarrow> version option" where
  "rid_subscriptionRecord_version r = Some (VersionFromTime (rr_UpdatedAt r))"

definition findForWrite :: "('r \<Rightarrow> version option) \<Rightarrow> (ID, 'r) gomap \<Rightarrow> ID \<Rightarrow> version option \<Rightarrow> 'r option" where
  "findForWrite version_of store i want =
     (case map_of store i of
        None \<Rightarrow> None
      | Some r \<Rightarrow> if \<not> Version_Matches (version_of r) want then None else Some r)"

text \<open>\<open>listExpired\<close> stops once it has one ID more than the limit.\<close>

definition rid_listExpired :: "('r \<Rightarrow> time) \<Rightarrow> (ID, 'r) gomap \<Rightarrow> time \<Rightarrow> nat \<Rightarrow> ID list" where
  "rid_listExpired endTime store threshold limit =
     range_until (\<lambda>n. limit > 0 \<and> n > limit) (\<lambda>(i, r). \<not> endTime r > threshold) fst [] store"

section \<open>Identification service areas\<close>

definition isaRecordFromModel :: "IdentificationServiceArea \<Rightarrow> time \<Rightarrow> isaRecord outcome" where
  "isaRecordFromModel i updatedAt =
     obind (deref (cv_StartTime (isa_Volume i))) (\<lambda>start.
     obind (deref (cv_EndTime (isa_Volume i))) (\<lambda>end1.
     Ok \<lparr>ir_ID = isa_ID i, ir_URL = isa_URL i, ir_Owner = isa_Owner i, ir_Cells = cv_Cells (isa_Volume i),
         ir_StartTime = start, ir_EndTime = end1,
         ir_AltitudeHi = ClonePtr (cv_AltitudeHi (isa_Volume i)), ir_AltitudeLo = ClonePtr (cv_AltitudeLo (isa_Volume i)),
         ir_Writer = isa_Writer i, ir_UpdatedAt = updatedAt\<rparr>))"

definition isaRecord_toModel :: "isaRecord \<Rightarrow> IdentificationServiceArea" where
  "isaRecord_toModel r = \<lparr>
     isa_ID = ir_ID r, isa_URL = ir_URL r, isa_Owner = ir_Owner r,
     isa_Version = Some (VersionFromTime (ir_UpdatedAt r)), isa_Writer = ir_Writer r,
     isa_Volume = \<lparr>cv_Cells = ir_Cells r, cv_StartTime = Some (ir_StartTime r), cv_EndTime = Some (ir_EndTime r),
                   cv_AltitudeLo = ClonePtr (ir_AltitudeLo r), cv_AltitudeHi = ClonePtr (ir_AltitudeHi r)\<rparr>\<rparr>"

definition GetISA :: "ID \<Rightarrow> bool \<Rightarrow> (rid_state, IdentificationServiceArea option) op" where
  "GetISA i forUpdate = reads (\<lambda>st. Ok (map_option isaRecord_toModel (map_of (rid_ISAs st) i)))"

definition InsertISA :: "externals \<Rightarrow> ctx \<Rightarrow> IdentificationServiceArea \<Rightarrow> (rid_state, IdentificationServiceArea) op" where
  "InsertISA L ctx i =
     bindE (liftO (validateWriteData L (cv_Cells (isa_Volume i)) (cv_StartTime (isa_Volume i)) (cv_EndTime (isa_Volume i)))) (\<lambda>_.
     bindE (reads (\<lambda>st. Ok (map_of (rid_ISAs st) (isa_ID i)))) (\<lambda>existing.
     if existing \<noteq> None then fail (NewError (''ISA with id '' @ isa_ID i @ '' already exists''))
     else
       bindE (liftO (MustFromContext ctx)) (\<lambda>now.
       bindE (liftO (isaRecordFromModel i now)) (\<lambda>r.
       bindE (modifies (\<lambda>st. st\<lparr>rid_ISAs := AList.update (isa_ID i) r (rid_ISAs st)\<rparr>)) (\<lambda>_.
       ret (isaRecord_toModel r))))))"

definition UpdateISA :: "externals \<Rightarrow> ctx \<Rightarrow> IdentificationServiceArea \<Rightarrow> (rid_state, IdentificationServiceArea option) op" where
  "UpdateISA L ctx i =
     bindE (liftO (validateWriteData L (cv_Cells (isa_Volume i)) (cv_StartTime (isa_Volume i)) (cv_EndTime (isa_Volume i)))) (\<lambda>_.
     bindE (reads (\<lambda>st. Ok (findForWrite isaRecord_version (rid_ISAs st) (isa_ID i) (isa_Version i)))) (\<lambda>found.
     case found of
       None \<Rightarrow> ret None
     | Some prev \<Rightarrow>
         bindE (liftO (MustFromContext ctx)) (\<lambda>now.
         bindE (liftO (isaRecordFromModel i now)) (\<lambda>r0.
         let r = r0\<lparr>ir_Owner := ir_Owner prev\<rparr> in
         bindE (modifies (\<lambda>st. st\<lparr>rid_ISAs := AList.update (isa_ID i) r (rid_ISAs st)\<rparr>)) (\<lambda>_.
         ret (Some (isaRecord_toModel r)))))))"

definition DeleteISA :: "IdentificationServiceArea \<Rightarrow> (rid_state, IdentificationServiceArea option) op" where
  "DeleteISA i =
     bindE (reads (\<lambda>st. Ok (findForWrite isaRecord_version (rid_ISAs st) (isa_ID i) (isa_Version i)))) (\<lambda>found.
     case found of
       None \<Rightarrow> ret None
     | Some r \<Rightarrow>
         bindE (modifies (\<lambda>st. st\<lparr>rid_ISAs := AList.delete (isa_ID i) (rid_ISAs st)\<rparr>)) (\<lambda>_.
         ret (Some (isaRecord_toModel r))))"

definition isa_selected :: "cell_union \<Rightarrow> time \<Rightarrow> time option \<Rightarrow> isaRecord \<Rightarrow> bool" where
  "isa_selected cells earliest latest r =
     (if ir_EndTime r < earliest then False
      else if (case latest of None \<Rightarrow> False | Some l \<Rightarrow> ir_StartTime r > l) then False
      else rid_overlaps (ir_Cells r) (rid_cellSet cells))"

definition SearchISAs :: "cell_union \<Rightarrow> time option \<Rightarrow> time option \<Rightarrow> (rid_state, IdentificationServiceArea list) op" where
  "SearchISAs cells earliest latest =
     (if length cells = 0 then fail (NewErrorWithCode BadRequest ''Missing cell IDs for query'')
      else case earliest of
             None \<Rightarrow> fail (NewError ''Earliest start time is missing'')
           | Some e \<Rightarrow> reads (\<lambda>st. Ok (range_until (\<lambda>n. n > MaxResultLimit) (isa_selected cells e latest)
                                         isaRecord_toModel [] (map snd (rid_ISAs st)))))"

definition ListExpiredISAs :: "time \<Rightarrow> (rid_state, ID list) op" where
  "ListExpiredISAs threshold = reads (\<lambda>st. Ok (rid_listExpired ir_EndTime (rid_ISAs st) threshold MaxResultLimit))"

definition DeleteExpiredISAs :: "time \<Rightarrow> int \<Rightarrow> (rid_state, ID list) op" where
  "DeleteExpiredISAs threshold limit =
     fail (NewErrorWithCode NotImplemented ''DeleteExpiredISAs not implemented for memstore'')"

definition CountISAs :: "(rid_state, nat) op" where
  "CountISAs = reads (\<lambda>st. Ok (length (rid_ISAs st)))"

section \<open>Subscriptions\<close>

definition subRecordFromModel :: "rid_Subscription \<Rightarrow> time \<Rightarrow> rid_subscriptionRecord outcome" where
  "subRecordFromModel s updatedAt =
     obind (deref (cv_StartTime (rs_Volume s))) (\<lambda>start.
     obind (deref (cv_EndTime (rs_Volume s))) (\<lambda>end1.
     Ok \<lparr>rr_ID = rs_ID s, rr_URL = rs_URL s, rr_NotificationIndex = rs_NotificationIndex s, rr_Owner = rs_Owner s,
         rr_Cells = cv_Cells (rs_Volume s), rr_StartTime = start, rr_EndTime = end1,
         rr_AltitudeHi = ClonePtr (cv_AltitudeHi (rs_Volume s)), rr_AltitudeLo = ClonePtr (cv_AltitudeLo (rs_Volume s)),
         rr_Writer = rs_Writer s, rr_UpdatedAt = updatedAt\<rparr>))"

definition rid_subscriptionRecord_toModel :: "rid_subscriptionRecord \<Rightarrow> rid_Subscription" where
  "rid_subscriptionRecord_toModel r = \<lparr>
     rs_ID = rr_ID r, rs_URL = rr_URL r, rs_NotificationIndex = rr_NotificationIndex r, rs_Owner = rr_Owner r,
     rs_Version = Some (VersionFromTime (rr_UpdatedAt r)), rs_Writer = rr_Writer r,
     rs_Volume = \<lparr>cv_Cells = rr_Cells r, cv_StartTime = Some (rr_StartTime r), cv_EndTime = Some (rr_EndTime r),
                  cv_AltitudeLo = ClonePtr (rr_AltitudeLo r), cv_AltitudeHi = ClonePtr (rr_AltitudeHi r)\<rparr>\<rparr>"

definition rid_GetSubscription :: "ID \<Rightarrow> (rid_state, rid_Subscription option) op" where
  "rid_GetSubscription i = reads (\<lambda>st. Ok (map_option rid_subscriptionRecord_toModel (map_of (rid_Subscriptions st) i)))"

definition InsertSubscription :: "externals \<Rightarrow> ctx \<Rightarrow> rid_Subscription \<Rightarrow> (rid_state, rid_Subscription) op" where
  "InsertSubscription L ctx s =
     bindE (liftO (validateWriteData L (cv_Cells (rs_Volume s)) (cv_StartTime (rs_Volume s)) (cv_EndTime (rs_Volume s)))) (\<lambda>_.
     bindE (reads (\<lambda>st. Ok (map_of (rid_Subscriptions st) (rs_ID s)))) (\<lambda>existing.
     if existing \<noteq> None then fail (NewError (''Subscription with id '' @ rs_ID s @ '' already exists''))
     else
       bindE (liftO (MustFromContext ctx)) (\<lambda>now.
       bindE (liftO (subRecordFromModel s now)) (\<lambda>r.
       bindE (modifies (\<lambda>st. st\<lparr>rid_Subscriptions := AList.update (rs_ID s) r (rid_Subscriptions st)\<rparr>)) (\<lambda>_.
       ret (rid_subscriptionRecord_toModel r))))))"

definition UpdateSubscription :: "externals \<Rightarrow> ctx \<Rightarrow> rid_Subscription \<Rightarrow> (rid_state, rid_Subscription option) op" where
  "UpdateSubscription L ctx s =
     bindE (liftO (validateWriteData L (cv_Cells (rs_Volume s)) (cv_StartTime (rs_Volume s)) (cv_EndTime (rs_Volume s)))) (\<lambda>_.
     bindE (reads (\<lambda>st. Ok (findForWrite rid_subscriptionRecord_version (rid_Subscriptions st) (rs_ID s) (rs_Version s)))) (\<lambda>found.
     case found of
       None \<Rightarrow> ret None
     | Some prev \<Rightarrow>
         bindE (liftO (MustFromContext ctx)) (\<lambda>now.
         bindE (liftO (subRecordFromModel s now)) (\<lambda>r0.
         let r = r0\<lparr>rr_Owner := rr_Owner prev\<rparr> in
         bindE (modifies (\<lambda>st. st\<lparr>rid_Subscriptions := AList.update (rs_ID s) r (rid_Subscriptions st)\<rparr>)) (\<lambda>_.
         ret (Some (rid_subscriptionRecord_toModel r)))))))"

definition rid_DeleteSubscription :: "rid_Subscription \<Rightarrow> (rid_state, rid_Subscription option) op" where
  "rid_DeleteSubscription s =
     bindE (reads (\<lambda>st. Ok (findForWrite rid_subscriptionRecord_version (rid_Subscriptions st) (rs_ID s) (rs_Version s)))) (\<lambda>found.
     case found of
       None \<Rightarrow> ret None
     | Some r \<Rightarrow>
         bindE (modifies (\<lambda>st. st\<lparr>rid_Subscriptions := AList.delete (rs_ID s) (rid_Subscriptions st)\<rparr>)) (\<lambda>_.
         ret (Some (rid_subscriptionRecord_toModel r))))"

text \<open>The condition under which \<open>liveSubscriptionsInCells\<close> yields a record.\<close>

definition liveSubscriptionsInCells :: "time \<Rightarrow> cell_union \<Rightarrow> Owner option \<Rightarrow> rid_subscriptionRecord \<Rightarrow> bool" where
  "liveSubscriptionsInCells now cells owner r =
     (if (case owner of None \<Rightarrow> False | Some o1 \<Rightarrow> rr_Owner r \<noteq> o1) then False
      else if rr_EndTime r < now then False
      else rid_overlaps (rr_Cells r) (rid_cellSet cells))"

definition searchSubscriptions :: "ctx \<Rightarrow> cell_union \<Rightarrow> Owner option \<Rightarrow> (rid_state, rid_Subscription list) op" where
  "searchSubscriptions ctx cells owner =
     (if length cells = 0 then fail (NewErrorWithCode BadRequest ''no location provided'')
      else bindE (liftO (MustFromContext ctx)) (\<lambda>now.
             reads (\<lambda>st. Ok (range_until (\<lambda>n. n > MaxResultLimit) (liveSubscriptionsInCells now cells owner)
                               rid_subscriptionRecord_toModel [] (map snd (rid_Subscriptions st))))))"

definition rid_SearchSubscriptions :: "ctx \<Rightarrow> cell_union \<Rightarrow> (rid_state, rid_Subscription list) op" where
  "rid_SearchSubscriptions ctx cells = searchSubscriptions ctx cells None"

definition SearchSubscriptionsByOwner :: "ctx \<Rightarrow> cell_union \<Rightarrow> Owner \<Rightarrow> (rid_state, rid_Subscription list) op" where
  "SearchSubscriptionsByOwner ctx cells owner = searchSubscriptions ctx cells (Some owner)"

text \<open>The index is a Go \<open>int\<close>, 64 bits wide, and wraps.\<close>

definition rid_bump :: "rid_subscriptionRecord \<Rightarrow> rid_subscriptionRecord" where
  "rid_bump r = r\<lparr>rr_NotificationIndex := rr_NotificationIndex r + 1\<rparr>"

definition UpdateNotificationIdxsInCells :: "ctx \<Rightarrow> cell_union \<Rightarrow> (rid_state, rid_Subscription list) op" where
  "UpdateNotificationIdxsInCells ctx cells =
     bindE (liftO (MustFromContext ctx)) (\<lambda>now st.
     case range_modify (liveSubscriptionsInCells now cells None) rid_bump rid_subscriptionRecord_toModel []
            (rid_Subscriptions st) of
       (out, m) \<Rightarrow> (Ok out, st\<lparr>rid_Subscriptions := m\<rparr>))"

definition count_cell :: "cell_id \<Rightarrow> (cell_id, nat) gomap \<Rightarrow> (cell_id, nat) gomap" where
  "count_cell c counts = AList.update c (case map_of counts c of None \<Rightarrow> 1 | Some n \<Rightarrow> Suc n) counts"

definition MaxSubscriptionCountInCellsByOwner :: "ctx \<Rightarrow> cell_union \<Rightarrow> Owner \<Rightarrow> (rid_state, nat) op" where
  "MaxSubscriptionCountInCellsByOwner ctx cells owner =
     bindE (liftO (MustFromContext ctx)) (\<lambda>now. reads (\<lambda>st.
     let want = rid_cellSet cells;
         live = filter (liveSubscriptionsInCells now cells (Some owner)) (map snd (rid_Subscriptions st));
         counts = fold (\<lambda>r counts. fold (\<lambda>c counts. if c \<in> want then count_cell c counts else counts) (rr_Cells r) counts)
                    live []
     in if length counts = 0 then Ok 0 else Ok (Max (set (map snd counts)))))"

definition rid_ListExpiredSubscriptions :: "time \<Rightarrow> (rid_state, ID list) op" where
  "rid_ListExpiredSubscriptions threshold = reads (\<lambda>st. Ok (rid_listExpired rr_EndTime (rid_Subscriptions st) threshold 0))"

definition rid_DeleteExpiredSubscriptions :: "time \<Rightarrow> int \<Rightarrow> (rid_state, ID list) op" where
  "rid_DeleteExpiredSubscriptions threshold limit =
     fail (NewErrorWithCode NotImplemented ''DeleteExpiredSubscriptions not implemented for memstore'')"

definition rid_CountSubscriptions :: "(rid_state, nat) op" where
  "rid_CountSubscriptions = reads (\<lambda>st. Ok (length (rid_Subscriptions st)))"

section \<open>Checkpoints and snapshots\<close>

definition isaRecord_clone :: "isaRecord \<Rightarrow> isaRecord" where
  "isaRecord_clone r = r\<lparr>ir_Cells := ir_Cells r, ir_AltitudeHi := ClonePtr (ir_AltitudeHi r), ir_AltitudeLo := ClonePtr (ir_AltitudeLo r)\<rparr>"

definition rid_subscriptionRecord_clone :: "rid_subscriptionRecord \<Rightarrow> rid_subscriptionRecord" where
  "rid_subscriptionRecord_clone r =
     r\<lparr>rr_Cells := rr_Cells r, rr_AltitudeHi := ClonePtr (rr_AltitudeHi r), rr_AltitudeLo := ClonePtr (rr_AltitudeLo r)\<rparr>"

definition rid_state_clone :: "rid_state \<Rightarrow> rid_state" where
  "rid_state_clone s = \<lparr>rid_ISAs = map_values isaRecord_clone (rid_ISAs s),
     rid_Subscriptions = map_values rid_subscriptionRecord_clone (rid_Subscriptions s)\<rparr>"

type_synonym rid_repo = "rid_state mem_repo"

definition rid_Checkpoint :: "rid_repo \<Rightarrow> rid_repo" where
  "rid_Checkpoint r = r\<lparr>mr_checkpoint := rid_state_clone (mr_state r)\<rparr>"

definition rid_Restore :: "rid_repo \<Rightarrow> rid_repo" where
  "rid_Restore r = r\<lparr>mr_state := rid_state_clone (mr_checkpoint r)\<rparr>"

definition rid_newRepo :: rid_repo where
  "rid_newRepo = rid_Checkpoint \<lparr>mr_state = empty_rid_state, mr_checkpoint = empty_rid_state\<rparr>"

record rid_envelope =
  re_Version :: int
  re_ISAs :: "(ID, isaRecord) gomap option"
  re_Subscriptions :: "(ID, rid_subscriptionRecord) gomap option"

definition gob_isa :: "isaRecord \<Rightarrow> isaRecord" where
  "gob_isa r = r\<lparr>ir_AltitudeHi := gob_ptr 0 (ir_AltitudeHi r), ir_AltitudeLo := gob_ptr 0 (ir_AltitudeLo r)\<rparr>"

definition gob_rid_sub :: "rid_subscriptionRecord \<Rightarrow> rid_subscriptionRecord" where
  "gob_rid_sub r = r\<lparr>rr_AltitudeHi := gob_ptr 0 (rr_AltitudeHi r), rr_AltitudeLo := gob_ptr 0 (rr_AltitudeLo r)\<rparr>"

abbreviation rid_snapshotVersion :: int where "rid_snapshotVersion \<equiv> 1"

definition rid_GetSnapshot :: "rid_repo \<Rightarrow> rid_envelope gob_data" where
  "rid_GetSnapshot r = Gob \<lparr>re_Version = rid_snapshotVersion,
     re_ISAs = gob_map gob_isa (rid_ISAs (mr_state r)),
     re_Subscriptions = gob_map gob_rid_sub (rid_Subscriptions (mr_state r))\<rparr>"

definition rid_RestoreFromSnapshot :: "rid_envelope gob_data \<Rightarrow> (rid_repo, unit) op" where
  "rid_RestoreFromSnapshot data r =
     (case data of
        NotGob e \<Rightarrow> (Err e, r)
      | Gob env \<Rightarrow>
          if re_Version env \<noteq> rid_snapshotVersion
          then (Err (NewError ''Unsupported memstore snapshot version''), r)
          else (Ok (), r\<lparr>mr_state := \<lparr>rid_ISAs = nil_map (re_ISAs env), rid_Subscriptions = nil_map (re_Subscriptions env)\<rparr>\<rparr>))"

section \<open>What the operations return\<close>

definition find_isa :: "rid_state \<Rightarrow> ID \<Rightarrow> IdentificationServiceArea option" where
  "find_isa st i = map_option isaRecord_toModel (map_of (rid_ISAs st) i)"

definition find_rid_sub :: "rid_state \<Rightarrow> ID \<Rightarrow> rid_Subscription option" where
  "find_rid_sub st i = map_option rid_subscriptionRecord_toModel (map_of (rid_Subscriptions st) i)"

lemma GetISA_conv [simp]: "GetISA i b st = (Ok (find_isa st i), st)"
  by (simp add: GetISA_def find_isa_def)

lemma rid_GetSubscription_conv [simp]: "rid_GetSubscription i st = (Ok (find_rid_sub st i), st)"
  by (simp add: rid_GetSubscription_def find_rid_sub_def)

lemma rid_overlaps_iff [simp]: "rid_overlaps cells (rid_cellSet want) \<longleftrightarrow> set cells \<inter> set want \<noteq> {}"
  by (auto simp: rid_overlaps_def rid_cellSet_def list_ex_iff)

lemma isaRecord_toModel_sel [simp]:
  "isa_ID (isaRecord_toModel r) = ir_ID r" "isa_URL (isaRecord_toModel r) = ir_URL r"
  "isa_Owner (isaRecord_toModel r) = ir_Owner r" "isa_Version (isaRecord_toModel r) = isaRecord_version r"
  "isa_Writer (isaRecord_toModel r) = ir_Writer r" "cv_Cells (isa_Volume (isaRecord_toModel r)) = ir_Cells r"
  "cv_StartTime (isa_Volume (isaRecord_toModel r)) = Some (ir_StartTime r)"
  "cv_EndTime (isa_Volume (isaRecord_toModel r)) = Some (ir_EndTime r)"
  by (simp_all add: isaRecord_toModel_def isaRecord_version_def)

lemma rid_sub_toModel_sel [simp]:
  "rs_ID (rid_subscriptionRecord_toModel r) = rr_ID r" "rs_URL (rid_subscriptionRecord_toModel r) = rr_URL r"
  "rs_NotificationIndex (rid_subscriptionRecord_toModel r) = rr_NotificationIndex r"
  "rs_Owner (rid_subscriptionRecord_toModel r) = rr_Owner r"
  "rs_Version (rid_subscriptionRecord_toModel r) = rid_subscriptionRecord_version r"
  "rs_Writer (rid_subscriptionRecord_toModel r) = rr_Writer r"
  "cv_Cells (rs_Volume (rid_subscriptionRecord_toModel r)) = rr_Cells r"
  "cv_StartTime (rs_Volume (rid_subscriptionRecord_toModel r)) = Some (rr_StartTime r)"
  "cv_EndTime (rs_Volume (rid_subscriptionRecord_toModel r)) = Some (rr_EndTime r)"
  by (simp_all add: rid_subscriptionRecord_toModel_def rid_subscriptionRecord_version_def)

lemma rid_bump_sel [simp]:
  "rr_ID (rid_bump r) = rr_ID r" "rr_Owner (rid_bump r) = rr_Owner r" "rr_Cells (rid_bump r) = rr_Cells r"
  "rr_StartTime (rid_bump r) = rr_StartTime r" "rr_EndTime (rid_bump r) = rr_EndTime r"
  "rr_URL (rid_bump r) = rr_URL r" "rr_Writer (rid_bump r) = rr_Writer r" "rr_UpdatedAt (rid_bump r) = rr_UpdatedAt r"
  "rr_NotificationIndex (rid_bump r) = rr_NotificationIndex r + 1"
  by (simp_all add: rid_bump_def)

definition valid_range :: "externals \<Rightarrow> cell_union \<Rightarrow> time \<Rightarrow> time \<Rightarrow> bool" where
  "valid_range L cells s e \<longleftrightarrow> cells \<noteq> [] \<and> (\<forall>c \<in> set cells. s2_Level L c = 13) \<and> s < e"

lemma validateWriteData_Ok [simp]:
  "validateWriteData L cells start end1 = Ok u \<longleftrightarrow>
     (\<exists>s e. start = Some s \<and> end1 = Some e \<and> valid_range L cells s e)"
  by (auto simp: validateWriteData_def valid_range_def monad_simps split: option.splits)

lemma validateWriteData_not_Panic [simp]: "validateWriteData L cells start end1 \<noteq> Panic"
  by (auto simp: validateWriteData_def monad_simps split: option.splits)

lemma validateWriteData_uncoded: "validateWriteData L cells start end1 = Err e \<Longrightarrow> GetCode e = None"
proof -
  have "validate_cells L cells = Err e \<Longrightarrow> GetCode e = None"
    by (induction cells) (auto simp: monad_simps ValidateCell_def split: if_splits)
  then show "validateWriteData L cells start end1 = Err e \<Longrightarrow> GetCode e = None"
    by (auto simp: validateWriteData_def monad_simps split: option.splits if_splits)
qed

lemma findForWrite_Some [simp]:
  "findForWrite version_of store i want = Some r \<longleftrightarrow>
     map_of store i = Some r \<and> Version_Matches (version_of r) want"
  by (auto simp: findForWrite_def split: option.splits)

lemma findForWrite_None [simp]:
  "findForWrite version_of store i want = None \<longleftrightarrow>
     (\<forall>r. map_of store i = Some r \<longrightarrow> \<not> Version_Matches (version_of r) want)"
  by (auto simp: findForWrite_def split: option.splits)

subsection \<open>Writes of service areas\<close>

definition isa_record :: "IdentificationServiceArea \<Rightarrow> time \<Rightarrow> time \<Rightarrow> time \<Rightarrow> isaRecord" where
  "isa_record i s e now = \<lparr>ir_ID = isa_ID i, ir_URL = isa_URL i, ir_Owner = isa_Owner i, ir_Cells = cv_Cells (isa_Volume i),
     ir_StartTime = s, ir_EndTime = e, ir_AltitudeHi = cv_AltitudeHi (isa_Volume i),
     ir_AltitudeLo = cv_AltitudeLo (isa_Volume i), ir_Writer = isa_Writer i, ir_UpdatedAt = now\<rparr>"

lemma isa_record_sel [simp]:
  "ir_ID (isa_record i s e now) = isa_ID i" "ir_Owner (isa_record i s e now) = isa_Owner i"
  "ir_Cells (isa_record i s e now) = cv_Cells (isa_Volume i)" "ir_StartTime (isa_record i s e now) = s"
  "ir_EndTime (isa_record i s e now) = e" "ir_UpdatedAt (isa_record i s e now) = now"
  "ir_URL (isa_record i s e now) = isa_URL i" "ir_Writer (isa_record i s e now) = isa_Writer i"
  by (simp_all add: isa_record_def)

lemma isaRecordFromModel_Ok:
  "isaRecordFromModel i now = Ok r \<longleftrightarrow>
     (\<exists>s e. cv_StartTime (isa_Volume i) = Some s \<and> cv_EndTime (isa_Volume i) = Some e \<and> r = isa_record i s e now)"
  by (auto simp: isaRecordFromModel_def isa_record_def monad_simps deref_def split: option.splits)

lemma InsertISA_Ok:
  "InsertISA L ctx i st = (Ok i', st') \<longleftrightarrow>
     (\<exists>s e now. cv_StartTime (isa_Volume i) = Some s \<and> cv_EndTime (isa_Volume i) = Some e \<and>
        valid_range L (cv_Cells (isa_Volume i)) s e \<and> map_of (rid_ISAs st) (isa_ID i) = None \<and>
        ctx = Some now \<and> \<not> IsZero now \<and> i' = isaRecord_toModel (isa_record i s e now) \<and>
        st' = st\<lparr>rid_ISAs := AList.update (isa_ID i) (isa_record i s e now) (rid_ISAs st)\<rparr>)"
  by (auto simp: InsertISA_def bindE_Ok isaRecordFromModel_Ok split: if_splits)

lemma UpdateISA_Some:
  "UpdateISA L ctx i st = (Ok (Some i'), st') \<longleftrightarrow>
     (\<exists>s e now prev. cv_StartTime (isa_Volume i) = Some s \<and> cv_EndTime (isa_Volume i) = Some e \<and>
        valid_range L (cv_Cells (isa_Volume i)) s e \<and> map_of (rid_ISAs st) (isa_ID i) = Some prev \<and>
        Version_Matches (isaRecord_version prev) (isa_Version i) \<and>
        ctx = Some now \<and> \<not> IsZero now \<and> i' = isaRecord_toModel ((isa_record i s e now)\<lparr>ir_Owner := ir_Owner prev\<rparr>) \<and>
        st' = st\<lparr>rid_ISAs := AList.update (isa_ID i) ((isa_record i s e now)\<lparr>ir_Owner := ir_Owner prev\<rparr>) (rid_ISAs st)\<rparr>)"
  by (auto simp: UpdateISA_def bindE_Ok isaRecordFromModel_Ok Let_def split: option.splits)

lemma DeleteISA_conv:
  "DeleteISA i st = (case findForWrite isaRecord_version (rid_ISAs st) (isa_ID i) (isa_Version i) of
     None \<Rightarrow> (Ok None, st)
   | Some r \<Rightarrow> (Ok (Some (isaRecord_toModel r)), st\<lparr>rid_ISAs := AList.delete (isa_ID i) (rid_ISAs st)\<rparr>))"
  by (simp add: DeleteISA_def bindE_def split: option.splits)

lemma isa_write_fails:
  "InsertISA L ctx i st = (r, st') \<Longrightarrow> \<not> is_Ok r \<Longrightarrow> st' = st"
  "UpdateISA L ctx i st = (r', st') \<Longrightarrow> \<forall>i'. r' \<noteq> Ok (Some i') \<Longrightarrow> st' = st"
  by (auto simp: InsertISA_def UpdateISA_def bindE_def Let_def split: outcome.splits option.splits if_splits)

interpretation isa_store: versioned_store "InsertISA L ctx" "UpdateISA L ctx" DeleteISA find_isa isa_ID
  "\<lambda>old i. Version_Matches (isa_Version old) (isa_Version i)" for L ctx
proof (unfold_locales, goal_cases)
  case (1 m s m' t)
  then show ?case by (auto simp: InsertISA_Ok find_isa_def map_of_update fun_eq_iff)
next
  case (3 m s m' t)
  then show ?case by (auto simp: UpdateISA_Some find_isa_def map_of_update fun_eq_iff)
next
  case (5 m s m' t)
  then show ?case by (auto simp: DeleteISA_conv find_isa_def map_of_delete fun_eq_iff split: option.splits)
next
  case (6 m s r' t)
  then show ?case by (auto simp: DeleteISA_conv split: option.splits)
qed (auto dest: isa_write_fails)

subsection \<open>Writes of subscriptions\<close>

definition sub_record :: "rid_Subscription \<Rightarrow> time \<Rightarrow> time \<Rightarrow> time \<Rightarrow> rid_subscriptionRecord" where
  "sub_record i s e now = \<lparr>rr_ID = rs_ID i, rr_URL = rs_URL i, rr_NotificationIndex = rs_NotificationIndex i,
     rr_Owner = rs_Owner i, rr_Cells = cv_Cells (rs_Volume i),
     rr_StartTime = s, rr_EndTime = e, rr_AltitudeHi = cv_AltitudeHi (rs_Volume i),
     rr_AltitudeLo = cv_AltitudeLo (rs_Volume i), rr_Writer = rs_Writer i, rr_UpdatedAt = now\<rparr>"

lemma sub_record_sel [simp]:
  "rr_ID (sub_record i s e now) = rs_ID i" "rr_Owner (sub_record i s e now) = rs_Owner i"
  "rr_Cells (sub_record i s e now) = cv_Cells (rs_Volume i)" "rr_StartTime (sub_record i s e now) = s"
  "rr_EndTime (sub_record i s e now) = e" "rr_UpdatedAt (sub_record i s e now) = now"
  "rr_NotificationIndex (sub_record i s e now) = rs_NotificationIndex i"
  "rr_URL (sub_record i s e now) = rs_URL i" "rr_Writer (sub_record i s e now) = rs_Writer i"
  by (simp_all add: sub_record_def)

lemma subRecordFromModel_Ok:
  "subRecordFromModel i now = Ok r \<longleftrightarrow>
     (\<exists>s e. cv_StartTime (rs_Volume i) = Some s \<and> cv_EndTime (rs_Volume i) = Some e \<and> r = sub_record i s e now)"
  by (auto simp: subRecordFromModel_def sub_record_def monad_simps deref_def split: option.splits)

lemma InsertSubscription_Ok:
  "InsertSubscription L ctx i st = (Ok i', st') \<longleftrightarrow>
     (\<exists>s e now. cv_StartTime (rs_Volume i) = Some s \<and> cv_EndTime (rs_Volume i) = Some e \<and>
        valid_range L (cv_Cells (rs_Volume i)) s e \<and> map_of (rid_Subscriptions st) (rs_ID i) = None \<and>
        ctx = Some now \<and> \<not> IsZero now \<and> i' = rid_subscriptionRecord_toModel (sub_record i s e now) \<and>
        st' = st\<lparr>rid_Subscriptions := AList.update (rs_ID i) (sub_record i s e now) (rid_Subscriptions st)\<rparr>)"
  by (auto simp: InsertSubscription_def bindE_Ok subRecordFromModel_Ok split: if_splits)

lemma UpdateSubscription_Some:
  "UpdateSubscription L ctx i st = (Ok (Some i'), st') \<longleftrightarrow>
     (\<exists>s e now prev. cv_StartTime (rs_Volume i) = Some s \<and> cv_EndTime (rs_Volume i) = Some e \<and>
        valid_range L (cv_Cells (rs_Volume i)) s e \<and> map_of (rid_Subscriptions st) (rs_ID i) = Some prev \<and>
        Version_Matches (rid_subscriptionRecord_version prev) (rs_Version i) \<and>
        ctx = Some now \<and> \<not> IsZero now \<and>
        i' = rid_subscriptionRecord_toModel ((sub_record i s e now)\<lparr>rr_Owner := rr_Owner prev\<rparr>) \<and>
        st' = st\<lparr>rid_Subscriptions :=
          AList.update (rs_ID i) ((sub_record i s e now)\<lparr>rr_Owner := rr_Owner prev\<rparr>) (rid_Subscriptions st)\<rparr>)"
  by (auto simp: UpdateSubscription_def bindE_Ok subRecordFromModel_Ok Let_def split: option.splits)

lemma rid_DeleteSubscription_conv:
  "rid_DeleteSubscription i st =
     (case findForWrite rid_subscriptionRecord_version (rid_Subscriptions st) (rs_ID i) (rs_Version i) of
        None \<Rightarrow> (Ok None, st)
      | Some r \<Rightarrow> (Ok (Some (rid_subscriptionRecord_toModel r)),
                    st\<lparr>rid_Subscriptions := AList.delete (rs_ID i) (rid_Subscriptions st)\<rparr>))"
  by (simp add: rid_DeleteSubscription_def bindE_def split: option.splits)

lemma rid_sub_write_fails:
  "InsertSubscription L ctx i st = (r, st') \<Longrightarrow> \<not> is_Ok r \<Longrightarrow> st' = st"
  "UpdateSubscription L ctx i st = (r', st') \<Longrightarrow> \<forall>i'. r' \<noteq> Ok (Some i') \<Longrightarrow> st' = st"
  by (auto simp: InsertSubscription_def UpdateSubscription_def bindE_def Let_def
      split: outcome.splits option.splits if_splits)

interpretation rid_sub_store: versioned_store "InsertSubscription L ctx" "UpdateSubscription L ctx"
  rid_DeleteSubscription find_rid_sub rs_ID
  "\<lambda>old i. Version_Matches (rs_Version old) (rs_Version i)" for L ctx
proof (unfold_locales, goal_cases)
  case (1 m s m' t)
  then show ?case by (auto simp: InsertSubscription_Ok find_rid_sub_def map_of_update fun_eq_iff)
next
  case (3 m s m' t)
  then show ?case by (auto simp: UpdateSubscription_Some find_rid_sub_def map_of_update fun_eq_iff)
next
  case (5 m s m' t)
  then show ?case by (auto simp: rid_DeleteSubscription_conv find_rid_sub_def map_of_delete fun_eq_iff split: option.splits)
next
  case (6 m s r' t)
  then show ?case by (auto simp: rid_DeleteSubscription_conv split: option.splits)
qed (auto dest: rid_sub_write_fails)

section \<open>The invariant of the state\<close>

definition isa_valid :: "externals \<Rightarrow> isaRecord \<Rightarrow> bool" where
  "isa_valid L r \<longleftrightarrow> valid_range L (ir_Cells r) (ir_StartTime r) (ir_EndTime r)"

definition rid_sub_valid :: "externals \<Rightarrow> rid_subscriptionRecord \<Rightarrow> bool" where
  "rid_sub_valid L r \<longleftrightarrow> valid_range L (rr_Cells r) (rr_StartTime r) (rr_EndTime r)"

definition rid_wf :: "externals \<Rightarrow> rid_state \<Rightarrow> bool" where
  "rid_wf L st \<longleftrightarrow>
     wf_gomap (rid_ISAs st) \<and> keyed ir_ID (rid_ISAs st) \<and> all_values (isa_valid L) (rid_ISAs st) \<and>
     wf_gomap (rid_Subscriptions st) \<and> keyed rr_ID (rid_Subscriptions st) \<and>
     all_values (rid_sub_valid L) (rid_Subscriptions st)"

lemma rid_wf_empty [simp]: "rid_wf L empty_rid_state"
  by (simp add: rid_wf_def empty_rid_state_def)

lemma UpdateNotificationIdxsInCells_conv:
  "UpdateNotificationIdxsInCells ctx cells st =
     (case MustFromContext ctx of
        Ok now \<Rightarrow> (Ok (map (rid_subscriptionRecord_toModel \<circ> rid_bump)
                       (filter (liveSubscriptionsInCells now cells None) (map snd (rid_Subscriptions st)))),
                 st\<lparr>rid_Subscriptions := map_values (\<lambda>r. if liveSubscriptionsInCells now cells None r then rid_bump r else r)
                                          (rid_Subscriptions st)\<rparr>)
      | Err e \<Rightarrow> (Err e, st) | Panic \<Rightarrow> (Panic, st))"
  by (simp add: UpdateNotificationIdxsInCells_def bindE_def range_modify_conv split: outcome.splits)

lemma all_values_bump:
  "(\<And>r. P (rid_bump r) = P r) \<Longrightarrow> all_values P (map_values (\<lambda>r. if sel r then rid_bump r else r) m) = all_values P m"
  by (auto simp: all_values_def) metis

lemma preserves_rid_wf_isas [pres_intros]:
  "preserves (rid_wf L) (InsertISA L ctx i)" "preserves (rid_wf L) (UpdateISA L ctx i)" "preserves (rid_wf L) (DeleteISA i)"
proof -
  show "preserves (rid_wf L) (InsertISA L ctx i)"
  proof (rule preservesI)
    fix s r t assume "rid_wf L s" and e: "InsertISA L ctx i s = (r, t)"
    then show "rid_wf L t"
    proof (cases r)
      case (Ok x)
      with e \<open>rid_wf L s\<close> show ?thesis by (auto simp: InsertISA_Ok rid_wf_def isa_valid_def)
    qed (use isa_write_fails(1) [OF e] in auto)
  qed
  show "preserves (rid_wf L) (UpdateISA L ctx i)"
  proof (rule preservesI)
    fix s r t assume "rid_wf L s" and e: "UpdateISA L ctx i s = (r, t)"
    then show "rid_wf L t"
    proof (cases "\<exists>x. r = Ok (Some x)")
      case True
      with e \<open>rid_wf L s\<close> show ?thesis by (auto simp: UpdateISA_Some rid_wf_def isa_valid_def)
    qed (use isa_write_fails(2) [OF e] in auto)
  qed
  show "preserves (rid_wf L) (DeleteISA i)"
    by (auto simp: preserves_def DeleteISA_conv rid_wf_def split: option.splits)
qed

lemma preserves_rid_wf_subs [pres_intros]:
  "preserves (rid_wf L) (InsertSubscription L ctx i)" "preserves (rid_wf L) (UpdateSubscription L ctx i)"
  "preserves (rid_wf L) (rid_DeleteSubscription i)" "preserves (rid_wf L) (UpdateNotificationIdxsInCells ctx cells)"
proof -
  show "preserves (rid_wf L) (InsertSubscription L ctx i)"
  proof (rule preservesI)
    fix s r t assume "rid_wf L s" and e: "InsertSubscription L ctx i s = (r, t)"
    then show "rid_wf L t"
    proof (cases r)
      case (Ok x)
      with e \<open>rid_wf L s\<close> show ?thesis by (auto simp: InsertSubscription_Ok rid_wf_def rid_sub_valid_def)
    qed (use rid_sub_write_fails(1) [OF e] in auto)
  qed
  show "preserves (rid_wf L) (UpdateSubscription L ctx i)"
  proof (rule preservesI)
    fix s r t assume "rid_wf L s" and e: "UpdateSubscription L ctx i s = (r, t)"
    then show "rid_wf L t"
    proof (cases "\<exists>x. r = Ok (Some x)")
      case True
      with e \<open>rid_wf L s\<close> show ?thesis by (auto simp: UpdateSubscription_Some rid_wf_def rid_sub_valid_def)
    qed (use rid_sub_write_fails(2) [OF e] in auto)
  qed
  show "preserves (rid_wf L) (rid_DeleteSubscription i)"
    by (auto simp: preserves_def rid_DeleteSubscription_conv rid_wf_def split: option.splits)
  show "preserves (rid_wf L) (UpdateNotificationIdxsInCells ctx cells)"
    by (auto simp: preserves_def UpdateNotificationIdxsInCells_conv rid_wf_def keyed_map_values all_values_bump
        rid_sub_valid_def split: outcome.splits)
qed

lemma readonly_rid_repo [pres_intros]:
  "readonly (GetISA i b)" "readonly (SearchISAs cells a b')" "readonly (ListExpiredISAs t)" "readonly (DeleteExpiredISAs t n)"
  "readonly CountISAs" "readonly (rid_GetSubscription i)" "readonly (searchSubscriptions ctx cells ow)"
  "readonly (rid_SearchSubscriptions ctx cells)" "readonly (SearchSubscriptionsByOwner ctx cells o1)"
  "readonly (MaxSubscriptionCountInCellsByOwner ctx cells o1)" "readonly (rid_ListExpiredSubscriptions t)"
  "readonly (rid_DeleteExpiredSubscriptions t n)" "readonly rid_CountSubscriptions"
  unfolding SearchISAs_def ListExpiredISAs_def DeleteExpiredISAs_def CountISAs_def searchSubscriptions_def
    rid_SearchSubscriptions_def SearchSubscriptionsByOwner_def MaxSubscriptionCountInCellsByOwner_def
    rid_ListExpiredSubscriptions_def rid_DeleteExpiredSubscriptions_def rid_CountSubscriptions_def
  by (simp_all add: readonly_def bindE_def split: option.splits outcome.splits)

section \<open>Searches\<close>

definition isa_meets :: "cell_union \<Rightarrow> time \<Rightarrow> time option \<Rightarrow> isaRecord \<Rightarrow> bool" where
  "isa_meets cells earliest latest r \<longleftrightarrow>
     set (ir_Cells r) \<inter> set cells \<noteq> {} \<and> earliest \<le> ir_EndTime r \<and> (\<forall>l. latest = Some l \<longrightarrow> ir_StartTime r \<le> l)"

lemma isa_selected_iff: "isa_selected cells e l = isa_meets cells e l"
  by (rule ext) (auto simp: isa_selected_def isa_meets_def split: option.splits)

lemma SearchISAs_conv:
  "cells \<noteq> [] \<Longrightarrow> SearchISAs cells (Some e) l st =
     (Ok (map isaRecord_toModel (take (Suc MaxResultLimit) (filter (isa_meets cells e l) (map snd (rid_ISAs st))))), st)"
  by (simp add: SearchISAs_def range_until_gt isa_selected_iff take_map del: take_Suc)

lemma liveSubscriptionsInCells_iff:
  "liveSubscriptionsInCells now cells ow r \<longleftrightarrow>
     (\<forall>x. ow = Some x \<longrightarrow> rr_Owner r = x) \<and> now \<le> rr_EndTime r \<and> set (rr_Cells r) \<inter> set cells \<noteq> {}"
  by (auto simp: liveSubscriptionsInCells_def split: option.splits)

section \<open>The number of subscriptions in a cell\<close>

text \<open>How often the live subscriptions of an owner name a cell, and how many of them do.\<close>

definition cell_occurrences :: "time \<Rightarrow> Owner \<Rightarrow> rid_state \<Rightarrow> cell_id \<Rightarrow> nat" where
  "cell_occurrences now own st c = sum_list (map (\<lambda>r. count_list (rr_Cells r) c)
     (filter (\<lambda>r. rr_Owner r = own \<and> now \<le> rr_EndTime r) (map snd (rid_Subscriptions st))))"

definition live_in_cell :: "time \<Rightarrow> Owner \<Rightarrow> cell_id \<Rightarrow> rid_subscriptionRecord \<Rightarrow> bool" where
  "live_in_cell now own c r \<longleftrightarrow> rr_Owner r = own \<and> now \<le> rr_EndTime r \<and> c \<in> set (rr_Cells r)"

definition live_count :: "time \<Rightarrow> Owner \<Rightarrow> rid_state \<Rightarrow> cell_id \<Rightarrow> nat" where
  "live_count now own st c = length (filter (live_in_cell now own c) (map snd (rid_Subscriptions st)))"

definition counted :: "(cell_id, nat) gomap \<Rightarrow> cell_id \<Rightarrow> nat" where
  "counted m c = (case map_of m c of None \<Rightarrow> 0 | Some n \<Rightarrow> n)"

lemma counted_Nil [simp]: "counted [] x = 0"
  by (simp add: counted_def)

lemma counted_cell: "counted (count_cell c m) x = counted m x + (if x = c then 1 else 0)"
  by (simp add: counted_def count_cell_def map_of_update split: option.splits)

definition positive_counts :: "(cell_id, nat) gomap \<Rightarrow> bool" where
  "positive_counts m \<longleftrightarrow> wf_gomap m \<and> all_values (\<lambda>n. 0 < n) m"

lemma positive_count_cell: "positive_counts m \<Longrightarrow> positive_counts (count_cell c m)"
  by (auto simp: positive_counts_def count_cell_def split: option.splits)

lemma count_cells_loop:
  "positive_counts m \<Longrightarrow>
     positive_counts (fold (\<lambda>c m. if c \<in> want then count_cell c m else m) cs m) \<and>
     counted (fold (\<lambda>c m. if c \<in> want then count_cell c m else m) cs m) x =
       counted m x + (if x \<in> want then count_list cs x else 0)"
  by (induction cs arbitrary: m) (auto simp: positive_count_cell counted_cell)

lemma count_records_loop:
  "positive_counts m \<Longrightarrow>
     positive_counts (fold (\<lambda>r m. fold (\<lambda>c m. if c \<in> want then count_cell c m else m) (rr_Cells r) m) rs m) \<and>
     counted (fold (\<lambda>r m. fold (\<lambda>c m. if c \<in> want then count_cell c m else m) (rr_Cells r) m) rs m) x =
       counted m x + (if x \<in> want then sum_list (map (\<lambda>r. count_list (rr_Cells r) x) rs) else 0)"
proof (induction rs arbitrary: m)
  case (Cons r rs)
  show ?case
    using Cons.IH [OF conjunct1 [OF count_cells_loop [OF Cons.prems]]] count_cells_loop [OF Cons.prems, of want "rr_Cells r" x]
    by simp
qed simp

lemma positive_counts_Max:
  assumes "positive_counts m" and "\<And>x. x \<notin> W \<Longrightarrow> counted m x = 0" and "finite W"
  shows "(if length m = 0 then 0 else Max (set (map snd m))) = Max (insert 0 (counted m ` W))"
proof (cases "m = []")
  case True
  then have "counted m ` W \<subseteq> {0}" by (auto simp: counted_def)
  then have e: "insert 0 (counted m ` W) = {0}" by blast
  show ?thesis unfolding e using True by simp
next
  case False
  have wf: "wf_gomap m" using assms(1) by (simp add: positive_counts_def)
  have "set (map snd m) \<subseteq> counted m ` W"
  proof
    fix n assume "n \<in> set (map snd m)"
    then obtain c where c: "map_of m c = Some n" using values_map_of [OF wf] by blast
    then have "counted m c = n" "n > 0" using assms(1) by (auto simp: counted_def positive_counts_def all_values_def)
    then show "n \<in> counted m ` W" using assms(2) by (metis imageI less_numeral_extra(3))
  qed
  moreover have "insert 0 (counted m ` W) \<subseteq> insert 0 (set (map snd m))"
    using values_map_of [OF wf] by (auto simp: counted_def split: option.splits)
  ultimately have "insert 0 (counted m ` W) = insert 0 (set (map snd m))" by blast
  with False show ?thesis by simp
qed

lemma count_list_zero: "count_list xs x = 0 \<longleftrightarrow> x \<notin> set xs"
  by (induction xs) auto

lemma MaxSubscriptionCount_conv:
  assumes "MustFromContext ctx = Ok now"
  shows "MaxSubscriptionCountInCellsByOwner ctx cells own st =
    (Ok (Max (insert 0 (cell_occurrences now own st ` set cells))), st)"
proof -
  let ?live = "filter (liveSubscriptionsInCells now cells (Some own)) (map snd (rid_Subscriptions st))"
  let ?m = "fold (\<lambda>r m. fold (\<lambda>c m. if c \<in> set cells then count_cell c m else m) (rr_Cells r) m) ?live []"
  have z: "positive_counts []" by (simp add: positive_counts_def)
  have "sum_list (map (\<lambda>r. count_list (rr_Cells r) x) ?live) = cell_occurrences now own st x" if "x \<in> set cells" for x
  proof -
    have "sum_list (map (\<lambda>r. count_list (rr_Cells r) x) (filter (liveSubscriptionsInCells now cells (Some own)) rs)) =
        sum_list (map (\<lambda>r. count_list (rr_Cells r) x) (filter (\<lambda>r. rr_Owner r = own \<and> now \<le> rr_EndTime r) rs))" for rs
      using that by (induction rs) (auto simp: liveSubscriptionsInCells_iff count_list_zero)
    then show ?thesis by (simp only: cell_occurrences_def)
  qed
  then have c: "counted ?m x = (if x \<in> set cells then cell_occurrences now own st x else 0)" for x
    using count_records_loop [OF z, of "set cells" ?live x] by (simp add: counted_def)
  then have "counted ?m ` set cells = cell_occurrences now own st ` set cells" by auto
  moreover have "(if length ?m = 0 then 0 else Max (set (map snd ?m))) = Max (insert 0 (counted ?m ` set cells))"
    by (rule positive_counts_Max) (simp_all add: c count_records_loop [OF z])
  moreover have "MaxSubscriptionCountInCellsByOwner ctx cells own st =
      (Ok (if length ?m = 0 then 0 else Max (set (map snd ?m))), st)"
    unfolding MaxSubscriptionCountInCellsByOwner_def bindE_def liftO_def assms by (simp add: rid_cellSet_def Let_def)
  ultimately show ?thesis by (simp only:)
qed

lemma live_count_le_occurrences: "live_count now own st c \<le> cell_occurrences now own st c"
proof -
  have "length (filter (live_in_cell now own c) rs) \<le>
      sum_list (map (\<lambda>r. count_list (rr_Cells r) c) (filter (\<lambda>r. rr_Owner r = own \<and> now \<le> rr_EndTime r) rs))" for rs
  proof (induction rs)
    case (Cons r rs)
    have "live_in_cell now own c r \<Longrightarrow> count_list (rr_Cells r) c \<noteq> 0" by (simp add: live_in_cell_def count_list_zero)
    with Cons show ?case by (auto simp: live_in_cell_def)
  qed simp
  then show ?thesis by (simp only: live_count_def cell_occurrences_def)
qed

lemma count_list_distinct: "distinct xs \<Longrightarrow> count_list xs x = (if x \<in> set xs then 1 else 0)"
  by (induction xs) (auto simp: count_list_zero)

lemma live_count_distinct:
  assumes "\<And>r. r \<in> set (map snd (rid_Subscriptions st)) \<Longrightarrow> distinct (rr_Cells r)"
  shows "cell_occurrences now own st c = live_count now own st c"
proof -
  have "(\<And>r. r \<in> set rs \<Longrightarrow> distinct (rr_Cells r)) \<Longrightarrow>
      sum_list (map (\<lambda>r. count_list (rr_Cells r) c) (filter (\<lambda>r. rr_Owner r = own \<and> now \<le> rr_EndTime r) rs)) =
      length (filter (live_in_cell now own c) rs)" for rs
    by (induction rs) (auto simp: live_in_cell_def count_list_distinct)
  from this [OF assms] show ?thesis by (simp only: live_count_def cell_occurrences_def)
qed

text \<open>The subscription count that the quota rests on. When no stored subscription lists a cell twice,
  the count of an owner in an area is the largest number of that owner's subscriptions which have not
  ended and share one cell of the area; it is 0 for an area without any. The store is only read.\<close>

lemma MaxSubscriptionCount_exact:
  assumes "MustFromContext ctx = Ok now" and "\<And>r. r \<in> set (map snd (rid_Subscriptions st)) \<Longrightarrow> distinct (rr_Cells r)"
  shows "MaxSubscriptionCountInCellsByOwner ctx cells own st =
    (Ok (Max (insert 0 (live_count now own st ` set cells))), st)"
  using MaxSubscriptionCount_conv [OF assms(1)] live_count_distinct [OF assms(2)] by (simp add: cong: image_cong)

text \<open>A search for service areas returns, as long as no more than the result limit match, exactly
  the stored areas that share a cell with the query, have not ended before the earliest and do not begin
  after the latest time of the query. It never returns more than one beyond the limit, and refuses a
  query without cells or without an earliest time.\<close>

lemma SearchISAs_exact:
  assumes "rid_wf L st"
  shows "(cells \<noteq> [] \<longrightarrow> (\<exists>areas. SearchISAs cells (Some e) l st = (Ok areas, st) \<and>
            length areas \<le> MaxResultLimit + 1 \<and>
            (length (filter (isa_meets cells e l) (map snd (rid_ISAs st))) \<le> MaxResultLimit \<longrightarrow>
               set areas = {a. \<exists>i r. map_of (rid_ISAs st) i = Some r \<and> isa_meets cells e l r \<and> find_isa st i = Some a}))) \<and>
         (\<exists>x. SearchISAs [] early l st = (Err x, st) \<and> GetCode x = Some BadRequest) \<and>
         (\<exists>x. SearchISAs cells None l st = (Err x, st))"
proof -
  let ?hits = "filter (isa_meets cells e l) (map snd (rid_ISAs st))"
  have wf: "wf_gomap (rid_ISAs st)" using assms by (simp add: rid_wf_def)
  have "set (map isaRecord_toModel ?hits) =
      {a. \<exists>i r. map_of (rid_ISAs st) i = Some r \<and> isa_meets cells e l r \<and> find_isa st i = Some a}"
    using values_ran [OF wf] by (auto simp: ran_def find_isa_def)
  moreover have "take (Suc MaxResultLimit) ?hits = ?hits" if "length ?hits \<le> MaxResultLimit" using that by simp
  moreover have "length (take (Suc MaxResultLimit) ?hits) \<le> MaxResultLimit + 1" by simp
  ultimately show ?thesis
    using SearchISAs_conv [of cells e l st] by (auto simp: SearchISAs_def simp del: take_Suc)
qed

section \<open>Snapshots\<close>

lemma rid_clones_id [simp]: "isaRecord_clone r = r" "rid_subscriptionRecord_clone r' = r'" "rid_state_clone s = s"
  by (simp_all add: isaRecord_clone_def rid_subscriptionRecord_clone_def rid_state_clone_def map_values_same)

definition rid_gob_safe :: "rid_state \<Rightarrow> bool" where
  "rid_gob_safe st \<longleftrightarrow>
     list_all (\<lambda>(i, r). ir_AltitudeHi r \<noteq> Some 0 \<and> ir_AltitudeLo r \<noteq> Some 0) (rid_ISAs st) \<and>
     list_all (\<lambda>(i, r). rr_AltitudeHi r \<noteq> Some 0 \<and> rr_AltitudeLo r \<noteq> Some 0) (rid_Subscriptions st)"

lemma rid_snapshot_restores:
  assumes "rid_gob_safe (mr_state r)"
  shows "\<exists>q'. rid_RestoreFromSnapshot (rid_GetSnapshot r) q = (Ok (), q') \<and> mr_state q' = mr_state r"
proof -
  have "map_values gob_isa (rid_ISAs (mr_state r)) = rid_ISAs (mr_state r)"
    using assms by (intro map_values_same) (auto simp: rid_gob_safe_def gob_isa_def gob_ptr_def list_all_iff)
  moreover have "map_values gob_rid_sub (rid_Subscriptions (mr_state r)) = rid_Subscriptions (mr_state r)"
    using assms by (intro map_values_same) (auto simp: rid_gob_safe_def gob_rid_sub_def gob_ptr_def list_all_iff)
  ultimately show ?thesis by (simp add: rid_RestoreFromSnapshot_def rid_GetSnapshot_def)
qed

text \<open>What a snapshot changes, a zero altitude, is never read: the restored state answers every query for
  areas and subscriptions as before. An invariant that does not mention altitudes survives.\<close>

lemma rid_snapshot_keeps_wf:
  assumes "rid_wf L (mr_state r)" and "rid_RestoreFromSnapshot (rid_GetSnapshot r) q = (x, q')"
  shows "x = Ok () \<and> rid_wf L (mr_state q')"
proof -
  have a: "all_values P (map_values g m) = all_values P m" if "\<And>v. P (g v) = P v" for P g and m :: "('k, 'v) gomap"
    using that by (auto simp: all_values_def)
  have "keyed ir_ID (map_values gob_isa m) = keyed ir_ID m" "all_values (isa_valid L) (map_values gob_isa m) = all_values (isa_valid L) m"
    for m :: "(ID, isaRecord) gomap"
    by (simp_all add: keyed_map_values a gob_isa_def isa_valid_def)
  moreover have "keyed rr_ID (map_values gob_rid_sub m) = keyed rr_ID m"
      "all_values (rid_sub_valid L) (map_values gob_rid_sub m) = all_values (rid_sub_valid L) m"
    for m :: "(ID, rid_subscriptionRecord) gomap"
    by (simp_all add: keyed_map_values a gob_rid_sub_def rid_sub_valid_def)
  ultimately show ?thesis
    using assms by (auto simp: rid_RestoreFromSnapshot_def rid_GetSnapshot_def rid_wf_def)
qed

end
