(* ===== verification/Rid_Operations.thy ===== *)
theory Rid_Operations
  imports Rid_Memstore Raft_Store
begin

text \<open>
  The operations of the remote-identification service, \<open>src/pkg/rid/operations\<close>: the payloads with the
  checks made before a transaction, the handlers that are executed on the store, and the registry.
\<close>

section \<open>Requests\<close>

datatype rid_request =
    deleteISAPayload ID Owner "version option"
  | insertISAPayload IdentificationServiceArea
  | updateISAPayload IdentificationServiceArea
  | insertSubscriptionPayload rid_Subscription
  | updateSubscriptionPayload rid_Subscription
  | deleteSubscriptionPayload ID Owner "version option"

text \<open>What a handler returns. The entity of \<open>ISAResult\<close> and the deleted subscription are pointers the
  repository may leave nil.\<close>

datatype rid_response =
    ISAResult "IdentificationServiceArea option" "rid_Subscription list"
  | SubscriptionResult rid_Subscription "IdentificationServiceArea list"
  | DeletedSubscription "rid_Subscription option"

fun rid_OperationID :: "rid_request \<Rightarrow> string" where
  "rid_OperationID (deleteISAPayload _ _ _) = ''ridv2.DeleteIdentificationServiceArea''"
| "rid_OperationID (insertISAPayload _) = ''ridv2.CreateIdentificationServiceArea''"
| "rid_OperationID (updateISAPayload _) = ''ridv2.UpdateIdentificationServiceArea''"
| "rid_OperationID (insertSubscriptionPayload _) = ''ridv2.CreateSubscription''"
| "rid_OperationID (updateSubscriptionPayload _) = ''ridv2.UpdateSubscription''"
| "rid_OperationID (deleteSubscriptionPayload _ _ _) = ''ridv2.DeleteSubscription''"

definition NewDeleteISAPayload :: "ID \<Rightarrow> Owner \<Rightarrow> version option \<Rightarrow> rid_request" where
  "NewDeleteISAPayload i owner version1 = deleteISAPayload i owner version1"

definition newISA ::
    "externals \<Rightarrow> ID \<Rightarrow> Owner \<Rightarrow> string \<Rightarrow> string \<Rightarrow> version option \<Rightarrow> Volume4D \<Rightarrow> bool \<Rightarrow> IdentificationServiceArea outcome" where
  "newISA L i owner url writer version1 extents allowHTTPBaseUrls =
     obind (if \<not> allowHTTPBaseUrls then omap_err (PropagateWithCode (Some BadRequest)) (ValidateURL L url) else Ok ()) (\<lambda>_.
     obind (deref (v4_SpatialVolume extents)) (\<lambda>spatial.
     obind (deref (v3_Footprint spatial)) (\<lambda>footprint.
     obind (omap_err (PropagateWithCode (Some BadRequest)) (CalculateCovering L footprint)) (\<lambda>cells.
     Ok \<lparr>isa_ID = i, isa_URL = url, isa_Owner = owner, isa_Version = version1, isa_Writer = writer,
         isa_Volume = \<lparr>cv_Cells = cells, cv_StartTime = v4_StartTime extents, cv_EndTime = v4_EndTime extents,
                       cv_AltitudeLo = v3_AltitudeLo spatial, cv_AltitudeHi = v3_AltitudeHi spatial\<rparr>\<rparr>))))"

definition NewInsertISAPayload ::
    "externals \<Rightarrow> ID \<Rightarrow> Owner \<Rightarrow> string \<Rightarrow> string \<Rightarrow> Volume4D \<Rightarrow> bool \<Rightarrow> rid_request outcome" where
  "NewInsertISAPayload L i owner url writer extents allowHTTPBaseUrls =
     obind (newISA L i owner url writer None extents allowHTTPBaseUrls) (\<lambda>isa. Ok (insertISAPayload isa))"

definition NewUpdateISAPayload ::
    "externals \<Rightarrow> ID \<Rightarrow> Owner \<Rightarrow> string \<Rightarrow> string \<Rightarrow> version option \<Rightarrow> Volume4D \<Rightarrow> bool \<Rightarrow> rid_request outcome" where
  "NewUpdateISAPayload L i owner url writer version1 extents allowHTTPBaseUrls =
     obind (newISA L i owner url writer version1 extents allowHTTPBaseUrls) (\<lambda>isa. Ok (updateISAPayload isa))"

definition rid_newSubscription ::
    "externals \<Rightarrow> ID \<Rightarrow> Owner \<Rightarrow> string \<Rightarrow> string \<Rightarrow> version option \<Rightarrow> cells_volume_4d \<Rightarrow> bool \<Rightarrow> rid_Subscription outcome" where
  "rid_newSubscription L i owner url writer version1 extents allowHTTPBaseUrls =
     obind (if \<not> allowHTTPBaseUrls then omap_err (PropagateWithCode (Some BadRequest)) (ValidateURL L url) else Ok ()) (\<lambda>_.
     Ok \<lparr>rs_ID = i, rs_URL = url, rs_NotificationIndex = 0, rs_Owner = owner, rs_Version = version1,
         rs_Writer = writer, rs_Volume = extents\<rparr>)"

definition NewInsertSubscriptionPayload ::
    "externals \<Rightarrow> ID \<Rightarrow> Owner \<Rightarrow> string \<Rightarrow> string \<Rightarrow> cells_volume_4d \<Rightarrow> bool \<Rightarrow> rid_request outcome" where
  "NewInsertSubscriptionPayload L i owner url writer extents allowHTTPBaseUrls =
     obind (rid_newSubscription L i owner url writer None extents allowHTTPBaseUrls) (\<lambda>sub. Ok (insertSubscriptionPayload sub))"

definition rid_NewUpdateSubscriptionPayload ::
    "externals \<Rightarrow> ID \<Rightarrow> Owner \<Rightarrow> string \<Rightarrow> string \<Rightarrow> version option \<Rightarrow> cells_volume_4d \<Rightarrow> bool \<Rightarrow> rid_request outcome" where
  "rid_NewUpdateSubscriptionPayload L i owner url writer version1 extents allowHTTPBaseUrls =
     obind (rid_newSubscription L i owner url writer version1 extents allowHTTPBaseUrls) (\<lambda>sub. Ok (updateSubscriptionPayload sub))"

definition NewDeleteSubscriptionPayload :: "ID \<Rightarrow> Owner \<Rightarrow> version option \<Rightarrow> rid_request" where
  "NewDeleteSubscriptionPayload i owner version1 = deleteSubscriptionPayload i owner version1"

section \<open>Handlers\<close>

definition rid_unexpected :: "(rid_state, 'a) op" where
  "rid_unexpected = fail (NewError ''unexpected request type for operation'')"

definition executeDeleteISA :: "ctx \<Rightarrow> rid_request \<Rightarrow> (rid_state, rid_response) op" where
  "executeDeleteISA ctx req =
     (case req of
        deleteISAPayload i owner version1 \<Rightarrow>
          bindE (GetISA i True) (\<lambda>found.
          case found of
            None \<Rightarrow> fail (NewErrorWithCode NotFound (''ISA '' @ i @ '' not found''))
          | Some old \<Rightarrow>
              if \<not> Version_Matches version1 (isa_Version old)
              then fail (NewErrorWithCode VersionMismatch (''ISA currently at version '' @ Version_String (isa_Version old) @
                     '' but client specified '' @ Version_String version1))
              else if isa_Owner old \<noteq> owner
              then fail (NewErrorWithCode PermissionDenied (''ISA owned by '' @ isa_Owner old @ '', but '' @ owner @ '' attempted to delete''))
              else
                bindE (DeleteISA old) (\<lambda>deleted.
                bindE (UpdateNotificationIdxsInCells ctx (cv_Cells (isa_Volume old))) (\<lambda>subs.
                ret (ISAResult deleted subs))))
      | _ \<Rightarrow> rid_unexpected)"

definition executeInsertISA :: "externals \<Rightarrow> ctx \<Rightarrow> rid_request \<Rightarrow> (rid_state, rid_response) op" where
  "executeInsertISA L ctx req =
     (case req of
        insertISAPayload isa0 \<Rightarrow>
          bindE (liftO (MustFromContext ctx)) (\<lambda>now.
          bindE (liftO (ISA_AdjustTimeRange now isa0 None)) (\<lambda>isa.
          bindE (GetISA (isa_ID isa) False) (\<lambda>old.
          if old \<noteq> None then fail (NewErrorWithCode AlreadyExists (''ISA '' @ isa_ID isa @ '' already exists''))
          else
            bindE (UpdateNotificationIdxsInCells ctx (cv_Cells (isa_Volume isa))) (\<lambda>subs.
            bindE (InsertISA L ctx isa) (\<lambda>inserted.
            ret (ISAResult (Some inserted) subs))))))
      | _ \<Rightarrow> rid_unexpected)"

definition executeUpdateISA :: "externals \<Rightarrow> ctx \<Rightarrow> rid_request \<Rightarrow> (rid_state, rid_response) op" where
  "executeUpdateISA L ctx req =
     (case req of
        updateISAPayload isa0 \<Rightarrow>
          bindE (GetISA (isa_ID isa0) True) (\<lambda>found.
          bindE (liftO (MustFromContext ctx)) (\<lambda>now.
          bindE (liftO (ISA_AdjustTimeRange now isa0 found)) (\<lambda>isa.
          case found of
            None \<Rightarrow> fail (NewErrorWithCode NotFound (''ISA '' @ isa_ID isa @ '' not found''))
          | Some old \<Rightarrow>
              if \<not> Version_Matches (isa_Version isa) (isa_Version old)
              then fail (NewErrorWithCode VersionMismatch (''ISA currently at version '' @ Version_String (isa_Version old) @
                     '' but client specified '' @ Version_String (isa_Version isa)))
              else if isa_Owner old \<noteq> isa_Owner isa
              then fail (NewErrorWithCode PermissionDenied (''ISA owned by '' @ isa_Owner old @ '', but '' @ isa_Owner isa @ '' attempted to modify''))
              else
                let cells = Levelify L (s2_CellUnionFromUnion L [cv_Cells (isa_Volume old), cv_Cells (isa_Volume isa)]) in
                bindE (UpdateNotificationIdxsInCells ctx cells) (\<lambda>subs.
                bindE (UpdateISA L ctx isa) (\<lambda>updated.
                ret (ISAResult updated subs))))))
      | _ \<Rightarrow> rid_unexpected)"

abbreviation maxSubscriptionsPerArea :: nat where "maxSubscriptionsPerArea \<equiv> 10"

definition checkSubscriptionCount :: "ctx \<Rightarrow> rid_Subscription \<Rightarrow> (rid_state, unit) op" where
  "checkSubscriptionCount ctx sub =
     bindE (MaxSubscriptionCountInCellsByOwner ctx (cv_Cells (rs_Volume sub)) (rs_Owner sub)) (\<lambda>count.
     if count \<ge> maxSubscriptionsPerArea
     then fail (NewErrorWithCode Exhausted ''Too many existing subscriptions in this area already'')
     else ret ())"

definition rid_executeDeleteSubscription :: "ctx \<Rightarrow> rid_request \<Rightarrow> (rid_state, rid_response) op" where
  "rid_executeDeleteSubscription ctx req =
     (case req of
        deleteSubscriptionPayload i owner version1 \<Rightarrow>
          bindE (rid_GetSubscription i) (\<lambda>found.
          case found of
            None \<Rightarrow> fail (NewErrorWithCode NotFound (''Subscription '' @ i @ '' not found''))
          | Some old \<Rightarrow>
              if \<not> Version_Matches version1 (rs_Version old)
              then fail (NewErrorWithCode VersionMismatch (''Subscription version '' @ Version_String version1 @ '' is not current''))
              else if rs_Owner old \<noteq> owner
              then fail (NewErrorWithCode PermissionDenied ''Subscription is owned by different client'')
              else bindE (rid_DeleteSubscription old) (\<lambda>deleted. ret (DeletedSubscription deleted)))
      | _ \<Rightarrow> rid_unexpected)"

definition executeCreateSubscription :: "externals \<Rightarrow> ctx \<Rightarrow> rid_request \<Rightarrow> (rid_state, rid_response) op" where
  "executeCreateSubscription L ctx req =
     (case req of
        insertSubscriptionPayload sub0 \<Rightarrow>
          bindE (liftO (MustFromContext ctx)) (\<lambda>now.
          bindE (liftO (rid_AdjustTimeRange now sub0 None)) (\<lambda>sub.
          bindE (rid_GetSubscription (rs_ID sub)) (\<lambda>old.
          if old \<noteq> None then fail (NewErrorWithCode AlreadyExists (''Subscription '' @ rs_ID sub @ '' already exists''))
          else
            bindE (checkSubscriptionCount ctx sub) (\<lambda>_.
            bindE (InsertSubscription L ctx sub) (\<lambda>inserted.
            bindE (SearchISAs (cv_Cells (rs_Volume inserted)) (Some now) None) (\<lambda>isas.
            ret (SubscriptionResult inserted isas)))))))
      | _ \<Rightarrow> rid_unexpected)"

definition executeUpdateSubscription :: "externals \<Rightarrow> ctx \<Rightarrow> rid_request \<Rightarrow> (rid_state, rid_response) op" where
  "executeUpdateSubscription L ctx req =
     (case req of
        updateSubscriptionPayload sub0 \<Rightarrow>
          bindE (rid_GetSubscription (rs_ID sub0)) (\<lambda>found.
          bindE (liftO (MustFromContext ctx)) (\<lambda>now.
          bindE (liftO (rid_AdjustTimeRange now sub0 found)) (\<lambda>sub.
          case found of
            None \<Rightarrow> fail (NewErrorWithCode NotFound (''Subscription '' @ rs_ID sub @ '' not found''))
          | Some old \<Rightarrow>
              if \<not> Version_Matches (rs_Version sub) (rs_Version old)
              then fail (NewErrorWithCode VersionMismatch (''Subscription version '' @ Version_String (rs_Version sub) @ '' is not current''))
              else if rs_Owner old \<noteq> rs_Owner sub
              then fail (NewErrorWithCode PermissionDenied ''Subscription is owned by different client'')
              else
                bindE (checkSubscriptionCount ctx sub) (\<lambda>_.
                bindE (UpdateSubscription L ctx sub) (\<lambda>updated1.
                bindE (liftO (deref updated1)) (\<lambda>updated.
                bindE (SearchISAs (cv_Cells (rs_Volume updated)) (Some now) None) (\<lambda>isas.
                ret (SubscriptionResult updated isas))))))))
      | _ \<Rightarrow> rid_unexpected)"

section \<open>The registry\<close>

type_synonym rid_handler = "(rid_state, rid_request, rid_response) OperationHandler"

definition isa_handlers :: "externals \<Rightarrow> (string, rid_handler) gomap" where
  "isa_handlers L = [
     (''ridv2.DeleteIdentificationServiceArea'', \<lparr>oh_Execute = executeDeleteISA, oh_IsReadOnly = False\<rparr>),
     (''ridv2.CreateIdentificationServiceArea'', \<lparr>oh_Execute = executeInsertISA L, oh_IsReadOnly = False\<rparr>),
     (''ridv2.UpdateIdentificationServiceArea'', \<lparr>oh_Execute = executeUpdateISA L, oh_IsReadOnly = False\<rparr>)]"

definition rid_subscription_handlers :: "externals \<Rightarrow> (string, rid_handler) gomap" where
  "rid_subscription_handlers L = [
     (''ridv2.DeleteSubscription'', \<lparr>oh_Execute = rid_executeDeleteSubscription, oh_IsReadOnly = False\<rparr>),
     (''ridv2.CreateSubscription'', \<lparr>oh_Execute = executeCreateSubscription L, oh_IsReadOnly = False\<rparr>),
     (''ridv2.UpdateSubscription'', \<lparr>oh_Execute = executeUpdateSubscription L, oh_IsReadOnly = False\<rparr>)]"

definition rid_Registry :: "externals \<Rightarrow> (string, rid_handler) gomap" where
  "rid_Registry L = isa_handlers L @ rid_subscription_handlers L"

lemmas rid_Registry_defs = rid_Registry_def isa_handlers_def rid_subscription_handlers_def

text \<open>The handler a request is dispatched to.\<close>

fun rid_handler_of :: "externals \<Rightarrow> rid_request \<Rightarrow> rid_handler" where
  "rid_handler_of L (deleteISAPayload _ _ _) = \<lparr>oh_Execute = executeDeleteISA, oh_IsReadOnly = False\<rparr>"
| "rid_handler_of L (insertISAPayload _) = \<lparr>oh_Execute = executeInsertISA L, oh_IsReadOnly = False\<rparr>"
| "rid_handler_of L (updateISAPayload _) = \<lparr>oh_Execute = executeUpdateISA L, oh_IsReadOnly = False\<rparr>"
| "rid_handler_of L (insertSubscriptionPayload _) = \<lparr>oh_Execute = executeCreateSubscription L, oh_IsReadOnly = False\<rparr>"
| "rid_handler_of L (updateSubscriptionPayload _) = \<lparr>oh_Execute = executeUpdateSubscription L, oh_IsReadOnly = False\<rparr>"
| "rid_handler_of L (deleteSubscriptionPayload _ _ _) = \<lparr>oh_Execute = rid_executeDeleteSubscription, oh_IsReadOnly = False\<rparr>"

lemma rid_Registry_handler: "map_of (rid_Registry L) (rid_OperationID req) = Some (rid_handler_of L req)"
  by (cases req) (simp_all add: rid_Registry_defs)

section \<open>Notifications\<close>

text \<open>What a write in an area does to the subscriptions: those that have not ended and share a cell with
  the area are counted up, and these are the ones to notify.\<close>

definition to_notify :: "time \<Rightarrow> cell_id set \<Rightarrow> rid_subscriptionRecord \<Rightarrow> bool" where
  "to_notify now area r \<longleftrightarrow> now \<le> rr_EndTime r \<and> set (rr_Cells r) \<inter> area \<noteq> {}"

definition notify_live :: "time \<Rightarrow> cell_id set \<Rightarrow> rid_state \<Rightarrow> rid_state" where
  "notify_live now area st =
     st\<lparr>rid_Subscriptions := map_values (\<lambda>r. if to_notify now area r then rid_bump r else r) (rid_Subscriptions st)\<rparr>"

definition notified_subs :: "time \<Rightarrow> cell_id set \<Rightarrow> rid_state \<Rightarrow> rid_Subscription list" where
  "notified_subs now area st =
     map (rid_subscriptionRecord_toModel \<circ> rid_bump) (filter (to_notify now area) (map snd (rid_Subscriptions st)))"

lemma notify_live_sel [simp]:
  "rid_ISAs (notify_live now area st) = rid_ISAs st"
  "map_of (rid_Subscriptions (notify_live now area st)) i =
     map_option (\<lambda>r. if to_notify now area r then rid_bump r else r) (map_of (rid_Subscriptions st) i)"
  by (simp_all add: notify_live_def)

lemma find_isa_notify_live [simp]: "find_isa (notify_live now area st) = find_isa st"
  by (simp add: find_isa_def fun_eq_iff)

lemma live_None_iff: "liveSubscriptionsInCells now cells None = to_notify now (set cells)"
  by (simp add: fun_eq_iff liveSubscriptionsInCells_iff to_notify_def)

lemma UpdateNotificationIdxs_Ok:
  "UpdateNotificationIdxsInCells ctx cells st = (Ok out, st') \<longleftrightarrow>
     (\<exists>now. ctx = Some now \<and> \<not> IsZero now \<and> out = notified_subs now (set cells) st \<and> st' = notify_live now (set cells) st)"
  unfolding UpdateNotificationIdxsInCells_conv live_None_iff notify_live_def notified_subs_def
  by (cases "MustFromContext ctx") (auto simp: MustFromContext_def split: option.splits if_splits)

lemma UpdateNotificationIdxs_run:
  "MustFromContext ctx = Ok now \<Longrightarrow>
     UpdateNotificationIdxsInCells ctx cells st = (Ok (notified_subs now (set cells) st), notify_live now (set cells) st)"
  by (simp add: UpdateNotificationIdxs_Ok)

lemma rid_wf_notify_live: "rid_wf L st \<Longrightarrow> rid_wf L (notify_live now area st)"
  by (simp add: notify_live_def rid_wf_def keyed_map_values all_values_bump rid_sub_valid_def)

lemma notified_subs_set:
  assumes "rid_wf L st"
  shows "set (notified_subs now area st) =
    {s. \<exists>i r. map_of (rid_Subscriptions st) i = Some r \<and> to_notify now area r \<and> find_rid_sub (notify_live now area st) i = Some s}"
proof -
  have wf: "wf_gomap (rid_Subscriptions st)" using assms by (simp add: rid_wf_def)
  have "{s. \<exists>i r. map_of (rid_Subscriptions st) i = Some r \<and> to_notify now area r \<and> find_rid_sub (notify_live now area st) i = Some s} =
      (rid_subscriptionRecord_toModel \<circ> rid_bump) ` {r \<in> ran (map_of (rid_Subscriptions st)). to_notify now area r}"
    by (auto simp: find_rid_sub_def ran_def)
  then show ?thesis using values_ran [OF wf] by (auto simp: notified_subs_def)
qed

section \<open>Deleting a service area\<close>

lemma find_isa_key: "rid_wf L st \<Longrightarrow> find_isa st i = Some a \<Longrightarrow> isa_ID a = i"
  by (auto simp: find_isa_def rid_wf_def dest: keyedD)

lemma Version_Matches_sym: "Version_Matches v w = Version_Matches w v"
  by (auto simp: Version_Matches_def split: option.splits)

lemma Version_Matches_stored [simp]: "Version_Matches (isaRecord_version r) (isaRecord_version r)"
    "Version_Matches (rid_subscriptionRecord_version q) (rid_subscriptionRecord_version q)"
  by (simp_all add: isaRecord_version_def rid_subscriptionRecord_version_def)

lemma executeDeleteISA_refused:
  "find_isa st i = None \<Longrightarrow> \<exists>e. executeDeleteISA ctx (deleteISAPayload i own v) st = (Err e, st) \<and> GetCode e = Some NotFound"
  "find_isa st i = Some a \<Longrightarrow> \<not> Version_Matches v (isa_Version a) \<Longrightarrow>
     \<exists>e. executeDeleteISA ctx (deleteISAPayload i own v) st = (Err e, st) \<and> GetCode e = Some VersionMismatch"
  "find_isa st i = Some a \<Longrightarrow> Version_Matches v (isa_Version a) \<Longrightarrow> isa_Owner a \<noteq> own \<Longrightarrow>
     \<exists>e. executeDeleteISA ctx (deleteISAPayload i own v) st = (Err e, st) \<and> GetCode e = Some PermissionDenied"
  by (simp_all add: executeDeleteISA_def bindE_def)

lemma executeDeleteISA_Ok:
  assumes "rid_wf L st" and "find_isa st i = Some a" and "Version_Matches v (isa_Version a)" and "isa_Owner a = own"
    and "MustFromContext ctx = Ok now"
  shows "executeDeleteISA ctx (deleteISAPayload i own v) st =
    (Ok (ISAResult (Some a) (notified_subs now (set (cv_Cells (isa_Volume a))) st)),
     (notify_live now (set (cv_Cells (isa_Volume a))) st)\<lparr>rid_ISAs := AList.delete i (rid_ISAs st)\<rparr>)"
proof -
  obtain r where r: "map_of (rid_ISAs st) i = Some r" "a = isaRecord_toModel r" using assms(2) by (auto simp: find_isa_def)
  have k: "isa_ID a = i" using find_isa_key [OF assms(1,2)] .
  then have d: "DeleteISA a st = (Ok (Some a), st\<lparr>rid_ISAs := AList.delete i (rid_ISAs st)\<rparr>)"
    using r by (simp add: DeleteISA_conv findForWrite_def)
  have "notified_subs now area (st\<lparr>rid_ISAs := m\<rparr>) = notified_subs now area st"
      "notify_live now area (st\<lparr>rid_ISAs := m\<rparr>) = (notify_live now area st)\<lparr>rid_ISAs := m\<rparr>" for area m
    by (simp_all add: notified_subs_def notify_live_def)
  with d assms(2-4) UpdateNotificationIdxs_run [OF assms(5)] show ?thesis by (simp add: executeDeleteISA_def bindE_def)
qed

interpretation isa_delete: guarded_delete "rid_wf L" find_isa isa_Owner "\<lambda>v a. Version_Matches v (isa_Version a)"
  "\<lambda>i own v. executeDeleteISA ctx (deleteISAPayload i own v)" for L ctx
proof (unfold_locales, goal_cases)
  case (1 s k own v)
  then show ?case by (rule executeDeleteISA_refused)
next
  case (2 s k m own v)
  then show ?case using executeDeleteISA_refused(2,3) [of s k m v] by (cases "Version_Matches v (isa_Version m)") auto
next
  case (3 s k own v r t)
  then obtain a now where a: "find_isa s k = Some a" "Version_Matches v (isa_Version a)" "isa_Owner a = own"
      and now: "MustFromContext ctx = Ok now"
    by (auto simp: executeDeleteISA_def bindE_Ok UpdateNotificationIdxs_Ok split: option.splits if_splits)
  from executeDeleteISA_Ok [OF 3(1) a now] 3(2) show ?case
    by (auto simp: find_isa_def map_of_delete fun_eq_iff)
qed

text \<open>The deletion of a service area. It goes through exactly for the owner at the current version;
  then the area is gone and nothing else of the areas changes, and exactly the subscriptions that have
  not ended and share a cell with it are counted up by one and returned to be notified. Every refusal
  has its code and no effect, and an area is deleted at most once.\<close>

lemma executeDeleteISA_correct:
  assumes "rid_wf L st" and "MustFromContext ctx = Ok now"
    and "executeDeleteISA ctx (deleteISAPayload i own v) st = (res, st')"
  shows "case find_isa st i of
           None \<Rightarrow> outcome_code res = Some NotFound \<and> st' = st
         | Some a \<Rightarrow>
             if \<not> Version_Matches v (isa_Version a) then outcome_code res = Some VersionMismatch \<and> st' = st
             else if isa_Owner a \<noteq> own then outcome_code res = Some PermissionDenied \<and> st' = st
             else (\<exists>subs. res = Ok (ISAResult (Some a) subs) \<and>
                     set subs = {s. \<exists>j r. map_of (rid_Subscriptions st) j = Some r \<and>
                       to_notify now (set (cv_Cells (isa_Volume a))) r \<and> find_rid_sub st' j = Some s} \<and>
                     find_isa st' = (find_isa st)(i := None) \<and>
                     rid_Subscriptions st' = rid_Subscriptions (notify_live now (set (cv_Cells (isa_Volume a))) st) \<and>
                     (\<forall>own' v'. outcome_code (fst (executeDeleteISA ctx (deleteISAPayload i own' v') st')) = Some NotFound))"
proof (cases "find_isa st i")
  case None
  then show ?thesis using executeDeleteISA_refused(1) [OF None, of ctx own v] assms(3) by auto
next
  case (Some a)
  consider "\<not> Version_Matches v (isa_Version a)" | "Version_Matches v (isa_Version a)" "isa_Owner a \<noteq> own"
    | "Version_Matches v (isa_Version a)" "isa_Owner a = own" by blast
  then show ?thesis
  proof cases
    case 1
    then show ?thesis using executeDeleteISA_refused(2) [OF Some 1, of ctx own] Some assms(3) by auto
  next
    case 2
    then show ?thesis using executeDeleteISA_refused(3) [OF Some 2, of ctx] Some assms(3) by auto
  next
    case 3
    note ok = executeDeleteISA_Ok [OF assms(1) Some 3 assms(2)]
    let ?area = "set (cv_Cells (isa_Volume a))"
    have r: "res = Ok (ISAResult (Some a) (notified_subs now ?area st))"
      and s: "st' = (notify_live now ?area st)\<lparr>rid_ISAs := AList.delete i (rid_ISAs st)\<rparr>" using ok assms(3) by simp_all
    have f: "find_rid_sub st' = find_rid_sub (notify_live now ?area st)" by (simp add: s find_rid_sub_def fun_eq_iff)
    have g: "find_isa st' = (find_isa st)(i := None)" using isa_delete.removes [OF assms(1)] assms(3) r by blast
    then have "\<exists>e. executeDeleteISA ctx (deleteISAPayload i own' v') st' = (Err e, st') \<and> GetCode e = Some NotFound" for own' v'
      by (intro isa_delete.absent) simp
    then have "outcome_code (fst (executeDeleteISA ctx (deleteISAPayload i own' v') st')) = Some NotFound" for own' v'
      by (metis fst_conv outcome_code_simps(2))
    then show ?thesis using Some 3 r s f g notified_subs_set [OF assms(1)] by simp
  qed
qed

section \<open>Creating and updating a service area\<close>

text \<open>The stored form of an area that was put at some time.\<close>

definition stored_isa :: "time \<Rightarrow> IdentificationServiceArea \<Rightarrow> IdentificationServiceArea \<Rightarrow> bool" where
  "stored_isa now a b \<longleftrightarrow> isa_ID b = isa_ID a \<and> isa_Owner b = isa_Owner a \<and> isa_URL b = isa_URL a \<and>
     isa_Writer b = isa_Writer a \<and> cv_Cells (isa_Volume b) = cv_Cells (isa_Volume a) \<and>
     isa_Version b = Some (VersionFromTime now) \<and>
     (\<exists>s e. cv_StartTime (isa_Volume b) = Some s \<and> cv_EndTime (isa_Volume b) = Some e \<and> s < e)"

lemma stored_isa_record:
  assumes "ISA_AdjustTimeRange now a old = Ok b" and "cv_StartTime (isa_Volume b) = Some s"
    and "cv_EndTime (isa_Volume b) = Some e" and "s < e"
  shows "stored_isa now a (isaRecord_toModel (isa_record b s e now))"
  using ISA_AdjustTimeRange_frame [OF assms(1)] assms(2-)
  by (simp add: stored_isa_def isaRecord_version_def)

lemma valid_range_less: "valid_range L cells s e \<Longrightarrow> s < e"
  by (simp add: valid_range_def)

lemma executeInsertISA_steps:
  assumes "executeInsertISA L ctx (insertISAPayload a) st = (Ok resp, st')"
  shows "\<exists>now b s e. ctx = Some now \<and> \<not> IsZero now \<and> ISA_AdjustTimeRange now a None = Ok b \<and> find_isa st (isa_ID a) = None \<and>
     cv_StartTime (isa_Volume b) = Some s \<and> cv_EndTime (isa_Volume b) = Some e \<and>
     valid_range L (cv_Cells (isa_Volume b)) s e \<and> isa_ID b = isa_ID a \<and> cv_Cells (isa_Volume b) = cv_Cells (isa_Volume a) \<and>
     resp = ISAResult (Some (isaRecord_toModel (isa_record b s e now))) (notified_subs now (set (cv_Cells (isa_Volume b))) st) \<and>
     st' = (notify_live now (set (cv_Cells (isa_Volume b))) st)\<lparr>rid_ISAs := AList.update (isa_ID b) (isa_record b s e now) (rid_ISAs st)\<rparr>"
proof -
  from assms obtain now b where *: "ctx = Some now" "\<not> IsZero now" "ISA_AdjustTimeRange now a None = Ok b" "find_isa st (isa_ID b) = None"
    and "\<exists>subs st1 c. UpdateNotificationIdxsInCells ctx (cv_Cells (isa_Volume b)) st = (Ok subs, st1) \<and>
      InsertISA L ctx b st1 = (Ok c, st') \<and> resp = ISAResult (Some c) subs"
    unfolding executeInsertISA_def by (auto simp: bindE_Ok split: if_splits)
  then obtain subs st1 c where u: "UpdateNotificationIdxsInCells ctx (cv_Cells (isa_Volume b)) st = (Ok subs, st1)"
      "InsertISA L ctx b st1 = (Ok c, st')" "resp = ISAResult (Some c) subs" by blast
  show ?thesis using * u ISA_AdjustTimeRange_frame [OF *(3)] by (auto simp: UpdateNotificationIdxs_Ok InsertISA_Ok)
qed

text \<open>The creation of a service area. It succeeds only for an ID without an area and gives the area
  the client's ID, owner, URL and cells, a time range of positive length and the version of the request
  time; no other area changes. Exactly the subscriptions that have not ended and share a cell with the
  new area are counted up by one and returned to be notified.\<close>

lemma executeInsertISA_correct:
  assumes "rid_wf L st" and "executeInsertISA L ctx (insertISAPayload a) st = (Ok resp, st')"
  shows "find_isa st (isa_ID a) = None \<and>
    (\<exists>now b subs. ctx = Some now \<and> resp = ISAResult (Some b) subs \<and> stored_isa now a b \<and>
       find_isa st' = (find_isa st)(isa_ID a \<mapsto> b) \<and>
       rid_Subscriptions st' = rid_Subscriptions (notify_live now (set (cv_Cells (isa_Volume a))) st) \<and>
       set subs = {s. \<exists>j r. map_of (rid_Subscriptions st) j = Some r \<and>
         to_notify now (set (cv_Cells (isa_Volume a))) r \<and> find_rid_sub st' j = Some s})"
proof -
  from executeInsertISA_steps [OF assms(2)] obtain now b s e where *: "ctx = Some now" "ISA_AdjustTimeRange now a None = Ok b"
      "find_isa st (isa_ID a) = None" "cv_StartTime (isa_Volume b) = Some s" "cv_EndTime (isa_Volume b) = Some e"
      "valid_range L (cv_Cells (isa_Volume b)) s e" "isa_ID b = isa_ID a" "cv_Cells (isa_Volume b) = cv_Cells (isa_Volume a)"
      "resp = ISAResult (Some (isaRecord_toModel (isa_record b s e now))) (notified_subs now (set (cv_Cells (isa_Volume b))) st)"
      "st' = (notify_live now (set (cv_Cells (isa_Volume b))) st)\<lparr>rid_ISAs := AList.update (isa_ID b) (isa_record b s e now) (rid_ISAs st)\<rparr>"
    by blast
  have "find_rid_sub st' = find_rid_sub (notify_live now (set (cv_Cells (isa_Volume a))) st)"
    using *(8,10) by (simp add: find_rid_sub_def fun_eq_iff)
  moreover have "find_isa st' = (find_isa st)(isa_ID a \<mapsto> isaRecord_toModel (isa_record b s e now))"
    using *(7,10) by (simp add: find_isa_def map_of_update fun_eq_iff)
  ultimately show ?thesis
    using * stored_isa_record [OF *(2,4,5) valid_range_less [OF *(6)]] notified_subs_set [OF assms(1)] by simp
qed

lemma executeUpdateISA_steps:
  assumes "executeUpdateISA L ctx (updateISAPayload a) st = (Ok resp, st')" and "rid_wf L st"
  shows "\<exists>now b s e old. ctx = Some now \<and> \<not> IsZero now \<and> find_isa st (isa_ID a) = Some old \<and>
     ISA_AdjustTimeRange now a (Some old) = Ok b \<and> Version_Matches (isa_Version a) (isa_Version old) \<and> isa_Owner old = isa_Owner a \<and>
     cv_StartTime (isa_Volume b) = Some s \<and> cv_EndTime (isa_Volume b) = Some e \<and>
     valid_range L (cv_Cells (isa_Volume b)) s e \<and> isa_ID b = isa_ID a \<and> cv_Cells (isa_Volume b) = cv_Cells (isa_Volume a) \<and>
     (let area = set (Levelify L (s2_CellUnionFromUnion L [cv_Cells (isa_Volume old), cv_Cells (isa_Volume b)])) in
      resp = ISAResult (Some (isaRecord_toModel (isa_record b s e now))) (notified_subs now area st) \<and>
      st' = (notify_live now area st)\<lparr>rid_ISAs := AList.update (isa_ID b) (isa_record b s e now) (rid_ISAs st)\<rparr>)"
proof -
  from assms(1) obtain now old b subs st1 upd where *: "ctx = Some now" "\<not> IsZero now" "find_isa st (isa_ID a) = Some old"
      "ISA_AdjustTimeRange now a (Some old) = Ok b" "Version_Matches (isa_Version b) (isa_Version old)" "isa_Owner old = isa_Owner b"
      "UpdateNotificationIdxsInCells ctx (Levelify L (s2_CellUnionFromUnion L [cv_Cells (isa_Volume old), cv_Cells (isa_Volume b)])) st = (Ok subs, st1)"
      "UpdateISA L ctx b st1 = (Ok upd, st')" "resp = ISAResult upd subs"
    unfolding executeUpdateISA_def by (auto simp: bindE_Ok Let_def split: option.splits if_splits)
  let ?area = "set (Levelify L (s2_CellUnionFromUnion L [cv_Cells (isa_Volume old), cv_Cells (isa_Volume b)]))"
  have n: "subs = notified_subs now ?area st" "st1 = notify_live now ?area st" using *(1,7) by (auto simp: UpdateNotificationIdxs_Ok)
  note f = ISA_AdjustTimeRange_frame [OF *(4)]
  obtain r where r: "map_of (rid_ISAs st) (isa_ID b) = Some r" "old = isaRecord_toModel r"
    using *(3) f by (auto simp: find_isa_def)
  from *(8) n r *(5) have "upd \<noteq> None"
    unfolding UpdateISA_def by (auto simp: bindE_Ok Version_Matches_sym [of "isa_Version b"] Let_def split: option.splits)
  then obtain c where "upd = Some c" by blast
  with *(8) r n obtain s e where "cv_StartTime (isa_Volume b) = Some s" "cv_EndTime (isa_Volume b) = Some e"
      "valid_range L (cv_Cells (isa_Volume b)) s e" "c = isaRecord_toModel ((isa_record b s e now)\<lparr>ir_Owner := ir_Owner r\<rparr>)"
      "st' = st1\<lparr>rid_ISAs := AList.update (isa_ID b) ((isa_record b s e now)\<lparr>ir_Owner := ir_Owner r\<rparr>) (rid_ISAs st1)\<rparr>"
    using *(1) by (auto simp: UpdateISA_Some)
  moreover have "(isa_record b s e now)\<lparr>ir_Owner := ir_Owner r\<rparr> = isa_record b s e now" for s e
    using *(6) r(2) by (simp add: isa_record_def)
  ultimately show ?thesis using * n f \<open>upd = Some c\<close> by (auto simp: Let_def)
qed

text \<open>C24: the update of a service area. It succeeds only for the owner at the current version and keeps
  owner and ID; no other area changes. The subscriptions that have not ended and share a cell with the
  old or with the new extent of the area, and only these, are counted up by one and returned to be
  notified.\<close>

theorem executeUpdateISA_correct:
  assumes "rid_wf L st" and "s2_union_at_level L 13"
    and "executeUpdateISA L ctx (updateISAPayload a) st = (Ok resp, st')"
  shows "\<exists>now old b subs. ctx = Some now \<and> find_isa st (isa_ID a) = Some old \<and>
       Version_Matches (isa_Version a) (isa_Version old) \<and> isa_Owner old = isa_Owner a \<and>
       resp = ISAResult (Some b) subs \<and> stored_isa now a b \<and> find_isa st' = (find_isa st)(isa_ID a \<mapsto> b) \<and>
       (let area = set (cv_Cells (isa_Volume old)) \<union> set (cv_Cells (isa_Volume a)) in
        rid_Subscriptions st' = rid_Subscriptions (notify_live now area st) \<and>
        set subs = {s. \<exists>j r. map_of (rid_Subscriptions st) j = Some r \<and> to_notify now area r \<and> find_rid_sub st' j = Some s})"
proof -
  from executeUpdateISA_steps [OF assms(3,1)] obtain now b s e old where *: "ctx = Some now" "find_isa st (isa_ID a) = Some old"
      "ISA_AdjustTimeRange now a (Some old) = Ok b" "Version_Matches (isa_Version a) (isa_Version old)" "isa_Owner old = isa_Owner a"
      "cv_StartTime (isa_Volume b) = Some s" "cv_EndTime (isa_Volume b) = Some e"
      "valid_range L (cv_Cells (isa_Volume b)) s e" "isa_ID b = isa_ID a" "cv_Cells (isa_Volume b) = cv_Cells (isa_Volume a)"
    and area: "let area = set (Levelify L (s2_CellUnionFromUnion L [cv_Cells (isa_Volume old), cv_Cells (isa_Volume b)])) in
      resp = ISAResult (Some (isaRecord_toModel (isa_record b s e now))) (notified_subs now area st) \<and>
      st' = (notify_live now area st)\<lparr>rid_ISAs := AList.update (isa_ID b) (isa_record b s e now) (rid_ISAs st)\<rparr>"
    by blast
  let ?area = "set (cv_Cells (isa_Volume old)) \<union> set (cv_Cells (isa_Volume a))"
  obtain r where r: "map_of (rid_ISAs st) (isa_ID a) = Some r" "old = isaRecord_toModel r" using *(2) by (auto simp: find_isa_def)
  then have "isa_valid L r" using assms(1) by (simp add: rid_wf_def all_values_def)
  then have lv: "\<forall>u \<in> set [cv_Cells (isa_Volume old), cv_Cells (isa_Volume b)]. \<forall>c \<in> set u. s2_Level L c = 13"
    using r(2) *(8) by (auto simp: isa_valid_def valid_range_def)
  have "set (Levelify L (s2_CellUnionFromUnion L [cv_Cells (isa_Volume old), cv_Cells (isa_Volume b)])) = ?area"
    using assms(2) [unfolded s2_union_at_level_def, THEN spec, THEN mp, OF lv] *(10) by (simp add: Levelify_def)
  with area have u: "resp = ISAResult (Some (isaRecord_toModel (isa_record b s e now))) (notified_subs now ?area st)"
      "st' = (notify_live now ?area st)\<lparr>rid_ISAs := AList.update (isa_ID a) (isa_record b s e now) (rid_ISAs st)\<rparr>"
    using *(9) by (simp_all add: Let_def)
  have "find_rid_sub st' = find_rid_sub (notify_live now ?area st)" using u by (simp add: find_rid_sub_def fun_eq_iff)
  moreover have "find_isa st' = (find_isa st)(isa_ID a \<mapsto> isaRecord_toModel (isa_record b s e now))"
    using u by (simp add: find_isa_def map_of_update fun_eq_iff)
  ultimately show ?thesis
    using * u stored_isa_record [OF *(3,6,7) valid_range_less [OF *(8)]] notified_subs_set [OF assms(1)] by (simp add: Let_def)
qed

text \<open>A range of length zero passes \<open>AdjustTimeRange\<close>, whose message says that the end must be after
  the start, and is refused by the store with an error that has no code.\<close>

lemma zero_length_isa_uncoded:
  assumes "cv_StartTime (isa_Volume a) = Some t" and "cv_EndTime (isa_Volume a) = Some t" and "now \<le> t"
    and "find_isa st (isa_ID a) = None" and "\<not> IsZero now"
  shows "\<exists>e st'. executeInsertISA L (Some now) (insertISAPayload a) st = (Err e, st') \<and> GetCode e = None"
proof -
  have m: "MustFromContext (Some now) = Ok now" using assms(5) by simp
  have adj: "ISA_AdjustTimeRange now a None = Ok a"
    using assms(1-3) Sub_gt_iff [of rid_maxClockSkew now t] Sub_neg_iff [of t t]
    by (simp add: ISA_AdjustTimeRange_def adjust_isa_times_def rid_adjust_start_def Let_def not_less)
  have "\<not> (\<exists>u. validateWriteData L (cv_Cells (isa_Volume a)) (Some t) (Some t) = Ok u)" by (simp add: valid_range_def)
  then obtain e where e: "validateWriteData L (cv_Cells (isa_Volume a)) (Some t) (Some t) = Err e"
    by (cases "validateWriteData L (cv_Cells (isa_Volume a)) (Some t) (Some t)") auto
  then have "InsertISA L (Some now) a s' = (Err e, s')" for s' using assms(1,2) by (simp add: InsertISA_def)
  then show ?thesis
    using m adj assms(4) validateWriteData_uncoded [OF e] UpdateNotificationIdxs_run [OF m]
    by (simp add: executeInsertISA_def bindE_def)
qed

section \<open>A small state\<close>

text \<open>One service area and one subscription that meet in cell 2.\<close>

definition demo_isa_record :: isaRecord where
  "demo_isa_record = \<lparr>ir_ID = ''isa'', ir_URL = ''https://uss1'', ir_Owner = ''uss1'', ir_Cells = [1, 2], ir_StartTime = 100,
     ir_EndTime = 200, ir_AltitudeHi = None, ir_AltitudeLo = None, ir_Writer = ''dss'', ir_UpdatedAt = 50\<rparr>"

definition demo_rid_sub_record :: rid_subscriptionRecord where
  "demo_rid_sub_record = \<lparr>rr_ID = ''sub'', rr_URL = ''https://uss2'', rr_NotificationIndex = 4, rr_Owner = ''uss2'',
     rr_Cells = [2, 3], rr_StartTime = 100, rr_EndTime = 300, rr_AltitudeHi = None, rr_AltitudeLo = None,
     rr_Writer = ''dss'', rr_UpdatedAt = 60\<rparr>"

definition demo_rid_state :: rid_state where
  "demo_rid_state = \<lparr>rid_ISAs = [(''isa'', demo_isa_record)], rid_Subscriptions = [(''sub'', demo_rid_sub_record)]\<rparr>"

lemmas demo_rid_defs = demo_isa_record_def demo_rid_sub_record_def demo_rid_state_def

lemma demo_rid_wf: "rid_wf demo_externals demo_rid_state"
  by (simp add: demo_rid_defs rid_wf_def wf_gomap_def keyed_def all_values_def isa_valid_def rid_sub_valid_def valid_range_def)

lemma demo_now [simp]: "\<not> IsZero 120" "\<not> IsZero 130"
  by (simp_all add: IsZero_def zero_time_def)

lemma demo_find_isa: "find_isa demo_rid_state ''isa'' = Some (isaRecord_toModel demo_isa_record)" "find_isa demo_rid_state ''new'' = None"
  by (simp_all add: find_isa_def demo_rid_state_def)

lemma executeDeleteISA_correct_witness:
  "\<exists>subs st'. executeDeleteISA (Some 120) (deleteISAPayload ''isa'' ''uss1'' (Some (VersionFromTime 50))) demo_rid_state =
     (Ok (ISAResult (Some (isaRecord_toModel demo_isa_record)) subs), st') \<and> find_isa st' ''isa'' = None"
proof -
  obtain res st' where e: "executeDeleteISA (Some 120) (deleteISAPayload ''isa'' ''uss1'' (Some (VersionFromTime 50))) demo_rid_state = (res, st')"
    by fastforce
  have m: "MustFromContext (Some 120) = Ok 120" by simp
  from executeDeleteISA_correct [OF demo_rid_wf m e] show ?thesis
    by (auto simp: demo_find_isa e isaRecord_version_def demo_isa_record_def)
qed

text \<open>A write that meets its guards goes through.\<close>

lemma executeInsertISA_runs:
  assumes "MustFromContext ctx = Ok now" and "ISA_AdjustTimeRange now a None = Ok b" and "find_isa st (isa_ID a) = None"
    and "cv_StartTime (isa_Volume b) = Some s" and "cv_EndTime (isa_Volume b) = Some e" and "valid_range L (cv_Cells (isa_Volume b)) s e"
  shows "\<exists>resp st'. executeInsertISA L ctx (insertISAPayload a) st = (Ok resp, st')"
proof -
  have i: "isa_ID b = isa_ID a" using ISA_AdjustTimeRange_frame [OF assms(2)] by simp
  have "map_of (rid_ISAs (notify_live now area st)) (isa_ID b) = None" for area using assms(3) i by (simp add: find_isa_def)
  then have "\<exists>c st'. InsertISA L ctx b (notify_live now area st) = (Ok c, st')" for area
    using assms by (auto simp: InsertISA_Ok)
  then obtain c st' where "InsertISA L ctx b (notify_live now (set (cv_Cells (isa_Volume b))) st) = (Ok c, st')" by blast
  then show ?thesis
    using assms(1-3) i UpdateNotificationIdxs_run [OF assms(1), of "cv_Cells (isa_Volume b)" st] by (simp add: executeInsertISA_def bindE_def)
qed

lemma executeUpdateISA_runs:
  assumes "MustFromContext ctx = Ok now" and "find_isa st (isa_ID a) = Some old" and "ISA_AdjustTimeRange now a (Some old) = Ok b"
    and "Version_Matches (isa_Version a) (isa_Version old)" and "isa_Owner old = isa_Owner a"
    and "cv_StartTime (isa_Volume b) = Some s" and "cv_EndTime (isa_Volume b) = Some e" and "valid_range L (cv_Cells (isa_Volume b)) s e"
  shows "\<exists>resp st'. executeUpdateISA L ctx (updateISAPayload a) st = (Ok resp, st')"
proof -
  note f = ISA_AdjustTimeRange_frame [OF assms(3)]
  obtain r where r: "map_of (rid_ISAs st) (isa_ID b) = Some r" "old = isaRecord_toModel r" using assms(2) f by (auto simp: find_isa_def)
  then have "map_of (rid_ISAs (notify_live now area st)) (isa_ID b) = Some r" for area by simp
  moreover have "Version_Matches (isaRecord_version r) (isa_Version b)" using assms(4) f r(2) by (simp add: Version_Matches_sym)
  ultimately have "\<exists>c st'. UpdateISA L ctx b (notify_live now area st) = (Ok (Some c), st')" for area
    using assms(1,6-8) by (auto simp: UpdateISA_Some)
  then obtain c st' where u: "UpdateISA L ctx b (notify_live now
      (set (Levelify L (s2_CellUnionFromUnion L [cv_Cells (isa_Volume old), cv_Cells (isa_Volume b)]))) st) = (Ok (Some c), st')" by blast
  then show ?thesis
    using assms(1-5) f UpdateNotificationIdxs_run [OF assms(1)] by (simp add: executeUpdateISA_def bindE_def Let_def)
qed

definition demo_isa :: IdentificationServiceArea where
  "demo_isa = \<lparr>isa_ID = ''new'', isa_URL = ''https://uss1'', isa_Owner = ''uss1'', isa_Version = Some (VersionFromTime 50), isa_Writer = ''dss'',
     isa_Volume = \<lparr>cv_Cells = [3], cv_StartTime = Some 120, cv_EndTime = Some 220, cv_AltitudeLo = None, cv_AltitudeHi = None\<rparr>\<rparr>"

lemma demo_isa_adjust: "ISA_AdjustTimeRange 120 (demo_isa\<lparr>isa_ID := i\<rparr>) old = Ok (demo_isa\<lparr>isa_ID := i\<rparr>)"
  by (simp add: ISA_AdjustTimeRange_def demo_isa_def adjust_isa_times_def rid_adjust_start_def Sub_def sat64_def Let_def)

lemma executeInsertISA_correct_witness:
  "\<exists>resp st' b. executeInsertISA demo_externals (Some 120) (insertISAPayload demo_isa) demo_rid_state = (Ok resp, st') \<and>
     find_isa st' ''new'' = Some b \<and> isa_Owner b = ''uss1''"
proof -
  have "\<exists>resp st'. executeInsertISA demo_externals (Some 120) (insertISAPayload demo_isa) demo_rid_state = (Ok resp, st')"
    by (rule executeInsertISA_runs [of _ 120 _ demo_isa _ 120 220])
      (use demo_isa_adjust [of "''new''" None] in \<open>simp_all add: demo_isa_def demo_find_isa valid_range_def\<close>)
  then obtain resp st' where e: "executeInsertISA demo_externals (Some 120) (insertISAPayload demo_isa) demo_rid_state = (Ok resp, st')" by blast
  from executeInsertISA_correct [OF demo_rid_wf e] e show ?thesis by (auto simp: stored_isa_def demo_isa_def)
qed

theorem executeUpdateISA_correct_witness:
  "\<exists>resp st' b. executeUpdateISA demo_externals (Some 120) (updateISAPayload (demo_isa\<lparr>isa_ID := ''isa''\<rparr>)) demo_rid_state = (Ok resp, st') \<and>
     find_isa st' ''isa'' = Some b \<and> cv_Cells (isa_Volume b) = [3]"
proof -
  have "\<exists>resp st'. executeUpdateISA demo_externals (Some 120) (updateISAPayload (demo_isa\<lparr>isa_ID := ''isa''\<rparr>)) demo_rid_state = (Ok resp, st')"
    by (rule executeUpdateISA_runs [OF _ _ demo_isa_adjust, of _ _ _ "isaRecord_toModel demo_isa_record" 120 220])
      (simp_all add: demo_isa_def demo_find_isa valid_range_def isaRecord_version_def demo_isa_record_def)
  then obtain resp st' where
      e: "executeUpdateISA demo_externals (Some 120) (updateISAPayload (demo_isa\<lparr>isa_ID := ''isa''\<rparr>)) demo_rid_state = (Ok resp, st')" by blast
  from executeUpdateISA_correct [OF demo_rid_wf demo_s2_union_at_level e] e show ?thesis by (auto simp: stored_isa_def demo_isa_def)
qed

end
