(* ===== verification/Rid_Subscriptions.thy ===== *)
theory Rid_Subscriptions
  imports Rid_Operations
begin

text \<open>
  The subscription operations of the remote-identification service: what creation, update and deletion
  of a subscription do, and the quota of requirement DSS0030, ten subscriptions of an owner in one cell.
\<close>

section \<open>The quota check\<close>

lemma length_filter_mono: "(\<And>x. x \<in> set xs \<Longrightarrow> P x \<Longrightarrow> Q x) \<Longrightarrow> length (filter P xs) \<le> length (filter Q xs)"
  by (induction xs) auto

lemma length_filter_update:
  "length (filter P (map snd (AList.update k v m))) \<le> length (filter P (map snd m)) + (if P v then 1 else 0)"
  by (induction m) auto

lemma length_filter_delete: "length (filter P (map snd (AList.delete k m))) \<le> length (filter P (map snd m))"
  by (induction m) auto

definition within_quota :: "time \<Rightarrow> rid_state \<Rightarrow> bool" where
  "within_quota now st \<longleftrightarrow> (\<forall>own c. live_count now own st c \<le> maxSubscriptionsPerArea)"

lemma within_quota_empty [simp]: "within_quota now empty_rid_state"
  by (simp add: within_quota_def live_count_def empty_rid_state_def)

text \<open>Subscriptions only end as time passes; notifications and deletes add none.\<close>

lemma live_count_later: "t \<le> u \<Longrightarrow> live_count u own st c \<le> live_count t own st c"
  unfolding live_count_def by (rule length_filter_mono) (simp add: live_in_cell_def)

lemma live_count_delete:
  "live_count now own (st\<lparr>rid_Subscriptions := AList.delete i (rid_Subscriptions st)\<rparr>) c \<le> live_count now own st c"
  using length_filter_delete [of "live_in_cell now own c" i "rid_Subscriptions st"] by (simp add: live_count_def)

lemma live_count_notify: "live_count now own (notify_live t area st) c = live_count now own st c"
proof -
  have p: "live_in_cell now own c (if to_notify t area r then rid_bump r else r) = live_in_cell now own c r" for r
    by (simp add: live_in_cell_def)
  show ?thesis by (simp add: live_count_def notify_live_def comp_def p)
qed

lemma within_quota_later: "within_quota t st \<Longrightarrow> t \<le> u \<Longrightarrow> within_quota u st"
  unfolding within_quota_def using live_count_later le_trans by blast

lemma within_quota_subs: "rid_Subscriptions st' = rid_Subscriptions st \<Longrightarrow> within_quota now st' = within_quota now st"
  by (simp add: within_quota_def live_count_def)

lemma within_quota_notify [simp]: "within_quota now (notify_live t area st) = within_quota now st"
  by (simp add: within_quota_def live_count_notify)

lemma within_quota_delete:
  "within_quota now st \<Longrightarrow> within_quota now (st\<lparr>rid_Subscriptions := AList.delete i (rid_Subscriptions st)\<rparr>)"
  unfolding within_quota_def using live_count_delete le_trans by blast

lemma within_quota_update:
  assumes "within_quota now st" and "\<And>c. c \<in> set (rr_Cells r) \<Longrightarrow> live_count now (rr_Owner r) st c < maxSubscriptionsPerArea"
  shows "within_quota now (st\<lparr>rid_Subscriptions := AList.update i r (rid_Subscriptions st)\<rparr>)"
  unfolding within_quota_def
proof (intro allI)
  fix own c
  let ?n = "live_count now own (st\<lparr>rid_Subscriptions := AList.update i r (rid_Subscriptions st)\<rparr>) c"
  have n: "?n \<le> live_count now own st c + (if live_in_cell now own c r then 1 else 0)"
    using length_filter_update [of "live_in_cell now own c" i r "rid_Subscriptions st"] by (simp add: live_count_def)
  show "?n \<le> maxSubscriptionsPerArea"
  proof (cases "live_in_cell now own c r")
    case True
    then have "live_count now own st c < maxSubscriptionsPerArea" using assms(2) by (auto simp: live_in_cell_def)
    with n True show ?thesis by simp
  next
    case False
    moreover have "live_count now own st c \<le> maxSubscriptionsPerArea" using assms(1) by (simp add: within_quota_def)
    ultimately show ?thesis using n by simp
  qed
qed

lemma checkSubscriptionCount_conv:
  assumes "MustFromContext ctx = Ok now"
  shows "checkSubscriptionCount ctx sub st =
    (if \<exists>c \<in> set (cv_Cells (rs_Volume sub)). maxSubscriptionsPerArea \<le> cell_occurrences now (rs_Owner sub) st c
     then (Err (NewErrorWithCode Exhausted ''Too many existing subscriptions in this area already''), st) else (Ok (), st))"
proof -
  have "maxSubscriptionsPerArea \<le> Max (insert 0 (cell_occurrences now (rs_Owner sub) st ` set (cv_Cells (rs_Volume sub)))) \<longleftrightarrow>
      (\<exists>c \<in> set (cv_Cells (rs_Volume sub)). maxSubscriptionsPerArea \<le> cell_occurrences now (rs_Owner sub) st c)"
    by (subst Max_ge_iff) auto
  then show ?thesis
    using MaxSubscriptionCount_conv [OF assms, of "cv_Cells (rs_Volume sub)" "rs_Owner sub" st]
    by (simp add: checkSubscriptionCount_def bindE_def)
qed

lemma checkSubscriptionCount_Ok:
  assumes "checkSubscriptionCount ctx sub st = (Ok u, st')" and "MustFromContext ctx = Ok now"
  shows "st' = st \<and> (\<forall>c \<in> set (cv_Cells (rs_Volume sub)). live_count now (rs_Owner sub) st c < maxSubscriptionsPerArea)"
proof -
  have "cell_occurrences now (rs_Owner sub) st c < maxSubscriptionsPerArea" if "c \<in> set (cv_Cells (rs_Volume sub))" for c
    using assms(1) that unfolding checkSubscriptionCount_conv [OF assms(2)] by (auto simp: not_le split: if_splits)
  then show ?thesis
    using assms(1) live_count_le_occurrences le_less_trans unfolding checkSubscriptionCount_conv [OF assms(2)]
    by (auto split: if_splits) blast
qed

section \<open>What the operations do\<close>

text \<open>The stored form of a subscription that was put at some time.\<close>

definition stored_rid_sub :: "time \<Rightarrow> rid_Subscription \<Rightarrow> rid_Subscription \<Rightarrow> bool" where
  "stored_rid_sub now a b \<longleftrightarrow> rs_ID b = rs_ID a \<and> rs_Owner b = rs_Owner a \<and> rs_URL b = rs_URL a \<and>
     rs_Writer b = rs_Writer a \<and> rs_NotificationIndex b = rs_NotificationIndex a \<and>
     cv_Cells (rs_Volume b) = cv_Cells (rs_Volume a) \<and> rs_Version b = Some (VersionFromTime now) \<and>
     (\<exists>s e. cv_StartTime (rs_Volume b) = Some s \<and> cv_EndTime (rs_Volume b) = Some e \<and> s < e \<and>
        e - s \<le> rid_maxSubscriptionDuration)"

lemma stored_rid_sub_record:
  assumes "rid_AdjustTimeRange now a old = Ok b" and "cv_StartTime (rs_Volume b) = Some s"
    and "cv_EndTime (rs_Volume b) = Some e" and "s < e"
  shows "stored_rid_sub now a (rid_subscriptionRecord_toModel (sub_record b s e now))"
  using rid_AdjustTimeRange_frame [OF assms(1)] assms(2-)
  by (simp add: stored_rid_sub_def rid_subscriptionRecord_version_def)

text \<open>The two operations that put a subscription, on success: the guards, and the record that is stored.\<close>

definition sub_put :: "externals \<Rightarrow> ctx \<Rightarrow> rid_Subscription \<Rightarrow> rid_Subscription option \<Rightarrow> rid_state \<Rightarrow> rid_response \<Rightarrow> rid_state \<Rightarrow> bool" where
  "sub_put L ctx a old st resp st' \<longleftrightarrow>
     (\<exists>now b s e isas. ctx = Some now \<and> \<not> IsZero now \<and> find_rid_sub st (rs_ID a) = old \<and> rid_AdjustTimeRange now a old = Ok b \<and>
        cv_StartTime (rs_Volume b) = Some s \<and> cv_EndTime (rs_Volume b) = Some e \<and> valid_range L (cv_Cells (rs_Volume b)) s e \<and>
        (\<forall>c \<in> set (cv_Cells (rs_Volume b)). live_count now (rs_Owner b) st c < maxSubscriptionsPerArea) \<and>
        st' = st\<lparr>rid_Subscriptions := AList.update (rs_ID b) (sub_record b s e now) (rid_Subscriptions st)\<rparr> \<and>
        SearchISAs (cv_Cells (rs_Volume b)) (Some now) None st' = (Ok isas, st') \<and>
        resp = SubscriptionResult (rid_subscriptionRecord_toModel (sub_record b s e now)) isas)"

lemma executeCreateSubscription_steps:
  assumes "executeCreateSubscription L ctx (insertSubscriptionPayload a) st = (Ok resp, st')"
  shows "sub_put L ctx a None st resp st'"
proof -
  from assms obtain now b where *: "ctx = Some now" "\<not> IsZero now" "rid_AdjustTimeRange now a None = Ok b" "find_rid_sub st (rs_ID b) = None"
    and "\<exists>st0 st1 c isas. checkSubscriptionCount ctx b st = (Ok (), st0) \<and> InsertSubscription L ctx b st0 = (Ok c, st1) \<and>
      SearchISAs (cv_Cells (rs_Volume c)) (Some now) None st1 = (Ok isas, st') \<and> resp = SubscriptionResult c isas"
    unfolding executeCreateSubscription_def by (auto simp: bindE_Ok split: if_splits)
  then obtain st0 st1 c isas where u: "checkSubscriptionCount ctx b st = (Ok (), st0)" "InsertSubscription L ctx b st0 = (Ok c, st1)"
      "SearchISAs (cv_Cells (rs_Volume c)) (Some now) None st1 = (Ok isas, st')" "resp = SubscriptionResult c isas" by blast
  have "st0 = st" "\<forall>c \<in> set (cv_Cells (rs_Volume b)). live_count now (rs_Owner b) st c < maxSubscriptionsPerArea"
    using checkSubscriptionCount_Ok [OF u(1)] *(1,2) by simp_all
  moreover have "st' = st1" using readonlyD [OF readonly_rid_repo(2) u(3)] .
  ultimately show ?thesis using * u rid_AdjustTimeRange_frame [OF *(3)] unfolding sub_put_def
    by (auto simp: InsertSubscription_Ok)
qed

lemma executeUpdateSubscription_steps:
  assumes "executeUpdateSubscription L ctx (updateSubscriptionPayload a) st = (Ok resp, st')"
  shows "\<exists>old. Version_Matches (rs_Version a) (rs_Version old) \<and> rs_Owner old = rs_Owner a \<and> sub_put L ctx a (Some old) st resp st'"
proof -
  from assms obtain now old b where *: "ctx = Some now" "\<not> IsZero now" "find_rid_sub st (rs_ID a) = Some old"
      "rid_AdjustTimeRange now a (Some old) = Ok b" "Version_Matches (rs_Version b) (rs_Version old)" "rs_Owner old = rs_Owner b"
    and "\<exists>st0 st1 c isas. checkSubscriptionCount ctx b st = (Ok (), st0) \<and> UpdateSubscription L ctx b st0 = (Ok (Some c), st1) \<and>
      SearchISAs (cv_Cells (rs_Volume c)) (Some now) None st1 = (Ok isas, st') \<and> resp = SubscriptionResult c isas"
    unfolding executeUpdateSubscription_def
    by (auto simp: bindE_Ok split: if_splits option.splits) (metis deref_simps(2) deref_simps(1) not_None_eq outcome.inject(1) outcome.distinct(3))
  then obtain st0 st1 c isas where u: "checkSubscriptionCount ctx b st = (Ok (), st0)" "UpdateSubscription L ctx b st0 = (Ok (Some c), st1)"
      "SearchISAs (cv_Cells (rs_Volume c)) (Some now) None st1 = (Ok isas, st')" "resp = SubscriptionResult c isas" by blast
  have q: "st0 = st" "\<forall>c \<in> set (cv_Cells (rs_Volume b)). live_count now (rs_Owner b) st c < maxSubscriptionsPerArea"
    using checkSubscriptionCount_Ok [OF u(1)] *(1,2) by simp_all
  have s1: "st' = st1" using readonlyD [OF readonly_rid_repo(2) u(3)] .
  note f = rid_AdjustTimeRange_frame [OF *(4)]
  from u(2) *(1) q(1) obtain s e prev where w: "cv_StartTime (rs_Volume b) = Some s" "cv_EndTime (rs_Volume b) = Some e"
      "valid_range L (cv_Cells (rs_Volume b)) s e" "map_of (rid_Subscriptions st) (rs_ID b) = Some prev"
      "c = rid_subscriptionRecord_toModel ((sub_record b s e now)\<lparr>rr_Owner := rr_Owner prev\<rparr>)"
      "st1 = st\<lparr>rid_Subscriptions := AList.update (rs_ID b) ((sub_record b s e now)\<lparr>rr_Owner := rr_Owner prev\<rparr>) (rid_Subscriptions st)\<rparr>"
    by (auto simp: UpdateSubscription_Some)
  have "rr_Owner prev = rs_Owner b" using w(4) *(3,6) f by (auto simp: find_rid_sub_def)
  then have "(sub_record b s e now)\<lparr>rr_Owner := rr_Owner prev\<rparr> = sub_record b s e now" by (simp add: sub_record_def)
  with w(5,6) have c: "c = rid_subscriptionRecord_toModel (sub_record b s e now)"
      "st1 = st\<lparr>rid_Subscriptions := AList.update (rs_ID b) (sub_record b s e now) (rid_Subscriptions st)\<rparr>" by simp_all
  then have "sub_put L ctx a (Some old) st resp st'"
    using * u q w(1-3) s1 unfolding sub_put_def by auto
  then show ?thesis using *(5,6) f by auto
qed

lemma sub_put_quota:
  assumes "sub_put L ctx a old st resp st'" and "ctx = Some now" and "within_quota now st"
  shows "within_quota now st'"
  using assms unfolding sub_put_def by (auto intro!: within_quota_update)

lemma sub_put_wf: "sub_put L ctx a old st resp st' \<Longrightarrow> rid_wf L st \<Longrightarrow> rid_wf L st'"
  unfolding sub_put_def by (auto simp: rid_wf_def rid_sub_valid_def)

lemma sub_put_effect:
  assumes "sub_put L ctx a old st resp st'"
  shows "\<exists>now b isas. ctx = Some now \<and> resp = SubscriptionResult b isas \<and> stored_rid_sub now a b \<and>
     find_rid_sub st' = (find_rid_sub st)(rs_ID a \<mapsto> b) \<and> rid_ISAs st' = rid_ISAs st \<and> find_rid_sub st (rs_ID a) = old"
proof -
  from assms obtain now b s e isas where *: "ctx = Some now" "find_rid_sub st (rs_ID a) = old" "rid_AdjustTimeRange now a old = Ok b"
      "cv_StartTime (rs_Volume b) = Some s" "cv_EndTime (rs_Volume b) = Some e" "valid_range L (cv_Cells (rs_Volume b)) s e"
      "st' = st\<lparr>rid_Subscriptions := AList.update (rs_ID b) (sub_record b s e now) (rid_Subscriptions st)\<rparr>"
      "resp = SubscriptionResult (rid_subscriptionRecord_toModel (sub_record b s e now)) isas"
    unfolding sub_put_def by blast
  have "rs_ID b = rs_ID a" using rid_AdjustTimeRange_frame [OF *(3)] by simp
  then have "find_rid_sub st' = (find_rid_sub st)(rs_ID a \<mapsto> rid_subscriptionRecord_toModel (sub_record b s e now))"
    using *(7) by (simp add: find_rid_sub_def map_of_update fun_eq_iff)
  with * stored_rid_sub_record [OF *(3-5) valid_range_less [OF *(6)]] show ?thesis by auto
qed
text \<open>C25: a subscription that is created or updated. A creation succeeds only for an ID without a
  subscription, an update only for the owner at the current version. The stored subscription is the
  client's, with a time range of positive length and at most 24 hours and the version of the request
  time; no other subscription and no service area changes. If no owner had more than ten subscriptions
  that have not ended in any one cell, then this is still so.\<close>

theorem rid_put_subscription_correct:
  assumes "req = insertSubscriptionPayload a \<or> req = updateSubscriptionPayload a"
    and "oh_Execute (rid_handler_of L req) ctx req st = (Ok resp, st')"
  shows "\<exists>now b isas. ctx = Some now \<and> resp = SubscriptionResult b isas \<and> stored_rid_sub now a b \<and>
     find_rid_sub st' = (find_rid_sub st)(rs_ID a \<mapsto> b) \<and> rid_ISAs st' = rid_ISAs st \<and>
     (within_quota now st \<longrightarrow> within_quota now st') \<and>
     (case find_rid_sub st (rs_ID a) of
        None \<Rightarrow> req = insertSubscriptionPayload a
      | Some old \<Rightarrow> req = updateSubscriptionPayload a \<and> Version_Matches (rs_Version a) (rs_Version old) \<and> rs_Owner old = rs_Owner a)"
  using assms(1)
proof
  assume r: "req = insertSubscriptionPayload a"
  with assms(2) have p: "sub_put L ctx a None st resp st'" by (intro executeCreateSubscription_steps) simp
  from sub_put_effect [OF p] sub_put_quota [OF p] r show ?thesis by auto
next
  assume r: "req = updateSubscriptionPayload a"
  with assms(2) have "executeUpdateSubscription L ctx (updateSubscriptionPayload a) st = (Ok resp, st')" by simp
  from executeUpdateSubscription_steps [OF this] obtain old where o: "Version_Matches (rs_Version a) (rs_Version old)"
      "rs_Owner old = rs_Owner a" and p: "sub_put L ctx a (Some old) st resp st'" by blast
  from sub_put_effect [OF p] sub_put_quota [OF p] r o show ?thesis by auto
qed

text \<open>C26: the quota is enforced. A creation that passes the other checks is refused as exhausted, and
  without effect, exactly when in some cell of the request the owner's subscriptions that have not
  ended already occur ten times.\<close>

theorem rid_quota_enforced:
  assumes "MustFromContext ctx = Ok now" and "rid_AdjustTimeRange now a None = Ok b" and "find_rid_sub st (rs_ID a) = None"
    and "executeCreateSubscription L ctx (insertSubscriptionPayload a) st = (res, st')"
  shows "(outcome_code res = Some Exhausted \<longleftrightarrow>
            (\<exists>c \<in> set (cv_Cells (rs_Volume a)). maxSubscriptionsPerArea \<le> cell_occurrences now (rs_Owner a) st c)) \<and>
         (outcome_code res = Some Exhausted \<longrightarrow> st' = st)"
proof -
  have f: "rs_ID b = rs_ID a" "rs_Owner b = rs_Owner a" "cv_Cells (rs_Volume b) = cv_Cells (rs_Volume a)"
    using rid_AdjustTimeRange_frame [OF assms(2)] by simp_all
  have e: "executeCreateSubscription L ctx (insertSubscriptionPayload a) st =
      bindE (checkSubscriptionCount ctx b) (\<lambda>_. bindE (InsertSubscription L ctx b) (\<lambda>inserted.
        bindE (SearchISAs (cv_Cells (rs_Volume inserted)) (Some now) None) (\<lambda>isas. ret (SubscriptionResult inserted isas)))) st"
    using assms(1-3) f(1) by (simp add: executeCreateSubscription_def bindE_def)
  show ?thesis
  proof (cases "\<exists>c \<in> set (cv_Cells (rs_Volume a)). maxSubscriptionsPerArea \<le> cell_occurrences now (rs_Owner a) st c")
    case True
    then show ?thesis using assms(4) f unfolding e by (auto simp: checkSubscriptionCount_conv [OF assms(1)] bindE_def)
  next
    case False
    then have r: "bindE (InsertSubscription L ctx b) (\<lambda>inserted.
        bindE (SearchISAs (cv_Cells (rs_Volume inserted)) (Some now) None) (\<lambda>isas. ret (SubscriptionResult inserted isas))) st = (res, st')"
      using assms(4) f unfolding e by (auto simp: checkSubscriptionCount_conv [OF assms(1)] bindE_def)
    have i: "InsertSubscription L ctx b st = (Err x, t) \<Longrightarrow> GetCode x = None" for x t
      using validateWriteData_uncoded
      by (auto simp: InsertSubscription_def bindE_Err subRecordFromModel_def obind_Err_iff deref_def split: if_splits option.splits)
    have s: "cells \<noteq> [] \<Longrightarrow> SearchISAs cells (Some now) None u \<noteq> (Err x, t)" for cells u x t
      by (simp add: SearchISAs_def)
    have "res = Err x \<Longrightarrow> GetCode x = None" for x
      using r i s by (auto simp: bindE_Err InsertSubscription_Ok valid_range_def)
    then have "outcome_code res \<noteq> Some Exhausted" by (cases res) auto
    with False show ?thesis by simp
  qed
qed

text \<open>An update of a subscription loses its notification index. Whatever the index of the stored
  subscription was, after an update that a client requested it is 0: the payload is built without an
  index and the store takes the index of the payload, so that a subscriber sees the index fall.\<close>

lemma rid_update_resets_index:
  assumes "rid_NewUpdateSubscriptionPayload L i owner url writer v extents allow = Ok req"
    and "executeUpdateSubscription L ctx req st = (Ok resp, st')"
  shows "\<exists>old b. find_rid_sub st i = Some old \<and> find_rid_sub st' i = Some b \<and> rs_NotificationIndex b = 0"
proof -
  from assms(1) obtain a where a: "req = updateSubscriptionPayload a" "rs_ID a = i" "rs_NotificationIndex a = 0"
    by (auto simp: rid_NewUpdateSubscriptionPayload_def rid_newSubscription_def obind_Ok_iff)
  from executeUpdateSubscription_steps assms(2) a(1) obtain old where "sub_put L ctx a (Some old) st resp st'" by blast
  from sub_put_effect [OF this] a(2,3) show ?thesis by (auto simp: stored_rid_sub_def)
qed

section \<open>Deletion\<close>

lemma rid_sub_key: "rid_wf L st \<Longrightarrow> find_rid_sub st i = Some a \<Longrightarrow> rs_ID a = i"
  by (auto simp: find_rid_sub_def rid_wf_def dest: keyedD)

lemma rid_executeDeleteSubscription_refused:
  "find_rid_sub st i = None \<Longrightarrow> \<exists>e. rid_executeDeleteSubscription ctx (deleteSubscriptionPayload i own v) st = (Err e, st) \<and> GetCode e = Some NotFound"
  "find_rid_sub st i = Some a \<Longrightarrow> \<not> Version_Matches v (rs_Version a) \<Longrightarrow>
     \<exists>e. rid_executeDeleteSubscription ctx (deleteSubscriptionPayload i own v) st = (Err e, st) \<and> GetCode e = Some VersionMismatch"
  "find_rid_sub st i = Some a \<Longrightarrow> Version_Matches v (rs_Version a) \<Longrightarrow> rs_Owner a \<noteq> own \<Longrightarrow>
     \<exists>e. rid_executeDeleteSubscription ctx (deleteSubscriptionPayload i own v) st = (Err e, st) \<and> GetCode e = Some PermissionDenied"
  by (simp_all add: rid_executeDeleteSubscription_def bindE_def)

lemma rid_executeDeleteSubscription_Ok:
  assumes "rid_wf L st" and "find_rid_sub st i = Some a" and "Version_Matches v (rs_Version a)" and "rs_Owner a = own"
  shows "rid_executeDeleteSubscription ctx (deleteSubscriptionPayload i own v) st =
    (Ok (DeletedSubscription (Some a)), st\<lparr>rid_Subscriptions := AList.delete i (rid_Subscriptions st)\<rparr>)"
proof -
  obtain r where r: "map_of (rid_Subscriptions st) i = Some r" "a = rid_subscriptionRecord_toModel r"
    using assms(2) by (auto simp: find_rid_sub_def)
  then have "rid_DeleteSubscription a st = (Ok (Some a), st\<lparr>rid_Subscriptions := AList.delete i (rid_Subscriptions st)\<rparr>)"
    using rid_sub_key [OF assms(1,2)] by (simp add: rid_DeleteSubscription_conv findForWrite_def)
  with assms show ?thesis by (simp add: rid_executeDeleteSubscription_def bindE_def)
qed

interpretation rid_sub_delete: guarded_delete "rid_wf L" find_rid_sub rs_Owner "\<lambda>v a. Version_Matches v (rs_Version a)"
  "\<lambda>i own v. rid_executeDeleteSubscription ctx (deleteSubscriptionPayload i own v)" for L ctx
proof (unfold_locales, goal_cases)
  case (1 s k own v)
  then show ?case by (rule rid_executeDeleteSubscription_refused)
next
  case (2 s k m own v)
  then show ?case using rid_executeDeleteSubscription_refused(2,3) [of s k m v] by (cases "Version_Matches v (rs_Version m)") auto
next
  case (3 s k own v r t)
  then obtain a where a: "find_rid_sub s k = Some a" "Version_Matches v (rs_Version a)" "rs_Owner a = own"
    by (auto simp: rid_executeDeleteSubscription_def bindE_Ok split: option.splits if_splits)
  from rid_executeDeleteSubscription_Ok [OF 3(1) a] 3(2) show ?case
    by (auto simp: find_rid_sub_def map_of_delete fun_eq_iff)
qed

section \<open>The invariant of the store\<close>

text \<open>Every registered operation that succeeds keeps the store well-formed and, at its own time, within
  the quota.\<close>

definition rid_inv :: "externals \<Rightarrow> time \<Rightarrow> rid_state \<Rightarrow> bool" where
  "rid_inv L now st \<longleftrightarrow> rid_wf L st \<and> within_quota now st"

lemma rid_inv_later: "rid_inv L t st \<Longrightarrow> t \<le> u \<Longrightarrow> rid_inv L u st"
  using within_quota_later by (auto simp: rid_inv_def)

lemma rid_inv_isas:
  assumes "rid_inv L t st" and "rid_wf L st'" and "rid_Subscriptions st' = rid_Subscriptions (notify_live now area st)"
  shows "rid_inv L t st'"
  using assms within_quota_subs [OF assms(3), of t] by (simp add: rid_inv_def)

lemma rid_registry_keeps_inv:
  assumes inv: "rid_inv L now st" and e: "oh_Execute (rid_handler_of L req) (Some now) req st = (Ok resp, st')"
  shows "rid_inv L now st'"
proof -
  have wf: "rid_wf L st" using inv by (simp add: rid_inv_def)
  show ?thesis
  proof (cases req)
    case (deleteISAPayload i own v)
    with e have d: "executeDeleteISA (Some now) (deleteISAPayload i own v) st = (Ok resp, st')" by simp
    then have now: "MustFromContext (Some now) = Ok now"
      by (auto simp: executeDeleteISA_def bindE_Ok UpdateNotificationIdxs_Ok split: option.splits if_splits)
    from isa_delete.del_guard [OF d] obtain a where a: "find_isa st i = Some a" "Version_Matches v (isa_Version a)" "isa_Owner a = own" by auto
    from executeDeleteISA_Ok [OF wf a now] d
    have "st' = (notify_live now (set (cv_Cells (isa_Volume a))) st)\<lparr>rid_ISAs := AList.delete i (rid_ISAs st)\<rparr>" by simp
    with inv show ?thesis
      using rid_wf_notify_live [OF wf] by (intro rid_inv_isas [OF inv]) (auto simp: rid_wf_def)
  next
    case (insertISAPayload a)
    with e executeInsertISA_steps [of L "Some now" a st resp st'] obtain b s t where
      "st' = (notify_live now (set (cv_Cells (isa_Volume b))) st)\<lparr>rid_ISAs := AList.update (isa_ID b) (isa_record b s t now) (rid_ISAs st)\<rparr>"
      "valid_range L (cv_Cells (isa_Volume b)) s t" by auto
    with inv show ?thesis
      using rid_wf_notify_live [OF wf] by (intro rid_inv_isas [OF inv]) (auto simp: rid_wf_def isa_valid_def)
  next
    case (updateISAPayload a)
    with e executeUpdateISA_steps [of L "Some now" a st resp st', OF _ wf] obtain b s t area where
      "st' = (notify_live now area st)\<lparr>rid_ISAs := AList.update (isa_ID b) (isa_record b s t now) (rid_ISAs st)\<rparr>"
      "valid_range L (cv_Cells (isa_Volume b)) s t" by (auto simp: Let_def)
    with inv show ?thesis
      using rid_wf_notify_live [OF wf] by (intro rid_inv_isas [OF inv]) (auto simp: rid_wf_def isa_valid_def)
  next
    case (insertSubscriptionPayload a)
    with e have "sub_put L (Some now) a None st resp st'" by (intro executeCreateSubscription_steps) simp
    with inv show ?thesis using sub_put_wf sub_put_quota unfolding rid_inv_def by blast
  next
    case (updateSubscriptionPayload a)
    with e executeUpdateSubscription_steps obtain old where "sub_put L (Some now) a (Some old) st resp st'" by fastforce
    with inv show ?thesis using sub_put_wf sub_put_quota unfolding rid_inv_def by blast
  next
    case (deleteSubscriptionPayload i own v)
    with e have d: "rid_executeDeleteSubscription (Some now) (deleteSubscriptionPayload i own v) st = (Ok resp, st')" by simp
    from rid_sub_delete.del_guard [OF d] obtain a where a: "find_rid_sub st i = Some a" "Version_Matches v (rs_Version a)" "rs_Owner a = own" by auto
    from rid_executeDeleteSubscription_Ok [OF wf a] d
    have s: "st' = st\<lparr>rid_Subscriptions := AList.delete i (rid_Subscriptions st)\<rparr>" by simp
    have "rid_wf L st'" using wf s by (simp add: rid_wf_def)
    with inv s within_quota_delete show ?thesis by (simp add: rid_inv_def)
  qed
qed

section \<open>Runs\<close>

definition demo_rid_sub :: rid_Subscription where
  "demo_rid_sub = \<lparr>rs_ID = ''new'', rs_URL = ''https://uss2'', rs_NotificationIndex = 0, rs_Owner = ''uss2'',
     rs_Version = Some (VersionFromTime 60), rs_Writer = ''dss'',
     rs_Volume = \<lparr>cv_Cells = [3], cv_StartTime = Some 120, cv_EndTime = Some 220, cv_AltitudeLo = None, cv_AltitudeHi = None\<rparr>\<rparr>"

lemma demo_rid_sub_adjust: "rid_AdjustTimeRange 120 (demo_rid_sub\<lparr>rs_ID := i\<rparr>) old = Ok (demo_rid_sub\<lparr>rs_ID := i\<rparr>)"
  by (simp add: rid_AdjustTimeRange_def demo_rid_sub_def adjust_rid_sub_times_def rid_adjust_start_def Sub_def sat64_def Let_def)

lemma demo_find_rid_sub:
  "find_rid_sub demo_rid_state ''sub'' = Some (rid_subscriptionRecord_toModel demo_rid_sub_record)" "find_rid_sub demo_rid_state ''new'' = None"
  by (simp_all add: find_rid_sub_def demo_rid_state_def)

lemma demo_check: "checkSubscriptionCount (Some 120) (demo_rid_sub\<lparr>rs_ID := i\<rparr>) demo_rid_state = (Ok (), demo_rid_state)"
  unfolding checkSubscriptionCount_conv [of "Some 120" 120, simplified]
  by (simp add: demo_rid_sub_def cell_occurrences_def demo_rid_defs)

lemma demo_create:
  "\<exists>resp st'. executeCreateSubscription demo_externals (Some 120) (insertSubscriptionPayload demo_rid_sub) demo_rid_state = (Ok resp, st')"
proof -
  have i: "demo_rid_sub\<lparr>rs_ID := ''new''\<rparr> = demo_rid_sub" by (simp add: demo_rid_sub_def)
  have "\<exists>c st'. InsertSubscription demo_externals (Some 120) demo_rid_sub demo_rid_state = (Ok c, st') \<and> cv_Cells (rs_Volume c) = [3]"
    by (simp add: InsertSubscription_Ok) (simp add: demo_rid_sub_def demo_rid_state_def valid_range_def)
  then obtain c st' where "InsertSubscription demo_externals (Some 120) demo_rid_sub demo_rid_state = (Ok c, st')" "cv_Cells (rs_Volume c) = [3]"
    by blast
  then show ?thesis
    using demo_rid_sub_adjust [of "''new''" None] demo_check [of "''new''"] demo_find_rid_sub(2) SearchISAs_conv [of "[3]" 120 None st']
    unfolding i by (simp add: executeCreateSubscription_def bindE_def) (simp add: demo_rid_sub_def)
qed

theorem rid_put_subscription_correct_witness:
  "\<exists>resp st' b. executeCreateSubscription demo_externals (Some 120) (insertSubscriptionPayload demo_rid_sub) demo_rid_state = (Ok resp, st') \<and>
     find_rid_sub st' ''new'' = Some b \<and> rs_Owner b = ''uss2''"
proof -
  obtain resp st' where e: "executeCreateSubscription demo_externals (Some 120) (insertSubscriptionPayload demo_rid_sub) demo_rid_state = (Ok resp, st')"
    using demo_create by blast
  then have "oh_Execute (rid_handler_of demo_externals (insertSubscriptionPayload demo_rid_sub)) (Some 120) (insertSubscriptionPayload demo_rid_sub)
      demo_rid_state = (Ok resp, st')" by simp
  from rid_put_subscription_correct [OF disjI1 [OF refl] this] e show ?thesis
    by (auto simp: stored_rid_sub_def demo_rid_sub_def)
qed

theorem rid_quota_enforced_witness:
  "outcome_code (fst (executeCreateSubscription demo_externals (Some 120) (insertSubscriptionPayload demo_rid_sub) demo_rid_state)) \<noteq> Some Exhausted"
proof -
  obtain res st' where e: "executeCreateSubscription demo_externals (Some 120) (insertSubscriptionPayload demo_rid_sub) demo_rid_state = (res, st')"
    by fastforce
  have i: "demo_rid_sub\<lparr>rs_ID := ''new''\<rparr> = demo_rid_sub" by (simp add: demo_rid_sub_def)
  have n: "find_rid_sub demo_rid_state (rs_ID demo_rid_sub) = None" using demo_find_rid_sub(2) by (simp add: demo_rid_sub_def)
  have m: "MustFromContext (Some 120) = Ok 120" by simp
  have "\<not> (\<exists>c \<in> set (cv_Cells (rs_Volume demo_rid_sub)). maxSubscriptionsPerArea \<le> cell_occurrences 120 (rs_Owner demo_rid_sub) demo_rid_state c)"
    by (simp add: demo_rid_sub_def cell_occurrences_def demo_rid_defs)
  with rid_quota_enforced [OF m demo_rid_sub_adjust [of "''new''" None, unfolded i] n e] show ?thesis unfolding e by simp
qed

lemma demo_update:
  "\<exists>resp st'. executeUpdateSubscription demo_externals (Some 120) (updateSubscriptionPayload (demo_rid_sub\<lparr>rs_ID := ''sub''\<rparr>)) demo_rid_state = (Ok resp, st')"
proof -
  let ?a = "demo_rid_sub\<lparr>rs_ID := ''sub''\<rparr>"
  have "\<exists>c st'. UpdateSubscription demo_externals (Some 120) ?a demo_rid_state = (Ok (Some c), st') \<and> cv_Cells (rs_Volume c) = [3]"
    by (simp add: UpdateSubscription_Some) (simp add: demo_rid_sub_def demo_rid_defs valid_range_def rid_subscriptionRecord_version_def)
  then obtain c st' where u: "UpdateSubscription demo_externals (Some 120) ?a demo_rid_state = (Ok (Some c), st')" "cv_Cells (rs_Volume c) = [3]"
    by blast
  have g: "Version_Matches (rs_Version ?a) (rs_Version (rid_subscriptionRecord_toModel demo_rid_sub_record))"
      "rs_Owner (rid_subscriptionRecord_toModel demo_rid_sub_record) = rs_Owner ?a"
    by (simp_all add: demo_rid_sub_def demo_rid_sub_record_def rid_subscriptionRecord_version_def)
  have f: "find_rid_sub demo_rid_state (rs_ID ?a) = Some (rid_subscriptionRecord_toModel demo_rid_sub_record)"
    by (simp add: demo_find_rid_sub)
  show ?thesis
    using u g f demo_rid_sub_adjust [of "''sub''"] demo_check [of "''sub''"] SearchISAs_conv [of "[3]" 120 None st']
    by (simp add: executeUpdateSubscription_def bindE_def del: rid_sub_toModel_sel)
qed

lemma rid_update_resets_index_witness:
  "\<exists>req resp st' b. rid_NewUpdateSubscriptionPayload demo_externals ''sub'' ''uss2'' ''https://uss2'' ''dss'' (Some (VersionFromTime 60))
       (rs_Volume demo_rid_sub) True = Ok req \<and>
     executeUpdateSubscription demo_externals (Some 120) req demo_rid_state = (Ok resp, st') \<and>
     rr_NotificationIndex demo_rid_sub_record = 4 \<and> find_rid_sub st' ''sub'' = Some b \<and> rs_NotificationIndex b = 0"
proof -
  let ?a = "demo_rid_sub\<lparr>rs_ID := ''sub''\<rparr>"
  have n: "rid_NewUpdateSubscriptionPayload demo_externals ''sub'' ''uss2'' ''https://uss2'' ''dss'' (Some (VersionFromTime 60))
       (rs_Volume demo_rid_sub) True = Ok (updateSubscriptionPayload ?a)"
    by (simp add: rid_NewUpdateSubscriptionPayload_def rid_newSubscription_def demo_rid_sub_def)
  obtain resp st' where e: "executeUpdateSubscription demo_externals (Some 120) (updateSubscriptionPayload ?a) demo_rid_state = (Ok resp, st')"
    using demo_update by blast
  from rid_update_resets_index [OF n e] n e show ?thesis by (auto simp: demo_rid_sub_record_def)
qed

end
