(* ===== verification/Rid_Raft.thy ===== *)
theory Rid_Raft
  imports Rid_Subscriptions Consensus_Node
begin

text \<open>
  The remote-identification repository of the replicated store,
  \<open>src/pkg/rid/store/raftstore/store.go\<close>: \<open>Apply\<close> executes a proposal on the in-memory store. The
  commit loop over it is atomic, keeps the store well-formed and every owner within the subscription
  quota; and the store of a node is always in the state of an execution of the log.
\<close>

section \<open>Payload decoders\<close>

text \<open>The encoders and decoders of \<open>encoding/json\<close> at the types that are proposed: the arguments of
  the direct requests (\<open>src/pkg/rid/store/raftstore/payloads.go\<close>) and the registered payloads.\<close>

record rid_codec =
  jr_ID :: "string \<Rightarrow> ID outcome"
  jr_isa :: "string \<Rightarrow> IdentificationServiceArea outcome"
  jr_sub :: "string \<Rightarrow> rid_Subscription outcome"
  jr_searchISAs :: "string \<Rightarrow> (cell_union \<times> time option \<times> time option) outcome"
  jr_expired :: "string \<Rightarrow> time outcome"
  jr_cells :: "string \<Rightarrow> cell_union outcome"
  jr_cellsByOwner :: "string \<Rightarrow> (cell_union \<times> Owner) outcome"
  jr_encode :: "rid_request \<Rightarrow> string outcome"
  jr_decode :: "string \<Rightarrow> string \<Rightarrow> rid_request outcome"

datatype rid_any =
    RidNil | RidISA "IdentificationServiceArea option" | RidISAs "IdentificationServiceArea list"
  | RidSub "rid_Subscription option" | RidSubs "rid_Subscription list" | RidIDs "ID list" | RidCount nat
  | RidResponse rid_response

section \<open>Apply\<close>

definition apply_isas :: "externals \<Rightarrow> rid_codec \<Rightarrow> ctx \<Rightarrow> string \<Rightarrow> string \<Rightarrow> (rid_state, rid_any) op option" where
  "apply_isas L J ctx ty v =
     (if ty = ''getISA'' then Some (with_payload (jr_ID J v) (\<lambda>i. GetISA i False) RidISA)
      else if ty = ''deleteISA'' then Some (with_payload (jr_isa J v) DeleteISA RidISA)
      else if ty = ''insertISA'' then Some (with_payload (jr_isa J v) (InsertISA L ctx) (\<lambda>i. RidISA (Some i)))
      else if ty = ''updateISA'' then Some (with_payload (jr_isa J v) (UpdateISA L ctx) RidISA)
      else if ty = ''searchISAs''
      then Some (with_payload (jr_searchISAs J v) (\<lambda>(cells, earliest, latest). SearchISAs cells earliest latest) RidISAs)
      else if ty = ''listExpiredISAs'' then Some (with_payload (jr_expired J v) ListExpiredISAs RidIDs)
      else if ty = ''countISAs'' then Some (with_payload (Ok ()) (\<lambda>_. CountISAs) RidCount)
      else None)"

definition apply_rid_subscriptions :: "externals \<Rightarrow> rid_codec \<Rightarrow> ctx \<Rightarrow> string \<Rightarrow> string \<Rightarrow> (rid_state, rid_any) op option" where
  "apply_rid_subscriptions L J ctx ty v =
     (if ty = ''getSubscription'' then Some (with_payload (jr_ID J v) rid_GetSubscription RidSub)
      else if ty = ''deleteSubscription'' then Some (with_payload (jr_sub J v) rid_DeleteSubscription RidSub)
      else if ty = ''insertSubscription'' then Some (with_payload (jr_sub J v) (InsertSubscription L ctx) (\<lambda>s. RidSub (Some s)))
      else if ty = ''updateSubscription'' then Some (with_payload (jr_sub J v) (UpdateSubscription L ctx) RidSub)
      else if ty = ''searchSubscriptions'' then Some (with_payload (jr_cells J v) (rid_SearchSubscriptions ctx) RidSubs)
      else if ty = ''searchSubscriptionsByOwner''
      then Some (with_payload (jr_cellsByOwner J v) (\<lambda>(cells, owner). SearchSubscriptionsByOwner ctx cells owner) RidSubs)
      else if ty = ''updateNotificationIdxsInCells'' then Some (with_payload (jr_cells J v) (UpdateNotificationIdxsInCells ctx) RidSubs)
      else if ty = ''maxSubscriptionCountInCellsByOwner''
      then Some (with_payload (jr_cellsByOwner J v) (\<lambda>(cells, owner). MaxSubscriptionCountInCellsByOwner ctx cells owner) RidCount)
      else if ty = ''listExpiredSubscriptions'' then Some (with_payload (jr_expired J v) rid_ListExpiredSubscriptions RidIDs)
      else if ty = ''countSubscriptions'' then Some (with_payload (Ok ()) (\<lambda>_. rid_CountSubscriptions) RidCount)
      else None)"

definition rid_apply_registered :: "externals \<Rightarrow> rid_codec \<Rightarrow> ctx \<Rightarrow> string \<Rightarrow> string \<Rightarrow> (rid_state, rid_any) op" where
  "rid_apply_registered L J ctx ty v =
     (case map_of (rid_Registry L) ty of
        None \<Rightarrow> fail (NewError (''unrecognized request type: '' @ ty))
      | Some handler \<Rightarrow>
          bindE (liftO (jr_decode J ty v)) (\<lambda>request.
          bindE (oh_Execute handler ctx request) (\<lambda>resp. ret (RidResponse resp))))"

definition rid_Apply :: "externals \<Rightarrow> rid_codec \<Rightarrow> ctx \<times> Proposal \<Rightarrow> (rid_state, rid_any) op" where
  "rid_Apply L J = (\<lambda>(ctx, proposal).
     let ty = pr_RequestType proposal; v = pr_Value proposal in
     case apply_isas L J ctx ty v of Some m \<Rightarrow> m
     | None \<Rightarrow>
     case apply_rid_subscriptions L J ctx ty v of Some m \<Rightarrow> m
     | None \<Rightarrow> rid_apply_registered L J ctx ty v)"

definition rid_RaftRepo :: "externals \<Rightarrow> rid_codec \<Rightarrow> (rid_repo, rid_envelope gob_data, rid_any) RaftRepo" where
  "rid_RaftRepo L J = \<lparr>rr_Checkpoint = rid_Checkpoint, rr_Restore = rid_Restore,
     rr_RestoreFromSnapshot = rid_RestoreFromSnapshot, rr_Apply = (\<lambda>p. on_state (rid_Apply L J p))\<rparr>"

section \<open>The repository contracts\<close>

lemma rid_RaftRepo_sel [simp]:
  "rr_Checkpoint (rid_RaftRepo L J) = rid_Checkpoint" "rr_Restore (rid_RaftRepo L J) = rid_Restore"
  "rr_RestoreFromSnapshot (rid_RaftRepo L J) = rid_RestoreFromSnapshot"
  "rr_Apply (rid_RaftRepo L J) = (\<lambda>p. on_state (rid_Apply L J p)) \<circ> id"
  by (simp_all add: rid_RaftRepo_def)

interpretation rid_raft: checkpointed_repo rid_Checkpoint rid_Restore mr_state mr_checkpoint
  "\<lambda>p. on_state (rid_Apply L J p)" for L J
  by unfold_locales (simp_all add: rid_Checkpoint_def rid_Restore_def)

interpretation rid_replica: replicated_repo rid_Checkpoint rid_Restore mr_state mr_checkpoint
  "\<lambda>p. on_state (rid_Apply L J p)" rid_GetSnapshot rid_RestoreFromSnapshot rid_gob_safe "rid_RaftRepo L J" for L J
proof (unfold_locales, goal_cases)
  case (2 d r q r' q')
  then show ?case by (auto simp: rid_RestoreFromSnapshot_def split: gob_data.splits if_splits)
qed (simp_all add: rid_snapshot_restores)

section \<open>The invariant on every run\<close>

definition rid_direct_reads :: "string list" where
  "rid_direct_reads = [''getISA'', ''searchISAs'', ''listExpiredISAs'', ''countISAs'', ''getSubscription'', ''searchSubscriptions'',
     ''searchSubscriptionsByOwner'', ''maxSubscriptionCountInCellsByOwner'', ''listExpiredSubscriptions'', ''countSubscriptions'']"

lemma rid_Apply_direct_readonly:
  "pr_RequestType p \<in> set rid_direct_reads \<Longrightarrow> readonly (rid_Apply L J (ctx, p))"
  unfolding rid_direct_reads_def
  by (auto simp: rid_Apply_def apply_isas_def apply_rid_subscriptions_def) (intro pres_intros)+

text \<open>The reads that a node serves: the direct ones.\<close>

definition rid_read_request :: "Proposal \<Rightarrow> bool" where
  "rid_read_request p \<longleftrightarrow> pr_ReadOnly p \<and> pr_RequestType p \<in> set rid_direct_reads"

lemma rid_read_keeps:
  assumes "rid_read_request p" "processCommit (rid_RaftRepo L J) \<lparr>ec_Prop = p, ec_SnapshotData = None\<rparr> r = (Replied x, r')"
  shows "mr_state r' = mr_state r"
  using assms readonlyD [OF rid_Apply_direct_readonly]
  by (auto simp: rid_read_request_def processCommit_def Let_def on_state_def split: prod.splits outcome.splits)

text \<open>The store of a node is in the state of an execution of the log, whatever the order of its maps (\<open>alike\<close>).\<close>

lemma rid_node_runs:
  assumes "env_repo E = rid_RaftRepo L J" and "env_getAppSnapshot E = rid_GetSnapshot" and "numbered lg"
    and "node_reachable E nil i (\<lambda>r. rid_gob_safe (mr_state r)) rid_read_request (\<lambda>r r'. alike (mr_state r) (mr_state r')) lg rid_newRepo nd"
  shows "\<exists>r. log_run E (\<lambda>r r'. alike (mr_state r) (mr_state r')) lg rid_newRepo (unat (nd_appliedIndex nd)) r \<and>
    mr_state r = mr_state (nd_repo nd)"
proof -
  have "node_inv mr_state E (\<lambda>r r'. alike (mr_state r) (mr_state r')) lg rid_newRepo nd"
    by (rule rid_replica.node_runs [OF assms(1-3) _ _ assms(4)]) (erule (1) rid_read_keeps, simp)
  then show ?thesis by (simp add: node_inv_def)
qed

lemma rid_Apply_registered:
  assumes "map_of (rid_Registry L) (pr_RequestType p) = Some h"
  shows "rid_Apply L J (ctx, p) = rid_apply_registered L J ctx (pr_RequestType p) (pr_Value p)"
proof -
  have "pr_RequestType p \<in> fst ` set (rid_Registry L)" using assms by (rule map_of_SomeD [THEN imageI, of _ _ _ fst, simplified])
  then show ?thesis by (auto simp: rid_Apply_def apply_isas_def apply_rid_subscriptions_def rid_Registry_defs)
qed

text \<open>A handler answers only requests of its own type.\<close>

lemma rid_handler_own_type:
  assumes "map_of (rid_Registry L) ty = Some h" and "oh_Execute h ctx req st = (Ok resp, st')"
  shows "oh_Execute (rid_handler_of L req) ctx req st = (Ok resp, st')"
  using assms
  by (cases req)
    (auto simp: rid_Registry_defs executeDeleteISA_def executeInsertISA_def executeUpdateISA_def rid_executeDeleteSubscription_def
      executeCreateSubscription_def executeUpdateSubscription_def rid_unexpected_def split: if_splits)

text \<open>The repositories a node can have, with the time of the last write: it starts with a new one,
  processes the registered operations in the order of the log, whose timestamps do not go back, serves
  reads, and is sent snapshots of other nodes.\<close>

inductive rid_reachable :: "externals \<Rightarrow> rid_codec \<Rightarrow> time \<Rightarrow> rid_repo \<Rightarrow> bool" for L J where
  start: "rid_reachable L J t rid_newRepo"
| written: "rid_reachable L J t r \<Longrightarrow> ec_SnapshotData c = None \<Longrightarrow> \<not> pr_ReadOnly (ec_Prop c) \<Longrightarrow>
     map_of (rid_Registry L) (pr_RequestType (ec_Prop c)) \<noteq> None \<Longrightarrow> t \<le> pr_Timestamp (ec_Prop c) \<Longrightarrow>
     processCommit (rid_RaftRepo L J) c r = (Replied x, r') \<Longrightarrow> rid_reachable L J (pr_Timestamp (ec_Prop c)) r'"
| served: "rid_reachable L J t r \<Longrightarrow> ec_SnapshotData c = None \<Longrightarrow> pr_ReadOnly (ec_Prop c) \<Longrightarrow>
     pr_RequestType (ec_Prop c) \<in> set rid_direct_reads \<Longrightarrow>
     processCommit (rid_RaftRepo L J) c r = (Replied x, r') \<Longrightarrow> rid_reachable L J t r'"
| restore: "rid_reachable L J t r \<Longrightarrow> rid_reachable L J u q \<Longrightarrow> ec_SnapshotData c = Some (rid_GetSnapshot q) \<Longrightarrow>
     processCommit (rid_RaftRepo L J) c r = (Restored, r') \<Longrightarrow> rid_reachable L J u r'"

lemma within_quota_snapshot:
  assumes "rid_RestoreFromSnapshot (rid_GetSnapshot q) r = (x, r')" and "within_quota now (mr_state q)"
  shows "within_quota now (mr_state r')"
proof -
  have p: "live_in_cell now own c (gob_rid_sub r) = live_in_cell now own c r" for own c r
    by (simp add: live_in_cell_def gob_rid_sub_def)
  have "live_count now own (mr_state r') c = live_count now own (mr_state q) c" for own c
    using assms(1) by (auto simp: rid_RestoreFromSnapshot_def rid_GetSnapshot_def live_count_def map_values_def comp_def split_def p)
  with assms(2) show ?thesis by (simp add: within_quota_def)
qed

text \<open>C19: the invariant of the remote-identification store. On every node, after any sequence of
  committed operations whose timestamps do not go back, of reads and of restored snapshots: every
  service area and subscription is stored under its own ID, with a non-empty set of cells at level 13
  and a time range of positive length; and no owner has more than ten subscriptions that have not
  ended in any one cell.\<close>

theorem rid_reachable_invariant:
  assumes "rid_reachable L J now r"
  shows "rid_wf L (mr_state r) \<and> within_quota now (mr_state r)"
  using assms
proof induction
  case (start t)
  show ?case by (simp add: rid_newRepo_def rid_Checkpoint_def)
next
  case (written t r c x r')
  let ?now = "pr_Timestamp (ec_Prop c)"
  have inv: "rid_inv L ?now (mr_state r)" using written rid_inv_later by (auto simp: rid_inv_def)
  from written.hyps(4) obtain h where h: "map_of (rid_Registry L) (pr_RequestType (ec_Prop c)) = Some h" by auto
  have "rid_inv L ?now (mr_state r')"
  proof (rule rid_raft.commit_keeps [OF rid_RaftRepo_sel(1,2,4) written.hyps(2,6), where I = "rid_inv L ?now"])
    fix y r1 r2
    assume e: "mr_state r1 = mr_state r" "on_state (rid_Apply L J (id (Some ?now, ec_Prop c))) r1 = (Ok y, r2)"
    then have "rid_apply_registered L J (Some ?now) (pr_RequestType (ec_Prop c)) (pr_Value (ec_Prop c)) (mr_state r) = (Ok y, mr_state r2)"
      by (auto simp: rid_Apply_registered [OF h] on_state_def split: prod.splits)
    then obtain req resp where "oh_Execute h (Some ?now) req (mr_state r) = (Ok resp, mr_state r2)"
      using h by (auto simp: rid_apply_registered_def bindE_Ok)
    from rid_registry_keeps_inv [OF inv rid_handler_own_type [OF h this]] show "rid_inv L ?now (mr_state r2)" .
  qed (use inv written.hyps(3) in auto)
  then show ?case by (simp add: rid_inv_def)
next
  case (served t r c x r')
  have "readonly (rid_Apply L J (Some (pr_Timestamp (ec_Prop c)), ec_Prop c))"
    by (rule rid_Apply_direct_readonly [OF served.hyps(4)])
  then show ?case
    using served rid_raft.commit_keeps [OF rid_RaftRepo_sel(1,2,4) served.hyps(2,5), where I = "rid_inv L t"]
    by (auto simp: readonly_def rid_inv_def)
next
  case (restore t r u q c r')
  then have l: "rid_RestoreFromSnapshot (rid_GetSnapshot q) r = (Ok (), r')"
    by (auto simp: processCommit_def split: prod.splits outcome.splits)
  show ?case
    using restore.IH(2) rid_snapshot_keeps_wf [OF _ l, of L] within_quota_snapshot [OF l, of u] by blast
qed
section \<open>A run\<close>

definition demo_rid_codec :: rid_codec where
  "demo_rid_codec = \<lparr>jr_ID = Ok, jr_isa = (\<lambda>_. Ok demo_isa), jr_sub = (\<lambda>_. Ok demo_rid_sub), jr_searchISAs = (\<lambda>_. Ok ([3], Some 120, None)),
     jr_expired = (\<lambda>_. Ok 0), jr_cells = (\<lambda>_. Ok [3]), jr_cellsByOwner = (\<lambda>_. Ok ([3], ''uss2'')),
     jr_encode = (\<lambda>_. Ok ''sub''), jr_decode = (\<lambda>_ _. Ok (insertSubscriptionPayload demo_rid_sub))\<rparr>"

definition demo_rid_commit :: "rid_envelope gob_data EntryCommit" where
  "demo_rid_commit = \<lparr>ec_Prop = \<lparr>pr_ID = ''p'', pr_NodeID = 1, pr_Timestamp = 120, pr_RequestType = ''ridv2.CreateSubscription'',
     pr_Value = ''sub'', pr_ReadOnly = False\<rparr>, ec_SnapshotData = None\<rparr>"

lemma demo_create_first:
  "\<exists>resp st'. executeCreateSubscription demo_externals (Some 120) (insertSubscriptionPayload demo_rid_sub) empty_rid_state = (Ok resp, st')"
proof -
  have i: "demo_rid_sub\<lparr>rs_ID := ''new''\<rparr> = demo_rid_sub" by (simp add: demo_rid_sub_def)
  have "\<exists>c st'. InsertSubscription demo_externals (Some 120) demo_rid_sub empty_rid_state = (Ok c, st') \<and> cv_Cells (rs_Volume c) = [3]"
    by (simp add: InsertSubscription_Ok) (simp add: demo_rid_sub_def empty_rid_state_def valid_range_def)
  then obtain c st' where c: "InsertSubscription demo_externals (Some 120) demo_rid_sub empty_rid_state = (Ok c, st')" "cv_Cells (rs_Volume c) = [3]"
    by blast
  have k: "checkSubscriptionCount (Some 120) demo_rid_sub empty_rid_state = (Ok (), empty_rid_state)"
    unfolding checkSubscriptionCount_conv [of "Some 120" 120, simplified] by (simp add: cell_occurrences_def empty_rid_state_def)
  have "find_rid_sub empty_rid_state x = None" for x by (simp add: find_rid_sub_def empty_rid_state_def)
  then show ?thesis
    using c k demo_rid_sub_adjust [of "''new''" None] SearchISAs_conv [of "[3]" 120 None st']
    unfolding i by (simp add: executeCreateSubscription_def bindE_def)
qed

theorem rid_reachable_invariant_witness:
  "\<exists>x r'. processCommit (rid_RaftRepo demo_externals demo_rid_codec) demo_rid_commit rid_newRepo = (Replied (Ok x), r') \<and>
     within_quota 120 (mr_state r')"
proof -
  have st: "mr_state rid_newRepo = empty_rid_state" by (simp add: rid_newRepo_def rid_Checkpoint_def)
  obtain resp st' where e: "executeCreateSubscription demo_externals (Some 120) (insertSubscriptionPayload demo_rid_sub) empty_rid_state = (Ok resp, st')"
    using demo_create_first by blast
  have h: "map_of (rid_Registry demo_externals) (pr_RequestType (ec_Prop demo_rid_commit)) =
      Some (rid_handler_of demo_externals (insertSubscriptionPayload demo_rid_sub))"
    using rid_Registry_handler [of demo_externals "insertSubscriptionPayload demo_rid_sub"] by (simp add: demo_rid_commit_def)
  have c: "ec_SnapshotData demo_rid_commit = None" "\<not> pr_ReadOnly (ec_Prop demo_rid_commit)" "pr_Timestamp (ec_Prop demo_rid_commit) = 120"
    by (simp_all add: demo_rid_commit_def)
  have "rid_Apply demo_externals demo_rid_codec (Some 120, ec_Prop demo_rid_commit) empty_rid_state = (Ok (RidResponse resp), st')"
    using e by (simp add: rid_Apply_registered [OF h] rid_apply_registered_def h) (simp add: bindE_def demo_rid_codec_def)
  then have "rr_Apply (rid_RaftRepo demo_externals demo_rid_codec) (Some (pr_Timestamp (ec_Prop demo_rid_commit)), ec_Prop demo_rid_commit)
      (rr_Checkpoint (rid_RaftRepo demo_externals demo_rid_codec) rid_newRepo) =
      (Ok (RidResponse resp), (rid_Checkpoint rid_newRepo)\<lparr>mr_state := st'\<rparr>)"
    using st c(3) by (simp add: on_state_def rid_raft.checkpoint_current)
  from processCommit_write [OF c(1,2) this]
  obtain r' where p: "processCommit (rid_RaftRepo demo_externals demo_rid_codec) demo_rid_commit rid_newRepo = (Replied (Ok (RidResponse resp)), r')"
    by auto
  have "rid_reachable demo_externals demo_rid_codec (pr_Timestamp (ec_Prop demo_rid_commit)) r'"
    by (rule rid_reachable.written [OF rid_reachable.start [of _ _ 0] c(1,2) _ _ p]) (use h c(3) in simp_all)
  from rid_reachable_invariant [OF this] p c(3) show ?thesis by auto
qed

end
