(* ===== verification/Rid_Client.thy ===== *)
theory Rid_Client
  imports Rid_Raft Raft_Requests Raft_Direct
begin

text \<open>
  The replicated remote-identification store as its clients use it: \<open>Transact\<close> for the registered
  operations, and the methods of the repository that \<open>Interact\<close> returns
  (\<open>src/pkg/rid/store/raftstore/identification_service_area.go\<close> and \<open>subscriptions.go\<close>), each of which
  proposes a direct request and waits for its result. The theory shows that \<open>Transact\<close> satisfies the
  contract \<open>transactional_store\<close>, and that every method of the repository runs the method of the
  in-memory store.
\<close>

section \<open>Transactions\<close>

interpretation rid_reg: registered_store rid_Checkpoint rid_Restore mr_state mr_checkpoint "\<lambda>p. on_state (rid_Apply L J p)"
  "rid_RaftRepo L J" "rid_Registry L" rid_OperationID "rid_handler_of L" "jr_encode J" "jr_decode J" RidResponse for L J
proof (unfold_locales, goal_cases)
  case (5 q ctx)
  then show ?case by (cases q) simp_all
next
  case (6 p q ctx r y s)
  moreover have h: "map_of (rid_Registry L) (pr_RequestType p) = Some (rid_handler_of L q)"
    using 6(1) by (simp add: rid_Registry_handler)
  ultimately show ?case
    by (cases y) (simp_all add: on_state_def rid_Apply_registered [OF h] rid_apply_registered_def rid_Registry_handler)
qed (simp_all add: rid_Registry_handler)

abbreviation rid_proper :: "rid_codec \<Rightarrow> rid_request \<Rightarrow> bool" where
  "rid_proper J \<equiv> codec_proper rid_OperationID (jr_encode J) (jr_decode J)"

definition rid_Store_Transact ::
    "externals \<Rightarrow> rid_codec \<Rightarrow> delivery \<Rightarrow> string \<Rightarrow> 64 word \<Rightarrow> ctx \<Rightarrow> rid_request \<Rightarrow> (rid_repo, rid_any) op" where
  "rid_Store_Transact L J d newID nodeID =
     store_Transact (rid_RaftRepo L J) (rid_Registry L) rid_OperationID (jr_encode J) d newID nodeID"

interpretation rid_store: transactional_store "rid_Store_Transact L J d newID nodeID" mr_state
  "\<lambda>ctx req. oh_Execute (rid_handler_of L req) ctx req" RidResponse "rid_proper J" for L J d newID nodeID
  unfolding rid_Store_Transact_def by (rule rid_reg.transactional)

section \<open>Direct requests\<close>

text \<open>\<open>json.Marshal\<close> at the types of the arguments.\<close>

record rid_marshal =
  jm_ID :: "ID \<Rightarrow> string outcome"
  jm_isa :: "IdentificationServiceArea \<Rightarrow> string outcome"
  jm_sub :: "rid_Subscription \<Rightarrow> string outcome"
  jm_searchISAs :: "cell_union \<times> time option \<times> time option \<Rightarrow> string outcome"
  jm_expired :: "time \<Rightarrow> string outcome"
  jm_cells :: "cell_union \<Rightarrow> string outcome"
  jm_cellsByOwner :: "cell_union \<times> Owner \<Rightarrow> string outcome"

text \<open>The result types of the requests; a nil result is the zero value of each.\<close>

fun as_ISA :: "rid_any \<Rightarrow> IdentificationServiceArea option option" where
  "as_ISA (RidISA x) = Some x" | "as_ISA RidNil = Some None" | "as_ISA _ = None"

fun as_ISAs :: "rid_any \<Rightarrow> IdentificationServiceArea list option" where
  "as_ISAs (RidISAs x) = Some x" | "as_ISAs RidNil = Some []" | "as_ISAs _ = None"

fun as_Sub :: "rid_any \<Rightarrow> rid_Subscription option option" where
  "as_Sub (RidSub x) = Some x" | "as_Sub RidNil = Some None" | "as_Sub _ = None"

fun as_Subs :: "rid_any \<Rightarrow> rid_Subscription list option" where
  "as_Subs (RidSubs x) = Some x" | "as_Subs RidNil = Some []" | "as_Subs _ = None"

fun as_IDs :: "rid_any \<Rightarrow> ID list option" where
  "as_IDs (RidIDs x) = Some x" | "as_IDs RidNil = Some []" | "as_IDs _ = None"

fun as_count :: "rid_any \<Rightarrow> nat option" where
  "as_count (RidCount x) = Some x" | "as_count RidNil = Some 0" | "as_count _ = None"

section \<open>Service areas\<close>

definition raft_GetISA ::
    "externals \<Rightarrow> rid_codec \<Rightarrow> rid_marshal \<Rightarrow> consensus_call \<Rightarrow> ctx \<Rightarrow> ID \<Rightarrow> bool \<Rightarrow> (rid_repo, IdentificationServiceArea option) op" where
  "raft_GetISA L J K c ctx i forUpdate = direct_read (rid_RaftRepo L J) c ctx ''getISA'' (jm_ID K i) as_ISA"

definition raft_DeleteISA ::
    "externals \<Rightarrow> rid_codec \<Rightarrow> rid_marshal \<Rightarrow> consensus_call \<Rightarrow> ctx \<Rightarrow> IdentificationServiceArea \<Rightarrow>
     (rid_repo, IdentificationServiceArea option) op" where
  "raft_DeleteISA L J K c ctx isa = direct_write (rid_RaftRepo L J) c ctx ''deleteISA'' (jm_isa K isa) as_ISA"

definition raft_InsertISA ::
    "externals \<Rightarrow> rid_codec \<Rightarrow> rid_marshal \<Rightarrow> consensus_call \<Rightarrow> ctx \<Rightarrow> IdentificationServiceArea \<Rightarrow>
     (rid_repo, IdentificationServiceArea option) op" where
  "raft_InsertISA L J K c ctx isa = direct_write (rid_RaftRepo L J) c ctx ''insertISA'' (jm_isa K isa) as_ISA"

definition raft_UpdateISA ::
    "externals \<Rightarrow> rid_codec \<Rightarrow> rid_marshal \<Rightarrow> consensus_call \<Rightarrow> ctx \<Rightarrow> IdentificationServiceArea \<Rightarrow>
     (rid_repo, IdentificationServiceArea option) op" where
  "raft_UpdateISA L J K c ctx isa = direct_write (rid_RaftRepo L J) c ctx ''updateISA'' (jm_isa K isa) as_ISA"

definition raft_SearchISAs ::
    "externals \<Rightarrow> rid_codec \<Rightarrow> rid_marshal \<Rightarrow> consensus_call \<Rightarrow> ctx \<Rightarrow> cell_union \<Rightarrow> time option \<Rightarrow> time option \<Rightarrow>
     (rid_repo, IdentificationServiceArea list) op" where
  "raft_SearchISAs L J K c ctx cells earliest latest =
     direct_read (rid_RaftRepo L J) c ctx ''searchISAs'' (jm_searchISAs K (cells, earliest, latest)) as_ISAs"

definition raft_ListExpiredISAs ::
    "externals \<Rightarrow> rid_codec \<Rightarrow> rid_marshal \<Rightarrow> consensus_call \<Rightarrow> ctx \<Rightarrow> time \<Rightarrow> (rid_repo, ID list) op" where
  "raft_ListExpiredISAs L J K c ctx threshold = direct_read (rid_RaftRepo L J) c ctx ''listExpiredISAs'' (jm_expired K threshold) as_IDs"

definition raft_DeleteExpiredISAs :: "ctx \<Rightarrow> time \<Rightarrow> int \<Rightarrow> (rid_repo, ID list) op" where
  "raft_DeleteExpiredISAs ctx threshold limit =
     fail (NewErrorWithCode NotImplemented ''DeleteExpiredISAs not implemented for raftstore'')"

definition raft_CountISAs :: "externals \<Rightarrow> rid_codec \<Rightarrow> consensus_call \<Rightarrow> ctx \<Rightarrow> (rid_repo, nat) op" where
  "raft_CountISAs L J c ctx = direct_read (rid_RaftRepo L J) c ctx ''countISAs'' (Ok '''') as_count"

section \<open>Subscriptions\<close>

definition raft_GetSubscription ::
    "externals \<Rightarrow> rid_codec \<Rightarrow> rid_marshal \<Rightarrow> consensus_call \<Rightarrow> ctx \<Rightarrow> ID \<Rightarrow> (rid_repo, rid_Subscription option) op" where
  "raft_GetSubscription L J K c ctx i = direct_read (rid_RaftRepo L J) c ctx ''getSubscription'' (jm_ID K i) as_Sub"

definition raft_DeleteSubscription ::
    "externals \<Rightarrow> rid_codec \<Rightarrow> rid_marshal \<Rightarrow> consensus_call \<Rightarrow> ctx \<Rightarrow> rid_Subscription \<Rightarrow> (rid_repo, rid_Subscription option) op" where
  "raft_DeleteSubscription L J K c ctx sub = direct_write (rid_RaftRepo L J) c ctx ''deleteSubscription'' (jm_sub K sub) as_Sub"

definition raft_InsertSubscription ::
    "externals \<Rightarrow> rid_codec \<Rightarrow> rid_marshal \<Rightarrow> consensus_call \<Rightarrow> ctx \<Rightarrow> rid_Subscription \<Rightarrow> (rid_repo, rid_Subscription option) op" where
  "raft_InsertSubscription L J K c ctx sub = direct_write (rid_RaftRepo L J) c ctx ''insertSubscription'' (jm_sub K sub) as_Sub"

definition raft_UpdateSubscription ::
    "externals \<Rightarrow> rid_codec \<Rightarrow> rid_marshal \<Rightarrow> consensus_call \<Rightarrow> ctx \<Rightarrow> rid_Subscription \<Rightarrow> (rid_repo, rid_Subscription option) op" where
  "raft_UpdateSubscription L J K c ctx sub = direct_write (rid_RaftRepo L J) c ctx ''updateSubscription'' (jm_sub K sub) as_Sub"

definition raft_SearchSubscriptions ::
    "externals \<Rightarrow> rid_codec \<Rightarrow> rid_marshal \<Rightarrow> consensus_call \<Rightarrow> ctx \<Rightarrow> cell_union \<Rightarrow> (rid_repo, rid_Subscription list) op" where
  "raft_SearchSubscriptions L J K c ctx cells = direct_read (rid_RaftRepo L J) c ctx ''searchSubscriptions'' (jm_cells K cells) as_Subs"

definition raft_SearchSubscriptionsByOwner ::
    "externals \<Rightarrow> rid_codec \<Rightarrow> rid_marshal \<Rightarrow> consensus_call \<Rightarrow> ctx \<Rightarrow> cell_union \<Rightarrow> Owner \<Rightarrow> (rid_repo, rid_Subscription list) op" where
  "raft_SearchSubscriptionsByOwner L J K c ctx cells owner =
     direct_read (rid_RaftRepo L J) c ctx ''searchSubscriptionsByOwner'' (jm_cellsByOwner K (cells, owner)) as_Subs"

definition raft_UpdateNotificationIdxsInCells ::
    "externals \<Rightarrow> rid_codec \<Rightarrow> rid_marshal \<Rightarrow> consensus_call \<Rightarrow> ctx \<Rightarrow> cell_union \<Rightarrow> (rid_repo, rid_Subscription list) op" where
  "raft_UpdateNotificationIdxsInCells L J K c ctx cells =
     direct_write (rid_RaftRepo L J) c ctx ''updateNotificationIdxsInCells'' (jm_cells K cells) as_Subs"

definition raft_MaxSubscriptionCountInCellsByOwner ::
    "externals \<Rightarrow> rid_codec \<Rightarrow> rid_marshal \<Rightarrow> consensus_call \<Rightarrow> ctx \<Rightarrow> cell_union \<Rightarrow> Owner \<Rightarrow> (rid_repo, nat) op" where
  "raft_MaxSubscriptionCountInCellsByOwner L J K c ctx cells owner =
     direct_read (rid_RaftRepo L J) c ctx ''maxSubscriptionCountInCellsByOwner'' (jm_cellsByOwner K (cells, owner)) as_count"

definition raft_ListExpiredSubscriptions ::
    "externals \<Rightarrow> rid_codec \<Rightarrow> rid_marshal \<Rightarrow> consensus_call \<Rightarrow> ctx \<Rightarrow> time \<Rightarrow> (rid_repo, ID list) op" where
  "raft_ListExpiredSubscriptions L J K c ctx threshold =
     direct_read (rid_RaftRepo L J) c ctx ''listExpiredSubscriptions'' (jm_expired K threshold) as_IDs"

definition raft_DeleteExpiredSubscriptions :: "ctx \<Rightarrow> time \<Rightarrow> int \<Rightarrow> (rid_repo, ID list) op" where
  "raft_DeleteExpiredSubscriptions ctx threshold limit =
     fail (NewErrorWithCode NotImplemented ''DeleteExpiredSubscriptions not implemented for raftstore'')"

definition raft_CountSubscriptions :: "externals \<Rightarrow> rid_codec \<Rightarrow> consensus_call \<Rightarrow> ctx \<Rightarrow> (rid_repo, nat) op" where
  "raft_CountSubscriptions L J c ctx = direct_read (rid_RaftRepo L J) c ctx ''countSubscriptions'' (Ok '''') as_count"

section \<open>The methods are those of the in-memory store\<close>

text \<open>The codec reads what was marshalled.\<close>

definition rid_codec_inverts :: "rid_codec \<Rightarrow> rid_marshal \<Rightarrow> bool" where
  "rid_codec_inverts J K \<longleftrightarrow>
     (\<forall>x v. jm_ID K x = Ok v \<longrightarrow> jr_ID J v = Ok x) \<and> (\<forall>x v. jm_isa K x = Ok v \<longrightarrow> jr_isa J v = Ok x) \<and>
     (\<forall>x v. jm_sub K x = Ok v \<longrightarrow> jr_sub J v = Ok x) \<and> (\<forall>x v. jm_searchISAs K x = Ok v \<longrightarrow> jr_searchISAs J v = Ok x) \<and>
     (\<forall>x v. jm_expired K x = Ok v \<longrightarrow> jr_expired J v = Ok x) \<and> (\<forall>x v. jm_cells K x = Ok v \<longrightarrow> jr_cells J v = Ok x) \<and>
     (\<forall>x v. jm_cellsByOwner K x = Ok v \<longrightarrow> jr_cellsByOwner J v = Ok x)"

text \<open>The repository satisfies the contract of direct requests.\<close>

interpretation rid_direct: direct_repo "rid_Apply L J" "rid_RaftRepo L J" rid_direct_reads for L J
  by unfold_locales (simp_all add: rid_RaftRepo_def rid_Checkpoint_def rid_Restore_def rid_Apply_direct_readonly)

text \<open>Marshalling fails without a code.\<close>

definition rid_marshal_plain :: "rid_marshal \<Rightarrow> bool" where
  "rid_marshal_plain K \<longleftrightarrow>
     (\<forall>x e. jm_ID K x = Err e \<longrightarrow> GetCode e = None) \<and> (\<forall>x e. jm_searchISAs K x = Err e \<longrightarrow> GetCode e = None) \<and>
     (\<forall>x e. jm_cells K x = Err e \<longrightarrow> GetCode e = None) \<and> (\<forall>x e. jm_cellsByOwner K x = Err e \<longrightarrow> GetCode e = None) \<and>
     (\<forall>x e. jm_expired K x = Err e \<longrightarrow> GetCode e = None) \<and> (\<forall>x e. jm_isa K x = Err e \<longrightarrow> GetCode e = None) \<and>
     (\<forall>x e. jm_sub K x = Err e \<longrightarrow> GetCode e = None)"

lemmas raft_reads = raft_GetISA_def raft_SearchISAs_def raft_ListExpiredISAs_def raft_CountISAs_def raft_GetSubscription_def
  raft_SearchSubscriptions_def raft_SearchSubscriptionsByOwner_def raft_MaxSubscriptionCountInCellsByOwner_def
  raft_ListExpiredSubscriptions_def raft_CountSubscriptions_def

lemmas raft_writes = raft_DeleteISA_def raft_InsertISA_def raft_UpdateISA_def raft_DeleteSubscription_def
  raft_InsertSubscription_def raft_UpdateSubscription_def raft_UpdateNotificationIdxsInCells_def

lemmas rid_reads_as = rid_direct.read_runs_as [where wrap = RidISA] rid_direct.read_runs_as [where wrap = RidISAs]
  rid_direct.read_runs_as [where wrap = RidIDs] rid_direct.read_runs_as [where wrap = RidCount]
  rid_direct.read_runs_as [where wrap = RidSub] rid_direct.read_runs_as [where wrap = RidSubs]

lemmas rid_writes_as = rid_direct.write_runs_as [where wrap = RidISA] rid_direct.write_runs_as [where wrap = RidSub]
  rid_direct.write_runs_as [where wrap = RidSubs]

lemmas rid_client_simps = rid_direct_reads_def rid_codec_inverts_def rid_marshal_plain_def rid_Apply_def apply_isas_def
  apply_rid_subscriptions_def with_payload_run run_then_ret

lemma rid_reads:
  assumes "rid_codec_inverts J K" "rid_marshal_plain K"
  shows "reads_as (live_call c ctx (jm_ID K i)) (GetISA i False) (raft_GetISA L J K c ctx i forUpdate)"
    and "reads_as (live_call c ctx (jm_searchISAs K (cells, earliest, latest))) (SearchISAs cells earliest latest) (raft_SearchISAs L J K c ctx cells earliest latest)"
    and "reads_as (live_call c ctx (jm_expired K threshold)) (ListExpiredISAs threshold) (raft_ListExpiredISAs L J K c ctx threshold)"
    and "reads_as (live_call c ctx (Ok '''')) CountISAs (raft_CountISAs L J c ctx)"
    and "reads_as (live_call c ctx (jm_ID K i)) (rid_GetSubscription i) (raft_GetSubscription L J K c ctx i)"
    and "reads_as (live_call c ctx (jm_cells K cells)) (rid_SearchSubscriptions ctx cells) (raft_SearchSubscriptions L J K c ctx cells)"
    and "reads_as (live_call c ctx (jm_cellsByOwner K (cells, owner))) (SearchSubscriptionsByOwner ctx cells owner) (raft_SearchSubscriptionsByOwner L J K c ctx cells owner)"
    and "reads_as (live_call c ctx (jm_cellsByOwner K (cells, owner))) (MaxSubscriptionCountInCellsByOwner ctx cells owner) (raft_MaxSubscriptionCountInCellsByOwner L J K c ctx cells owner)"
    and "reads_as (live_call c ctx (jm_expired K threshold)) (rid_ListExpiredSubscriptions threshold) (raft_ListExpiredSubscriptions L J K c ctx threshold)"
    and "reads_as (live_call c ctx (Ok '''')) rid_CountSubscriptions (raft_CountSubscriptions L J c ctx)"
  unfolding raft_reads
  using assms
  by - (rule rid_reads_as; auto simp: rid_client_simps intro!: readonly_rid_repo)+

lemma rid_writes:
  assumes "rid_codec_inverts J K" "rid_marshal_plain K"
  shows "runs_as (live_call c ctx (jm_isa K isa)) (DeleteISA isa) (raft_DeleteISA L J K c ctx isa)"
    and "runs_as (live_call c ctx (jm_isa K isa)) (bindE (InsertISA L ctx isa) (\<lambda>i. ret (Some i))) (raft_InsertISA L J K c ctx isa)"
    and "runs_as (live_call c ctx (jm_isa K isa)) (UpdateISA L ctx isa) (raft_UpdateISA L J K c ctx isa)"
    and "runs_as (live_call c ctx (jm_sub K sub)) (rid_DeleteSubscription sub) (raft_DeleteSubscription L J K c ctx sub)"
    and "runs_as (live_call c ctx (jm_sub K sub)) (bindE (InsertSubscription L ctx sub) (\<lambda>s. ret (Some s))) (raft_InsertSubscription L J K c ctx sub)"
    and "runs_as (live_call c ctx (jm_sub K sub)) (UpdateSubscription L ctx sub) (raft_UpdateSubscription L J K c ctx sub)"
    and "runs_as (live_call c ctx (jm_cells K cells)) (UpdateNotificationIdxsInCells ctx cells) (raft_UpdateNotificationIdxsInCells L J K c ctx cells)"
  unfolding raft_writes
  using assms
  by - (rule rid_writes_as; auto simp: rid_client_simps)+

text \<open>C20: the methods of the replicated repository are those of the in-memory store. Each of the ten reading
  methods of the repository that \<open>Interact\<close> returns either gives the answer, or the error, that the
  corresponding method of the in-memory store gives on the current state, or fails with an error that has no
  DSS code because the request or its result was lost; in every case the state is unchanged. Each of
  the seven writing methods, when it succeeds, has executed the corresponding method of the in-memory
  store with this result; an error with a code is the error of that method and nothing has changed;
  after an error without a code the method has been executed or nothing has changed. A request that carries
  a timestamp and an argument that can be marshalled, and whose result arrives, has the outcome of the
  in-memory store, and a failure has no effect.\<close>

theorem rid_client_refines:
  assumes "rid_codec_inverts J K" and "rid_marshal_plain K"
  shows "reads_as (live_call c ctx (jm_ID K i)) (GetISA i False) (raft_GetISA L J K c ctx i forUpdate) \<and>
    reads_as (live_call c ctx (jm_searchISAs K (cells, earliest, latest))) (SearchISAs cells earliest latest) (raft_SearchISAs L J K c ctx cells earliest latest) \<and>
    reads_as (live_call c ctx (jm_expired K threshold)) (ListExpiredISAs threshold) (raft_ListExpiredISAs L J K c ctx threshold) \<and>
    reads_as (live_call c ctx (Ok '''')) CountISAs (raft_CountISAs L J c ctx) \<and>
    reads_as (live_call c ctx (jm_ID K i)) (rid_GetSubscription i) (raft_GetSubscription L J K c ctx i) \<and>
    reads_as (live_call c ctx (jm_cells K cells)) (rid_SearchSubscriptions ctx cells) (raft_SearchSubscriptions L J K c ctx cells) \<and>
    reads_as (live_call c ctx (jm_cellsByOwner K (cells, owner))) (SearchSubscriptionsByOwner ctx cells owner) (raft_SearchSubscriptionsByOwner L J K c ctx cells owner) \<and>
    reads_as (live_call c ctx (jm_cellsByOwner K (cells, owner))) (MaxSubscriptionCountInCellsByOwner ctx cells owner) (raft_MaxSubscriptionCountInCellsByOwner L J K c ctx cells owner) \<and>
    reads_as (live_call c ctx (jm_expired K threshold)) (rid_ListExpiredSubscriptions threshold) (raft_ListExpiredSubscriptions L J K c ctx threshold) \<and>
    reads_as (live_call c ctx (Ok '''')) rid_CountSubscriptions (raft_CountSubscriptions L J c ctx) \<and>
    runs_as (live_call c ctx (jm_isa K isa)) (DeleteISA isa) (raft_DeleteISA L J K c ctx isa) \<and>
    runs_as (live_call c ctx (jm_isa K isa)) (bindE (InsertISA L ctx isa) (\<lambda>i. ret (Some i))) (raft_InsertISA L J K c ctx isa) \<and>
    runs_as (live_call c ctx (jm_isa K isa)) (UpdateISA L ctx isa) (raft_UpdateISA L J K c ctx isa) \<and>
    runs_as (live_call c ctx (jm_sub K sub)) (rid_DeleteSubscription sub) (raft_DeleteSubscription L J K c ctx sub) \<and>
    runs_as (live_call c ctx (jm_sub K sub)) (bindE (InsertSubscription L ctx sub) (\<lambda>s. ret (Some s))) (raft_InsertSubscription L J K c ctx sub) \<and>
    runs_as (live_call c ctx (jm_sub K sub)) (UpdateSubscription L ctx sub) (raft_UpdateSubscription L J K c ctx sub) \<and>
    runs_as (live_call c ctx (jm_cells K cells)) (UpdateNotificationIdxsInCells ctx cells) (raft_UpdateNotificationIdxsInCells L J K c ctx cells)"
  by (intro conjI rid_reads [OF assms] rid_writes [OF assms])

definition demo_marshal :: rid_marshal where
  "demo_marshal = \<lparr>jm_ID = Ok, jm_isa = (\<lambda>_. Err (NewError ''json'')), jm_sub = (\<lambda>_. Err (NewError ''json'')),
     jm_searchISAs = (\<lambda>_. Err (NewError ''json'')), jm_expired = (\<lambda>_. Err (NewError ''json'')),
     jm_cells = (\<lambda>_. Err (NewError ''json'')), jm_cellsByOwner = (\<lambda>_. Err (NewError ''json''))\<rparr>"

definition demo_call :: consensus_call where
  "demo_call = \<lparr>cc_delivery = Delivered, cc_newID = ''p'', cc_nodeID = 1\<rparr>"

theorem rid_client_refines_witness:
  "fst (raft_GetISA demo_externals demo_rid_codec demo_marshal demo_call (Some 120) ''isa'' False
      \<lparr>mr_state = demo_rid_state, mr_checkpoint = empty_rid_state\<rparr>) = Ok (Some (isaRecord_toModel demo_isa_record))"
proof -
  have j: "rid_codec_inverts demo_rid_codec demo_marshal" "rid_marshal_plain demo_marshal"
    by (simp_all add: rid_codec_inverts_def rid_marshal_plain_def demo_marshal_def demo_rid_codec_def)
  have l: "live_call demo_call (Some 120) (jm_ID demo_marshal ''isa'')"
    by (simp add: live_call_def demo_call_def demo_marshal_def MustFromContext_def)
  obtain x r' where x: "raft_GetISA demo_externals demo_rid_codec demo_marshal demo_call (Some 120) ''isa'' False
      \<lparr>mr_state = demo_rid_state, mr_checkpoint = empty_rid_state\<rparr> = (x, r')" by fastforce
  from rid_client_refines [OF j, THEN conjunct1, unfolded reads_as_def, rule_format, OF x] l
  show ?thesis using x by (simp add: GetISA_def demo_rid_state_def)
qed

end
