(* ===== verification/Rid_Rest.thy ===== *)
theory Rid_Rest
  imports Rid_Operations Http_Api
begin

text \<open>
  The conversions between the REST types of remote identification and the entities of the service:
  \<open>src/pkg/rid/models/api/common/conversions.go\<close> and, for the two versions of the API,
  \<open>src/pkg/rid/models/api/v1/conversions.go\<close> and \<open>src/pkg/rid/models/api/v2/conversions.go\<close>. Pointers
  are options. Both versions print the same fields; they differ in the shape of times, altitudes and
  outlines.
\<close>

section \<open>Area strings\<close>

text \<open>\<open>bytes.IndexByte\<close> and \<open>strings.Count\<close> of one byte.\<close>

fun IndexByte :: "string \<Rightarrow> char \<Rightarrow> nat option" where
  "IndexByte [] c = None"
| "IndexByte (b # bs) c = (if b = c then Some 0 else map_option Suc (IndexByte bs c))"

definition strings_Count :: "string \<Rightarrow> char \<Rightarrow> nat" where
  "strings_Count s c = length (filter ((=) c) s)"

definition splitAtComma :: "string \<Rightarrow> bool \<Rightarrow> nat \<times> string option" where
  "splitAtComma data atEOF =
     (if atEOF \<and> data = [] then (0, None)
      else case IndexByte data (CHR '','') of
             Some i \<Rightarrow> (i + 1, Some (take i data))
           | None \<Rightarrow> if atEOF then (length data, Some data) else (0, None))"

text \<open>\<open>bufio.Scanner\<close>: the split function is applied to the data that is buffered, at most
  \<open>MaxScanTokenSize\<close> bytes; the end of the input is seen when the buffer has room left. A buffer that is full
  and has no token ends the scan with an error, which is not looked at here.\<close>

abbreviation MaxScanTokenSize :: nat where "MaxScanTokenSize \<equiv> 65536"

lemma IndexByte_bound: "IndexByte s c = Some i \<Longrightarrow> i < length s"
  by (induction s arbitrary: i) (auto split: if_splits)

lemma splitAtComma_advances: "splitAtComma data atEOF = (n, Some tok) \<Longrightarrow> 0 < n \<and> n \<le> length data"
  by (auto simp: splitAtComma_def split: if_splits option.splits dest: IndexByte_bound)

function scan_tokens :: "string \<Rightarrow> string list" where
  "scan_tokens rest =
     (case splitAtComma (take MaxScanTokenSize rest) (length rest < MaxScanTokenSize) of
        (advance, Some token) \<Rightarrow> token # scan_tokens (drop advance rest)
      | (_, None) \<Rightarrow> [])"
  by pat_completeness auto
termination
  by (relation "measure length") (auto dest!: splitAtComma_advances [OF sym])

declare scan_tokens.simps [simp del]

text \<open>\<open>strings.TrimSpace\<close>: the white space of Unicode, in UTF-8.\<close>

definition unicode_spaces :: "string list" where
  "unicode_spaces = map (map char_of)
     ([[9], [10], [11], [12], [13], [32], [0xC2, 0x85], [0xC2, 0xA0], [0xE1, 0x9A, 0x80], [0xE2, 0x80, 0xA8],
       [0xE2, 0x80, 0xA9], [0xE2, 0x80, 0xAF], [0xE2, 0x81, 0x9F], [0xE3, 0x80, 0x80]] @
      map (\<lambda>k. [0xE2, 0x80, 0x80 + k]) [0 ..< 11] :: nat list list)"

definition has_prefix :: "string \<Rightarrow> string \<Rightarrow> bool" where
  "has_prefix p s \<longleftrightarrow> take (length p) s = p"

lemma unicode_spaces_nonempty: "w \<in> set unicode_spaces \<Longrightarrow> 0 < length w"
  by (auto simp: unicode_spaces_def)

function trim_left :: "string list \<Rightarrow> string \<Rightarrow> string" where
  "trim_left spaces s =
     (case find (\<lambda>w. w \<noteq> [] \<and> has_prefix w s) spaces of
        None \<Rightarrow> s
      | Some w \<Rightarrow> trim_left spaces (drop (length w) s))"
  by pat_completeness auto
termination
proof (relation "measure (length \<circ> snd)")
  fix spaces :: "string list" and s w
  assume "find (\<lambda>w. w \<noteq> [] \<and> has_prefix w s) spaces = Some w"
  then have "w \<noteq> []" "has_prefix w s" by (auto simp: find_Some_iff)
  then have "s \<noteq> []" by (auto simp: has_prefix_def)
  with \<open>w \<noteq> []\<close> show "((spaces, drop (length w) s), spaces, s) \<in> measure (length \<circ> snd)" by simp
qed simp

declare trim_left.simps [simp del]

definition TrimSpace :: "string \<Rightarrow> string" where
  "TrimSpace s = rev (trim_left (map rev unicode_spaces) (rev (trim_left unicode_spaces s)))"

lemma unicode_spaces_bytes: "w \<in> set unicode_spaces \<Longrightarrow> c \<in> set w \<Longrightarrow> (of_char c :: nat) \<le> 32 \<or> 128 \<le> (of_char c :: nat)"
  by (auto simp: unicode_spaces_def of_char_of take_bit_eq_mod)

lemma trim_left_id:
  assumes "\<And>w. w \<in> set spaces \<Longrightarrow> w = [] \<or> hd w \<noteq> hd s" "s \<noteq> []"
  shows "trim_left spaces s = s"
proof -
  have "\<not> has_prefix w s" if "w \<in> set spaces" "w \<noteq> []" for w
    using assms that by (cases w; cases s) (fastforce simp: has_prefix_def)+
  then have "find (\<lambda>w. w \<noteq> [] \<and> has_prefix w s) spaces = None" by (auto simp: find_None_iff)
  then show ?thesis by (simp add: trim_left.simps)
qed

text \<open>Text that begins and ends with a printable ASCII character is not changed.\<close>

lemma TrimSpace_printable:
  assumes "s \<noteq> []" "32 < (of_char (hd s) :: nat)" "(of_char (hd s) :: nat) < 128" "32 < (of_char (last s) :: nat)" "(of_char (last s) :: nat) < 128"
  shows "TrimSpace s = s"
proof -
  have "trim_left unicode_spaces s = s"
    using assms unicode_spaces_bytes by (intro trim_left_id) (metis hd_in_set linorder_not_less, simp)
  moreover have "trim_left (map rev unicode_spaces) (rev s) = rev s"
  proof (rule trim_left_id)
    fix w
    assume "w \<in> set (map rev unicode_spaces)"
    then obtain v where v: "v \<in> set unicode_spaces" "w = rev v" by auto
    show "w = [] \<or> hd w \<noteq> hd (rev s)"
      using assms unicode_spaces_bytes [OF v(1), of "last v"] v(2) by (cases "v = []") (auto simp: hd_rev)
  qed (use assms in simp)
  ultimately show ?thesis by (simp add: TrimSpace_def)
qed

text \<open>The loop over the tokens: \<open>lat\<close> is the latitude that waits for its longitude.\<close>

fun area_vertices :: "externals \<Rightarrow> string list \<Rightarrow> rat option \<Rightarrow> LatLngPoint list \<Rightarrow> LatLngPoint list outcome" where
  "area_vertices L [] lat vertices = Ok vertices"
| "area_vertices L (token # tokens) lat vertices =
     (case strconv_ParseFloat L (TrimSpace token) of
        None \<Rightarrow> Err ErrBadCoordSet
      | Some x \<Rightarrow>
          (case lat of
             None \<Rightarrow> area_vertices L tokens (Some x) vertices
           | Some y \<Rightarrow> area_vertices L tokens None (vertices @ [\<lparr>ll_Lat = y, ll_Lng = x\<rparr>])))"

definition FromGeoPolygonString :: "externals \<Rightarrow> string \<Rightarrow> LatLngPoint option list option outcome" where
  "FromGeoPolygonString L area =
     (let numCoords = strings_Count area (CHR '','') + 1 in
      if numCoords mod 2 = 1 then Err ErrOddNumberOfCoordinatesInAreaString
      else if numCoords div 2 < 3 then Err ErrNotEnoughPointsInPolygon
      else obind (area_vertices L (scan_tokens area) None []) (\<lambda>vertices. Ok (Some (map Some vertices))))"

section \<open>REST types\<close>

record rid_LatLngPoint =
  rp_Lng :: rat
  rp_Lat :: rat

text \<open>Version 1. An altitude is a \<open>float32\<close>, a time a string.\<close>

record ridv1_Volume3D =
  v1_Footprint :: "rid_LatLngPoint list"
  v1_AltitudeLo :: "rat option"
  v1_AltitudeHi :: "rat option"

record ridv1_Volume4D =
  v1_SpatialVolume :: ridv1_Volume3D
  v1_TimeStart :: "string option"
  v1_TimeEnd :: "string option"

record ridv1_ISA =
  v1i_FlightsUrl :: string
  v1i_Owner :: string
  v1i_TimeStart :: string
  v1i_TimeEnd :: string
  v1i_Version :: string
  v1i_Id :: string

record ridv1_Subscription =
  v1s_Id :: string
  v1s_IdentificationServiceAreaUrl :: "string option"
  v1s_Owner :: string
  v1s_NotificationIndex :: "32 word"
  v1s_TimeEnd :: "string option"
  v1s_TimeStart :: "string option"
  v1s_Version :: string

text \<open>Version 2.\<close>

record ridv2_Time =
  v2t_Value :: string
  v2t_Format :: string

record ridv2_Altitude =
  v2a_Value :: rat
  v2a_Reference :: string
  v2a_Units :: string

record ridv2_Radius =
  v2r_Value :: rat
  v2r_Units :: string

record ridv2_Circle =
  v2c_Center :: "rid_LatLngPoint option"
  v2c_Radius :: "ridv2_Radius option"

record ridv2_Volume3D =
  v2_OutlineCircle :: "ridv2_Circle option"
  v2_OutlinePolygon :: "rid_LatLngPoint list option"
  v2_AltitudeLower :: "ridv2_Altitude option"
  v2_AltitudeUpper :: "ridv2_Altitude option"

record ridv2_Volume4D =
  v2_Volume :: ridv2_Volume3D
  v2_TimeStart :: "ridv2_Time option"
  v2_TimeEnd :: "ridv2_Time option"

record ridv2_ISA =
  v2i_UssBaseUrl :: string
  v2i_Owner :: string
  v2i_TimeStart :: ridv2_Time
  v2i_TimeEnd :: ridv2_Time
  v2i_Version :: string
  v2i_Id :: string

record ridv2_Subscription =
  v2s_Id :: string
  v2s_UssBaseUrl :: string
  v2s_Owner :: string
  v2s_NotificationIndex :: "32 word option"
  v2s_TimeEnd :: "ridv2_Time option"
  v2s_TimeStart :: "ridv2_Time option"
  v2s_Version :: string

text \<open>Both versions: the notification index is an \<open>int32\<close>. The fields are pointers in one or the other
  version, and always set.\<close>

record rid_SubscriptionState =
  rss_SubscriptionId :: string
  rss_NotificationIndex :: "32 word"

record rid_SubscriberToNotify =
  rsn_Subscriptions :: "rid_SubscriptionState list"
  rsn_Url :: string

section \<open>From REST, version 1\<close>

definition rid_FromLatLngPoint :: "rid_LatLngPoint \<Rightarrow> LatLngPoint" where
  "rid_FromLatLngPoint pt = \<lparr>ll_Lat = rp_Lat pt, ll_Lng = rp_Lng pt\<rparr>"

definition v1_FromGeoPolygon :: "rid_LatLngPoint list \<Rightarrow> Geometry" where
  "v1_FromGeoPolygon footprint = GeoPolygon (Some (map (\<lambda>ltlng. Some (rid_FromLatLngPoint ltlng)) footprint))"

definition v1_FromVolume3D :: "ridv1_Volume3D \<Rightarrow> Volume3D" where
  "v1_FromVolume3D vol3 = \<lparr>v3_AltitudeHi = v1_AltitudeHi vol3, v3_AltitudeLo = v1_AltitudeLo vol3,
     v3_Footprint = Some (v1_FromGeoPolygon (v1_Footprint vol3))\<rparr>"

definition v1_parse_time :: "externals \<Rightarrow> string option \<Rightarrow> time option outcome" where
  "v1_parse_time L t =
     (case t of
        None \<Rightarrow> Ok None
      | Some v \<Rightarrow> (case time_ParseRFC3339Nano L v of None \<Rightarrow> Err (NewError ''parsing time'') | Some ts \<Rightarrow> Ok (Some ts)))"

definition v1_FromVolume4D :: "externals \<Rightarrow> ridv1_Volume4D \<Rightarrow> Volume4D outcome" where
  "v1_FromVolume4D L vol4 =
     obind (v1_parse_time L (v1_TimeStart vol4)) (\<lambda>st.
     obind (v1_parse_time L (v1_TimeEnd vol4)) (\<lambda>en.
     Ok \<lparr>v4_SpatialVolume = Some (v1_FromVolume3D (v1_SpatialVolume vol4)), v4_EndTime = en, v4_StartTime = st\<rparr>))"

definition v1_CellsVolume4DFromRest :: "externals \<Rightarrow> ridv1_Volume4D \<Rightarrow> cells_volume_4d outcome" where
  "v1_CellsVolume4DFromRest L vol4 =
     obind (CalculateCovering L (v1_FromGeoPolygon (v1_Footprint (v1_SpatialVolume vol4)))) (\<lambda>cells.
     obind (v1_parse_time L (v1_TimeStart vol4)) (\<lambda>st.
     obind (v1_parse_time L (v1_TimeEnd vol4)) (\<lambda>en.
     Ok \<lparr>cv_Cells = cells, cv_StartTime = st, cv_EndTime = en,
         cv_AltitudeLo = v1_AltitudeLo (v1_SpatialVolume vol4), cv_AltitudeHi = v1_AltitudeHi (v1_SpatialVolume vol4)\<rparr>)))"

section \<open>From REST, version 2\<close>

text \<open>A value between single quotes, as the messages show it.\<close>

definition quoted :: "string \<Rightarrow> string" where
  "quoted s = CHR 0x27 # s @ [CHR 0x27]"

definition v2_FromTime :: "externals \<Rightarrow> ridv2_Time option \<Rightarrow> time option outcome" where
  "v2_FromTime L t =
     (case t of
        None \<Rightarrow> Ok None
      | Some t1 \<Rightarrow>
          if v2t_Format t1 \<noteq> ''RFC3339'' then Err (NewError (''Invalid time format '' @ quoted (v2t_Format t1) @ ''; expected '' @ quoted ''RFC3339''))
          else if v2t_Value t1 = '''' then Err (NewError ''Time structure specified, but `value` was missing'')
          else (case time_ParseRFC3339Nano L (v2t_Value t1) of
                  None \<Rightarrow> Err (NewError ''parsing time'')
                | Some ts \<Rightarrow> Ok (Some ts)))"

definition v2_FromAltitude :: "externals \<Rightarrow> ridv2_Altitude option \<Rightarrow> rat option outcome" where
  "v2_FromAltitude L alt =
     (case alt of
        None \<Rightarrow> Ok None
      | Some a \<Rightarrow>
          if v2a_Reference a \<noteq> ''W84'' then Err (NewError (''Invalid altitude reference '' @ quoted (v2a_Reference a) @ ''; expected '' @ quoted ''W84''))
          else if v2a_Units a \<noteq> ''M'' then Err (NewError (''Invalid units '' @ quoted (v2a_Units a) @ ''; expected '' @ quoted ''M''))
          else Ok (Some (f32 L (v2a_Value a))))"

definition v2_FromPolygon :: "rid_LatLngPoint list \<Rightarrow> Geometry" where
  "v2_FromPolygon vertices = GeoPolygon (Some (map (\<lambda>ltlng. Some (rid_FromLatLngPoint ltlng)) vertices))"

definition v2_FromCircle :: "ridv2_Circle \<Rightarrow> circle outcome" where
  "v2_FromCircle c =
     (case v2c_Center c of
        None \<Rightarrow> Err (NewError ''Missing `center` from circle'')
      | Some center \<Rightarrow>
          (case v2c_Radius c of
             None \<Rightarrow> Err (NewError ''Missing `radius` from circle'')
           | Some radius \<Rightarrow>
               if v2r_Units radius \<noteq> ''M'' then Err (NewError (''Only circle radius units of '' @ quoted ''M'' @ '' are acceptable for UTM''))
               else Ok \<lparr>gc_Center = rid_FromLatLngPoint center, gc_RadiusMeter = v2r_Value radius\<rparr>))"

definition v2_FromVolume3D :: "externals \<Rightarrow> ridv2_Volume3D \<Rightarrow> Volume3D outcome" where
  "v2_FromVolume3D L vol3 =
     obind (v2_FromAltitude L (v2_AltitudeLower vol3)) (\<lambda>altitudeLo.
     obind (v2_FromAltitude L (v2_AltitudeUpper vol3)) (\<lambda>altitudeHi.
     case v2_OutlinePolygon vol3 of
       Some polygon \<Rightarrow>
         if v2_OutlineCircle vol3 \<noteq> None
         then Err (NewError ''Only one of outline_circle or outline_polygon may be specified'')
         else Ok \<lparr>v3_AltitudeHi = altitudeHi, v3_AltitudeLo = altitudeLo, v3_Footprint = Some (v2_FromPolygon polygon)\<rparr>
     | None \<Rightarrow>
         (case v2_OutlineCircle vol3 of
            Some c \<Rightarrow>
              obind (v2_FromCircle c) (\<lambda>footprint.
              Ok \<lparr>v3_AltitudeHi = altitudeHi, v3_AltitudeLo = altitudeLo, v3_Footprint = Some (GeoCircle (Some footprint))\<rparr>)
          | None \<Rightarrow> Err (NewError ''Neither outline_polygon nor outline_circle were specified in volume''))))"

definition v2_FromVolume4D :: "externals \<Rightarrow> ridv2_Volume4D \<Rightarrow> Volume4D outcome" where
  "v2_FromVolume4D L vol4 =
     obind (v2_FromVolume3D L (v2_Volume vol4)) (\<lambda>vol3.
     obind (v2_FromTime L (v2_TimeStart vol4)) (\<lambda>st.
     obind (v2_FromTime L (v2_TimeEnd vol4)) (\<lambda>en.
     Ok \<lparr>v4_SpatialVolume = Some vol3, v4_EndTime = en, v4_StartTime = st\<rparr>)))"

definition v2_cellsFromVolume3D :: "externals \<Rightarrow> ridv2_Volume3D \<Rightarrow> cell_union outcome" where
  "v2_cellsFromVolume3D L vol3 =
     (case v2_OutlinePolygon vol3 of
        Some polygon \<Rightarrow>
          if v2_OutlineCircle vol3 \<noteq> None
          then Err (NewError ''Only one of outline_circle or outline_polygon may be specified'')
          else CalculateCovering L (v2_FromPolygon polygon)
      | None \<Rightarrow>
          (case v2_OutlineCircle vol3 of
             Some c \<Rightarrow> obind (v2_FromCircle c) (\<lambda>circle. CalculateCovering L (GeoCircle (Some circle)))
           | None \<Rightarrow> Err (NewError ''Neither outline_polygon nor outline_circle were specified in volume'')))"

definition v2_CellsVolume4DFromRest :: "externals \<Rightarrow> ridv2_Volume4D \<Rightarrow> cells_volume_4d outcome" where
  "v2_CellsVolume4DFromRest L vol4 =
     obind (v2_cellsFromVolume3D L (v2_Volume vol4)) (\<lambda>cells.
     obind (v2_FromAltitude L (v2_AltitudeLower (v2_Volume vol4))) (\<lambda>altitudeLo.
     obind (v2_FromAltitude L (v2_AltitudeUpper (v2_Volume vol4))) (\<lambda>altitudeHi.
     obind (v2_FromTime L (v2_TimeStart vol4)) (\<lambda>st.
     obind (v2_FromTime L (v2_TimeEnd vol4)) (\<lambda>en.
     Ok \<lparr>cv_Cells = cells, cv_StartTime = st, cv_EndTime = en, cv_AltitudeLo = altitudeLo, cv_AltitudeHi = altitudeHi\<rparr>)))))"

section \<open>To REST\<close>

definition v1_format_time :: "externals \<Rightarrow> time option \<Rightarrow> string" where
  "v1_format_time L t = (case t of None \<Rightarrow> '''' | Some ts \<Rightarrow> time_FormatRFC3339Nano L ts)"

definition v1_ToIdentificationServiceArea :: "externals \<Rightarrow> IdentificationServiceArea \<Rightarrow> ridv1_ISA" where
  "v1_ToIdentificationServiceArea L i = \<lparr>v1i_FlightsUrl = isa_URL i, v1i_Owner = isa_Owner i,
     v1i_TimeStart = v1_format_time L (cv_StartTime (isa_Volume i)), v1i_TimeEnd = v1_format_time L (cv_EndTime (isa_Volume i)),
     v1i_Version = Version_String (isa_Version i), v1i_Id = isa_ID i\<rparr>"

definition v1_ToSubscription :: "externals \<Rightarrow> rid_Subscription \<Rightarrow> ridv1_Subscription" where
  "v1_ToSubscription L s = \<lparr>v1s_Id = rs_ID s, v1s_IdentificationServiceAreaUrl = Some (rs_URL s), v1s_Owner = rs_Owner s,
     v1s_NotificationIndex = ucast (rs_NotificationIndex s),
     v1s_TimeEnd = map_option (time_FormatRFC3339Nano L) (cv_EndTime (rs_Volume s)),
     v1s_TimeStart = map_option (time_FormatRFC3339Nano L) (cv_StartTime (rs_Volume s)),
     v1s_Version = Version_String (rs_Version s)\<rparr>"

definition v2_ToTime :: "externals \<Rightarrow> time option \<Rightarrow> ridv2_Time option" where
  "v2_ToTime L t = (case t of None \<Rightarrow> None | Some ts \<Rightarrow> Some \<lparr>v2t_Value = time_FormatRFC3339Nano L ts, v2t_Format = ''RFC3339''\<rparr>)"

text \<open>The zero value of \<open>Time\<close> where there is no time.\<close>

definition v2_time_or_zero :: "externals \<Rightarrow> time option \<Rightarrow> ridv2_Time" where
  "v2_time_or_zero L t = (case v2_ToTime L t of None \<Rightarrow> \<lparr>v2t_Value = '''', v2t_Format = ''''\<rparr> | Some rt \<Rightarrow> rt)"

definition v2_ToIdentificationServiceArea :: "externals \<Rightarrow> IdentificationServiceArea \<Rightarrow> ridv2_ISA" where
  "v2_ToIdentificationServiceArea L i = \<lparr>v2i_UssBaseUrl = isa_URL i, v2i_Owner = isa_Owner i,
     v2i_TimeStart = v2_time_or_zero L (cv_StartTime (isa_Volume i)), v2i_TimeEnd = v2_time_or_zero L (cv_EndTime (isa_Volume i)),
     v2i_Version = Version_String (isa_Version i), v2i_Id = isa_ID i\<rparr>"

definition v2_ToSubscription :: "externals \<Rightarrow> rid_Subscription \<Rightarrow> ridv2_Subscription" where
  "v2_ToSubscription L s = \<lparr>v2s_Id = rs_ID s, v2s_UssBaseUrl = rs_URL s, v2s_Owner = rs_Owner s,
     v2s_NotificationIndex = Some (ucast (rs_NotificationIndex s)),
     v2s_TimeEnd = v2_ToTime L (cv_EndTime (rs_Volume s)), v2s_TimeStart = v2_ToTime L (cv_StartTime (rs_Volume s)),
     v2s_Version = Version_String (rs_Version s)\<rparr>"

definition rid_subscription_state :: "rid_Subscription \<Rightarrow> rid_SubscriptionState" where
  "rid_subscription_state s = \<lparr>rss_SubscriptionId = rs_ID s, rss_NotificationIndex = ucast (rs_NotificationIndex s)\<rparr>"

definition v2_ToSubscriberToNotify :: "rid_Subscription \<Rightarrow> rid_SubscriberToNotify" where
  "v2_ToSubscriberToNotify s = \<lparr>rsn_Subscriptions = [rid_subscription_state s], rsn_Url = rs_URL s\<rparr>"

text \<open>\<open>MakeSubscribersToNotify\<close>, the same in both versions.\<close>

definition MakeSubscribersToNotify :: "rid_Subscription list \<Rightarrow> rid_SubscriberToNotify list" where
  "MakeSubscribersToNotify subscriptions =
     (let subscriptionsByURL = fold (\<lambda>sub m. append_at (rs_URL sub) (rid_subscription_state sub) m) subscriptions []
      in map (\<lambda>(url, states). \<lparr>rsn_Subscriptions = states, rsn_Url = url\<rparr>) subscriptionsByURL)"

lemma MakeSubscribersToNotify_groups:
  "distinct (map rsn_Url (MakeSubscribersToNotify subs)) \<and>
   set (MakeSubscribersToNotify subs) =
     (\<lambda>url. \<lparr>rsn_Subscriptions = map rid_subscription_state (filter (\<lambda>s. rs_URL s = url) subs), rsn_Url = url\<rparr>) ` rs_URL ` set subs"
  using grouped_append_at [of rs_URL rid_subscription_state subs]
  by (auto simp: MakeSubscribersToNotify_def Let_def split_def comp_def image_iff)

section \<open>What an area string means\<close>

text \<open>The reference: the pieces between commas, of which a last one that is empty does not count; their
  values; and the points that consecutive pairs of values make.\<close>

definition drop_empty_last :: "string list \<Rightarrow> string list" where
  "drop_empty_last ps = (if last ps = '''' then butlast ps else ps)"

fun pairs :: "rat list \<Rightarrow> LatLngPoint list" where
  "pairs (y # x # rest) = \<lparr>ll_Lat = y, ll_Lng = x\<rparr> # pairs rest"
| "pairs _ = []"

fun coordinates :: "externals \<Rightarrow> string list \<Rightarrow> rat list option" where
  "coordinates L [] = Some []"
| "coordinates L (p # ps) =
     (case strconv_ParseFloat L (TrimSpace p) of
        None \<Rightarrow> None
      | Some x \<Rightarrow> map_option ((#) x) (coordinates L ps))"

lemma IndexByte_append: "c \<notin> set w \<Longrightarrow> IndexByte (w @ c # s) c = Some (length w)" "c \<notin> set w \<Longrightarrow> IndexByte w c = None"
  by (induction w) auto

lemma scan_tokens_join:
  assumes "CHR '','' \<notin> set w" "length w < MaxScanTokenSize" "list_all (\<lambda>v. CHR '','' \<notin> set v \<and> length v < MaxScanTokenSize) ws"
  shows "scan_tokens (w @ concat (map ((#) (CHR '','')) ws)) = drop_empty_last (w # ws)"
  using assms
proof (induction ws arbitrary: w)
  case Nil
  have e: "scan_tokens [] = []" by (subst scan_tokens.simps) (simp add: splitAtComma_def)
  from Nil have "scan_tokens w = (if w = [] then [] else [w])"
    by (cases "w = []") (auto simp: e scan_tokens.simps [of w] splitAtComma_def IndexByte_append(2))
  then show ?case by (simp add: drop_empty_last_def)
next
  case (Cons v ws)
  let ?rest = "v @ concat (map ((#) (CHR '','')) ws)" and ?s = "concat (map ((#) (CHR '','')) (v # ws))"
  obtain k where k: "MaxScanTokenSize - length w = Suc k" using Cons.prems(2) by (metis Suc_diff_Suc)
  have "take MaxScanTokenSize (w @ ?s) = w @ CHR '','' # take k ?rest"
    using Cons.prems(2) k by simp
  then have "splitAtComma (take MaxScanTokenSize (w @ ?s)) b = (length w + 1, Some w)" for b
    using Cons.prems(1) by (simp add: splitAtComma_def IndexByte_append(1))
  then have "scan_tokens (w @ ?s) = w # scan_tokens ?rest"
    by (subst scan_tokens.simps) simp
  with Cons show ?case by (simp add: drop_empty_last_def)
qed

lemma area_vertices_coordinates:
  "area_vertices L tokens None vs =
     (case coordinates L tokens of None \<Rightarrow> Err ErrBadCoordSet | Some xs \<Rightarrow> Ok (vs @ pairs xs))"
  "area_vertices L tokens (Some y) vs =
     (case coordinates L tokens of None \<Rightarrow> Err ErrBadCoordSet | Some xs \<Rightarrow> Ok (vs @ pairs (y # xs)))"
  by (induction tokens arbitrary: y vs) (auto split: option.splits)

lemma strings_Count_pieces: "strings_Count s c + 1 = length (strings_Split c s)"
  by (induction s) (auto simp: strings_Count_def split: list.splits)

definition parse_area :: "externals \<Rightarrow> string list \<Rightarrow> LatLngPoint list outcome" where
  "parse_area L pieces =
     (if odd (length pieces) then Err ErrOddNumberOfCoordinatesInAreaString
      else if length pieces < 6 then Err ErrNotEnoughPointsInPolygon
      else case coordinates L (drop_empty_last pieces) of
             None \<Rightarrow> Err ErrBadCoordSet
           | Some xs \<Rightarrow> Ok (pairs xs))"

lemma FromGeoPolygonString_parse_area:
  assumes "\<forall>p \<in> set (strings_Split (CHR '','') area). length p < MaxScanTokenSize"
  shows "FromGeoPolygonString L area = obind (parse_area L (strings_Split (CHR '','') area)) (\<lambda>vs. Ok (Some (map Some vs)))"
proof -
  obtain w ws where w: "strings_Split (CHR '','') area = w # ws" by (meson neq_Nil_conv strings_Split_not_Nil)
  have "area = w @ concat (map ((#) (CHR '','')) ws)" by (rule strings_Split_concat [OF w])
  moreover have "CHR '','' \<notin> set w" "list_all (\<lambda>v. CHR '','' \<notin> set v \<and> length v < MaxScanTokenSize) ws" "length w < MaxScanTokenSize"
    using assms strings_Split_pieces [of _ "CHR '',''" area] w by (auto simp: list_all_iff)
  ultimately have t: "scan_tokens area = drop_empty_last (w # ws)" using scan_tokens_join [of w ws] by simp
  have c: "strings_Count area (CHR '','') + 1 = length (w # ws)" using strings_Count_pieces [of area "CHR '',''"] w by simp
  have n: "n div 2 < 3 \<longleftrightarrow> n < 6" if "even n" for n :: nat using that by (auto elim!: evenE)
  show ?thesis
    unfolding FromGeoPolygonString_def Let_def c t w parse_area_def area_vertices_coordinates
    using n [of "length (w # ws)"]
    by (cases "even (length (w # ws))") (simp_all add: even_iff_mod_2_eq_zero odd_iff_mod_2_eq_one del: list.size split: option.splits)
qed

text \<open>Printing an area: every coordinate with \<open>print\<close>, separated by commas.\<close>

definition print_area :: "(rat \<Rightarrow> string) \<Rightarrow> LatLngPoint list \<Rightarrow> string" where
  "print_area print vs = tl (concat (map ((#) (CHR '','')) (concat (map (\<lambda>v. [print (ll_Lat v), print (ll_Lng v)]) vs))))"

text \<open>A printed coordinate that can be read back: no commas, not too long, not empty, and \<open>ParseFloat\<close>
  after \<open>TrimSpace\<close> gives the number again.\<close>

definition readable :: "externals \<Rightarrow> (rat \<Rightarrow> string) \<Rightarrow> rat \<Rightarrow> bool" where
  "readable L print x \<longleftrightarrow>
     print x \<noteq> '''' \<and> CHR '','' \<notin> set (print x) \<and> length (print x) < MaxScanTokenSize \<and>
     strconv_ParseFloat L (TrimSpace (print x)) = Some x"

definition readable_area :: "externals \<Rightarrow> (rat \<Rightarrow> string) \<Rightarrow> LatLngPoint list \<Rightarrow> bool" where
  "readable_area L print vs \<longleftrightarrow> (\<forall>v \<in> set vs. readable L print (ll_Lat v) \<and> readable L print (ll_Lng v))"

lemma coordinates_print:
  "readable_area L print vs \<Longrightarrow>
     coordinates L (concat (map (\<lambda>v. [print (ll_Lat v), print (ll_Lng v)]) vs)) =
       Some (concat (map (\<lambda>v. [ll_Lat v, ll_Lng v]) vs))"
  by (induction vs) (simp_all add: readable_area_def readable_def)

lemma pairs_concat: "pairs (concat (map (\<lambda>v. [ll_Lat v, ll_Lng v]) vs)) = vs"
  by (induction vs) simp_all

lemma print_area_pieces:
  assumes "readable_area L print vs" "vs \<noteq> []"
  shows "strings_Split (CHR '','') (print_area print vs) = concat (map (\<lambda>v. [print (ll_Lat v), print (ll_Lng v)]) vs)"
proof -
  obtain w ws where w: "concat (map (\<lambda>v. [print (ll_Lat v), print (ll_Lng v)]) vs) = w # ws"
    using assms(2) by (cases vs) auto
  have "\<forall>p \<in> set (w # ws). CHR '','' \<notin> set p"
    using assms(1) unfolding w [symmetric] by (auto simp: readable_area_def readable_def)
  then show ?thesis
    using strings_Split_join [of "CHR '',''" w ws] by (simp add: print_area_def w list_all_iff)
qed

text \<open>C23: round trip of area strings. A polygon with at least three vertices that is printed as
  \<open>lat0,lng0,lat1,lng1,...\<close>, in any way that keeps its coordinates readable, is parsed to exactly its
  vertices.\<close>

theorem area_string_roundtrip:
  assumes "readable_area L print vs" and "3 \<le> length vs"
  shows "FromGeoPolygonString L (print_area print vs) = Ok (Some (map Some vs))"
proof -
  let ?ps = "concat (map (\<lambda>v. [print (ll_Lat v), print (ll_Lng v)]) vs)"
  have ne: "vs \<noteq> []" using assms(2) by auto
  have len: "length ?ps = 2 * length vs" by (induction vs) simp_all
  have short: "\<forall>p \<in> set ?ps. length p < MaxScanTokenSize \<and> p \<noteq> ''''"
    using assms(1) by (auto simp: readable_area_def readable_def)
  moreover have "?ps \<noteq> []" using ne by (cases vs) auto
  ultimately have "drop_empty_last ?ps = ?ps" unfolding drop_empty_last_def by (metis last_in_set)
  with short show ?thesis
    using FromGeoPolygonString_parse_area [of "print_area print vs" L] assms(2) coordinates_print [OF assms(1)]
    by (simp add: print_area_pieces [OF assms(1) ne] parse_area_def len pairs_concat)
qed

lemma coordinates_append:
  "coordinates L (ps @ qs) =
     (case coordinates L ps of None \<Rightarrow> None | Some xs \<Rightarrow> map_option ((@) xs) (coordinates L qs))"
  by (induction ps; cases "coordinates L qs") (auto split: option.splits)

lemma pairs_dangling: "pairs (concat (map (\<lambda>v. [ll_Lat v, ll_Lng v]) vs) @ [y]) = vs"
  by (induction vs) simp_all

lemma strings_Split_append:
  "strings_Split c (s @ c # t) = strings_Split c s @ strings_Split c t"
  by (induction s) (auto split: list.splits)

text \<open>An area string whose last coordinate is missing is accepted. When a latitude and a comma, and
  then nothing, follow a well-formed list of vertices, then the number of commas is that of a list with
  one more vertex; but the empty text after the last comma is not a token of the scanner, so that it is
  never parsed. The result is the polygon without that vertex, and no error.\<close>

lemma area_string_missing_longitude:
  assumes "readable_area L print vs" and "3 \<le> length vs" and "readable L print lat"
  shows "FromGeoPolygonString L (print_area print vs @ '','' @ print lat @ '','') = Ok (Some (map Some vs))"
proof -
  let ?ps = "concat (map (\<lambda>v. [print (ll_Lat v), print (ll_Lng v)]) vs)"
  have ne: "vs \<noteq> []" using assms(2) by auto
  have lat: "CHR '','' \<notin> set (print lat)" "length (print lat) < MaxScanTokenSize" "coordinates L [print lat] = Some [lat]"
    using assms(3) by (simp_all add: readable_def)
  have "strings_Split (CHR '','') (print lat) = [print lat]" using strings_Split_join [of "CHR '',''" "print lat" "[]"] lat(1) by simp
  then have split: "strings_Split (CHR '','') (print_area print vs @ '','' @ print lat @ '','') = ?ps @ [print lat, '''']"
    using strings_Split_append [of "CHR '',''" "print_area print vs" "print lat @ '',''"]
      strings_Split_append [of "CHR '',''" "print lat" "''''"]
    by (simp add: print_area_pieces [OF assms(1) ne])
  have len: "length ?ps = 2 * length vs" by (induction vs) simp_all
  have "\<forall>p \<in> set (?ps @ [print lat, '''']). length p < MaxScanTokenSize"
    using assms(1) lat(2) by (auto simp: readable_area_def readable_def)
  then show ?thesis
    using FromGeoPolygonString_parse_area [of "print_area print vs @ '','' @ print lat @ '',''" L] assms(2)
      coordinates_print [OF assms(1)] lat(3)
    by (simp add: split parse_area_def len drop_empty_last_def butlast_append coordinates_append pairs_dangling del: append_Cons)
qed

section \<open>An area\<close>

text \<open>A triangle, printed in unary.\<close>

definition demo_area :: "LatLngPoint list" where
  "demo_area = [\<lparr>ll_Lat = 1, ll_Lng = 1\<rparr>, \<lparr>ll_Lat = 1, ll_Lng = 2\<rparr>, \<lparr>ll_Lat = 2, ll_Lng = 2\<rparr>]"

definition demo_print :: "rat \<Rightarrow> string" where
  "demo_print x = (if x = 1 then ''1'' else ''11'')"

lemma demo_readable: "readable_area demo_externals demo_print demo_area" "readable demo_externals demo_print 2"
  by (simp_all add: readable_area_def readable_def demo_area_def demo_print_def TrimSpace_printable)

theorem area_string_roundtrip_witness:
  "FromGeoPolygonString demo_externals (print_area demo_print demo_area) = Ok (Some (map Some demo_area))"
  by (rule area_string_roundtrip [OF demo_readable(1)]) (simp add: demo_area_def)

lemma area_string_missing_longitude_witness:
  "FromGeoPolygonString demo_externals ''1,1,1,11,11,11,11,'' = Ok (Some (map Some demo_area))"
  using area_string_missing_longitude [OF demo_readable(1) _ demo_readable(2)]
  by (simp add: demo_area_def print_area_def demo_print_def)

end
