(* ===== verification/Rid_Server.thy ===== *)
theory Rid_Server
  imports Rid_Client Rid_Rest Rest_Server
begin

text \<open>
  The REST handlers of remote identification: \<open>src/pkg/rid/server/v1\<close> and \<open>src/pkg/rid/server/v2\<close>. The
  handlers of the two versions take the same steps; they differ in the REST types and in the checks of
  a body. Each handler is written once, with the functions that differ as arguments, and then defined
  for both versions.

  Unlike those of strategic coordination, these handlers read through the repository that
  \<open>Store.Interact\<close> gives, and hand only the changes to \<open>Store.Transact\<close>. Both versions use the
  operations of version 2.
\<close>

section \<open>The server\<close>

text \<open>The methods of \<open>repos.Repository\<close> that the handlers call.\<close>

record 's rid_repository =
  rp_GetISA :: "ctx \<Rightarrow> ID \<Rightarrow> bool \<Rightarrow> ('s, IdentificationServiceArea option) op"
  rp_SearchISAs :: "ctx \<Rightarrow> cell_union \<Rightarrow> time option \<Rightarrow> time option \<Rightarrow> ('s, IdentificationServiceArea list) op"
  rp_GetSubscription :: "ctx \<Rightarrow> ID \<Rightarrow> ('s, rid_Subscription option) op"
  rp_SearchSubscriptionsByOwner :: "ctx \<Rightarrow> cell_union \<Rightarrow> Owner \<Rightarrow> ('s, rid_Subscription list) op"

record 's rid_server =
  rsv_Interact :: "ctx \<Rightarrow> 's rid_repository outcome"
  rsv_Transact :: "ctx \<Rightarrow> rid_request \<Rightarrow> ('s, rid_any) op"
  rsv_Locality :: string
  rsv_AllowHTTPBaseUrls :: bool

text \<open>The parameters of the requests that create and update, and those of the searches.\<close>

record ('v, 'u) rid_params =
  pa_Extents :: 'v
  pa_Url :: 'u

record rid_search =
  sq_Area :: "string option"
  sq_EarliestTime :: "string option"
  sq_LatestTime :: "string option"
  sq_Auth :: AuthorizationResult

text \<open>The bodies of the responses, over the REST types of a version, and the conversions to them.\<close>

datatype ('isa, 'sub) rid_body =
    GetISAResponse 'isa
  | PutISAResponse 'isa "rid_SubscriberToNotify list"
  | DeleteISAResponse 'isa "rid_SubscriberToNotify list"
  | SearchISAsResponse "'isa list"
  | RidGetSubscriptionResponse 'sub
  | RidPutSubscriptionResponse 'sub "'isa list"
  | RidDeleteSubscriptionResponse 'sub
  | SearchSubscriptionsResponse "'sub list"

record ('isa, 'sub) rid_version =
  rv_ToISA :: "IdentificationServiceArea \<Rightarrow> 'isa"
  rv_ToSubscription :: "rid_Subscription \<Rightarrow> 'sub"

definition rid_v1 :: "externals \<Rightarrow> (ridv1_ISA, ridv1_Subscription) rid_version" where
  "rid_v1 L = \<lparr>rv_ToISA = v1_ToIdentificationServiceArea L, rv_ToSubscription = v1_ToSubscription L\<rparr>"

definition rid_v2 :: "externals \<Rightarrow> (ridv2_ISA, ridv2_Subscription) rid_version" where
  "rid_v2 L = \<lparr>rv_ToISA = v2_ToIdentificationServiceArea L, rv_ToSubscription = v2_ToSubscription L\<rparr>"

section \<open>Steps of the handlers\<close>

definition rid_invalid_ID :: "string \<Rightarrow> dss_error \<Rightarrow> 'a ResponseSet" where
  "rid_invalid_ID errID e = bad_request errID (NewErrorWithCode BadRequest ''Invalid ID format'')"

definition server_error :: "string \<Rightarrow> dss_error \<Rightarrow> 'a ResponseSet" where
  "server_error errID e = [500 \<mapsto> internal_error errID e]"

text \<open>The type assertions of \<open>TransactWithResult\<close>.\<close>

definition isa_result :: "rid_any \<Rightarrow> (IdentificationServiceArea option \<times> rid_Subscription list) option" where
  "isa_result y = (case y of RidResponse (ISAResult isa subs) \<Rightarrow> Some (isa, subs) | _ \<Rightarrow> None)"

definition subscription_result :: "rid_any \<Rightarrow> (rid_Subscription \<times> IdentificationServiceArea list) option" where
  "subscription_result y = (case y of RidResponse (SubscriptionResult sub isas) \<Rightarrow> Some (sub, isas) | _ \<Rightarrow> None)"

definition deleted_subscription :: "rid_any \<Rightarrow> rid_Subscription option option" where
  "deleted_subscription y = (case y of RidResponse (DeletedSubscription sub) \<Rightarrow> Some sub | _ \<Rightarrow> None)"

text \<open>The response to a change of a service area; converting a nil area panics.\<close>

definition isa_changed ::
    "('isa, 'sub) rid_version \<Rightarrow> ('isa \<Rightarrow> rid_SubscriberToNotify list \<Rightarrow> ('isa, 'sub) rid_body) \<Rightarrow>
     IdentificationServiceArea option \<times> rid_Subscription list \<Rightarrow> ('isa, 'sub) rid_body ResponseSet outcome" where
  "isa_changed V mk = (\<lambda>(isa, subs).
     let apiSubscribers = MakeSubscribersToNotify subs in
     obind (deref isa) (\<lambda>i. Ok [200 \<mapsto> ResponseBody (mk (rv_ToISA V i) apiSubscribers)]))"

definition subscription_changed ::
    "('isa, 'sub) rid_version \<Rightarrow> rid_Subscription \<times> IdentificationServiceArea list \<Rightarrow> ('isa, 'sub) rid_body ResponseSet" where
  "subscription_changed V = (\<lambda>(sub, isas).
     [200 \<mapsto> ResponseBody (RidPutSubscriptionResponse (rv_ToSubscription V sub) (map (rv_ToISA V) isas))])"

text \<open>The covering of the area of a search.\<close>

definition check_covering ::
    "externals \<Rightarrow> string \<Rightarrow> string option \<Rightarrow> (cell_union \<Rightarrow> ('s, 'a ResponseSet) op) \<Rightarrow> ('s, 'a ResponseSet) op" where
  "check_covering L errID area k =
     (case area of
        None \<Rightarrow> ret (bad_request errID (NewErrorWithCode BadRequest ''Missing area''))
      | Some a \<Rightarrow>
          check (FromGeoPolygonString L a) (malformed errID) (\<lambda>p.
          check (GeoPolygon_CalculateCovering L p)
            (\<lambda>e. if errors_Is_AreaTooLarge L e then [413 \<mapsto> error_response errID e] else malformed errID e) k))"

section \<open>Service areas\<close>

definition rid_GetISA_handler ::
    "('isa, 'sub) rid_version \<Rightarrow> externals \<Rightarrow> 's rid_server \<Rightarrow> string \<Rightarrow> ctx \<Rightarrow> unit api_request \<Rightarrow>
     ('s, ('isa, 'sub) rid_body ResponseSet) op" where
  "rid_GetISA_handler V L sv errID ctx req =
     check (IDFromString L (rq_ID req)) (rid_invalid_ID errID) (\<lambda>i.
     check (rsv_Interact sv ctx) (server_error errID) (\<lambda>repo.
     respond (rp_GetISA repo ctx i False) (server_error errID) (\<lambda>isa.
       case isa of
         None \<Rightarrow> [404 \<mapsto> error_response errID (NewErrorWithCode NotFound (''ISA '' @ rq_ID req @ '' not found''))]
       | Some a \<Rightarrow> [200 \<mapsto> ResponseBody (GetISAResponse (rv_ToISA V a))])))"

definition rid_CreateISA_handler ::
    "('isa, 'sub) rid_version \<Rightarrow> ('b \<Rightarrow> (string \<times> Volume4D) outcome) \<Rightarrow> externals \<Rightarrow> 's rid_server \<Rightarrow> string \<Rightarrow> ctx \<Rightarrow>
     'b api_request \<Rightarrow> ('s, ('isa, 'sub) rid_body ResponseSet) op" where
  "rid_CreateISA_handler V params L sv errID ctx req =
     (case au_ClientID (rq_Auth req) of
        None \<Rightarrow> missing_client errID ''Missing owner''
      | Some client \<Rightarrow>
          check_body (rq_Body req) (malformed errID) (\<lambda>body.
          check (params body) (bad_request errID) (\<lambda>(url, extents).
          check (IDFromString L (rq_ID req)) (rid_invalid_ID errID) (\<lambda>i.
          check (NewInsertISAPayload L i client url (rsv_Locality sv) extents (rsv_AllowHTTPBaseUrls sv)) (bad_request errID) (\<lambda>payload.
          respondO (TransactWithResult (rsv_Transact sv) isa_result ctx payload)
            (by_code errID [(AlreadyExists, 409), (BadRequest, 400)])
            (isa_changed V PutISAResponse))))))"

definition rid_UpdateISA_handler ::
    "('isa, 'sub) rid_version \<Rightarrow> ('b \<Rightarrow> (string \<times> Volume4D) outcome) \<Rightarrow> externals \<Rightarrow> 's rid_server \<Rightarrow> string \<Rightarrow> ctx \<Rightarrow>
     'b api_request \<Rightarrow> ('s, ('isa, 'sub) rid_body ResponseSet) op" where
  "rid_UpdateISA_handler V params L sv errID ctx req =
     check (VersionFromString (rq_Version req)) (malformed errID) (\<lambda>version1.
     case au_ClientID (rq_Auth req) of
       None \<Rightarrow> missing_client errID ''Missing owner''
     | Some client \<Rightarrow>
         check_body (rq_Body req) (malformed errID) (\<lambda>body.
         check (params body) (bad_request errID) (\<lambda>(url, extents).
         check (IDFromString L (rq_ID req)) (rid_invalid_ID errID) (\<lambda>i.
         check (NewUpdateISAPayload L i client url (rsv_Locality sv) (Some version1) extents (rsv_AllowHTTPBaseUrls sv))
           (bad_request errID) (\<lambda>payload.
         respondO (TransactWithResult (rsv_Transact sv) isa_result ctx payload)
           (by_code errID [(PermissionDenied, 403), (VersionMismatch, 409), (BadRequest, 400), (NotFound, 400)])
           (isa_changed V PutISAResponse))))))"

definition rid_DeleteISA_handler ::
    "('isa, 'sub) rid_version \<Rightarrow> externals \<Rightarrow> 's rid_server \<Rightarrow> string \<Rightarrow> ctx \<Rightarrow> unit api_request \<Rightarrow>
     ('s, ('isa, 'sub) rid_body ResponseSet) op" where
  "rid_DeleteISA_handler V L sv errID ctx req =
     (case au_ClientID (rq_Auth req) of
        None \<Rightarrow> missing_client errID ''Missing owner''
      | Some client \<Rightarrow>
          check (VersionFromString (rq_Version req)) (malformed errID) (\<lambda>version1.
          check (IDFromString L (rq_ID req)) (rid_invalid_ID errID) (\<lambda>i.
          respondO (TransactWithResult (rsv_Transact sv) isa_result ctx (NewDeleteISAPayload i client (Some version1)))
            (by_code errID [(PermissionDenied, 403), (VersionMismatch, 409), (NotFound, 404)])
            (isa_changed V DeleteISAResponse))))"

definition rid_SearchISAs_handler ::
    "('isa, 'sub) rid_version \<Rightarrow> externals \<Rightarrow> 's rid_server \<Rightarrow> string \<Rightarrow> ctx \<Rightarrow> rid_search \<Rightarrow>
     ('s, ('isa, 'sub) rid_body ResponseSet) op" where
  "rid_SearchISAs_handler V L sv errID ctx req =
     check_covering L errID (sq_Area req) (\<lambda>cu.
     check (v1_parse_time L (sq_EarliestTime req)) (malformed errID) (\<lambda>earliest.
     check (v1_parse_time L (sq_LatestTime req)) (malformed errID) (\<lambda>latest.
     check (rsv_Interact sv ctx) (server_error errID) (\<lambda>repo.
     bindE (liftO (MustFromContext ctx)) (\<lambda>now.
     respond (rp_SearchISAs repo ctx cu (Some (NotBeforeNow now earliest)) latest)
       (by_code errID [(BadRequest, 400)])
       (\<lambda>isas. [200 \<mapsto> ResponseBody (SearchISAsResponse (map (rv_ToISA V) isas))]))))))"

section \<open>Subscriptions\<close>

definition rid_DeleteSubscription_handler ::
    "('isa, 'sub) rid_version \<Rightarrow> externals \<Rightarrow> 's rid_server \<Rightarrow> string \<Rightarrow> ctx \<Rightarrow> unit api_request \<Rightarrow>
     ('s, ('isa, 'sub) rid_body ResponseSet) op" where
  "rid_DeleteSubscription_handler V L sv errID ctx req =
     (case au_ClientID (rq_Auth req) of
        None \<Rightarrow> missing_client errID ''Missing owner''
      | Some client \<Rightarrow>
          check (IDFromString L (rq_ID req)) (rid_invalid_ID errID) (\<lambda>i.
          check (VersionFromString (rq_Version req)) (malformed errID) (\<lambda>version1.
          respondO (TransactWithResult (rsv_Transact sv) deleted_subscription ctx (NewDeleteSubscriptionPayload i client (Some version1)))
            (by_code errID [(PermissionDenied, 403), (VersionMismatch, 409), (NotFound, 404), (BadRequest, 400)])
            (\<lambda>sub. obind (deref sub) (\<lambda>s. Ok [200 \<mapsto> ResponseBody (RidDeleteSubscriptionResponse (rv_ToSubscription V s))])))))"

definition rid_SearchSubscriptions_handler ::
    "('isa, 'sub) rid_version \<Rightarrow> externals \<Rightarrow> 's rid_server \<Rightarrow> string \<Rightarrow> ctx \<Rightarrow> rid_search \<Rightarrow>
     ('s, ('isa, 'sub) rid_body ResponseSet) op" where
  "rid_SearchSubscriptions_handler V L sv errID ctx req =
     (case au_ClientID (sq_Auth req) of
        None \<Rightarrow> missing_client errID ''Missing owner''
      | Some client \<Rightarrow>
          check_covering L errID (sq_Area req) (\<lambda>cu.
          check (rsv_Interact sv ctx) (server_error errID) (\<lambda>repo.
          respond (rp_SearchSubscriptionsByOwner repo ctx cu client)
            (by_code errID [(BadRequest, 400)])
            (\<lambda>subs. [200 \<mapsto> ResponseBody (SearchSubscriptionsResponse (map (rv_ToSubscription V) subs))]))))"

definition rid_GetSubscription_handler ::
    "('isa, 'sub) rid_version \<Rightarrow> externals \<Rightarrow> 's rid_server \<Rightarrow> string \<Rightarrow> ctx \<Rightarrow> unit api_request \<Rightarrow>
     ('s, ('isa, 'sub) rid_body ResponseSet) op" where
  "rid_GetSubscription_handler V L sv errID ctx req =
     check (IDFromString L (rq_ID req)) (rid_invalid_ID errID) (\<lambda>i.
     check (rsv_Interact sv ctx) (server_error errID) (\<lambda>repo.
     respond (rp_GetSubscription repo ctx i) (server_error errID) (\<lambda>sub.
       case sub of
         None \<Rightarrow> [404 \<mapsto> error_response errID (NewErrorWithCode NotFound (''Subscription '' @ rq_ID req @ '' not found''))]
       | Some s \<Rightarrow> [200 \<mapsto> ResponseBody (RidGetSubscriptionResponse (rv_ToSubscription V s))])))"

definition rid_CreateSubscription_handler ::
    "('isa, 'sub) rid_version \<Rightarrow> ('b \<Rightarrow> (string \<times> cells_volume_4d) outcome) \<Rightarrow> externals \<Rightarrow> 's rid_server \<Rightarrow> string \<Rightarrow> ctx \<Rightarrow>
     'b api_request \<Rightarrow> ('s, ('isa, 'sub) rid_body ResponseSet) op" where
  "rid_CreateSubscription_handler V params L sv errID ctx req =
     (case au_ClientID (rq_Auth req) of
        None \<Rightarrow> missing_client errID ''Missing owner''
      | Some client \<Rightarrow>
          check_body (rq_Body req) (malformed errID) (\<lambda>body.
          check (params body) (bad_request errID) (\<lambda>(url, extents).
          check (IDFromString L (rq_ID req)) (rid_invalid_ID errID) (\<lambda>i.
          check (NewInsertSubscriptionPayload L i client url (rsv_Locality sv) extents (rsv_AllowHTTPBaseUrls sv)) (bad_request errID) (\<lambda>payload.
          respond (TransactWithResult (rsv_Transact sv) subscription_result ctx payload)
            (by_code errID [(AlreadyExists, 409), (BadRequest, 400), (Exhausted, 429)])
            (subscription_changed V))))))"

definition rid_UpdateSubscription_handler ::
    "('isa, 'sub) rid_version \<Rightarrow> ('b \<Rightarrow> (string \<times> cells_volume_4d) outcome) \<Rightarrow> externals \<Rightarrow> 's rid_server \<Rightarrow> string \<Rightarrow> ctx \<Rightarrow>
     'b api_request \<Rightarrow> ('s, ('isa, 'sub) rid_body ResponseSet) op" where
  "rid_UpdateSubscription_handler V params L sv errID ctx req =
     check (VersionFromString (rq_Version req)) (malformed errID) (\<lambda>version1.
     check (IDFromString L (rq_ID req)) (rid_invalid_ID errID) (\<lambda>i.
     case au_ClientID (rq_Auth req) of
       None \<Rightarrow> missing_client errID ''Missing owner''
     | Some client \<Rightarrow>
         check_body (rq_Body req) (malformed errID) (\<lambda>body.
         check (params body) (bad_request errID) (\<lambda>(url, extents).
         check (rid_NewUpdateSubscriptionPayload L i client url (rsv_Locality sv) (Some version1) extents (rsv_AllowHTTPBaseUrls sv))
           (bad_request errID) (\<lambda>payload.
         respond (TransactWithResult (rsv_Transact sv) subscription_result ctx payload)
           (by_code errID [(PermissionDenied, 403), (VersionMismatch, 409), (BadRequest, 400), (NotFound, 400), (Exhausted, 429)])
           (subscription_changed V))))))"

section \<open>The bodies of version 1\<close>

text \<open>The error shown for a volume that cannot be converted.\<close>

definition volume_error :: "dss_error \<Rightarrow> dss_error" where
  "volume_error e = NewErrorWithCode BadRequest (''Error parsing Volume4D: '' @ RootCause e)"

definition v1_isa_params :: "externals \<Rightarrow> string \<Rightarrow> (ridv1_Volume4D, string) rid_params \<Rightarrow> (string \<times> Volume4D) outcome" where
  "v1_isa_params L noExtents body =
     (if pa_Url body = '''' then Err (NewErrorWithCode BadRequest ''Missing required flightsURL'')
      else if v1_Footprint (v1_SpatialVolume (pa_Extents body)) = [] then Err (NewErrorWithCode BadRequest noExtents)
      else obind (omap_err volume_error (v1_FromVolume4D L (pa_Extents body))) (\<lambda>extents. Ok (pa_Url body, extents)))"

definition v1_subscription_params ::
    "externals \<Rightarrow> (ridv1_Volume4D, string option) rid_params \<Rightarrow> (string \<times> cells_volume_4d) outcome" where
  "v1_subscription_params L body =
     (case pa_Url body of
        None \<Rightarrow> Err (NewErrorWithCode BadRequest ''Missing required callbacks'')
      | Some url \<Rightarrow>
          if v1_Footprint (v1_SpatialVolume (pa_Extents body)) = []
          then Err (NewErrorWithCode BadRequest ''Missing required extents'')
          else obind (omap_err volume_error (v1_CellsVolume4DFromRest L (pa_Extents body))) (\<lambda>extents. Ok (url, extents)))"

section \<open>The bodies of version 2\<close>

definition v2_isa_params :: "externals \<Rightarrow> (ridv2_Volume4D, string) rid_params \<Rightarrow> (string \<times> Volume4D) outcome" where
  "v2_isa_params L body =
     (if pa_Url body = '''' then Err (NewErrorWithCode BadRequest ''Missing required USS base URL'')
      else obind (omap_err volume_error (v2_FromVolume4D L (pa_Extents body))) (\<lambda>extents. Ok (pa_Url body, extents)))"

definition v2_subscription_params ::
    "externals \<Rightarrow> (ridv2_Volume4D, string) rid_params \<Rightarrow> (string \<times> cells_volume_4d) outcome" where
  "v2_subscription_params L body =
     (if pa_Url body = '''' then Err (NewErrorWithCode BadRequest ''Missing required USS base URL'')
      else obind (omap_err volume_error (v2_CellsVolume4DFromRest L (pa_Extents body))) (\<lambda>extents. Ok (pa_Url body, extents)))"

section \<open>The handlers of the two versions\<close>

definition v1_GetIdentificationServiceArea where
  "v1_GetIdentificationServiceArea L = rid_GetISA_handler (rid_v1 L) L"

definition v1_CreateIdentificationServiceArea where
  "v1_CreateIdentificationServiceArea L =
     rid_CreateISA_handler (rid_v1 L) (v1_isa_params L ''Missing or malformed required extents'') L"

definition v1_UpdateIdentificationServiceArea where
  "v1_UpdateIdentificationServiceArea L = rid_UpdateISA_handler (rid_v1 L) (v1_isa_params L ''Missing required extents'') L"

definition v1_DeleteIdentificationServiceArea where
  "v1_DeleteIdentificationServiceArea L = rid_DeleteISA_handler (rid_v1 L) L"

definition v1_SearchIdentificationServiceAreas where
  "v1_SearchIdentificationServiceAreas L = rid_SearchISAs_handler (rid_v1 L) L"

definition v1_DeleteSubscription where
  "v1_DeleteSubscription L = rid_DeleteSubscription_handler (rid_v1 L) L"

definition v1_SearchSubscriptions where
  "v1_SearchSubscriptions L = rid_SearchSubscriptions_handler (rid_v1 L) L"

definition v1_GetSubscription where
  "v1_GetSubscription L = rid_GetSubscription_handler (rid_v1 L) L"

definition v1_CreateSubscription where
  "v1_CreateSubscription L = rid_CreateSubscription_handler (rid_v1 L) (v1_subscription_params L) L"

definition v1_UpdateSubscription where
  "v1_UpdateSubscription L = rid_UpdateSubscription_handler (rid_v1 L) (v1_subscription_params L) L"

definition v2_GetIdentificationServiceArea where
  "v2_GetIdentificationServiceArea L = rid_GetISA_handler (rid_v2 L) L"

definition v2_CreateIdentificationServiceArea where
  "v2_CreateIdentificationServiceArea L = rid_CreateISA_handler (rid_v2 L) (v2_isa_params L) L"

definition v2_UpdateIdentificationServiceArea where
  "v2_UpdateIdentificationServiceArea L = rid_UpdateISA_handler (rid_v2 L) (v2_isa_params L) L"

definition v2_DeleteIdentificationServiceArea where
  "v2_DeleteIdentificationServiceArea L = rid_DeleteISA_handler (rid_v2 L) L"

definition v2_SearchIdentificationServiceAreas where
  "v2_SearchIdentificationServiceAreas L = rid_SearchISAs_handler (rid_v2 L) L"

definition v2_DeleteSubscription where
  "v2_DeleteSubscription L = rid_DeleteSubscription_handler (rid_v2 L) L"

definition v2_SearchSubscriptions where
  "v2_SearchSubscriptions L = rid_SearchSubscriptions_handler (rid_v2 L) L"

definition v2_GetSubscription where
  "v2_GetSubscription L = rid_GetSubscription_handler (rid_v2 L) L"

definition v2_CreateSubscription where
  "v2_CreateSubscription L = rid_CreateSubscription_handler (rid_v2 L) (v2_subscription_params L) L"

definition v2_UpdateSubscription where
  "v2_UpdateSubscription L = rid_UpdateSubscription_handler (rid_v2 L) (v2_subscription_params L) L"

lemmas rid_handlers_v1 = v1_GetIdentificationServiceArea_def v1_CreateIdentificationServiceArea_def
  v1_UpdateIdentificationServiceArea_def v1_DeleteIdentificationServiceArea_def v1_SearchIdentificationServiceAreas_def
  v1_DeleteSubscription_def v1_SearchSubscriptions_def v1_GetSubscription_def v1_CreateSubscription_def v1_UpdateSubscription_def

lemmas rid_handlers_v2 = v2_GetIdentificationServiceArea_def v2_CreateIdentificationServiceArea_def
  v2_UpdateIdentificationServiceArea_def v2_DeleteIdentificationServiceArea_def v2_SearchIdentificationServiceAreas_def
  v2_DeleteSubscription_def v2_SearchSubscriptions_def v2_GetSubscription_def v2_CreateSubscription_def v2_UpdateSubscription_def

section \<open>A handler changes the store only by executing its operation for its client\<close>

text \<open>The client a request is made for: the owner of the entity, in the request.\<close>

fun rid_client_of :: "rid_request \<Rightarrow> Owner" where
  "rid_client_of (deleteISAPayload _ owner _) = owner"
| "rid_client_of (insertISAPayload isa) = isa_Owner isa"
| "rid_client_of (updateISAPayload isa) = isa_Owner isa"
| "rid_client_of (insertSubscriptionPayload sub) = rs_Owner sub"
| "rid_client_of (updateSubscriptionPayload sub) = rs_Owner sub"
| "rid_client_of (deleteSubscriptionPayload _ owner _) = owner"

definition rid_legit ::
    "(ctx \<Rightarrow> rid_request \<Rightarrow> (rid_state, rid_response) op) \<Rightarrow> string \<Rightarrow> AuthorizationResult \<Rightarrow> ctx \<Rightarrow>
     rid_state \<Rightarrow> rid_state \<Rightarrow> nat \<Rightarrow> bool" where
  "rid_legit execute opid auth ctx s t n \<longleftrightarrow>
     (\<exists>q resp. rid_OperationID q = ''ridv2.'' @ opid \<and> au_ClientID auth = Some (rid_client_of q) \<and>
        execute ctx q s = (Ok resp, t) \<and> n \<in> {200, 500})"

lemma rid_payload_client:
  "NewInsertISAPayload L i client url loc extents allow = Ok q \<Longrightarrow>
     rid_OperationID q = ''ridv2.CreateIdentificationServiceArea'' \<and> rid_client_of q = client"
  "NewUpdateISAPayload L i client url loc ver extents allow = Ok q \<Longrightarrow>
     rid_OperationID q = ''ridv2.UpdateIdentificationServiceArea'' \<and> rid_client_of q = client"
  "NewInsertSubscriptionPayload L i client url loc cells allow = Ok q \<Longrightarrow>
     rid_OperationID q = ''ridv2.CreateSubscription'' \<and> rid_client_of q = client"
  "rid_NewUpdateSubscriptionPayload L i client url loc ver cells allow = Ok q \<Longrightarrow>
     rid_OperationID q = ''ridv2.UpdateSubscription'' \<and> rid_client_of q = client"
  by (auto simp: NewInsertISAPayload_def NewUpdateISAPayload_def newISA_def NewInsertSubscriptionPayload_def
      rid_NewUpdateSubscriptionPayload_def rid_newSubscription_def monad_simps)

lemma accounts_check_covering:
  "(\<And>cu. accounts legit cur (k cu)) \<Longrightarrow> accounts legit cur (check_covering L errID area k)"
  unfolding check_covering_def by (intro accounts_intros)

lemma isa_changed_Ok: "isa_changed V mk x = Ok R \<Longrightarrow> \<exists>b. R = [200 \<mapsto> b]"
  by (auto simp: isa_changed_def Let_def monad_simps split: prod.splits)

text \<open>A server on a transactional store whose repository reads without changing anything.\<close>

locale rid_service = rest_store transact current execute RidResponse proper
  for transact :: "ctx \<Rightarrow> rid_request \<Rightarrow> ('r, rid_any) op" and current :: "'r \<Rightarrow> rid_state"
    and execute :: "ctx \<Rightarrow> rid_request \<Rightarrow> (rid_state, rid_response) op" and proper :: "rid_request \<Rightarrow> bool" +
  fixes sv :: "'r rid_server" and L :: externals
  assumes rsv_Transact: "rsv_Transact sv = transact"
    and reads: "rsv_Interact sv ctx = Ok repo \<Longrightarrow>
      rp_GetISA repo ctx i b r = (x1, r') \<and> x1 \<noteq> Panic \<or> rp_SearchISAs repo ctx cu t1 t2 r = (x2, r') \<and> x2 \<noteq> Panic \<or>
      rp_GetSubscription repo ctx i r = (x3, r') \<and> x3 \<noteq> Panic \<or> rp_SearchSubscriptionsByOwner repo ctx cu own r = (x4, r') \<and> x4 \<noteq> Panic \<Longrightarrow>
      current r' = current r"
begin

lemma accounts_reads:
  assumes "rsv_Interact sv ctx = Ok repo"
  shows "accounts legit current (respond (rp_GetISA repo ctx i b) f1 g1)"
    and "accounts legit current (respond (rp_SearchISAs repo ctx cu t1 t2) f2 g2)"
    and "accounts legit current (respond (rp_GetSubscription repo ctx i) f3 g3)"
    and "accounts legit current (respond (rp_SearchSubscriptionsByOwner repo ctx cu own) f4 g4)"
  unfolding respond_respondO using reads [OF assms] by (intro accounts_unchanged; blast)+

lemma accounts_change:
  assumes "\<forall>q. proper q" "rid_OperationID q = ''ridv2.'' @ opid" "au_ClientID auth = Some (rid_client_of q)"
    and "\<And>x R. onOk x = Ok R \<Longrightarrow> \<exists>b. R = [200 \<mapsto> b]"
  shows "accounts (rid_legit execute opid auth ctx) current
    (respondO (TransactWithResult (rsv_Transact sv) assert ctx q) (by_code errID t) onOk)"
  unfolding rsv_Transact
proof (rule accounts_respondO)
  show "proper q" using assms(1) by blast
next
  fix resp x s t' R
  assume "execute ctx q s = (Ok resp, t')" "onOk x = Ok R"
  with assms(2-4) show "\<exists>n b. R = [n \<mapsto> b] \<and> rid_legit execute opid auth ctx s t' n"
    unfolding rid_legit_def by blast
next
  fix e resp s t'
  assume "GetCode e = None" "execute ctx q s = (Ok resp, t')"
  with assms(2,3) show "\<exists>n b. by_code errID t e = [n \<mapsto> b] \<and> rid_legit execute opid auth ctx s t' n"
    unfolding rid_legit_def by (auto simp: by_code_None)
qed

lemma isa_handlers_account:
  assumes "\<forall>q. proper q"
  shows "accounts (rid_legit execute ''GetIdentificationServiceArea'' (rq_Auth ureq) ctx) current (rid_GetISA_handler V L sv errID ctx ureq)"
    and "accounts (rid_legit execute ''CreateIdentificationServiceArea'' (rq_Auth req) ctx) current
      (rid_CreateISA_handler V params L sv errID ctx req)"
    and "accounts (rid_legit execute ''UpdateIdentificationServiceArea'' (rq_Auth req) ctx) current
      (rid_UpdateISA_handler V params L sv errID ctx req)"
    and "accounts (rid_legit execute ''DeleteIdentificationServiceArea'' (rq_Auth ureq) ctx) current
      (rid_DeleteISA_handler V L sv errID ctx ureq)"
    and "accounts (rid_legit execute ''SearchIdentificationServiceAreas'' (sq_Auth qreq) ctx) current
      (rid_SearchISAs_handler V L sv errID ctx qreq)"
  unfolding rid_GetISA_handler_def rid_CreateISA_handler_def rid_UpdateISA_handler_def rid_DeleteISA_handler_def
    rid_SearchISAs_handler_def split_def NewDeleteISAPayload_def
  using assms by - (intro accounts_check_covering accounts_intros accounts_reads accounts_change;
      auto dest: rid_payload_client isa_changed_Ok)+

lemma subscription_handlers_account:
  assumes "\<forall>q. proper q"
  shows "accounts (rid_legit execute ''GetSubscription'' (rq_Auth ureq) ctx) current (rid_GetSubscription_handler V L sv errID ctx ureq)"
    and "accounts (rid_legit execute ''CreateSubscription'' (rq_Auth req) ctx) current
      (rid_CreateSubscription_handler V sparams L sv errID ctx req)"
    and "accounts (rid_legit execute ''UpdateSubscription'' (rq_Auth req) ctx) current
      (rid_UpdateSubscription_handler V sparams L sv errID ctx req)"
    and "accounts (rid_legit execute ''DeleteSubscription'' (rq_Auth ureq) ctx) current
      (rid_DeleteSubscription_handler V L sv errID ctx ureq)"
    and "accounts (rid_legit execute ''SearchSubscriptions'' (sq_Auth qreq) ctx) current
      (rid_SearchSubscriptions_handler V L sv errID ctx qreq)"
  unfolding rid_GetSubscription_handler_def rid_CreateSubscription_handler_def rid_UpdateSubscription_handler_def
    rid_DeleteSubscription_handler_def rid_SearchSubscriptions_handler_def split_def NewDeleteSubscriptionPayload_def
    respond_respondO [of "TransactWithResult (rsv_Transact sv) subscription_result ctx _"]
  using assms by - (intro accounts_check_covering accounts_intros accounts_reads accounts_change;
      auto simp: subscription_changed_def split_def monad_simps dest: rid_payload_client)+

lemmas all_account = isa_handlers_account subscription_handlers_account

end

section \<open>The server on the replicated store\<close>

text \<open>The repository that \<open>Interact\<close> gives, and the server.\<close>

definition raft_repository ::
    "externals \<Rightarrow> rid_codec \<Rightarrow> rid_marshal \<Rightarrow> consensus_call \<Rightarrow> rid_repo rid_repository" where
  "raft_repository L J K c = \<lparr>rp_GetISA = raft_GetISA L J K c, rp_SearchISAs = raft_SearchISAs L J K c,
     rp_GetSubscription = raft_GetSubscription L J K c, rp_SearchSubscriptionsByOwner = raft_SearchSubscriptionsByOwner L J K c\<rparr>"

definition rid_raft_server ::
    "externals \<Rightarrow> rid_codec \<Rightarrow> rid_marshal \<Rightarrow> consensus_call \<Rightarrow> string \<Rightarrow> bool \<Rightarrow> rid_repo rid_server" where
  "rid_raft_server L J K c locality allowHTTP = \<lparr>rsv_Interact = (\<lambda>_. Ok (raft_repository L J K c)),
     rsv_Transact = rid_Store_Transact L J (cc_delivery c) (cc_newID c) (cc_nodeID c),
     rsv_Locality = locality, rsv_AllowHTTPBaseUrls = allowHTTP\<rparr>"

interpretation rid_srv: rid_service "rid_Store_Transact L J (cc_delivery c) (cc_newID c) (cc_nodeID c)" mr_state
  "\<lambda>ctx req. oh_Execute (rid_handler_of L req) ctx req" "rid_proper J" "rid_raft_server L J K c locality allowHTTP" L'
  for L J K c locality allowHTTP L'
proof (unfold_locales, goal_cases)
  case (2 ctx repo i b r x1 r' cu t1 t2 x2 x3 own x4)
  then have "repo = raft_repository L J K c" by (simp add: rid_raft_server_def)
  with 2(2) show ?case
    by (auto simp: raft_repository_def raft_reads rid_direct_reads_def dest!: rid_direct.direct_read_unchanged [rotated])
qed (simp add: rid_raft_server_def)

end
