(* ===== verification/Rid_Api.thy ===== *)
theory Rid_Api
  imports Rid_Server
begin

text \<open>
  The generated API servers of remote identification, \<open>src/pkg/api/ridv1/server.gen.go\<close> and
  \<open>src/pkg/api/ridv2/server.gen.go\<close>, with the authorization options of the \<open>interface.gen.go\<close> beside
  them: the routes of both versions and the methods that serve them. The theorems here follow a request
  from its path to the replicated store and back.
\<close>

section \<open>Scopes and authorization options\<close>

abbreviation DssReadIdentificationServiceAreasScope :: string where
  "DssReadIdentificationServiceAreasScope \<equiv> ''dss.read.identification_service_areas''"

abbreviation DssWriteIdentificationServiceAreasScope :: string where
  "DssWriteIdentificationServiceAreasScope \<equiv> ''dss.write.identification_service_areas''"

abbreviation RidDisplayProviderScope :: string where "RidDisplayProviderScope \<equiv> ''rid.display_provider''"
abbreviation RidServiceProviderScope :: string where "RidServiceProviderScope \<equiv> ''rid.service_provider''"

definition ridv1_SearchIdentificationServiceAreasSecurity :: "AuthorizationOption list" where
  "ridv1_SearchIdentificationServiceAreasSecurity = [[(''AuthFromAuthorizationAuthority'', [DssReadIdentificationServiceAreasScope])]]"

definition ridv1_GetIdentificationServiceAreaSecurity :: "AuthorizationOption list" where
  "ridv1_GetIdentificationServiceAreaSecurity = [[(''AuthFromAuthorizationAuthority'', [DssReadIdentificationServiceAreasScope])]]"

definition ridv1_CreateIdentificationServiceAreaSecurity :: "AuthorizationOption list" where
  "ridv1_CreateIdentificationServiceAreaSecurity = [[(''AuthFromAuthorizationAuthority'', [DssWriteIdentificationServiceAreasScope])]]"

definition ridv1_UpdateIdentificationServiceAreaSecurity :: "AuthorizationOption list" where
  "ridv1_UpdateIdentificationServiceAreaSecurity = [[(''AuthFromAuthorizationAuthority'', [DssWriteIdentificationServiceAreasScope])]]"

definition ridv1_DeleteIdentificationServiceAreaSecurity :: "AuthorizationOption list" where
  "ridv1_DeleteIdentificationServiceAreaSecurity = [[(''AuthFromAuthorizationAuthority'', [DssWriteIdentificationServiceAreasScope])]]"

definition ridv1_SearchSubscriptionsSecurity :: "AuthorizationOption list" where
  "ridv1_SearchSubscriptionsSecurity = [[(''AuthFromAuthorizationAuthority'', [DssReadIdentificationServiceAreasScope])]]"

definition ridv1_GetSubscriptionSecurity :: "AuthorizationOption list" where
  "ridv1_GetSubscriptionSecurity = [[(''AuthFromAuthorizationAuthority'', [DssReadIdentificationServiceAreasScope])], [(''AuthFromAuthorizationAuthority'', [DssWriteIdentificationServiceAreasScope])]]"

definition ridv1_CreateSubscriptionSecurity :: "AuthorizationOption list" where
  "ridv1_CreateSubscriptionSecurity = [[(''AuthFromAuthorizationAuthority'', [DssReadIdentificationServiceAreasScope])]]"

definition ridv1_UpdateSubscriptionSecurity :: "AuthorizationOption list" where
  "ridv1_UpdateSubscriptionSecurity = [[(''AuthFromAuthorizationAuthority'', [DssReadIdentificationServiceAreasScope])]]"

definition ridv1_DeleteSubscriptionSecurity :: "AuthorizationOption list" where
  "ridv1_DeleteSubscriptionSecurity = [[(''AuthFromAuthorizationAuthority'', [DssReadIdentificationServiceAreasScope])]]"

definition ridv2_SearchIdentificationServiceAreasSecurity :: "AuthorizationOption list" where
  "ridv2_SearchIdentificationServiceAreasSecurity = [[(''Authority'', [RidDisplayProviderScope])]]"

definition ridv2_GetIdentificationServiceAreaSecurity :: "AuthorizationOption list" where
  "ridv2_GetIdentificationServiceAreaSecurity = [[(''Authority'', [RidDisplayProviderScope])], [(''Authority'', [RidServiceProviderScope])]]"

definition ridv2_CreateIdentificationServiceAreaSecurity :: "AuthorizationOption list" where
  "ridv2_CreateIdentificationServiceAreaSecurity = [[(''Authority'', [RidServiceProviderScope])]]"

definition ridv2_UpdateIdentificationServiceAreaSecurity :: "AuthorizationOption list" where
  "ridv2_UpdateIdentificationServiceAreaSecurity = [[(''Authority'', [RidServiceProviderScope])]]"

definition ridv2_DeleteIdentificationServiceAreaSecurity :: "AuthorizationOption list" where
  "ridv2_DeleteIdentificationServiceAreaSecurity = [[(''Authority'', [RidServiceProviderScope])]]"

definition ridv2_SearchSubscriptionsSecurity :: "AuthorizationOption list" where
  "ridv2_SearchSubscriptionsSecurity = [[(''Authority'', [RidDisplayProviderScope])]]"

definition ridv2_GetSubscriptionSecurity :: "AuthorizationOption list" where
  "ridv2_GetSubscriptionSecurity = [[(''Authority'', [RidDisplayProviderScope])], [(''Authority'', [RidServiceProviderScope])]]"

definition ridv2_CreateSubscriptionSecurity :: "AuthorizationOption list" where
  "ridv2_CreateSubscriptionSecurity = [[(''Authority'', [RidDisplayProviderScope])]]"

definition ridv2_UpdateSubscriptionSecurity :: "AuthorizationOption list" where
  "ridv2_UpdateSubscriptionSecurity = [[(''Authority'', [RidDisplayProviderScope])]]"

definition ridv2_DeleteSubscriptionSecurity :: "AuthorizationOption list" where
  "ridv2_DeleteSubscriptionSecurity = [[(''Authority'', [RidDisplayProviderScope])]]"

text \<open>The authorization options by the name of the route.\<close>

definition ridv1_security :: "(string, AuthorizationOption list) gomap" where
  "ridv1_security = [
     (''ridv1.SearchIdentificationServiceAreas'', ridv1_SearchIdentificationServiceAreasSecurity),
     (''ridv1.GetIdentificationServiceArea'', ridv1_GetIdentificationServiceAreaSecurity),
     (''ridv1.CreateIdentificationServiceArea'', ridv1_CreateIdentificationServiceAreaSecurity),
     (''ridv1.UpdateIdentificationServiceArea'', ridv1_UpdateIdentificationServiceAreaSecurity),
     (''ridv1.DeleteIdentificationServiceArea'', ridv1_DeleteIdentificationServiceAreaSecurity),
     (''ridv1.SearchSubscriptions'', ridv1_SearchSubscriptionsSecurity),
     (''ridv1.GetSubscription'', ridv1_GetSubscriptionSecurity),
     (''ridv1.CreateSubscription'', ridv1_CreateSubscriptionSecurity),
     (''ridv1.UpdateSubscription'', ridv1_UpdateSubscriptionSecurity),
     (''ridv1.DeleteSubscription'', ridv1_DeleteSubscriptionSecurity)]"

definition ridv2_security :: "(string, AuthorizationOption list) gomap" where
  "ridv2_security = [
     (''ridv2.SearchIdentificationServiceAreas'', ridv2_SearchIdentificationServiceAreasSecurity),
     (''ridv2.GetIdentificationServiceArea'', ridv2_GetIdentificationServiceAreaSecurity),
     (''ridv2.CreateIdentificationServiceArea'', ridv2_CreateIdentificationServiceAreaSecurity),
     (''ridv2.UpdateIdentificationServiceArea'', ridv2_UpdateIdentificationServiceAreaSecurity),
     (''ridv2.DeleteIdentificationServiceArea'', ridv2_DeleteIdentificationServiceAreaSecurity),
     (''ridv2.SearchSubscriptions'', ridv2_SearchSubscriptionsSecurity),
     (''ridv2.GetSubscription'', ridv2_GetSubscriptionSecurity),
     (''ridv2.CreateSubscription'', ridv2_CreateSubscriptionSecurity),
     (''ridv2.UpdateSubscription'', ridv2_UpdateSubscriptionSecurity),
     (''ridv2.DeleteSubscription'', ridv2_DeleteSubscriptionSecurity)]"

section \<open>The environment of a request\<close>

text \<open>What a request is served with: the keys, the time and the audiences of the authorizer, the decoders
  of \<open>encoding/json\<close> for the two kinds of bodies, the server, the ID drawn for an error and the
  context.\<close>

record ('key, 's, 'i, 'u) rid_api =
  ra_jwt :: "'key jwt_lib"
  ra_now :: time
  ra_keys :: "'key list"
  ra_audiences :: "string list"
  ra_isa_body :: "string \<Rightarrow> dss_error + 'i"
  ra_subscription_body :: "string \<Rightarrow> dss_error + 'u"
  ra_server :: "'s rid_server"
  ra_errID :: string
  ra_ctx :: ctx

definition rid_Authorize :: "('key, 's, 'i, 'u) rid_api \<Rightarrow> http_request \<Rightarrow> AuthorizationOption list \<Rightarrow> AuthorizationResult outcome" where
  "rid_Authorize A r authOptions =
     TokenMiddleware_Authorize (ra_jwt A) (ra_now A) (ra_keys A) (ra_audiences A) (hr_Authorization r) authOptions"

section \<open>The methods of the router of version 1\<close>

definition ridv1_SearchIdentificationServiceAreas :: "externals \<Rightarrow> ('key, 's, (ridv1_Volume4D, string) rid_params, (ridv1_Volume4D, string option) rid_params) rid_api \<Rightarrow> ('s, (ridv1_ISA, ridv1_Subscription) rid_body body) Handler" where
  "ridv1_SearchIdentificationServiceAreas L A pat r =
     serve_operation (ra_errID A) (rid_Authorize A r ridv1_SearchIdentificationServiceAreasSecurity) [200, 400, 401, 403, 413, 500] (\<lambda>auth.
       v1_SearchIdentificationServiceAreas L (ra_server A) (ra_errID A) (ra_ctx A)
         \<lparr>sq_Area = map_of (hr_Query r) ''area'', sq_EarliestTime = map_of (hr_Query r) ''earliest_time'',
          sq_LatestTime = map_of (hr_Query r) ''latest_time'', sq_Auth = auth\<rparr>)"

definition ridv1_GetIdentificationServiceArea :: "externals \<Rightarrow> ('key, 's, (ridv1_Volume4D, string) rid_params, (ridv1_Volume4D, string option) rid_params) rid_api \<Rightarrow> ('s, (ridv1_ISA, ridv1_Subscription) rid_body body) Handler" where
  "ridv1_GetIdentificationServiceArea L A pat r =
     bindE (liftO (path_param pat r 0)) (\<lambda>i.
     serve_operation (ra_errID A) (rid_Authorize A r ridv1_GetIdentificationServiceAreaSecurity) [200, 400, 401, 403, 404, 500] (\<lambda>auth.
       v1_GetIdentificationServiceArea L (ra_server A) (ra_errID A) (ra_ctx A)
         \<lparr>rq_ID = i, rq_Version = '''', rq_Body = Inr (), rq_Auth = auth\<rparr>))"

definition ridv1_CreateIdentificationServiceArea :: "externals \<Rightarrow> ('key, 's, (ridv1_Volume4D, string) rid_params, (ridv1_Volume4D, string option) rid_params) rid_api \<Rightarrow> ('s, (ridv1_ISA, ridv1_Subscription) rid_body body) Handler" where
  "ridv1_CreateIdentificationServiceArea L A pat r =
     bindE (liftO (path_param pat r 0)) (\<lambda>i.
     serve_operation (ra_errID A) (rid_Authorize A r ridv1_CreateIdentificationServiceAreaSecurity) [200, 400, 401, 403, 409, 413, 500] (\<lambda>auth.
       v1_CreateIdentificationServiceArea L (ra_server A) (ra_errID A) (ra_ctx A)
         \<lparr>rq_ID = i, rq_Version = '''', rq_Body = ra_isa_body A (hr_Body r), rq_Auth = auth\<rparr>))"

definition ridv1_UpdateIdentificationServiceArea :: "externals \<Rightarrow> ('key, 's, (ridv1_Volume4D, string) rid_params, (ridv1_Volume4D, string option) rid_params) rid_api \<Rightarrow> ('s, (ridv1_ISA, ridv1_Subscription) rid_body body) Handler" where
  "ridv1_UpdateIdentificationServiceArea L A pat r =
     bindE (liftO (path_param pat r 0)) (\<lambda>i.
     bindE (liftO (path_param pat r 1)) (\<lambda>version1.
     serve_operation (ra_errID A) (rid_Authorize A r ridv1_UpdateIdentificationServiceAreaSecurity) [200, 400, 401, 403, 409, 413, 500] (\<lambda>auth.
       v1_UpdateIdentificationServiceArea L (ra_server A) (ra_errID A) (ra_ctx A)
         \<lparr>rq_ID = i, rq_Version = version1, rq_Body = ra_isa_body A (hr_Body r), rq_Auth = auth\<rparr>)))"

definition ridv1_DeleteIdentificationServiceArea :: "externals \<Rightarrow> ('key, 's, (ridv1_Volume4D, string) rid_params, (ridv1_Volume4D, string option) rid_params) rid_api \<Rightarrow> ('s, (ridv1_ISA, ridv1_Subscription) rid_body body) Handler" where
  "ridv1_DeleteIdentificationServiceArea L A pat r =
     bindE (liftO (path_param pat r 0)) (\<lambda>i.
     bindE (liftO (path_param pat r 1)) (\<lambda>version1.
     serve_operation (ra_errID A) (rid_Authorize A r ridv1_DeleteIdentificationServiceAreaSecurity) [200, 400, 401, 403, 404, 409, 500] (\<lambda>auth.
       v1_DeleteIdentificationServiceArea L (ra_server A) (ra_errID A) (ra_ctx A)
         \<lparr>rq_ID = i, rq_Version = version1, rq_Body = Inr (), rq_Auth = auth\<rparr>)))"

definition ridv1_SearchSubscriptions :: "externals \<Rightarrow> ('key, 's, (ridv1_Volume4D, string) rid_params, (ridv1_Volume4D, string option) rid_params) rid_api \<Rightarrow> ('s, (ridv1_ISA, ridv1_Subscription) rid_body body) Handler" where
  "ridv1_SearchSubscriptions L A pat r =
     serve_operation (ra_errID A) (rid_Authorize A r ridv1_SearchSubscriptionsSecurity) [200, 400, 401, 403, 413, 500] (\<lambda>auth.
       v1_SearchSubscriptions L (ra_server A) (ra_errID A) (ra_ctx A)
         \<lparr>sq_Area = map_of (hr_Query r) ''area'', sq_EarliestTime = None, sq_LatestTime = None, sq_Auth = auth\<rparr>)"

definition ridv1_GetSubscription :: "externals \<Rightarrow> ('key, 's, (ridv1_Volume4D, string) rid_params, (ridv1_Volume4D, string option) rid_params) rid_api \<Rightarrow> ('s, (ridv1_ISA, ridv1_Subscription) rid_body body) Handler" where
  "ridv1_GetSubscription L A pat r =
     bindE (liftO (path_param pat r 0)) (\<lambda>i.
     serve_operation (ra_errID A) (rid_Authorize A r ridv1_GetSubscriptionSecurity) [200, 400, 401, 403, 404, 500] (\<lambda>auth.
       v1_GetSubscription L (ra_server A) (ra_errID A) (ra_ctx A)
         \<lparr>rq_ID = i, rq_Version = '''', rq_Body = Inr (), rq_Auth = auth\<rparr>))"

definition ridv1_CreateSubscription :: "externals \<Rightarrow> ('key, 's, (ridv1_Volume4D, string) rid_params, (ridv1_Volume4D, string option) rid_params) rid_api \<Rightarrow> ('s, (ridv1_ISA, ridv1_Subscription) rid_body body) Handler" where
  "ridv1_CreateSubscription L A pat r =
     bindE (liftO (path_param pat r 0)) (\<lambda>i.
     serve_operation (ra_errID A) (rid_Authorize A r ridv1_CreateSubscriptionSecurity) [200, 400, 401, 403, 409, 429, 500] (\<lambda>auth.
       v1_CreateSubscription L (ra_server A) (ra_errID A) (ra_ctx A)
         \<lparr>rq_ID = i, rq_Version = '''', rq_Body = ra_subscription_body A (hr_Body r), rq_Auth = auth\<rparr>))"

definition ridv1_UpdateSubscription :: "externals \<Rightarrow> ('key, 's, (ridv1_Volume4D, string) rid_params, (ridv1_Volume4D, string option) rid_params) rid_api \<Rightarrow> ('s, (ridv1_ISA, ridv1_Subscription) rid_body body) Handler" where
  "ridv1_UpdateSubscription L A pat r =
     bindE (liftO (path_param pat r 0)) (\<lambda>i.
     bindE (liftO (path_param pat r 1)) (\<lambda>version1.
     serve_operation (ra_errID A) (rid_Authorize A r ridv1_UpdateSubscriptionSecurity) [200, 400, 401, 403, 409, 429, 500] (\<lambda>auth.
       v1_UpdateSubscription L (ra_server A) (ra_errID A) (ra_ctx A)
         \<lparr>rq_ID = i, rq_Version = version1, rq_Body = ra_subscription_body A (hr_Body r), rq_Auth = auth\<rparr>)))"

definition ridv1_DeleteSubscription :: "externals \<Rightarrow> ('key, 's, (ridv1_Volume4D, string) rid_params, (ridv1_Volume4D, string option) rid_params) rid_api \<Rightarrow> ('s, (ridv1_ISA, ridv1_Subscription) rid_body body) Handler" where
  "ridv1_DeleteSubscription L A pat r =
     bindE (liftO (path_param pat r 0)) (\<lambda>i.
     bindE (liftO (path_param pat r 1)) (\<lambda>version1.
     serve_operation (ra_errID A) (rid_Authorize A r ridv1_DeleteSubscriptionSecurity) [200, 400, 401, 403, 404, 409, 500] (\<lambda>auth.
       v1_DeleteSubscription L (ra_server A) (ra_errID A) (ra_ctx A)
         \<lparr>rq_ID = i, rq_Version = version1, rq_Body = Inr (), rq_Auth = auth\<rparr>)))"

section \<open>The methods of the router of version 2\<close>

definition ridv2_SearchIdentificationServiceAreas :: "externals \<Rightarrow> ('key, 's, (ridv2_Volume4D, string) rid_params, (ridv2_Volume4D, string) rid_params) rid_api \<Rightarrow> ('s, (ridv2_ISA, ridv2_Subscription) rid_body body) Handler" where
  "ridv2_SearchIdentificationServiceAreas L A pat r =
     serve_operation (ra_errID A) (rid_Authorize A r ridv2_SearchIdentificationServiceAreasSecurity) [200, 400, 401, 403, 413, 500] (\<lambda>auth.
       v2_SearchIdentificationServiceAreas L (ra_server A) (ra_errID A) (ra_ctx A)
         \<lparr>sq_Area = map_of (hr_Query r) ''area'', sq_EarliestTime = map_of (hr_Query r) ''earliest_time'',
          sq_LatestTime = map_of (hr_Query r) ''latest_time'', sq_Auth = auth\<rparr>)"

definition ridv2_GetIdentificationServiceArea :: "externals \<Rightarrow> ('key, 's, (ridv2_Volume4D, string) rid_params, (ridv2_Volume4D, string) rid_params) rid_api \<Rightarrow> ('s, (ridv2_ISA, ridv2_Subscription) rid_body body) Handler" where
  "ridv2_GetIdentificationServiceArea L A pat r =
     bindE (liftO (path_param pat r 0)) (\<lambda>i.
     serve_operation (ra_errID A) (rid_Authorize A r ridv2_GetIdentificationServiceAreaSecurity) [200, 400, 401, 403, 404, 500] (\<lambda>auth.
       v2_GetIdentificationServiceArea L (ra_server A) (ra_errID A) (ra_ctx A)
         \<lparr>rq_ID = i, rq_Version = '''', rq_Body = Inr (), rq_Auth = auth\<rparr>))"

definition ridv2_CreateIdentificationServiceArea :: "externals \<Rightarrow> ('key, 's, (ridv2_Volume4D, string) rid_params, (ridv2_Volume4D, string) rid_params) rid_api \<Rightarrow> ('s, (ridv2_ISA, ridv2_Subscription) rid_body body) Handler" where
  "ridv2_CreateIdentificationServiceArea L A pat r =
     bindE (liftO (path_param pat r 0)) (\<lambda>i.
     serve_operation (ra_errID A) (rid_Authorize A r ridv2_CreateIdentificationServiceAreaSecurity) [200, 400, 401, 403, 409, 413, 500] (\<lambda>auth.
       v2_CreateIdentificationServiceArea L (ra_server A) (ra_errID A) (ra_ctx A)
         \<lparr>rq_ID = i, rq_Version = '''', rq_Body = ra_isa_body A (hr_Body r), rq_Auth = auth\<rparr>))"

definition ridv2_UpdateIdentificationServiceArea :: "externals \<Rightarrow> ('key, 's, (ridv2_Volume4D, string) rid_params, (ridv2_Volume4D, string) rid_params) rid_api \<Rightarrow> ('s, (ridv2_ISA, ridv2_Subscription) rid_body body) Handler" where
  "ridv2_UpdateIdentificationServiceArea L A pat r =
     bindE (liftO (path_param pat r 0)) (\<lambda>i.
     bindE (liftO (path_param pat r 1)) (\<lambda>version1.
     serve_operation (ra_errID A) (rid_Authorize A r ridv2_UpdateIdentificationServiceAreaSecurity) [200, 400, 401, 403, 409, 413, 500] (\<lambda>auth.
       v2_UpdateIdentificationServiceArea L (ra_server A) (ra_errID A) (ra_ctx A)
         \<lparr>rq_ID = i, rq_Version = version1, rq_Body = ra_isa_body A (hr_Body r), rq_Auth = auth\<rparr>)))"

definition ridv2_DeleteIdentificationServiceArea :: "externals \<Rightarrow> ('key, 's, (ridv2_Volume4D, string) rid_params, (ridv2_Volume4D, string) rid_params) rid_api \<Rightarrow> ('s, (ridv2_ISA, ridv2_Subscription) rid_body body) Handler" where
  "ridv2_DeleteIdentificationServiceArea L A pat r =
     bindE (liftO (path_param pat r 0)) (\<lambda>i.
     bindE (liftO (path_param pat r 1)) (\<lambda>version1.
     serve_operation (ra_errID A) (rid_Authorize A r ridv2_DeleteIdentificationServiceAreaSecurity) [200, 400, 401, 403, 404, 409, 500] (\<lambda>auth.
       v2_DeleteIdentificationServiceArea L (ra_server A) (ra_errID A) (ra_ctx A)
         \<lparr>rq_ID = i, rq_Version = version1, rq_Body = Inr (), rq_Auth = auth\<rparr>)))"

definition ridv2_SearchSubscriptions :: "externals \<Rightarrow> ('key, 's, (ridv2_Volume4D, string) rid_params, (ridv2_Volume4D, string) rid_params) rid_api \<Rightarrow> ('s, (ridv2_ISA, ridv2_Subscription) rid_body body) Handler" where
  "ridv2_SearchSubscriptions L A pat r =
     serve_operation (ra_errID A) (rid_Authorize A r ridv2_SearchSubscriptionsSecurity) [200, 400, 401, 403, 413, 500] (\<lambda>auth.
       v2_SearchSubscriptions L (ra_server A) (ra_errID A) (ra_ctx A)
         \<lparr>sq_Area = map_of (hr_Query r) ''area'', sq_EarliestTime = None, sq_LatestTime = None, sq_Auth = auth\<rparr>)"

definition ridv2_GetSubscription :: "externals \<Rightarrow> ('key, 's, (ridv2_Volume4D, string) rid_params, (ridv2_Volume4D, string) rid_params) rid_api \<Rightarrow> ('s, (ridv2_ISA, ridv2_Subscription) rid_body body) Handler" where
  "ridv2_GetSubscription L A pat r =
     bindE (liftO (path_param pat r 0)) (\<lambda>i.
     serve_operation (ra_errID A) (rid_Authorize A r ridv2_GetSubscriptionSecurity) [200, 400, 401, 403, 404, 500] (\<lambda>auth.
       v2_GetSubscription L (ra_server A) (ra_errID A) (ra_ctx A)
         \<lparr>rq_ID = i, rq_Version = '''', rq_Body = Inr (), rq_Auth = auth\<rparr>))"

definition ridv2_CreateSubscription :: "externals \<Rightarrow> ('key, 's, (ridv2_Volume4D, string) rid_params, (ridv2_Volume4D, string) rid_params) rid_api \<Rightarrow> ('s, (ridv2_ISA, ridv2_Subscription) rid_body body) Handler" where
  "ridv2_CreateSubscription L A pat r =
     bindE (liftO (path_param pat r 0)) (\<lambda>i.
     serve_operation (ra_errID A) (rid_Authorize A r ridv2_CreateSubscriptionSecurity) [200, 400, 401, 403, 409, 429, 500] (\<lambda>auth.
       v2_CreateSubscription L (ra_server A) (ra_errID A) (ra_ctx A)
         \<lparr>rq_ID = i, rq_Version = '''', rq_Body = ra_subscription_body A (hr_Body r), rq_Auth = auth\<rparr>))"

definition ridv2_UpdateSubscription :: "externals \<Rightarrow> ('key, 's, (ridv2_Volume4D, string) rid_params, (ridv2_Volume4D, string) rid_params) rid_api \<Rightarrow> ('s, (ridv2_ISA, ridv2_Subscription) rid_body body) Handler" where
  "ridv2_UpdateSubscription L A pat r =
     bindE (liftO (path_param pat r 0)) (\<lambda>i.
     bindE (liftO (path_param pat r 1)) (\<lambda>version1.
     serve_operation (ra_errID A) (rid_Authorize A r ridv2_UpdateSubscriptionSecurity) [200, 400, 401, 403, 409, 429, 500] (\<lambda>auth.
       v2_UpdateSubscription L (ra_server A) (ra_errID A) (ra_ctx A)
         \<lparr>rq_ID = i, rq_Version = version1, rq_Body = ra_subscription_body A (hr_Body r), rq_Auth = auth\<rparr>)))"

definition ridv2_DeleteSubscription :: "externals \<Rightarrow> ('key, 's, (ridv2_Volume4D, string) rid_params, (ridv2_Volume4D, string) rid_params) rid_api \<Rightarrow> ('s, (ridv2_ISA, ridv2_Subscription) rid_body body) Handler" where
  "ridv2_DeleteSubscription L A pat r =
     bindE (liftO (path_param pat r 0)) (\<lambda>i.
     bindE (liftO (path_param pat r 1)) (\<lambda>version1.
     serve_operation (ra_errID A) (rid_Authorize A r ridv2_DeleteSubscriptionSecurity) [200, 400, 401, 403, 404, 409, 500] (\<lambda>auth.
       v2_DeleteSubscription L (ra_server A) (ra_errID A) (ra_ctx A)
         \<lparr>rq_ID = i, rq_Version = version1, rq_Body = Inr (), rq_Auth = auth\<rparr>)))"

section \<open>The routes\<close>

definition ridv1_routes :: "externals \<Rightarrow> ('key, 's, (ridv1_Volume4D, string) rid_params, (ridv1_Volume4D, string option) rid_params) rid_api \<Rightarrow> ('s, (ridv1_ISA, ridv1_Subscription) rid_body body) Handler Route list" where
  "ridv1_routes L A = [
     \<lparr>rt_Method = ''GET'', rt_Pattern = [Literal ''v1'', Literal ''dss'', Literal ''identification_service_areas''],
      rt_Handler = ridv1_SearchIdentificationServiceAreas L A, rt_Name = ''ridv1.SearchIdentificationServiceAreas''\<rparr>,
     \<lparr>rt_Method = ''GET'', rt_Pattern = [Literal ''v1'', Literal ''dss'', Literal ''identification_service_areas'', Parameter],
      rt_Handler = ridv1_GetIdentificationServiceArea L A, rt_Name = ''ridv1.GetIdentificationServiceArea''\<rparr>,
     \<lparr>rt_Method = ''PUT'', rt_Pattern = [Literal ''v1'', Literal ''dss'', Literal ''identification_service_areas'', Parameter],
      rt_Handler = ridv1_CreateIdentificationServiceArea L A, rt_Name = ''ridv1.CreateIdentificationServiceArea''\<rparr>,
     \<lparr>rt_Method = ''PUT'', rt_Pattern = [Literal ''v1'', Literal ''dss'', Literal ''identification_service_areas'', Parameter, Parameter],
      rt_Handler = ridv1_UpdateIdentificationServiceArea L A, rt_Name = ''ridv1.UpdateIdentificationServiceArea''\<rparr>,
     \<lparr>rt_Method = ''DELETE'', rt_Pattern = [Literal ''v1'', Literal ''dss'', Literal ''identification_service_areas'', Parameter, Parameter],
      rt_Handler = ridv1_DeleteIdentificationServiceArea L A, rt_Name = ''ridv1.DeleteIdentificationServiceArea''\<rparr>,
     \<lparr>rt_Method = ''GET'', rt_Pattern = [Literal ''v1'', Literal ''dss'', Literal ''subscriptions''],
      rt_Handler = ridv1_SearchSubscriptions L A, rt_Name = ''ridv1.SearchSubscriptions''\<rparr>,
     \<lparr>rt_Method = ''GET'', rt_Pattern = [Literal ''v1'', Literal ''dss'', Literal ''subscriptions'', Parameter],
      rt_Handler = ridv1_GetSubscription L A, rt_Name = ''ridv1.GetSubscription''\<rparr>,
     \<lparr>rt_Method = ''PUT'', rt_Pattern = [Literal ''v1'', Literal ''dss'', Literal ''subscriptions'', Parameter],
      rt_Handler = ridv1_CreateSubscription L A, rt_Name = ''ridv1.CreateSubscription''\<rparr>,
     \<lparr>rt_Method = ''PUT'', rt_Pattern = [Literal ''v1'', Literal ''dss'', Literal ''subscriptions'', Parameter, Parameter],
      rt_Handler = ridv1_UpdateSubscription L A, rt_Name = ''ridv1.UpdateSubscription''\<rparr>,
     \<lparr>rt_Method = ''DELETE'', rt_Pattern = [Literal ''v1'', Literal ''dss'', Literal ''subscriptions'', Parameter, Parameter],
      rt_Handler = ridv1_DeleteSubscription L A, rt_Name = ''ridv1.DeleteSubscription''\<rparr>]"

definition ridv2_routes :: "externals \<Rightarrow> ('key, 's, (ridv2_Volume4D, string) rid_params, (ridv2_Volume4D, string) rid_params) rid_api \<Rightarrow> ('s, (ridv2_ISA, ridv2_Subscription) rid_body body) Handler Route list" where
  "ridv2_routes L A = [
     \<lparr>rt_Method = ''GET'', rt_Pattern = [Literal ''rid'', Literal ''v2'', Literal ''dss'', Literal ''identification_service_areas''],
      rt_Handler = ridv2_SearchIdentificationServiceAreas L A, rt_Name = ''ridv2.SearchIdentificationServiceAreas''\<rparr>,
     \<lparr>rt_Method = ''GET'', rt_Pattern = [Literal ''rid'', Literal ''v2'', Literal ''dss'', Literal ''identification_service_areas'', Parameter],
      rt_Handler = ridv2_GetIdentificationServiceArea L A, rt_Name = ''ridv2.GetIdentificationServiceArea''\<rparr>,
     \<lparr>rt_Method = ''PUT'', rt_Pattern = [Literal ''rid'', Literal ''v2'', Literal ''dss'', Literal ''identification_service_areas'', Parameter],
      rt_Handler = ridv2_CreateIdentificationServiceArea L A, rt_Name = ''ridv2.CreateIdentificationServiceArea''\<rparr>,
     \<lparr>rt_Method = ''PUT'', rt_Pattern = [Literal ''rid'', Literal ''v2'', Literal ''dss'', Literal ''identification_service_areas'', Parameter, Parameter],
      rt_Handler = ridv2_UpdateIdentificationServiceArea L A, rt_Name = ''ridv2.UpdateIdentificationServiceArea''\<rparr>,
     \<lparr>rt_Method = ''DELETE'', rt_Pattern = [Literal ''rid'', Literal ''v2'', Literal ''dss'', Literal ''identification_service_areas'', Parameter, Parameter],
      rt_Handler = ridv2_DeleteIdentificationServiceArea L A, rt_Name = ''ridv2.DeleteIdentificationServiceArea''\<rparr>,
     \<lparr>rt_Method = ''GET'', rt_Pattern = [Literal ''rid'', Literal ''v2'', Literal ''dss'', Literal ''subscriptions''],
      rt_Handler = ridv2_SearchSubscriptions L A, rt_Name = ''ridv2.SearchSubscriptions''\<rparr>,
     \<lparr>rt_Method = ''GET'', rt_Pattern = [Literal ''rid'', Literal ''v2'', Literal ''dss'', Literal ''subscriptions'', Parameter],
      rt_Handler = ridv2_GetSubscription L A, rt_Name = ''ridv2.GetSubscription''\<rparr>,
     \<lparr>rt_Method = ''PUT'', rt_Pattern = [Literal ''rid'', Literal ''v2'', Literal ''dss'', Literal ''subscriptions'', Parameter],
      rt_Handler = ridv2_CreateSubscription L A, rt_Name = ''ridv2.CreateSubscription''\<rparr>,
     \<lparr>rt_Method = ''PUT'', rt_Pattern = [Literal ''rid'', Literal ''v2'', Literal ''dss'', Literal ''subscriptions'', Parameter, Parameter],
      rt_Handler = ridv2_UpdateSubscription L A, rt_Name = ''ridv2.UpdateSubscription''\<rparr>,
     \<lparr>rt_Method = ''DELETE'', rt_Pattern = [Literal ''rid'', Literal ''v2'', Literal ''dss'', Literal ''subscriptions'', Parameter, Parameter],
      rt_Handler = ridv2_DeleteSubscription L A, rt_Name = ''ridv2.DeleteSubscription''\<rparr>]"

lemma ridv1_unambiguous: "unambiguous (ridv1_routes L A)"
  by (simp add: ridv1_routes_def simple_pattern_def no_slash_def)

lemma ridv2_unambiguous: "unambiguous (ridv2_routes L A)"
  by (simp add: ridv2_routes_def simple_pattern_def no_slash_def)

section \<open>Only authorized clients change the store\<close>

lemmas ridv1_securities = ridv1_SearchIdentificationServiceAreasSecurity_def
  ridv1_GetIdentificationServiceAreaSecurity_def
  ridv1_CreateIdentificationServiceAreaSecurity_def
  ridv1_UpdateIdentificationServiceAreaSecurity_def
  ridv1_DeleteIdentificationServiceAreaSecurity_def
  ridv1_SearchSubscriptionsSecurity_def
  ridv1_GetSubscriptionSecurity_def
  ridv1_CreateSubscriptionSecurity_def
  ridv1_UpdateSubscriptionSecurity_def
  ridv1_DeleteSubscriptionSecurity_def

lemmas ridv1_methods = ridv1_SearchIdentificationServiceAreas_def
  ridv1_GetIdentificationServiceArea_def
  ridv1_CreateIdentificationServiceArea_def
  ridv1_UpdateIdentificationServiceArea_def
  ridv1_DeleteIdentificationServiceArea_def
  ridv1_SearchSubscriptions_def
  ridv1_GetSubscription_def
  ridv1_CreateSubscription_def
  ridv1_UpdateSubscription_def
  ridv1_DeleteSubscription_def

lemmas ridv2_securities = ridv2_SearchIdentificationServiceAreasSecurity_def
  ridv2_GetIdentificationServiceAreaSecurity_def
  ridv2_CreateIdentificationServiceAreaSecurity_def
  ridv2_UpdateIdentificationServiceAreaSecurity_def
  ridv2_DeleteIdentificationServiceAreaSecurity_def
  ridv2_SearchSubscriptionsSecurity_def
  ridv2_GetSubscriptionSecurity_def
  ridv2_CreateSubscriptionSecurity_def
  ridv2_UpdateSubscriptionSecurity_def
  ridv2_DeleteSubscriptionSecurity_def

lemmas ridv2_methods = ridv2_SearchIdentificationServiceAreas_def
  ridv2_GetIdentificationServiceArea_def
  ridv2_CreateIdentificationServiceArea_def
  ridv2_UpdateIdentificationServiceArea_def
  ridv2_DeleteIdentificationServiceArea_def
  ridv2_SearchSubscriptions_def
  ridv2_GetSubscription_def
  ridv2_CreateSubscription_def
  ridv2_UpdateSubscription_def
  ridv2_DeleteSubscription_def

abbreviation rid_guarded ::
    "(ctx \<Rightarrow> rid_request \<Rightarrow> (rid_state, rid_response) op) \<Rightarrow> ('s \<Rightarrow> rid_state) \<Rightarrow> ('key, 's, 'i, 'u) rid_api \<Rightarrow> http_request \<Rightarrow> string \<Rightarrow>
     AuthorizationOption list \<Rightarrow> ('s, nat \<times> 'b body) op \<Rightarrow> bool" where
  "rid_guarded X cur A r opid opts \<equiv> guarded (\<lambda>auth. rid_legit X opid auth (ra_ctx A)) cur (rid_Authorize A r opts)"

lemma rid_accounts_auth:
  "accounts (rid_legit X opid (rq_Auth req) ctx) cur m \<Longrightarrow> rq_Auth req = auth \<Longrightarrow> accounts (rid_legit X opid auth ctx) cur m"
  "accounts (rid_legit X opid (sq_Auth qreq) ctx) cur m \<Longrightarrow> sq_Auth qreq = auth \<Longrightarrow> accounts (rid_legit X opid auth ctx) cur m"
  by simp_all

context rid_service
begin

lemmas served = isa_handlers_account(1-4) [THEN rid_accounts_auth(1)] isa_handlers_account(5) [THEN rid_accounts_auth(2)]
  subscription_handlers_account(1-4) [THEN rid_accounts_auth(1)] subscription_handlers_account(5) [THEN rid_accounts_auth(2)]

lemma v1_methods_guarded:
  assumes "\<forall>q. proper q" "ra_server A = sv"
  shows "rid_guarded execute current A r ''SearchIdentificationServiceAreas'' ridv1_SearchIdentificationServiceAreasSecurity (ridv1_SearchIdentificationServiceAreas L A pat r)"
    and "rid_guarded execute current A r ''GetIdentificationServiceArea'' ridv1_GetIdentificationServiceAreaSecurity (ridv1_GetIdentificationServiceArea L A pat r)"
    and "rid_guarded execute current A r ''CreateIdentificationServiceArea'' ridv1_CreateIdentificationServiceAreaSecurity (ridv1_CreateIdentificationServiceArea L A pat r)"
    and "rid_guarded execute current A r ''UpdateIdentificationServiceArea'' ridv1_UpdateIdentificationServiceAreaSecurity (ridv1_UpdateIdentificationServiceArea L A pat r)"
    and "rid_guarded execute current A r ''DeleteIdentificationServiceArea'' ridv1_DeleteIdentificationServiceAreaSecurity (ridv1_DeleteIdentificationServiceArea L A pat r)"
    and "rid_guarded execute current A r ''SearchSubscriptions'' ridv1_SearchSubscriptionsSecurity (ridv1_SearchSubscriptions L A pat r)"
    and "rid_guarded execute current A r ''GetSubscription'' ridv1_GetSubscriptionSecurity (ridv1_GetSubscription L A pat r)"
    and "rid_guarded execute current A r ''CreateSubscription'' ridv1_CreateSubscriptionSecurity (ridv1_CreateSubscription L A pat r)"
    and "rid_guarded execute current A r ''UpdateSubscription'' ridv1_UpdateSubscriptionSecurity (ridv1_UpdateSubscription L A pat r)"
    and "rid_guarded execute current A r ''DeleteSubscription'' ridv1_DeleteSubscriptionSecurity (ridv1_DeleteSubscription L A pat r)"
  using assms(1)
  unfolding assms(2) ridv1_methods rid_handlers_v1
  by - (intro guarded_param guarded_serve served; simp)+

lemma v1_routes_guarded:
  assumes "\<forall>q. proper q" "ra_server A = sv" "rt \<in> set (ridv1_routes L A)"
  shows "\<exists>opts. map_of ridv1_security (rt_Name rt) = Some opts \<and> opts \<noteq> [] \<and>
    rid_guarded execute current A r (drop 6 (rt_Name rt)) opts (rt_Handler rt pat r)"
proof -
  have "list_all (\<lambda>rt. \<exists>opts. map_of ridv1_security (rt_Name rt) = Some opts \<and> opts \<noteq> [] \<and>
    rid_guarded execute current A r (drop 6 (rt_Name rt)) opts (rt_Handler rt pat r)) (ridv1_routes L A)"
    unfolding ridv1_routes_def ridv1_security_def
    using v1_methods_guarded [OF assms(1,2)] by (simp add: ridv1_securities)
  with assms(3) show ?thesis by (simp add: list_all_iff)
qed

lemma v2_methods_guarded:
  assumes "\<forall>q. proper q" "ra_server A = sv"
  shows "rid_guarded execute current A r ''SearchIdentificationServiceAreas'' ridv2_SearchIdentificationServiceAreasSecurity (ridv2_SearchIdentificationServiceAreas L A pat r)"
    and "rid_guarded execute current A r ''GetIdentificationServiceArea'' ridv2_GetIdentificationServiceAreaSecurity (ridv2_GetIdentificationServiceArea L A pat r)"
    and "rid_guarded execute current A r ''CreateIdentificationServiceArea'' ridv2_CreateIdentificationServiceAreaSecurity (ridv2_CreateIdentificationServiceArea L A pat r)"
    and "rid_guarded execute current A r ''UpdateIdentificationServiceArea'' ridv2_UpdateIdentificationServiceAreaSecurity (ridv2_UpdateIdentificationServiceArea L A pat r)"
    and "rid_guarded execute current A r ''DeleteIdentificationServiceArea'' ridv2_DeleteIdentificationServiceAreaSecurity (ridv2_DeleteIdentificationServiceArea L A pat r)"
    and "rid_guarded execute current A r ''SearchSubscriptions'' ridv2_SearchSubscriptionsSecurity (ridv2_SearchSubscriptions L A pat r)"
    and "rid_guarded execute current A r ''GetSubscription'' ridv2_GetSubscriptionSecurity (ridv2_GetSubscription L A pat r)"
    and "rid_guarded execute current A r ''CreateSubscription'' ridv2_CreateSubscriptionSecurity (ridv2_CreateSubscription L A pat r)"
    and "rid_guarded execute current A r ''UpdateSubscription'' ridv2_UpdateSubscriptionSecurity (ridv2_UpdateSubscription L A pat r)"
    and "rid_guarded execute current A r ''DeleteSubscription'' ridv2_DeleteSubscriptionSecurity (ridv2_DeleteSubscription L A pat r)"
  using assms(1)
  unfolding assms(2) ridv2_methods rid_handlers_v2
  by - (intro guarded_param guarded_serve served; simp)+

lemma v2_routes_guarded:
  assumes "\<forall>q. proper q" "ra_server A = sv" "rt \<in> set (ridv2_routes L A)"
  shows "\<exists>opts. map_of ridv2_security (rt_Name rt) = Some opts \<and> opts \<noteq> [] \<and>
    rid_guarded execute current A r (drop 6 (rt_Name rt)) opts (rt_Handler rt pat r)"
proof -
  have "list_all (\<lambda>rt. \<exists>opts. map_of ridv2_security (rt_Name rt) = Some opts \<and> opts \<noteq> [] \<and>
    rid_guarded execute current A r (drop 6 (rt_Name rt)) opts (rt_Handler rt pat r)) (ridv2_routes L A)"
    unfolding ridv2_routes_def ridv2_security_def
    using v2_methods_guarded [OF assms(1,2)] by (simp add: ridv2_securities)
  with assms(3) show ?thesis by (simp add: list_all_iff)
qed

end

section \<open>From the socket to the store\<close>

lemma rid_change_authorized:
  assumes "jwt_validates (ra_jwt A)"
    and g: "\<And>rt. rt \<in> set rts \<Longrightarrow> \<exists>opts. map_of sec (rt_Name rt) = Some opts \<and> opts \<noteq> [] \<and>
      rid_guarded (\<lambda>ctx req. oh_Execute (rid_handler_of L req) ctx req) mr_state A req (drop 6 (rt_Name rt)) opts
        (rt_Handler rt (rt_Pattern rt) req)"
    and "router_Handle rts req = Some m" and "m r = (Ok (status, b), r')" and "mr_state r' \<noteq> mr_state r"
  shows "\<exists>rt \<in> set rts. \<exists>opts. \<exists>k \<in> set (ra_keys A). \<exists>tkn c q resp.
     rt_Method rt = hr_Method req \<and> MatchString (rt_Pattern rt) (hr_Path req) \<and>
     map_of sec (rt_Name rt) = Some opts \<and>
     getToken (hr_Authorization req) = Some tkn \<and> jwt_ParseWithClaims (ra_jwt A) (ra_now A) k tkn = Ok c \<and>
     (\<exists>a \<in> set (ra_audiences A). jwt_VerifyAudience (ra_jwt A) (cl_Audience c) a True) \<and>
     (\<exists>t. cl_ExpiresAt c = Some t \<and> t \<le> ra_now A + Hour) \<and>
     (\<exists>o1 \<in> set opts. \<forall>(scheme, scopes) \<in> set o1. set scopes \<subseteq> set (cl_Scopes c)) \<and>
     rid_OperationID q = ''ridv2.'' @ drop 6 (rt_Name rt) \<and> rid_client_of q = cl_Subject c \<and>
     oh_Execute (rid_handler_of L q) (ra_ctx A) q (mr_state r) = (Ok resp, mr_state r') \<and>
     status \<in> {200, 500}"
proof -
  from router_Handle_Some [OF assms(3)] obtain rt where rt: "rt \<in> set rts" "rt_Method rt = hr_Method req"
      "MatchString (rt_Pattern rt) (hr_Path req)" "m = rt_Handler rt (rt_Pattern rt) req" by blast
  from g [OF rt(1)] obtain opts where
    o: "map_of sec (rt_Name rt) = Some opts" "opts \<noteq> []"
      "rid_guarded (\<lambda>ctx req. oh_Execute (rid_handler_of L req) ctx req) mr_state A req (drop 6 (rt_Name rt)) opts m"
    unfolding rt(4) by blast
  from o(3) assms(4,5) obtain auth n where
    auth: "rid_Authorize A req opts = Ok auth" "au_Error auth = None"
      "rid_legit (\<lambda>ctx req. oh_Execute (rid_handler_of L req) ctx req) (drop 6 (rt_Name rt)) auth (ra_ctx A) (mr_state r) (mr_state r') n"
      "status \<in> {n, 500}"
    unfolding guarded_def by blast
  then obtain q resp where q: "rid_OperationID q = ''ridv2.'' @ drop 6 (rt_Name rt)" "au_ClientID auth = Some (rid_client_of q)"
      "oh_Execute (rid_handler_of L q) (ra_ctx A) q (mr_state r) = (Ok resp, mr_state r')" "status \<in> {200, 500}"
    unfolding rid_legit_def by blast
  with Authorize_grants [OF assms(1) auth(1) [unfolded rid_Authorize_def] auth(2)] rt o(1,2) show ?thesis by fastforce
qed

text \<open>Version 1 of the API.\<close>

theorem ridv1_http_change_authorized:
  assumes "jwt_validates (ra_jwt A)" and "\<forall>q. rid_proper J q"
    and "ra_server A = rid_raft_server L J K c locality allowHTTP"
    and "router_Handle (ridv1_routes L A) req = Some m" and "m r = (Ok (status, b), r')"
    and "mr_state r' \<noteq> mr_state r"
  shows "\<exists>rt \<in> set (ridv1_routes L A). \<exists>opts. \<exists>k \<in> set (ra_keys A). \<exists>tkn c q resp.
     rt_Method rt = hr_Method req \<and> MatchString (rt_Pattern rt) (hr_Path req) \<and>
     map_of ridv1_security (rt_Name rt) = Some opts \<and>
     getToken (hr_Authorization req) = Some tkn \<and> jwt_ParseWithClaims (ra_jwt A) (ra_now A) k tkn = Ok c \<and>
     (\<exists>a \<in> set (ra_audiences A). jwt_VerifyAudience (ra_jwt A) (cl_Audience c) a True) \<and>
     (\<exists>t. cl_ExpiresAt c = Some t \<and> t \<le> ra_now A + Hour) \<and>
     (\<exists>o1 \<in> set opts. \<forall>(scheme, scopes) \<in> set o1. set scopes \<subseteq> set (cl_Scopes c)) \<and>
     rid_OperationID q = ''ridv2.'' @ drop 6 (rt_Name rt) \<and> rid_client_of q = cl_Subject c \<and>
     oh_Execute (rid_handler_of L q) (ra_ctx A) q (mr_state r) = (Ok resp, mr_state r') \<and>
     status \<in> {200, 500}"
  by (rule rid_change_authorized [OF assms(1) _ assms(4-6)]) (rule rid_srv.v1_routes_guarded [OF assms(2,3)])

text \<open>C2: whoever changes the remote-identification data has been authorized to. When an HTTP request of
  version 2 of the API is answered and the store has changed, then the request matches one of the
  routes; its \<open>Authorization\<close> header carries a token that a configured key accepts, with an accepted
  audience, that has not more than an hour to live and holds all scopes of one of the options of that
  route; and the change is exactly one execution of the operation of that route, whose entity is owned
  by the token's subject. The answer is a success, or an internal error when the result did not
  arrive. In particular the searches and the reads change nothing. Version 1 of the API has the same property
  (\<open>ridv1_http_change_authorized\<close>), with the operations of version 2.\<close>

theorem ridv2_http_change_authorized:
  assumes "jwt_validates (ra_jwt A)" and "\<forall>q. rid_proper J q"
    and "ra_server A = rid_raft_server L J K c locality allowHTTP"
    and "router_Handle (ridv2_routes L A) req = Some m" and "m r = (Ok (status, b), r')"
    and "mr_state r' \<noteq> mr_state r"
  shows "\<exists>rt \<in> set (ridv2_routes L A). \<exists>opts. \<exists>k \<in> set (ra_keys A). \<exists>tkn c q resp.
     rt_Method rt = hr_Method req \<and> MatchString (rt_Pattern rt) (hr_Path req) \<and>
     map_of ridv2_security (rt_Name rt) = Some opts \<and>
     getToken (hr_Authorization req) = Some tkn \<and> jwt_ParseWithClaims (ra_jwt A) (ra_now A) k tkn = Ok c \<and>
     (\<exists>a \<in> set (ra_audiences A). jwt_VerifyAudience (ra_jwt A) (cl_Audience c) a True) \<and>
     (\<exists>t. cl_ExpiresAt c = Some t \<and> t \<le> ra_now A + Hour) \<and>
     (\<exists>o1 \<in> set opts. \<forall>(scheme, scopes) \<in> set o1. set scopes \<subseteq> set (cl_Scopes c)) \<and>
     rid_OperationID q = ''ridv2.'' @ drop 6 (rt_Name rt) \<and> rid_client_of q = cl_Subject c \<and>
     oh_Execute (rid_handler_of L q) (ra_ctx A) q (mr_state r) = (Ok resp, mr_state r') \<and>
     status \<in> {200, 500}"
  by (rule rid_change_authorized [OF assms(1) _ assms(4-6)]) (rule rid_srv.v2_routes_guarded [OF assms(2,3)])

section \<open>Responses are those of the operation\<close>

text \<open>The fields of the response sets of the operations, the same in both versions.\<close>

definition rid_ResponseSets :: "(string, nat list) gomap" where
  "rid_ResponseSets = [
     (''SearchIdentificationServiceAreas'', [200, 400, 401, 403, 413, 500]),
     (''GetIdentificationServiceArea'', [200, 400, 401, 403, 404, 500]),
     (''CreateIdentificationServiceArea'', [200, 400, 401, 403, 409, 413, 500]),
     (''UpdateIdentificationServiceArea'', [200, 400, 401, 403, 409, 413, 500]),
     (''DeleteIdentificationServiceArea'', [200, 400, 401, 403, 404, 409, 500]),
     (''SearchSubscriptions'', [200, 400, 401, 403, 413, 500]),
     (''GetSubscription'', [200, 400, 401, 403, 404, 500]),
     (''CreateSubscription'', [200, 400, 401, 403, 409, 429, 500]),
     (''UpdateSubscription'', [200, 400, 401, 403, 409, 429, 500]),
     (''DeleteSubscription'', [200, 400, 401, 403, 404, 409, 500])]"

lemma rid_responds:
  "400 \<in> set S \<Longrightarrow> responds S (rid_invalid_ID errID e)" "500 \<in> set S \<Longrightarrow> responds S (server_error errID e)"
  "200 \<in> set S \<Longrightarrow> responds S (subscription_changed V x)"
  by (auto simp: rid_invalid_ID_def server_error_def subscription_changed_def split_def intro!: responds_single)

lemma responds_isa_changed: "isa_changed V mk y = Ok R \<Longrightarrow> 200 \<in> set S \<Longrightarrow> responds S R"
  by (auto simp: isa_changed_def split_def Let_def monad_simps intro!: responds_single)

lemma responds_found:
  "responds S a \<Longrightarrow> (\<And>x. responds S (f x)) \<Longrightarrow> responds S (case v of None \<Rightarrow> a | Some x \<Rightarrow> f x)"
  by (cases v) simp_all

lemma responds_deref: "obind (deref v) (\<lambda>x. Ok (f x)) = Ok R \<Longrightarrow> (\<And>x. responds S (f x)) \<Longrightarrow> responds S R"
  by (cases v) auto

lemma responses_check_covering:
  "{400, 413} \<subseteq> set S \<Longrightarrow> (\<And>cu. responses S (k cu)) \<Longrightarrow> responses S (check_covering L errID area k)"
  unfolding check_covering_def by (intro responses_intros) auto

lemmas rid_responses_intros = responses_check_covering responses_intros responses_respondO rid_responds responds_found

lemma rid_handlers_respond:
  "responses [200, 400, 401, 403, 413, 500] (rid_SearchISAs_handler V L sv errID ctx qreq)"
  "responses [200, 400, 401, 403, 404, 500] (rid_GetISA_handler V L sv errID ctx ureq)"
  "responses [200, 400, 401, 403, 409, 500] (rid_CreateISA_handler V params L sv errID ctx req)"
  "responses [200, 400, 401, 403, 409, 500] (rid_UpdateISA_handler V params L sv errID ctx req)"
  "responses [200, 400, 401, 403, 404, 409, 500] (rid_DeleteISA_handler V L sv errID ctx ureq)"
  "responses [200, 400, 401, 403, 413, 500] (rid_SearchSubscriptions_handler V L sv errID ctx qreq)"
  "responses [200, 400, 401, 403, 404, 500] (rid_GetSubscription_handler V L sv errID ctx ureq)"
  "responses [200, 400, 401, 403, 409, 429, 500] (rid_CreateSubscription_handler V sparams L sv errID ctx req)"
  "responses [200, 400, 401, 403, 409, 429, 500] (rid_UpdateSubscription_handler V sparams L sv errID ctx req)"
  "responses [200, 400, 401, 403, 404, 409, 500] (rid_DeleteSubscription_handler V L sv errID ctx ureq)"
  unfolding rid_SearchISAs_handler_def rid_GetISA_handler_def rid_CreateISA_handler_def rid_UpdateISA_handler_def
    rid_DeleteISA_handler_def rid_SearchSubscriptions_handler_def rid_GetSubscription_handler_def
    rid_CreateSubscription_handler_def rid_UpdateSubscription_handler_def rid_DeleteSubscription_handler_def split_def
  by (intro rid_responses_intros; (erule responds_deref responds_isa_changed)?; simp add: responds_single)+

lemma v1_methods_answer:
  "answers_from [200, 400, 401, 403, 413, 500] (ridv1_SearchIdentificationServiceAreas L A pat r)"
  "answers_from [200, 400, 401, 403, 404, 500] (ridv1_GetIdentificationServiceArea L A pat r)"
  "answers_from [200, 400, 401, 403, 409, 500] (ridv1_CreateIdentificationServiceArea L A pat r)"
  "answers_from [200, 400, 401, 403, 409, 500] (ridv1_UpdateIdentificationServiceArea L A pat r)"
  "answers_from [200, 400, 401, 403, 404, 409, 500] (ridv1_DeleteIdentificationServiceArea L A pat r)"
  "answers_from [200, 400, 401, 403, 413, 500] (ridv1_SearchSubscriptions L A pat r)"
  "answers_from [200, 400, 401, 403, 404, 500] (ridv1_GetSubscription L A pat r)"
  "answers_from [200, 400, 401, 403, 409, 429, 500] (ridv1_CreateSubscription L A pat r)"
  "answers_from [200, 400, 401, 403, 409, 429, 500] (ridv1_UpdateSubscription L A pat r)"
  "answers_from [200, 400, 401, 403, 404, 409, 500] (ridv1_DeleteSubscription L A pat r)"
  unfolding ridv1_methods rid_handlers_v1
  by (intro answers_param answers_serve rid_handlers_respond; simp)+

lemma v2_methods_answer:
  "answers_from [200, 400, 401, 403, 413, 500] (ridv2_SearchIdentificationServiceAreas L A pat r)"
  "answers_from [200, 400, 401, 403, 404, 500] (ridv2_GetIdentificationServiceArea L A pat r)"
  "answers_from [200, 400, 401, 403, 409, 500] (ridv2_CreateIdentificationServiceArea L A pat r)"
  "answers_from [200, 400, 401, 403, 409, 500] (ridv2_UpdateIdentificationServiceArea L A pat r)"
  "answers_from [200, 400, 401, 403, 404, 409, 500] (ridv2_DeleteIdentificationServiceArea L A pat r)"
  "answers_from [200, 400, 401, 403, 413, 500] (ridv2_SearchSubscriptions L A pat r)"
  "answers_from [200, 400, 401, 403, 404, 500] (ridv2_GetSubscription L A pat r)"
  "answers_from [200, 400, 401, 403, 409, 429, 500] (ridv2_CreateSubscription L A pat r)"
  "answers_from [200, 400, 401, 403, 409, 429, 500] (ridv2_UpdateSubscription L A pat r)"
  "answers_from [200, 400, 401, 403, 404, 409, 500] (ridv2_DeleteSubscription L A pat r)"
  unfolding ridv2_methods rid_handlers_v2
  by (intro answers_param answers_serve rid_handlers_respond; simp)+

text \<open>C22: every answer of both versions of the API is one that its operation may give: its status is a
  field of the operation's response set, and the fallback of the generated router is never sent. The
  response \<open>413\<close> of the operations that create and update a service area is declared and never sent: an
  area that is too large is answered with \<open>400\<close>.\<close>

theorem rid_answers_typed:
  "list_all (\<lambda>rt. \<exists>S. map_of rid_ResponseSets (drop 6 (rt_Name rt)) = Some S \<and>
     answers_from (if rt_Method rt = ''PUT'' then remove1 413 S else S) (rt_Handler rt pat r)) (ridv1_routes L A) \<and>
   list_all (\<lambda>rt. \<exists>S. map_of rid_ResponseSets (drop 6 (rt_Name rt)) = Some S \<and>
     answers_from (if rt_Method rt = ''PUT'' then remove1 413 S else S) (rt_Handler rt pat r)) (ridv2_routes L A')"
  unfolding ridv1_routes_def ridv2_routes_def rid_ResponseSets_def
  by (simp add: v1_methods_answer v2_methods_answer)

section \<open>The deletion of a service area, from the request to the answer\<close>

lemma rid_transact_delivered:
  assumes "jr_encode J q = Ok v" "jr_decode J (rid_OperationID q) v = Ok q" "ctx = Some ts" "\<not> IsZero ts"
    and "oh_Execute (rid_handler_of L q) ctx q (mr_state r) = (x, st')" "x \<noteq> Panic"
    and "cc_delivery c = Delivered"
    and "\<And>resp. x = Ok resp \<Longrightarrow> assert (RidResponse resp) = Some (unwrap resp) \<and> is_Ok (onOk (unwrap resp))"
  shows "\<exists>r'. respondO (TransactWithResult (rsv_Transact (rid_raft_server L J K c locality allow)) assert ctx q) onErr onOk r =
      (case x of Ok resp \<Rightarrow> onOk (unwrap resp) | Err e \<Rightarrow> Ok (onErr e), r') \<and>
    mr_state r' = (if is_Ok x then st' else mr_state r)"
proof -
  from rid_reg.delivered [OF assms(1-6), where newID = "cc_newID c" and nodeID = "cc_nodeID c"] obtain r' where
    "rid_Store_Transact L J Delivered (cc_newID c) (cc_nodeID c) ctx q r = (obind x (\<lambda>resp. Ok (RidResponse resp)), r')"
    "mr_state r' = (if is_Ok x then st' else mr_state r)"
    unfolding rid_Store_Transact_def by blast
  with assms(6-8) show ?thesis
    by (cases x) (auto simp: respondO_def TransactWithResult_def rid_raft_server_def)
qed

text \<open>The status of a deletion.\<close>

definition isa_delete_status :: "IdentificationServiceArea option \<Rightarrow> Owner \<Rightarrow> version \<Rightarrow> nat" where
  "isa_delete_status found owner v =
     (case found of
        None \<Rightarrow> 404
      | Some a \<Rightarrow> if \<not> Version_Matches (Some v) (isa_Version a) then 409 else if isa_Owner a \<noteq> owner then 403 else 200)"

abbreviation isa_delete_codes :: "(error_code \<times> nat) list" where
  "isa_delete_codes \<equiv> [(PermissionDenied, 403), (VersionMismatch, 409), (NotFound, 404)]"

lemma executeDeleteISA_status:
  assumes "rid_wf L st" and "\<not> IsZero now" and x: "executeDeleteISA (Some now) (deleteISAPayload i m (Some v)) st = (x, st')"
  obtains (deleted) a where "find_isa st i = Some a" "isa_delete_status (find_isa st i) m v = 200"
      "x = Ok (ISAResult (Some a) (notified_subs now (set (cv_Cells (isa_Volume a))) st))"
      "find_isa st' = (find_isa st)(i := None)"
  | (refused) e code where "isa_delete_status (find_isa st i) m v \<noteq> 200" "x = Err e"
      "GetCode e = Some code" "map_of isa_delete_codes code = Some (isa_delete_status (find_isa st i) m v)"
proof -
  consider "find_isa st i = None"
    | a where "find_isa st i = Some a" "\<not> Version_Matches (Some v) (isa_Version a)"
    | a where "find_isa st i = Some a" "Version_Matches (Some v) (isa_Version a)" "isa_Owner a \<noteq> m"
    | a where "find_isa st i = Some a" "Version_Matches (Some v) (isa_Version a)" "isa_Owner a = m"
    by (cases "find_isa st i") auto
  then show thesis
  proof cases
    case 1
    with executeDeleteISA_refused(1) [OF 1, of "Some now" m "Some v"] x refused show thesis
      by (auto simp: isa_delete_status_def)
  next
    case (2 a)
    with executeDeleteISA_refused(2) [OF 2, of "Some now" m] x refused show thesis
      by (auto simp: isa_delete_status_def)
  next
    case (3 a)
    with executeDeleteISA_refused(3) [OF 3, of "Some now"] x refused show thesis
      by (auto simp: isa_delete_status_def)
  next
    case (4 a)
    have now: "MustFromContext (Some now) = Ok now" using assms(2) by (simp add: MustFromContext_def)
    note e = executeDeleteISA_Ok [OF assms(1) 4 now]
    have "find_isa st' = (find_isa st)(i := None)" using e x by (auto simp: find_isa_def map_of_delete fun_eq_iff)
    with e 4 x show thesis by (intro deleted) (simp_all add: isa_delete_status_def)
  qed
qed

lemma rid_DeleteISA_handler_run:
  assumes "rid_wf L' (mr_state r)" and "\<not> IsZero now" and "cc_delivery c = Delivered"
    and "IDFromString L (rq_ID req) = Ok i" and "VersionFromString (rq_Version req) = Ok v" and "au_ClientID (rq_Auth req) = Some m"
    and "jr_encode J (deleteISAPayload i m (Some v)) = Ok w"
    and "jr_decode J ''ridv2.DeleteIdentificationServiceArea'' w = Ok (deleteISAPayload i m (Some v))"
  shows "\<exists>b r'. rid_DeleteISA_handler V L (rid_raft_server L J K c locality allow) errID (Some now) req r =
      (Ok [isa_delete_status (find_isa (mr_state r) i) m v \<mapsto> b], r') \<and>
    (if isa_delete_status (find_isa (mr_state r) i) m v = 200
     then find_isa (mr_state r') = (find_isa (mr_state r))(i := None) \<and>
       (\<exists>a. find_isa (mr_state r) i = Some a \<and>
         b = ResponseBody (DeleteISAResponse (rv_ToISA V a)
           (MakeSubscribersToNotify (notified_subs now (set (cv_Cells (isa_Volume a))) (mr_state r)))))
     else mr_state r' = mr_state r)"
proof -
  let ?q = "deleteISAPayload i m (Some v)" and ?st = "mr_state r"
  obtain x st' where x: "executeDeleteISA (Some now) ?q ?st = (x, st')" by fastforce
  define unwrap where "unwrap y = (case y of ISAResult a subs \<Rightarrow> (a, subs) | _ \<Rightarrow> (None, []))" for y
  have o: "oh_Execute (rid_handler_of L ?q) (Some now) ?q ?st = (x, st')" using x by simp
  have d: "jr_decode J (rid_OperationID ?q) w = Ok ?q" using assms(8) by simp
  note run = rid_transact_delivered [OF assms(7) d refl assms(2) o _ assms(3), of isa_result unwrap "isa_changed V DeleteISAResponse"
      K locality allow "by_code errID isa_delete_codes"]
  have h: "rid_DeleteISA_handler V L (rid_raft_server L J K c locality allow) errID (Some now) req r =
      respondO (TransactWithResult (rsv_Transact (rid_raft_server L J K c locality allow)) isa_result (Some now) ?q)
      (by_code errID isa_delete_codes) (isa_changed V DeleteISAResponse) r"
    using assms(4-6) by (simp add: rid_DeleteISA_handler_def check_def NewDeleteISAPayload_def)
  show ?thesis
  proof (rule executeDeleteISA_status [OF assms(1,2) x], goal_cases deleted refused)
    case (deleted a)
    then show ?case using run h by (auto simp: isa_result_def unwrap_def isa_changed_def Let_def)
  next
    case (refused e code)
    then show ?case using run h by (auto simp: by_code_Some [OF refused(3,4)] simp del: map_of.simps)
  qed
qed

lemma rid_delete_isa_served:
  assumes "rid_wf L' (mr_state r)" and "ra_ctx A = Some now" and "\<not> IsZero now"
    and "ra_server A = rid_raft_server L J K c locality allowHTTP" and "cc_delivery c = Delivered"
    and "hr_Method req = ''DELETE''"
    and "hr_Path req = ''/rid/v2/dss/identification_service_areas/'' @ i @ ''/'' @ version1"
    and "no_slash i" and "no_slash version1" and "IDFromString L i = Ok k" and "VersionFromString version1 = Ok v"
    and "rid_Authorize A req ridv2_DeleteIdentificationServiceAreaSecurity = Ok auth"
    and "au_Error auth = None" and "au_ClientID auth = Some m"
    and "jr_encode J (deleteISAPayload k m (Some v)) = Ok w"
    and "jr_decode J ''ridv2.DeleteIdentificationServiceArea'' w = Ok (deleteISAPayload k m (Some v))"
  shows "\<exists>serve status b r'. router_Handle (ridv2_routes L A) req = Some serve \<and> serve r = (Ok (status, b), r') \<and>
     status = isa_delete_status (find_isa (mr_state r) k) m v \<and>
     (if status = 200
      then find_isa (mr_state r') = (find_isa (mr_state r))(k := None) \<and>
        (\<exists>a. find_isa (mr_state r) k = Some a \<and>
           b = ResponseBody (DeleteISAResponse (v2_ToIdentificationServiceArea L a)
             (MakeSubscribersToNotify (notified_subs now (set (cv_Cells (isa_Volume a))) (mr_state r)))))
      else mr_state r' = mr_state r)"
proof -
  define pat where "pat = [Literal ''rid'', Literal ''v2'', Literal ''dss'', Literal ''identification_service_areas'', Parameter, Parameter]"
  define rt where "rt = \<lparr>rt_Method = ''DELETE'', rt_Pattern = pat, rt_Handler = ridv2_DeleteIdentificationServiceArea L A,
    rt_Name = ''ridv2.DeleteIdentificationServiceArea''\<rparr>"
  have rt: "rt \<in> set (ridv2_routes L A)" by (simp add: ridv2_routes_def rt_def pat_def)
  have f: "hr_Method req = rt_Method rt" "hr_Path req = make_path (rt_Pattern rt) [i, version1]" "fits (rt_Pattern rt) [i, version1]"
    using assms(6-9) by (simp_all add: rt_def pat_def fits_def make_path_def)
  note route = router_Handle_exact [OF ridv2_unambiguous rt f]
  let ?req = "\<lparr>rq_ID = i, rq_Version = version1, rq_Body = Inr (), rq_Auth = auth\<rparr>" and ?n = "isa_delete_status (find_isa (mr_state r) k) m v"
  from rid_DeleteISA_handler_run [OF assms(1,3,5), of L ?req k v m J w "rid_v2 L" K locality allowHTTP "ra_errID A"] assms(10-16)
  obtain b r' where h: "rid_DeleteISA_handler (rid_v2 L) L (ra_server A) (ra_errID A) (Some now) ?req r = (Ok [?n \<mapsto> b], r')"
      "if ?n = 200 then find_isa (mr_state r') = (find_isa (mr_state r))(k := None) \<and>
         (\<exists>a. find_isa (mr_state r) k = Some a \<and> b = ResponseBody (DeleteISAResponse (rv_ToISA (rid_v2 L) a)
           (MakeSubscribersToNotify (notified_subs now (set (cv_Cells (isa_Volume a))) (mr_state r)))))
       else mr_state r' = mr_state r"
    unfolding assms(4) by auto
  have "?n \<in> set [200, 400, 401, 403, 404, 409, 500]" by (simp add: isa_delete_status_def split: option.splits)
  from write_response_single [OF this, of b]
  have "rt_Handler rt (rt_Pattern rt) req r = (Ok (?n, b), r')"
    using assms(2,12,13) h(1) route(2) [of 0] route(2) [of 1]
    by (simp add: rt_def ridv2_DeleteIdentificationServiceArea_def v2_DeleteIdentificationServiceArea_def serve_operation_def bindE_def)
  with route(1) h(2) show ?thesis by (auto simp: rid_v2_def)
qed

text \<open>C21: the deletion of a service area over HTTP. A DELETE for an authorized client, whose result is
  delivered, is answered with 404 when there is no such area, with 409 when the version is not the
  current one, with 403 when the client is not the owner, and otherwise with 200: then exactly that area
  is gone, and the body holds the area that was stored and the subscribers of the subscriptions that
  have not ended and share a cell with it. Every other answer leaves the store as it was.\<close>

theorem rid_http_delete_isa:
  assumes "rid_wf L' (mr_state r)" and "ra_ctx A = Some now" and "\<not> IsZero now"
    and "ra_server A = rid_raft_server L J K c locality allowHTTP" and "cc_delivery c = Delivered"
    and "hr_Method req = ''DELETE''"
    and "hr_Path req = ''/rid/v2/dss/identification_service_areas/'' @ i @ ''/'' @ version1"
    and "no_slash i" and "no_slash version1" and "IDFromString L i = Ok k" and "VersionFromString version1 = Ok v"
    and "rid_Authorize A req ridv2_DeleteIdentificationServiceAreaSecurity = Ok auth"
    and "au_Error auth = None" and "au_ClientID auth = Some m"
    and "jr_encode J (deleteISAPayload k m (Some v)) = Ok w"
    and "jr_decode J ''ridv2.DeleteIdentificationServiceArea'' w = Ok (deleteISAPayload k m (Some v))"
  shows "\<exists>serve status b r'. router_Handle (ridv2_routes L A) req = Some serve \<and> serve r = (Ok (status, b), r') \<and>
     status = isa_delete_status (find_isa (mr_state r) k) m v \<and>
     (if status = 200
      then find_isa (mr_state r') = (find_isa (mr_state r))(k := None) \<and>
        (\<exists>a. find_isa (mr_state r) k = Some a \<and>
           b = ResponseBody (DeleteISAResponse (v2_ToIdentificationServiceArea L a)
             (MakeSubscribersToNotify (notified_subs now (set (cv_Cells (isa_Volume a))) (mr_state r)))))
      else mr_state r' = mr_state r)"
  using assms by (rule rid_delete_isa_served)

section \<open>A concrete request\<close>

definition demo_rid_codec_for :: "rid_request \<Rightarrow> rid_codec" where
  "demo_rid_codec_for q = demo_rid_codec\<lparr>jr_encode := (\<lambda>q'. if q' = q then Ok ''q'' else Err (NewError ''json'')),
     jr_decode := (\<lambda>_ _. Ok q)\<rparr>"

text \<open>The deletion of the area \<open>0000\<close> at the version of the time 50.\<close>

abbreviation demo_rid_delete :: rid_request where
  "demo_rid_delete \<equiv> deleteISAPayload ''0000'' ''uss1'' (Some (VersionFromTime 50))"

definition demo_rid_api ::
    "(nat, rid_repo, (ridv2_Volume4D, string) rid_params, (ridv2_Volume4D, string) rid_params) rid_api" where
  "demo_rid_api = \<lparr>ra_jwt = demo_jwt\<lparr>jwt_ParseWithClaims := (\<lambda>now k t. if k = 7 \<and> now = 0
        then Ok (demo_claims\<lparr>cl_Scopes := [RidServiceProviderScope]\<rparr>) else Err (NewError ''signature is invalid''))\<rparr>,
     ra_now = 0, ra_keys = [3, 7], ra_audiences = [''dss''],
     ra_isa_body = (\<lambda>_. Inl (NewError ''json'')), ra_subscription_body = (\<lambda>_. Inl (NewError ''json'')),
     ra_server = rid_raft_server demo_externals (demo_rid_codec_for demo_rid_delete) demo_marshal demo_call ''dss'' False,
     ra_errID = ''E:1'', ra_ctx = Some 120\<rparr>"

definition demo_rid_request :: http_request where
  "demo_rid_request = \<lparr>hr_Method = ''DELETE'', hr_Path = ''/rid/v2/dss/identification_service_areas/area/1i'', hr_Query = [],
     hr_Authorization = ''Bearer abc'', hr_Body = ''''\<rparr>"

definition demo_rid_store :: rid_repo where
  "demo_rid_store = (let st = demo_rid_state\<lparr>rid_ISAs := [(''0000'', demo_isa_record\<lparr>ir_ID := ''0000''\<rparr>)]\<rparr> in
     \<lparr>mr_state = st, mr_checkpoint = st\<rparr>)"

lemma demo_rid_Authorize:
  "rid_Authorize demo_rid_api demo_rid_request ridv2_DeleteIdentificationServiceAreaSecurity =
    Ok \<lparr>au_ClientID = Some ''uss1'', au_Scopes = [RidServiceProviderScope], au_Error = None\<rparr>"
  by (simp add: rid_Authorize_def TokenMiddleware_Authorize_def Authorize_def claims_FromContext_def extractClaims_def
      demo_getToken Let_def demo_rid_api_def demo_rid_request_def demo_jwt_def demo_claims_def validateScopes_def
      ridv2_DeleteIdentificationServiceAreaSecurity_def)

lemma demo_rid_parses:
  "IDFromString demo_externals ''area'' = Ok ''0000''" "VersionFromString ''1i'' = Ok (VersionFromTime 50)"
proof -
  have "replicate 4 (CHR ''0'') = ''0000''" by (simp add: numeral_eq_Suc)
  then show "IDFromString demo_externals ''area'' = Ok ''0000''" by (simp add: IDFromString_def)
  have "ver_s (VersionFromTime 50) = ''1i''" by code_simp
  with Version_roundtrip [of 50] show "VersionFromString ''1i'' = Ok (VersionFromTime 50)" by simp
qed

lemma demo_rid_store_found:
  "find_isa (mr_state demo_rid_store) ''0000'' = Some (isaRecord_toModel (demo_isa_record\<lparr>ir_ID := ''0000''\<rparr>))"
  by (simp add: demo_rid_store_def find_isa_def Let_def)

lemma demo_rid_status: "isa_delete_status (find_isa (mr_state demo_rid_store) ''0000'') ''uss1'' (VersionFromTime 50) = 200"
  by (simp add: demo_rid_store_found isa_delete_status_def demo_isa_record_def isaRecord_version_def)

lemma demo_rid_wf_store: "rid_wf demo_externals (mr_state demo_rid_store)"
  by (simp add: demo_rid_store_def demo_rid_defs rid_wf_def wf_gomap_def keyed_def all_values_def isa_valid_def
      rid_sub_valid_def valid_range_def Let_def)

lemma demo_rid_codec_for:
  "jr_encode (demo_rid_codec_for q) q = Ok ''q''" "jr_decode (demo_rid_codec_for q) ty v = Ok q"
  "\<forall>q'. rid_proper (demo_rid_codec_for q) q'"
  by (simp_all add: demo_rid_codec_for_def codec_proper_def codec_faithful_def)

lemmas demo_rid_premises = demo_rid_parses demo_rid_Authorize
lemmas demo_rid_sel = demo_rid_api_def demo_rid_request_def demo_call_def no_slash_def

theorem rid_http_delete_isa_witness:
  "\<exists>serve b r'. router_Handle (ridv2_routes demo_externals demo_rid_api) demo_rid_request = Some serve \<and>
     serve demo_rid_store = (Ok (200, b), r') \<and> find_isa (mr_state r') ''0000'' = None"
  using rid_http_delete_isa [OF demo_rid_wf_store _ demo_now(1) _ _ _ _ _ _ demo_rid_premises _ _ demo_rid_codec_for(1,2)] demo_rid_status
  by (fastforce simp: demo_rid_sel)

theorem ridv2_http_change_authorized_witness:
  "\<exists>serve b r'. router_Handle (ridv2_routes demo_externals demo_rid_api) demo_rid_request = Some serve \<and>
     serve demo_rid_store = (Ok (200, b), r') \<and> mr_state r' \<noteq> mr_state demo_rid_store \<and>
     (\<exists>k \<in> set [3, 7]. \<exists>tkn c. getToken ''Bearer abc'' = Some tkn \<and> jwt_ParseWithClaims (ra_jwt demo_rid_api) 0 k tkn = Ok c)"
proof -
  from rid_delete_isa_served [OF demo_rid_wf_store _ demo_now(1) _ _ _ _ _ _ demo_rid_premises _ _ demo_rid_codec_for(1,2)] demo_rid_status
  obtain serve b r' where s: "router_Handle (ridv2_routes demo_externals demo_rid_api) demo_rid_request = Some serve"
      "serve demo_rid_store = (Ok (200, b), r')" "find_isa (mr_state r') ''0000'' = None"
    by (fastforce simp: demo_rid_sel)
  then have ne: "mr_state r' \<noteq> mr_state demo_rid_store" using demo_rid_store_found by force
  have j: "jwt_validates (ra_jwt demo_rid_api)"
    by (auto simp: jwt_validates_def demo_rid_api_def demo_jwt_def demo_claims_def Claims_Valid_def)
  have A: "ra_server demo_rid_api = rid_raft_server demo_externals (demo_rid_codec_for demo_rid_delete) demo_marshal demo_call ''dss'' False"
      "hr_Authorization demo_rid_request = ''Bearer abc''" "ra_keys demo_rid_api = [3, 7]" "ra_now demo_rid_api = 0"
    by (simp_all add: demo_rid_api_def demo_rid_request_def)
  from ridv2_http_change_authorized [OF j demo_rid_codec_for(3) A(1) s(1,2) ne] A(2-4) s(1,2) ne show ?thesis by metis
qed

end
