(* ===== verification/Raft_Params.thy ===== *)
theory Raft_Params
  imports Http_Api Dss_Models
begin

text \<open>
  The parameters of the replicated store, \<open>src/pkg/raftstore/params/params.go\<close>: the flags and their checks, the
  map of the peers, and the IDs of the three groups (aux, rid, scd) of a cluster. \<open>net/url\<close> and
  \<open>filepath.Join\<close> are parameters. It shows that a list of peers that is written out is parsed back, and that the
  groups of a cluster have different IDs whatever the ID of the cluster.
\<close>

section \<open>Numbers in base 10\<close>

text \<open>\<open>%d\<close> for an unsigned number, and \<open>strconv.Itoa\<close>.\<close>

fun decimal :: "nat \<Rightarrow> string" where
  "decimal n = (if n < 10 then [digit_char n] else decimal (n div 10) @ [digit_char (n mod 10)])"

declare decimal.simps [simp del]

definition Itoa :: "int \<Rightarrow> string" where
  "Itoa i = (if i < 0 then ''-'' @ decimal (nat (- i)) else decimal (nat i))"

text \<open>\<open>strconv.ParseUint(s, 10, 64)\<close>\<close>

definition decimal_digit :: "char \<Rightarrow> nat option" where
  "decimal_digit c = (let n = of_char c :: nat in if 48 \<le> n \<and> n \<le> 57 then Some (n - 48) else None)"

fun ParseUint_digits :: "nat \<Rightarrow> string \<Rightarrow> nat option" where
  "ParseUint_digits acc [] = Some acc"
| "ParseUint_digits acc (c # cs) =
     (case decimal_digit c of
        None \<Rightarrow> None
      | Some d \<Rightarrow> let n = acc * 10 + d in if n < 2 ^ 64 then ParseUint_digits n cs else None)"

definition ParseUint :: "string \<Rightarrow> 64 word outcome" where
  "ParseUint s =
     (if s = '''' then Err (NewError ''invalid syntax'')
      else case ParseUint_digits 0 s of
             None \<Rightarrow> Err (NewError ''invalid syntax or value out of range'')
           | Some n \<Rightarrow> Ok (of_nat n))"

section \<open>Parameters\<close>

record ConnectParameters =
  cp_NodeID :: "64 word"
  cp_Peers :: string
  cp_DataDir :: string
  cp_ClusterID :: "64 word"
  cp_GroupClusterID :: "64 word"
  cp_SnapshotCatchupEntries :: "64 word"
  cp_SnapshotIntervalEntries :: "64 word"
  cp_TickInterval :: duration
  cp_ElectionTick :: int
  cp_HeartbeatTick :: int
  cp_MaxSizePerMsg :: "64 word"
  cp_MaxInflightMsgs :: int
  cp_TLSCertFile :: string
  cp_TLSKeyFile :: string
  cp_TLSCAFile :: string
  cp_Insecure :: bool

definition TLSEnabled :: "ConnectParameters \<Rightarrow> bool" where
  "TLSEnabled c = (\<not> cp_Insecure c)"

text \<open>What is used of \<open>net/url\<close>.\<close>

record 'u url_lib =
  ul_Parse :: "string \<Rightarrow> 'u outcome"
  ul_Scheme :: "'u \<Rightarrow> string"
  ul_String :: "'u \<Rightarrow> string"
  ul_Port :: "'u \<Rightarrow> string"

text \<open>\<open>strings.SplitN(s, sep, 2)\<close> when the separator occurs: what is before its first occurrence and what is
  after it.\<close>

fun cut_at :: "char \<Rightarrow> string \<Rightarrow> (string \<times> string) option" where
  "cut_at sep [] = None"
| "cut_at sep (c # s) = (if c = sep then Some ([], s) else map_option (\<lambda>(a, b). (c # a, b)) (cut_at sep s))"

definition parse_peer :: "'u url_lib \<Rightarrow> string \<Rightarrow> (64 word, 'u) gomap \<Rightarrow> string \<Rightarrow> (64 word, 'u) gomap outcome" where
  "parse_peer U scheme peers entry =
     (case cut_at (CHR ''='') entry of
        None \<Rightarrow> Err (NewError (''invalid peer entry '' @ entry))
      | Some (part0, part1) \<Rightarrow>
          obind (ParseUint part0) (\<lambda>i.
          if i = 0 then Err (NewError ''invalid peer ID 0: peer IDs must be greater than 0'')
          else if map_of peers i \<noteq> None then Err (NewError ''duplicate peer ID'')
          else
            obind (ul_Parse U part1) (\<lambda>peerURL.
            if ul_Scheme U peerURL \<noteq> scheme then Err (NewError (''invalid peer URL '' @ part1))
            else Ok (AList.update i peerURL peers))))"

fun parse_peers :: "'u url_lib \<Rightarrow> string \<Rightarrow> (64 word, 'u) gomap \<Rightarrow> string list \<Rightarrow> (64 word, 'u) gomap outcome" where
  "parse_peers U scheme peers [] = Ok peers"
| "parse_peers U scheme peers (entry # entries) =
     obind (parse_peer U scheme peers entry) (\<lambda>peers. parse_peers U scheme peers entries)"

definition PeerMap :: "'u url_lib \<Rightarrow> ConnectParameters \<Rightarrow> (64 word, 'u) gomap outcome" where
  "PeerMap U c =
     parse_peers U (if TLSEnabled c then ''https'' else ''http'') [] (strings_Split (CHR '','') (cp_Peers c))"

unbundle bit_operations_syntax

text \<open>\<open>fnv.New64a\<close>: the FNV-1a hash.\<close>

definition fnv_write :: "64 word \<Rightarrow> char \<Rightarrow> 64 word" where
  "fnv_write h c = (h XOR of_char c) * 1099511628211"

definition fnv64a :: "string \<Rightarrow> 64 word" where
  "fnv64a s = foldl fnv_write 14695981039346656037 s"

definition groupClusterID :: "64 word \<Rightarrow> string \<Rightarrow> 64 word outcome" where
  "groupClusterID clusterID g = Ok (fnv64a (decimal (unat clusterID) @ ''/'' @ g))"

definition GetConnectParameters :: "(string \<Rightarrow> string \<Rightarrow> string) \<Rightarrow> ConnectParameters \<Rightarrow> string \<Rightarrow> ConnectParameters outcome" where
  "GetConnectParameters join connectParameters subfolder =
     (if cp_NodeID connectParameters = 0 then Err (NewError ''--raft_node_id is required and must be non-zero'')
      else if cp_Peers connectParameters = '''' then Err (NewError ''--raft_peers is required'')
      else
        let p = connectParameters in
        if cp_Insecure p \<and> (cp_TLSCertFile p \<noteq> '''' \<or> cp_TLSKeyFile p \<noteq> '''' \<or> cp_TLSCAFile p \<noteq> '''')
        then Err (NewError ''--raft_insecure cannot be used with the TLS files'')
        else if \<not> cp_Insecure p \<and> (cp_TLSCertFile p = '''' \<or> cp_TLSKeyFile p = '''' \<or> cp_TLSCAFile p = '''')
        then Err (NewError ''the TLS files are required unless --raft_insecure is set'')
        else
          let p = p\<lparr>cp_DataDir := join (cp_DataDir connectParameters) subfolder\<rparr> in
          obind (groupClusterID (cp_ClusterID connectParameters) subfolder) (\<lambda>groupID.
          Ok (p\<lparr>cp_GroupClusterID := groupID\<rparr>)))"

section \<open>Peers that are written out are parsed back\<close>

lemma decimal_digit_char: "d < 10 \<Longrightarrow> decimal_digit (digit_char d) = Some d"
  by (auto simp: decimal_digit_def digit_char_def Let_def)

lemma ParseUint_digits_append:
  "ParseUint_digits acc (xs @ ys) = Option.bind (ParseUint_digits acc xs) (\<lambda>n. ParseUint_digits n ys)"
  by (induction acc xs rule: ParseUint_digits.induct) (auto simp: Let_def split: option.splits)

lemma ParseUint_digits_decimal: "n < 2 ^ 64 \<Longrightarrow> ParseUint_digits 0 (decimal n) = Some n"
proof (induction n rule: decimal.induct)
  case (1 n)
  show ?case
  proof (cases "n < 10")
    case True
    then show ?thesis by (simp add: decimal.simps [of n] decimal_digit_char)
  next
    case False
    with 1 have IH: "ParseUint_digits 0 (decimal (n div 10)) = Some (n div 10)" by simp
    have "n div 10 * 10 + n mod 10 = n" by simp
    with 1(2) False IH show ?thesis
      by (subst decimal.simps) (simp add: ParseUint_digits_append decimal_digit_char Let_def)
  qed
qed

lemma decimal_chars: "c \<in> set (decimal n) \<Longrightarrow> \<exists>d < 10. c = digit_char d"
proof (induction n rule: decimal.induct)
  case (1 n)
  show ?case
  proof (cases "n < 10")
    case True
    with 1(2) show ?thesis by (auto simp: decimal.simps [of n])
  next
    case False
    with 1(2) have "c \<in> set (decimal (n div 10)) \<or> c = digit_char (n mod 10)" by (auto simp: decimal.simps [of n])
    with 1(1) False show ?thesis by (metis mod_less_divisor zero_less_numeral)
  qed
qed

lemma decimal_no_separator: "CHR '','' \<notin> set (decimal n)" "CHR ''='' \<notin> set (decimal n)" "decimal n \<noteq> []"
proof -
  have "digit_char d \<noteq> CHR '',''" "digit_char d \<noteq> CHR ''=''" if "d < 10" for d
    using decimal_digit_char [OF that] by (auto simp: decimal_digit_def)
  then show "CHR '','' \<notin> set (decimal n)" "CHR ''='' \<notin> set (decimal n)" using decimal_chars by metis+
  show "decimal n \<noteq> []" by (subst decimal.simps) simp
qed

lemma ParseUint_decimal: "ParseUint (decimal (unat w)) = Ok w"
proof -
  have "unat w < 2 ^ 64" using unsigned_less [of w] by simp
  then show ?thesis by (simp add: ParseUint_def ParseUint_digits_decimal decimal_no_separator)
qed

lemma cut_at_first: "sep \<notin> set a \<Longrightarrow> cut_at sep (a @ sep # b) = Some (a, b)"
  by (induction a) auto

definition peer_entry :: "64 word \<times> string \<Rightarrow> string" where
  "peer_entry p = decimal (unat (fst p)) @ ''='' @ snd p"

text \<open>\<open>strings.Join\<close>\<close>

fun join_with :: "char \<Rightarrow> string list \<Rightarrow> string" where
  "join_with sep [] = []"
| "join_with sep [w] = w"
| "join_with sep (w # ws) = w @ sep # join_with sep ws"

lemma strings_Split_join_with:
  assumes "ws \<noteq> []" "list_all (\<lambda>w. sep \<notin> set w) ws"
  shows "strings_Split sep (join_with sep ws) = ws"
proof -
  have "join_with sep (w # vs) = w @ concat (map ((#) sep) vs)" for w vs
    by (induction vs arbitrary: w) simp_all
  with assms strings_Split_join [of sep] show ?thesis by (cases ws) auto
qed

lemma update_new: "k \<notin> fst ` set m \<Longrightarrow> AList.update k v m = m @ [(k, v)]"
  by (induction m) auto

lemma parse_peers_entries:
  assumes "distinct (map fst ps)" "fst ` set acc \<inter> fst ` set ps = {}"
    and "\<And>i s. (i, s) \<in> set ps \<Longrightarrow> i \<noteq> 0 \<and> ul_Parse U s = Ok (f s) \<and> ul_Scheme U (f s) = scheme"
  shows "parse_peers U scheme acc (map peer_entry ps) = Ok (acc @ map (\<lambda>(i, s). (i, f s)) ps)"
  using assms
proof (induction ps arbitrary: acc)
  case (Cons p ps)
  obtain i s where p: "p = (i, s)" by fastforce
  have i: "i \<noteq> 0" "ul_Parse U s = Ok (f s)" "ul_Scheme U (f s) = scheme" using Cons.prems(3) [of i s] p by auto
  have new: "i \<notin> fst ` set acc" using Cons.prems(2) p by auto
  then have "map_of acc i = None" by (simp add: map_of_eq_None_iff)
  then have "parse_peer U scheme acc (peer_entry p) = Ok (acc @ [(i, f s)])"
    using i new by (simp add: parse_peer_def peer_entry_def p cut_at_first decimal_no_separator ParseUint_decimal update_new)
  moreover have "parse_peers U scheme (acc @ [(i, f s)]) (map peer_entry ps) = Ok ((acc @ [(i, f s)]) @ map (\<lambda>(i, s). (i, f s)) ps)"
    using Cons.prems p by (intro Cons.IH) auto
  ultimately show ?case by (simp add: p)
qed simp

text \<open>C40: the flag for the peers. A list of peers with different IDs, none of them 0, and with URLs of the scheme
  that the choice of TLS asks for, written as \<open>nodeID=peerURL\<close> pairs separated by commas, is parsed
  back to exactly the map from these IDs to these URLs.\<close>

theorem PeerMap_roundtrip:
  assumes "ps \<noteq> []" and "distinct (map fst ps)" and "\<forall>(i, s) \<in> set ps. i \<noteq> 0 \<and> CHR '','' \<notin> set s"
    and "\<forall>(i, s) \<in> set ps. ul_Parse U s = Ok (f s) \<and> ul_Scheme U (f s) = (if cp_Insecure c then ''http'' else ''https'')"
    and "cp_Peers c = join_with (CHR '','') (map peer_entry ps)"
  shows "PeerMap U c = Ok (map (\<lambda>(i, s). (i, f s)) ps)"
proof -
  have "list_all (\<lambda>w. CHR '','' \<notin> set w) (map peer_entry ps)"
    using assms(3) by (auto simp: list_all_iff peer_entry_def decimal_no_separator)
  with assms(1,5) have s: "strings_Split (CHR '','') (cp_Peers c) = map peer_entry ps" by (simp add: strings_Split_join_with)
  have "parse_peers U (if TLSEnabled c then ''https'' else ''http'') [] (map peer_entry ps) = Ok ([] @ map (\<lambda>(i, s). (i, f s)) ps)"
    using assms(2-4) by (intro parse_peers_entries) (fastforce simp: TLSEnabled_def split: if_splits)+
  then show ?thesis by (simp add: PeerMap_def s)
qed


section \<open>The groups of a cluster have different IDs\<close>

text \<open>The low bits of a hash depend on the low bits of its state only, and ten of them already tell the
  names of the groups apart, from whatever state they are written to.\<close>

definition low_write :: "nat \<Rightarrow> int \<Rightarrow> char \<Rightarrow> int" where
  "low_write k n c = take_bit k ((n XOR of_char c) * 435)"

definition names_apart :: "nat \<Rightarrow> int \<Rightarrow> int \<Rightarrow> string \<Rightarrow> string \<Rightarrow> bool" where
  "names_apart k lo hi a b \<longleftrightarrow> list_all (\<lambda>n. foldl (low_write k) n a \<noteq> foldl (low_write k) n b) [lo..hi]"

lemma uint_of_char: "uint (of_char c :: 64 word) = of_char c"
proof -
  have "unat (of_char c :: 64 word) = unat (word_of_nat (of_char c) :: 64 word)" by (simp only: of_nat_of_char)
  also have "\<dots> = of_char c"
  proof -
    have "of_char c < (2 :: nat) ^ LENGTH(64)" using nat_of_char_less_256 [of c] by (rule less_trans) simp
    then show ?thesis unfolding unat_of_nat by (rule mod_less)
  qed
  finally show ?thesis by (metis of_nat_of_char of_nat_unat)
qed

lemma low_fnv_write:
  assumes "k \<le> 40"
  shows "take_bit k (uint (fnv_write h c)) = low_write k (take_bit k (uint h)) c"
proof -
  have "(2 :: int) ^ k dvd 2 ^ 40" using assms by (intro le_imp_power_dvd)
  then have p: "take_bit k (1099511628211 :: int) = take_bit k 435"
    unfolding take_bit_eq_mod by (simp add: mod_eq_dvd_iff)
  have "take_bit k (uint (fnv_write h c)) = take_bit k (uint (h XOR of_char c) * 1099511628211)"
    using assms by (simp add: fnv_write_def uint_word_arith_bintrs min_def)
  also have "\<dots> = take_bit k (take_bit k (uint h XOR of_char c) * take_bit k 435)"
    by (simp only: uint_xor uint_of_char p [symmetric] take_bit_mult)
  also have "\<dots> = low_write k (take_bit k (uint h)) c"
    unfolding low_write_def by (simp only: take_bit_mult [symmetric, of k "take_bit k (uint h) XOR of_char c" 435] take_bit_xor take_bit_take_bit min.idem)
  finally show ?thesis .
qed

lemma low_fnv: "k \<le> 40 \<Longrightarrow> take_bit k (uint (foldl fnv_write h s)) = foldl (low_write k) (take_bit k (uint h)) s"
  by (induction s arbitrary: h) (simp_all add: low_fnv_write)

lemma fnv_apart:
  assumes "names_apart k 0 hi a b" "hi = 2 ^ k - 1" "k \<le> 40"
  shows "foldl fnv_write h a \<noteq> foldl fnv_write h b"
proof -
  have "take_bit k (uint h) \<in> set [0..hi]" using take_bit_int_less_exp [of k "uint h"] by (simp add: assms(2))
  with assms(1) have "foldl (low_write k) (take_bit k (uint h)) a \<noteq> foldl (low_write k) (take_bit k (uint h)) b"
    by (simp add: names_apart_def list_all_iff)
  then show ?thesis using low_fnv [OF assms(3)] by metis
qed

lemma names_apart_split: "lo \<le> m \<Longrightarrow> m \<le> hi \<Longrightarrow> names_apart k lo (m - 1) a b \<Longrightarrow> names_apart k m hi a b \<Longrightarrow> names_apart k lo hi a b"
  unfolding names_apart_def list_all_iff by (metis atLeastAtMost_iff linorder_not_le set_upto zle_diff1_eq)

lemma aux_rid_apart: "names_apart 8 0 255 ''aux'' ''rid''"
  by code_simp

lemma rid_scd_apart: "names_apart 8 0 255 ''rid'' ''scd''"
  by code_simp

lemma aux_scd_apart:
  "names_apart 10 0 255 ''aux'' ''scd''" "names_apart 10 256 511 ''aux'' ''scd''"
  "names_apart 10 512 767 ''aux'' ''scd''" "names_apart 10 768 1023 ''aux'' ''scd''"
  by code_simp+


lemma groups_apart:
  assumes "a \<in> {''aux'', ''rid'', ''scd''}" "b \<in> {''aux'', ''rid'', ''scd''}" "a \<noteq> b"
  shows "foldl fnv_write h a \<noteq> foldl fnv_write h b"
proof -
  have "names_apart 10 0 1023 ''aux'' ''scd''"
    using names_apart_split [of 0 768 1023, OF _ _ names_apart_split [of 0 512 "768 - 1", OF _ _ names_apart_split [of 0 256 "512 - 1"]]]
      aux_scd_apart by simp
  then have "foldl fnv_write h ''aux'' \<noteq> foldl fnv_write h ''scd''" by (rule fnv_apart) simp_all
  moreover have "foldl fnv_write h ''aux'' \<noteq> foldl fnv_write h ''rid''" by (rule fnv_apart [OF aux_rid_apart]) simp_all
  moreover have "foldl fnv_write h ''rid'' \<noteq> foldl fnv_write h ''scd''" by (rule fnv_apart [OF rid_scd_apart]) simp_all
  ultimately show ?thesis using assms by auto
qed

lemma groupClusterID_apart:
  assumes "a \<in> {''aux'', ''rid'', ''scd''}" "b \<in> {''aux'', ''rid'', ''scd''}" "a \<noteq> b"
  shows "groupClusterID clusterID a \<noteq> groupClusterID clusterID b"
  using groups_apart [OF assms] by (simp add: groupClusterID_def fnv64a_def)

lemma GetConnectParameters_group:
  "GetConnectParameters join F subfolder = Ok p \<Longrightarrow> groupClusterID (cp_ClusterID F) subfolder = Ok (cp_GroupClusterID p) \<and>
     cp_ClusterID p = cp_ClusterID F \<and> cp_NodeID p \<noteq> 0 \<and> cp_Peers p = cp_Peers F \<and> cp_Insecure p = cp_Insecure F"
  by (auto simp: GetConnectParameters_def groupClusterID_def Let_def split: if_splits)

text \<open>Parameters for a node of three, without TLS.\<close>

definition demo_flags :: ConnectParameters where
  "demo_flags = \<lparr>cp_NodeID = 1, cp_Peers = ''1=http://a,2=http://b'', cp_DataDir = ''raft_data'', cp_ClusterID = 1, cp_GroupClusterID = 0,
     cp_SnapshotCatchupEntries = 5000, cp_SnapshotIntervalEntries = 10000, cp_TickInterval = 100000000, cp_ElectionTick = 10,
     cp_HeartbeatTick = 1, cp_MaxSizePerMsg = 1048576, cp_MaxInflightMsgs = 512, cp_TLSCertFile = '''', cp_TLSKeyFile = '''',
     cp_TLSCAFile = '''', cp_Insecure = True\<rparr>"

definition demo_urls :: "string url_lib" where
  "demo_urls = \<lparr>ul_Parse = Ok, ul_Scheme = takeWhile (\<lambda>c. c \<noteq> CHR '':''), ul_String = (\<lambda>u. u), ul_Port = (\<lambda>_. ''9011'')\<rparr>"

theorem PeerMap_roundtrip_witness: "PeerMap demo_urls demo_flags = Ok [(1, ''http://a''), (2, ''http://b'')]"
proof -
  have "cp_Peers demo_flags = join_with (CHR '','') (map peer_entry [(1, ''http://a''), (2, ''http://b'')])"
    by code_simp
  from PeerMap_roundtrip [OF _ _ _ _ this, of demo_urls id] show ?thesis by (simp add: demo_urls_def demo_flags_def)
qed

end
