(* ===== verification/Aux_Store.thy ===== *)
theory Aux_Store
  imports Raft_Direct Consensus_Node Raft_Params
begin

text \<open>
  The auxiliary store with the participants of a DSS pool and their heartbeats: the models
  (\<open>src/pkg/aux_/models\<close>), the in-memory store (\<open>src/pkg/aux_/store/memstore\<close>) and the repository of the
  replicated store (\<open>src/pkg/aux_/store/raftstore\<close>). It shows that the metadata lists every participant
  once, with its most recent heartbeat; that the replicated methods are those of the in-memory store; and that
  the store of a node is always in the state of an execution of the log.
\<close>

section \<open>Models\<close>

text \<open>A \<open>sql.NullString\<close> is an option.\<close>

record DSSMetadata =
  dm_Locality :: string
  dm_PublicEndpoint :: string
  dm_UpdatedAt :: "time option"
  dm_Source :: "string option"
  dm_Timestamp :: "time option"
  dm_NextHeartbeatExpectedBefore :: "time option"
  dm_Reporter :: "string option"

record aux_Heartbeat =
  hm_Locality :: string
  hm_Source :: string
  hm_Timestamp :: "time option"
  hm_NextHeartbeatExpectedBefore :: "time option"
  hm_Reporter :: string

section \<open>The in-memory store\<close>

record participant =
  pp_PublicEndpoint :: string
  pp_UpdatedAt :: time

record heartbeatKey =
  hk_Locality :: string
  hk_Source :: string

record heartbeat =
  hb_Timestamp :: "time option"
  hb_NextHeartbeatExpectedBefore :: "time option"
  hb_Reporter :: string

text \<open>The maps of the state are never nil: \<open>newRepo\<close> and \<open>clone\<close> make them, and the decoder of a snapshot
  makes a map for every map that was sent.\<close>

record aux_state =
  ax_Participants :: "(string, participant) gomap"
  ax_Heartbeats :: "(heartbeatKey, heartbeat) gomap"

definition SaveOwnMetadata :: "ctx \<Rightarrow> string \<Rightarrow> string \<Rightarrow> (aux_state, unit) op" where
  "SaveOwnMetadata ctx loc publicEndpoint =
     bindE (liftO (MustFromContext ctx)) (\<lambda>now.
     modifies (\<lambda>st. st\<lparr>ax_Participants :=
       AList.update loc \<lparr>pp_PublicEndpoint = publicEndpoint, pp_UpdatedAt = now\<rparr> (ax_Participants st)\<rparr>))"

text \<open>The latest heartbeat of a locality across all sources, with its source. Comparing with a
  timestamp that is nil panics.\<close>

fun latest_heartbeat ::
    "string \<Rightarrow> (heartbeatKey, heartbeat) gomap \<Rightarrow> (string \<times> heartbeat) option \<Rightarrow> (string \<times> heartbeat) option outcome" where
  "latest_heartbeat loc [] latest = Ok latest"
| "latest_heartbeat loc ((key, hb) # hbs) latest =
     (if hk_Locality key \<noteq> loc then latest_heartbeat loc hbs latest
      else case latest of
             None \<Rightarrow> latest_heartbeat loc hbs (Some (hk_Source key, hb))
           | Some (source, l) \<Rightarrow>
               obind (deref (hb_Timestamp hb)) (\<lambda>t.
               obind (deref (hb_Timestamp l)) (\<lambda>u.
               latest_heartbeat loc hbs (if t > u then Some (hk_Source key, hb) else latest))))"

definition metadata_of :: "string \<Rightarrow> participant \<Rightarrow> (string \<times> heartbeat) option \<Rightarrow> DSSMetadata" where
  "metadata_of loc p latest =
     (let m = \<lparr>dm_Locality = loc, dm_PublicEndpoint = pp_PublicEndpoint p, dm_UpdatedAt = Some (pp_UpdatedAt p),
               dm_Source = None, dm_Timestamp = None, dm_NextHeartbeatExpectedBefore = None, dm_Reporter = None\<rparr>
      in case latest of
           None \<Rightarrow> m
         | Some (latestSource, l) \<Rightarrow>
             m\<lparr>dm_Source := Some latestSource, dm_Timestamp := hb_Timestamp l,
               dm_NextHeartbeatExpectedBefore := hb_NextHeartbeatExpectedBefore l, dm_Reporter := Some (hb_Reporter l)\<rparr>)"

fun collect_metadata ::
    "(heartbeatKey, heartbeat) gomap \<Rightarrow> (string, participant) gomap \<Rightarrow> DSSMetadata list \<Rightarrow> DSSMetadata list outcome" where
  "collect_metadata hbs [] metadata = Ok metadata"
| "collect_metadata hbs ((loc, p) # ps) metadata =
     obind (latest_heartbeat loc hbs None) (\<lambda>latest.
     collect_metadata hbs ps (metadata @ [metadata_of loc p latest]))"

definition GetDSSMetadata :: "(aux_state, DSSMetadata list) op" where
  "GetDSSMetadata = reads (\<lambda>st. collect_metadata (ax_Heartbeats st) (ax_Participants st) [])"

definition RecordHeartbeat :: "aux_Heartbeat \<Rightarrow> (aux_state, unit) op" where
  "RecordHeartbeat hb =
     modifies (\<lambda>st. st\<lparr>ax_Heartbeats :=
       AList.update \<lparr>hk_Locality = hm_Locality hb, hk_Source = hm_Source hb\<rparr>
         \<lparr>hb_Timestamp = hm_Timestamp hb, hb_NextHeartbeatExpectedBefore = hm_NextHeartbeatExpectedBefore hb,
          hb_Reporter = hm_Reporter hb\<rparr> (ax_Heartbeats st)\<rparr>)"

definition mem_GetDSSAirspaceRepresentationID :: "(aux_state, string) op" where
  "mem_GetDSSAirspaceRepresentationID =
     fail (NewErrorWithCode NotImplemented ''GetDSSAirspaceRepresentationID not implementable for memstore'')"

section \<open>Checkpoints and snapshots\<close>

definition heartbeat_clone :: "heartbeat \<Rightarrow> heartbeat" where
  "heartbeat_clone h = h\<lparr>hb_Timestamp := map_option (\<lambda>t. t) (hb_Timestamp h),
     hb_NextHeartbeatExpectedBefore := map_option (\<lambda>t. t) (hb_NextHeartbeatExpectedBefore h)\<rparr>"

definition participant_clone :: "participant \<Rightarrow> participant" where
  "participant_clone p = p"

definition aux_state_clone :: "aux_state \<Rightarrow> aux_state" where
  "aux_state_clone s = \<lparr>ax_Participants = map_values participant_clone (ax_Participants s),
     ax_Heartbeats = map_values heartbeat_clone (ax_Heartbeats s)\<rparr>"

type_synonym aux_repo = "aux_state mem_repo"

definition aux_Checkpoint :: "aux_repo \<Rightarrow> aux_repo" where
  "aux_Checkpoint r = r\<lparr>mr_checkpoint := aux_state_clone (mr_state r)\<rparr>"

definition aux_Restore :: "aux_repo \<Rightarrow> aux_repo" where
  "aux_Restore r = r\<lparr>mr_state := aux_state_clone (mr_checkpoint r)\<rparr>"

definition aux_newRepo :: aux_repo where
  "aux_newRepo = (let state = \<lparr>ax_Participants = [], ax_Heartbeats = []\<rparr>
     in \<lparr>mr_state = state, mr_checkpoint = aux_state_clone state\<rparr>)"

record aux_envelope =
  ae_Version :: int
  ae_State :: aux_state

abbreviation aux_snapshotVersion :: int where "aux_snapshotVersion \<equiv> 1"

definition aux_GetSnapshot :: "aux_repo \<Rightarrow> aux_envelope gob_data" where
  "aux_GetSnapshot r = Gob \<lparr>ae_Version = aux_snapshotVersion, ae_State = mr_state r\<rparr>"

definition aux_RestoreFromSnapshot :: "aux_envelope gob_data \<Rightarrow> (aux_repo, unit) op" where
  "aux_RestoreFromSnapshot data r =
     (case data of
        NotGob e \<Rightarrow> (Err e, r)
      | Gob env \<Rightarrow>
          if ae_Version env \<noteq> aux_snapshotVersion
          then (Err (NewError ''Unsupported memstore snapshot version''), r)
          else (Ok (), r\<lparr>mr_state := ae_State env\<rparr>))"

section \<open>What the metadata shows\<close>

text \<open>The heartbeats of a locality.\<close>

definition beats_of :: "string \<Rightarrow> (heartbeatKey, heartbeat) gomap \<Rightarrow> (string \<times> heartbeat) set" where
  "beats_of loc hbs = {(hk_Source key, hb) | key hb. (key, hb) \<in> set hbs \<and> hk_Locality key = loc}"

text \<open>\<open>is_latest loc hbs latest\<close>: there is no heartbeat of the locality, or \<open>latest\<close> is one and no other is
  later.\<close>

definition is_latest :: "string \<Rightarrow> (heartbeatKey, heartbeat) gomap \<Rightarrow> (string \<times> heartbeat) option \<Rightarrow> bool" where
  "is_latest loc hbs latest \<longleftrightarrow>
     (case latest of
        None \<Rightarrow> beats_of loc hbs = {}
      | Some (source, l) \<Rightarrow> (source, l) \<in> beats_of loc hbs \<and>
          (\<forall>(s, hb) \<in> beats_of loc hbs. the (hb_Timestamp hb) \<le> the (hb_Timestamp l)))"

definition timed :: "heartbeat \<Rightarrow> bool" where
  "timed hb \<longleftrightarrow> hb_Timestamp hb \<noteq> None"

fun all_timed :: "(heartbeatKey, heartbeat) gomap \<Rightarrow> bool" where
  "all_timed [] = True"
| "all_timed ((key, hb) # hbs) = (timed hb \<and> all_timed hbs)"

definition aux_wf :: "aux_state \<Rightarrow> bool" where
  "aux_wf st \<longleftrightarrow> wf_gomap (ax_Participants st) \<and> wf_gomap (ax_Heartbeats st) \<and> all_timed (ax_Heartbeats st)"

lemma beats_of_simps [simp]:
  "beats_of loc [] = {}"
  "beats_of loc ((key, hb) # hbs) = (if hk_Locality key = loc then insert (hk_Source key, hb) (beats_of loc hbs) else beats_of loc hbs)"
  by (auto simp: beats_of_def)

lemma latest_heartbeat_from:
  assumes "all_timed hbs" and "timed l"
  shows "\<exists>s' l'. latest_heartbeat loc hbs (Some (s, l)) = Ok (Some (s', l')) \<and> (s', l') \<in> insert (s, l) (beats_of loc hbs) \<and>
    (\<forall>(t, hb) \<in> insert (s, l) (beats_of loc hbs). the (hb_Timestamp hb) \<le> the (hb_Timestamp l'))"
  using assms
proof (induction hbs arbitrary: s l)
  case (Cons k hbs)
  obtain key hb where k: "k = (key, hb)" by fastforce
  from Cons.prems k obtain t u where t: "hb_Timestamp hb = Some t" "hb_Timestamp l = Some u" by (auto simp: timed_def)
  have rest: "all_timed hbs" "timed hb" "timed l" using Cons.prems k by auto
  show ?case
  proof (cases "hk_Locality key = loc")
    case True
    from Cons.IH [OF rest(1,2), of "hk_Source key"] Cons.IH [OF rest(1,3), of s] show ?thesis
      using True t by (cases "t > u") (force simp: k)+
  qed (use Cons.IH [OF rest(1,3), of s] k in simp)
qed simp

lemma latest_heartbeat_is_latest:
  "all_timed hbs \<Longrightarrow> \<exists>found. latest_heartbeat loc hbs None = Ok found \<and> is_latest loc hbs found"
proof (induction hbs)
  case (Cons k hbs)
  obtain key hb where k: "k = (key, hb)" by fastforce
  show ?case
  proof (cases "hk_Locality key = loc")
    case True
    with Cons.prems k latest_heartbeat_from [of hbs hb loc "hk_Source key"] show ?thesis by (auto simp: is_latest_def)
  qed (use Cons k in \<open>auto simp: is_latest_def split: option.splits\<close>)
qed (simp add: is_latest_def)

lemma collect_metadata_run:
  assumes "all_timed hbs"
  shows "\<exists>ls. length ls = length ps \<and> (\<forall>i < length ps. is_latest (fst (ps ! i)) hbs (ls ! i)) \<and>
    collect_metadata hbs ps acc = Ok (acc @ map (\<lambda>((loc, p), l). metadata_of loc p l) (zip ps ls))"
proof (induction ps arbitrary: acc)
  case (Cons k ps)
  obtain loc p where k: "k = (loc, p)" by fastforce
  obtain l where l: "latest_heartbeat loc hbs None = Ok l" "is_latest loc hbs l"
    using latest_heartbeat_is_latest [OF assms] by blast
  from Cons.IH [of "acc @ [metadata_of loc p l]"] obtain ls where
    "length ls = length ps" "\<forall>i < length ps. is_latest (fst (ps ! i)) hbs (ls ! i)"
    "collect_metadata hbs ps (acc @ [metadata_of loc p l]) =
      Ok ((acc @ [metadata_of loc p l]) @ map (\<lambda>((loc, p), l). metadata_of loc p l) (zip ps ls))" by blast
  with l k show ?case by (intro exI [of _ "l # ls"]) (auto simp: nth_Cons split: nat.splits)
qed simp

lemma metadata_of_Locality [simp]: "dm_Locality (metadata_of loc p l) = loc"
  by (simp add: metadata_of_def Let_def split: option.splits)

lemma GetDSSMetadata_run:
  assumes "aux_wf st"
  shows "\<exists>ms. GetDSSMetadata st = (Ok ms, st) \<and> distinct (map dm_Locality ms) \<and>
    set (map dm_Locality ms) = dom (map_of (ax_Participants st)) \<and>
    (\<forall>m \<in> set ms. \<exists>p latest. map_of (ax_Participants st) (dm_Locality m) = Some p \<and>
       is_latest (dm_Locality m) (ax_Heartbeats st) latest \<and> m = metadata_of (dm_Locality m) p latest)"
proof -
  let ?ps = "ax_Participants st" and ?hbs = "ax_Heartbeats st"
  have wf: "wf_gomap ?ps" "all_timed ?hbs" using assms by (auto simp: aux_wf_def)
  obtain ls where ls: "length ls = length ?ps" "\<forall>i < length ?ps. is_latest (fst (?ps ! i)) ?hbs (ls ! i)"
      "collect_metadata ?hbs ?ps [] = Ok (map (\<lambda>((loc, p), l). metadata_of loc p l) (zip ?ps ls))"
    using collect_metadata_run [OF wf(2), of ?ps "[]"] by auto
  define ms where "ms = map (\<lambda>((loc, p), l). metadata_of loc p l) (zip ?ps ls)"
  have f: "map dm_Locality ms = map fst ?ps"
    using ls(1) by (auto simp: ms_def list_eq_iff_nth_eq split: prod.splits)
  have "\<exists>p latest. map_of ?ps (dm_Locality m) = Some p \<and> is_latest (dm_Locality m) ?hbs latest \<and>
      m = metadata_of (dm_Locality m) p latest" if "m \<in> set ms" for m
  proof -
    from that ls(1) obtain i loc p where i: "i < length ?ps" "?ps ! i = (loc, p)" "m = metadata_of loc p (ls ! i)"
      by (force simp: ms_def in_set_conv_nth)
    then have "map_of ?ps loc = Some p" using wf(1) by (metis nth_mem wf_gomap_map_of)
    moreover have "is_latest loc ?hbs (ls ! i)" using ls(2) i by force
    ultimately show ?thesis using i by auto
  qed
  moreover have "GetDSSMetadata st = (Ok ms, st)" using ls(3) by (simp add: GetDSSMetadata_def ms_def)
  moreover have "distinct (map dm_Locality ms)" "set (map dm_Locality ms) = dom (map_of ?ps)"
    using wf(1) by (simp_all add: f wf_gomap_def dom_map_of_conv_image_fst)
  ultimately show ?thesis by blast
qed

text \<open>C35: the metadata of the pool. When every stored heartbeat has a timestamp, the metadata can always be
  read; it lists every participant exactly once, with the endpoint and the time of its last registration and
  with a heartbeat of the participant that no other of its heartbeats is later than, or with none when
  there is none.\<close>

theorem GetDSSMetadata_exact:
  assumes "aux_wf st"
  shows "\<exists>ms. GetDSSMetadata st = (Ok ms, st) \<and> distinct (map dm_Locality ms) \<and>
    set (map dm_Locality ms) = dom (map_of (ax_Participants st)) \<and>
    (\<forall>m \<in> set ms. \<exists>p latest. map_of (ax_Participants st) (dm_Locality m) = Some p \<and>
       is_latest (dm_Locality m) (ax_Heartbeats st) latest \<and> m = metadata_of (dm_Locality m) p latest)"
  using assms by (rule GetDSSMetadata_run)

text \<open>The store stays well-formed.\<close>

lemma all_timed_update: "all_timed hbs \<Longrightarrow> timed hb \<Longrightarrow> all_timed (AList.update k hb hbs)"
  by (induction hbs rule: all_timed.induct) auto

lemma preserves_aux_wf:
  "preserves aux_wf (SaveOwnMetadata ctx loc publicEndpoint)" "preserves aux_wf GetDSSMetadata"
  "hm_Timestamp hb \<noteq> None \<Longrightarrow> preserves aux_wf (RecordHeartbeat hb)"
  unfolding SaveOwnMetadata_def GetDSSMetadata_def RecordHeartbeat_def
  by (intro pres_intros; simp add: aux_wf_def all_timed_update timed_def)+

lemma readonly_GetDSSMetadata: "readonly GetDSSMetadata"
  by (simp add: GetDSSMetadata_def readonly_def)

section \<open>The replicated store\<close>

text \<open>The encodings of \<open>encoding/json\<close> at the types of the payloads.\<close>

record aux_codec =
  jx_save :: "string \<Rightarrow> (string \<times> string) outcome"
  jx_heartbeat :: "string \<Rightarrow> aux_Heartbeat outcome"

record aux_marshal =
  jxm_save :: "string \<times> string \<Rightarrow> string outcome"
  jxm_heartbeat :: "aux_Heartbeat \<Rightarrow> string outcome"

datatype aux_any = AuxNil | AuxMetadata "DSSMetadata list"

definition aux_Apply :: "aux_codec \<Rightarrow> ctx \<times> Proposal \<Rightarrow> (aux_state, aux_any) op" where
  "aux_Apply J = (\<lambda>(ctx, proposal).
     let ty = pr_RequestType proposal; v = pr_Value proposal in
     if ty = ''saveOwnMetadata''
     then with_payload (jx_save J v) (\<lambda>(loc, publicEndpoint). SaveOwnMetadata ctx loc publicEndpoint) (\<lambda>_. AuxNil)
     else if ty = ''getDSSMetadata'' then with_payload (Ok ()) (\<lambda>_. GetDSSMetadata) AuxMetadata
     else if ty = ''recordHeartbeat'' then with_payload (jx_heartbeat J v) RecordHeartbeat (\<lambda>_. AuxNil)
     else fail (NewError (''unknown request type: '' @ ty)))"

definition aux_RaftRepo :: "aux_codec \<Rightarrow> (aux_repo, aux_envelope gob_data, aux_any) RaftRepo" where
  "aux_RaftRepo J = \<lparr>rr_Checkpoint = aux_Checkpoint, rr_Restore = aux_Restore,
     rr_RestoreFromSnapshot = aux_RestoreFromSnapshot, rr_Apply = (\<lambda>p. on_state (aux_Apply J p))\<rparr>"

lemma aux_RaftRepo_sel [simp]:
  "rr_Checkpoint (aux_RaftRepo J) = aux_Checkpoint" "rr_Restore (aux_RaftRepo J) = aux_Restore"
  "rr_RestoreFromSnapshot (aux_RaftRepo J) = aux_RestoreFromSnapshot"
  "rr_Apply (aux_RaftRepo J) = (\<lambda>p. on_state (aux_Apply J p)) \<circ> id"
  by (simp_all add: aux_RaftRepo_def)

lemma aux_state_clone_id [simp]: "aux_state_clone s = s"
  by (simp add: aux_state_clone_def map_values_same participant_clone_def heartbeat_clone_def option.map_ident)

interpretation aux_raft: checkpointed_repo aux_Checkpoint aux_Restore mr_state mr_checkpoint "\<lambda>p. on_state (aux_Apply J p)" for J
  by unfold_locales (simp_all add: aux_Checkpoint_def aux_Restore_def)

interpretation aux_replica: replicated_repo aux_Checkpoint aux_Restore mr_state mr_checkpoint
  "\<lambda>p. on_state (aux_Apply J p)" aux_GetSnapshot aux_RestoreFromSnapshot "\<lambda>_. True" "aux_RaftRepo J" for J
proof (unfold_locales, goal_cases)
  case (2 d r q r' q')
  then show ?case by (auto simp: aux_RestoreFromSnapshot_def split: gob_data.splits if_splits)
qed (simp_all add: aux_RestoreFromSnapshot_def aux_GetSnapshot_def on_state_def split: prod.splits)

interpretation aux_direct: direct_repo "aux_Apply J" "aux_RaftRepo J" "[''getDSSMetadata'']" for J
  by unfold_locales (auto simp: aux_RaftRepo_def aux_Checkpoint_def aux_Restore_def aux_Apply_def
      intro!: readonly_with_payload readonly_GetDSSMetadata)

text \<open>Every snapshot is faithful: nothing of this state gets lost in its encoding.\<close>

definition aux_read_request :: "Proposal \<Rightarrow> bool" where
  "aux_read_request p \<longleftrightarrow> pr_ReadOnly p \<and> pr_RequestType p = ''getDSSMetadata''"

lemma aux_read_keeps:
  assumes "aux_read_request p" "processCommit (aux_RaftRepo J) \<lparr>ec_Prop = p, ec_SnapshotData = None\<rparr> r = (Replied x, r')"
  shows "mr_state r' = mr_state r"
  using assms readonlyD [OF aux_direct.reads_harmless, of p]
  by (auto simp: aux_read_request_def aux_RaftRepo_def processCommit_def Let_def on_state_def split: prod.splits outcome.splits)

text \<open>The store of a node is in the state of an execution of the log, whatever the order of its maps (\<open>alike\<close>).\<close>

lemma aux_node_runs:
  assumes "env_repo E = aux_RaftRepo J" and "env_getAppSnapshot E = aux_GetSnapshot" and "numbered lg"
    and "node_reachable E nil i (\<lambda>_. True) aux_read_request (\<lambda>r r'. alike (mr_state r) (mr_state r')) lg aux_newRepo nd"
  shows "\<exists>r. log_run E (\<lambda>r r'. alike (mr_state r) (mr_state r')) lg aux_newRepo (unat (nd_appliedIndex nd)) r \<and>
    mr_state r = mr_state (nd_repo nd)"
proof -
  have "node_inv mr_state E (\<lambda>r r'. alike (mr_state r) (mr_state r')) lg aux_newRepo nd"
    by (rule aux_replica.node_runs [OF assms(1-3) _ _ assms(4)]) (erule (1) aux_read_keeps, simp)
  then show ?thesis by (simp add: node_inv_def)
qed

subsection \<open>The methods of the repository\<close>

fun as_Metadata :: "aux_any \<Rightarrow> DSSMetadata list option" where
  "as_Metadata (AuxMetadata x) = Some x" | "as_Metadata AuxNil = Some []"

definition as_nothing :: "aux_any \<Rightarrow> unit option" where
  "as_nothing _ = Some ()"

definition raft_SaveOwnMetadata ::
    "aux_codec \<Rightarrow> aux_marshal \<Rightarrow> consensus_call \<Rightarrow> ctx \<Rightarrow> string \<Rightarrow> string \<Rightarrow> (aux_repo, unit) op" where
  "raft_SaveOwnMetadata J K c ctx locality publicEndpoint =
     direct_write (aux_RaftRepo J) c ctx ''saveOwnMetadata'' (jxm_save K (locality, publicEndpoint)) as_nothing"

definition raft_GetDSSMetadata :: "aux_codec \<Rightarrow> consensus_call \<Rightarrow> ctx \<Rightarrow> (aux_repo, DSSMetadata list) op" where
  "raft_GetDSSMetadata J c ctx = direct_read (aux_RaftRepo J) c ctx ''getDSSMetadata'' (Ok '''') as_Metadata"

definition raft_RecordHeartbeat ::
    "aux_codec \<Rightarrow> aux_marshal \<Rightarrow> consensus_call \<Rightarrow> ctx \<Rightarrow> aux_Heartbeat \<Rightarrow> (aux_repo, unit) op" where
  "raft_RecordHeartbeat J K c ctx hb =
     direct_write (aux_RaftRepo J) c ctx ''recordHeartbeat'' (jxm_heartbeat K hb) as_nothing"

text \<open>The ID of the cluster, of the flags of the process, as a signed number.\<close>

definition raft_GetDSSAirspaceRepresentationID ::
    "(string \<Rightarrow> string \<Rightarrow> string) \<Rightarrow> ConnectParameters \<Rightarrow> (aux_repo, string) op" where
  "raft_GetDSSAirspaceRepresentationID join F =
     bindE (liftO (GetConnectParameters join F ''aux'')) (\<lambda>connectParameters.
     ret (Itoa (sint (cp_ClusterID connectParameters))))"

definition aux_codec_inverts :: "aux_codec \<Rightarrow> aux_marshal \<Rightarrow> bool" where
  "aux_codec_inverts J K \<longleftrightarrow>
     (\<forall>x v. jxm_save K x = Ok v \<longrightarrow> jx_save J v = Ok x) \<and> (\<forall>x v. jxm_heartbeat K x = Ok v \<longrightarrow> jx_heartbeat J v = Ok x) \<and>
     (\<forall>x e. jxm_save K x = Err e \<longrightarrow> GetCode e = None) \<and> (\<forall>x e. jxm_heartbeat K x = Err e \<longrightarrow> GetCode e = None)"

lemma aux_methods:
  assumes "aux_codec_inverts J K"
  shows "reads_as (live_call c ctx (Ok '''')) GetDSSMetadata (raft_GetDSSMetadata J c ctx)"
    and "runs_as (live_call c ctx (jxm_save K (loc, ep))) (SaveOwnMetadata ctx loc ep) (raft_SaveOwnMetadata J K c ctx loc ep)"
    and "runs_as (live_call c ctx (jxm_heartbeat K hb)) (RecordHeartbeat hb) (raft_RecordHeartbeat J K c ctx hb)"
  unfolding raft_GetDSSMetadata_def raft_SaveOwnMetadata_def raft_RecordHeartbeat_def
  using assms
  by - (rule aux_direct.read_runs_as [where wrap = AuxMetadata] aux_direct.write_runs_as [where wrap = "\<lambda>_. AuxNil"];
      auto simp: aux_codec_inverts_def aux_Apply_def with_payload_run as_nothing_def readonly_GetDSSMetadata)+

section \<open>A pool\<close>

definition demo_pool :: aux_state where
  "demo_pool = \<lparr>ax_Participants = [(''uss1'', \<lparr>pp_PublicEndpoint = ''https://one'', pp_UpdatedAt = 10\<rparr>),
       (''uss2'', \<lparr>pp_PublicEndpoint = ''https://two'', pp_UpdatedAt = 20\<rparr>)],
     ax_Heartbeats = [(\<lparr>hk_Locality = ''uss1'', hk_Source = ''a''\<rparr>, \<lparr>hb_Timestamp = Some 50, hb_NextHeartbeatExpectedBefore = None, hb_Reporter = ''r''\<rparr>),
       (\<lparr>hk_Locality = ''uss1'', hk_Source = ''b''\<rparr>, \<lparr>hb_Timestamp = Some 70, hb_NextHeartbeatExpectedBefore = Some 90, hb_Reporter = ''r''\<rparr>)]\<rparr>"

lemma demo_pool_wf: "aux_wf demo_pool"
  by (simp add: demo_pool_def aux_wf_def wf_gomap_def timed_def)

theorem GetDSSMetadata_exact_witness:
  "\<exists>ms. GetDSSMetadata demo_pool = (Ok ms, demo_pool) \<and> set (map dm_Locality ms) = {''uss1'', ''uss2''} \<and>
     (\<forall>m \<in> set ms. dm_Locality m = ''uss1'' \<longrightarrow> dm_Source m = Some ''b'' \<and> dm_Timestamp m = Some 70)"
proof -
  from GetDSSMetadata_exact [OF demo_pool_wf] obtain ms where ms: "GetDSSMetadata demo_pool = (Ok ms, demo_pool)"
      "set (map dm_Locality ms) = dom (map_of (ax_Participants demo_pool))" by blast
  have "dom (map_of (ax_Participants demo_pool)) = {''uss1'', ''uss2''}" by (auto simp: demo_pool_def)
  moreover have "\<forall>m \<in> set ms. dm_Locality m = ''uss1'' \<longrightarrow> dm_Source m = Some ''b'' \<and> dm_Timestamp m = Some 70"
    using ms(1) by (auto simp: GetDSSMetadata_def demo_pool_def metadata_of_def)
  ultimately show ?thesis using ms by auto
qed

end
