(* ===== verification/Aux_Server.thy ===== *)
theory Aux_Server
  imports Aux_Store Rest_Server
begin

text \<open>
  The REST handlers of the auxiliary API, \<open>src/pkg/aux_\<close>: the version, the check of a token, the pool and its
  participants, the heartbeats, the accepted certificate authorities and the options of the store.
\<close>

section \<open>The server\<close>

text \<open>\<open>repos.Repository\<close>\<close>

record 's aux_repository =
  xr_SaveOwnMetadata :: "ctx \<Rightarrow> string \<Rightarrow> string \<Rightarrow> ('s, unit) op"
  xr_GetDSSMetadata :: "ctx \<Rightarrow> ('s, DSSMetadata list) op"
  xr_RecordHeartbeat :: "ctx \<Rightarrow> aux_Heartbeat \<Rightarrow> ('s, unit) op"
  xr_GetDSSAirspaceRepresentationID :: "ctx \<Rightarrow> ('s, string) op"

record store_Options =
  op_GlobalLock :: bool
  op_HashLock :: bool
  op_TimeBasedNotificationIndex :: bool

text \<open>The version, the names of the certificate files and the content of files are those of the process.\<close>

record 's aux_server =
  xs_Interact :: "ctx \<Rightarrow> 's aux_repository outcome"
  xs_Locality :: string
  xs_Options :: store_Options
  xs_version :: string
  xs_CAFile :: string
  xs_InstanceCAFile :: string
  xs_ReadFile :: "string \<Rightarrow> dss_error + string"

record aux_rest_Heartbeat =
  xh_Timestamp :: string
  xh_Reporter :: "string option"
  xh_Source :: string
  xh_NextHeartbeatExpectedBefore :: "string option"

record DSSInstance =
  di_Id :: string
  di_PublicEndpoint :: "string option"
  di_MostRecentHeartbeat :: "aux_rest_Heartbeat option"

datatype aux_body =
    VersionResponse string
  | EmptyResponseBody
  | PoolResponse string
  | DSSInstancesResponse "DSSInstance list"
  | CAsResponse "string list option"
  | GlobalOptionsResponse bool bool bool

text \<open>The request of a heartbeat.\<close>

record heartbeat_request =
  hq_Source :: "string option"
  hq_Timestamp :: "string option"
  hq_NextHeartbeatExpectedBefore :: "string option"
  hq_Auth :: AuthorizationResult

text \<open>\<open>if err != nil { return response(err) }\<close> after an operation on the store.\<close>

definition attempt :: "('s, 'x) op \<Rightarrow> (dss_error \<Rightarrow> 'r) \<Rightarrow> ('x \<Rightarrow> ('s, 'r) op) \<Rightarrow> ('s, 'r) op" where
  "attempt m onErr k s =
     (case m s of (Ok x, t) \<Rightarrow> k x t | (Err e, t) \<Rightarrow> (Ok (onErr e), t) | (Panic, t) \<Rightarrow> (Panic, t))"

section \<open>Version, token and options\<close>

definition aux_GetVersion :: "'s aux_server \<Rightarrow> ('s, aux_body ResponseSet) op" where
  "aux_GetVersion sv = ret [200 \<mapsto> ResponseBody (VersionResponse (xs_version sv))]"

definition ValidateOauth :: "string \<Rightarrow> string option \<Rightarrow> AuthorizationResult \<Rightarrow> ('s, aux_body ResponseSet) op" where
  "ValidateOauth errID owner auth =
     (case au_ClientID auth of
        None \<Rightarrow> missing_client errID ''Missing owner''
      | Some client \<Rightarrow>
          if \<exists>o1. owner = Some o1 \<and> o1 \<noteq> client
          then ret [403 \<mapsto> error_response errID (NewErrorWithCode PermissionDenied
                 (''Owner mismatch, required: '' @ the owner @ '', but oauth token has '' @ client))]
          else ret [200 \<mapsto> ResponseBody EmptyResponseBody])"

definition GetGlobalOptions :: "'s aux_server \<Rightarrow> ('s, aux_body ResponseSet) op" where
  "GetGlobalOptions sv = ret [200 \<mapsto> ResponseBody (GlobalOptionsResponse (op_GlobalLock (xs_Options sv))
     (op_HashLock (xs_Options sv)) (op_TimeBasedNotificationIndex (xs_Options sv)))]"

section \<open>Certificate authorities\<close>

abbreviation START_OF_CERTIFICATE :: string where
  "START_OF_CERTIFICATE \<equiv> ''-----BEGIN CERTIFICATE-----''"

text \<open>\<open>strings.Split\<close> at a separator that is not empty, and \<open>strings.Trim\<close>.\<close>

function split_on :: "string \<Rightarrow> string \<Rightarrow> string \<Rightarrow> string list" where
  "split_on sep piece s =
     (if s = [] then [piece]
      else if sep \<noteq> [] \<and> take (length sep) s = sep then piece # split_on sep [] (drop (length sep) s)
      else split_on sep (piece @ [hd s]) (tl s))"
  by pat_completeness auto
termination
  by (relation "measure (\<lambda>(sep, piece, s). length s)") (auto simp: Suc_leI)

declare split_on.simps [simp del]

definition strings_Trim :: "string \<Rightarrow> string \<Rightarrow> string" where
  "strings_Trim s cutset = rev (dropWhile (\<lambda>c. c \<in> set cutset) (rev (dropWhile (\<lambda>c. c \<in> set cutset) s)))"

definition newline :: string where
  "newline = [CHR 0x0A]"

text \<open>The loop over the pieces of a file.\<close>

definition split_CAs :: "string \<Rightarrow> string list" where
  "split_CAs data =
     map (\<lambda>CA. START_OF_CERTIFICATE @ newline @ CA)
       (filter (\<lambda>CA. CA \<noteq> []) (map (\<lambda>CA. strings_Trim CA [CHR 0x0D, CHR 0x0A]) (split_on START_OF_CERTIFICATE [] data)))"

definition CAs_of_file :: "'s aux_server \<Rightarrow> string \<Rightarrow> string \<Rightarrow> ('s, aux_body ResponseSet) op" where
  "CAs_of_file sv CAFile what =
     (if CAFile = '''' then ret [200 \<mapsto> ResponseBody (CAsResponse None)]
      else case xs_ReadFile sv CAFile of
             Inl err \<Rightarrow> ret [501 \<mapsto> ErrorResponse (''Unable to read CA certificate file for '' @ what @
               '', did try to read '' @ [CHR 0x27] @ CAFile @ [CHR 0x27] @ '', got: '' @ RootCause err)]
           | Inr data \<Rightarrow> ret [200 \<mapsto> ResponseBody (CAsResponse (Some (split_CAs data)))])"

definition GetAcceptedCAs :: "'s aux_server \<Rightarrow> ('s, aux_body ResponseSet) op" where
  "GetAcceptedCAs sv = CAs_of_file sv (xs_CAFile sv) ''accepted CAs''"

definition GetInstanceCAs :: "'s aux_server \<Rightarrow> ('s, aux_body ResponseSet) op" where
  "GetInstanceCAs sv = CAs_of_file sv (xs_InstanceCAFile sv) ''this DSS instance''"

section \<open>The pool and its participants\<close>

definition aux_server_error :: "string \<Rightarrow> dss_error \<Rightarrow> 'a ResponseSet" where
  "aux_server_error errID e = [500 \<mapsto> internal_error errID e]"

definition GetPool :: "'s aux_server \<Rightarrow> string \<Rightarrow> ctx \<Rightarrow> ('s, aux_body ResponseSet) op" where
  "GetPool sv errID ctx =
     check (xs_Interact sv ctx) (aux_server_error errID) (\<lambda>repo.
     respond (xr_GetDSSAirspaceRepresentationID repo ctx) (by_code errID [(NotImplemented, 501)])
       (\<lambda>darID. [200 \<mapsto> ResponseBody (PoolResponse darID)]))"

text \<open>The latest heartbeat is shown when it has a source; its timestamp is dereferenced then.\<close>

definition instance_of :: "externals \<Rightarrow> DSSMetadata \<Rightarrow> DSSInstance outcome" where
  "instance_of L m =
     (let i = \<lparr>di_Id = dm_Locality m, di_PublicEndpoint = Some (dm_PublicEndpoint m), di_MostRecentHeartbeat = None\<rparr>
      in case dm_Source m of
           None \<Rightarrow> Ok i
         | Some source \<Rightarrow>
             obind (deref (dm_Timestamp m)) (\<lambda>t.
             Ok (i\<lparr>di_MostRecentHeartbeat := Some \<lparr>xh_Timestamp = time_FormatRFC3339Nano L t,
                     xh_Reporter = Some (case dm_Reporter m of None \<Rightarrow> '''' | Some x \<Rightarrow> x), xh_Source = source,
                     xh_NextHeartbeatExpectedBefore = map_option (time_FormatRFC3339Nano L) (dm_NextHeartbeatExpectedBefore m)\<rparr>\<rparr>)))"

fun instances_of :: "externals \<Rightarrow> DSSMetadata list \<Rightarrow> DSSInstance list outcome" where
  "instances_of L [] = Ok []"
| "instances_of L (m # ms) = obind (instance_of L m) (\<lambda>i. obind (instances_of L ms) (\<lambda>is. Ok (i # is)))"

definition GetDSSInstances :: "externals \<Rightarrow> 's aux_server \<Rightarrow> string \<Rightarrow> ctx \<Rightarrow> ('s, aux_body ResponseSet) op" where
  "GetDSSInstances L sv errID ctx =
     check (xs_Interact sv ctx) (aux_server_error errID) (\<lambda>repo.
     respondO (xr_GetDSSMetadata repo ctx) (by_code errID [(NotImplemented, 501)])
       (\<lambda>metadata. obind (instances_of L metadata) (\<lambda>instances. Ok [200 \<mapsto> ResponseBody (DSSInstancesResponse instances)])))"

text \<open>A time of the query; the error of the parser is shown.\<close>

definition query_time :: "externals \<Rightarrow> string \<Rightarrow> time outcome" where
  "query_time L s = (case time_ParseRFC3339Nano L s of None \<Rightarrow> Err (NewError ''cannot parse as RFC3339 time'') | Some t \<Rightarrow> Ok t)"

text \<open>The bodies that \<open>PutDSSInstancesHeartbeat\<close> takes over from the response to \<open>GetDSSInstances\<close>.\<close>

definition created :: "aux_body ResponseSet \<Rightarrow> aux_body ResponseSet" where
  "created R = (\<lambda>n. if n = 201 then R 200 else if n \<in> {401, 403, 500, 501} then R n else None)"

definition PutDSSInstancesHeartbeat ::
    "externals \<Rightarrow> 's aux_server \<Rightarrow> string \<Rightarrow> ctx \<Rightarrow> heartbeat_request \<Rightarrow> ('s, aux_body ResponseSet) op" where
  "PutDSSInstancesHeartbeat L sv errID ctx req =
     check (xs_Interact sv ctx) (aux_server_error errID) (\<lambda>repo.
     case hq_Source req of
       None \<Rightarrow> ret [400 \<mapsto> ErrorResponse (errors_Handle errID None)]
     | Some source \<Rightarrow>
         if source = '''' then ret [400 \<mapsto> ErrorResponse (errors_Handle errID None)]
         else
           bindE (liftO (deref (au_ClientID (hq_Auth req)))) (\<lambda>reporter.
           check (case hq_Timestamp req of Some s \<Rightarrow> query_time L s | None \<Rightarrow> MustFromContext ctx) (bad_request errID) (\<lambda>ts.
           check (case hq_NextHeartbeatExpectedBefore req of
                    None \<Rightarrow> Ok None
                  | Some s \<Rightarrow> obind (query_time L s) (\<lambda>t.
                      if t < ts
                      then Err (NewErrorWithCode BadRequest
                        ''Cannot expect the timestamp of the next heartbeat before the timestamp of the new heartbeat'')
                      else Ok (Some t))) (bad_request errID) (\<lambda>nextTs.
           attempt (xr_RecordHeartbeat repo ctx
               \<lparr>hm_Locality = xs_Locality sv, hm_Source = source, hm_Timestamp = Some ts,
                hm_NextHeartbeatExpectedBefore = nextTs, hm_Reporter = reporter\<rparr>) (bad_request errID) (\<lambda>_.
           bindE (GetDSSInstances L sv errID ctx) (\<lambda>getResponse. ret (created getResponse)))))))"

section \<open>The certificates of a file\<close>

abbreviation occurs_in :: "string \<Rightarrow> string \<Rightarrow> bool" where
  "occurs_in sep s \<equiv> \<exists>a b. s = a @ sep @ b"

lemma split_on_none:
  "sep \<noteq> [] \<Longrightarrow> \<not> occurs_in sep s \<Longrightarrow> split_on sep piece s = [piece @ s]"
proof (induction s arbitrary: piece)
  case Nil
  then show ?case by (simp add: split_on.simps)
next
  case (Cons c s)
  have "take (length sep) (c # s) \<noteq> sep"
    using Cons.prems(2) by (metis append.left_neutral append_take_drop_id)
  moreover have "\<not> occurs_in sep s" using Cons.prems(2) by (metis append_Cons)
  ultimately show ?case using Cons by (simp add: split_on.simps [of _ _ "c # s"])
qed

text \<open>A piece that ends with a character that is not of the separator is found as a whole.\<close>

lemma split_on_next:
  assumes "sep \<noteq> []" and "\<not> occurs_in sep s" and "s = [] \<or> last s \<notin> set sep"
  shows "split_on sep piece (s @ sep @ rest) = (piece @ s) # split_on sep [] rest"
  using assms(2,3)
proof (induction s arbitrary: piece)
  case Nil
  then show ?case using assms(1) by (simp add: split_on.simps [of _ _ "sep @ rest"])
next
  case (Cons c s)
  have "take (length sep) (c # s @ sep @ rest) \<noteq> sep"
  proof
    assume t: "take (length sep) (c # s @ sep @ rest) = sep"
    show False
    proof (cases "length sep \<le> length (c # s)")
      case True
      with t have "take (length sep) (c # s) = sep" by (metis append_Cons append_take_drop_id diff_is_0_eq take0 take_append append_Nil2)
      with Cons.prems(1) show False by (metis append.left_neutral append_take_drop_id)
    next
      case False
      with t have "set (c # s) \<subseteq> set sep"
        by (metis append_Cons linorder_not_le nat_less_le set_take_subset take_all take_append set_append Un_upper1)
      with Cons.prems(2) show False by (metis last_in_set list.discI subsetD)
    qed
  qed
  moreover have "\<not> occurs_in sep s" using Cons.prems(1) by (metis append_Cons)
  moreover have "s = [] \<or> last s \<notin> set sep" using Cons.prems(2) by (cases s) auto
  ultimately show ?case using Cons.IH by (simp add: split_on.simps [of _ _ "c # _"])
qed

text \<open>The text of a certificate after its first line, as a file holds it, and a file of certificates.\<close>

definition certificate_text :: "string \<Rightarrow> bool" where
  "certificate_text c \<longleftrightarrow> c \<noteq> [] \<and> hd c \<notin> {CHR 0x0D, CHR 0x0A} \<and> last c \<notin> {CHR 0x0D, CHR 0x0A} \<and>
     \<not> occurs_in START_OF_CERTIFICATE (newline @ c @ newline)"

definition CA_file :: "string list \<Rightarrow> string" where
  "CA_file cs = concat (map (\<lambda>c. START_OF_CERTIFICATE @ newline @ c @ newline) cs)"

lemma CA_file_pieces:
  assumes "\<forall>c \<in> set cs. certificate_text c" and "\<not> occurs_in START_OF_CERTIFICATE s" and "s = [] \<or> last s = CHR 0x0A"
  shows "split_on START_OF_CERTIFICATE [] (s @ CA_file cs) = s # map (\<lambda>c. newline @ c @ newline) cs"
  using assms
proof (induction cs arbitrary: s)
  case Nil
  then show ?case by (simp add: CA_file_def split_on_none)
next
  case (Cons c cs)
  have nl: "CHR 0x0A \<notin> set START_OF_CERTIFICATE" by simp
  with Cons.prems(3) have "s = [] \<or> last s \<notin> set START_OF_CERTIFICATE" by metis
  from split_on_next [OF _ Cons.prems(2) this, of "[]" "(newline @ c @ newline) @ CA_file cs"]
  have "split_on START_OF_CERTIFICATE [] (s @ CA_file (c # cs)) =
      s # split_on START_OF_CERTIFICATE [] ((newline @ c @ newline) @ CA_file cs)"
    by (simp add: CA_file_def)
  also have "split_on START_OF_CERTIFICATE [] ((newline @ c @ newline) @ CA_file cs) =
      (newline @ c @ newline) # map (\<lambda>c. newline @ c @ newline) cs"
    using Cons.prems(1) by (intro Cons.IH) (auto simp: certificate_text_def newline_def)
  finally show ?case by simp
qed

lemma Trim_certificate: "certificate_text c \<Longrightarrow> strings_Trim (newline @ c @ newline) [CHR 0x0D, CHR 0x0A] = c"
proof -
  let ?P = "\<lambda>x. x \<in> set [CHR 0x0D, CHR 0x0A]"
  assume c: "certificate_text c"
  then obtain a d where a: "c = a # d" "\<not> ?P a" by (cases c) (auto simp: certificate_text_def)
  from c obtain b e where b: "c = e @ [b]" "\<not> ?P b" by (cases c rule: rev_cases) (auto simp: certificate_text_def)
  have "dropWhile ?P (newline @ c @ newline) = c @ newline" using a by (simp add: newline_def)
  moreover have "dropWhile ?P (rev (c @ newline)) = rev c" using b by (simp add: newline_def)
  ultimately show ?thesis by (simp only: strings_Trim_def rev_rev_ident)
qed

text \<open>C36: the certificates of a file. From a file that is a sequence of PEM certificates, each followed by a
  line feed, the endpoint for the accepted authorities returns exactly these certificates, in order and without
  the final line feed; without a file it returns no list, and for a file that cannot be read it
  answers 501.\<close>

theorem GetAcceptedCAs_roundtrip:
  assumes "\<forall>c \<in> set cs. certificate_text c" and "xs_CAFile sv \<noteq> ''''" and "xs_ReadFile sv (xs_CAFile sv) = Inr (CA_file cs)"
  shows "GetAcceptedCAs sv st =
    (Ok [200 \<mapsto> ResponseBody (CAsResponse (Some (map (\<lambda>c. START_OF_CERTIFICATE @ newline @ c) cs)))], st)"
proof -
  have "split_on START_OF_CERTIFICATE [] (CA_file cs) = [] # map (\<lambda>c. newline @ c @ newline) cs"
    using CA_file_pieces [OF assms(1), of "[]"] by simp
  moreover have "map (\<lambda>c. strings_Trim (newline @ c @ newline) [CHR 0x0D, CHR 0x0A]) cs = cs"
    using assms(1) Trim_certificate by (intro map_idI) blast
  moreover have "filter (\<lambda>c. c \<noteq> []) cs = cs" using assms(1) by (auto simp: certificate_text_def)
  ultimately have "split_CAs (CA_file cs) = map (\<lambda>c. START_OF_CERTIFICATE @ newline @ c) cs"
    by (simp add: split_CAs_def strings_Trim_def comp_def)
  with assms(2,3) show ?thesis by (simp add: GetAcceptedCAs_def CAs_of_file_def)
qed

text \<open>Whatever stands in a file before its first certificate is returned as a certificate, too.\<close>

lemma CA_leading_text:
  assumes "\<forall>c \<in> set cs. certificate_text c" and "certificate_text t"
  shows "split_CAs (t @ newline @ CA_file cs) = map (\<lambda>c. START_OF_CERTIFICATE @ newline @ c) (t # cs)"
proof -
  have "\<not> occurs_in START_OF_CERTIFICATE (t @ newline)"
    using assms(2) unfolding certificate_text_def by (metis append.assoc)
  with CA_file_pieces [OF assms(1), of "t @ newline"]
  have p: "split_on START_OF_CERTIFICATE [] (t @ newline @ CA_file cs) = (t @ newline) # map (\<lambda>c. newline @ c @ newline) cs"
    by (simp add: newline_def)
  have "strings_Trim (t @ newline) [CHR 0x0D, CHR 0x0A] = strings_Trim (newline @ t @ newline) [CHR 0x0D, CHR 0x0A]"
    by (simp add: strings_Trim_def newline_def)
  then have "map (\<lambda>c. strings_Trim c [CHR 0x0D, CHR 0x0A]) ((t @ newline) # map (\<lambda>c. newline @ c @ newline) cs) = t # cs"
    using assms Trim_certificate by (auto intro!: map_idI)
  moreover have "filter (\<lambda>c. c \<noteq> []) (t # cs) = t # cs" using assms by (auto simp: certificate_text_def)
  ultimately show ?thesis unfolding split_CAs_def p by simp
qed

text \<open>A file with two certificates.\<close>

definition demo_aux_server :: "aux_repo aux_repository outcome \<Rightarrow> aux_repo aux_server" where
  "demo_aux_server repo = \<lparr>xs_Interact = (\<lambda>_. repo), xs_Locality = ''uss1'',
     xs_Options = \<lparr>op_GlobalLock = False, op_HashLock = False, op_TimeBasedNotificationIndex = False\<rparr>,
     xs_version = ''v1'', xs_CAFile = ''ca.pem'', xs_InstanceCAFile = '''',
     xs_ReadFile = (\<lambda>name. if name = ''ca.pem'' then Inr (CA_file [''MIIB'', ''MIIC'']) else Inl (NewError ''no such file''))\<rparr>"

lemma too_short: "length s < length sep \<Longrightarrow> \<not> occurs_in sep s"
  by auto

theorem GetAcceptedCAs_roundtrip_witness:
  "fst (GetAcceptedCAs (demo_aux_server Panic) aux_newRepo) =
     Ok [200 \<mapsto> ResponseBody (CAsResponse (Some [START_OF_CERTIFICATE @ newline @ ''MIIB'', START_OF_CERTIFICATE @ newline @ ''MIIC'']))]"
proof -
  have c: "\<forall>c \<in> set [''MIIB'', ''MIIC'']. certificate_text c"
    using too_short [of _ START_OF_CERTIFICATE] by (simp add: certificate_text_def newline_def)
  show ?thesis
    using GetAcceptedCAs_roundtrip [OF c, of "demo_aux_server Panic" aux_newRepo] by (simp add: demo_aux_server_def)
qed

section \<open>The server on the replicated store\<close>

definition aux_raft_repository ::
    "aux_codec \<Rightarrow> aux_marshal \<Rightarrow> consensus_call \<Rightarrow> (string \<Rightarrow> string \<Rightarrow> string) \<Rightarrow> ConnectParameters \<Rightarrow> aux_repo aux_repository" where
  "aux_raft_repository J K c join F = \<lparr>xr_SaveOwnMetadata = raft_SaveOwnMetadata J K c, xr_GetDSSMetadata = raft_GetDSSMetadata J c,
     xr_RecordHeartbeat = raft_RecordHeartbeat J K c,
     xr_GetDSSAirspaceRepresentationID = (\<lambda>_. raft_GetDSSAirspaceRepresentationID join F)\<rparr>"

definition raft_backed :: "aux_codec \<Rightarrow> aux_marshal \<Rightarrow> consensus_call \<Rightarrow> (string \<Rightarrow> string \<Rightarrow> string) \<Rightarrow> ConnectParameters \<Rightarrow> aux_repo aux_server \<Rightarrow> bool" where
  "raft_backed J K c join F sv \<longleftrightarrow> (\<forall>ctx. xs_Interact sv ctx = Ok (aux_raft_repository J K c join F))"

lemma raft_reads_unchanged:
  assumes "raft_GetDSSMetadata J c ctx r = (x, r')" "x \<noteq> Panic"
  shows "mr_state r' = mr_state r"
  using aux_direct.direct_read_unchanged assms unfolding raft_GetDSSMetadata_def by fastforce

lemma responds_instances:
  "obind (instances_of L ms) (\<lambda>is. Ok [200 \<mapsto> ResponseBody (DSSInstancesResponse is)]) = Ok R \<Longrightarrow> 200 \<in> set S \<Longrightarrow> responds S R"
  by (auto simp: monad_simps intro!: responds_single)

lemma responses_GetDSSInstances: "responses [200, 500, 501] (GetDSSInstances L sv errID ctx)"
  unfolding GetDSSInstances_def aux_server_error_def
  by (intro responses_check responses_respondO; (erule responds_instances)?; simp add: responds_single responds_by_code)

lemma GetDSSInstances_unchanged:
  assumes "raft_backed J K c join F sv" and "GetDSSInstances L sv errID ctx r = (Ok R, r')"
  shows "mr_state r' = mr_state r"
  using assms
  by (auto simp: raft_backed_def GetDSSInstances_def check_def respondO_def aux_raft_repository_def
      split: prod.splits outcome.splits dest: raft_reads_unchanged)

lemma created_single:
  assumes "responds [200, 500, 501] R"
  shows "\<exists>n \<in> {201, 500, 501}. \<exists>b. created R = [n \<mapsto> b] \<and> b \<noteq> not_set"
proof -
  from assms obtain n b where n: "n \<in> {200, 500, 501}" "R = [n \<mapsto> b]" "b \<noteq> not_set" by (auto simp: responds_def)
  then have "created R = [(if n = 200 then 201 else n) \<mapsto> b]" by (auto simp: created_def fun_eq_iff)
  with n show ?thesis by auto
qed

text \<open>A legitimate change: one heartbeat of this instance's locality is recorded, reported by the client.\<close>

definition aux_legit :: "string \<Rightarrow> AuthorizationResult \<Rightarrow> aux_state \<Rightarrow> aux_state \<Rightarrow> nat \<Rightarrow> bool" where
  "aux_legit locality auth s t n \<longleftrightarrow>
     (\<exists>hb ts. hm_Locality hb = locality \<and> au_ClientID auth = Some (hm_Reporter hb) \<and> hm_Source hb \<noteq> '''' \<and>
        hm_Timestamp hb = Some ts \<and> (\<forall>u. hm_NextHeartbeatExpectedBefore hb = Some u \<longrightarrow> ts \<le> u) \<and>
        RecordHeartbeat hb s = (Ok (), t) \<and> n \<in> {201, 400, 500, 501})"

lemma accounts_attempt:
  assumes "\<And>r y r'. m r = (Ok y, r') \<Longrightarrow> step (cur r) (cur r')"
    and "\<And>r e r'. m r = (Err e, r') \<Longrightarrow> cur r' = cur r \<or> step (cur r) (cur r')"
    and "\<And>s t e. step s t \<Longrightarrow> \<exists>n b. onErr e = [n \<mapsto> b] \<and> legit s t n"
    and "\<And>y r R r'. k y r = (Ok R, r') \<Longrightarrow> cur r' = cur r \<and> (\<forall>s. step s (cur r) \<longrightarrow> (\<exists>n b. R = [n \<mapsto> b] \<and> legit s (cur r) n))"
  shows "accounts legit cur (attempt m onErr k)"
  unfolding accounts_def
proof (intro allI impI)
  fix r R r'
  assume a: "attempt m onErr k r = (Ok R, r')" and ne: "cur r' \<noteq> cur r"
  obtain x r1 where m: "m r = (x, r1)" by fastforce
  show "\<exists>n b. R = [n \<mapsto> b] \<and> legit (cur r) (cur r') n"
  proof (cases x)
    case (Ok y)
    with a m have "k y r1 = (Ok R, r')" by (simp add: attempt_def)
    with assms(4) [OF this] assms(1) [of r y r1] m Ok show ?thesis by auto
  next
    case (Err e)
    with a m have "R = onErr e" "r' = r1" by (simp_all add: attempt_def)
    with assms(2) [of r e r1] assms(3) [of "cur r" "cur r'" e] m Err ne show ?thesis by auto
  qed (use a m in \<open>simp add: attempt_def\<close>)
qed

lemma heartbeat_accounts:
  assumes sv: "raft_backed J K c join F sv" and J: "aux_codec_inverts J K"
  shows "accounts (aux_legit (xs_Locality sv) (hq_Auth req)) mr_state (PutDSSInstancesHeartbeat L sv errID ctx req)"
proof -
  have rec: "accounts (aux_legit (xs_Locality sv) (hq_Auth req)) mr_state
      (attempt (raft_RecordHeartbeat J K c ctx hb) (bad_request errID)
        (\<lambda>_. bindE (GetDSSInstances L sv errID ctx) (\<lambda>getResponse. ret (created getResponse))))"
    if hb: "hm_Locality hb = xs_Locality sv" "au_ClientID (hq_Auth req) = Some (hm_Reporter hb)" "hm_Source hb \<noteq> ''''"
      "hm_Timestamp hb = Some ts" "\<forall>u. hm_NextHeartbeatExpectedBefore hb = Some u \<longrightarrow> ts \<le> u" for hb ts
  proof (rule accounts_attempt [where step = "\<lambda>s t. RecordHeartbeat hb s = (Ok (), t)"])
    note run = aux_methods(3) [OF J, unfolded runs_as_def, rule_format, of c ctx hb]
    show "RecordHeartbeat hb (mr_state r) = (Ok (), mr_state r')" if "raft_RecordHeartbeat J K c ctx hb r = (Ok y, r')" for r y r'
      using run [OF that] by simp
    show "mr_state r' = mr_state r \<or> RecordHeartbeat hb (mr_state r) = (Ok (), mr_state r')"
      if "raft_RecordHeartbeat J K c ctx hb r = (Err e, r')" for r e r'
      using run [OF that] by (auto split: if_splits)
    show "\<exists>n b. bad_request errID e = [n \<mapsto> b] \<and> aux_legit (xs_Locality sv) (hq_Auth req) s t n"
      if "RecordHeartbeat hb s = (Ok (), t)" for s t e
      using that hb by (auto simp: bad_request_def aux_legit_def intro!: exI [of _ hb])
    show "mr_state r' = mr_state r \<and> (\<forall>s. RecordHeartbeat hb s = (Ok (), mr_state r) \<longrightarrow>
        (\<exists>n b. R = [n \<mapsto> b] \<and> aux_legit (xs_Locality sv) (hq_Auth req) s (mr_state r) n))"
      if "bindE (GetDSSInstances L sv errID ctx) (\<lambda>getResponse. ret (created getResponse)) r = (Ok R, r')" for r R r'
    proof -
      from that obtain R0 where R0: "GetDSSInstances L sv errID ctx r = (Ok R0, r')" "R = created R0" by (auto simp: bindE_Ok)
      with responses_GetDSSInstances [of L sv errID ctx] have "responds [200, 500, 501] R0" by (auto simp: responses_def)
      from created_single [OF this] R0(2) obtain n b where "n \<in> {201, 500, 501}" "R = [n \<mapsto> b]" by blast
      with GetDSSInstances_unchanged [OF sv R0(1)] hb show ?thesis by (auto simp: aux_legit_def intro!: exI [of _ hb])
    qed
  qed
  have repo: "xs_Interact sv ctx = Ok (aux_raft_repository J K c join F)" using sv by (simp add: raft_backed_def)
  have sel: "xr_RecordHeartbeat (aux_raft_repository J K c join F) ctx hb = raft_RecordHeartbeat J K c ctx hb" for hb
    by (simp add: aux_raft_repository_def)
  have client: "deref (au_ClientID (hq_Auth req)) = Ok x \<Longrightarrow> au_ClientID (hq_Auth req) = Some x" for x
    by (cases "au_ClientID (hq_Auth req)") simp_all
  show ?thesis
    unfolding PutDSSInstancesHeartbeat_def aux_server_error_def repo
    by (intro accounts_intros; clarsimp simp: sel; rule rec) (auto simp: monad_simps client split: option.splits if_splits)
qed

end
