(* ===== verification/Aux_Api.thy ===== *)
theory Aux_Api
  imports Aux_Server
begin

text \<open>
  The generated API server of the auxiliary API, \<open>src/pkg/api/auxv1/server.gen.go\<close>, with the authorization
  options of \<open>src/pkg/api/auxv1/interface.gen.go\<close>: the routes and the methods that serve them. It shows that
  only an authorized heartbeat changes the store of the pool, and that every answer is one of its operation.
\<close>

section \<open>Scopes and authorization options\<close>

abbreviation aux_ReadScope :: string where "aux_ReadScope \<equiv> ''dss.read.identification_service_areas''"
abbreviation aux_WriteScope :: string where "aux_WriteScope \<equiv> ''dss.write.identification_service_areas''"
abbreviation InterussPoolStatusHeartbeatWriteScope :: string where
  "InterussPoolStatusHeartbeatWriteScope \<equiv> ''interuss.pool_status.heartbeat.write''"
abbreviation InterussPoolStatusReadScope :: string where "InterussPoolStatusReadScope \<equiv> ''interuss.pool_status.read''"

definition auxv1_GetVersionSecurity :: "AuthorizationOption list" where
  "auxv1_GetVersionSecurity = []"

definition auxv1_ValidateOauthSecurity :: "AuthorizationOption list" where
  "auxv1_ValidateOauthSecurity = [[(''Auth'', [aux_ReadScope])], [(''Auth'', [aux_WriteScope])]]"

definition auxv1_GetPoolSecurity :: "AuthorizationOption list" where
  "auxv1_GetPoolSecurity = [[(''Auth'', [InterussPoolStatusReadScope])]]"

definition auxv1_GetDSSInstancesSecurity :: "AuthorizationOption list" where
  "auxv1_GetDSSInstancesSecurity = [[(''Auth'', [InterussPoolStatusReadScope])]]"

definition auxv1_PutDSSInstancesHeartbeatSecurity :: "AuthorizationOption list" where
  "auxv1_PutDSSInstancesHeartbeatSecurity = [[(''Auth'', [InterussPoolStatusHeartbeatWriteScope])]]"

definition auxv1_GetAcceptedCAsSecurity :: "AuthorizationOption list" where
  "auxv1_GetAcceptedCAsSecurity = []"

definition auxv1_GetInstanceCAsSecurity :: "AuthorizationOption list" where
  "auxv1_GetInstanceCAsSecurity = []"

definition auxv1_GetGlobalOptionsSecurity :: "AuthorizationOption list" where
  "auxv1_GetGlobalOptionsSecurity = [[(''Auth'', [InterussPoolStatusReadScope])]]"

section \<open>The environment of a request\<close>

record ('key, 's) aux_api =
  xa_jwt :: "'key jwt_lib"
  xa_now :: time
  xa_keys :: "'key list"
  xa_audiences :: "string list"
  xa_server :: "'s aux_server"
  xa_errID :: string
  xa_ctx :: ctx

definition aux_Authorize :: "('key, 's) aux_api \<Rightarrow> http_request \<Rightarrow> AuthorizationOption list \<Rightarrow> AuthorizationResult outcome" where
  "aux_Authorize A r authOptions =
     TokenMiddleware_Authorize (xa_jwt A) (xa_now A) (xa_keys A) (xa_audiences A) (hr_Authorization r) authOptions"

section \<open>The methods of the router\<close>

text \<open>An operation without authorization options is served without authorization.\<close>

definition serve_public :: "nat list \<Rightarrow> ('s, 'a ResponseSet) op \<Rightarrow> ('s, nat \<times> 'a body) op" where
  "serve_public statuses implementation =
     bindE implementation (\<lambda>response. ret (write_response statuses response))"

definition auxv1_GetVersion :: "('key, 's) aux_api \<Rightarrow> ('s, aux_body body) Handler" where
  "auxv1_GetVersion A pat r = serve_public [200, 500] (aux_GetVersion (xa_server A))"

definition auxv1_ValidateOauth :: "('key, 's) aux_api \<Rightarrow> ('s, aux_body body) Handler" where
  "auxv1_ValidateOauth A pat r =
     serve_operation (xa_errID A) (aux_Authorize A r auxv1_ValidateOauthSecurity) [200, 401, 403, 500] (\<lambda>auth.
       ValidateOauth (xa_errID A) (map_of (hr_Query r) ''owner'') auth)"

definition auxv1_GetPool :: "('key, 's) aux_api \<Rightarrow> ('s, aux_body body) Handler" where
  "auxv1_GetPool A pat r =
     serve_operation (xa_errID A) (aux_Authorize A r auxv1_GetPoolSecurity) [200, 401, 403, 501, 500] (\<lambda>auth.
       GetPool (xa_server A) (xa_errID A) (xa_ctx A))"

definition auxv1_GetDSSInstances :: "externals \<Rightarrow> ('key, 's) aux_api \<Rightarrow> ('s, aux_body body) Handler" where
  "auxv1_GetDSSInstances L A pat r =
     serve_operation (xa_errID A) (aux_Authorize A r auxv1_GetDSSInstancesSecurity) [200, 401, 403, 501, 500] (\<lambda>auth.
       GetDSSInstances L (xa_server A) (xa_errID A) (xa_ctx A))"

definition auxv1_PutDSSInstancesHeartbeat :: "externals \<Rightarrow> ('key, 's) aux_api \<Rightarrow> ('s, aux_body body) Handler" where
  "auxv1_PutDSSInstancesHeartbeat L A pat r =
     serve_operation (xa_errID A) (aux_Authorize A r auxv1_PutDSSInstancesHeartbeatSecurity) [201, 400, 401, 403, 501, 500] (\<lambda>auth.
       PutDSSInstancesHeartbeat L (xa_server A) (xa_errID A) (xa_ctx A)
         \<lparr>hq_Source = map_of (hr_Query r) ''source'', hq_Timestamp = map_of (hr_Query r) ''timestamp'',
          hq_NextHeartbeatExpectedBefore = map_of (hr_Query r) ''next_heartbeat_expected_before'', hq_Auth = auth\<rparr>)"

definition auxv1_GetAcceptedCAs :: "('key, 's) aux_api \<Rightarrow> ('s, aux_body body) Handler" where
  "auxv1_GetAcceptedCAs A pat r = serve_public [200, 501, 500] (GetAcceptedCAs (xa_server A))"

definition auxv1_GetInstanceCAs :: "('key, 's) aux_api \<Rightarrow> ('s, aux_body body) Handler" where
  "auxv1_GetInstanceCAs A pat r = serve_public [200, 501, 500] (GetInstanceCAs (xa_server A))"

definition auxv1_GetGlobalOptions :: "('key, 's) aux_api \<Rightarrow> ('s, aux_body body) Handler" where
  "auxv1_GetGlobalOptions A pat r =
     serve_operation (xa_errID A) (aux_Authorize A r auxv1_GetGlobalOptionsSecurity) [200, 401, 403, 501, 500] (\<lambda>auth.
       GetGlobalOptions (xa_server A))"

definition auxv1_routes :: "externals \<Rightarrow> ('key, 's) aux_api \<Rightarrow> ('s, aux_body body) Handler Route list" where
  "auxv1_routes L A = [
     \<lparr>rt_Method = ''GET'', rt_Pattern = [Literal ''aux'', Literal ''v1'', Literal ''version''],
      rt_Handler = auxv1_GetVersion A, rt_Name = ''auxv1.GetVersion''\<rparr>,
     \<lparr>rt_Method = ''GET'', rt_Pattern = [Literal ''aux'', Literal ''v1'', Literal ''validate_oauth''],
      rt_Handler = auxv1_ValidateOauth A, rt_Name = ''auxv1.ValidateOauth''\<rparr>,
     \<lparr>rt_Method = ''GET'', rt_Pattern = [Literal ''aux'', Literal ''v1'', Literal ''pool''],
      rt_Handler = auxv1_GetPool A, rt_Name = ''auxv1.GetPool''\<rparr>,
     \<lparr>rt_Method = ''GET'', rt_Pattern = [Literal ''aux'', Literal ''v1'', Literal ''pool'', Literal ''dss_instances''],
      rt_Handler = auxv1_GetDSSInstances L A, rt_Name = ''auxv1.GetDSSInstances''\<rparr>,
     \<lparr>rt_Method = ''PUT'',
      rt_Pattern = [Literal ''aux'', Literal ''v1'', Literal ''pool'', Literal ''dss_instances'', Literal ''heartbeat''],
      rt_Handler = auxv1_PutDSSInstancesHeartbeat L A, rt_Name = ''auxv1.PutDSSInstancesHeartbeat''\<rparr>,
     \<lparr>rt_Method = ''GET'', rt_Pattern = [Literal ''aux'', Literal ''v1'', Literal ''configuration'', Literal ''accepted_ca_certs''],
      rt_Handler = auxv1_GetAcceptedCAs A, rt_Name = ''auxv1.GetAcceptedCAs''\<rparr>,
     \<lparr>rt_Method = ''GET'', rt_Pattern = [Literal ''aux'', Literal ''v1'', Literal ''configuration'', Literal ''ca_certs''],
      rt_Handler = auxv1_GetInstanceCAs A, rt_Name = ''auxv1.GetInstanceCAs''\<rparr>,
     \<lparr>rt_Method = ''GET'', rt_Pattern = [Literal ''aux'', Literal ''v1'', Literal ''configuration'', Literal ''global_options''],
      rt_Handler = auxv1_GetGlobalOptions A, rt_Name = ''auxv1.GetGlobalOptions''\<rparr>]"

section \<open>Only a heartbeat changes the store\<close>

text \<open>A handler that answers without a change of the store.\<close>

definition quiet :: "('r \<Rightarrow> 's) \<Rightarrow> ('r, 'a) op \<Rightarrow> bool" where
  "quiet cur m \<longleftrightarrow> (\<forall>r x r'. m r = (Ok x, r') \<longrightarrow> cur r' = cur r)"

lemma quiet_accounts: "quiet cur m \<Longrightarrow> accounts legit cur m"
  by (simp add: quiet_def accounts_def)

lemma quiet_public: "quiet cur m \<Longrightarrow> guarded legit cur authorize (serve_public statuses m)"
  by (auto simp: quiet_def guarded_def serve_public_def bindE_Ok)

lemma quiet_handlers:
  assumes "raft_backed J K c join F sv"
  shows "quiet mr_state (aux_GetVersion sv)" "quiet mr_state (ValidateOauth errID owner auth)"
    "quiet mr_state (GetPool sv errID ctx)" "quiet mr_state (GetDSSInstances L sv errID ctx)"
    "quiet mr_state (GetAcceptedCAs sv)" "quiet mr_state (GetInstanceCAs sv)" "quiet mr_state (GetGlobalOptions sv)"
proof -
  show "quiet mr_state (GetDSSInstances L sv errID ctx)"
    using GetDSSInstances_unchanged [OF assms] by (auto simp: quiet_def)
  show "quiet mr_state (GetPool sv errID ctx)"
    using assms by (auto simp: raft_backed_def GetPool_def quiet_def check_def respond_def aux_raft_repository_def
        raft_GetDSSAirspaceRepresentationID_def bindE_def split: prod.splits outcome.splits)
qed (auto simp: quiet_def aux_GetVersion_def ValidateOauth_def GetAcceptedCAs_def GetInstanceCAs_def GetGlobalOptions_def
      CAs_of_file_def missing_client_def split: option.splits sum.splits if_splits)

definition aux_change :: "('key, aux_repo) aux_api \<Rightarrow> string \<Rightarrow> AuthorizationResult \<Rightarrow> aux_state \<Rightarrow> aux_state \<Rightarrow> nat \<Rightarrow> bool" where
  "aux_change A name auth s t n \<longleftrightarrow> name = ''auxv1.PutDSSInstancesHeartbeat'' \<and> aux_legit (xs_Locality (xa_server A)) auth s t n"

lemma aux_route_guarded:
  assumes "raft_backed J K c join F (xa_server A)" and "aux_codec_inverts J K" and "rt \<in> set (auxv1_routes L A)"
  shows "guarded (aux_change A (rt_Name rt)) mr_state (aux_Authorize A r auxv1_PutDSSInstancesHeartbeatSecurity) (rt_Handler rt pat r) \<or>
    (\<exists>authorize. guarded (\<lambda>_ _ _ _. False) mr_state authorize (rt_Handler rt pat r))"
proof -
  note q = quiet_handlers [OF assms(1)]
  have put: "guarded (aux_change A ''auxv1.PutDSSInstancesHeartbeat'') mr_state
      (aux_Authorize A r auxv1_PutDSSInstancesHeartbeatSecurity) (auxv1_PutDSSInstancesHeartbeat L A pat r)"
    unfolding auxv1_PutDSSInstancesHeartbeat_def
    by (intro guarded_serve) (use heartbeat_accounts [OF assms(1,2)] in \<open>fastforce simp: accounts_def aux_change_def\<close>)
  have others: "guarded (\<lambda>_ _ _ _. False) mr_state Panic (auxv1_GetVersion A pat r)"
    "guarded (\<lambda>_ _ _ _. False) mr_state (aux_Authorize A r auxv1_ValidateOauthSecurity) (auxv1_ValidateOauth A pat r)"
    "guarded (\<lambda>_ _ _ _. False) mr_state (aux_Authorize A r auxv1_GetPoolSecurity) (auxv1_GetPool A pat r)"
    "guarded (\<lambda>_ _ _ _. False) mr_state (aux_Authorize A r auxv1_GetDSSInstancesSecurity) (auxv1_GetDSSInstances L A pat r)"
    "guarded (\<lambda>_ _ _ _. False) mr_state Panic (auxv1_GetAcceptedCAs A pat r)"
    "guarded (\<lambda>_ _ _ _. False) mr_state Panic (auxv1_GetInstanceCAs A pat r)"
    "guarded (\<lambda>_ _ _ _. False) mr_state (aux_Authorize A r auxv1_GetGlobalOptionsSecurity) (auxv1_GetGlobalOptions A pat r)"
    unfolding auxv1_GetVersion_def auxv1_ValidateOauth_def auxv1_GetPool_def auxv1_GetDSSInstances_def
      auxv1_GetAcceptedCAs_def auxv1_GetInstanceCAs_def auxv1_GetGlobalOptions_def
    by (intro quiet_public guarded_serve quiet_accounts q)+
  show ?thesis using assms(3) put others by (auto simp: auxv1_routes_def)
qed

lemma aux_change_authorized:
  assumes "jwt_validates (xa_jwt A)" and "aux_codec_inverts J K" and "raft_backed J K c join F (xa_server A)"
    and "router_Handle (auxv1_routes L A) req = Some m" and "m r = (Ok (status, b), r')" and "mr_state r' \<noteq> mr_state r"
  shows "hr_Method req = ''PUT'' \<and> hr_Path req = ''/aux/v1/pool/dss_instances/heartbeat'' \<and>
     (\<exists>k \<in> set (xa_keys A). \<exists>tkn cl hb ts.
        getToken (hr_Authorization req) = Some tkn \<and> jwt_ParseWithClaims (xa_jwt A) (xa_now A) k tkn = Ok cl \<and>
        (\<exists>a \<in> set (xa_audiences A). jwt_VerifyAudience (xa_jwt A) (cl_Audience cl) a True) \<and>
        (\<exists>t. cl_ExpiresAt cl = Some t \<and> t \<le> xa_now A + Hour) \<and>
        InterussPoolStatusHeartbeatWriteScope \<in> set (cl_Scopes cl) \<and>
        hm_Locality hb = xs_Locality (xa_server A) \<and> hm_Reporter hb = cl_Subject cl \<and> hm_Source hb \<noteq> '''' \<and>
        hm_Timestamp hb = Some ts \<and> (\<forall>u. hm_NextHeartbeatExpectedBefore hb = Some u \<longrightarrow> ts \<le> u) \<and>
        RecordHeartbeat hb (mr_state r) = (Ok (), mr_state r')) \<and>
     status \<in> {201, 400, 500, 501}"
proof -
  from router_Handle_Some [OF assms(4)] obtain rt where rt: "rt \<in> set (auxv1_routes L A)" "rt_Method rt = hr_Method req"
      "MatchString (rt_Pattern rt) (hr_Path req)" "m = rt_Handler rt (rt_Pattern rt) req" by blast
  from aux_route_guarded [OF assms(3,2) rt(1), of req "rt_Pattern rt"] assms(5,6) obtain auth n where
    a: "aux_Authorize A req auxv1_PutDSSInstancesHeartbeatSecurity = Ok auth" "au_Error auth = None"
      "aux_change A (rt_Name rt) auth (mr_state r) (mr_state r') n" "status \<in> {n, 500}"
    unfolding guarded_def rt(4) by blast
  then have "rt_Method rt = ''PUT''"
      "rt_Pattern rt = [Literal ''aux'', Literal ''v1'', Literal ''pool'', Literal ''dss_instances'', Literal ''heartbeat'']"
    using rt(1) by (auto simp: aux_change_def auxv1_routes_def)
  moreover from this rt(3) have "hr_Path req = ''/aux/v1/pool/dss_instances/heartbeat''"
    using FindStringSubmatch_iff [of "rt_Pattern rt" "hr_Path req"]
    by (auto simp: MatchString_def simple_pattern_def no_slash_def fits_def make_path_def)
  moreover obtain k tkn cl where k: "k \<in> set (xa_keys A)" "getToken (hr_Authorization req) = Some tkn"
      "jwt_ParseWithClaims (xa_jwt A) (xa_now A) k tkn = Ok cl" "au_ClientID auth = Some (cl_Subject cl)"
      "\<exists>t. cl_ExpiresAt cl = Some t \<and> t \<le> xa_now A + Hour"
      "\<exists>a \<in> set (xa_audiences A). jwt_VerifyAudience (xa_jwt A) (cl_Audience cl) a True"
      "InterussPoolStatusHeartbeatWriteScope \<in> set (cl_Scopes cl)"
    using Authorize_grants [OF assms(1) a(1) [unfolded aux_Authorize_def] a(2)]
    unfolding auxv1_PutDSSInstancesHeartbeatSecurity_def by auto
  moreover obtain hb ts where "hm_Locality hb = xs_Locality (xa_server A)" "hm_Reporter hb = cl_Subject cl" "hm_Source hb \<noteq> ''''"
      "hm_Timestamp hb = Some ts" "\<forall>u. hm_NextHeartbeatExpectedBefore hb = Some u \<longrightarrow> ts \<le> u"
      "RecordHeartbeat hb (mr_state r) = (Ok (), mr_state r')" "n \<in> {201, 400, 500, 501}"
    using a(3) k(4) unfolding aux_change_def aux_legit_def by auto
  ultimately show ?thesis using a(4) rt(2) by auto
qed

section \<open>A heartbeat is recorded and shown\<close>

lemma instances_of_Ok:
  "(\<And>m. m \<in> set ms \<Longrightarrow> \<exists>i. instance_of L m = Ok i) \<Longrightarrow>
     \<exists>is. instances_of L ms = Ok is \<and> (\<forall>m \<in> set ms. \<exists>i \<in> set is. instance_of L m = Ok i)"
proof (induction ms)
  case (Cons m ms)
  from Cons.prems [of m] obtain i where i: "instance_of L m = Ok i" by auto
  moreover from Cons obtain "is" where "instances_of L ms = Ok is" "\<forall>m \<in> set ms. \<exists>i \<in> set is. instance_of L m = Ok i" by auto
  ultimately show ?case by (auto intro!: exI [of _ "i # is"])
qed simp

lemma beats_timed: "all_timed hbs \<Longrightarrow> (s, hb) \<in> beats_of loc hbs \<Longrightarrow> \<exists>t. hb_Timestamp hb = Some t"
  by (induction hbs rule: all_timed.induct) (auto simp: timed_def split: if_splits)

lemma instance_of_metadata:
  assumes "all_timed hbs" "is_latest loc hbs latest"
  shows "\<exists>i. instance_of L (metadata_of loc p latest) = Ok i \<and> di_Id i = loc"
  using assms beats_timed [of hbs _ _ loc]
  by (cases latest) (fastforce simp: metadata_of_def instance_of_def is_latest_def Let_def split: prod.splits)+

text \<open>A heartbeat that is later than all of its locality is the one that is shown.\<close>

lemma beats_of_map:
  "wf_gomap hbs \<Longrightarrow> beats_of loc hbs = {(s, hb). map_of hbs \<lparr>hk_Locality = loc, hk_Source = s\<rparr> = Some hb}"
proof -
  assume wf: "wf_gomap hbs"
  have "beats_of loc hbs = {(s, hb). (\<lparr>hk_Locality = loc, hk_Source = s\<rparr>, hb) \<in> set hbs}"
    unfolding beats_of_def by (auto simp: set_eq_iff) (metis heartbeatKey.surjective old.unit.exhaust, metis heartbeatKey.select_convs)
  with wf show ?thesis by (auto simp: wf_gomap_def)
qed

lemma newest_is_latest:
  assumes wf: "wf_gomap hbs" and "is_latest loc (AList.update \<lparr>hk_Locality = loc, hk_Source = src\<rparr> new hbs) latest"
    and "hb_Timestamp new = Some ts" and older: "\<And>s hb. (s, hb) \<in> beats_of loc hbs \<Longrightarrow> the (hb_Timestamp hb) < ts"
  shows "latest = Some (src, new)"
proof -
  let ?hbs = "AList.update \<lparr>hk_Locality = loc, hk_Source = src\<rparr> new hbs"
  have wf': "wf_gomap ?hbs" using wf by simp
  have b: "beats_of loc ?hbs = insert (src, new) {(s, hb). (s, hb) \<in> beats_of loc hbs \<and> s \<noteq> src}"
    unfolding beats_of_map [OF wf] beats_of_map [OF wf'] by (auto simp: update_conv split: if_splits)
  with assms(2) obtain s l where "latest = Some (s, l)" and l: "(s, l) \<in> beats_of loc ?hbs"
      "the (hb_Timestamp new) \<le> the (hb_Timestamp l)" by (auto simp: is_latest_def split: option.splits)
  with l(1) [unfolded b] older [of s l] assms(3) show ?thesis by auto
qed

text \<open>The time of the next heartbeat that a request gives.\<close>

definition next_time :: "externals \<Rightarrow> string option \<Rightarrow> time option outcome" where
  "next_time L q = (case q of None \<Rightarrow> Ok None | Some s \<Rightarrow> obind (query_time L s) (\<lambda>t. Ok (Some t)))"

lemma next_time_check:
  assumes "next_time L q = Ok nx" "\<forall>u. nx = Some u \<longrightarrow> ts \<le> u"
  shows "(case q of None \<Rightarrow> Ok None | Some s \<Rightarrow> obind (query_time L s) (\<lambda>t. if t < ts then Err e else Ok (Some t))) = Ok nx"
  using assms by (cases q; cases "query_time L (the q)") (auto simp: next_time_def)

lemma next_time_early:
  assumes "next_time L q = Ok (Some u)" "u < ts"
  shows "(case q of None \<Rightarrow> Ok None | Some s \<Rightarrow> obind (query_time L s) (\<lambda>t. if t < ts then Err e else Ok (Some t))) = Err e"
  using assms by (cases q) (auto simp: next_time_def monad_simps)

lemma heartbeat_handler_run:
  assumes sv: "raft_backed J K c join F sv" and J: "aux_codec_inverts J K" and wf: "aux_wf (mr_state r)"
    and "cc_delivery c = Delivered" and ctx: "ctx = Some now" "\<not> IsZero now"
    and req: "hq_Source req = Some src" "src \<noteq> ''''" "au_ClientID (hq_Auth req) = Some client"
      "(case hq_Timestamp req of Some s \<Rightarrow> query_time L s | None \<Rightarrow> Ok now) = Ok ts"
      "next_time L (hq_NextHeartbeatExpectedBefore req) = Ok nx" "\<forall>u. nx = Some u \<longrightarrow> ts \<le> u"
    and hb: "hb = \<lparr>hm_Locality = xs_Locality sv, hm_Source = src, hm_Timestamp = Some ts,
        hm_NextHeartbeatExpectedBefore = nx, hm_Reporter = client\<rparr>" "jxm_heartbeat K hb = Ok v"
    and p: "map_of (ax_Participants (mr_state r)) (xs_Locality sv) = Some p"
    and older: "\<forall>(s, b) \<in> beats_of (xs_Locality sv) (ax_Heartbeats (mr_state r)). the (hb_Timestamp b) < ts"
  shows "\<exists>is r' i. PutDSSInstancesHeartbeat L sv errID ctx req r = (Ok [201 \<mapsto> ResponseBody (DSSInstancesResponse is)], r') \<and>
     RecordHeartbeat hb (mr_state r) = (Ok (), mr_state r') \<and> i \<in> set is \<and> di_Id i = xs_Locality sv \<and>
     di_MostRecentHeartbeat i = Some \<lparr>xh_Timestamp = time_FormatRFC3339Nano L ts, xh_Reporter = Some client,
       xh_Source = src, xh_NextHeartbeatExpectedBefore = map_option (time_FormatRFC3339Nano L) nx\<rparr>"
proof -
  let ?loc = "xs_Locality sv" and ?repo = "aux_raft_repository J K c join F"
  let ?new = "\<lparr>hb_Timestamp = Some ts, hb_NextHeartbeatExpectedBefore = nx, hb_Reporter = client\<rparr>"
  have live: "live_call c ctx (jxm_heartbeat K hb)" "live_call c ctx (Ok '''')"
    using assms(4) ctx hb(2) by (simp_all add: live_call_def)
  obtain x r1 where w: "raft_RecordHeartbeat J K c ctx hb r = (x, r1)" by fastforce
  obtain st where st: "RecordHeartbeat hb (mr_state r) = (Ok (), st)" by (simp add: RecordHeartbeat_def)
  with aux_methods(3) [OF J, of c ctx hb, unfolded runs_as_def, rule_format, OF w] live(1)
  have r1: "x = Ok ()" "mr_state r1 = st" by auto
  have wf1: "aux_wf st" using preserves_aux_wf(3) [of hb] wf st hb(1) by (auto simp: preserves_def)
  obtain ms where ms: "GetDSSMetadata st = (Ok ms, st)" "set (map dm_Locality ms) = dom (map_of (ax_Participants st))"
      "\<forall>m \<in> set ms. \<exists>p latest. map_of (ax_Participants st) (dm_Locality m) = Some p \<and>
         is_latest (dm_Locality m) (ax_Heartbeats st) latest \<and> m = metadata_of (dm_Locality m) p latest"
    using GetDSSMetadata_run [OF wf1] by blast
  obtain y r2 where g: "raft_GetDSSMetadata J c ctx r1 = (y, r2)" by fastforce
  with aux_methods(1) [OF J, of c ctx, unfolded reads_as_def, rule_format, OF g] live(2) ms(1) r1(2)
  have y: "y = Ok ms" "mr_state r2 = st" by auto
  have "\<exists>i. instance_of L m = Ok i" if "m \<in> set ms" for m
    using ms(3) that instance_of_metadata wf1 unfolding aux_wf_def by metis
  from instances_of_Ok [OF this] obtain "is" where is1: "instances_of L ms = Ok is" "\<forall>m \<in> set ms. \<exists>i \<in> set is. instance_of L m = Ok i"
    by blast
  have st': "ax_Participants st = ax_Participants (mr_state r)"
      "ax_Heartbeats st = AList.update \<lparr>hk_Locality = ?loc, hk_Source = src\<rparr> ?new (ax_Heartbeats (mr_state r))"
    using st by (auto simp: RecordHeartbeat_def hb(1))
  from ms(2) p have "?loc \<in> set (map dm_Locality ms)" by (auto simp: st')
  then obtain m where m: "m \<in> set ms" "dm_Locality m = ?loc" by auto
  with ms(3) obtain p' latest where l: "m = metadata_of ?loc p' latest" "is_latest ?loc (ax_Heartbeats st) latest" by metis
  have wfh: "wf_gomap (ax_Heartbeats (mr_state r))" using wf by (simp add: aux_wf_def)
  have "latest = Some (src, ?new)" by (rule newest_is_latest [OF wfh l(2) [unfolded st'(2)]]) (use older in auto)
  with l(1) is1(2) m(1) obtain i where i: "i \<in> set is" "instance_of L (metadata_of ?loc p' (Some (src, ?new))) = Ok i" by metis
  then have "di_Id i = ?loc \<and> di_MostRecentHeartbeat i = Some \<lparr>xh_Timestamp = time_FormatRFC3339Nano L ts,
      xh_Reporter = Some client, xh_Source = src, xh_NextHeartbeatExpectedBefore = map_option (time_FormatRFC3339Nano L) nx\<rparr>"
    by (auto simp: metadata_of_def instance_of_def Let_def)
  moreover have "(case hq_Timestamp req of Some s \<Rightarrow> query_time L s | None \<Rightarrow> MustFromContext ctx) = Ok ts"
    using req(4) ctx by (auto split: option.splits)
  then have "PutDSSInstancesHeartbeat L sv errID ctx req r = (Ok (created [200 \<mapsto> ResponseBody (DSSInstancesResponse is)]), r2)"
    using sv w r1(1) g y(1) is1(1) req(1-3) hb(1) next_time_check [OF req(5,6)]
    by (simp add: PutDSSInstancesHeartbeat_def GetDSSInstances_def raft_backed_def check_def attempt_def respondO_def
        aux_raft_repository_def bindE_def)
  moreover have "created [200 \<mapsto> ResponseBody (DSSInstancesResponse is)] = [201 \<mapsto> ResponseBody (DSSInstancesResponse is)]"
    by (auto simp: created_def fun_eq_iff)
  ultimately show ?thesis using st y(2) i(1) by auto
qed

lemma auxv1_unambiguous: "unambiguous (auxv1_routes L A)"
  by (simp add: auxv1_routes_def simple_pattern_def no_slash_def)

lemma heartbeat_served:
  assumes J: "aux_codec_inverts J K" and sv: "raft_backed J K c join F (xa_server A)" and wf: "aux_wf (mr_state r)"
    and "cc_delivery c = Delivered" and ctx: "xa_ctx A = Some now" "\<not> IsZero now"
    and req: "hr_Method req = ''PUT''" "hr_Path req = ''/aux/v1/pool/dss_instances/heartbeat''"
      "map_of (hr_Query req) ''source'' = Some src" "src \<noteq> ''''"
      "(case map_of (hr_Query req) ''timestamp'' of Some s \<Rightarrow> query_time L s | None \<Rightarrow> Ok now) = Ok ts"
      "next_time L (map_of (hr_Query req) ''next_heartbeat_expected_before'') = Ok nx" "\<forall>u. nx = Some u \<longrightarrow> ts \<le> u"
    and auth: "aux_Authorize A req auxv1_PutDSSInstancesHeartbeatSecurity = Ok auth" "au_Error auth = None" "au_ClientID auth = Some client"
    and hb: "hb = \<lparr>hm_Locality = xs_Locality (xa_server A), hm_Source = src, hm_Timestamp = Some ts,
        hm_NextHeartbeatExpectedBefore = nx, hm_Reporter = client\<rparr>" "jxm_heartbeat K hb = Ok v"
    and p: "map_of (ax_Participants (mr_state r)) (xs_Locality (xa_server A)) = Some p"
    and older: "\<forall>(s, b) \<in> beats_of (xs_Locality (xa_server A)) (ax_Heartbeats (mr_state r)). the (hb_Timestamp b) < ts"
  shows "\<exists>serve is r' i. router_Handle (auxv1_routes L A) req = Some serve \<and>
     serve r = (Ok (201, ResponseBody (DSSInstancesResponse is)), r') \<and>
     RecordHeartbeat hb (mr_state r) = (Ok (), mr_state r') \<and> i \<in> set is \<and> di_Id i = xs_Locality (xa_server A) \<and>
     di_MostRecentHeartbeat i = Some \<lparr>xh_Timestamp = time_FormatRFC3339Nano L ts, xh_Reporter = Some client,
       xh_Source = src, xh_NextHeartbeatExpectedBefore = map_option (time_FormatRFC3339Nano L) nx\<rparr>"
proof -
  let ?rt = "auxv1_routes L A ! 4"
  have rt: "?rt \<in> set (auxv1_routes L A)" "rt_Handler ?rt = auxv1_PutDSSInstancesHeartbeat L A"
    by (simp_all add: auxv1_routes_def)
  have "router_Handle (auxv1_routes L A) req = Some (rt_Handler ?rt (rt_Pattern ?rt) req)"
    by (rule router_Handle_exact(1) [OF auxv1_unambiguous rt(1), where params = "[]"])
      (simp_all add: auxv1_routes_def req(1,2) make_path_def fits_def)
  moreover obtain "is" r' i where run: "PutDSSInstancesHeartbeat L (xa_server A) (xa_errID A) (xa_ctx A)
       \<lparr>hq_Source = map_of (hr_Query req) ''source'', hq_Timestamp = map_of (hr_Query req) ''timestamp'',
        hq_NextHeartbeatExpectedBefore = map_of (hr_Query req) ''next_heartbeat_expected_before'', hq_Auth = auth\<rparr> r =
       (Ok [201 \<mapsto> ResponseBody (DSSInstancesResponse is)], r')" "RecordHeartbeat hb (mr_state r) = (Ok (), mr_state r')"
      "i \<in> set is" "di_Id i = xs_Locality (xa_server A)" "di_MostRecentHeartbeat i = Some \<lparr>xh_Timestamp = time_FormatRFC3339Nano L ts,
         xh_Reporter = Some client, xh_Source = src, xh_NextHeartbeatExpectedBefore = map_option (time_FormatRFC3339Nano L) nx\<rparr>"
    using heartbeat_handler_run [where L = L and errID = "xa_errID A" and req =
       "\<lparr>hq_Source = map_of (hr_Query req) ''source'', hq_Timestamp = map_of (hr_Query req) ''timestamp'',
        hq_NextHeartbeatExpectedBefore = map_of (hr_Query req) ''next_heartbeat_expected_before'', hq_Auth = auth\<rparr>",
       OF sv J wf assms(4) ctx _ req(4) _ _ _ req(7) hb p older] req(3,5,6) auth(3) by auto
  moreover from run(1) have "auxv1_PutDSSInstancesHeartbeat L A (rt_Pattern ?rt) req r = (Ok (201, ResponseBody (DSSInstancesResponse is)), r')"
    by (simp add: auxv1_PutDSSInstancesHeartbeat_def serve_operation_def auth(1,2) bindE_def)
  ultimately show ?thesis using rt(2) by auto
qed

text \<open>A heartbeat that expects the next one before its own time is refused.\<close>

lemma heartbeat_refused:
  assumes sv: "raft_backed J K c join F (xa_server A)" and ctx: "xa_ctx A = Some now" "\<not> IsZero now"
    and req: "hr_Method req = ''PUT''" "hr_Path req = ''/aux/v1/pool/dss_instances/heartbeat''"
      "map_of (hr_Query req) ''source'' = Some src" "src \<noteq> ''''"
      "(case map_of (hr_Query req) ''timestamp'' of Some s \<Rightarrow> query_time L s | None \<Rightarrow> Ok now) = Ok ts"
      "next_time L (map_of (hr_Query req) ''next_heartbeat_expected_before'') = Ok (Some u)" "u < ts"
    and auth: "aux_Authorize A req auxv1_PutDSSInstancesHeartbeatSecurity = Ok auth" "au_Error auth = None" "au_ClientID auth = Some client"
  shows "\<exists>serve b. router_Handle (auxv1_routes L A) req = Some serve \<and> serve r = (Ok (400, b), r)"
proof -
  let ?rt = "auxv1_routes L A ! 4"
  let ?q = "\<lparr>hq_Source = map_of (hr_Query req) ''source'', hq_Timestamp = map_of (hr_Query req) ''timestamp'',
        hq_NextHeartbeatExpectedBefore = map_of (hr_Query req) ''next_heartbeat_expected_before'', hq_Auth = auth\<rparr>"
  have rt: "?rt \<in> set (auxv1_routes L A)" "rt_Handler ?rt = auxv1_PutDSSInstancesHeartbeat L A"
    by (simp_all add: auxv1_routes_def)
  have "router_Handle (auxv1_routes L A) req = Some (rt_Handler ?rt (rt_Pattern ?rt) req)"
    by (rule router_Handle_exact(1) [OF auxv1_unambiguous rt(1), where params = "[]"])
      (simp_all add: auxv1_routes_def req(1,2) make_path_def fits_def)
  moreover have "(case map_of (hr_Query req) ''timestamp'' of Some s \<Rightarrow> query_time L s | None \<Rightarrow> MustFromContext (xa_ctx A)) = Ok ts"
    using req(5) ctx by (auto split: option.splits)
  then have "\<exists>e. PutDSSInstancesHeartbeat L (xa_server A) (xa_errID A) (xa_ctx A) ?q r = (Ok (bad_request (xa_errID A) e), r)"
    using sv req(3,4) auth(3) next_time_early [OF req(6,7)]
    by (auto simp: PutDSSInstancesHeartbeat_def raft_backed_def check_def)
  then have "\<exists>b. auxv1_PutDSSInstancesHeartbeat L A (rt_Pattern ?rt) req r = (Ok (400, b), r)"
    by (auto simp: auxv1_PutDSSInstancesHeartbeat_def serve_operation_def auth(1,2) bindE_def bad_request_def)
  ultimately show ?thesis using rt(2) by auto
qed

section \<open>From the socket to the store\<close>

text \<open>C33: whoever changes the data of the pool has been authorized to. When an HTTP request of the auxiliary API is
  answered and the replicated store has changed, then it is a \<open>PUT\<close> of a heartbeat; its token is one that
  a configured key accepts, with an accepted audience, not more than an hour to live and the scope for
  writing heartbeats; and the change is exactly the record of one heartbeat of this instance, from a source that is
  named, reported by the token's subject, which does not expect the next one before it. The other
  operations, three of which need no token, change nothing.\<close>

theorem aux_http_change_authorized:
  assumes "jwt_validates (xa_jwt A)" and "aux_codec_inverts J K" and "raft_backed J K c join F (xa_server A)"
    and "router_Handle (auxv1_routes L A) req = Some m" and "m r = (Ok (status, b), r')" and "mr_state r' \<noteq> mr_state r"
  shows "hr_Method req = ''PUT'' \<and> hr_Path req = ''/aux/v1/pool/dss_instances/heartbeat'' \<and>
     (\<exists>k \<in> set (xa_keys A). \<exists>tkn cl hb ts.
        getToken (hr_Authorization req) = Some tkn \<and> jwt_ParseWithClaims (xa_jwt A) (xa_now A) k tkn = Ok cl \<and>
        (\<exists>a \<in> set (xa_audiences A). jwt_VerifyAudience (xa_jwt A) (cl_Audience cl) a True) \<and>
        (\<exists>t. cl_ExpiresAt cl = Some t \<and> t \<le> xa_now A + Hour) \<and>
        InterussPoolStatusHeartbeatWriteScope \<in> set (cl_Scopes cl) \<and>
        hm_Locality hb = xs_Locality (xa_server A) \<and> hm_Reporter hb = cl_Subject cl \<and> hm_Source hb \<noteq> '''' \<and>
        hm_Timestamp hb = Some ts \<and> (\<forall>u. hm_NextHeartbeatExpectedBefore hb = Some u \<longrightarrow> ts \<le> u) \<and>
        RecordHeartbeat hb (mr_state r) = (Ok (), mr_state r')) \<and>
     status \<in> {201, 400, 500, 501}"
  using assms by (rule aux_change_authorized)

text \<open>C34: a heartbeat is recorded and shown, or refused. When an authorized client sends a heartbeat with a source, of a
  registered participant and later than all earlier heartbeats of it, whose times can be read, and the requests to the
  consensus are delivered, then: if it does not expect the next one before its own time, the answer is \<open>201\<close>, the heartbeat is
  recorded with the time of the next one, if it has one, and the list of instances in
  the answer shows it as the most recent one of this instance; and if it does, the answer is \<open>400\<close> and nothing is recorded.\<close>

theorem aux_http_heartbeat:
  assumes "aux_codec_inverts J K" and "raft_backed J K c join F (xa_server A)" and "aux_wf (mr_state r)"
    and "cc_delivery c = Delivered" and "xa_ctx A = Some now" and "\<not> IsZero now"
    and "hr_Method req = ''PUT''" and "hr_Path req = ''/aux/v1/pool/dss_instances/heartbeat''"
    and "map_of (hr_Query req) ''source'' = Some src" and "src \<noteq> ''''"
    and "(case map_of (hr_Query req) ''timestamp'' of Some s \<Rightarrow> query_time L s | None \<Rightarrow> Ok now) = Ok ts"
    and "next_time L (map_of (hr_Query req) ''next_heartbeat_expected_before'') = Ok nx"
    and "aux_Authorize A req auxv1_PutDSSInstancesHeartbeatSecurity = Ok auth" and "au_Error auth = None"
    and "au_ClientID auth = Some client"
    and "hb = \<lparr>hm_Locality = xs_Locality (xa_server A), hm_Source = src, hm_Timestamp = Some ts,
        hm_NextHeartbeatExpectedBefore = nx, hm_Reporter = client\<rparr>" and "jxm_heartbeat K hb = Ok v"
    and "map_of (ax_Participants (mr_state r)) (xs_Locality (xa_server A)) = Some p"
    and "\<forall>(s, b) \<in> beats_of (xs_Locality (xa_server A)) (ax_Heartbeats (mr_state r)). the (hb_Timestamp b) < ts"
  shows "\<exists>serve. router_Handle (auxv1_routes L A) req = Some serve \<and>
     (if \<forall>u. nx = Some u \<longrightarrow> ts \<le> u
      then \<exists>is r' i. serve r = (Ok (201, ResponseBody (DSSInstancesResponse is)), r') \<and>
        RecordHeartbeat hb (mr_state r) = (Ok (), mr_state r') \<and> i \<in> set is \<and> di_Id i = xs_Locality (xa_server A) \<and>
        di_MostRecentHeartbeat i = Some \<lparr>xh_Timestamp = time_FormatRFC3339Nano L ts, xh_Reporter = Some client,
          xh_Source = src, xh_NextHeartbeatExpectedBefore = map_option (time_FormatRFC3339Nano L) nx\<rparr>
      else \<exists>b. serve r = (Ok (400, b), r))"
proof (cases "\<forall>u. nx = Some u \<longrightarrow> ts \<le> u")
  case True
  from heartbeat_served [OF assms(1-12) True assms(13-19)] True show ?thesis by fastforce
next
  case False
  then obtain u where u: "nx = Some u" "u < ts" by auto
  from heartbeat_refused [OF assms(2,5-11) assms(12) [unfolded u(1)] u(2) assms(13-15)] False show ?thesis by auto
qed

section \<open>A concrete request\<close>

definition demo_heartbeat :: aux_Heartbeat where
  "demo_heartbeat = \<lparr>hm_Locality = ''uss1'', hm_Source = ''a'', hm_Timestamp = Some 120,
     hm_NextHeartbeatExpectedBefore = Some 130, hm_Reporter = ''uss1''\<rparr>"

text \<open>A codec that knows one heartbeat.\<close>

definition demo_aux_codec :: aux_codec where
  "demo_aux_codec = \<lparr>jx_save = (\<lambda>_. Err (NewError ''json'')), jx_heartbeat = (\<lambda>_. Ok demo_heartbeat)\<rparr>"

definition demo_aux_marshal :: aux_marshal where
  "demo_aux_marshal = \<lparr>jxm_save = (\<lambda>_. Err (NewError ''json'')),
     jxm_heartbeat = (\<lambda>hb. if hb = demo_heartbeat then Ok ''h'' else Err (NewError ''json''))\<rparr>"

definition demo_aux_call :: consensus_call where
  "demo_aux_call = \<lparr>cc_delivery = Delivered, cc_newID = ''p'', cc_nodeID = 1\<rparr>"

definition demo_aux_api :: "(nat, aux_repo) aux_api" where
  "demo_aux_api = \<lparr>xa_jwt = demo_jwt\<lparr>jwt_ParseWithClaims := (\<lambda>now k t. if k = 7 \<and> now = 0
        then Ok (demo_claims\<lparr>cl_Scopes := [InterussPoolStatusHeartbeatWriteScope]\<rparr>) else Err (NewError ''signature is invalid''))\<rparr>,
     xa_now = 0, xa_keys = [3, 7], xa_audiences = [''dss''],
     xa_server = demo_aux_server (Ok (aux_raft_repository demo_aux_codec demo_aux_marshal demo_aux_call (@) demo_flags)),
     xa_errID = ''E:1'', xa_ctx = Some 120\<rparr>"

definition demo_aux_request :: http_request where
  "demo_aux_request = \<lparr>hr_Method = ''PUT'', hr_Path = ''/aux/v1/pool/dss_instances/heartbeat'', 
     hr_Query = [(''source'', ''a''), (''next_heartbeat_expected_before'', replicate 130 CHR ''9'')],
     hr_Authorization = ''Bearer abc'', hr_Body = ''''\<rparr>"

definition demo_aux_store :: aux_repo where
  "demo_aux_store = \<lparr>mr_state = demo_pool, mr_checkpoint = demo_pool\<rparr>"

lemma demo_aux_Authorize:
  "aux_Authorize demo_aux_api demo_aux_request auxv1_PutDSSInstancesHeartbeatSecurity =
    Ok \<lparr>au_ClientID = Some ''uss1'', au_Scopes = [InterussPoolStatusHeartbeatWriteScope], au_Error = None\<rparr>"
  by (simp add: aux_Authorize_def TokenMiddleware_Authorize_def Authorize_def claims_FromContext_def extractClaims_def
      demo_getToken Let_def demo_aux_api_def demo_aux_request_def demo_jwt_def demo_claims_def validateScopes_def
      auxv1_PutDSSInstancesHeartbeatSecurity_def)

lemma demo_aux_premises:
  "aux_codec_inverts demo_aux_codec demo_aux_marshal"
  "raft_backed demo_aux_codec demo_aux_marshal demo_aux_call (@) demo_flags (xa_server demo_aux_api)"
  "aux_wf (mr_state demo_aux_store)" "cc_delivery demo_aux_call = Delivered" "xa_ctx demo_aux_api = Some 120" "\<not> IsZero 120"
  "hr_Method demo_aux_request = ''PUT''" "hr_Path demo_aux_request = ''/aux/v1/pool/dss_instances/heartbeat''"
  "map_of (hr_Query demo_aux_request) ''source'' = Some ''a''" "''a'' \<noteq> ''''"
  "(case map_of (hr_Query demo_aux_request) ''timestamp'' of Some s \<Rightarrow> query_time demo_externals s | None \<Rightarrow> Ok 120) = Ok 120"
  "next_time demo_externals (map_of (hr_Query demo_aux_request) ''next_heartbeat_expected_before'') = Ok (Some 130)"
  "\<forall>u. Some (130 :: time) = Some u \<longrightarrow> 120 \<le> u"
  by (simp_all add: aux_codec_inverts_def demo_aux_codec_def demo_aux_marshal_def raft_backed_def demo_aux_api_def
      demo_aux_server_def demo_aux_store_def demo_pool_wf demo_aux_call_def demo_aux_request_def IsZero_def zero_time_def next_time_def query_time_def)

lemma demo_aux_store_premises:
  "jxm_heartbeat demo_aux_marshal demo_heartbeat = Ok ''h''" "xs_Locality (xa_server demo_aux_api) = ''uss1''"
  "map_of (ax_Participants (mr_state demo_aux_store)) ''uss1'' = Some \<lparr>pp_PublicEndpoint = ''https://one'', pp_UpdatedAt = 10\<rparr>"
  "\<forall>(s, b) \<in> beats_of ''uss1'' (ax_Heartbeats (mr_state demo_aux_store)). the (hb_Timestamp b) < 120"
  by (auto simp: demo_aux_marshal_def demo_aux_api_def demo_aux_server_def demo_aux_store_def demo_pool_def)

theorem aux_http_heartbeat_witness:
  "\<exists>serve is r' i. router_Handle (auxv1_routes demo_externals demo_aux_api) demo_aux_request = Some serve \<and>
     serve demo_aux_store = (Ok (201, ResponseBody (DSSInstancesResponse is)), r') \<and>
     i \<in> set is \<and> di_Id i = ''uss1'' \<and> (\<exists>h. di_MostRecentHeartbeat i = Some h \<and> xh_Source h = ''a'')"
proof -
  have "\<forall>u. Some (130 :: time) = Some u \<longrightarrow> 120 \<le> u" by simp
  with aux_http_heartbeat [OF demo_aux_premises(1-12) demo_aux_Authorize _ _ _ demo_aux_store_premises(1)] demo_aux_store_premises
  show ?thesis by (fastforce simp: demo_heartbeat_def)
qed

theorem aux_http_change_authorized_witness:
  "\<exists>serve b r'. router_Handle (auxv1_routes demo_externals demo_aux_api) demo_aux_request = Some serve \<and>
     serve demo_aux_store = (Ok (201, b), r') \<and> mr_state r' \<noteq> mr_state demo_aux_store \<and>
     (\<exists>k \<in> set [3, 7]. \<exists>tkn c. getToken ''Bearer abc'' = Some tkn \<and> jwt_ParseWithClaims (xa_jwt demo_aux_api) 0 k tkn = Ok c)"
proof -
  from heartbeat_served [OF demo_aux_premises demo_aux_Authorize _ _ _ demo_aux_store_premises(1)] demo_aux_store_premises
  obtain serve b r' where s: "router_Handle (auxv1_routes demo_externals demo_aux_api) demo_aux_request = Some serve"
      "serve demo_aux_store = (Ok (201, b), r')" "RecordHeartbeat demo_heartbeat (mr_state demo_aux_store) = (Ok (), mr_state r')"
    by (fastforce simp: demo_heartbeat_def)
  then have ne: "mr_state r' \<noteq> mr_state demo_aux_store"
    by (auto simp: RecordHeartbeat_def demo_heartbeat_def demo_aux_store_def demo_pool_def)
  have j: "jwt_validates (xa_jwt demo_aux_api)"
    by (auto simp: jwt_validates_def demo_aux_api_def demo_jwt_def demo_claims_def Claims_Valid_def)
  have A: "hr_Authorization demo_aux_request = ''Bearer abc''" "xa_keys demo_aux_api = [3, 7]" "xa_now demo_aux_api = 0"
    by (simp_all add: demo_aux_api_def demo_aux_request_def)
  from aux_http_change_authorized [OF j demo_aux_premises(1,2) s(1,2) ne] A s(1,2) ne show ?thesis by metis
qed

end
