(* ===== verification/Raft_Listener.thy ===== *)
theory Raft_Listener
  imports Raft_Params
begin

text \<open>
  The listener that the Raft groups of a process share, \<open>src/pkg/raftstore/consensus/listener.go\<close>, and the
  certificates it is started with, \<open>src/pkg/raftstore/consensus/tls.go\<close>. Sockets and the HTTP server are not
  modelled; files, PEM, X.509 and the parser of the header with the ID of a group are parameters. It
  shows that the groups of a process can all be registered and that a request reaches the group it is addressed
  to, and that the check of the certificates ends and accepts what it should.
\<close>

section \<open>The listener\<close>

text \<open>The mutex makes each operation one step. \<open>raftListener\<close> is the variable of the process; a listener is shared by
  pointer, so that registrations change it.\<close>

record 'h listener =
  ln_handlers :: "(64 word, 'h) gomap"

type_synonym 'h raftListener = "'h listener option"

definition StartListener :: "unit outcome \<Rightarrow> ('h raftListener, unit) op" where
  "StartListener listen rl =
     (if rl \<noteq> None then (Err (NewError ''the Raft listener is already started''), rl)
      else case listen of
             Ok _ \<Rightarrow> (Ok (), Some \<lparr>ln_handlers = []\<rparr>)
           | Err e \<Rightarrow> (Err e, rl)
           | Panic \<Rightarrow> (Panic, rl))"

definition StopListener :: "unit outcome \<Rightarrow> ('h raftListener, unit) op" where
  "StopListener shutdown rl = (if rl = None then Ok () else shutdown, None)"

definition getListener :: "'h raftListener \<Rightarrow> 'h listener outcome" where
  "getListener rl = (case rl of None \<Rightarrow> Err (NewError ''the Raft listener is not started'') | Some l \<Rightarrow> Ok l)"

definition listener_register :: "64 word \<Rightarrow> 'h \<Rightarrow> ('h listener, unit) op" where
  "listener_register clusterID handler l =
     (if map_of (ln_handlers l) clusterID \<noteq> None
      then (Err (NewError ''a Raft group with this cluster ID is already registered on the listener''), l)
      else (Ok (), l\<lparr>ln_handlers := AList.update clusterID handler (ln_handlers l)\<rparr>))"

definition listener_unregister :: "64 word \<Rightarrow> 'h listener \<Rightarrow> 'h listener" where
  "listener_unregister clusterID l = l\<lparr>ln_handlers := AList.delete clusterID (ln_handlers l)\<rparr>"

text \<open>The end of \<open>initTransport\<close>: a new group registers its transport.\<close>

definition register_transport :: "64 word \<Rightarrow> 'h \<Rightarrow> ('h raftListener, unit) op" where
  "register_transport clusterID handler rl =
     (case getListener rl of
        Ok l \<Rightarrow> (case listener_register clusterID handler l of (x, l') \<Rightarrow> (x, Some l'))
      | Err e \<Rightarrow> (Err e, rl)
      | Panic \<Rightarrow> (Panic, rl))"

text \<open>A request of a peer: its path and the value of its header \<open>X-Etcd-Cluster-ID\<close>. A map of Go is ranged over in any order;
  the first element of the list stands for the one that comes first.\<close>

record peer_request =
  pq_Path :: string
  pq_ClusterID :: string

definition route :: "string \<Rightarrow> (string \<Rightarrow> 64 word outcome) \<Rightarrow> 'h listener \<Rightarrow> peer_request \<Rightarrow> 'h outcome" where
  "route ProbingPrefix etcd_IDFromString l r =
     (if pq_Path r = ProbingPrefix
      then case ln_handlers l of
             (_, h) # _ \<Rightarrow> Ok h
           | [] \<Rightarrow> Err (NewError ''no Raft group is registered'')
      else case etcd_IDFromString (pq_ClusterID r) of
             Err e \<Rightarrow> Err (NewError ''cluster ID mismatch'')
           | Panic \<Rightarrow> Panic
           | Ok clusterID \<Rightarrow>
               (case map_of (ln_handlers l) clusterID of
                  None \<Rightarrow> Err (NewError ''cluster ID mismatch'')
                | Some h \<Rightarrow> Ok h))"

text \<open>\<open>ServeHTTP\<close>: status 412, or what the handler answers.\<close>

definition listener_ServeHTTP ::
    "string \<Rightarrow> (string \<Rightarrow> 64 word outcome) \<Rightarrow> (peer_request \<Rightarrow> nat) listener \<Rightarrow> peer_request \<Rightarrow> nat outcome" where
  "listener_ServeHTTP ProbingPrefix etcd_IDFromString l r =
     (case route ProbingPrefix etcd_IDFromString l r of
        Ok handler \<Rightarrow> Ok (handler r)
      | Err e \<Rightarrow> Ok 412
      | Panic \<Rightarrow> Panic)"

section \<open>A request reaches its group\<close>

text \<open>The groups of a process are created one after the other.\<close>

fun register_groups :: "(string \<Rightarrow> 64 word) \<Rightarrow> (string \<Rightarrow> 'h) \<Rightarrow> string list \<Rightarrow> ('h raftListener, unit) op" where
  "register_groups group_id handler [] = ret ()"
| "register_groups group_id handler (g # gs) =
     bindE (register_transport (group_id g) (handler g)) (\<lambda>_. register_groups group_id handler gs)"

lemma register_groups_run:
  assumes "distinct (map group_id gs)" and "\<And>g. g \<in> set gs \<Longrightarrow> map_of (ln_handlers l) (group_id g) = None"
  shows "\<exists>l'. register_groups group_id handler gs (Some l) = (Ok (), Some l') \<and>
    map_of (ln_handlers l') = map_of (ln_handlers l) ++ map_of (map (\<lambda>g. (group_id g, handler g)) gs)"
  using assms
proof (induction gs arbitrary: l)
  case (Cons g gs)
  define l1 where "l1 = l\<lparr>ln_handlers := AList.update (group_id g) (handler g) (ln_handlers l)\<rparr>"
  have one: "register_transport (group_id g) (handler g) (Some l) = (Ok (), Some l1)"
    using Cons.prems(2) [of g] by (simp add: register_transport_def getListener_def listener_register_def l1_def)
  have m1: "map_of (ln_handlers l1) = (map_of (ln_handlers l))(group_id g \<mapsto> handler g)" by (simp add: l1_def map_of_update)
  have "\<exists>l'. register_groups group_id handler gs (Some l1) = (Ok (), Some l') \<and>
      map_of (ln_handlers l') = map_of (ln_handlers l1) ++ map_of (map (\<lambda>g. (group_id g, handler g)) gs)"
  proof (rule Cons.IH)
    show "map_of (ln_handlers l1) (group_id g') = None" if "g' \<in> set gs" for g'
    proof -
      have "group_id g' \<noteq> group_id g" using Cons.prems(1) that by (simp, metis image_eqI)
      then show ?thesis using Cons.prems(2) [of g'] that by (simp add: m1)
    qed
  qed (use Cons.prems in simp)
  moreover have "group_id g \<notin> dom (map_of (map (\<lambda>g. (group_id g, handler g)) gs))"
    using Cons.prems(1) by (auto simp: dom_map_of_conv_image_fst)
  then have "map_of (ln_handlers l1) ++ map_of (map (\<lambda>g. (group_id g, handler g)) gs) =
      map_of (ln_handlers l) ++ map_of (map (\<lambda>g. (group_id g, handler g)) (g # gs))"
    by (auto simp: m1 map_add_def fun_eq_iff dom_def split: option.splits)
  ultimately show ?case using one by (auto simp: bindE_def simp del: list.map)
qed simp

lemma groups_routed:
  assumes "distinct gs" and "set gs \<subseteq> {''aux'', ''rid'', ''scd''}"
    and p: "\<forall>g \<in> set gs. GetConnectParameters join F g = Ok (P g)"
    and "pq_Path r \<noteq> ProbingPrefix" and i: "etcd_IDFromString (pq_ClusterID r) = Ok i"
  shows "\<exists>l. register_groups (\<lambda>g. cp_GroupClusterID (P g)) handler gs (Some \<lparr>ln_handlers = []\<rparr>) = (Ok (), Some l) \<and>
    (\<forall>h. route ProbingPrefix etcd_IDFromString l r = Ok h \<longleftrightarrow> (\<exists>g \<in> set gs. i = cp_GroupClusterID (P g) \<and> h = handler g))"
proof -
  let ?id = "\<lambda>g. cp_GroupClusterID (P g)"
  have apart: "?id g = ?id g' \<longleftrightarrow> g = g'" if "g \<in> set gs" "g' \<in> set gs" for g g'
  proof -
    have ok: "groupClusterID (cp_ClusterID F) x = Ok (?id x)" if "x \<in> set gs" for x
      using GetConnectParameters_group [of join F x "P x"] p that by simp
    have "g \<noteq> g' \<Longrightarrow> groupClusterID (cp_ClusterID F) g \<noteq> groupClusterID (cp_ClusterID F) g'"
      using assms(2) that by (intro groupClusterID_apart) auto
    then show ?thesis using ok [OF that(1)] ok [OF that(2)] by auto
  qed
  have d: "distinct (map ?id gs)" using assms(1) apart by (auto simp: distinct_map inj_on_def)
  from register_groups_run [OF d, of "\<lparr>ln_handlers = []\<rparr>" handler] obtain l where
    l: "register_groups ?id handler gs (Some \<lparr>ln_handlers = []\<rparr>) = (Ok (), Some l)"
      "map_of (ln_handlers l) = map_of (map (\<lambda>g. (?id g, handler g)) gs)" by auto
  have "map_of (map (\<lambda>g. (?id g, handler g)) gs) i = Some h \<longleftrightarrow> (\<exists>g \<in> set gs. i = ?id g \<and> h = handler g)" for h
    using d by (subst map_of_eq_Some_iff) (auto simp: comp_def)
  moreover have "route ProbingPrefix etcd_IDFromString l r = Ok h \<longleftrightarrow> map_of (map (\<lambda>g. (?id g, handler g)) gs) i = Some h" for h
    using l(2) assms(4) i by (simp add: route_def split: option.splits)
  ultimately show ?thesis using l(1) by blast
qed

text \<open>C38: isolation of the groups. Whatever the ID of the cluster, the groups of a process (aux, rid, scd) get different
  IDs, so that all of them can be registered on the one listener, in any order; and a request that is
  not a probe is handed to a group exactly if it carries the ID of that group. A message of one
  group can never be applied by another.\<close>

theorem raft_groups_routed:
  assumes "distinct gs" and "set gs \<subseteq> {''aux'', ''rid'', ''scd''}"
    and "\<forall>g \<in> set gs. GetConnectParameters join F g = Ok (P g)"
    and "pq_Path r \<noteq> ProbingPrefix" and "etcd_IDFromString (pq_ClusterID r) = Ok i"
  shows "\<exists>l. register_groups (\<lambda>g. cp_GroupClusterID (P g)) handler gs (Some \<lparr>ln_handlers = []\<rparr>) = (Ok (), Some l) \<and>
    (\<forall>h. route ProbingPrefix etcd_IDFromString l r = Ok h \<longleftrightarrow> (\<exists>g \<in> set gs. i = cp_GroupClusterID (P g) \<and> h = handler g))"
  using assms by (rule groups_routed)

definition demo_group :: "string \<Rightarrow> ConnectParameters" where
  "demo_group g = demo_flags\<lparr>cp_DataDir := ''raft_data/'' @ g, cp_GroupClusterID := fnv64a (''1/'' @ g)\<rparr>"

theorem raft_groups_routed_witness:
  "\<exists>l. register_groups (\<lambda>g. cp_GroupClusterID (demo_group g)) id [''scd'', ''rid'', ''aux''] (Some \<lparr>ln_handlers = []\<rparr>) = (Ok (), Some l) \<and>
     route ''/raft/probing'' (\<lambda>_. Ok (cp_GroupClusterID (demo_group ''rid''))) l \<lparr>pq_Path = ''/raft'', pq_ClusterID = ''f''\<rparr> = Ok ''rid''"
proof -
  have "decimal (unat (1 :: 64 word)) = ''1''" by code_simp
  then have "\<forall>g \<in> set [''scd'', ''rid'', ''aux'']. GetConnectParameters (\<lambda>a b. a @ ''/'' @ b) demo_flags g = Ok (demo_group g)"
    by (simp add: GetConnectParameters_def demo_flags_def demo_group_def groupClusterID_def Let_def)
  from raft_groups_routed [OF _ _ this, of "\<lparr>pq_Path = ''/raft'', pq_ClusterID = ''f''\<rparr>" "''/raft/probing''"
      "\<lambda>_. Ok (cp_GroupClusterID (demo_group ''rid''))" _ id] show ?thesis by fastforce
qed

section \<open>Certificates\<close>

text \<open>What is used of \<open>crypto/tls\<close> (the end of the validity of the leaf of a key pair), of files, of
  \<open>encoding/pem\<close> (the next block and the rest of the input) and of \<open>crypto/x509\<close>.\<close>

record ('b, 'x) tls_lib =
  tl_LoadX509KeyPair :: "string \<Rightarrow> string \<Rightarrow> time outcome"
  tl_ReadFile :: "string \<Rightarrow> string outcome"
  tl_Decode :: "string \<Rightarrow> ('b \<times> string) option"
  tl_ParseCertificate :: "'b \<Rightarrow> 'x outcome"
  tl_NotAfter :: "'x \<Rightarrow> time"

record TLSInfo =
  ti_CertFile :: string
  ti_KeyFile :: string
  ti_TrustedCAFile :: string
  ti_ClientCertAuth :: bool
  ti_SkipClientSANVerify :: bool

text \<open>\<open>NewTLSInfo\<close>; \<open>TLSInfo.Empty\<close> of the library asks whether both files are not set.\<close>

definition NewTLSInfo :: "ConnectParameters \<Rightarrow> TLSInfo" where
  "NewTLSInfo p =
     (if \<not> TLSEnabled p
      then \<lparr>ti_CertFile = '''', ti_KeyFile = '''', ti_TrustedCAFile = '''', ti_ClientCertAuth = False, ti_SkipClientSANVerify = False\<rparr>
      else \<lparr>ti_CertFile = cp_TLSCertFile p, ti_KeyFile = cp_TLSKeyFile p, ti_TrustedCAFile = cp_TLSCAFile p,
            ti_ClientCertAuth = True, ti_SkipClientSANVerify = True\<rparr>)"

text \<open>The loop of \<open>readCertificates\<close>; \<open>None\<close> when it does not end.\<close>

partial_function (option) read_blocks :: "('b, 'x) tls_lib \<Rightarrow> string \<Rightarrow> 'x list \<Rightarrow> 'x list outcome option" where
  "read_blocks T data certs =
     (case tl_Decode T data of
        None \<Rightarrow> Some (Ok certs)
      | Some (block, rest) \<Rightarrow>
          (case tl_ParseCertificate T block of
             Ok cert \<Rightarrow> read_blocks T rest (certs @ [cert])
           | Err e \<Rightarrow> Some (Err e)
           | Panic \<Rightarrow> Some Panic))"

definition readCertificates :: "('b, 'x) tls_lib \<Rightarrow> string \<Rightarrow> 'x list outcome option" where
  "readCertificates T file =
     (case tl_ReadFile T file of
        Ok data \<Rightarrow> read_blocks T data []
      | Err e \<Rightarrow> Some (Err e)
      | Panic \<Rightarrow> Some Panic)"

definition checkCertificates :: "('b, 'x) tls_lib \<Rightarrow> time \<Rightarrow> TLSInfo \<Rightarrow> unit outcome option" where
  "checkCertificates T now tlsInfo =
     (case tl_LoadX509KeyPair T (ti_CertFile tlsInfo) (ti_KeyFile tlsInfo) of
        Err e \<Rightarrow> Some (Err e)
      | Panic \<Rightarrow> Some Panic
      | Ok notAfter \<Rightarrow>
          if now > notAfter then Some (Err (NewError ''the certificate of this node expired''))
          else map_option (\<lambda>x. obind x (\<lambda>cas.
                 let unexpired = length (filter (\<lambda>ca. \<not> now > tl_NotAfter T ca) cas) in
                 if unexpired = 0 then Err (NewError ''no CA that has not expired'') else Ok ()))
               (readCertificates T (ti_TrustedCAFile tlsInfo)))"

text \<open>\<open>newListener\<close>; \<open>isEmpty\<close> is \<open>TLSInfo.Empty\<close> of the library, and \<open>listen\<close> opens the socket.\<close>

definition newListener ::
    "(TLSInfo \<Rightarrow> bool) \<Rightarrow> (string \<Rightarrow> TLSInfo \<Rightarrow> unit outcome) \<Rightarrow> ('b, 'x) tls_lib \<Rightarrow> time \<Rightarrow> string \<Rightarrow> TLSInfo \<Rightarrow>
     unit outcome option" where
  "newListener isEmpty listen T now addr tlsInfo =
     (if isEmpty tlsInfo then Some (listen addr tlsInfo)
      else map_option (\<lambda>x. obind x (\<lambda>_. listen addr tlsInfo)) (checkCertificates T now tlsInfo))"

text \<open>\<open>StartListener\<close> of \<open>src/pkg/raftstore/store.go\<close>: the listener is started at the port of this node's URL.\<close>

definition raft_listen_address ::
    "(string \<Rightarrow> string \<Rightarrow> string) \<Rightarrow> 'u url_lib \<Rightarrow> ConnectParameters \<Rightarrow> (string \<times> TLSInfo) outcome" where
  "raft_listen_address join U F =
     obind (GetConnectParameters join F '''') (\<lambda>params.
     obind (PeerMap U params) (\<lambda>peers.
     case map_of peers (cp_NodeID params) of
       None \<Rightarrow> Err (NewError ''node ID not found in peers map'')
     | Some nodeURL \<Rightarrow> Ok ('':'' @ ul_Port U nodeURL, NewTLSInfo params)))"

text \<open>The certificates of PEM data: every block up to the end parses.\<close>

inductive pem_certificates :: "('b, 'x) tls_lib \<Rightarrow> string \<Rightarrow> 'x list \<Rightarrow> bool" for T where
  none: "tl_Decode T data = None \<Longrightarrow> pem_certificates T data []"
| block: "tl_Decode T data = Some (b, rest) \<Longrightarrow> tl_ParseCertificate T b = Ok c \<Longrightarrow> pem_certificates T rest cs \<Longrightarrow>
    pem_certificates T data (c # cs)"

inductive_cases pem_certificatesE: "pem_certificates T data cs"

text \<open>A block that is found is taken off the input.\<close>

definition pem_consumes :: "('b, 'x) tls_lib \<Rightarrow> bool" where
  "pem_consumes T \<longleftrightarrow> (\<forall>data b rest. tl_Decode T data = Some (b, rest) \<longrightarrow> length rest < length data)"

lemma read_blocks_ends:
  assumes "pem_consumes T" and parse: "\<And>b. tl_ParseCertificate T b \<noteq> Panic"
  shows "\<exists>x. read_blocks T data acc = Some x \<and> x \<noteq> Panic \<and> (\<forall>cs. x = Ok cs \<longleftrightarrow> (\<exists>ds. pem_certificates T data ds \<and> cs = acc @ ds))"
proof (induction "length data" arbitrary: data acc rule: less_induct)
  case less
  show ?case
  proof (cases "tl_Decode T data")
    case None
    then show ?thesis
      by (subst read_blocks.simps) (auto intro: pem_certificates.none elim: pem_certificatesE)
  next
    case (Some br)
    obtain b rest where br: "br = (b, rest)" by fastforce
    with Some assms(1) have len: "length rest < length data" unfolding pem_consumes_def by blast
    have split: "pem_certificates T data ds \<longleftrightarrow> (\<exists>c cs. ds = c # cs \<and> tl_ParseCertificate T b = Ok c \<and> pem_certificates T rest cs)" for ds
      using Some br by (auto intro: pem_certificates.block elim: pem_certificatesE)
    show ?thesis
    proof (cases "tl_ParseCertificate T b")
      case (Ok c)
      from less [OF len, of "acc @ [c]"] obtain x where x: "read_blocks T rest (acc @ [c]) = Some x" "x \<noteq> Panic"
          "\<forall>cs. x = Ok cs \<longleftrightarrow> (\<exists>ds. pem_certificates T rest ds \<and> cs = (acc @ [c]) @ ds)" by blast
      moreover have "read_blocks T data acc = read_blocks T rest (acc @ [c])"
        by (subst read_blocks.simps) (simp add: Some br Ok)
      ultimately show ?thesis using Ok by (auto simp: split)
    next
      case (Err e)
      then show ?thesis by (subst read_blocks.simps) (simp add: Some br split)
    qed (use parse in simp)
  qed
qed

text \<open>C39: the check of the certificates at the start of the listener ends for every file, and it succeeds exactly when
  the key pair of the node can be loaded and has not expired, the file with the authorities can be read and every
  block in it is a certificate, and at least one of these has not expired.\<close>

theorem checkCertificates_ends:
  assumes "pem_consumes T" and "\<forall>b. tl_ParseCertificate T b \<noteq> Panic" and "\<forall>f. tl_ReadFile T f \<noteq> Panic"
    and "\<forall>f g. tl_LoadX509KeyPair T f g \<noteq> Panic"
  shows "\<exists>x. checkCertificates T now i = Some x \<and> x \<noteq> Panic \<and>
    (x = Ok () \<longleftrightarrow> (\<exists>notAfter data cas. tl_LoadX509KeyPair T (ti_CertFile i) (ti_KeyFile i) = Ok notAfter \<and> now \<le> notAfter \<and>
       tl_ReadFile T (ti_TrustedCAFile i) = Ok data \<and> pem_certificates T data cas \<and> (\<exists>ca \<in> set cas. now \<le> tl_NotAfter T ca)))"
proof -
  obtain y where y: "readCertificates T (ti_TrustedCAFile i) = Some y" "y \<noteq> Panic"
      "\<forall>cas. y = Ok cas \<longleftrightarrow> (\<exists>data. tl_ReadFile T (ti_TrustedCAFile i) = Ok data \<and> pem_certificates T data cas)"
  proof (cases "tl_ReadFile T (ti_TrustedCAFile i)")
    case (Ok data)
    with read_blocks_ends [OF assms(1), of data "[]"] assms(2) that show thesis by (auto simp: readCertificates_def)
  qed (use that assms(3) in \<open>auto simp: readCertificates_def\<close>)
  have nz: "filter (\<lambda>ca. \<not> tl_NotAfter T ca < now) cas = [] \<longleftrightarrow> \<not> (\<exists>ca \<in> set cas. now \<le> tl_NotAfter T ca)" for cas
    by (auto simp: filter_empty_conv not_less)
  show ?thesis
  proof (cases "tl_LoadX509KeyPair T (ti_CertFile i) (ti_KeyFile i)")
    case (Ok notAfter)
    show ?thesis
    proof (cases "now > notAfter")
      case False
      define x where "x = obind y (\<lambda>cas. if length (filter (\<lambda>ca. \<not> tl_NotAfter T ca < now) cas) = 0
        then Err (NewError ''no CA that has not expired'') else Ok ())"
      have "checkCertificates T now i = Some x" using Ok False y(1) by (simp add: checkCertificates_def x_def Let_def)
      moreover have "x \<noteq> Panic" using y(2) by (cases y) (simp_all add: x_def)
      moreover have "x = Ok () \<longleftrightarrow> (\<exists>cas. y = Ok cas \<and> (\<exists>ca \<in> set cas. now \<le> tl_NotAfter T ca))"
        unfolding x_def by (cases y) (simp_all add: nz)
      ultimately show ?thesis using Ok False y(3) by auto
    qed (use Ok in \<open>simp add: checkCertificates_def\<close>)
  qed (use assms(4) in \<open>auto simp: checkCertificates_def\<close>)
qed

text \<open>A library whose blocks are single characters, with certificates that expire at the code of their character.\<close>

definition demo_tls :: "(char, char) tls_lib" where
  "demo_tls = \<lparr>tl_LoadX509KeyPair = (\<lambda>_ _. Ok 100), tl_ReadFile = (\<lambda>f. Ok ''aZ''),
     tl_Decode = (\<lambda>s. case s of [] \<Rightarrow> None | c # cs \<Rightarrow> Some (c, cs)), tl_ParseCertificate = Ok, tl_NotAfter = of_char\<rparr>"

theorem checkCertificates_ends_witness: "checkCertificates demo_tls 95 (NewTLSInfo demo_flags) = Some (Ok ())"
proof -
  have p: "pem_consumes demo_tls" by (auto simp: pem_consumes_def demo_tls_def split: list.splits)
  have "pem_certificates demo_tls ''aZ'' ''aZ''"
    by (rule pem_certificates.intros; (simp add: demo_tls_def)?)+
  moreover have "(95 :: int) \<le> of_char (CHR ''a'')" by simp
  ultimately have "\<exists>ca \<in> set ''aZ''. (95 :: time) \<le> tl_NotAfter demo_tls ca" "tl_ReadFile demo_tls f = Ok ''aZ''" for f
    by (simp_all add: demo_tls_def)
  with checkCertificates_ends [OF p, of 95 "NewTLSInfo demo_flags"] \<open>pem_certificates demo_tls ''aZ'' ''aZ''\<close> show ?thesis
    by (auto simp: demo_tls_def)
qed

end
