(* ===== verification/Consensus_Storage.thy ===== *)
theory Consensus_Storage
  imports Consensus_Node
begin

text \<open>
  The storage of a Raft node, \<open>src/pkg/raftstore/consensus/storage.go\<close>: the write-ahead log, the snapshot files and the
  log in memory, how a node writes them and how it loads them when it starts. The log, the files and the memory
  are those of the libraries of etcd and are parameters; \<open>disk_laws\<close> states what is used of their documented
  behaviour. A call may fail, and the node may stop, at any point: what was written by then stays.

  It shows that a snapshot is marked in the log only after its file is complete, so that a node always
  restarts from the newest snapshot that its log marks, and that what is dropped from the memory is covered
  by a saved snapshot.
\<close>

section \<open>The libraries\<close>

record HardState =
  hs_Term :: "64 word"
  hs_Vote :: "64 word"
  hs_Commit :: "64 word"

record ('d, 'c) raft_Snapshot =
  ss_Index :: "64 word"
  ss_Term :: "64 word"
  ss_ConfState :: 'c
  ss_Data :: "'d option"

definition IsEmptySnap :: "('d, 'c) raft_Snapshot \<Rightarrow> bool" where
  "IsEmptySnap s \<longleftrightarrow> ss_Index s = 0"

text \<open>A mark of a snapshot in the log: its index and its term.\<close>

type_synonym mark = "64 word \<times> 64 word"

abbreviation mark_of :: "('d, 'c) raft_Snapshot \<Rightarrow> mark" where
  "mark_of s \<equiv> (ss_Index s, ss_Term s)"

text \<open>\<open>wal\<close> and \<open>snap\<close>; \<open>dl_LoadNewestAvailable\<close> gives \<open>None\<close> for \<open>snap.ErrNoSnapshot\<close>, and \<open>dl_ReadAll\<close> opens the log at a
  mark and reads it.\<close>

record ('k, 'd, 'c) disk_lib =
  dl_Exist :: "'k \<Rightarrow> bool"
  dl_Create :: "('k, unit) op"
  dl_ValidSnapshotEntries :: "'k \<Rightarrow> mark list outcome"
  dl_LoadNewestAvailable :: "mark list \<Rightarrow> 'k \<Rightarrow> ('d, 'c) raft_Snapshot option outcome"
  dl_ReadAll :: "mark \<Rightarrow> 'k \<Rightarrow> (HardState \<times> Entry list) outcome"
  dl_SaveSnap :: "('d, 'c) raft_Snapshot \<Rightarrow> ('k, unit) op"
  dl_SaveSnapshot :: "mark \<Rightarrow> ('k, unit) op"
  dl_Save :: "HardState \<Rightarrow> Entry list \<Rightarrow> ('k, unit) op"
  dl_ReleaseLockTo :: "64 word \<Rightarrow> ('k, unit) op"

text \<open>\<open>raft.MemoryStorage\<close>\<close>

record ('m, 'd, 'c) memory_lib =
  ml_new :: 'm
  ml_ApplySnapshot :: "('d, 'c) raft_Snapshot \<Rightarrow> ('m, unit) op"
  ml_SetHardState :: "HardState \<Rightarrow> ('m, unit) op"
  ml_Append :: "Entry list \<Rightarrow> ('m, unit) op"
  ml_CreateSnapshot :: "64 word \<Rightarrow> 'c \<Rightarrow> 'd \<Rightarrow> ('m, ('d, 'c) raft_Snapshot) op"
  ml_Compact :: "64 word \<Rightarrow> ('m, unit) op"
  ml_isErrCompacted :: "dss_error \<Rightarrow> bool"

record ('k, 'm) storage =
  sg_disk :: 'k
  sg_mem :: 'm
  sg_snapshotCatchUpEntries :: "64 word"

definition on_disk :: "('k, 'x) op \<Rightarrow> (('k, 'm) storage, 'x) op" where
  "on_disk m s = (case m (sg_disk s) of (x, k) \<Rightarrow> (x, s\<lparr>sg_disk := k\<rparr>))"

definition on_mem :: "('m, 'x) op \<Rightarrow> (('k, 'm) storage, 'x) op" where
  "on_mem m s = (case m (sg_mem s) of (x, k) \<Rightarrow> (x, s\<lparr>sg_mem := k\<rparr>))"

section \<open>Operations\<close>

definition storage_save :: "('k, 'd, 'c) disk_lib \<Rightarrow> ('d, 'c) raft_Snapshot \<Rightarrow> (('k, 'm) storage, unit) op" where
  "storage_save D snap =
     bindE (on_disk (dl_SaveSnap D snap)) (\<lambda>_.
     bindE (on_disk (dl_SaveSnapshot D (mark_of snap))) (\<lambda>_.
     on_disk (dl_ReleaseLockTo D (ss_Index snap))))"

definition compactLog :: "('m, 'd, 'c) memory_lib \<Rightarrow> 64 word \<Rightarrow> (('k, 'm) storage, unit) op" where
  "compactLog M compactIndex s =
     (case on_mem (ml_Compact M compactIndex) s of
        (Err e, s') \<Rightarrow> if ml_isErrCompacted M e then (Ok (), s') else (Err e, s')
      | (x, s') \<Rightarrow> (x, s'))"

definition compact_index :: "64 word \<Rightarrow> 64 word \<Rightarrow> 64 word" where
  "compact_index appliedIndex snapshotCatchUpEntries =
     (if appliedIndex > snapshotCatchUpEntries then appliedIndex - snapshotCatchUpEntries else 1)"

definition triggerSnapshot ::
    "('k, 'd, 'c) disk_lib \<Rightarrow> ('m, 'd, 'c) memory_lib \<Rightarrow> 64 word \<Rightarrow> 'c \<Rightarrow> 'd \<Rightarrow> (('k, 'm) storage, unit) op" where
  "triggerSnapshot D M appliedIndex confState data =
     bindE (on_mem (ml_CreateSnapshot M appliedIndex confState data)) (\<lambda>snap.
     bindE (storage_save D snap) (\<lambda>_.
     bindE (reads (\<lambda>s. Ok (sg_snapshotCatchUpEntries s))) (\<lambda>catchUp.
     compactLog M (compact_index appliedIndex catchUp))))"

definition handleReceivedState ::
    "('k, 'd, 'c) disk_lib \<Rightarrow> ('m, 'd, 'c) memory_lib \<Rightarrow> ('d, 'c) raft_Snapshot \<Rightarrow> HardState \<Rightarrow> Entry list \<Rightarrow>
     (('k, 'm) storage, unit) op" where
  "handleReceivedState D M snapshot hardState entries =
     bindE (if \<not> IsEmptySnap snapshot then storage_save D snapshot else ret ()) (\<lambda>_.
     bindE (on_disk (dl_Save D hardState entries)) (\<lambda>_.
     bindE (if \<not> IsEmptySnap snapshot then on_mem (ml_ApplySnapshot M snapshot) else ret ()) (\<lambda>_.
     on_mem (ml_Append M entries))))"

text \<open>The empty snapshot has the zero configuration, which \<open>noConf\<close> stands for.\<close>

definition empty_snapshot :: "'c \<Rightarrow> ('d, 'c) raft_Snapshot" where
  "empty_snapshot noConf = \<lparr>ss_Index = 0, ss_Term = 0, ss_ConfState = noConf, ss_Data = None\<rparr>"

definition loadSnapshot :: "('k, 'd, 'c) disk_lib \<Rightarrow> 'c \<Rightarrow> 'k \<Rightarrow> ('d, 'c) raft_Snapshot outcome" where
  "loadSnapshot D noConf k =
     obind (dl_ValidSnapshotEntries D k) (\<lambda>entries.
     obind (dl_LoadNewestAvailable D entries k) (\<lambda>found.
     Ok (case found of None \<Rightarrow> empty_snapshot noConf | Some snap \<Rightarrow> snap)))"

text \<open>\<open>newStorage\<close>, from the disk it finds; the directories are made when they are missing. The boolean says
  whether the log existed.\<close>

definition load_memory :: "('m, 'd, 'c) memory_lib \<Rightarrow> ('d, 'c) raft_Snapshot \<Rightarrow> HardState \<Rightarrow> Entry list \<Rightarrow> ('m, unit) op" where
  "load_memory M snap state entries =
     bindE (if \<not> IsEmptySnap snap then ml_ApplySnapshot M snap else ret ()) (\<lambda>_.
     bindE (ml_SetHardState M state) (\<lambda>_. ml_Append M entries))"

definition newStorage ::
    "('k, 'd, 'c) disk_lib \<Rightarrow> ('m, 'd, 'c) memory_lib \<Rightarrow> 'c \<Rightarrow> 64 word \<Rightarrow> ('k, ('k, 'm) storage \<times> bool) op" where
  "newStorage D M noConf catchUp k =
     (let ok = dl_Exist D k in
      bindE (if \<not> ok then bindE (dl_Create D) (\<lambda>_. ret (empty_snapshot noConf)) else reads (loadSnapshot D noConf)) (\<lambda>snap.
      bindE (reads (dl_ReadAll D (mark_of snap))) (\<lambda>(state, entries) k.
      case load_memory M snap state entries (ml_new M) of
        (Ok _, m) \<Rightarrow> (Ok (\<lparr>sg_disk = k, sg_mem = m, sg_snapshotCatchUpEntries = catchUp\<rparr>, ok), k)
      | (Err e, m) \<Rightarrow> (Err e, k)
      | (Panic, m) \<Rightarrow> (Panic, k))) k)"

section \<open>What is used of the libraries\<close>

text \<open>\<open>marks\<close> are the marks of snapshots in the log and \<open>files\<close> the snapshots in files. Saving a file or a mark
  adds it, when it succeeds, and adds it or nothing otherwise; writing state and entries and releasing
  locks change neither; a new log has the mark of the empty snapshot; the valid marks are among
  the marks; and the newest snapshot that is available is the one with the greatest index among those with one of
  the given marks.\<close>

definition disk_laws :: "('k, 'd, 'c) disk_lib \<Rightarrow> ('k \<Rightarrow> mark list) \<Rightarrow> ('k \<Rightarrow> ('d, 'c) raft_Snapshot list) \<Rightarrow> bool" where
  "disk_laws D marks files \<longleftrightarrow>
     (\<forall>s k x k'. dl_SaveSnap D s k = (x, k') \<longrightarrow> marks k' = marks k \<and> (files k' = files k @ [s] \<or> x \<noteq> Ok () \<and> files k' = files k)) \<and>
     (\<forall>m k x k'. dl_SaveSnapshot D m k = (x, k') \<longrightarrow> files k' = files k \<and> (marks k' = marks k @ [m] \<or> x \<noteq> Ok () \<and> marks k' = marks k)) \<and>
     (\<forall>hs es k x k'. dl_Save D hs es k = (x, k') \<longrightarrow> marks k' = marks k \<and> files k' = files k) \<and>
     (\<forall>i k x k'. dl_ReleaseLockTo D i k = (x, k') \<longrightarrow> marks k' = marks k \<and> files k' = files k) \<and>
     (\<forall>k x k'. dl_Create D k = (x, k') \<longrightarrow> set (marks k') \<subseteq> insert (0, 0) (set (marks k)) \<and> files k' = files k) \<and>
     (\<forall>k ms. dl_ValidSnapshotEntries D k = Ok ms \<longrightarrow> set ms \<subseteq> set (marks k)) \<and>
     (\<forall>ms k s. dl_LoadNewestAvailable D ms k = Ok (Some s) \<longrightarrow> s \<in> set (files k) \<and>
        (\<forall>s' \<in> set (files k). mark_of s' \<in> set ms \<longrightarrow> ss_Index s' \<le> ss_Index s)) \<and>
     (\<forall>ms k. dl_LoadNewestAvailable D ms k = Ok None \<longrightarrow> (\<forall>s \<in> set (files k). mark_of s \<notin> set ms))"

text \<open>What a node does to its disk, whatever the outcome of a call: it opens the storage, saves what the
  Raft library reports and triggers snapshots; between two calls it may be stopped and started again.\<close>

inductive disk_reachable :: "('k, 'd, 'c) disk_lib \<Rightarrow> ('m, 'd, 'c) memory_lib \<Rightarrow> 'k \<Rightarrow> 'k \<Rightarrow> bool" for D M k0 where
  start: "disk_reachable D M k0 k0"
| opened: "disk_reachable D M k0 k \<Longrightarrow> newStorage D M noConf n k = (x, k') \<Longrightarrow> disk_reachable D M k0 k'"
| received: "disk_reachable D M k0 (sg_disk s) \<Longrightarrow> handleReceivedState D M snap hs es s = (x, s') \<Longrightarrow> disk_reachable D M k0 (sg_disk s')"
| triggered: "disk_reachable D M k0 (sg_disk s) \<Longrightarrow> triggerSnapshot D M i conf d s = (x, s') \<Longrightarrow> disk_reachable D M k0 (sg_disk s')"

section \<open>A mark is a promise\<close>

definition marks_saved :: "mark list \<Rightarrow> ('d, 'c) raft_Snapshot list \<Rightarrow> bool" where
  "marks_saved ms ss \<longleftrightarrow> (\<forall>m \<in> set ms. m = (0, 0) \<or> (\<exists>s \<in> set ss. mark_of s = m))"

lemma disk_laws_saveD:
  assumes "disk_laws D marks files"
  shows "dl_SaveSnap D s k = (x, k') \<Longrightarrow> marks k' = marks k \<and> (files k' = files k @ [s] \<or> x \<noteq> Ok () \<and> files k' = files k)"
    and "dl_SaveSnapshot D m k = (x, k') \<Longrightarrow> files k' = files k \<and> (marks k' = marks k @ [m] \<or> x \<noteq> Ok () \<and> marks k' = marks k)"
    and "dl_Save D hs es k = (x, k') \<Longrightarrow> marks k' = marks k \<and> files k' = files k"
    and "dl_ReleaseLockTo D i k = (x, k') \<Longrightarrow> marks k' = marks k \<and> files k' = files k"
    and "dl_Create D k = (x, k') \<Longrightarrow> set (marks k') \<subseteq> insert (0, 0) (set (marks k)) \<and> files k' = files k"
proof -
  note l = assms [unfolded disk_laws_def]
  show "dl_SaveSnap D s k = (x, k') \<Longrightarrow> marks k' = marks k \<and> (files k' = files k @ [s] \<or> x \<noteq> Ok () \<and> files k' = files k)"
    using l [THEN conjunct1] by simp
  show "dl_SaveSnapshot D m k = (x, k') \<Longrightarrow> files k' = files k \<and> (marks k' = marks k @ [m] \<or> x \<noteq> Ok () \<and> marks k' = marks k)"
    using l [THEN conjunct2, THEN conjunct1] by blast
  show "dl_Save D hs es k = (x, k') \<Longrightarrow> marks k' = marks k \<and> files k' = files k"
    using l [THEN conjunct2, THEN conjunct2, THEN conjunct1] by blast
  show "dl_ReleaseLockTo D i k = (x, k') \<Longrightarrow> marks k' = marks k \<and> files k' = files k"
    using l [THEN conjunct2, THEN conjunct2, THEN conjunct2, THEN conjunct1] by blast
  show "dl_Create D k = (x, k') \<Longrightarrow> set (marks k') \<subseteq> insert (0, 0) (set (marks k)) \<and> files k' = files k"
    using l [THEN conjunct2, THEN conjunct2, THEN conjunct2, THEN conjunct2, THEN conjunct1] by blast
qed

lemma marks_saved_append [simp]:
  "marks_saved (ms @ [m]) ss \<longleftrightarrow> marks_saved ms ss \<and> (m = (0, 0) \<or> (\<exists>s \<in> set ss. mark_of s = m))"
  by (auto simp: marks_saved_def)

text \<open>The invariant as a predicate of a storage; \<open>preserves\<close> speaks about every outcome of an operation.\<close>

definition disk_ok :: "('k \<Rightarrow> mark list) \<Rightarrow> ('k \<Rightarrow> ('d, 'c) raft_Snapshot list) \<Rightarrow> ('k, 'm) storage \<Rightarrow> bool" where
  "disk_ok marks files s \<longleftrightarrow> marks_saved (marks (sg_disk s)) (files (sg_disk s))"

lemma disk_ok_on_mem: "preserves (disk_ok marks files) (on_mem m)"
  by (auto simp: preserves_def disk_ok_def on_mem_def split: prod.splits)

lemma disk_ok_on_disk:
  assumes "\<And>k x k'. m k = (x, k') \<Longrightarrow> marks k' = marks k \<and> files k' = files k"
  shows "preserves (disk_ok marks files) (on_disk m)"
  using assms by (auto simp: preserves_def disk_ok_def on_disk_def split: prod.splits)

lemma disk_ok_save:
  assumes "disk_laws D marks files"
  shows "preserves (disk_ok marks files) (storage_save D snap)"
proof (rule preservesI)
  fix s x s'
  assume ok: "disk_ok marks files s" and run: "storage_save D snap s = (x, s')"
  obtain y k1 where k1: "dl_SaveSnap D snap (sg_disk s) = (y, k1)" by fastforce
  have l1: "marks k1 = marks (sg_disk s)" "set (files (sg_disk s)) \<subseteq> set (files k1)" "y = Ok () \<Longrightarrow> snap \<in> set (files k1)"
    using disk_laws_saveD(1) [OF assms k1] by auto
  then have ok1: "marks_saved (marks k1) (files k1)" using ok unfolding disk_ok_def marks_saved_def by fastforce
  show "disk_ok marks files s'"
  proof (cases "y = Ok ()")
    case False
    then have "sg_disk s' = k1" using run k1 by (cases y) (auto simp: storage_save_def on_disk_def bindE_def)
    with ok1 show ?thesis by (simp add: disk_ok_def)
  next
    case True
    obtain z k2 where k2: "dl_SaveSnapshot D (mark_of snap) k1 = (z, k2)" by fastforce
    have "marks_saved (marks k2) (files k2)"
      using disk_laws_saveD(2) [OF assms k2] ok1 l1(3) [OF True] by auto
    moreover have "sg_disk s' = k2 \<or> (\<exists>w. dl_ReleaseLockTo D (ss_Index snap) k2 = (w, sg_disk s'))"
      using run k1 k2 True by (cases z) (auto simp: storage_save_def on_disk_def bindE_def split: prod.splits)
    ultimately show ?thesis using disk_laws_saveD(4) [OF assms] by (auto simp: disk_ok_def)
  qed
qed

lemma disk_ok_operations:
  assumes "disk_laws D marks files"
  shows "preserves (disk_ok marks files) (handleReceivedState D M snap hs es)"
    and "preserves (disk_ok marks files) (triggerSnapshot D M i conf d)"
proof -
  have c: "preserves (disk_ok marks files) (compactLog M n)" for n
    using disk_ok_on_mem [of marks files "ml_Compact M n"]
    by (auto simp: preserves_def compactLog_def split: prod.splits outcome.splits if_splits)
  note rules = disk_ok_save [OF assms] disk_ok_on_mem disk_ok_on_disk disk_laws_saveD(3) [OF assms] c
  show "preserves (disk_ok marks files) (handleReceivedState D M snap hs es)"
    unfolding handleReceivedState_def by (intro pres_intros rules)
  show "preserves (disk_ok marks files) (triggerSnapshot D M i conf d)"
    unfolding triggerSnapshot_def by (intro pres_intros rules)
qed


lemma disk_ok_newStorage:
  assumes "disk_laws D marks files" "marks_saved (marks k) (files k)" "newStorage D M noConf n k = (x, k')"
  shows "marks_saved (marks k') (files k')"
proof -
  have "k' = k \<or> (\<exists>y. dl_Create D k = (y, k'))"
    using assms(3) by (auto simp: newStorage_def Let_def bindE_def split: prod.splits outcome.splits if_splits)
  then show ?thesis
  proof
    assume "\<exists>y. dl_Create D k = (y, k')"
    then obtain y where "dl_Create D k = (y, k')" by blast
    from disk_laws_saveD(5) [OF assms(1) this] assms(2) show ?thesis by (auto simp: marks_saved_def)
  qed (use assms(2) in simp)
qed

lemma disk_reachable_saved:
  assumes "disk_laws D marks files" "marks k0 = []" and "disk_reachable D M k0 k"
  shows "marks_saved (marks k) (files k)"
  using assms(3)
proof induction
  case start
  then show ?case by (simp add: marks_saved_def assms(2))
next
  case (opened k noConf n x k')
  then show ?case using disk_ok_newStorage [OF assms(1)] by blast
next
  case (received s snap hs es x s')
  then show ?case using preservesD [OF disk_ok_operations(1) [OF assms(1)] _ received.hyps(2)] by (simp add: disk_ok_def)
next
  case (triggered s i conf d x s')
  then show ?case using preservesD [OF disk_ok_operations(2) [OF assms(1)] _ triggered.hyps(2)] by (simp add: disk_ok_def)
qed

text \<open>C37: a restart loses no snapshot. Whatever a node has written to its disk since it was new, and wherever a
  call failed or the node was stopped, when it starts again it loads a snapshot that is at
  least as new as every valid mark in its log, and that was saved, or the empty one if no mark but the initial one is
  valid. So a snapshot whose log was truncated is always found again.\<close>

theorem restart_loads_newest:
  assumes "disk_laws D marks files" and "marks k0 = []" and "disk_reachable D M k0 k"
    and "dl_ValidSnapshotEntries D k = Ok ms" and "loadSnapshot D noConf k = Ok snap"
  shows "(\<forall>(i, t) \<in> set ms. i \<le> ss_Index snap) \<and> (snap \<in> set (files k) \<or> set ms \<subseteq> {(0, 0)} \<and> snap = empty_snapshot noConf)"
proof -
  have saved: "marks_saved (marks k) (files k)" by (rule disk_reachable_saved [OF assms(1-3)])
  have sub: "set ms \<subseteq> set (marks k)" using assms(1,4) by (auto simp: disk_laws_def)
  from assms(4,5) obtain found where f: "dl_LoadNewestAvailable D ms k = Ok found"
      "snap = (case found of None \<Rightarrow> empty_snapshot noConf | Some s \<Rightarrow> s)" by (auto simp: loadSnapshot_def monad_simps)
  show ?thesis
  proof (cases found)
    case None
    with f(1) assms(1) have "\<forall>s \<in> set (files k). mark_of s \<notin> set ms" by (auto simp: disk_laws_def)
    with saved sub have "set ms \<subseteq> {(0, 0)}" by (fastforce simp: marks_saved_def)
    with f(2) None show ?thesis by (auto simp: empty_snapshot_def)
  next
    case (Some s)
    with f(1) assms(1) have s: "s \<in> set (files k)" "\<forall>s' \<in> set (files k). mark_of s' \<in> set ms \<longrightarrow> ss_Index s' \<le> ss_Index s"
      unfolding disk_laws_def by blast+
    have "i \<le> ss_Index s" if "(i, t) \<in> set ms" for i t
    proof -
      from saved sub that have "(i, t) = (0, 0) \<or> (\<exists>s' \<in> set (files k). mark_of s' = (i, t))" unfolding marks_saved_def by blast
      with s(2) that show ?thesis by auto
    qed
    with f(2) Some s(1) show ?thesis by auto
  qed
qed

text \<open>What is dropped from the memory is covered by the snapshot, and as many entries as configured are kept for
  slow followers.\<close>

lemma compact_index_covered:
  assumes "1 \<le> appliedIndex"
  shows "1 \<le> compact_index appliedIndex n" "compact_index appliedIndex n \<le> appliedIndex"
    "appliedIndex - compact_index appliedIndex n \<le> n"
  using assms by (auto simp: compact_index_def word_le_nat_alt word_less_nat_alt unat_sub)

lemma triggerSnapshot_saved:
  assumes "disk_laws D marks files" and "triggerSnapshot D M i conf d s = (Ok (), s')"
  shows "\<exists>snap m. ml_CreateSnapshot M i conf d (sg_mem s) = (Ok snap, m) \<and> snap \<in> set (files (sg_disk s')) \<and>
    mark_of snap \<in> set (marks (sg_disk s'))"
proof -
  from assms(2) obtain snap s1 s2 s3 s4 n where r: "on_mem (ml_CreateSnapshot M i conf d) s = (Ok snap, s1)"
      "on_disk (dl_SaveSnap D snap) s1 = (Ok (), s2)" "on_disk (dl_SaveSnapshot D (mark_of snap)) s2 = (Ok (), s3)"
      "on_disk (dl_ReleaseLockTo D (ss_Index snap)) s3 = (Ok (), s4)" "compactLog M n s4 = (Ok (), s')"
    unfolding triggerSnapshot_def storage_save_def bindE_Ok by auto
  have c: "\<exists>m. ml_CreateSnapshot M i conf d (sg_mem s) = (Ok snap, m)" using r(1) by (auto simp: on_mem_def split: prod.splits)
  have "dl_SaveSnap D snap (sg_disk s1) = (Ok (), sg_disk s2)" "dl_SaveSnapshot D (mark_of snap) (sg_disk s2) = (Ok (), sg_disk s3)"
      "dl_ReleaseLockTo D (ss_Index snap) (sg_disk s3) = (Ok (), sg_disk s4)"
    using r(2-4) by (auto simp: on_disk_def split: prod.splits)
  note d = disk_laws_saveD(1) [OF assms(1) this(1)] disk_laws_saveD(2) [OF assms(1) this(2)] disk_laws_saveD(4) [OF assms(1) this(3)]
  have "sg_disk s' = sg_disk s4" using r(5) by (auto simp: compactLog_def on_mem_def split: prod.splits outcome.splits if_splits)
  with c d show ?thesis by auto
qed


section \<open>A disk\<close>

text \<open>A disk that is just its marks and files, on which nothing fails; all marks are valid.\<close>

type_synonym demo_disk = "mark list \<times> (nat, unit) raft_Snapshot list"

fun newest :: "mark list \<Rightarrow> (nat, unit) raft_Snapshot list \<Rightarrow> (nat, unit) raft_Snapshot option" where
  "newest ms [] = None"
| "newest ms (s # ss) =
     (case newest ms ss of
        None \<Rightarrow> if mark_of s \<in> set ms then Some s else None
      | Some t \<Rightarrow> if mark_of s \<in> set ms \<and> ss_Index s > ss_Index t then Some s else Some t)"

lemma newest_correct:
  "newest ms ss = Some s \<Longrightarrow> s \<in> set ss \<and> (\<forall>s' \<in> set ss. mark_of s' \<in> set ms \<longrightarrow> ss_Index s' \<le> ss_Index s)"
  "newest ms ss = None \<Longrightarrow> \<forall>s \<in> set ss. mark_of s \<notin> set ms"
  by (induction ss arbitrary: s) (fastforce split: option.splits if_splits)+

definition demo_disk_lib :: "(demo_disk, nat, unit) disk_lib" where
  "demo_disk_lib = \<lparr>dl_Exist = (\<lambda>k. fst k \<noteq> []), dl_Create = modifies (\<lambda>k. ([(0, 0)], snd k)), dl_ValidSnapshotEntries = (\<lambda>k. Ok (fst k)),
     dl_LoadNewestAvailable = (\<lambda>ms k. Ok (newest ms (snd k))), dl_ReadAll = (\<lambda>_ _. Ok (\<lparr>hs_Term = 0, hs_Vote = 0, hs_Commit = 0\<rparr>, [])),
     dl_SaveSnap = (\<lambda>s. modifies (\<lambda>k. (fst k, snd k @ [s]))), dl_SaveSnapshot = (\<lambda>m. modifies (\<lambda>k. (fst k @ [m], snd k))),
     dl_Save = (\<lambda>_ _. ret ()), dl_ReleaseLockTo = (\<lambda>_. ret ())\<rparr>"

lemma demo_disk_laws: "disk_laws demo_disk_lib fst snd"
  unfolding disk_laws_def demo_disk_lib_def using newest_correct by simp

definition demo_memory_lib :: "(nat, nat, unit) memory_lib" where
  "demo_memory_lib = \<lparr>ml_new = 0, ml_ApplySnapshot = (\<lambda>_. ret ()), ml_SetHardState = (\<lambda>_. ret ()), ml_Append = (\<lambda>_. ret ()),
     ml_CreateSnapshot = (\<lambda>i c d. ret \<lparr>ss_Index = i, ss_Term = 1, ss_ConfState = c, ss_Data = Some d\<rparr>),
     ml_Compact = (\<lambda>_. ret ()), ml_isErrCompacted = (\<lambda>_. False)\<rparr>"

text \<open>A node that opens a new storage, saves snapshots at the indices 5 and 9 and starts again.\<close>

theorem restart_loads_newest_witness:
  "\<exists>k snap. disk_reachable demo_disk_lib demo_memory_lib ([], []) k \<and> (9, 1) \<in> set (fst k) \<and>
     loadSnapshot demo_disk_lib () k = Ok snap \<and> 9 \<le> ss_Index snap"
proof -
  let ?s = "\<lambda>k. \<lparr>sg_disk = k, sg_mem = 0, sg_snapshotCatchUpEntries = 2\<rparr>"
  let ?snap = "\<lambda>i. \<lparr>ss_Index = i, ss_Term = 1, ss_ConfState = (), ss_Data = Some 7\<rparr>"
  let ?k1 = "([(0, 0)], [])" and ?k2 = "([(0, 0), (5, 1)], [?snap 5])" and ?k3 = "([(0, 0), (5, 1), (9, 1)], [?snap 5, ?snap 9])"
  have 1: "\<exists>x. newStorage demo_disk_lib demo_memory_lib () 2 ([], []) = (x, ?k1)"
    by (simp add: newStorage_def demo_disk_lib_def demo_memory_lib_def load_memory_def IsEmptySnap_def empty_snapshot_def bindE_def)
  have t: "triggerSnapshot demo_disk_lib demo_memory_lib i () 7 (?s (ms, ss)) = (Ok (), ?s (ms @ [(i, 1)], ss @ [?snap i]))" for i ms ss
    by (simp add: triggerSnapshot_def storage_save_def compactLog_def on_disk_def on_mem_def demo_disk_lib_def demo_memory_lib_def bindE_def)
  let ?R = "disk_reachable demo_disk_lib demo_memory_lib ([], [])"
  have r1: "?R ?k1" using 1 disk_reachable.start disk_reachable.opened by metis
  have step: "?R (ms @ [(i, 1)], ss @ [?snap i])" if "?R (ms, ss)" for i ms ss
    using disk_reachable.triggered [OF _ t [of i ms ss]] that by simp
  have r3: "?R ?k3" using step [OF step [OF r1, of 5], of 9] by simp
  have valid: "dl_ValidSnapshotEntries demo_disk_lib ?k3 = Ok (fst ?k3)" by (simp add: demo_disk_lib_def)
  have load: "loadSnapshot demo_disk_lib () ?k3 = Ok (?snap 9)" by (simp add: loadSnapshot_def demo_disk_lib_def)
  from restart_loads_newest [OF demo_disk_laws _ r3 valid load] r3 load show ?thesis by fastforce
qed

end
